(* ===== verification/Kof_Prelude.thy ===== *)
theory Kof_Prelude
  imports Main "HOL-Library.AList" "HOL-Library.Char_ord" "HOL-Library.List_Lexorder"
    "HOL-Library.Multiset" "HOL-Library.Sublist"
begin

text \<open>
  The shared base of the development: the pieces of Go that every component uses.

  \<^item> A Go \<open>string\<close> or \<open>[]byte\<close> is a \<^typ>\<open>string\<close>, a list of bytes; \<open>sort.Strings\<close>
    is \<open>sort\<close> in the bytewise lexicographic order of \<open>List_Lexorder\<close> and
    \<open>Char_ord\<close>.
  \<^item> A Go \<open>map[string]V\<close> is a \<open>'v gomap\<close>, an association list with distinct keys whose
    order is the order in which \<open>range\<close> happens to visit the map. Go leaves that order
    unspecified, so a statement about a loop over a map quantifies over every list that
    represents the map; \<open>same_map\<close> says that two lists represent the same one.
  \<^item> A function that returns \<open>(T, error)\<close> is a function into \<open>'e + 't\<close>.
  \<^item> The functions of the packages \<open>strings\<close>, \<open>strconv\<close>, \<open>encoding/hex\<close> the code
    calls are defined here, with the laws the components use.
\<close>

named_theorems go_defs \<open>definitions of the Go standard library\<close>
named_theorems gomap_simps \<open>rewrite rules for Go maps\<close>

section \<open>Maps\<close>

type_synonym 'v gomap = "(string \<times> 'v) list"

definition wf_map :: "('k \<times> 'v) list \<Rightarrow> bool" where
  "wf_map m \<longleftrightarrow> distinct (map fst m)"

definition same_map :: "('k \<times> 'v) list \<Rightarrow> ('k \<times> 'v) list \<Rightarrow> bool" where
  "same_map m n \<longleftrightarrow> wf_map m \<and> wf_map n \<and> map_of m = map_of n"

text \<open>\<open>m[k]\<close> on a map of strings: the zero value where the key is absent.\<close>

definition get_str :: "string gomap \<Rightarrow> string \<Rightarrow> string" where
  "get_str m k = (case map_of m k of None \<Rightarrow> [] | Some v \<Rightarrow> v)"

abbreviation map_set :: "'k \<Rightarrow> 'v \<Rightarrow> ('k \<times> 'v) list \<Rightarrow> ('k \<times> 'v) list" where
  "map_set \<equiv> AList.update"

text \<open>\<open>maps.Copy(dst, src)\<close>: every entry of \<open>src\<close> is set in \<open>dst\<close>.\<close>

definition map_copy :: "('k \<times> 'v) list \<Rightarrow> ('k \<times> 'v) list \<Rightarrow> ('k \<times> 'v) list" where
  "map_copy dst src = fold (\<lambda>(k, v) m. map_set k v m) src dst"

lemma wf_map_Nil [simp]: "wf_map []"
  by (simp add: wf_map_def)

lemma wf_map_Cons [simp]: "wf_map ((k, v) # m) \<longleftrightarrow> k \<notin> fst ` set m \<and> wf_map m"
  by (auto simp: wf_map_def)

lemma map_of_map_set [simp]: "map_of (map_set k v m) = (map_of m)(k \<mapsto> v)"
  by (rule update_conv')

lemma wf_map_set [simp]: "wf_map m \<Longrightarrow> wf_map (map_set k v m)"
  by (simp add: wf_map_def distinct_update)

lemma wf_map_mem: "wf_map m \<Longrightarrow> (k, v) \<in> set m \<longleftrightarrow> map_of m k = Some v"
  by (simp add: wf_map_def)

lemma fold_map_set_wf:
  "wf_map m \<Longrightarrow> wf_map (fold (\<lambda>(k, v) m. map_set k v m) xs m)"
  by (induction xs arbitrary: m) auto

lemma wf_map_copy [simp]: "wf_map dst \<Longrightarrow> wf_map (map_copy dst src)"
  by (simp add: map_copy_def fold_map_set_wf)

lemma map_of_map_copy [gomap_simps]:
  assumes "wf_map src"
  shows "map_of (map_copy dst src) = map_of dst ++ map_of src"
  using assms unfolding map_copy_def
proof (induction src arbitrary: dst)
  case Nil
  then show ?case by simp
next
  case (Cons kv src)
  obtain k v where kv: "kv = (k, v)" by (cases kv)
  have none: "map_of src k = None"
    using Cons.prems by (simp add: kv wf_map_def map_of_eq_None_iff)
  have "map_of (fold (\<lambda>(k, v) m. map_set k v m) src (map_set k v dst))
      = (map_of dst)(k \<mapsto> v) ++ map_of src"
    using Cons.IH [of "map_set k v dst"] Cons.prems by (simp add: kv fun_upd_def)
  with none show ?case
    by (auto simp: kv fun_eq_iff map_add_def split: option.splits)
qed

lemma same_map_refl: "wf_map m \<Longrightarrow> same_map m m"
  by (simp add: same_map_def)

lemma same_map_sym: "same_map m n \<Longrightarrow> same_map n m"
  by (simp add: same_map_def)

lemma same_map_set: "same_map m n \<Longrightarrow> set m = set n"
  by (auto simp: same_map_def wf_map_def map_of_inject_set)

lemma same_map_mset: "same_map m n \<Longrightarrow> mset m = mset n"
  using same_map_set [of m n]
  by (auto simp: same_map_def wf_map_def distinct_map set_eq_iff_mset_eq_distinct)

lemma same_map_length: "same_map m n \<Longrightarrow> length m = length n"
  by (metis same_map_mset size_mset)

lemma same_map_get_str: "same_map m n \<Longrightarrow> get_str m k = get_str n k"
  by (simp add: same_map_def get_str_def)

text \<open>\<open>maps.Equal\<close>, and the equality of maps that \<open>equality.Semantic.DeepEqual\<close> decides.\<close>

definition maps_Equal :: "('k \<times> 'v) list \<Rightarrow> ('k \<times> 'v) list \<Rightarrow> bool" where
  "maps_Equal m n \<longleftrightarrow> length m = length n \<and> (\<forall>(k, v) \<in> set m. map_of n k = Some v)"

lemma maps_Equal_same_map:
  assumes "wf_map m" "wf_map n"
  shows "maps_Equal m n \<longleftrightarrow> same_map m n"
proof
  assume "maps_Equal m n"
  then have len: "length m = length n" and sub: "set m \<subseteq> set n"
    by (auto simp: maps_Equal_def dest: map_of_SomeD)
  have "distinct m" "distinct n"
    using assms by (simp_all add: wf_map_def distinct_map)
  then have "card (set m) = card (set n)"
    using len by (simp add: distinct_card)
  with sub have "set m = set n" by (simp add: card_subset_eq)
  then show "same_map m n"
    using assms by (simp add: same_map_def wf_map_def map_of_inject_set)
next
  assume "same_map m n"
  then show "maps_Equal m n"
    using same_map_length [of m n] assms(1) wf_map_mem [of m]
    by (auto simp: maps_Equal_def same_map_def)
qed

lemma same_map_trans: "same_map a b \<Longrightarrow> same_map b c \<Longrightarrow> same_map a c"
  by (simp add: same_map_def)

lemma same_maps_Equal: "same_map m n \<Longrightarrow> maps_Equal m n"
  using maps_Equal_same_map same_map_def by blast

lemma maps_Equal_refl: "wf_map m \<Longrightarrow> maps_Equal m m"
  by (simp add: maps_Equal_same_map same_map_refl)

lemma wf_map_filter: "wf_map m \<Longrightarrow> wf_map (filter P m)"
  by (induction m) (auto simp: wf_map_def)

lemma map_of_filter_keys:
  "map_of (filter (\<lambda>(k, v). P k) m) k = (if P k then map_of m k else None)"
  by (induction m) auto

section \<open>Strings\<close>

text \<open>\<open>strings.Split(s, sep)\<close> for a separator of one byte: never empty.\<close>

fun split_on :: "char \<Rightarrow> string \<Rightarrow> string list" where
  "split_on c [] = [[]]"
| "split_on c (x # xs) =
     (if x = c then [] # split_on c xs
      else (case split_on c xs of [] \<Rightarrow> [[x]] | y # ys \<Rightarrow> (x # y) # ys))"

text \<open>\<open>strings.Join(parts, sep)\<close>.\<close>

fun join :: "string \<Rightarrow> string list \<Rightarrow> string" where
  "join sep [] = []"
| "join sep [x] = x"
| "join sep (x # y # ys) = x @ sep @ join sep (y # ys)"

lemma split_on_nonempty [simp]: "split_on c s \<noteq> []"
  by (cases s) (auto split: list.splits)

lemma split_on_no_sep: "part \<in> set (split_on c s) \<Longrightarrow> c \<notin> set part"
proof (induction s arbitrary: part)
  case Nil
  then show ?case by simp
next
  case (Cons x s)
  obtain y ys where sp: "split_on c s = y # ys"
    by (cases "split_on c s") auto
  show ?case
    using Cons.prems Cons.IH [of part] Cons.IH [of y]
    by (auto simp: sp split: if_splits)
qed

lemma join_split_on: "join [c] (split_on c s) = s"
proof (induction s)
  case Nil
  then show ?case by simp
next
  case (Cons x s)
  obtain y ys where sp: "split_on c s = y # ys"
    by (cases "split_on c s") auto
  then show ?case
    using Cons by (cases ys) auto
qed

lemma split_on_append:
  "c \<notin> set u \<Longrightarrow> split_on c (u @ c # s) = u # split_on c s"
  by (induction u) auto

lemma split_on_plain: "c \<notin> set u \<Longrightarrow> split_on c u = [u]"
  by (induction u) auto

lemma split_on_append_sep: "split_on c (u @ c # v) = split_on c u @ split_on c v"
  by (induction c u rule: split_on.induct) (auto split: list.splits)

lemma split_on_join:
  "\<lbrakk>parts \<noteq> []; \<forall>p \<in> set parts. c \<notin> set p\<rbrakk> \<Longrightarrow> split_on c (join [c] parts) = parts"
proof (induction "[c]" parts rule: join.induct)
  case 1
  then show ?case by simp
next
  case (2 x)
  then show ?case by (simp add: split_on_plain)
next
  case (3 x y ys)
  then show ?case by (simp add: split_on_append)
qed

text \<open>The prefix operations of package \<open>strings\<close>.\<close>

fun has_prefix :: "string \<Rightarrow> string \<Rightarrow> bool" where
  "has_prefix s [] = True"
| "has_prefix [] (p # ps) = False"
| "has_prefix (c # s) (p # ps) = (c = p \<and> has_prefix s ps)"

definition trim_prefix :: "string \<Rightarrow> string \<Rightarrow> string" where
  "trim_prefix s p = (if has_prefix s p then drop (length p) s else s)"

definition cut_prefix :: "string \<Rightarrow> string \<Rightarrow> string \<times> bool" where
  "cut_prefix s p = (if has_prefix s p then (drop (length p) s, True) else (s, False))"

fun contains :: "string \<Rightarrow> string \<Rightarrow> bool" where
  "contains [] p = (p = [])"
| "contains (c # s) p = (has_prefix (c # s) p \<or> contains s p)"

definition has_suffix :: "string \<Rightarrow> string \<Rightarrow> bool" where
  "has_suffix s p = has_prefix (rev s) (rev p)"

lemma has_prefix_iff: "has_prefix s p \<longleftrightarrow> (\<exists>t. s = p @ t)"
  by (induction s p rule: has_prefix.induct) auto

lemma has_prefix_append [simp]: "has_prefix (p @ t) p"
  by (auto simp: has_prefix_iff)

lemma contains_iff: "contains s p \<longleftrightarrow> (\<exists>u v. s = u @ p @ v)"
proof (induction s)
  case Nil
  then show ?case by auto
next
  case (Cons c s)
  show ?case
  proof
    assume "contains (c # s) p"
    then consider "has_prefix (c # s) p" | "contains s p" by auto
    then show "\<exists>u v. c # s = u @ p @ v"
    proof cases
      case 1
      then have "\<exists>v. c # s = [] @ p @ v" by (simp add: has_prefix_iff)
      then show ?thesis by blast
    next
      case 2
      then obtain u v where "s = u @ p @ v" using Cons by blast
      then have "c # s = (c # u) @ p @ v" by simp
      then show ?thesis by blast
    qed
  next
    assume "\<exists>u v. c # s = u @ p @ v"
    then obtain u v where uv: "c # s = u @ p @ v" by blast
    show "contains (c # s) p"
    proof (cases u)
      case Nil
      with uv have "has_prefix (c # s) p" by (auto simp: has_prefix_iff)
      then show ?thesis by simp
    next
      case (Cons d u')
      with uv have "s = u' @ p @ v" by simp
      with \<open>contains s p = (\<exists>u v. s = u @ p @ v)\<close> show ?thesis by auto
    qed
  qed
qed

lemma trim_prefix_append [simp]: "trim_prefix (p @ t) p = t"
  by (simp add: trim_prefix_def)

lemma cut_prefix_True: "cut_prefix s p = (t, True) \<longleftrightarrow> s = p @ t"
  by (auto simp: cut_prefix_def has_prefix_iff)

text \<open>
  \<open>strings.TrimSpace\<close>: the runes for which \<open>unicode.IsSpace\<close> holds, as their UTF-8
  encodings. UTF-8 synchronises itself, so a suffix that is the encoding of a space is the
  last rune.
\<close>

definition space_runes :: "string list" where
  "space_runes =
     [[CHR 0x09], [CHR 0x0A], [CHR 0x0B], [CHR 0x0C], [CHR 0x0D], [CHR 0x20],
      [CHR 0xC2, CHR 0x85], [CHR 0xC2, CHR 0xA0], [CHR 0xE1, CHR 0x9A, CHR 0x80],
      [CHR 0xE2, CHR 0x80, CHR 0x80], [CHR 0xE2, CHR 0x80, CHR 0x81],
      [CHR 0xE2, CHR 0x80, CHR 0x82], [CHR 0xE2, CHR 0x80, CHR 0x83],
      [CHR 0xE2, CHR 0x80, CHR 0x84], [CHR 0xE2, CHR 0x80, CHR 0x85],
      [CHR 0xE2, CHR 0x80, CHR 0x86], [CHR 0xE2, CHR 0x80, CHR 0x87],
      [CHR 0xE2, CHR 0x80, CHR 0x88], [CHR 0xE2, CHR 0x80, CHR 0x89],
      [CHR 0xE2, CHR 0x80, CHR 0x8A], [CHR 0xE2, CHR 0x80, CHR 0xA8],
      [CHR 0xE2, CHR 0x80, CHR 0xA9], [CHR 0xE2, CHR 0x80, CHR 0xAF],
      [CHR 0xE2, CHR 0x81, CHR 0x9F], [CHR 0xE3, CHR 0x80, CHR 0x80]]"

definition lead_space :: "string list \<Rightarrow> string \<Rightarrow> nat" where
  "lead_space runes s = (case find (has_prefix s) runes of None \<Rightarrow> 0 | Some r \<Rightarrow> length r)"

function strip_runes :: "string list \<Rightarrow> string \<Rightarrow> string" where
  "strip_runes runes s =
     (let n = lead_space runes s in
      if n = 0 \<or> s = [] then s else strip_runes runes (drop n s))"
  by pat_completeness auto
termination
  by (relation "measure (length \<circ> snd)") auto

declare strip_runes.simps [simp del]

definition trim_space :: "string \<Rightarrow> string" where
  "trim_space s =
     rev (strip_runes (map rev space_runes) (rev (strip_runes space_runes s)))"

text \<open>\<open>strings.TrimRight(s, "/")\<close>.\<close>

definition trim_right :: "char \<Rightarrow> string \<Rightarrow> string" where
  "trim_right c s = rev (dropWhile (\<lambda>x. x = c) (rev s))"

lemma trim_right_no_suffix: "trim_right c s \<noteq> [] \<Longrightarrow> last (trim_right c s) \<noteq> c"
  using hd_dropWhile [of "\<lambda>x. x = c" "rev s"] by (auto simp: trim_right_def last_rev)

section \<open>Numbers as text\<close>

definition digit_char :: "nat \<Rightarrow> char" where
  "digit_char n = char_of (if n < 10 then 48 + n else 87 + n)"

text \<open>The decimal form of a natural number and of an integer (\<open>%d\<close>), the hexadecimal one (\<open>%x\<close>).\<close>

fun dec :: "nat \<Rightarrow> string" where
  "dec n = (if n < 10 then [digit_char n] else dec (n div 10) @ [digit_char (n mod 10)])"

declare dec.simps [simp del]

fun hex_nat :: "nat \<Rightarrow> string" where
  "hex_nat n = (if n < 16 then [digit_char n] else hex_nat (n div 16) @ [digit_char (n mod 16)])"

declare hex_nat.simps [simp del]

definition dec_int :: "int \<Rightarrow> string" where
  "dec_int i = (if i < 0 then ''-'' @ dec (nat (- i)) else dec (nat i))"

text \<open>Zero padding to a minimal width (\<open>%0wd\<close>).\<close>

definition pad :: "nat \<Rightarrow> string \<Rightarrow> string" where
  "pad w s = replicate (w - length s) (CHR ''0'') @ s"

fun dec_val :: "nat \<Rightarrow> string \<Rightarrow> nat" where
  "dec_val acc [] = acc"
| "dec_val acc (c # cs) = dec_val (10 * acc + (of_char c - 48)) cs"

definition is_digit :: "char \<Rightarrow> bool" where
  "is_digit c \<longleftrightarrow> (48::nat) \<le> of_char c \<and> of_char c \<le> (57::nat)"

lemma of_char_digit_char: "n < 10 \<Longrightarrow> of_char (digit_char n) = 48 + n"
  by (simp add: digit_char_def)

lemma is_digit_digit_char: "n < 10 \<Longrightarrow> is_digit (digit_char n)"
  by (simp add: is_digit_def of_char_digit_char)

lemma dec_val_append: "dec_val acc (s @ t) = dec_val (dec_val acc s) t"
  by (induction acc s rule: dec_val.induct) auto

lemma dec_val_dec: "dec_val 0 (dec n) = n"
proof (induction n rule: dec.induct)
  case (1 n)
  show ?case
  proof (cases "n < 10")
    case True
    then show ?thesis by (simp add: dec.simps [of n] of_char_digit_char)
  next
    case False
    with 1 have "dec_val 0 (dec (n div 10)) = n div 10" by simp
    with False show ?thesis
      by (simp add: dec.simps [of n] dec_val_append of_char_digit_char)
  qed
qed

lemma dec_inject [simp]: "dec m = dec n \<longleftrightarrow> m = n"
  by (metis dec_val_dec)

lemma dec_digits: "c \<in> set (dec n) \<Longrightarrow> is_digit c"
proof (induction n rule: dec.induct)
  case (1 n)
  show ?case
  proof (cases "n < 10")
    case True
    with 1 show ?thesis by (simp add: dec.simps [of n] is_digit_digit_char)
  next
    case False
    with 1 show ?thesis
      by (auto simp: dec.simps [of n] is_digit_digit_char)
  qed
qed

lemma dec_nonempty [simp]: "dec n \<noteq> []"
  by (subst dec.simps) simp

lemma dec_val_zeros: "dec_val 0 (replicate k (CHR ''0'') @ s) = dec_val 0 s"
  by (induction k) auto

lemma pad_dec_inject: "pad w (dec m) = pad w (dec n) \<longleftrightarrow> m = n"
  by (metis dec_val_dec dec_val_zeros pad_def)

lemma pad_dec_digits: "c \<in> set (pad w (dec n)) \<Longrightarrow> is_digit c"
  by (auto simp: pad_def is_digit_def dest: dec_digits)

lemma pad_nonempty: "s \<noteq> [] \<Longrightarrow> pad w s \<noteq> []"
  by (simp add: pad_def)

section \<open>Hexadecimal\<close>

text \<open>\<open>hex.EncodeToString\<close> and \<open>hex.DecodeString\<close>.\<close>

definition hex_byte :: "char \<Rightarrow> string" where
  "hex_byte c = [digit_char (of_char c div 16), digit_char (of_char c mod 16)]"

definition hex_encode :: "string \<Rightarrow> string" where
  "hex_encode s = concat (map hex_byte s)"

definition hex_val :: "char \<Rightarrow> nat option" where
  "hex_val c =
     (let n = of_char c in
      if 48 \<le> n \<and> n \<le> 57 then Some (n - 48)
      else if 97 \<le> n \<and> n \<le> 102 then Some (n - 87)
      else if 65 \<le> n \<and> n \<le> 70 then Some (n - 55)
      else None)"

fun hex_decode :: "string \<Rightarrow> string option" where
  "hex_decode [] = Some []"
| "hex_decode [c] = None"
| "hex_decode (a # b # s) =
     (case (hex_val a, hex_val b, hex_decode s) of
        (Some x, Some y, Some t) \<Rightarrow> Some (char_of (16 * x + y) # t)
      | _ \<Rightarrow> None)"

lemma hex_val_digit_char: "n < 16 \<Longrightarrow> hex_val (digit_char n) = Some n"
  by (auto simp: hex_val_def digit_char_def Let_def)

lemma of_char_bound: "of_char c < (256::nat)"
  using nat_of_char_less_256 [of c] by simp

lemma hex_decode_encode [simp]: "hex_decode (hex_encode s) = Some s"
proof (induction s)
  case Nil
  then show ?case by (simp add: hex_encode_def)
next
  case (Cons c s)
  have lt: "of_char c div 16 < (16::nat)"
    using of_char_bound [of c] by (simp add: less_mult_imp_div_less)
  have "16 * (of_char c div 16) + of_char c mod 16 = (of_char c :: nat)"
    by simp
  with Cons lt show ?case
    by (simp add: hex_encode_def hex_byte_def hex_val_digit_char)
qed

lemma hex_encode_inject [simp]: "hex_encode s = hex_encode t \<longleftrightarrow> s = t"
  by (metis hex_decode_encode option.inject)

end
