(* ===== verification/Go_Time.thy ===== *)
theory Go_Time
  imports Kof_Prelude
begin

text \<open>
  The part of package \<open>time\<close> the exporters use. An instant is an \<^typ>\<open>int\<close>, the
  nanoseconds since 1970-01-01T00:00:00Z, and a \<open>Duration\<close> is an \<^typ>\<open>int\<close> of nanoseconds.
  The calendar is the proleptic Gregorian one, computed by the 400/100/4/1-year cycles that
  \<open>time.Time.Date\<close> uses; the layouts \<open>2006/01/02/15\<close>, \<open>2006-01-02\<close>, \<open>15\<close>,
  \<open>time.RFC3339\<close> and \<open>2006-01-02T15:04:05.000Z07:00\<close> are printed in UTC.

  The main result is that the hour of an instant can be read back from the layout
  \<open>2006/01/02/15\<close> (\<open>hour_path_inject\<close>): two instants share it exactly when they fall
  into the same hour.
\<close>

type_synonym time = int
type_synonym duration = int

definition second :: duration where "second = 1000000000"
definition minute :: duration where "minute = 60 * second"
definition hour :: duration where "hour = 3600 * second"

text \<open>A result of \<open>int64\<close> arithmetic, such as a product of durations: it wraps around.\<close>

definition int64 :: "int \<Rightarrow> int" where
  "int64 x = (x + 2 ^ 63) mod 2 ^ 64 - 2 ^ 63"

lemma int64_id: "- (2 ^ 63) \<le> x \<Longrightarrow> x < 2 ^ 63 \<Longrightarrow> int64 x = x"
  by (simp add: int64_def)

lemma int64_range: "- (2 ^ 63) \<le> int64 x" "int64 x < 2 ^ 63"
  using pos_mod_sign [of "2 ^ 64" "x + 2 ^ 63"] pos_mod_bound [of "2 ^ 64" "x + 2 ^ 63"]
  by (simp_all add: int64_def)

text \<open>\<open>t.Truncate(time.Hour)\<close>: the zero time of Go is a whole number of hours before 1970.\<close>

definition truncate_hour :: "time \<Rightarrow> time" where
  "truncate_hour t = t - t mod hour"

lemma hour_pos [simp]: "0 < hour" "hour \<noteq> 0"
  by (simp_all add: hour_def second_def)

lemma truncate_hour_dvd: "hour dvd truncate_hour t"
  unfolding truncate_hour_def by (rule dvd_minus_mod)

lemma truncate_hour_le: "truncate_hour t \<le> t"
  by (simp add: truncate_hour_def)

lemma truncate_hour_gt: "t < truncate_hour t + hour"
  by (simp add: truncate_hour_def)

lemma truncate_hour_eq: "truncate_hour t = hour * (t div hour)"
  by (simp add: truncate_hour_def minus_mod_eq_mult_div)

lemma truncate_hour_id: "hour dvd t \<Longrightarrow> truncate_hour t = t"
  by (auto simp: truncate_hour_eq)

section \<open>The calendar\<close>

definition leap_year :: "int \<Rightarrow> bool" where
  "leap_year y \<longleftrightarrow> y mod 4 = 0 \<and> (y mod 100 \<noteq> 0 \<or> y mod 400 = 0)"

text \<open>Year and day of the year for a day counted from 0001-01-01.\<close>

definition year_yday :: "int \<Rightarrow> int \<times> int" where
  "year_yday d =
     (let n400 = d div 146097; r400 = d mod 146097;
          n100 = min 3 (r400 div 36524); r100 = r400 - 36524 * n100;
          n4 = r100 div 1461; r4 = r100 - 1461 * n4;
          n1 = min 3 (r4 div 365); r1 = r4 - 365 * n1
      in (400 * n400 + 100 * n100 + 4 * n4 + n1 + 1, r1))"

definition month_lengths :: "bool \<Rightarrow> nat list" where
  "month_lengths leap = [31, if leap then 29 else 28, 31, 30, 31, 30, 31, 31, 30, 31, 30, 31]"

fun month_day :: "nat \<Rightarrow> nat list \<Rightarrow> nat \<Rightarrow> nat \<times> nat" where
  "month_day m [] d = (m, Suc d)"
| "month_day m (l # ls) d = (if d < l then (m, Suc d) else month_day (Suc m) ls (d - l))"

text \<open>Year, month and day of an instant; day 719162 after 0001-01-01 is 1970-01-01.\<close>

definition date :: "time \<Rightarrow> int \<times> nat \<times> nat" where
  "date t =
     (let (y, yd) = year_yday (t div (24 * hour) + 719162)
      in (y, month_day 1 (month_lengths (leap_year y)) (nat yd)))"

definition clock_hour :: "time \<Rightarrow> nat" where
  "clock_hour t = nat (t div hour mod 24)"

definition clock_minute :: "time \<Rightarrow> nat" where
  "clock_minute t = nat (t div minute mod 60)"

definition clock_second :: "time \<Rightarrow> nat" where
  "clock_second t = nat (t div second mod 60)"

definition clock_milli :: "time \<Rightarrow> nat" where
  "clock_milli t = nat (t div 1000000 mod 1000)"

section \<open>Layouts\<close>

definition fmt_year :: "int \<Rightarrow> string" where
  "fmt_year y = (if y < 0 then ''-'' else []) @ pad 4 (dec (nat \<bar>y\<bar>))"

definition two :: "nat \<Rightarrow> string" where
  "two n = pad 2 (dec n)"

text \<open>Layout \<open>2006-01-02\<close>.\<close>

definition fmt_date :: "time \<Rightarrow> string" where
  "fmt_date t = (case date t of (y, m, d) \<Rightarrow> join ''-'' [fmt_year y, two m, two d])"

text \<open>Layout \<open>15\<close>.\<close>

definition fmt_hour :: "time \<Rightarrow> string" where
  "fmt_hour t = two (clock_hour t)"

text \<open>Layout \<open>2006/01/02/15\<close>.\<close>

definition hour_path :: "time \<Rightarrow> string" where
  "hour_path t =
     (case date t of (y, m, d) \<Rightarrow> join ''/'' [fmt_year y, two m, two d, two (clock_hour t)])"

text \<open>Layouts \<open>time.RFC3339\<close> and \<open>2006-01-02T15:04:05.000Z07:00\<close> of an instant in UTC.\<close>

definition clock_text :: "time \<Rightarrow> string" where
  "clock_text t = join '':'' [two (clock_hour t), two (clock_minute t), two (clock_second t)]"

definition rfc3339 :: "time \<Rightarrow> string" where
  "rfc3339 t = fmt_date t @ ''T'' @ clock_text t @ ''Z''"

definition rfc3339_milli :: "time \<Rightarrow> string" where
  "rfc3339_milli t =
     fmt_date t @ ''T'' @ clock_text t @ ''.'' @ pad 3 (dec (clock_milli t)) @ ''Z''"

section \<open>The hour is determined by its layout\<close>

lemma capped_div:
  fixes r m k :: int
  assumes "0 < m" "0 \<le> r" "0 \<le> k" "r \<le> (k + 1) * m"
  shows "0 \<le> r - m * min k (r div m)" "r - m * min k (r div m) \<le> m"
proof -
  have "0 \<le> r - m * min k (r div m) \<and> r - m * min k (r div m) \<le> m"
  proof (cases "r div m \<le> k")
    case True
    then have "r - m * min k (r div m) = r mod m" by (simp add: minus_mult_div_eq_mod)
    then show ?thesis using assms(1) by (simp add: less_imp_le)
  next
    case False
    then have "m * (k + 1) \<le> m * (r div m)" using assms(1) by simp
    also have "\<dots> \<le> r" using pos_mod_sign [OF assms(1), of r] mult_div_mod_eq [of m r] by linarith
    finally show ?thesis using False assms(1,4) by (simp add: algebra_simps)
  qed
  then show "0 \<le> r - m * min k (r div m)" "r - m * min k (r div m) \<le> m" by simp_all
qed

lemma year_yday_decompose:
  assumes "year_yday d = (y, yd)"
  obtains a b c e where
    "d = 146097 * a + 36524 * b + 1461 * c + 365 * e + yd"
    "y = 400 * a + 100 * b + 4 * c + e + 1"
    "0 \<le> b" "b \<le> 3" "0 \<le> c" "c \<le> 24" "0 \<le> e" "e \<le> 3" "0 \<le> yd" "yd \<le> 365"
proof -
  define a where "a = d div 146097"
  define r where "r = d mod 146097"
  define b where "b = min 3 (r div 36524)"
  define s where "s = r - 36524 * b"
  define c where "c = s div 1461"
  define q where "q = s - 1461 * c"
  define e where "e = min 3 (q div 365)"
  have "(y, yd) = (400 * a + 100 * b + 4 * c + e + 1, q - 365 * e)"
    by (simp only: assms [symmetric] year_yday_def Let_def a_def r_def b_def s_def c_def q_def e_def)
  then have eq: "y = 400 * a + 100 * b + 4 * c + e + 1" "yd = q - 365 * e" by simp_all
  have d: "d = 146097 * a + r" by (simp add: a_def r_def)
  have r: "0 \<le> r" "r \<le> 146096" by (simp_all add: r_def)
  then have b: "0 \<le> b" "b \<le> 3" by (simp_all add: b_def pos_imp_zdiv_nonneg_iff)
  have s: "0 \<le> s" "s \<le> 36524"
    using capped_div [of 36524 r 3] r by (simp_all add: s_def b_def)
  have c: "0 \<le> c" "c \<le> 24"
    using s zdiv_mono1 [of s 36524 1461] by (simp_all add: c_def pos_imp_zdiv_nonneg_iff)
  have q: "0 \<le> q" "q \<le> 1460"
    using pos_mod_sign [of 1461 s] pos_mod_bound [of 1461 s]
    by (simp_all add: q_def c_def minus_mult_div_eq_mod)
  have e: "0 \<le> e" "e \<le> 3" using q by (simp_all add: e_def pos_imp_zdiv_nonneg_iff)
  have yd: "0 \<le> yd" "yd \<le> 365"
    using capped_div [of 365 q 3] q by (simp_all add: eq(2) e_def)
  show ?thesis
    by (rule that [of a b c e]) (use d eq b c e yd in \<open>simp_all add: s_def q_def\<close>)
qed

lemma base_inject:
  fixes x p :: int
  assumes "0 < m" "0 \<le> p" "p < m" "0 \<le> p'" "p' < m" "m * x + p = m * x' + p'"
  shows "x = x'" "p = p'"
proof -
  show "x = x'"
    using arg_cong [OF assms(6), of "\<lambda>n. n div m"] assms(1-5) by (simp add: div_pos_pos_trivial)
  with assms(6) show "p = p'" by simp
qed

lemma year_yday_inject:
  assumes "year_yday d = year_yday d'"
  shows "d = d'"
proof -
  obtain y yd where y: "year_yday d = (y, yd)" by (cases "year_yday d")
  with assms have y': "year_yday d' = (y, yd)" by simp
  obtain a b c e where 1: "d = 146097 * a + 36524 * b + 1461 * c + 365 * e + yd"
    "y = 400 * a + 100 * b + 4 * c + e + 1" "0 \<le> b" "b \<le> 3" "0 \<le> c" "c \<le> 24" "0 \<le> e" "e \<le> 3"
    using y by (rule year_yday_decompose) blast
  obtain a' b' c' e' where 2: "d' = 146097 * a' + 36524 * b' + 1461 * c' + 365 * e' + yd"
    "y = 400 * a' + 100 * b' + 4 * c' + e' + 1" "0 \<le> b'" "b' \<le> 3" "0 \<le> c'" "c' \<le> 24"
    "0 \<le> e'" "e' \<le> 3"
    using y' by (rule year_yday_decompose) blast
  have y2: "100 * (4 * a + b) + (4 * c + e) = 100 * (4 * a' + b') + (4 * c' + e')" using 1(2) 2(2) by simp
  have "4 * a + b = 4 * a' + b'"
    by (rule base_inject(1) [OF _ _ _ _ _ y2]) (use 1(5-8) 2(5-8) in auto)
  moreover from this y2 have "4 * c + e = 4 * c' + e'" by simp
  moreover have "a = a'" by (rule base_inject(1) [OF _ _ _ _ _ calculation(1)]) (use 1(3,4) 2(3,4) in auto)
  moreover have "c = c'" by (rule base_inject(1) [OF _ _ _ _ _ calculation(2)]) (use 1(7,8) 2(7,8) in auto)
  ultimately show ?thesis using 1(1) 2(1) by simp
qed

lemma year_yday_range: "0 \<le> snd (year_yday d)"
  by (cases "year_yday d") (auto elim: year_yday_decompose)

lemma month_day_inject:
  "month_day m ls d = month_day m ls d' \<Longrightarrow> d = d'"
proof (induction m ls d arbitrary: d' rule: month_day.induct)
  case (1 m d)
  then show ?case by simp
next
  case (2 m l ls d)
  have ge: "fst (month_day n ks k) \<ge> n" for n ks k
    by (induction n ks k rule: month_day.induct) auto
  have ne: "month_day (Suc m) ls k \<noteq> (m, j)" for k j
    using ge [of "Suc m" ls k] by auto
  show ?case
  proof (cases "d < l")
    case True
    then show ?thesis using "2.prems" ne ne [symmetric] by (auto split: if_splits)
  next
    case False
    then have "\<not> d' < l" using "2.prems" ne by (auto split: if_splits)
    with False "2.prems" have "month_day (Suc m) ls (d - l) = month_day (Suc m) ls (d' - l)"
      by simp
    with False have "d - l = d' - l" by (rule "2.IH")
    with False \<open>\<not> d' < l\<close> show ?thesis by simp
  qed
qed

lemma date_inject: "date t = date t' \<longleftrightarrow> t div (24 * hour) = t' div (24 * hour)"
proof
  assume eq: "date t = date t'"
  let ?d = "t div (24 * hour) + 719162" and ?d' = "t' div (24 * hour) + 719162"
  have y: "fst (year_yday ?d) = fst (year_yday ?d')"
    and m: "month_day 1 (month_lengths (leap_year (fst (year_yday ?d)))) (nat (snd (year_yday ?d)))
      = month_day 1 (month_lengths (leap_year (fst (year_yday ?d')))) (nat (snd (year_yday ?d')))"
    using eq by (simp_all add: date_def Let_def split: prod.splits)
  have "nat (snd (year_yday ?d)) = nat (snd (year_yday ?d'))"
    using m unfolding y by (rule month_day_inject)
  then have "snd (year_yday ?d) = snd (year_yday ?d')"
    using year_yday_range [of ?d] year_yday_range [of ?d'] by simp
  with y have "year_yday ?d = year_yday ?d'" by (rule prod_eqI)
  then show "t div (24 * hour) = t' div (24 * hour)" by (drule_tac year_yday_inject) simp
qed (simp add: date_def)

lemma slash_not_digit: "is_digit c \<Longrightarrow> c \<noteq> CHR ''/''"
  by (auto simp: is_digit_def)

lemma minus_not_digit: "is_digit c \<Longrightarrow> c \<noteq> CHR ''-''"
  by (auto simp: is_digit_def)

lemma no_slash_two: "CHR ''/'' \<notin> set (two n)"
  unfolding two_def using pad_dec_digits slash_not_digit by blast

lemma no_slash_year: "CHR ''/'' \<notin> set (fmt_year y)"
  unfolding fmt_year_def using pad_dec_digits slash_not_digit by fastforce

lemma two_inject: "two m = two n \<longleftrightarrow> m = n"
  by (simp add: two_def pad_dec_inject)

lemma fmt_year_inject: "fmt_year y = fmt_year y' \<longleftrightarrow> y = y'"
proof
  assume eq: "fmt_year y = fmt_year y'"
  have hd: "hd (pad 4 (dec n)) \<noteq> CHR ''-''" for n
    using pad_dec_digits [of "hd (pad 4 (dec n))" 4 n] pad_nonempty [of "dec n" 4]
    by (auto dest: minus_not_digit)
  have ne: "pad 4 (dec n) \<noteq> CHR ''-'' # s" for n s
    using hd [of n] by (metis list.sel(1))
  have "(y < 0) = (y' < 0)"
    using eq ne ne [symmetric] by (auto simp: fmt_year_def split: if_splits)
  with eq have "nat \<bar>y\<bar> = nat \<bar>y'\<bar>"
    by (auto simp: fmt_year_def pad_dec_inject split: if_splits)
  with \<open>(y < 0) = (y' < 0)\<close> show "y = y'" by linarith
qed simp

lemma hour_path_parts:
  "split_on (CHR ''/'') (hour_path t)
     = (case date t of (y, m, d) \<Rightarrow> [fmt_year y, two m, two d, two (clock_hour t)])"
proof -
  obtain y m d where date: "date t = (y, m, d)" by (cases "date t")
  have "split_on (CHR ''/'') (join ''/'' [fmt_year y, two m, two d, two (clock_hour t)])
      = [fmt_year y, two m, two d, two (clock_hour t)]"
    by (rule split_on_join) (auto simp: no_slash_two no_slash_year)
  then show ?thesis by (simp only: hour_path_def date prod.case)
qed

lemma day_hour_inject:
  fixes t t' :: int
  assumes "t div (24 * hour) = t' div (24 * hour)" "t div hour mod 24 = t' div hour mod 24"
  shows "t div hour = t' div hour"
proof -
  have dd: "t div (24 * hour) = t div hour div 24" for t
    by (simp add: zdiv_zmult2_eq mult.commute)
  have "t div hour = 24 * (t div hour div 24) + t div hour mod 24" by simp
  also have "\<dots> = 24 * (t' div hour div 24) + t' div hour mod 24"
    using assms by (simp only: dd)
  finally show ?thesis by simp
qed

lemma hour_path_inject: "hour_path t = hour_path t' \<longleftrightarrow> truncate_hour t = truncate_hour t'"
proof
  assume "hour_path t = hour_path t'"
  then have sp: "split_on (CHR ''/'') (hour_path t) = split_on (CHR ''/'') (hour_path t')"
    by simp
  obtain y m d where date: "date t = (y, m, d)" by (cases "date t")
  obtain y' m' d' where date': "date t' = (y', m', d')" by (cases "date t'")
  from sp have "date t = date t'" "clock_hour t = clock_hour t'"
    by (simp_all add: hour_path_parts date date' fmt_year_inject two_inject)
  then have "t div (24 * hour) = t' div (24 * hour)" "t div hour mod 24 = t' div hour mod 24"
    by (simp_all add: date_inject clock_hour_def eq_nat_nat_iff)
  then have "t div hour = t' div hour" by (rule day_hour_inject)
  then show "truncate_hour t = truncate_hour t'" by (simp add: truncate_hour_eq)
next
  assume "truncate_hour t = truncate_hour t'"
  then have h: "t div hour = t' div hour" by (simp add: truncate_hour_eq)
  have "t div (24 * hour) = t' div (24 * hour)"
    using h by (simp add: zdiv_zmult2_eq mult.commute)
  then have "date t = date t'" by (simp add: date_inject)
  then show "hour_path t = hour_path t'" by (simp add: hour_path_def clock_hour_def h)
qed

section \<open>Hours of a range\<close>

text \<open>The starts of the hours from one instant up to another, as the loops of the exporters visit them.\<close>

function hours :: "time \<Rightarrow> time \<Rightarrow> time list" where
  "hours t u = (if t < u then t # hours (t + hour) u else [])"
  by pat_completeness auto
termination
  by (relation "measure (\<lambda>(t, u). nat (u - t))") auto

declare hours.simps [simp del]

lemma set_hours: "set (hours t u) = {x. t \<le> x \<and> x < u \<and> hour dvd (x - t)}"
proof (induction t u rule: hours.induct)
  case (1 t u)
  have step: "x = t \<or> (t + hour \<le> x \<and> hour dvd (x - (t + hour))) \<longleftrightarrow> t \<le> x \<and> hour dvd (x - t)" for x
  proof
    assume a: "t \<le> x \<and> hour dvd (x - t)"
    then obtain k where k: "x - t = hour * k" by (auto simp: dvd_def)
    with a have "0 \<le> k" by (metis diff_ge_0_iff_ge hour_pos(1) mult_less_cancel_left_pos mult_zero_right not_less)
    then consider "k = 0" | "1 \<le> k" by linarith
    then show "x = t \<or> (t + hour \<le> x \<and> hour dvd (x - (t + hour)))"
    proof cases
      case 2
      then have "hour * 1 \<le> hour * k" by (intro mult_left_mono) (auto simp: less_imp_le)
      then have "t + hour \<le> x" using k by linarith
      moreover have "x - (t + hour) = hour * (k - 1)" using k by (simp add: algebra_simps)
      ultimately show ?thesis by simp
    qed (use k in simp)
  next
    assume "x = t \<or> (t + hour \<le> x \<and> hour dvd (x - (t + hour)))"
    then show "t \<le> x \<and> hour dvd (x - t)"
      using dvd_add [of hour "x - (t + hour)" hour]
      by (auto simp: algebra_simps) (use hour_pos(1) in linarith)
  qed
  show ?case
  proof (cases "t < u")
    case True
    then have "set (hours t u) = insert t (set (hours (t + hour) u))" by (simp add: hours.simps [of t u])
    also have "\<dots> = {x. x < u \<and> (x = t \<or> (t + hour \<le> x \<and> hour dvd (x - (t + hour))))}"
      using 1 True by auto
    finally show ?thesis by (auto simp: step)
  next
    case False
    then show ?thesis by (auto simp: hours.simps [of t u])
  qed
qed

lemma length_hours: "length (hours t (t + int n * hour)) = n"
proof (induction n arbitrary: t)
  case 0
  then show ?case by (simp add: hours.simps)
next
  case (Suc n)
  have lt: "t < t + int (Suc n) * hour" by simp
  have eq: "t + int (Suc n) * hour = (t + hour) + int n * hour" by (simp add: algebra_simps)
  have "hours t (t + int (Suc n) * hour) = t # hours (t + hour) (t + int (Suc n) * hour)"
    using lt by (simp add: hours.simps [of t])
  then show ?case using Suc.IH [of "t + hour"] by (simp only: eq) simp
qed

lemma hours_aligned: "x \<in> set (hours t u) \<Longrightarrow> hour dvd t \<Longrightarrow> hour dvd x"
  by (auto simp: set_hours) (metis dvd_add_right_iff diff_add_cancel add.commute)

text \<open>Date and hour of the layouts \<open>2006-01-02\<close> and \<open>15\<close> determine the hour, too.\<close>

lemma no_minus_two: "CHR ''-'' \<notin> set (two n)"
  unfolding two_def using pad_dec_digits minus_not_digit by blast

lemma no_slash_date: "CHR ''/'' \<notin> set (fmt_date t)"
  using no_slash_two no_slash_year by (auto simp: fmt_date_def split: prod.split)

lemma fmt_date_inject: "fmt_date t = fmt_date t' \<longleftrightarrow> date t = date t'"
proof
  obtain y m d where dt: "date t = (y, m, d)" by (cases "date t")
  obtain y' m' d' where dt': "date t' = (y', m', d')" by (cases "date t'")
  assume "fmt_date t = fmt_date t'"
  then have "split_on (CHR ''-'') (fmt_year y @ CHR ''-'' # two m @ CHR ''-'' # two d) =
      split_on (CHR ''-'') (fmt_year y' @ CHR ''-'' # two m' @ CHR ''-'' # two d')"
    by (simp add: fmt_date_def dt dt')
  then have "split_on (CHR ''-'') (fmt_year y) = split_on (CHR ''-'') (fmt_year y') \<and> two m = two m' \<and> two d = two d'"
    by (simp add: split_on_append_sep split_on_plain no_minus_two)
  then show "date t = date t'"
    by (metis dt dt' fmt_year_inject join_split_on two_inject)
qed (simp add: fmt_date_def)

lemma date_hour_inject:
  "fmt_date t = fmt_date t' \<and> fmt_hour t = fmt_hour t' \<longleftrightarrow> truncate_hour t = truncate_hour t'"
proof -
  have "hour_path t = hour_path t' \<longleftrightarrow> date t = date t' \<and> clock_hour t = clock_hour t'"
  proof
    assume "hour_path t = hour_path t'"
    then have "split_on (CHR ''/'') (hour_path t) = split_on (CHR ''/'') (hour_path t')" by simp
    then show "date t = date t' \<and> clock_hour t = clock_hour t'"
      by (cases "date t"; cases "date t'") (simp add: hour_path_parts fmt_year_inject two_inject)
  qed (simp add: hour_path_def)
  then show ?thesis by (simp add: hour_path_inject [symmetric] fmt_date_inject fmt_hour_def two_inject)
qed

end
