(* ===== verification/File_Watcher.thy ===== *)
theory File_Watcher
  imports Kof_Prelude Go_Time "HOL-Library.Word"
begin

text \<open>
  The file watcher (\<open>kof-operator/internal/filewatcher\<close>): the baseline of file hashes
  kept in a Kubernetes Secret (\<open>baseline.go\<close>), the watcher's start, its event loop and
  its debouncing (\<open>watcher.go\<close>) and the two gauges it exports (\<open>metrics.go\<close>).

  The operating system, fsnotify and the Kubernetes API are parameters: a \<open>fsys\<close> record
  answers \<open>os.Stat\<close>, the reading of a file and the sequence of entries \<open>filepath.WalkDir\<close>
  visits; \<open>fw_add\<close> answers \<open>fsnotify.Watcher.Add\<close>; a \<open>secret_api\<close> record holds the
  Secret and the errors of the API server.
\<close>

unbundle bit_operations_syntax

section \<open>Metrics\<close>

definition deletedEvent :: string where "deletedEvent = ''deleted''"
definition modifiedEvent :: string where "modifiedEvent = ''modified''"

lemma event_names [simp]: "deletedEvent \<noteq> modifiedEvent" "modifiedEvent \<noteq> deletedEvent"
  by (simp_all add: deletedEvent_def modifiedEvent_def)

record fileWatcherMetrics =
  driftDetected :: "((string \<times> string) \<times> nat) list"
  watchedPaths :: nat

definition newMetrics :: fileWatcherMetrics where
  "newMetrics = \<lparr>driftDetected = [], watchedPaths = 0\<rparr>"

definition setDriftDetected ::
  "string \<Rightarrow> string \<Rightarrow> bool \<Rightarrow> fileWatcherMetrics \<Rightarrow> fileWatcherMetrics" where
  "setDriftDetected path event changed m =
     m\<lparr>driftDetected := map_set (path, event) (if changed then 1 else 0) (driftDetected m)\<rparr>"

definition incWatchedPaths :: "fileWatcherMetrics \<Rightarrow> fileWatcherMetrics" where
  "incWatchedPaths m = m\<lparr>watchedPaths := watchedPaths m + 1\<rparr>"

text \<open>The value of the gauge \<open>drift_detected{path, event}\<close>, if the series exists.\<close>

definition drift :: "fileWatcherMetrics \<Rightarrow> string \<Rightarrow> string \<Rightarrow> nat option" where
  "drift m path event = map_of (driftDetected m) (path, event)"

lemma drift_setDriftDetected [simp]:
  "drift (setDriftDetected p e b m) q f =
     (if (q, f) = (p, e) then Some (if b then 1 else 0) else drift m q f)"
  by (auto simp: drift_def setDriftDetected_def)

lemma watchedPaths_setDriftDetected [simp]:
  "watchedPaths (setDriftDetected p e b m) = watchedPaths m"
  by (simp add: setDriftDetected_def)

section \<open>Configuration\<close>

record config =
  WatchPaths :: "string list"
  Recursive :: bool
  MetricsAddr :: string
  DebounceDuration :: duration
  BaselineSecretNamespace :: string
  BaselineSecretName :: string
  BaselineEnabled :: bool

section \<open>Hashing\<close>

text \<open>\<open>fnv.New64a\<close> and the format \<open>%016x\<close>.\<close>

definition fnv64_step :: "char \<Rightarrow> 64 word \<Rightarrow> 64 word" where
  "fnv64_step c h = (h XOR word_of_nat (of_char c)) * 1099511628211"

definition fnv64a :: "string \<Rightarrow> 64 word" where
  "fnv64a s = fold fnv64_step s 14695981039346656037"

datatype fs_error = OpenErr string | ReadErr string | StatErr string | WalkErr string

datatype stat_result = StatNotExist | StatFail | StatFile | StatDir

datatype read_result = CannotOpen | CannotRead | Content string

record fsys =
  stat :: "string \<Rightarrow> stat_result"
  read_file :: "string \<Rightarrow> read_result"
  walk :: "string \<Rightarrow> (string \<times> bool \<times> bool) list"
    \<comment> \<open>the visits of \<open>filepath.WalkDir\<close>: path, is a directory, carries an error\<close>

definition hashFile :: "fsys \<Rightarrow> string \<Rightarrow> fs_error + string" where
  "hashFile fs path =
     (case read_file fs path of
        CannotOpen \<Rightarrow> Inl (OpenErr path)
      | CannotRead \<Rightarrow> Inl (ReadErr path)
      | Content s \<Rightarrow> Inr (pad 16 (hex_nat (unat (fnv64a s)))))"

definition hash_visit :: "fsys \<Rightarrow> (string \<times> bool \<times> bool) \<Rightarrow> string gomap \<Rightarrow> string gomap" where
  "hash_visit fs v out =
     (case v of (path, isdir, err) \<Rightarrow>
        if err \<or> isdir then out
        else (case hashFile fs path of Inl _ \<Rightarrow> out | Inr h \<Rightarrow> map_set path h out))"

text \<open>\<open>hashTree\<close> updates the map \<open>out\<close> and returns an error or nothing.\<close>

definition hashTree :: "fsys \<Rightarrow> string \<Rightarrow> string gomap \<Rightarrow> fs_error option \<times> string gomap" where
  "hashTree fs root out =
     (case stat fs root of
        StatNotExist \<Rightarrow> (None, map_set root [] out)
      | StatFail \<Rightarrow> (Some (StatErr root), out)
      | StatFile \<Rightarrow>
          (case hashFile fs root of Inl e \<Rightarrow> (Some e, out) | Inr h \<Rightarrow> (None, map_set root h out))
      | StatDir \<Rightarrow> (None, fold (hash_visit fs) (walk fs root) out))"

lemma hashFile_nonempty: "hashFile fs p = Inr h \<Longrightarrow> h \<noteq> []"
  by (auto simp: hashFile_def pad_def hex_nat.simps [of "unat _"] split: read_result.splits if_splits)

lemma hash_visit_wf [simp]: "wf_map out \<Longrightarrow> wf_map (hash_visit fs v out)"
  by (auto simp: hash_visit_def split: prod.splits sum.splits)

lemma fold_hash_visit_wf: "wf_map out \<Longrightarrow> wf_map (fold (hash_visit fs) vs out)"
  by (induction vs arbitrary: out) auto

lemma hashTree_wf: "wf_map out \<Longrightarrow> wf_map (snd (hashTree fs root out))"
  by (auto simp: hashTree_def fold_hash_visit_wf split: stat_result.splits sum.splits)

section \<open>The baseline store\<close>

text \<open>
  What the watcher relies on of a \<open>BaselineStore\<close>: what was saved is what the next load
  returns, as a map. The watcher's own lemmas below are proved from this contract.
\<close>

locale baseline_store =
  fixes load :: "'s \<Rightarrow> 'err + string gomap"
    and save :: "string gomap \<Rightarrow> 's \<Rightarrow> 'err option \<times> 's"
    and invar :: "'s \<Rightarrow> bool"
  assumes load_wf: "\<lbrakk>invar s; load s = Inr h\<rbrakk> \<Longrightarrow> wf_map h"
    and save_invar: "invar s \<Longrightarrow> invar (snd (save h s))"
    and save_load: "\<lbrakk>invar s; wf_map h; save h s = (None, s')\<rbrakk>
      \<Longrightarrow> \<exists>h'. load s' = Inr h' \<and> same_map h' h"
    and save_error: "save h s = (Some e, s') \<Longrightarrow> load s' = load s"
begin

lemma saved_lookup:
  assumes "invar s" "wf_map h" "save h s = (None, s')"
  shows "\<exists>h'. load s' = Inr h' \<and> wf_map h' \<and> (\<forall>p. map_of h' p = map_of h p)"
  using save_load [OF assms] by (auto simp: same_map_def)

end

text \<open>
  The Secret of the baseline as the API server keeps it: its data if it exists, and whether
  the next \<open>Get\<close>, \<open>Create\<close> or \<open>Update\<close> fails. \<open>controllerutil.CreateOrUpdate\<close> reads the
  object first and writes it only when the mutation changed it, and a failed write leaves
  the object as it was.
\<close>

datatype api_error = GetFailed | WriteFailed

record secret_api =
  secret_data :: "string gomap option"
  get_fails :: bool
  write_fails :: bool

definition Load :: "secret_api \<Rightarrow> api_error + string gomap" where
  "Load s =
     (if get_fails s then Inl GetFailed
      else (case secret_data s of
              None \<Rightarrow> Inr []
            | Some data \<Rightarrow>
                Inr (fold (\<lambda>(key, val) hashes.
                       case hex_decode key of
                         None \<Rightarrow> hashes
                       | Some path \<Rightarrow> map_set path val hashes) data [])))"

definition encode_hashes :: "string gomap \<Rightarrow> string gomap" where
  "encode_hashes hashes = fold (\<lambda>(path, hash) data. map_set (hex_encode path) hash data) hashes []"

definition Save :: "string gomap \<Rightarrow> secret_api \<Rightarrow> api_error option \<times> secret_api" where
  "Save hashes s =
     (let data = encode_hashes hashes in
      if get_fails s then (Some GetFailed, s)
      else (case secret_data s of
              None \<Rightarrow>
                if write_fails s then (Some WriteFailed, s)
                else (None, s\<lparr>secret_data := Some data\<rparr>)
            | Some old \<Rightarrow>
                if maps_Equal old data then (None, s)
                else if write_fails s then (Some WriteFailed, s)
                else (None, s\<lparr>secret_data := Some data\<rparr>)))"

lemma map_of_encode_hashes:
  assumes "wf_map h"
  shows "map_of (encode_hashes h) k
    = (case hex_decode k of
         None \<Rightarrow> None
       | Some p \<Rightarrow> if k = hex_encode p then map_of h p else None)"
proof -
  have "map_of (fold (\<lambda>(path, hash) data. map_set (hex_encode path) hash data) h d) k
    = (case hex_decode k of
         None \<Rightarrow> map_of d k
       | Some p \<Rightarrow>
           if k = hex_encode p then (case map_of h p of None \<Rightarrow> map_of d k | Some v \<Rightarrow> Some v)
           else map_of d k)" for d
    using assms
  proof (induction h arbitrary: d)
    case Nil
    then show ?case by (simp split: option.splits)
  next
    case (Cons pv h)
    obtain q v where pv: "pv = (q, v)" by (cases pv)
    have none: "map_of h q = None"
      using Cons.prems by (simp add: pv wf_map_def map_of_eq_None_iff)
    show ?case
      using Cons none by (auto simp: pv split: option.splits if_splits)
  qed
  then show ?thesis
    by (simp add: encode_hashes_def split: option.splits)
qed

lemma wf_encode_hashes: "wf_map (encode_hashes h)"
proof -
  have "wf_map d \<Longrightarrow> wf_map (fold (\<lambda>(path, hash) data. map_set (hex_encode path) hash data) h d)" for d
    by (induction h arbitrary: d) auto
  then show ?thesis by (simp add: encode_hashes_def)
qed

definition decode_step :: "string \<times> string \<Rightarrow> string gomap \<Rightarrow> string gomap" where
  "decode_step kv hashes =
     (case kv of (key, val) \<Rightarrow>
        (case hex_decode key of None \<Rightarrow> hashes | Some path \<Rightarrow> map_set path val hashes))"

lemma decode_step_wf [simp]: "wf_map h \<Longrightarrow> wf_map (decode_step kv h)"
  by (auto simp: decode_step_def split: prod.splits option.splits)

lemma fold_decode_wf: "wf_map h \<Longrightarrow> wf_map (fold decode_step data h)"
  by (induction data arbitrary: h) auto

lemma fold_decode_lookup:
  assumes "wf_map data" "\<forall>(k, v) \<in> set data. \<exists>p. k = hex_encode p"
  shows "map_of (fold decode_step data h) p
    = (case map_of data (hex_encode p) of None \<Rightarrow> map_of h p | Some v \<Rightarrow> Some v)"
  using assms
proof (induction data arbitrary: h)
  case Nil
  then show ?case by simp
next
  case (Cons kv data)
  obtain q v where kv: "kv = (hex_encode q, v)" using Cons.prems(2) by (cases kv) auto
  have none: "map_of data (hex_encode q) = None"
    using Cons.prems(1) by (simp add: kv wf_map_def map_of_eq_None_iff)
  show ?case
    using Cons none by (auto simp: kv decode_step_def split: option.splits)
qed

lemma Load_fold:
  "Load s = (if get_fails s then Inl GetFailed
     else Inr (case secret_data s of None \<Rightarrow> [] | Some data \<Rightarrow> fold decode_step data []))"
  by (simp add: Load_def decode_step_def [abs_def] case_prod_beta' split: option.splits)

lemma encode_hashes_keys: "(k, v) \<in> set (encode_hashes h) \<Longrightarrow> \<exists>p. k = hex_encode p"
proof -
  have "(k, v) \<in> set (fold (\<lambda>(path, hash) data. map_set (hex_encode path) hash data) h d) \<Longrightarrow>
     (k, v) \<in> set d \<or> (\<exists>p. k = hex_encode p)" for d
  proof (induction h arbitrary: d)
    case Nil
    then show ?case by simp
  next
    case (Cons pv h)
    obtain q w where pv: "pv = (q, w)" by (cases pv)
    from Cons.prems have "(k, v) \<in> set (map_set (hex_encode q) w d) \<or> (\<exists>p. k = hex_encode p)"
      by (intro Cons.IH) (simp add: pv)
    moreover have "(k, v) \<in> set (map_set (hex_encode q) w d) \<Longrightarrow> (k, v) \<in> set d \<or> k = hex_encode q"
      by (induction d) (auto split: if_splits)
    ultimately show ?case by blast
  qed
  then show "(k, v) \<in> set (encode_hashes h) \<Longrightarrow> \<exists>p. k = hex_encode p"
    by (fastforce simp: encode_hashes_def)
qed

text \<open>The data of a Secret is a Go map; the API server hands it out with distinct keys.\<close>

definition secret_invar :: "secret_api \<Rightarrow> bool" where
  "secret_invar s \<longleftrightarrow> (case secret_data s of None \<Rightarrow> True | Some data \<Rightarrow> wf_map data)"

lemma Load_encoded:
  assumes "wf_map h" "same_map data (encode_hashes h)"
  shows "same_map (fold decode_step data []) h"
proof -
  have "\<forall>(k, v) \<in> set data. \<exists>p. k = hex_encode p"
    using encode_hashes_keys by (auto simp: same_map_set [OF assms(2)])
  then have "map_of (fold decode_step data []) p = map_of h p" for p
    using assms fold_decode_lookup [of data "[]" p] map_of_encode_hashes [OF assms(1)]
    by (auto simp: same_map_def split: option.splits)
  then show ?thesis
    using assms(1) by (auto simp: same_map_def fold_decode_wf)
qed

lemma Save_Load:
  assumes "secret_invar s" "wf_map h" "Save h s = (None, s')"
  shows "\<exists>h'. Load s' = Inr h' \<and> same_map h' h"
proof -
  from assms(3) have ok: "\<not> get_fails s" and gf: "get_fails s' = get_fails s"
    by (auto simp: Save_def Let_def split: if_splits option.splits)
  have "\<exists>data. secret_data s' = Some data \<and> same_map data (encode_hashes h)"
    using assms
    by (auto simp: Save_def Let_def secret_invar_def wf_encode_hashes same_map_refl
        maps_Equal_same_map split: if_splits option.splits)
  then show ?thesis
    using Load_encoded [OF assms(2)] ok gf by (auto simp: Load_fold)
qed

lemma Save_invar: "secret_invar s \<Longrightarrow> secret_invar (snd (Save h s))"
  by (auto simp: Save_def Let_def secret_invar_def wf_encode_hashes split: option.splits)

interpretation secret_store: baseline_store Load Save secret_invar
proof unfold_locales
  fix s h
  assume "Load s = Inr h"
  then show "wf_map h"
    by (auto simp: Load_fold fold_decode_wf split: if_splits option.splits)
next
  fix s h e s'
  assume "Save h s = (Some e, s')"
  then show "Load s' = Load s"
    by (auto simp: Save_def Let_def split: if_splits option.splits)
qed (use Save_invar Save_Load in auto)

section \<open>The watcher\<close>

datatype log_line = LogInfo string string | LogError string string

datatype watch_error = AddFailed string | WalkFailed string

record 's watcher =
  cfg :: config
  fw :: "string list"
  last_seen :: "(string \<times> time) list"
  metrics :: fileWatcherMetrics
  logs :: "log_line list"
  emitted :: "(string \<times> string \<times> time) list"
  store :: "'s option"

definition newWatcherWithRegistry :: "config \<Rightarrow> 's watcher" where
  "newWatcherWithRegistry c =
     \<lparr>cfg = c, fw = [], last_seen = [], metrics = newMetrics, logs = [], emitted = [],
      store = None\<rparr>"

definition WithBaselineStore :: "'s \<Rightarrow> 's watcher \<Rightarrow> 's watcher" where
  "WithBaselineStore s w = w\<lparr>store := Some s\<rparr>"

definition log_info :: "string \<Rightarrow> string \<Rightarrow> 's watcher \<Rightarrow> 's watcher" where
  "log_info msg path w = w\<lparr>logs := logs w @ [LogInfo msg path]\<rparr>"

definition log_error :: "string \<Rightarrow> string \<Rightarrow> 's watcher \<Rightarrow> 's watcher" where
  "log_error msg path w = w\<lparr>logs := logs w @ [LogError msg path]\<rparr>"

datatype add_result = AddOk | AddNotExist | AddErr

text \<open>\<open>w.fw.Add\<close> succeeded: fsnotify watches the path, and the gauge counts it.\<close>

definition register :: "string \<Rightarrow> string \<Rightarrow> 's watcher \<Rightarrow> 's watcher" where
  "register msg path w =
     log_info msg path (w\<lparr>fw := fw w @ [path], metrics := incWatchedPaths (metrics w)\<rparr>)"

fun walk_add ::
  "(string \<Rightarrow> add_result) \<Rightarrow> string \<Rightarrow> (string \<times> bool \<times> bool) list \<Rightarrow> 's watcher
   \<Rightarrow> watch_error option \<times> 's watcher" where
  "walk_add fw_add root [] w = (None, w)"
| "walk_add fw_add root ((path, isdir, err) # vs) w =
     (if err then
        if path = root then (Some (WalkFailed root), w)
        else walk_add fw_add root vs (log_error ''walk error, skipping path'' path w)
      else if \<not> isdir then walk_add fw_add root vs w
      else if fw_add path \<noteq> AddOk then
        walk_add fw_add root vs (log_error ''failed to watch directory'' path w)
      else walk_add fw_add root vs (register ''watching directory'' path w))"

definition addPath ::
  "fsys \<Rightarrow> (string \<Rightarrow> add_result) \<Rightarrow> string \<Rightarrow> 's watcher \<Rightarrow> watch_error option \<times> 's watcher"
where
  "addPath fs fw_add root w =
     (if \<not> Recursive (cfg w) then
        (case fw_add root of
           AddNotExist \<Rightarrow> (None, log_error ''watch path does not exist'' root w)
         | AddErr \<Rightarrow> (Some (AddFailed root), w)
         | AddOk \<Rightarrow> (None, register ''watching path'' root w))
      else walk_add fw_add root (walk fs root) w)"

subsection \<open>Events\<close>

datatype fs_op = Create | Write | Remove | Rename | Chmod

record event =
  Name :: string
  Op :: "fs_op list"

definition Has :: "event \<Rightarrow> fs_op \<Rightarrow> bool" where
  "Has e p \<longleftrightarrow> p \<in> set (Op e)"

text \<open>\<open>debounce\<close> at the time \<open>now\<close> that \<open>time.Now\<close> reads.\<close>

definition debounce :: "time \<Rightarrow> string \<Rightarrow> 's watcher \<Rightarrow> bool \<times> 's watcher" where
  "debounce now path w =
     (case map_of (last_seen w) path of
        Some t \<Rightarrow>
          if now - t < DebounceDuration (cfg w) then (False, w)
          else (True, w\<lparr>last_seen := map_set path now (last_seen w)\<rparr>)
      | None \<Rightarrow> (True, w\<lparr>last_seen := map_set path now (last_seen w)\<rparr>))"

definition event_type :: "event \<Rightarrow> string option" where
  "event_type e =
     (if Has e Remove \<or> Has e Rename then Some deletedEvent
      else if Has e Write \<or> Has e Create then Some modifiedEvent
      else None)"

definition handleEvent ::
  "fsys \<Rightarrow> (string \<Rightarrow> add_result) \<Rightarrow> time \<Rightarrow> event \<Rightarrow> 's watcher \<Rightarrow> 's watcher" where
  "handleEvent fs fw_add now e w =
     (case event_type e of
        None \<Rightarrow> w
      | Some eventType \<Rightarrow>
          (case debounce now (Name e) w of
             (False, w1) \<Rightarrow> w1
           | (True, w1) \<Rightarrow>
               let w2 = w1\<lparr>emitted := emitted w1 @ [(eventType, Name e, now)],
                          logs := logs w1 @ [LogInfo ''file event detected'' (Name e)],
                          metrics := setDriftDetected (Name e) eventType True (metrics w1)\<rparr>
               in if Recursive (cfg w2) \<and> Has e Create \<and> stat fs (Name e) = StatDir then
                    if fw_add (Name e) \<noteq> AddOk
                    then log_error ''failed to watch new directory'' (Name e) w2
                    else register ''watching new directory'' (Name e) w2
                  else w2))"

text \<open>
  What the \<open>select\<close> of the event loop can receive, in the order received; each event comes
  with the time at which it is handled and the state of the file system then.
\<close>

datatype input =
    CtxDone
  | Event time fsys event
  | EventsClosed
  | FsError string
  | ErrorsClosed

fun watch :: "(string \<Rightarrow> add_result) \<Rightarrow> input list \<Rightarrow> 's watcher \<Rightarrow> 's watcher" where
  "watch fw_add [] w = w"
| "watch fw_add (CtxDone # is) w =
     log_info ''context cancelled, shutting down watcher'' [] w"
| "watch fw_add (Event now fs e # is) w = watch fw_add is (handleEvent fs fw_add now e w)"
| "watch fw_add (EventsClosed # is) w = w"
| "watch fw_add (FsError msg # is) w =
     watch fw_add is (log_error ''fsnotify watcher error'' msg w)"
| "watch fw_add (ErrorsClosed # is) w = w"

subsection \<open>The baseline at start\<close>

text \<open>The hashes of all watched paths; a root that cannot be hashed is logged and skipped.\<close>

fun hash_roots :: "fsys \<Rightarrow> string list \<Rightarrow> string gomap \<Rightarrow> 's watcher \<Rightarrow> string gomap \<times> 's watcher" where
  "hash_roots fs [] current w = (current, w)"
| "hash_roots fs (root # roots) current w =
     (case hashTree fs root current of
        (None, current') \<Rightarrow> hash_roots fs roots current' w
      | (Some e, current') \<Rightarrow>
          hash_roots fs roots current' (log_error ''baseline: failed to hash watch path'' root w))"

definition clear_drift :: "string \<Rightarrow> fileWatcherMetrics \<Rightarrow> fileWatcherMetrics" where
  "clear_drift path m = setDriftDetected path deletedEvent False (setDriftDetected path modifiedEvent False m)"

text \<open>One iteration of the loop over \<open>current\<close>: it may add the path to \<open>stored\<close>.\<close>

definition compare_path ::
  "string \<times> string \<Rightarrow> string gomap \<times> 's watcher \<Rightarrow> string gomap \<times> 's watcher" where
  "compare_path ph sw =
     (case (ph, sw) of ((path, hash), (stored, w)) \<Rightarrow>
        if hash = [] then
          (stored,
           log_info ''baseline: file no longer present, emitting deleted event'' path
             (w\<lparr>metrics := setDriftDetected path modifiedEvent False
                            (setDriftDetected path deletedEvent True (metrics w))\<rparr>))
        else (case map_of stored path of
            None \<Rightarrow>
              (map_set path hash stored,
               log_info ''baseline: new file detected'' path
                 (w\<lparr>metrics := clear_drift path (metrics w)\<rparr>))
          | Some storedHash \<Rightarrow>
              if storedHash \<noteq> hash then
                (stored,
                 log_info ''baseline: file differs from original, emitting modified event'' path
                   (w\<lparr>metrics := setDriftDetected path deletedEvent False
                                  (setDriftDetected path modifiedEvent True (metrics w))\<rparr>))
              else (stored, w\<lparr>metrics := clear_drift path (metrics w)\<rparr>)))"

definition initBaseline ::
  "('s \<Rightarrow> 'err + string gomap) \<Rightarrow> (string gomap \<Rightarrow> 's \<Rightarrow> 'err option \<times> 's) \<Rightarrow> fsys
   \<Rightarrow> 's watcher \<Rightarrow> 'err option \<times> 's watcher" where
  "initBaseline load save fs w =
     (case hash_roots fs (WatchPaths (cfg w)) [] w of
        (current, w1) \<Rightarrow>
          (case store w1 of
             None \<Rightarrow>
               (None, w1\<lparr>metrics := fold (\<lambda>(path, hash). clear_drift path) current (metrics w1)\<rparr>)
           | Some s \<Rightarrow>
               (case load s of
                  Inl e \<Rightarrow> (Some e, w1)
                | Inr stored \<Rightarrow>
                    (case fold compare_path current (stored, w1) of
                       (stored', w2) \<Rightarrow>
                         (case save stored' s of
                            (err, s') \<Rightarrow> (err, w2\<lparr>store := Some s'\<rparr>))))))"

text \<open>\<open>Run\<close>: register the paths, take the baseline, then process events.\<close>

fun add_paths ::
  "fsys \<Rightarrow> (string \<Rightarrow> add_result) \<Rightarrow> string list \<Rightarrow> 's watcher \<Rightarrow> watch_error option \<times> 's watcher"
where
  "add_paths fs fw_add [] w = (None, w)"
| "add_paths fs fw_add (root # roots) w =
     (case addPath fs fw_add root w of
        (Some e, w') \<Rightarrow> (Some e, w')
      | (None, w') \<Rightarrow> add_paths fs fw_add roots w')"

definition Run ::
  "('s \<Rightarrow> 'err + string gomap) \<Rightarrow> (string gomap \<Rightarrow> 's \<Rightarrow> 'err option \<times> 's) \<Rightarrow> fsys
   \<Rightarrow> (string \<Rightarrow> add_result) \<Rightarrow> input list \<Rightarrow> 's watcher \<Rightarrow> watch_error option \<times> 's watcher"
where
  "Run load save fs fw_add inputs w =
     (case add_paths fs fw_add (WatchPaths (cfg w)) w of
        (Some e, w1) \<Rightarrow> (Some e, w1)
      | (None, w1) \<Rightarrow>
          (case initBaseline load save fs w1 of
             (None, w2) \<Rightarrow> (None, watch fw_add inputs w2)
           | (Some e, w2) \<Rightarrow>
               (None, watch fw_add inputs
                  (log_error ''baseline initialisation failed; continuing without baseline'' [] w2))))"

section \<open>Lemmas\<close>

lemma log_info_simps [simp]:
  "cfg (log_info m p w) = cfg w" "fw (log_info m p w) = fw w"
  "last_seen (log_info m p w) = last_seen w" "metrics (log_info m p w) = metrics w"
  "emitted (log_info m p w) = emitted w" "store (log_info m p w) = store w"
  by (simp_all add: log_info_def)

lemma log_error_simps [simp]:
  "cfg (log_error m p w) = cfg w" "fw (log_error m p w) = fw w"
  "last_seen (log_error m p w) = last_seen w" "metrics (log_error m p w) = metrics w"
  "emitted (log_error m p w) = emitted w" "store (log_error m p w) = store w"
  by (simp_all add: log_error_def)

lemma register_simps [simp]:
  "cfg (register m p w) = cfg w" "fw (register m p w) = fw w @ [p]"
  "last_seen (register m p w) = last_seen w"
  "metrics (register m p w) = incWatchedPaths (metrics w)"
  "emitted (register m p w) = emitted w" "store (register m p w) = store w"
  by (simp_all add: register_def)

lemma watchedPaths_inc [simp]: "watchedPaths (incWatchedPaths m) = Suc (watchedPaths m)"
  by (simp add: incWatchedPaths_def)

lemma drift_inc [simp]: "drift (incWatchedPaths m) = drift m"
  by (simp add: incWatchedPaths_def drift_def fun_eq_iff)

lemma drift_clear [simp]:
  "drift (clear_drift p m) q e =
     (if q = p \<and> (e = modifiedEvent \<or> e = deletedEvent) then Some 0 else drift m q e)"
  by (auto simp: clear_drift_def)

lemma watchedPaths_clear [simp]: "watchedPaths (clear_drift p m) = watchedPaths m"
  by (simp add: clear_drift_def)

subsection \<open>The loop over the current hashes\<close>

text \<open>What the loop decides for one path, and the entry it leaves in the baseline.\<close>

definition is_deleted :: "string \<Rightarrow> bool" where
  "is_deleted hash \<longleftrightarrow> hash = []"

definition is_modified :: "string option \<Rightarrow> string \<Rightarrow> bool" where
  "is_modified storedHash hash \<longleftrightarrow> hash \<noteq> [] \<and> storedHash \<noteq> None \<and> storedHash \<noteq> Some hash"

definition absorb :: "string option \<Rightarrow> string option \<Rightarrow> string option" where
  "absorb storedHash currentHash =
     (case storedHash of
        Some h \<Rightarrow> Some h
      | None \<Rightarrow> (case currentHash of None \<Rightarrow> None | Some h \<Rightarrow> if h = [] then None else Some h))"

lemma compare_path_lookup:
  "map_of (fst (compare_path (p, h) (stored, w))) q =
     (if q = p then absorb (map_of stored p) (Some h) else map_of stored q)"
  by (auto simp: compare_path_def absorb_def split: option.splits)

lemma compare_path_wf: "wf_map stored \<Longrightarrow> wf_map (fst (compare_path ph (stored, w)))"
  by (auto simp: compare_path_def split: option.splits prod.splits)

lemma compare_path_drift:
  "drift (metrics (snd (compare_path (p, h) (stored, w)))) q e =
     (if q = p \<and> e = deletedEvent then Some (if is_deleted h then 1 else 0)
      else if q = p \<and> e = modifiedEvent
        then Some (if is_modified (map_of stored p) h then 1 else 0)
      else drift (metrics w) q e)"
  by (auto simp: compare_path_def is_deleted_def is_modified_def split: option.splits)

lemma compare_path_frame [simp]:
  "cfg (snd (compare_path ph (stored, w))) = cfg w"
  "fw (snd (compare_path ph (stored, w))) = fw w"
  "store (snd (compare_path ph (stored, w))) = store w"
  "watchedPaths (metrics (snd (compare_path ph (stored, w)))) = watchedPaths (metrics w)"
  "last_seen (snd (compare_path ph (stored, w))) = last_seen w"
  "emitted (snd (compare_path ph (stored, w))) = emitted w"
  by (auto simp: compare_path_def split: option.splits prod.splits)

lemma fold_compare_wf:
  "wf_map (fst sw) \<Longrightarrow> wf_map (fst (fold compare_path current sw))"
proof (induction current arbitrary: sw)
  case (Cons ph current)
  then show ?case by (cases sw) (auto intro!: Cons.IH compare_path_wf)
qed simp

lemma fold_compare_lookup:
  assumes "wf_map current"
  shows "map_of (fst (fold compare_path current sw)) q =
    absorb (map_of (fst sw) q) (map_of current q)"
  using assms
proof (induction current arbitrary: sw)
  case Nil
  then show ?case by (auto simp: absorb_def split: option.splits)
next
  case (Cons ph current)
  obtain p h where ph: "ph = (p, h)" by (cases ph)
  obtain stored w where sw: "sw = (stored, w)" by (cases sw)
  have none: "map_of current p = None"
    using Cons.prems by (simp add: ph wf_map_def map_of_eq_None_iff)
  have "map_of (fst (fold compare_path current (compare_path (p, h) (stored, w)))) q
      = absorb (map_of (fst (compare_path (p, h) (stored, w))) q) (map_of current q)"
    using Cons.prems by (intro Cons.IH) (simp add: ph)
  then show ?case
    using none by (auto simp: ph sw compare_path_lookup absorb_def split: option.splits)
qed

lemma fold_compare_drift:
  assumes "wf_map current"
  shows "drift (metrics (snd (fold compare_path current sw))) q e =
    (case map_of current q of
       None \<Rightarrow> drift (metrics (snd sw)) q e
     | Some h \<Rightarrow>
         if e = deletedEvent then Some (if is_deleted h then 1 else 0)
         else if e = modifiedEvent then Some (if is_modified (map_of (fst sw) q) h then 1 else 0)
         else drift (metrics (snd sw)) q e)"
  using assms
proof (induction current arbitrary: sw)
  case Nil
  then show ?case by simp
next
  case (Cons ph current)
  obtain p h where ph: "ph = (p, h)" by (cases ph)
  obtain stored w where sw: "sw = (stored, w)" by (cases sw)
  have none: "map_of current p = None"
    using Cons.prems by (simp add: ph wf_map_def map_of_eq_None_iff)
  note IH = Cons.IH [of "compare_path (p, h) (stored, w)"]
  show ?case
    using IH Cons.prems none
    by (auto simp: ph sw compare_path_drift compare_path_lookup split: option.splits)
qed

lemma hash_roots_wf: "wf_map current \<Longrightarrow> wf_map (fst (hash_roots fs roots current w))"
proof (induction fs roots current w rule: hash_roots.induct)
  case (2 fs root roots current w)
  obtain e c where "hashTree fs root current = (e, c)" by (cases "hashTree fs root current")
  with 2 hashTree_wf [of current fs root] show ?case by (cases e) auto
qed simp

lemma hash_roots_frame [simp]:
  "cfg (snd (hash_roots fs roots current w)) = cfg w"
  "fw (snd (hash_roots fs roots current w)) = fw w"
  "store (snd (hash_roots fs roots current w)) = store w"
  "metrics (snd (hash_roots fs roots current w)) = metrics w"
  "emitted (snd (hash_roots fs roots current w)) = emitted w"
  "last_seen (snd (hash_roots fs roots current w)) = last_seen w"
  by (induction fs roots current w rule: hash_roots.induct) (auto split: option.splits prod.splits)

text \<open>The hashes do not depend on the watcher's log.\<close>

definition current_hashes :: "fsys \<Rightarrow> string list \<Rightarrow> string gomap" where
  "current_hashes fs roots = fold (\<lambda>root out. snd (hashTree fs root out)) roots []"

lemma hash_roots_current: "fst (hash_roots fs roots [] w) = current_hashes fs roots"
proof -
  have "fst (hash_roots fs roots out w) = fold (\<lambda>root out. snd (hashTree fs root out)) roots out" for out
    by (induction fs roots out w rule: hash_roots.induct) (auto split: option.splits prod.splits)
  then show ?thesis by (simp add: current_hashes_def)
qed

lemma current_hashes_wf [simp]: "wf_map (current_hashes fs roots)"
  using hash_roots_wf [of "[]" fs roots undefined] by (simp add: hash_roots_current)

lemma initBaseline_store:
  assumes "store w = Some s"
  shows "initBaseline load save fs w =
    (case load s of
       Inl e \<Rightarrow> (Some e, snd (hash_roots fs (WatchPaths (cfg w)) [] w))
     | Inr stored \<Rightarrow>
         (let r = fold compare_path (current_hashes fs (WatchPaths (cfg w)))
                    (stored, snd (hash_roots fs (WatchPaths (cfg w)) [] w))
          in (fst (save (fst r) s), (snd r)\<lparr>store := Some (snd (save (fst r) s))\<rparr>)))"
proof -
  let ?h = "hash_roots fs (WatchPaths (cfg w)) [] w"
  have h: "?h = (current_hashes fs (WatchPaths (cfg w)), snd ?h)"
    by (simp add: prod_eq_iff hash_roots_current)
  show ?thesis
    unfolding initBaseline_def
    by (subst h) (simp add: assms Let_def case_prod_beta split: sum.splits)
qed

subsection \<open>The baseline through the store's contract\<close>

context baseline_store
begin

lemma baseline_after:
  assumes inv: "invar s" and st: "store w = Some s" and ld: "load s = Inr stored"
    and ok: "initBaseline load save fs w = (None, w')"
  shows "\<exists>s' h'. store w' = Some s' \<and> load s' = Inr h' \<and> wf_map h' \<and>
    (\<forall>p. map_of h' p =
       absorb (map_of stored p) (map_of (current_hashes fs (WatchPaths (cfg w))) p))"
proof -
  let ?r = "fold compare_path (current_hashes fs (WatchPaths (cfg w)))
              (stored, snd (hash_roots fs (WatchPaths (cfg w)) [] w))"
  have wf: "wf_map (fst ?r)"
    using load_wf [OF inv ld] by (simp add: fold_compare_wf)
  obtain s' where sv: "save (fst ?r) s = (None, s')" and s': "store w' = Some s'"
    using ok by (cases "save (fst ?r) s") (auto simp: initBaseline_store [OF st] ld Let_def)
  from saved_lookup [OF inv wf sv] obtain h' where
    "load s' = Inr h'" "wf_map h'" "\<forall>p. map_of h' p = map_of (fst ?r) p" by blast
  with s' show ?thesis by (auto simp: fold_compare_lookup)
qed

end

lemma initBaseline_drift:
  assumes st: "store w = Some s" and ld: "load s = Inr stored"
    and run: "initBaseline load save fs w = (err, w')"
  shows "drift (metrics w') p e =
    (case map_of (current_hashes fs (WatchPaths (cfg w))) p of
       None \<Rightarrow> drift (metrics w) p e
     | Some h \<Rightarrow>
         if e = deletedEvent then Some (if is_deleted h then 1 else 0)
         else if e = modifiedEvent then Some (if is_modified (map_of stored p) h then 1 else 0)
         else drift (metrics w) p e)"
proof -
  have w': "metrics w' = metrics (snd (fold compare_path (current_hashes fs (WatchPaths (cfg w)))
              (stored, snd (hash_roots fs (WatchPaths (cfg w)) [] w))))"
    using run by (auto simp: initBaseline_store [OF st] ld Let_def)
  show ?thesis
    by (simp add: w' fold_compare_drift split: option.splits)
qed

lemma compare_path_frame' [simp]:
  "cfg (snd (compare_path ph sw)) = cfg (snd sw)"
  "fw (snd (compare_path ph sw)) = fw (snd sw)"
  "watchedPaths (metrics (snd (compare_path ph sw))) = watchedPaths (metrics (snd sw))"
  "last_seen (snd (compare_path ph sw)) = last_seen (snd sw)"
  "emitted (snd (compare_path ph sw)) = emitted (snd sw)"
  by (cases sw; simp)+

lemma fold_compare_frame [simp]:
  "cfg (snd (fold compare_path current sw)) = cfg (snd sw)"
  "fw (snd (fold compare_path current sw)) = fw (snd sw)"
  "watchedPaths (metrics (snd (fold compare_path current sw))) = watchedPaths (metrics (snd sw))"
  "last_seen (snd (fold compare_path current sw)) = last_seen (snd sw)"
  "emitted (snd (fold compare_path current sw)) = emitted (snd sw)"
  by (induction current arbitrary: sw) auto

lemma fold_clear_frame: "watchedPaths (fold (\<lambda>(path, hash). clear_drift path) current m) = watchedPaths m"
  by (induction current arbitrary: m) auto

lemma initBaseline_frame:
  assumes "initBaseline load save fs w = (err, w')"
  shows "cfg w' = cfg w" "fw w' = fw w" "watchedPaths (metrics w') = watchedPaths (metrics w)"
    "last_seen w' = last_seen w" "emitted w' = emitted w"
proof -
  have "cfg w' = cfg w \<and> fw w' = fw w \<and> watchedPaths (metrics w') = watchedPaths (metrics w)
    \<and> last_seen w' = last_seen w \<and> emitted w' = emitted w"
  proof (cases "store w")
    case None
    obtain current w1 where h: "hash_roots fs (WatchPaths (cfg w)) [] w = (current, w1)"
      by (cases "hash_roots fs (WatchPaths (cfg w)) [] w")
    with hash_roots_frame [of fs "WatchPaths (cfg w)" "[]" w] assms None show ?thesis
      by (auto simp: initBaseline_def fold_clear_frame)
  next
    case (Some s)
    with assms show ?thesis
      by (auto simp: initBaseline_store [OF Some] Let_def split: sum.splits)
  qed
  then show "cfg w' = cfg w" "fw w' = fw w" "watchedPaths (metrics w') = watchedPaths (metrics w)"
    "last_seen w' = last_seen w" "emitted w' = emitted w" by auto
qed

subsection \<open>The gauge of watched paths\<close>

definition gauge_ok :: "'s watcher \<Rightarrow> bool" where
  "gauge_ok w \<longleftrightarrow> watchedPaths (metrics w) = length (fw w)"

lemma gauge_ok_log [simp]:
  "gauge_ok (log_info m p w) = gauge_ok w" "gauge_ok (log_error m p w) = gauge_ok w"
  by (simp_all add: gauge_ok_def)

lemma gauge_ok_register [simp]: "gauge_ok (register m p w) = gauge_ok w"
  by (simp add: gauge_ok_def)

lemma gauge_ok_walk_add: "gauge_ok w \<Longrightarrow> gauge_ok (snd (walk_add fw_add root vs w))"
  by (induction fw_add root vs w rule: walk_add.induct) auto

lemma gauge_ok_addPath: "gauge_ok w \<Longrightarrow> gauge_ok (snd (addPath fs fw_add root w))"
  by (auto simp: addPath_def gauge_ok_walk_add split: add_result.splits)

lemma gauge_ok_add_paths: "gauge_ok w \<Longrightarrow> gauge_ok (snd (add_paths fs fw_add roots w))"
proof (induction fs fw_add roots w rule: add_paths.induct)
  case (2 fs fw_add root roots w)
  then show ?case
    using gauge_ok_addPath [of w fs fw_add root] by (auto split: prod.splits option.splits)
qed simp

lemma gauge_ok_handleEvent: "gauge_ok w \<Longrightarrow> gauge_ok (handleEvent fs fw_add now e w)"
  by (auto simp: handleEvent_def debounce_def gauge_ok_def Let_def
      split: option.splits prod.splits bool.splits)

lemma gauge_ok_watch: "gauge_ok w \<Longrightarrow> gauge_ok (watch fw_add is w)"
  by (induction fw_add "is" w rule: watch.induct) (auto simp: gauge_ok_handleEvent)

lemma gauge_ok_initBaseline:
  "gauge_ok w \<Longrightarrow> initBaseline load save fs w = (err, w') \<Longrightarrow> gauge_ok w'"
  by (simp add: gauge_ok_def initBaseline_frame)

lemma gauge_ok_Run: "gauge_ok w \<Longrightarrow> gauge_ok (snd (Run load save fs fw_add inputs w))"
  using gauge_ok_add_paths [of w fs fw_add "WatchPaths (cfg w)"]
  by (auto simp: Run_def intro!: gauge_ok_watch dest: gauge_ok_initBaseline
      split: prod.splits option.splits)

subsection \<open>Debouncing\<close>

definition times_of :: "string \<Rightarrow> 's watcher \<Rightarrow> time list" where
  "times_of p w = map (\<lambda>(_, _, t). t) (filter (\<lambda>(_, q, _). q = p) (emitted w))"

definition apart :: "duration \<Rightarrow> time list \<Rightarrow> bool" where
  "apart d ts = sorted_wrt (\<lambda>a b. d \<le> b - a) ts"

text \<open>
  The emissions of every path are at least the debounce interval apart, and \<open>last_seen\<close>
  holds the time of the latest one.
\<close>

definition debounce_inv :: "'s watcher \<Rightarrow> bool" where
  "debounce_inv w \<longleftrightarrow>
     (\<forall>p. apart (DebounceDuration (cfg w)) (times_of p w) \<and>
          map_of (last_seen w) p =
            (if times_of p w = [] then None else Some (last (times_of p w))))"

lemma times_of_frame [simp]:
  "times_of p (log_info m q w) = times_of p w" "times_of p (log_error m q w) = times_of p w"
  "times_of p (register m q w) = times_of p w"
  by (simp_all add: times_of_def)

lemma debounce_inv_frame [simp]:
  "debounce_inv (log_info m q w) = debounce_inv w"
  "debounce_inv (log_error m q w) = debounce_inv w"
  "debounce_inv (register m q w) = debounce_inv w"
  by (simp_all add: debounce_inv_def)

lemma apart_Nil [simp]: "apart d []"
  by (simp add: apart_def)

lemma apart_snoc:
  assumes "0 \<le> d" "apart d ts" "ts \<noteq> [] \<Longrightarrow> d \<le> t - last ts"
  shows "apart d (ts @ [t])"
  using assms
proof (induction ts)
  case Nil
  then show ?case by (simp add: apart_def)
next
  case (Cons x ts)
  show ?case
  proof (cases "ts = []")
    case True
    with Cons.prems show ?thesis by (simp add: apart_def)
  next
    case False
    with Cons.prems have "d \<le> last ts - x" "d \<le> t - last ts" by (simp_all add: apart_def)
    with Cons.prems(1) have "d \<le> t - x" by linarith
    with Cons False show ?thesis by (auto simp: apart_def)
  qed
qed

text \<open>An event is emitted unless an earlier emission of its path is too close.\<close>

definition emits :: "time \<Rightarrow> event \<Rightarrow> 's watcher \<Rightarrow> bool" where
  "emits now e w \<longleftrightarrow> event_type e \<noteq> None \<and>
     (case map_of (last_seen w) (Name e) of
        None \<Rightarrow> True | Some t \<Rightarrow> DebounceDuration (cfg w) \<le> now - t)"

lemma handleEvent_not_emits: "\<not> emits now e w \<Longrightarrow> handleEvent fs fw_add now e w = w"
  by (auto simp: handleEvent_def emits_def debounce_def split: option.splits)

lemma handleEvent_emits:
  assumes "emits now e w" "event_type e = Some et"
  shows "cfg (handleEvent fs fw_add now e w) = cfg w"
    "last_seen (handleEvent fs fw_add now e w) = map_set (Name e) now (last_seen w)"
    "emitted (handleEvent fs fw_add now e w) = emitted w @ [(et, Name e, now)]"
    "drift (metrics (handleEvent fs fw_add now e w)) p ev =
       (if (p, ev) = (Name e, et) then Some 1 else drift (metrics w) p ev)"
  using assms
  by (auto simp: handleEvent_def emits_def debounce_def Let_def split: option.splits)

lemma debounce_inv_handleEvent:
  assumes "0 \<le> DebounceDuration (cfg w)" "debounce_inv w"
  shows "debounce_inv (handleEvent fs fw_add now e w)"
proof (cases "emits now e w")
  case False
  with assms show ?thesis by (simp add: handleEvent_not_emits)
next
  case True
  then obtain et where et: "event_type e = Some et" by (auto simp: emits_def)
  let ?w = "handleEvent fs fw_add now e w"
  note h = handleEvent_emits [OF True et, of fs fw_add]
  have times: "times_of p ?w = (if p = Name e then times_of p w @ [now] else times_of p w)" for p
    by (simp add: times_of_def h)
  have "apart (DebounceDuration (cfg w)) (times_of (Name e) w @ [now])"
    using True assms
    by (intro apart_snoc) (auto simp: emits_def debounce_inv_def split: option.splits if_splits)
  with assms show ?thesis
    by (simp add: debounce_inv_def times h)
qed

lemma cfg_handleEvent [simp]: "cfg (handleEvent fs fw_add now e w) = cfg w"
  by (auto simp: handleEvent_def debounce_def Let_def split: option.splits prod.splits bool.splits)

lemma debounce_inv_watch:
  "0 \<le> DebounceDuration (cfg w) \<Longrightarrow> debounce_inv w \<Longrightarrow> debounce_inv (watch fw_add is w)"
  by (induction fw_add "is" w rule: watch.induct) (auto simp: debounce_inv_handleEvent)

lemma cfg_watch [simp]: "cfg (watch fw_add is w) = cfg w"
  by (induction fw_add "is" w rule: watch.induct) auto

lemma walk_add_frame:
  "cfg (snd (walk_add fw_add root vs w)) = cfg w \<and>
   last_seen (snd (walk_add fw_add root vs w)) = last_seen w \<and>
   emitted (snd (walk_add fw_add root vs w)) = emitted w"
  by (induction fw_add root vs w rule: walk_add.induct) auto

lemma addPath_frame:
  "cfg (snd (addPath fs fw_add root w)) = cfg w \<and>
   last_seen (snd (addPath fs fw_add root w)) = last_seen w \<and>
   emitted (snd (addPath fs fw_add root w)) = emitted w"
  by (auto simp: addPath_def walk_add_frame split: add_result.splits)

lemma add_paths_frame:
  "cfg (snd (add_paths fs fw_add roots w)) = cfg w \<and>
   last_seen (snd (add_paths fs fw_add roots w)) = last_seen w \<and>
   emitted (snd (add_paths fs fw_add roots w)) = emitted w"
proof (induction fs fw_add roots w rule: add_paths.induct)
  case (2 fs fw_add root roots w)
  then show ?case
    using addPath_frame [of fs fw_add root w] by (auto split: prod.splits option.splits)
qed simp

lemma debounce_inv_cong:
  "\<lbrakk>cfg w' = cfg w; last_seen w' = last_seen w; emitted w' = emitted w\<rbrakk>
   \<Longrightarrow> debounce_inv w' = debounce_inv w"
  by (simp add: debounce_inv_def times_of_def)

lemma Run_debounce_inv:
  assumes "0 \<le> DebounceDuration (cfg w)" "debounce_inv w"
  shows "debounce_inv (snd (Run load save fs fw_add inputs w))
    \<and> cfg (snd (Run load save fs fw_add inputs w)) = cfg w"
proof -
  obtain e1 w1 where a: "add_paths fs fw_add (WatchPaths (cfg w)) w = (e1, w1)"
    by (cases "add_paths fs fw_add (WatchPaths (cfg w)) w")
  with add_paths_frame [of fs fw_add "WatchPaths (cfg w)" w] assms
  have w1: "debounce_inv w1" "cfg w1 = cfg w"
    by (auto cong: debounce_inv_cong simp: debounce_inv_cong [of w1 w])
  obtain e2 w2 where b: "initBaseline load save fs w1 = (e2, w2)"
    by (cases "initBaseline load save fs w1")
  have w2: "debounce_inv w2" "cfg w2 = cfg w"
    using initBaseline_frame [OF b] w1 by (simp_all add: debounce_inv_cong [of w2 w1])
  show ?thesis
    using w1 w2 assms by (auto simp: Run_def a b debounce_inv_watch split: option.splits)
qed

section \<open>Properties\<close>

text \<open>
  C7. The baseline survives a restart: after a successful \<open>Save\<close> of the hashes, \<open>Load\<close>
  returns the same map, whatever the paths are (the hex encoding of the Secret's keys loses
  nothing and the order in which Go visits either map does not matter).
\<close>

theorem baseline_roundtrip:
  assumes "secret_invar s" "wf_map hashes" "Save hashes s = (None, s')"
  shows "\<exists>h. Load s' = Inr h \<and> same_map h hashes"
  by (rule secret_store.save_load [OF assms])

definition demo_secret :: secret_api where
  "demo_secret = \<lparr>secret_data = None, get_fails = False, write_fails = False\<rparr>"

theorem baseline_roundtrip_witness:
  "\<exists>h. Load (snd (Save [(''/etc/a'', ''0a''), (''b'', ''ff'')] demo_secret)) = Inr h \<and>
     same_map h [(''/etc/a'', ''0a''), (''b'', ''ff'')]"
  by (rule baseline_roundtrip [of demo_secret])
     (simp_all add: demo_secret_def secret_invar_def Save_def)

text \<open>
  C12. The verdict of the start-up check, for every watched path and whatever the order of the
  loop: a root that no longer exists raises \<open>deleted\<close> and nothing else; a file raises
  \<open>modified\<close> exactly when the baseline knows it with another hash; a file the baseline does
  not know raises nothing. It holds whether or not the final save succeeds.
\<close>

theorem initBaseline_verdicts:
  assumes "store w = Some s" "Load s = Inr stored"
    and "initBaseline Load Save fs w = (err, w')"
    and "map_of (current_hashes fs (WatchPaths (cfg w))) path = Some hash"
  shows "drift (metrics w') path deletedEvent = Some (if hash = [] then 1 else 0) \<and>
    drift (metrics w') path modifiedEvent =
      Some (if hash \<noteq> [] \<and> (\<exists>h. map_of stored path = Some h \<and> h \<noteq> hash) then 1 else 0)"
  using initBaseline_drift [OF assms(1-3)] assms(4)
  by (auto simp: is_deleted_def is_modified_def)

definition demo_fs :: "read_result \<Rightarrow> fsys" where
  "demo_fs r = \<lparr>stat = (\<lambda>p. if p = ''/f'' then StatFile else StatNotExist),
                read_file = (\<lambda>p. r), walk = (\<lambda>p. [])\<rparr>"

definition demo_watcher :: "secret_api watcher" where
  "demo_watcher = WithBaselineStore (demo_secret\<lparr>secret_data := Some [(hex_encode ''/f'', ''0'')]\<rparr>)
     (newWatcherWithRegistry
       \<lparr>WatchPaths = [''/f'', ''/gone''], Recursive = True, MetricsAddr = [], DebounceDuration = 100,
        BaselineSecretNamespace = [], BaselineSecretName = [], BaselineEnabled = True\<rparr>)"

lemma demo_hash: "hashFile (demo_fs (Content ''ab'')) ''/f'' = Inr ''089c4407b545986a''"
  by (simp add: demo_fs_def hashFile_def fnv64a_def fnv64_step_def hex_nat.simps pad_def
      digit_char_def) code_simp

lemma demo_current:
  "current_hashes (demo_fs (Content ''ab'')) [''/f'', ''/gone'']
     = [(''/f'', ''089c4407b545986a''), (''/gone'', [])]"
  using demo_hash by (simp add: current_hashes_def hashTree_def demo_fs_def)

lemma demo_load:
  "Load (demo_secret\<lparr>secret_data := Some [(hex_encode ''/f'', ''0'')]\<rparr>) = Inr [(''/f'', ''0'')]"
  by (simp add: Load_def demo_secret_def)

lemma demo_watcher_simps [simp]:
  "store demo_watcher = Some (demo_secret\<lparr>secret_data := Some [(hex_encode ''/f'', ''0'')]\<rparr>)"
  "WatchPaths (cfg demo_watcher) = [''/f'', ''/gone'']"
  by (simp_all add: demo_watcher_def WithBaselineStore_def newWatcherWithRegistry_def)

theorem initBaseline_verdicts_witness:
  "drift (metrics (snd (initBaseline Load Save (demo_fs (Content ''ab'')) demo_watcher)))
     ''/f'' modifiedEvent = Some 1
   \<and> drift (metrics (snd (initBaseline Load Save (demo_fs (Content ''ab'')) demo_watcher)))
     ''/gone'' deletedEvent = Some 1"
proof -
  let ?r = "initBaseline Load Save (demo_fs (Content ''ab'')) demo_watcher"
  have r: "?r = (fst ?r, snd ?r)" by simp
  note v = initBaseline_verdicts [OF demo_watcher_simps(1) demo_load r]
  show ?thesis
    using v [of "''/f''" "''089c4407b545986a''"] v [of "''/gone''" "[]"] by (simp add: demo_current)
qed

text \<open>
  C14. What the start-up check leaves in the Secret: a successful run keeps every hash the
  baseline already had, adds the hash of every existing file it did not know, and adds
  nothing else. A modified file stays flagged on every later start, because its original
  hash is never overwritten.
\<close>

theorem initBaseline_absorbs:
  assumes "secret_invar s" "store w = Some s" "Load s = Inr stored"
    and "initBaseline Load Save fs w = (None, w')"
  shows "\<exists>s' saved. store w' = Some s' \<and> Load s' = Inr saved \<and>
    (\<forall>path. map_of saved path =
       (case map_of stored path of
          Some h \<Rightarrow> Some h
        | None \<Rightarrow> (case map_of (current_hashes fs (WatchPaths (cfg w))) path of
                     None \<Rightarrow> None | Some h \<Rightarrow> if h = [] then None else Some h)))"
  using secret_store.baseline_after [OF assms] by (auto simp: absorb_def)

theorem initBaseline_absorbs_witness:
  "\<exists>s' saved. store (snd (initBaseline Load Save (demo_fs (Content ''ab'')) demo_watcher)) = Some s'
     \<and> Load s' = Inr saved \<and> map_of saved ''/f'' = Some ''0'' \<and> map_of saved ''/gone'' = None"
proof -
  let ?s = "demo_secret\<lparr>secret_data := Some [(hex_encode ''/f'', ''0'')]\<rparr>"
  have inv: "secret_invar ?s" by (simp add: secret_invar_def)
  have ok: "fst (initBaseline Load Save (demo_fs (Content ''ab'')) demo_watcher) = None"
    using demo_load
    by (simp add: initBaseline_store Let_def Save_def demo_secret_def split: option.splits)
  have "initBaseline Load Save (demo_fs (Content ''ab'')) demo_watcher
    = (None, snd (initBaseline Load Save (demo_fs (Content ''ab'')) demo_watcher))"
    using ok by (simp add: prod_eq_iff)
  from initBaseline_absorbs [OF inv demo_watcher_simps(1) demo_load this] show ?thesis
    by (force simp: demo_current)
qed

text \<open>
  C8. Restarts agree: when the files do not change between two starts and the first start
  saved its baseline, the second start gives every watched path the verdict of the first, so
  a drift is neither forgotten nor invented by a restart of the pod.
\<close>

theorem restart_stable:
  assumes "secret_invar s" "store w = Some s" "Load s = Inr stored"
    and "initBaseline Load Save fs w = (None, w1)"
    and "initBaseline Load Save fs w1 = (err, w2)"
    and "path \<in> fst ` set (current_hashes fs (WatchPaths (cfg w)))"
    and "e = deletedEvent \<or> e = modifiedEvent"
  shows "drift (metrics w2) path e = drift (metrics w1) path e"
proof -
  obtain s1 saved where s1: "store w1 = Some s1" "Load s1 = Inr saved"
    and sv: "\<And>p. map_of saved p =
       absorb (map_of stored p) (map_of (current_hashes fs (WatchPaths (cfg w))) p)"
    using secret_store.baseline_after [OF assms(1-4)] by blast
  have c: "cfg w1 = cfg w" using initBaseline_frame [OF assms(4)] by simp
  obtain hash where "map_of (current_hashes fs (WatchPaths (cfg w))) path = Some hash"
    using assms(6) by (metis domIff dom_map_of_conv_image_fst option.exhaust)
  then show ?thesis
    using assms(7) initBaseline_drift [OF assms(2-4)] initBaseline_drift [OF s1 assms(5)] sv [of path]
    by (auto simp: c is_modified_def absorb_def split: option.splits)
qed

theorem restart_stable_witness:
  "let w1 = snd (initBaseline Load Save (demo_fs (Content ''ab'')) demo_watcher);
       w2 = snd (initBaseline Load Save (demo_fs (Content ''ab'')) w1)
   in drift (metrics w2) ''/f'' modifiedEvent = drift (metrics w1) ''/f'' modifiedEvent"
proof -
  let ?s = "demo_secret\<lparr>secret_data := Some [(hex_encode ''/f'', ''0'')]\<rparr>"
  let ?w1 = "snd (initBaseline Load Save (demo_fs (Content ''ab'')) demo_watcher)"
  have inv: "secret_invar ?s" by (simp add: secret_invar_def)
  have ok: "fst (initBaseline Load Save (demo_fs (Content ''ab'')) demo_watcher) = None"
    using demo_load
    by (simp add: initBaseline_store Let_def Save_def demo_secret_def split: option.splits)
  have 1: "initBaseline Load Save (demo_fs (Content ''ab'')) demo_watcher = (None, ?w1)"
    using ok by (simp add: prod_eq_iff)
  have 2: "initBaseline Load Save (demo_fs (Content ''ab'')) ?w1
    = (fst (initBaseline Load Save (demo_fs (Content ''ab'')) ?w1),
       snd (initBaseline Load Save (demo_fs (Content ''ab'')) ?w1))" by simp
  show ?thesis
    using restart_stable [OF inv demo_watcher_simps(1) demo_load 1 2, of "''/f''" modifiedEvent]
    by (simp add: demo_current Let_def)
qed

text \<open>
  C14. Debouncing: over a whole run of the watcher, with a debounce interval that is not
  negative, any two log lines (and gauge updates) emitted for one path are at least the
  interval apart, whatever the sequence of events, errors and file system changes is.
\<close>

theorem emissions_apart:
  fixes load :: "'s \<Rightarrow> 'err + string gomap"
  assumes "0 \<le> DebounceDuration c"
  shows "apart (DebounceDuration c)
    (times_of path (snd (Run load save fs fw_add inputs (newWatcherWithRegistry c))))"
proof -
  let ?w = "newWatcherWithRegistry c :: 's watcher"
  have inv: "debounce_inv ?w"
    by (simp add: debounce_inv_def times_of_def newWatcherWithRegistry_def)
  have c: "cfg ?w = c" by (simp add: newWatcherWithRegistry_def)
  show ?thesis
    using Run_debounce_inv [of ?w load save fs fw_add inputs] inv assms
    by (auto simp: debounce_inv_def c)
qed

theorem emissions_apart_witness:
  "apart 100 (times_of ''/f''
     (snd (Run Load Save (demo_fs CannotOpen) (\<lambda>_. AddOk)
        [Event 5 (demo_fs CannotOpen) \<lparr>Name = ''/f'', Op = [Write]\<rparr>]
        (newWatcherWithRegistry (cfg demo_watcher)))))"
  using emissions_apart [of "cfg demo_watcher" "''/f''" Load Save]
  by (simp add: demo_watcher_def WithBaselineStore_def newWatcherWithRegistry_def)

text \<open>
  C12. No event is lost beyond that: handling an event emits it and sets its gauge to 1,
  unless it is a pure permission change or an emission of the same path lies less than the
  interval before it; a suppressed event changes nothing.
\<close>

theorem handleEvent_spec:
  "(\<not> emits now e w \<longrightarrow> handleEvent fs fw_add now e w = w)
   \<and> (emits now e w \<longrightarrow>
       (let et = (if Has e Remove \<or> Has e Rename then deletedEvent else modifiedEvent);
            w' = handleEvent fs fw_add now e w
        in drift (metrics w') (Name e) et = Some 1
         \<and> emitted w' = emitted w @ [(et, Name e, now)]
         \<and> map_of (last_seen w') (Name e) = Some now))"
proof (cases "emits now e w")
  case True
  then obtain et where et: "event_type e = Some et" by (auto simp: emits_def)
  then have "et = (if Has e Remove \<or> Has e Rename then deletedEvent else modifiedEvent)"
    by (auto simp: event_type_def split: if_splits)
  with handleEvent_emits [OF True et] True show ?thesis by (simp add: Let_def)
qed (simp add: handleEvent_not_emits)

theorem handleEvent_spec_witness:
  "drift (metrics (handleEvent (demo_fs CannotOpen) (\<lambda>_. AddOk) 7 \<lparr>Name = ''/f'', Op = [Rename]\<rparr>
     demo_watcher)) ''/f'' deletedEvent = Some 1"
proof -
  have "emits 7 \<lparr>Name = ''/f'', Op = [Rename]\<rparr> demo_watcher"
    by (simp add: emits_def event_type_def Has_def demo_watcher_def WithBaselineStore_def
        newWatcherWithRegistry_def)
  with handleEvent_spec [of 7 "\<lparr>Name = ''/f'', Op = [Rename]\<rparr>" demo_watcher "demo_fs CannotOpen"
      "\<lambda>_. AddOk"]
  show ?thesis by (simp add: Has_def Let_def)
qed

text \<open>
  C18. The gauge \<open>watched_paths\<close> equals the number of paths registered with fsnotify at the
  end of every run, whichever registrations failed on the way.
\<close>

theorem watched_paths_gauge:
  "watchedPaths (metrics (snd (Run load save fs fw_add inputs (newWatcherWithRegistry c)))) =
     length (fw (snd (Run load save fs fw_add inputs (newWatcherWithRegistry c))))"
  using gauge_ok_Run [of "newWatcherWithRegistry c" load save fs fw_add inputs]
  by (simp add: gauge_ok_def newWatcherWithRegistry_def newMetrics_def)

text \<open>
  C19. The start-up check looks only at files that exist now and at missing roots: a file
  below a watched directory that the baseline knows and that has been deleted keeps its
  gauges untouched, so its deletion while the watcher was down is not reported.
\<close>

theorem deleted_file_below_directory_not_flagged:
  assumes "store w = Some s" "Load s = Inr stored" "map_of stored path = Some hash"
    and "path \<notin> fst ` set (current_hashes fs (WatchPaths (cfg w)))"
    and "initBaseline Load Save fs w = (err, w')"
  shows "drift (metrics w') path e = drift (metrics w) path e"
proof -
  have "map_of (current_hashes fs (WatchPaths (cfg w))) path = None"
    using assms(4) by (simp add: map_of_eq_None_iff)
  with initBaseline_drift [OF assms(1,2,5)] show ?thesis by simp
qed

definition empty_dir_fs :: fsys where
  "empty_dir_fs = \<lparr>stat = (\<lambda>p. if p = ''/d'' then StatDir else StatNotExist),
     read_file = (\<lambda>p. CannotOpen), walk = (\<lambda>p. [(p, True, False)])\<rparr>"

theorem deleted_file_below_directory_witness:
  "drift (metrics (snd (initBaseline Load Save empty_dir_fs
     (demo_watcher\<lparr>cfg := (cfg demo_watcher)\<lparr>WatchPaths := [''/d'']\<rparr>,
        store := Some (demo_secret\<lparr>secret_data := Some [(hex_encode ''/d/x'', ''0'')]\<rparr>)\<rparr>))))
     ''/d/x'' deletedEvent = None"
proof -
  let ?s = "demo_secret\<lparr>secret_data := Some [(hex_encode ''/d/x'', ''0'')]\<rparr>"
  let ?w = "demo_watcher\<lparr>cfg := (cfg demo_watcher)\<lparr>WatchPaths := [''/d'']\<rparr>, store := Some ?s\<rparr>"
  have ld: "Load ?s = Inr [(''/d/x'', ''0'')]" by (simp add: Load_def demo_secret_def)
  have cur: "current_hashes empty_dir_fs [''/d''] = []"
    by (simp add: current_hashes_def hashTree_def empty_dir_fs_def hash_visit_def)
  have st: "store ?w = Some ?s" by simp
  have r: "initBaseline Load Save empty_dir_fs ?w
    = (fst (initBaseline Load Save empty_dir_fs ?w), snd (initBaseline Load Save empty_dir_fs ?w))"
    by simp
  have "drift (metrics ?w) ''/d/x'' deletedEvent = None"
    by (simp add: drift_def demo_watcher_def WithBaselineStore_def newWatcherWithRegistry_def
        newMetrics_def)
  with deleted_file_below_directory_not_flagged [OF st ld _ _ r, of "''/d/x''" "''0''" deletedEvent]
  show ?thesis by (simp add: cur)
qed

end
