(* ===== verification/Env.thy ===== *)
theory Env
  imports Go_Time
begin

text \<open>
  The process environment and the getters of \<open>kof-operator/internal/env/env.go\<close>, with the parsers
  of the Go library they use: \<open>strconv.ParseBool\<close>, \<open>strconv.Atoi\<close> and \<open>time.ParseDuration\<close>.
  The environment is a Go map from names to values. A getter never fails: a variable that is unset,
  empty or malformed gives the default. Fractions of durations are computed exactly and rounded
  down; the library uses a floating-point product there, which may differ by a nanosecond.
\<close>

type_synonym environ = "string gomap"

section \<open>Parsers\<close>

definition ParseBool :: "string \<Rightarrow> bool option" where
  "ParseBool s =
     (if s \<in> set [''1'', ''t'', ''T'', ''TRUE'', ''true'', ''True''] then Some True
      else if s \<in> set [''0'', ''f'', ''F'', ''FALSE'', ''false'', ''False''] then Some False
      else None)"

text \<open>\<open>strconv.Atoi\<close>: an optional sign and at least one digit, in the range of \<open>int64\<close>.\<close>

definition split_sign :: "string \<Rightarrow> bool \<times> string" where
  "split_sign s =
     (case s of
        c # r \<Rightarrow> if c = CHR ''-'' then (True, r) else if c = CHR ''+'' then (False, r) else (False, s)
      | [] \<Rightarrow> (False, []))"

definition Atoi :: "string \<Rightarrow> int option" where
  "Atoi s =
     (case split_sign s of
        (neg, ds) \<Rightarrow>
          if ds = [] \<or> \<not> list_all is_digit ds then None
          else (let n = int (dec_val 0 ds); x = (if neg then - n else n)
                in if - (2 ^ 63) \<le> x \<and> x < 2 ^ 63 then Some x else None))"

text \<open>The units of \<open>time.ParseDuration\<close>; the two spellings of micro are bytes of UTF-8.\<close>

definition unit_of :: "string \<Rightarrow> int option" where
  "unit_of u = map_of
     [(''ns'', 1), (''us'', 1000), ([CHR 0xC2, CHR 0xB5, CHR ''s''], 1000),
      ([CHR 0xCE, CHR 0xBC, CHR ''s''], 1000), (''ms'', 1000000), (''s'', 1000000000),
      (''m'', 60 * 1000000000), (''h'', 3600 * 1000000000)] u"

text \<open>Leading digits of an integer part (an error when the value passes \<open>1<<63\<close>) and of a fraction
  (further digits are ignored), with the scale of the fraction.\<close>

definition digit_val :: "char \<Rightarrow> int" where
  "digit_val c = int (of_char c) - 48"

fun leadingInt :: "int \<Rightarrow> string \<Rightarrow> (int \<times> string) option" where
  "leadingInt x [] = Some (x, [])"
| "leadingInt x (c # s) =
     (if \<not> is_digit c then Some (x, c # s)
      else if x > 2 ^ 63 div 10 then None
      else (let y = 10 * x + digit_val c in if y > 2 ^ 63 then None else leadingInt y s))"

fun leadingFraction :: "int \<Rightarrow> int \<Rightarrow> bool \<Rightarrow> string \<Rightarrow> int \<times> int \<times> string" where
  "leadingFraction x scale overflow [] = (x, scale, [])"
| "leadingFraction x scale overflow (c # s) =
     (if \<not> is_digit c then (x, scale, c # s)
      else if overflow \<or> x > (2 ^ 63 - 1) div 10 then leadingFraction x scale True s
      else (let y = 10 * x + digit_val c
            in if y > 2 ^ 63 then leadingFraction x scale True s
               else leadingFraction y (scale * 10) False s))"

lemma leadingInt_length: "leadingInt x s = Some (v, r) \<Longrightarrow> length r \<le> length s"
  by (induction x s rule: leadingInt.induct) (auto simp: Let_def split: if_splits)

lemma leadingFraction_length: "leadingFraction x sc ov s = (v, sc', r) \<Longrightarrow> length r \<le> length s"
  by (induction x sc ov s rule: leadingFraction.induct) (auto simp: Let_def split: if_splits)

definition number_char :: "char \<Rightarrow> bool" where
  "number_char c \<longleftrightarrow> c = CHR ''.'' \<or> is_digit c"

text \<open>One item such as \<open>1.5h\<close>: its value in nanoseconds and the rest.\<close>

definition duration_item :: "string \<Rightarrow> (int \<times> string) option" where
  "duration_item s =
     (if s = [] \<or> \<not> number_char (hd s) then None
      else (case leadingInt 0 s of
          None \<Rightarrow> None
        | Some (v, s1) \<Rightarrow>
            (case (if s1 \<noteq> [] \<and> hd s1 = CHR ''.'' then leadingFraction 0 1 False (tl s1) else (0, 1, s1)) of
               (f, scale, s2) \<Rightarrow>
                 (let pre = length s1 \<noteq> length s;
                      post = (s1 \<noteq> [] \<and> hd s1 = CHR ''.'' \<and> length s2 \<noteq> length (tl s1));
                      u = takeWhile (\<lambda>c. \<not> number_char c) s2; s3 = dropWhile (\<lambda>c. \<not> number_char c) s2
                  in if \<not> pre \<and> \<not> post then None
                     else (case unit_of u of
                         None \<Rightarrow> None
                       | Some unit \<Rightarrow>
                           if v > 2 ^ 63 div unit then None
                           else (let w = v * unit + (if f > 0 then f * unit div scale else 0)
                                 in if w > 2 ^ 63 then None else Some (w, s3)))))))"

lemma duration_item_shorter: "duration_item s = Some (w, r) \<Longrightarrow> length r < length s"
proof -
  assume a: "duration_item s = Some (w, r)"
  obtain v s1 where li: "leadingInt 0 s = Some (v, s1)"
    using a by (auto simp: duration_item_def split: if_splits option.splits)
  obtain f scale s2 where lf:
    "(if s1 \<noteq> [] \<and> hd s1 = CHR ''.'' then leadingFraction 0 1 False (tl s1) else (0, 1, s1)) = (f, scale, s2)"
    by (metis prod_cases3)
  have r: "r = dropWhile (\<lambda>c. \<not> number_char c) s2" and u: "unit_of (takeWhile (\<lambda>c. \<not> number_char c) s2) \<noteq> None"
    using a li lf by (auto simp: duration_item_def Let_def split: if_splits option.splits)
  have "takeWhile (\<lambda>c. \<not> number_char c) s2 \<noteq> []"
    using u by (auto simp: unit_of_def)
  then have "length r < length s2"
    unfolding r by (metis append_self_conv2 length_append length_greater_0_conv less_add_same_cancel2 takeWhile_dropWhile_id)
  also have "length s2 \<le> length s1"
    using lf leadingFraction_length [of 0 1 False "tl s1"] by (auto split: if_splits)
  also have "length s1 \<le> length s" using leadingInt_length [OF li] .
  finally show ?thesis .
qed

function duration_items :: "int \<Rightarrow> string \<Rightarrow> int option" where
  "duration_items d s =
     (if s = [] then Some d
      else (case duration_item s of
          None \<Rightarrow> None
        | Some (w, r) \<Rightarrow> if d + w > 2 ^ 63 then None else duration_items (d + w) r))"
  by pat_completeness auto
termination
  by (relation "measure (length \<circ> snd)") (auto dest: duration_item_shorter)

declare duration_items.simps [simp del]

definition ParseDuration :: "string \<Rightarrow> duration option" where
  "ParseDuration orig =
     (case split_sign orig of
        (neg, s) \<Rightarrow>
          if s = ''0'' then Some 0
          else if s = [] then None
          else (case duration_items 0 s of
              None \<Rightarrow> None
            | Some d \<Rightarrow> if neg then Some (- d) else if d > 2 ^ 63 - 1 then None else Some d))"

section \<open>Getters\<close>

definition Getenv :: "environ \<Rightarrow> string \<Rightarrow> string" where
  "Getenv e key = get_str e key"

definition GetEnvOrDefault :: "environ \<Rightarrow> string \<Rightarrow> string \<Rightarrow> string" where
  "GetEnvOrDefault e key def = (case map_of e key of None \<Rightarrow> def | Some v \<Rightarrow> if v = [] then def else v)"

definition GetEnvBool :: "environ \<Rightarrow> string \<Rightarrow> bool \<Rightarrow> bool" where
  "GetEnvBool e key def =
     (let v = Getenv e key in
      if v = [] then def else (case ParseBool v of None \<Rightarrow> def | Some b \<Rightarrow> b))"

definition GetEnvInt :: "environ \<Rightarrow> string \<Rightarrow> int \<Rightarrow> int" where
  "GetEnvInt e key def =
     (let v = Getenv e key in
      if v = [] then def else (case Atoi v of None \<Rightarrow> def | Some n \<Rightarrow> n))"

definition GetEnvDuration :: "environ \<Rightarrow> string \<Rightarrow> duration \<Rightarrow> duration" where
  "GetEnvDuration e key def =
     (let v = Getenv e key in
      if v = [] then def else (case ParseDuration v of None \<Rightarrow> def | Some d \<Rightarrow> d))"

definition GetReleaseNamespace :: "environ \<Rightarrow> string + string" where
  "GetReleaseNamespace e =
     (case map_of e ''RELEASE_NAMESPACE'' of
        None \<Rightarrow> Inl ''required RELEASE_NAMESPACE env var is not set''
      | Some ns \<Rightarrow> if length ns = 0 then Inl ''RELEASE_NAMESPACE env var is set but empty'' else Inr ns)"

definition GetPromxyPodLabelSelector :: "environ \<Rightarrow> string + string" where
  "GetPromxyPodLabelSelector e =
     (case map_of e ''PROMXY_POD_LABEL_SELECTOR'' of
        None \<Rightarrow> Inl ''required PROMXY_POD_LABEL_SELECTOR env var is not set''
      | Some sel \<Rightarrow>
          if sel = [] then Inl ''required PROMXY_POD_LABEL_SELECTOR env var is not set'' else Inr sel)"

definition GetPropagationTemplateName :: "environ \<Rightarrow> string" where
  "GetPropagationTemplateName e = GetEnvOrDefault e ''KOF_PROPAGATION_TEMPLATE'' ''kof-propagation''"

definition GrafanaEnabled :: "environ \<Rightarrow> bool" where
  "GrafanaEnabled e \<longleftrightarrow> GetEnvOrDefault e ''KOF_GRAFANA_ENABLED'' ''false'' = ''true''"

definition RegionlessEnabled :: "environ \<Rightarrow> bool" where
  "RegionlessEnabled e \<longleftrightarrow> GetEnvOrDefault e ''KOF_REGIONLESS_ENABLED'' ''false'' = ''true''"

definition GetRegionlessDomain :: "environ \<Rightarrow> string" where
  "GetRegionlessDomain e = GetEnvOrDefault e ''KOF_REGIONLESS_DOMAIN'' ''mothership.example.com''"

definition CrossNamespaceEnabled :: "environ \<Rightarrow> bool" where
  "CrossNamespaceEnabled e \<longleftrightarrow> GetEnvOrDefault e ''CROSS_NAMESPACE'' ''false'' = ''true''"

definition AutoUpgradeEnabled :: "environ \<Rightarrow> bool" where
  "AutoUpgradeEnabled e = GetEnvBool e ''KOF_AUTO_UPGRADE'' False"

definition GetKofVersion :: "environ \<Rightarrow> string" where
  "GetKofVersion e = GetEnvOrDefault e ''KOF_VERSION'' []"

definition GetRegionalMCSName :: "environ \<Rightarrow> string" where
  "GetRegionalMCSName e = GetEnvOrDefault e ''KOF_REGIONAL_CLUSTER_MCS_NAME'' ''kof-regional-cluster''"

definition GetChildMCSName :: "environ \<Rightarrow> string" where
  "GetChildMCSName e = GetEnvOrDefault e ''KOF_CHILD_CLUSTER_MCS_NAME'' ''kof-child-cluster''"

definition GetIstioRegionalMCSName :: "environ \<Rightarrow> string" where
  "GetIstioRegionalMCSName e =
     GetEnvOrDefault e ''KOF_ISTIO_REGIONAL_CLUSTER_MCS_NAME'' ''kof-istio-regional-cluster''"

definition GetIstioChildMCSName :: "environ \<Rightarrow> string" where
  "GetIstioChildMCSName e = GetEnvOrDefault e ''KOF_ISTIO_CHILD_CLUSTER_MCS_NAME'' ''kof-istio-child-cluster''"

definition GetVTClusterName :: "environ \<Rightarrow> string" where
  "GetVTClusterName e = Getenv e ''KOF_VT_CLUSTER_NAME''"

definition GetVLClusterName :: "environ \<Rightarrow> string" where
  "GetVLClusterName e = Getenv e ''KOF_VL_CLUSTER_NAME''"

definition GetVLSelectURL :: "environ \<Rightarrow> string" where
  "GetVLSelectURL e = Getenv e ''KOF_VL_SELECT_URL''"

definition GetVLInsertURL :: "environ \<Rightarrow> string" where
  "GetVLInsertURL e = Getenv e ''KOF_VL_INSERT_URL''"

definition GetVLAuditSelectURL :: "environ \<Rightarrow> string" where
  "GetVLAuditSelectURL e = Getenv e ''KOF_VL_AUDIT_SELECT_URL''"

definition GetVLAuditInsertURL :: "environ \<Rightarrow> string" where
  "GetVLAuditInsertURL e = Getenv e ''KOF_VL_AUDIT_INSERT_URL''"

definition GetVMSelectURL :: "environ \<Rightarrow> string" where
  "GetVMSelectURL e = Getenv e ''KOF_VM_SELECT_URL''"

definition GetVMInsertURL :: "environ \<Rightarrow> string" where
  "GetVMInsertURL e = Getenv e ''KOF_VM_INSERT_URL''"

definition GetVTSelectURL :: "environ \<Rightarrow> string" where
  "GetVTSelectURL e = Getenv e ''KOF_VT_SELECT_URL''"

definition GetVTInsertURL :: "environ \<Rightarrow> string" where
  "GetVTInsertURL e = Getenv e ''KOF_VT_INSERT_URL''"

section \<open>Ranges and round trips\<close>

lemma Atoi_range: "Atoi s = Some n \<Longrightarrow> - (2 ^ 63) \<le> n \<and> n < 2 ^ 63"
  by (auto simp: Atoi_def Let_def split: prod.splits if_splits)

lemma dec_head: "hd (dec n) \<noteq> CHR ''-''" "hd (dec n) \<noteq> CHR ''+''"
  using dec_digits [of "hd (dec n)" n] by (auto simp: is_digit_def)

lemma split_sign_dec: "split_sign (dec n) = (False, dec n)" "split_sign (CHR ''-'' # s) = (True, s)"
  using dec_head [of n] by (cases "dec n") (auto simp: split_sign_def)

lemma Atoi_dec_int: "- (2 ^ 63) \<le> n \<Longrightarrow> n < 2 ^ 63 \<Longrightarrow> Atoi (dec_int n) = Some n"
  by (auto simp: Atoi_def dec_int_def split_sign_dec dec_val_dec list_all_iff dec_digits Let_def)

lemma leadingInt_nonneg: "leadingInt x s = Some (v, r) \<Longrightarrow> 0 \<le> x \<Longrightarrow> 0 \<le> v"
  by (induction x s rule: leadingInt.induct) (auto simp: Let_def digit_val_def is_digit_def split: if_splits)

lemma leadingFraction_nonneg:
  "leadingFraction x sc ov s = (v, sc', r) \<Longrightarrow> 0 \<le> x \<Longrightarrow> 0 \<le> sc \<Longrightarrow> 0 \<le> v \<and> 0 \<le> sc'"
  by (induction x sc ov s rule: leadingFraction.induct)
    (auto simp: Let_def digit_val_def is_digit_def split: if_splits)

lemma unit_of_pos: "unit_of u = Some n \<Longrightarrow> 0 < n"
  by (auto simp: unit_of_def split: if_splits)

lemma duration_item_nonneg:
  assumes "duration_item s = Some (w, r)"
  shows "0 \<le> w"
proof -
  obtain v s1 where li: "leadingInt 0 s = Some (v, s1)"
    using assms by (auto simp: duration_item_def split: if_splits option.splits)
  obtain f scale s2 where lf:
    "(if s1 \<noteq> [] \<and> hd s1 = CHR ''.'' then leadingFraction 0 1 False (tl s1) else (0, 1, s1)) = (f, scale, s2)"
    by (metis prod_cases3)
  obtain n where n: "unit_of (takeWhile (\<lambda>c. \<not> number_char c) s2) = Some n"
    and w: "w = v * n + (if f > 0 then f * n div scale else 0)"
    using assms li lf by (auto simp: duration_item_def Let_def split: if_splits option.splits)
  have "0 \<le> v" "0 \<le> scale" "0 < n"
    using leadingInt_nonneg [OF li] lf leadingFraction_nonneg [of 0 1 False "tl s1"] unit_of_pos [OF n]
    by (auto split: if_splits)
  then show ?thesis unfolding w by (simp add: zdiv_int div_int_pos_iff)
qed

lemma duration_items_bound:
  "duration_items d s = Some d' \<Longrightarrow> 0 \<le> d \<Longrightarrow> d \<le> 2 ^ 63 \<Longrightarrow> 0 \<le> d' \<and> d' \<le> 2 ^ 63"
proof (induction d s rule: duration_items.induct)
  case (1 d s)
  show ?case
  proof (cases "s = []")
    case False
    then obtain w r where i: "duration_item s = Some (w, r)" "\<not> d + w > 2 ^ 63" "duration_items (d + w) r = Some d'"
      using "1.prems"(1) by (auto simp: duration_items.simps [of d s] split: option.splits if_splits)
    then show ?thesis
      using "1.IH" [OF False i(1) refl] duration_item_nonneg [OF i(1)] "1.prems" by linarith
  qed (use "1.prems" in \<open>simp add: duration_items.simps\<close>)
qed

lemma ParseDuration_range: "ParseDuration s = Some d \<Longrightarrow> - (2 ^ 63) \<le> d \<and> d < 2 ^ 63"
  by (auto simp: ParseDuration_def split: prod.splits if_splits option.splits dest!: duration_items_bound)

text \<open>Every integer and duration read from the environment fits 64 bits when the default does.\<close>

lemma GetEnvInt_range:
  "- (2 ^ 63) \<le> def \<and> def < 2 ^ 63 \<Longrightarrow> - (2 ^ 63) \<le> GetEnvInt e key def \<and> GetEnvInt e key def < 2 ^ 63"
  by (auto simp: GetEnvInt_def Let_def split: option.split dest: Atoi_range)

lemma GetEnvDuration_range:
  "- (2 ^ 63) \<le> def \<and> def < 2 ^ 63 \<Longrightarrow>
     - (2 ^ 63) \<le> GetEnvDuration e key def \<and> GetEnvDuration e key def < 2 ^ 63"
  by (auto simp: GetEnvDuration_def Let_def split: option.split dest: ParseDuration_range)

end
