(* ===== verification/Watcher_Process.thy ===== *)
theory Watcher_Process
  imports File_Watcher Env
begin

text \<open>
  The file watcher as a process: the command line (\<open>internal/filewatcher/config.go\<close>, with the part of
  Go's package \<open>flag\<close> it uses) and \<open>cmd/file-watcher/main.go\<close>. Flags that other packages registered
  before (those of the logger) are the parameter \<open>others\<close>, with a state of their own; fsnotify, the
  client of the cluster and its Secrets are parameters. The metrics server beside the watcher is
  not part of the model.
\<close>

section \<open>Command-line flags\<close>

datatype flag_error =
    BadFlagSyntax string | FlagNotDefined string | FlagNeedsArgument string | InvalidFlagValue string string | ErrHelp

text \<open>A \<open>flag.Value\<close> on a state: \<open>Set\<close> gives the new state, or fails.\<close>

record 's flag_value =
  IsBoolFlag :: bool
  SetFlag :: "string \<Rightarrow> 's \<Rightarrow> 's option"

type_synonym 's flag_set = "'s flag_value gomap"

text \<open>The name of a flag ends at the first equals sign after its first character.\<close>

definition split_flag :: "string \<Rightarrow> string \<times> string option" where
  "split_flag name =
     (let rest = dropWhile (\<lambda>c. c \<noteq> CHR ''='') name in
      (takeWhile (\<lambda>c. c \<noteq> CHR ''='') name, if rest = [] then None else Some (tl rest)))"

text \<open>\<open>FlagSet.Parse\<close>: the arguments after the first that is not a flag are left alone.\<close>

fun Parse :: "'s flag_set \<Rightarrow> string list \<Rightarrow> 's \<Rightarrow> flag_error + 's" where
  "Parse formal [] st = Inr st"
| "Parse formal (s # args) st =
     (if length s < 2 \<or> hd s \<noteq> CHR ''-'' then Inr st
      else if s = ''--'' then Inr st
      else
        let full = (if s ! 1 = CHR ''-'' then drop 2 s else drop 1 s) in
        if full = [] \<or> hd full = CHR ''-'' \<or> hd full = CHR ''='' then Inl (BadFlagSyntax s)
        else
          (case split_flag full of (name, value) \<Rightarrow>
             (case map_of formal name of
                None \<Rightarrow> Inl (if name = ''help'' \<or> name = ''h'' then ErrHelp else FlagNotDefined name)
              | Some fv \<Rightarrow>
                  if IsBoolFlag fv then
                    let v = (case value of Some v \<Rightarrow> v | None \<Rightarrow> ''true'') in
                    (case SetFlag fv v st of
                       None \<Rightarrow> Inl (InvalidFlagValue v name)
                     | Some st \<Rightarrow> Parse formal args st)
                  else
                    (case value of
                       Some v \<Rightarrow>
                         (case SetFlag fv v st of
                            None \<Rightarrow> Inl (InvalidFlagValue v name)
                          | Some st \<Rightarrow> Parse formal args st)
                     | None \<Rightarrow>
                         (case args of
                            [] \<Rightarrow> Inl (FlagNeedsArgument name)
                          | v # args \<Rightarrow>
                              (case SetFlag fv v st of
                                 None \<Rightarrow> Inl (InvalidFlagValue v name)
                               | Some st \<Rightarrow> Parse formal args st))))))"

section \<open>The flags of the watcher\<close>

record flag_vars =
  paths :: "string list"
  recursive :: bool
  metricsAddr :: string
  debounceStr :: string
  baselineEnabled :: bool
  baselineSecretName :: string
  baselineNamespace :: string

definition pathsFlag :: "flag_vars flag_value" where
  "pathsFlag = \<lparr>IsBoolFlag = False, SetFlag = (\<lambda>v st. Some (st\<lparr>paths := paths st @ [v]\<rparr>))\<rparr>"

definition BoolVar :: "((bool \<Rightarrow> bool) \<Rightarrow> 's \<Rightarrow> 's) \<Rightarrow> 's flag_value" where
  "BoolVar upd = \<lparr>IsBoolFlag = True, SetFlag = (\<lambda>v st. map_option (\<lambda>b. upd (\<lambda>_. b) st) (ParseBool v))\<rparr>"

definition StringVar :: "((string \<Rightarrow> string) \<Rightarrow> 's \<Rightarrow> 's) \<Rightarrow> 's flag_value" where
  "StringVar upd = \<lparr>IsBoolFlag = False, SetFlag = (\<lambda>v st. Some (upd (\<lambda>_. v) st))\<rparr>"

definition watcher_flags :: "flag_vars flag_set" where
  "watcher_flags =
     [(''watch-path'', pathsFlag),
      (''recursive'', BoolVar recursive_update),
      (''metrics-addr'', StringVar metricsAddr_update),
      (''debounce'', StringVar debounceStr_update),
      (''baseline-enabled'', BoolVar baselineEnabled_update),
      (''baseline-secret-name'', StringVar baselineSecretName_update),
      (''baseline-namespace'', StringVar baselineNamespace_update)]"

definition flag_defaults :: flag_vars where
  "flag_defaults =
     \<lparr>paths = [], recursive = True, metricsAddr = '':9090'', debounceStr = ''100ms'', baselineEnabled = False,
      baselineSecretName = ''file-watcher-baseline'', baselineNamespace = ''kof''\<rparr>"

text \<open>One flag set for both groups of variables.\<close>

definition on_fst :: "'a flag_value \<Rightarrow> ('a \<times> 'b) flag_value" where
  "on_fst fv = \<lparr>IsBoolFlag = IsBoolFlag fv, SetFlag = (\<lambda>v (a, b). map_option (\<lambda>a. (a, b)) (SetFlag fv v a))\<rparr>"

definition on_snd :: "'b flag_value \<Rightarrow> ('a \<times> 'b) flag_value" where
  "on_snd fv = \<lparr>IsBoolFlag = IsBoolFlag fv, SetFlag = (\<lambda>v (a, b). map_option (\<lambda>b. (a, b)) (SetFlag fv v b))\<rparr>"

definition all_flags :: "'z flag_set \<Rightarrow> (flag_vars \<times> 'z) flag_set" where
  "all_flags others = map (map_prod id on_fst) watcher_flags @ map (map_prod id on_snd) others"

text \<open>Registering a name twice panics.\<close>

datatype config_error = FlagRedefined | FlagFailed flag_error | NoWatchPath | InvalidDebounce string

definition parseFrom :: "'z flag_set \<Rightarrow> 'z \<Rightarrow> string list \<Rightarrow> config_error + config" where
  "parseFrom others z args =
     (if fst ` set others \<inter> fst ` set watcher_flags \<noteq> {} then Inl FlagRedefined
      else (case Parse (all_flags others) args (flag_defaults, z) of
          Inl err \<Rightarrow> Inl (FlagFailed err)
        | Inr (v, _) \<Rightarrow>
            if length (paths v) = 0 then Inl NoWatchPath
            else (case ParseDuration (debounceStr v) of
                None \<Rightarrow> Inl (InvalidDebounce (debounceStr v))
              | Some d \<Rightarrow>
                  Inr \<lparr>WatchPaths = paths v, Recursive = recursive v, MetricsAddr = metricsAddr v, DebounceDuration = d,
                       BaselineSecretNamespace = baselineNamespace v, BaselineSecretName = baselineSecretName v,
                       BaselineEnabled = baselineEnabled v\<rparr>)))"

section \<open>The process\<close>

text \<open>
  The command line exits on an error of its flags, with status 0 for help; a panic exits with
  status 2 as well.
\<close>

fun exit_status :: "config_error \<Rightarrow> nat" where
  "exit_status (FlagFailed ErrHelp) = 0"
| "exit_status (FlagFailed _) = 2"
| "exit_status FlagRedefined = 2"
| "exit_status _ = 1"

text \<open>What the process finds: whether fsnotify and the client of the cluster can be had, and the files.\<close>

record 'z watcher_world =
  other_flags :: "'z flag_set"
  other_vars :: 'z
  fsnotify_error :: "string option"
  client_error :: "string option"
  files :: fsys
  fw_answers :: "string \<Rightarrow> add_result"

type_synonym secrets = "string \<times> string \<Rightarrow> secret_api"

definition new_watcher :: "config \<Rightarrow> secrets \<Rightarrow> secret_api watcher" where
  "new_watcher c secrets =
     (let w = newWatcherWithRegistry c in
      if BaselineEnabled c then WithBaselineStore (secrets (BaselineSecretNamespace c, BaselineSecretName c)) w else w)"

definition kept_secrets :: "config \<Rightarrow> secret_api watcher \<Rightarrow> secrets \<Rightarrow> secrets" where
  "kept_secrets c w secrets =
     (case store w of None \<Rightarrow> secrets | Some s \<Rightarrow> secrets((BaselineSecretNamespace c, BaselineSecretName c) := s))"

text \<open>An error of the watcher ends the process with status 1.\<close>

definition run_watcher :: "'z watcher_world \<Rightarrow> config \<Rightarrow> input list \<Rightarrow> secrets \<Rightarrow> nat \<times> secret_api watcher option \<times> secrets" where
  "run_watcher world c inputs secrets =
     (case Run Load Save (files world) (fw_answers world) inputs (new_watcher c secrets) of
        (err, w) \<Rightarrow> (if err = None then 0 else 1, Some w, kept_secrets c w secrets))"

definition watcher_main :: "'z watcher_world \<Rightarrow> string list \<Rightarrow> input list \<Rightarrow> secrets \<Rightarrow> nat \<times> secret_api watcher option \<times> secrets" where
  "watcher_main world args inputs secrets =
     (case parseFrom (other_flags world) (other_vars world) args of
        Inl err \<Rightarrow> (exit_status err, None, secrets)
      | Inr c \<Rightarrow>
          if fsnotify_error world \<noteq> None then (1, None, secrets)
          else if client_error world \<noteq> None then (1, None, secrets)
          else run_watcher world c inputs secrets)"

section \<open>Command lines\<close>

definition flag_arg :: "string \<Rightarrow> string \<Rightarrow> string" where
  "flag_arg name v = ''--'' @ name @ ''='' @ v"

definition plain_name :: "string \<Rightarrow> bool" where
  "plain_name name \<longleftrightarrow> name \<noteq> [] \<and> hd name \<noteq> CHR ''-'' \<and> CHR ''='' \<notin> set name"

lemma split_flag_assign: "CHR ''='' \<notin> set name \<Longrightarrow> split_flag (name @ ''='' @ v) = (name, Some v)"
  by (induction name) (auto simp: split_flag_def)

lemma Parse_flag_arg:
  assumes "plain_name name" "map_of formal name = Some fv" "SetFlag fv v st = Some st'"
  shows "Parse formal (flag_arg name v # args) st = Parse formal args st'"
proof -
  obtain c cs where name: "name = c # cs" "c \<noteq> CHR ''-''" "c \<noteq> CHR ''=''" using assms(1) by (cases name) (auto simp: plain_name_def)
  have "split_flag (c # cs @ CHR ''='' # v) = (name, Some v)"
    using split_flag_assign [of name v] assms(1) by (simp add: plain_name_def name(1))
  then show ?thesis using assms name by (simp add: flag_arg_def Let_def)
qed

lemma all_flags_lookup: "map_of watcher_flags name = Some fv \<Longrightarrow> map_of (all_flags others) name = Some (on_fst fv)"
proof -
  assume "map_of watcher_flags name = Some fv"
  moreover have "map_of (map (map_prod id on_fst) l @ m) name = Some (on_fst fv)"
    if "map_of l name = Some fv" for l and m :: "(flag_vars \<times> 'a) flag_set"
    using that by (induction l) (auto split: if_splits)
  ultimately show ?thesis by (simp add: all_flags_def)
qed

lemma own_flags:
  "map_of watcher_flags ''watch-path'' = Some pathsFlag"
  "map_of watcher_flags ''recursive'' = Some (BoolVar recursive_update)"
  "map_of watcher_flags ''metrics-addr'' = Some (StringVar metricsAddr_update)"
  "map_of watcher_flags ''debounce'' = Some (StringVar debounceStr_update)"
  "map_of watcher_flags ''baseline-enabled'' = Some (BoolVar baselineEnabled_update)"
  "map_of watcher_flags ''baseline-secret-name'' = Some (StringVar baselineSecretName_update)"
  "map_of watcher_flags ''baseline-namespace'' = Some (StringVar baselineNamespace_update)"
  by (simp_all add: watcher_flags_def)

lemma Parse_own_flag:
  assumes "map_of watcher_flags name = Some fv" "plain_name name" "SetFlag fv v st = Some st'"
  shows "Parse (all_flags others) (flag_arg name v # args) (st, z) = Parse (all_flags others) args (st', z)"
  by (rule Parse_flag_arg [OF assms(2) all_flags_lookup [OF assms(1)]]) (simp add: on_fst_def assms(3))

lemma Parse_watch_paths:
  "Parse (all_flags others) (map (flag_arg ''watch-path'') ps @ args) (st, z) =
     Parse (all_flags others) args (st\<lparr>paths := paths st @ ps\<rparr>, z)"
proof (induction ps arbitrary: st)
  case (Cons p ps)
  have "Parse (all_flags others) (flag_arg ''watch-path'' p # map (flag_arg ''watch-path'') ps @ args) (st, z) =
      Parse (all_flags others) (map (flag_arg ''watch-path'') ps @ args) (st\<lparr>paths := paths st @ [p]\<rparr>, z)"
    by (rule Parse_own_flag [OF own_flags(1)]) (simp_all add: pathsFlag_def plain_name_def)
  then show ?case using Cons by simp
qed simp

definition bool_text :: "bool \<Rightarrow> string" where
  "bool_text b = (if b then ''true'' else ''false'')"

text \<open>A configuration as a command line; \<open>d\<close> is a text of its debounce interval.\<close>

definition write_args :: "config \<Rightarrow> string \<Rightarrow> string list" where
  "write_args c d =
     map (flag_arg ''watch-path'') (WatchPaths c) @
     [flag_arg ''recursive'' (bool_text (Recursive c)), flag_arg ''metrics-addr'' (MetricsAddr c), flag_arg ''debounce'' d,
      flag_arg ''baseline-enabled'' (bool_text (BaselineEnabled c)), flag_arg ''baseline-secret-name'' (BaselineSecretName c),
      flag_arg ''baseline-namespace'' (BaselineSecretNamespace c)]"

lemma Parse_bool_flag:
  assumes "map_of watcher_flags name = Some (BoolVar upd)" "plain_name name"
  shows "Parse (all_flags others) (flag_arg name (bool_text b) # args) (st, z) = Parse (all_flags others) args (upd (\<lambda>_. b) st, z)"
  by (rule Parse_own_flag [OF assms]) (auto simp: BoolVar_def bool_text_def ParseBool_def)

lemma Parse_string_flag:
  assumes "map_of watcher_flags name = Some (StringVar upd)" "plain_name name"
  shows "Parse (all_flags others) (flag_arg name v # args) (st, z) = Parse (all_flags others) args (upd (\<lambda>_. v) st, z)"
  by (rule Parse_own_flag [OF assms]) (simp add: StringVar_def)

lemma Parse_write_args:
  "Parse (all_flags others) (write_args c d) (flag_defaults, z) =
     Inr (\<lparr>paths = WatchPaths c, recursive = Recursive c, metricsAddr = MetricsAddr c, debounceStr = d,
           baselineEnabled = BaselineEnabled c, baselineSecretName = BaselineSecretName c,
           baselineNamespace = BaselineSecretNamespace c\<rparr>, z)"
  unfolding write_args_def Parse_watch_paths
  by (simp add: flag_defaults_def Parse_bool_flag [OF own_flags(2)] Parse_string_flag [OF own_flags(3)]
      Parse_string_flag [OF own_flags(4)] Parse_bool_flag [OF own_flags(5)] Parse_string_flag [OF own_flags(6)]
      Parse_string_flag [OF own_flags(7)] plain_name_def del: Parse.simps(2))

section \<open>Starts of the process\<close>

lemma store_walk_add [simp]: "store (snd (walk_add fw_add root vs w)) = store w"
  by (induction fw_add root vs w rule: walk_add.induct) (auto simp: register_def)

lemma store_addPath: "store (snd (addPath fs fw_add root w)) = store w"
  by (auto simp: addPath_def register_def split: add_result.splits)

lemma store_add_paths: "store (snd (add_paths fs fw_add roots w)) = store w"
proof (induction fs fw_add roots w rule: add_paths.induct)
  case (2 fs fw_add root roots w)
  then show ?case using store_addPath [of fs fw_add root w] by (auto split: prod.splits option.splits)
qed simp

lemma store_handleEvent [simp]: "store (handleEvent fs fw_add now e w) = store w"
  by (auto simp: handleEvent_def debounce_def store_addPath Let_def split: option.splits prod.splits if_splits)

lemma store_watch [simp]: "store (watch fw_add is w) = store w"
  by (induction fw_add "is" w rule: watch.induct) auto

text \<open>Events only raise flags: what the start has found stays.\<close>

lemma drift_handleEvent: "drift (metrics w) p e = Some 1 \<Longrightarrow> drift (metrics (handleEvent fs fw_add now ev w)) p e = Some 1"
  by (cases "emits now ev w") (simp_all add: handleEvent_not_emits handleEvent_def debounce_def register_def Let_def
      split: option.splits)

lemma drift_watch: "drift (metrics w) p e = Some 1 \<Longrightarrow> drift (metrics (watch fw_add is w)) p e = Some 1"
  by (induction fw_add "is" w rule: watch.induct) (auto simp: drift_handleEvent)

lemma Run_stages:
  assumes "Run load save fs fw_add inputs w = (None, w')"
  obtains w1 err w2 where "store w1 = store w" "cfg w1 = cfg w" "initBaseline load save fs w1 = (err, w2)"
    "store w' = store w2" "\<And>p e. drift (metrics w2) p e = Some 1 \<Longrightarrow> drift (metrics w') p e = Some 1"
    "inputs = [] \<Longrightarrow> metrics w' = metrics w2"
proof -
  obtain w1 where w1: "add_paths fs fw_add (WatchPaths (cfg w)) w = (None, w1)"
    using assms by (auto simp: Run_def split: prod.splits option.splits)
  obtain err w2 where w2: "initBaseline load save fs w1 = (err, w2)" by fastforce
  have w': "w' = watch fw_add inputs (if err = None then w2 else log_error ''baseline initialisation failed; continuing without baseline'' [] w2)"
    using assms by (auto simp: Run_def w1 w2 split: option.splits)
  show ?thesis
  proof (rule that [OF _ _ w2])
    show "store w1 = store w" "cfg w1 = cfg w"
      using store_add_paths [of fs fw_add "WatchPaths (cfg w)" w] add_paths_frame [of fs fw_add "WatchPaths (cfg w)" w] w1 by simp_all
    show "store w' = store w2" "inputs = [] \<Longrightarrow> metrics w' = metrics w2" by (simp_all add: w')
    show "drift (metrics w') p e = Some 1" if "drift (metrics w2) p e = Some 1" for p e
      unfolding w' by (rule drift_watch) (simp add: that)
  qed
qed

lemma watcher_main_runs:
  assumes "watcher_main world args inputs secrets = (0, Some w, secrets')"
  obtains c where "parseFrom (other_flags world) (other_vars world) args = Inr c"
    "Run Load Save (files world) (fw_answers world) inputs (new_watcher c secrets) = (None, w)" "secrets' = kept_secrets c w secrets"
  using assms by (auto simp: watcher_main_def run_watcher_def split: sum.splits if_splits prod.splits)

abbreviation baseline_key :: "config \<Rightarrow> string \<times> string" where
  "baseline_key c \<equiv> (BaselineSecretNamespace c, BaselineSecretName c)"

lemma new_watcher_simps:
  "BaselineEnabled c \<Longrightarrow> store (new_watcher c secrets) = Some (secrets (baseline_key c))"
  "cfg (new_watcher c secrets) = c"
  by (simp_all add: new_watcher_def WithBaselineStore_def newWatcherWithRegistry_def Let_def)

text \<open>What a start of the process finds and what it leaves, when the API server answers.\<close>

lemma start_verdicts:
  assumes "watcher_main world args inputs secrets = (0, Some w, secrets')" "BaselineEnabled c"
    and "parseFrom (other_flags world) (other_vars world) args = Inr c"
    and "Load (secrets (baseline_key c)) = Inr stored"
    and "map_of (current_hashes (files world) (WatchPaths c)) p = Some h"
  shows "is_deleted h \<Longrightarrow> drift (metrics w) p deletedEvent = Some 1"
    "is_modified (map_of stored p) h \<Longrightarrow> drift (metrics w) p modifiedEvent = Some 1"
    "inputs = [] \<Longrightarrow> \<not> is_deleted h \<Longrightarrow> \<not> is_modified (map_of stored p) h \<Longrightarrow>
       drift (metrics w) p deletedEvent = Some 0 \<and> drift (metrics w) p modifiedEvent = Some 0"
proof -
  have run: "Run Load Save (files world) (fw_answers world) inputs (new_watcher c secrets) = (None, w)"
    using assms(1,3) by (auto elim: watcher_main_runs)
  obtain w1 err w2 where w1: "store w1 = Some (secrets (baseline_key c))" "cfg w1 = c" and w2: "initBaseline Load Save (files world) w1 = (err, w2)"
      and later: "\<And>p e. drift (metrics w2) p e = Some 1 \<Longrightarrow> drift (metrics w) p e = Some 1" "inputs = [] \<Longrightarrow> metrics w = metrics w2"
    by (rule Run_stages [OF run]) (simp add: new_watcher_simps assms(2))
  note d = initBaseline_drift [OF w1(1) assms(4) w2, of p, unfolded w1(2) assms(5)]
  show "is_deleted h \<Longrightarrow> drift (metrics w) p deletedEvent = Some 1" by (rule later) (simp add: d)
  show "is_modified (map_of stored p) h \<Longrightarrow> drift (metrics w) p modifiedEvent = Some 1" by (rule later) (simp add: d)
  show "inputs = [] \<Longrightarrow> \<not> is_deleted h \<Longrightarrow> \<not> is_modified (map_of stored p) h \<Longrightarrow>
      drift (metrics w) p deletedEvent = Some 0 \<and> drift (metrics w) p modifiedEvent = Some 0"
    by (simp add: later(2) d)
qed

lemma start_saves:
  assumes "watcher_main world args inputs secrets = (0, Some w, secrets')" "BaselineEnabled c"
    and "parseFrom (other_flags world) (other_vars world) args = Inr c"
    and "\<not> get_fails (secrets (baseline_key c))" "\<not> write_fails (secrets (baseline_key c))" "secret_data (secrets (baseline_key c)) = None"
  shows "\<exists>h'. Load (secrets' (baseline_key c)) = Inr h' \<and>
    (\<forall>p. map_of h' p = absorb None (map_of (current_hashes (files world) (WatchPaths c)) p))"
proof -
  have run: "Run Load Save (files world) (fw_answers world) inputs (new_watcher c secrets) = (None, w)"
      and kept: "secrets' = kept_secrets c w secrets"
    using assms(1,3) by (auto elim: watcher_main_runs)
  obtain w1 err w2 where w1: "store w1 = Some (secrets (baseline_key c))" "cfg w1 = c" and w2: "initBaseline Load Save (files world) w1 = (err, w2)"
      and w: "store w = store w2"
    by (rule Run_stages [OF run]) (simp add: new_watcher_simps assms(2))
  have load: "Load (secrets (baseline_key c)) = Inr []" using assms(4,6) by (simp add: Load_def)
  have "err = None" using w2 by (auto simp: initBaseline_store [OF w1(1)] load Save_def Let_def assms(4-6))
  then obtain s' h' where "store w2 = Some s'" "Load s' = Inr h'"
      "\<forall>p. map_of h' p = absorb None (map_of (current_hashes (files world) (WatchPaths c)) p)"
    using secret_store.baseline_after [OF _ w1(1) load, of "files world" w2] w2 assms(6) by (auto simp: secret_invar_def w1(2))
  then show ?thesis using kept w by (simp add: kept_secrets_def)
qed

section \<open>Properties\<close>

text \<open>
  A configuration written as a command line is read back as it is: repeated watch paths in their
  order, every other flag with its value, whatever flags other packages have registered under other
  names.
\<close>

theorem flags_roundtrip:
  assumes "fst ` set others \<inter> fst ` set watcher_flags = {}" "WatchPaths c \<noteq> []" "ParseDuration d = Some (DebounceDuration c)"
  shows "parseFrom others z (write_args c d) = Inr c"
  using assms by (simp add: parseFrom_def Parse_write_args)

text \<open>
  C39: drift is found over restarts of the process. The first start, with no stored baseline and a Secret that can be read and
  written, saw a file with some hash. If a later start with the same configuration still finds the file, with another hash, it
  flags the file as modified; if the path is itself a watched path and is gone, it flags it as deleted. It stays flagged whatever
  events follow; a file found with the same hash is not flagged by the start. A file that was deleted below a watched directory
  is not found by the later start and is outside this property.
\<close>

theorem change_between_starts_flagged:
  assumes "parseFrom (other_flags world) (other_vars world) args = Inr c" "BaselineEnabled c"
    and "parseFrom (other_flags world') (other_vars world') args = Inr c"
    and "secret_data (secrets (baseline_key c)) = None" "\<not> get_fails (secrets (baseline_key c))" "\<not> write_fails (secrets (baseline_key c))"
    and "watcher_main world args inputs secrets = (0, Some w, secrets')"
    and "watcher_main world' args inputs' secrets' = (0, Some w', secrets'')"
    and "map_of (current_hashes (files world) (WatchPaths c)) p = Some h" "h \<noteq> []"
    and "map_of (current_hashes (files world') (WatchPaths c)) p = Some h'"
  shows "(h' \<noteq> h \<longrightarrow> drift (metrics w') p (if h' = [] then deletedEvent else modifiedEvent) = Some 1) \<and>
    (h' = h \<longrightarrow> inputs' = [] \<longrightarrow> drift (metrics w') p deletedEvent = Some 0 \<and> drift (metrics w') p modifiedEvent = Some 0)"
proof -
  obtain stored where stored: "Load (secrets' (baseline_key c)) = Inr stored" "map_of stored p = Some h"
    using start_saves [OF assms(7,2,1,5,6,4)] assms(9,10) by (auto simp: absorb_def)
  show ?thesis
    using start_verdicts [OF assms(8,2,3) stored(1) assms(11)] assms(10) by (auto simp: stored(2) is_deleted_def is_modified_def)
qed

section \<open>Example\<close>

definition ex_watch_args :: "string list" where
  "ex_watch_args = [''--watch-path'', ''/f'', ''-recursive=f'', ''--baseline-enabled'', ''--debounce=2s'']"

definition ex_watch_config :: config where
  "ex_watch_config = \<lparr>WatchPaths = [''/f''], Recursive = False, MetricsAddr = '':9090'', DebounceDuration = 2 * second,
     BaselineSecretNamespace = ''kof'', BaselineSecretName = ''file-watcher-baseline'', BaselineEnabled = True\<rparr>"

definition ex_watch_world :: "read_result \<Rightarrow> unit watcher_world" where
  "ex_watch_world r = \<lparr>other_flags = [], other_vars = (), fsnotify_error = None, client_error = None, files = demo_fs r, fw_answers = (\<lambda>_. AddOk)\<rparr>"

lemma ex_watch_parsed: "parseFrom (other_flags (ex_watch_world r)) (other_vars (ex_watch_world r)) ex_watch_args = Inr ex_watch_config"
proof -
  have "parseFrom [] () ex_watch_args = Inr ex_watch_config" by code_simp
  then show ?thesis by (simp add: ex_watch_world_def)
qed

lemma ex_two_seconds: "ParseDuration ''2s'' = Some (2 * second)"
  by code_simp

theorem flags_roundtrip_witness:
  "parseFrom [(''zap-devel'', BoolVar (\<lambda>f (b::bool). f b))] True (write_args ex_watch_config ''2s'') = Inr ex_watch_config"
  by (rule flags_roundtrip) (simp_all add: watcher_flags_def ex_watch_config_def ex_two_seconds)

lemma ex_hashes:
  "current_hashes (demo_fs (Content ''ab'')) [''/f''] = [(''/f'', ''089c4407b545986a'')]"
  "current_hashes (demo_fs (Content ''ac'')) [''/f''] = [(''/f'', ''089c4507b5459a1d'')]"
proof -
  have "hashFile (demo_fs (Content ''ac'')) ''/f'' = Inr ''089c4507b5459a1d''"
    by (simp add: demo_fs_def hashFile_def fnv64a_def fnv64_step_def hex_nat.simps pad_def digit_char_def) code_simp
  then show "current_hashes (demo_fs (Content ''ab'')) [''/f''] = [(''/f'', ''089c4407b545986a'')]"
    "current_hashes (demo_fs (Content ''ac'')) [''/f''] = [(''/f'', ''089c4507b5459a1d'')]"
    using demo_hash by (simp_all add: current_hashes_def hashTree_def demo_fs_def)
qed

lemma ex_starts:
  "\<exists>w secrets'. watcher_main (ex_watch_world r) ex_watch_args [] secrets = (0, Some w, secrets')"
proof -
  have "fst (Run Load Save (demo_fs r) (\<lambda>_. AddOk) [] (new_watcher ex_watch_config secrets)) = None"
    by (simp add: Run_def new_watcher_simps addPath_def ex_watch_config_def split: prod.splits option.splits)
  then show ?thesis
    using ex_watch_parsed [of r] by (auto simp: watcher_main_def run_watcher_def ex_watch_world_def split: prod.splits)
qed

theorem change_between_starts_flagged_witness:
  "\<exists>w secrets1 w' secrets2.
     watcher_main (ex_watch_world (Content ''ab'')) ex_watch_args [] (\<lambda>_. demo_secret) = (0, Some w, secrets1) \<and>
     watcher_main (ex_watch_world (Content ''ac'')) ex_watch_args [] secrets1 = (0, Some w', secrets2) \<and>
     drift (metrics w') ''/f'' modifiedEvent = Some 1"
proof -
  obtain w secrets1 where first: "watcher_main (ex_watch_world (Content ''ab'')) ex_watch_args [] (\<lambda>_. demo_secret) = (0, Some w, secrets1)"
    using ex_starts by blast
  obtain w' secrets2 where second: "watcher_main (ex_watch_world (Content ''ac'')) ex_watch_args [] secrets1 = (0, Some w', secrets2)"
    using ex_starts by blast
  have "drift (metrics w') ''/f'' modifiedEvent = Some 1"
    using change_between_starts_flagged [OF ex_watch_parsed _ ex_watch_parsed _ _ _ first second,
        where p = "''/f''" and h = "''089c4407b545986a''" and h' = "''089c4507b5459a1d''"]
    by (simp add: ex_watch_world_def ex_watch_config_def demo_secret_def ex_hashes)
  then show ?thesis using first second by blast
qed

end
