(* ===== verification/Kube_Api.thy ===== *)
theory Kube_Api
  imports Env
begin

text \<open>
  The Kubernetes API as the controllers see it: objects of one kind are a list, told apart by a key
  (namespace and name), and carry a resource version. Every call may fail without an effect
  (\<open>api_faults\<close>); an update needs the current version and gives the object a later one. The stores of
  a controller are fields of a record that extends \<open>api_state\<close>.

  The locale \<open>object_kind\<close> is the interface of a kind of objects: how to read its key and its
  version, and how the server moves the version on.
\<close>

datatype api_error = NotFound | Conflict | AlreadyExists | ApiFailure string

record api_state =
  api_faults :: "string option list"

definition api_call :: "'a api_state_scheme \<Rightarrow> string option \<times> 'a api_state_scheme" where
  "api_call k = (case api_faults k of [] \<Rightarrow> (None, k) | f # fs \<Rightarrow> (f, k\<lparr>api_faults := fs\<rparr>))"

lemma api_call_frame: "api_call k = (f, k') \<Longrightarrow> \<exists>fs. k' = k\<lparr>api_faults := fs\<rparr>"
  by (auto simp: api_call_def split: list.splits) (metis api_state.cases_scheme api_state.select_convs(1) api_state.update_convs(1))

lemma api_call_no_faults [simp]: "api_faults k = [] \<Longrightarrow> api_call k = (None, k)"
  by (simp add: api_call_def)

text \<open>The owner of an object; the server deletes an object with its owners.\<close>

record owner_reference =
  owner_api :: string
  owner_kind :: string
  owner_name :: string
  owner_uid :: string

section \<open>Objects of one kind\<close>

definition find_object :: "('o \<Rightarrow> 'k) \<Rightarrow> 'k \<Rightarrow> 'o list \<Rightarrow> 'o option" where
  "find_object key x objs = find (\<lambda>obj. key obj = x) objs"

definition create_object :: "('o \<Rightarrow> 'k) \<Rightarrow> 'o \<Rightarrow> 'o list \<Rightarrow> api_error + 'o list" where
  "create_object key obj objs =
     (case find_object key (key obj) objs of None \<Rightarrow> Inr (objs @ [obj]) | Some _ \<Rightarrow> Inl AlreadyExists)"

definition update_object :: "('o \<Rightarrow> 'k) \<Rightarrow> ('o \<Rightarrow> nat) \<Rightarrow> ('o \<Rightarrow> 'o) \<Rightarrow> 'o \<Rightarrow> 'o list \<Rightarrow> api_error + 'o list" where
  "update_object key ver bump obj objs =
     (case find_object key (key obj) objs of
        None \<Rightarrow> Inl NotFound
      | Some cur \<Rightarrow>
          if ver cur \<noteq> ver obj then Inl Conflict
          else Inr (map (\<lambda>c. if key c = key obj then bump obj else c) objs))"

definition delete_object :: "('o \<Rightarrow> 'k) \<Rightarrow> 'k \<Rightarrow> 'o list \<Rightarrow> api_error + 'o list" where
  "delete_object key x objs =
     (case find_object key x objs of None \<Rightarrow> Inl NotFound | Some _ \<Rightarrow> Inr (filter (\<lambda>c. key c \<noteq> x) objs))"

lemma find_object_SomeD: "find_object key x objs = Some obj \<Longrightarrow> obj \<in> set objs \<and> key obj = x"
  by (auto simp: find_object_def find_Some_iff)

lemma find_object_None: "find_object key x objs = None \<longleftrightarrow> x \<notin> key ` set objs"
  by (auto simp: find_object_def find_None_iff)

lemma find_object_mem:
  "distinct (map key objs) \<Longrightarrow> obj \<in> set objs \<Longrightarrow> find_object key (key obj) objs = Some obj"
  by (induction objs) (auto simp: find_object_def)

lemma find_object_append:
  "find_object key x (objs @ objs') = (case find_object key x objs of None \<Rightarrow> find_object key x objs' | Some obj \<Rightarrow> Some obj)"
  by (induction objs) (auto simp: find_object_def)

lemma create_object_find:
  "create_object key obj objs = Inr objs' \<Longrightarrow>
     find_object key x objs' = (if x = key obj then Some obj else find_object key x objs)"
  by (auto simp: create_object_def find_object_append split: option.splits) (auto simp: find_object_def)

lemma create_object_distinct:
  "create_object key obj objs = Inr objs' \<Longrightarrow> distinct (map key objs) \<Longrightarrow> distinct (map key objs')"
  by (auto simp: create_object_def find_object_None split: option.splits)

lemma delete_object_find:
  "delete_object key y objs = Inr objs' \<Longrightarrow>
     find_object key x objs' = (if x = y then None else find_object key x objs)"
proof -
  assume "delete_object key y objs = Inr objs'"
  then have "objs' = filter (\<lambda>c. key c \<noteq> y) objs" by (auto simp: delete_object_def split: option.splits)
  moreover have "find_object key x (filter (\<lambda>c. key c \<noteq> y) objs) = (if x = y then None else find_object key x objs)"
    by (induction objs) (auto simp: find_object_def)
  ultimately show ?thesis by simp
qed

lemma delete_object_distinct:
  "delete_object key y objs = Inr objs' \<Longrightarrow> distinct (map key objs) \<Longrightarrow> distinct (map key objs')"
  by (auto simp: delete_object_def distinct_map inj_on_def split: option.splits)

section \<open>Calls\<close>

text \<open>
  Calls on the objects of one kind in a state: \<open>objs\<close> and \<open>set_objs\<close> are the field of the kind. A
  call that fails has no effect.
\<close>

definition api_get :: "('o \<Rightarrow> 'k) \<Rightarrow> ('s api_state_scheme \<Rightarrow> 'o list) \<Rightarrow> 'k \<Rightarrow> 's api_state_scheme \<Rightarrow>
    (api_error + 'o) \<times> 's api_state_scheme" where
  "api_get key objs x k =
     (case api_call k of
        (Some e, k') \<Rightarrow> (Inl (ApiFailure e), k')
      | (None, k') \<Rightarrow> (case find_object key x (objs k) of None \<Rightarrow> (Inl NotFound, k') | Some obj \<Rightarrow> (Inr obj, k')))"

definition api_list :: "('s api_state_scheme \<Rightarrow> 'o list) \<Rightarrow> ('o \<Rightarrow> bool) \<Rightarrow> 's api_state_scheme \<Rightarrow>
    (api_error + 'o list) \<times> 's api_state_scheme" where
  "api_list objs sel k =
     (case api_call k of
        (Some e, k') \<Rightarrow> (Inl (ApiFailure e), k')
      | (None, k') \<Rightarrow> (Inr (filter sel (objs k)), k'))"

definition api_create :: "('o \<Rightarrow> 'k) \<Rightarrow> ('s api_state_scheme \<Rightarrow> 'o list) \<Rightarrow>
    ('o list \<Rightarrow> 's api_state_scheme \<Rightarrow> 's api_state_scheme) \<Rightarrow> 'o \<Rightarrow> 's api_state_scheme \<Rightarrow>
    (api_error + unit) \<times> 's api_state_scheme" where
  "api_create key objs set_objs obj k =
     (case api_call k of
        (Some e, k') \<Rightarrow> (Inl (ApiFailure e), k')
      | (None, k') \<Rightarrow>
          (case create_object key obj (objs k) of Inl e \<Rightarrow> (Inl e, k') | Inr os \<Rightarrow> (Inr (), set_objs os k')))"

definition api_update :: "('o \<Rightarrow> 'k) \<Rightarrow> ('o \<Rightarrow> nat) \<Rightarrow> ('o \<Rightarrow> 'o) \<Rightarrow> ('s api_state_scheme \<Rightarrow> 'o list) \<Rightarrow>
    ('o list \<Rightarrow> 's api_state_scheme \<Rightarrow> 's api_state_scheme) \<Rightarrow> 'o \<Rightarrow> 's api_state_scheme \<Rightarrow>
    (api_error + unit) \<times> 's api_state_scheme" where
  "api_update key ver bump objs set_objs obj k =
     (case api_call k of
        (Some e, k') \<Rightarrow> (Inl (ApiFailure e), k')
      | (None, k') \<Rightarrow>
          (case update_object key ver bump obj (objs k) of Inl e \<Rightarrow> (Inl e, k') | Inr os \<Rightarrow> (Inr (), set_objs os k')))"

text \<open>Sequences of calls that stop at the first error, and errors put into context.\<close>

definition and_then :: "('e + 'a) \<times> 's \<Rightarrow> ('a \<Rightarrow> 's \<Rightarrow> ('e + 'b) \<times> 's) \<Rightarrow> ('e + 'b) \<times> 's" where
  "and_then m f = (case m of (Inl e, s) \<Rightarrow> (Inl e, s) | (Inr a, s) \<Rightarrow> f a s)"

definition in_context :: "('e \<Rightarrow> 'f) \<Rightarrow> ('e + 'a) \<times> 's \<Rightarrow> ('f + 'a) \<times> 's" where
  "in_context c m = (case m of (Inl e, s) \<Rightarrow> (Inl (c e), s) | (Inr a, s) \<Rightarrow> (Inr a, s))"

lemma and_then_Inr: "and_then m f = (Inr b, s') \<longleftrightarrow> (\<exists>a s. m = (Inr a, s) \<and> f a s = (Inr b, s'))"
  by (auto simp: and_then_def split: prod.splits sum.splits)

lemma in_context_Inr: "in_context c m = (Inr a, s) \<longleftrightarrow> m = (Inr a, s)"
  by (auto simp: in_context_def split: prod.splits sum.splits)

lemma api_get_ok:
  "api_get key objs x k = (Inr obj, k') \<Longrightarrow> find_object key x (objs k) = Some obj \<and> (\<exists>fs. k' = k\<lparr>api_faults := fs\<rparr>)"
  by (auto simp: api_get_def split: prod.splits option.splits dest: api_call_frame)

lemma api_list_ok:
  "api_list objs sel k = (Inr l, k') \<Longrightarrow> l = filter sel (objs k) \<and> (\<exists>fs. k' = k\<lparr>api_faults := fs\<rparr>)"
  by (auto simp: api_list_def split: prod.splits option.splits dest: api_call_frame)

section \<open>The interface of a kind\<close>

locale object_kind =
  fixes key :: "'o \<Rightarrow> 'k" and ver :: "'o \<Rightarrow> nat" and bump :: "'o \<Rightarrow> 'o"
  assumes key_bump: "key (bump obj) = key obj"
    and ver_bump: "ver obj < ver (bump obj)"
begin

lemma update_ok:
  assumes "update_object key ver bump obj objs = Inr objs'"
  shows "objs' = map (\<lambda>c. if key c = key obj then bump obj else c) objs"
    and "\<exists>cur. find_object key (key obj) objs = Some cur \<and> ver cur = ver obj"
  using assms by (auto simp: update_object_def split: option.splits if_splits)

lemma update_keys: "update_object key ver bump obj objs = Inr objs' \<Longrightarrow> map key objs' = map key objs"
  by (drule update_ok(1)) (simp add: key_bump)

lemma update_find:
  assumes "update_object key ver bump obj objs = Inr objs'"
  shows "find_object key x objs' = (if x = key obj then Some (bump obj) else find_object key x objs)"
proof -
  have "x \<in> key ` set objs \<Longrightarrow> x = key obj \<Longrightarrow>
      find_object key x (map (\<lambda>c. if key c = key obj then bump obj else c) objs) = Some (bump obj)"
    by (induction objs) (auto simp: find_object_def key_bump)
  moreover have "x \<noteq> key obj \<Longrightarrow>
      find_object key x (map (\<lambda>c. if key c = key obj then bump obj else c) objs) = find_object key x objs"
    by (induction objs) (auto simp: find_object_def key_bump)
  moreover have "key obj \<in> key ` set objs"
    using update_ok(2) [OF assms] by (metis find_object_None option.distinct(1))
  ultimately show ?thesis using update_ok(1) [OF assms] by simp
qed

lemma update_version_grows:
  assumes "update_object key ver bump obj objs = Inr objs'" "find_object key x objs = Some cur"
  shows "\<exists>cur'. find_object key x objs' = Some cur' \<and> ver cur \<le> ver cur'"
proof (cases "x = key obj")
  case True
  then have "ver cur = ver obj" using update_ok(2) [OF assms(1)] assms(2) by simp
  then show ?thesis using update_find [OF assms(1), of x] True ver_bump [of obj] by simp
next
  case False
  then show ?thesis using update_find [OF assms(1), of x] assms(2) by simp
qed

end

end
