(* ===== verification/Alerts.thy ===== *)
theory Alerts
  imports Kube_Api
begin

text \<open>
  The controller for alert and record rules
  (\<open>kof-operator/internal/controller/alerts_configmap_controller.go\<close>).

  A reconciliation merges the rules of PrometheusRules and of labelled ConfigMaps: default rules
  first, then the patches of single clusters. It writes the alert rules into the ConfigMap of
  promxy and the record rules into one ConfigMap for each regional cluster. The API is a
  store of ConfigMaps with resource versions (\<open>Kube_Api\<close>). Parameters
  (\<open>rules_codec\<close>): decoding and encoding of YAML.

  A Go map that may be \<open>nil\<close> is an option of an association list: whether the labels of a rule are
  \<open>nil\<close> matters.
\<close>

section \<open>Rules\<close>

record int_or_string =
  IType :: nat
  IntVal :: int
  StrVal :: string

record rule =
  RRecord :: string
  RAlert :: string
  RExpr :: int_or_string
  RFor :: "string option"
  RKeepFiringFor :: "string option"
  RLabels :: "string gomap option"
  RAnnotations :: "string gomap option"

record rule_group =
  GName :: string
  GRules :: "rule list"

type_synonym alert_rules = "rule gomap"
type_synonym group_alerts = "alert_rules gomap"
type_synonym cluster_alerts = "group_alerts gomap"
type_synonym group_records = "rule list gomap"
type_synonym cluster_records = "group_records gomap"

record rules_codec =
  yaml_alerts :: "string \<Rightarrow> string + alert_rules"
  yaml_records :: "string \<Rightarrow> string + rule list"
  marshal_group :: "rule_group \<Rightarrow> string + string"
  marshal_vmrules :: "group_records \<Rightarrow> string + string"

definition KofAlertRulesClusterNameLabel :: string where
  "KofAlertRulesClusterNameLabel = ''k0rdent.mirantis.com/kof-alert-rules-cluster-name''"
definition KofRecordRulesClusterNameLabel :: string where
  "KofRecordRulesClusterNameLabel = ''k0rdent.mirantis.com/kof-record-rules-cluster-name''"
definition KofRecordVMRulesClusterNameLabel :: string where
  "KofRecordVMRulesClusterNameLabel = ''k0rdent.mirantis.com/kof-record-vmrules-cluster-name''"
definition KofGeneratedLabel :: string where
  "KofGeneratedLabel = ''k0rdent.mirantis.com/kof-generated''"
definition DefaultClusterName :: string where "DefaultClusterName = []"
definition ReleaseNameLabel :: string where "ReleaseNameLabel = ''app.kubernetes.io/instance''"

section \<open>The API\<close>

record config_map =
  cm_namespace :: string
  cm_name :: string
  cm_labels :: "string gomap"
  cm_data :: "string gomap"
  cm_owners :: "owner_reference list"
  cm_uid :: string
  cm_version :: nat

record prometheus_rule =
  pr_namespace :: string
  pr_labels :: "string gomap"
  pr_groups :: "rule_group list"

record kube = api_state +
  config_maps :: "config_map list"
  prometheus_rules :: "prometheus_rule list"
  updates :: "(string \<times> string) list"

definition cm_key :: "config_map \<Rightarrow> string \<times> string" where
  "cm_key cm = (cm_namespace cm, cm_name cm)"

text \<open>Errors of the API as text, beside the texts of the YAML library.\<close>

fun error_text :: "api_error \<Rightarrow> string" where
  "error_text NotFound = ''not found''"
| "error_text Conflict = ''conflict''"
| "error_text AlreadyExists = ''already exists''"
| "error_text (ApiFailure e) = e"

definition list_ConfigMaps :: "string \<Rightarrow> string \<Rightarrow> kube \<Rightarrow> (string + config_map list) \<times> kube" where
  "list_ConfigMaps namespace label k =
     (case api_call k of
        (Some e, k') \<Rightarrow> (Inl e, k')
      | (None, k') \<Rightarrow>
          (Inr (filter (\<lambda>cm. map_of (cm_labels cm) label \<noteq> None \<and> (namespace = [] \<or> cm_namespace cm = namespace))
             (config_maps k)), k'))"

definition get_ConfigMap :: "string \<times> string \<Rightarrow> kube \<Rightarrow> (string + config_map) \<times> kube" where
  "get_ConfigMap key k =
     (case api_call k of
        (Some e, k') \<Rightarrow> (Inl e, k')
      | (None, k') \<Rightarrow>
          (case find_object cm_key key (config_maps k) of
             None \<Rightarrow> (Inl (error_text NotFound), k')
           | Some cm \<Rightarrow> (Inr cm, k')))"

definition cm_bump :: "config_map \<Rightarrow> config_map" where
  "cm_bump cm = cm\<lparr>cm_version := Suc (cm_version cm)\<rparr>"

interpretation cm_kind: object_kind cm_key cm_version cm_bump
  by unfold_locales (simp_all add: cm_key_def cm_bump_def)

definition update_ConfigMap :: "config_map \<Rightarrow> kube \<Rightarrow> string option \<times> kube" where
  "update_ConfigMap cm k =
     (case api_call k of
        (Some e, k') \<Rightarrow> (Some e, k')
      | (None, k') \<Rightarrow>
          (case update_object cm_key cm_version cm_bump cm (config_maps k) of
             Inl e \<Rightarrow> (Some (error_text e), k')
           | Inr cms \<Rightarrow> (None, k'\<lparr>config_maps := cms, updates := updates k' @ [cm_key cm]\<rparr>)))"

definition list_PrometheusRules :: "string \<Rightarrow> string \<Rightarrow> kube \<Rightarrow> (string + prometheus_rule list) \<times> kube" where
  "list_PrometheusRules namespace releaseName k =
     (case api_call k of
        (Some e, k') \<Rightarrow> (Inl e, k')
      | (None, k') \<Rightarrow>
          (Inr (filter (\<lambda>p. pr_namespace p = namespace \<and> map_of (pr_labels p) ReleaseNameLabel = Some releaseName)
             (prometheus_rules k)), k'))"

section \<open>Merging\<close>

definition isDefault :: "string \<Rightarrow> config_map \<Rightarrow> bool" where
  "isDefault label cm \<longleftrightarrow> get_str (cm_labels cm) label = DefaultClusterName"

definition getConfigMaps :: "string \<Rightarrow> string \<Rightarrow> kube \<Rightarrow> (string + config_map list) \<times> kube" where
  "getConfigMaps namespace label k =
     (case list_ConfigMaps namespace label k of
        (Inl e, k') \<Rightarrow> (Inl e, k')
      | (Inr cms, k') \<Rightarrow> (Inr (filter (isDefault label) cms @ filter (\<lambda>cm. \<not> isDefault label cm) cms), k'))"

definition lookup_map :: "'a list gomap \<Rightarrow> string \<Rightarrow> 'a list" where
  "lookup_map m k = (case map_of m k of None \<Rightarrow> [] | Some v \<Rightarrow> v)"

text \<open>One rule of a PrometheusRule: \<open>KeepFiringFor\<close> is dropped from alerts.\<close>

definition add_rule :: "rule \<Rightarrow> alert_rules \<times> rule list \<Rightarrow> alert_rules \<times> rule list" where
  "add_rule rule st =
     (case st of
        (alertRules, recordRules) \<Rightarrow>
          (let rule' = (if RAlert rule \<noteq> [] then rule\<lparr>RKeepFiringFor := None\<rparr> else rule)
           in (if RAlert rule \<noteq> [] then map_set (RAlert rule) rule' alertRules else alertRules,
               if RRecord rule \<noteq> [] then recordRules @ [rule'] else recordRules)))"

definition add_group :: "rule_group \<Rightarrow> group_alerts \<times> group_records \<Rightarrow> group_alerts \<times> group_records" where
  "add_group g st =
     (case st of
        (alerts, records) \<Rightarrow>
          (case fold add_rule (GRules g) (lookup_map alerts (GName g), lookup_map records (GName g)) of
             (alertRules, recordRules) \<Rightarrow>
               (if length alertRules > 0 then map_set (GName g) alertRules alerts else alerts,
                if length recordRules > 0 then map_set (GName g) recordRules records else records)))"

definition mergePrometheusRules ::
  "string \<Rightarrow> string \<Rightarrow> cluster_alerts \<Rightarrow> cluster_records \<Rightarrow> kube \<Rightarrow>
     (string + cluster_alerts \<times> cluster_records) \<times> kube" where
  "mergePrometheusRules namespace releaseName A R k =
     (case list_PrometheusRules namespace releaseName k of
        (Inl e, k') \<Rightarrow> (Inl e, k')
      | (Inr prs, k') \<Rightarrow>
          (case fold add_group (concat (map pr_groups prs))
                  (lookup_map A DefaultClusterName, lookup_map R DefaultClusterName) of
             (alerts, records) \<Rightarrow>
               (Inr (map_set DefaultClusterName alerts A, map_set DefaultClusterName records R), k')))"

definition patchRule :: "rule \<Rightarrow> rule \<Rightarrow> rule" where
  "patchRule old new =
     old\<lparr>RExpr := (if StrVal (RExpr new) \<noteq> [] \<or> IntVal (RExpr new) \<noteq> 0 then RExpr new else RExpr old),
         RFor := (if RFor new \<noteq> None then RFor new else RFor old),
         RKeepFiringFor := (if RKeepFiringFor new \<noteq> None then RKeepFiringFor new else RKeepFiringFor old),
         RLabels := (case RLabels new of
             None \<Rightarrow> RLabels old
           | Some n \<Rightarrow> Some (map_copy (case RLabels old of None \<Rightarrow> [] | Some l \<Rightarrow> l) n)),
         RAnnotations := (case RAnnotations new of
             None \<Rightarrow> RAnnotations old
           | Some n \<Rightarrow> Some (map_copy (case RAnnotations old of None \<Rightarrow> [] | Some l \<Rightarrow> l) n))\<rparr>"

text \<open>
  One rule of a ConfigMap; \<open>defaults\<close> are the default rules of the group, or none for the default
  cluster itself.
\<close>

definition merge_rule :: "alert_rules \<Rightarrow> string \<times> rule \<Rightarrow> alert_rules \<Rightarrow> alert_rules" where
  "merge_rule defaults nr alertRules =
     (case nr of
        (ruleName, r) \<Rightarrow>
          (let newRule = r\<lparr>RAlert := ruleName\<rparr>
           in case map_of alertRules ruleName of
                Some oldRule \<Rightarrow> map_set ruleName (patchRule oldRule newRule) alertRules
              | None \<Rightarrow>
                  (case map_of defaults ruleName of
                     Some defaultRule \<Rightarrow> map_set ruleName (patchRule defaultRule newRule) alertRules
                   | None \<Rightarrow> map_set ruleName newRule alertRules)))"

definition group_defaults :: "cluster_alerts \<Rightarrow> string \<Rightarrow> string \<Rightarrow> alert_rules" where
  "group_defaults A clusterName groupName =
     (if clusterName \<noteq> DefaultClusterName then lookup_map (lookup_map A DefaultClusterName) groupName else [])"

text \<open>The entries of one ConfigMap: one group each.\<close>

fun merge_entries ::
  "rules_codec \<Rightarrow> cluster_alerts \<Rightarrow> string \<Rightarrow> (string \<times> string) list \<Rightarrow> group_alerts \<Rightarrow> string + group_alerts" where
  "merge_entries c A clusterName [] groups = Inr groups"
| "merge_entries c A clusterName ((groupName, rulesYAML) # entries) groups =
     (case yaml_alerts c rulesYAML of
        Inl e \<Rightarrow> Inl e
      | Inr newAlertRules \<Rightarrow>
          merge_entries c A clusterName entries
            (map_set groupName
               (fold (merge_rule (group_defaults A clusterName groupName)) newAlertRules (lookup_map groups groupName))
               groups))"

fun mergeAlertConfigMaps :: "rules_codec \<Rightarrow> config_map list \<Rightarrow> cluster_alerts \<Rightarrow> string + cluster_alerts" where
  "mergeAlertConfigMaps c [] A = Inr A"
| "mergeAlertConfigMaps c (cm # cms) A =
     (let clusterName = get_str (cm_labels cm) KofAlertRulesClusterNameLabel
      in case merge_entries c A clusterName (cm_data cm) (lookup_map A clusterName) of
           Inl e \<Rightarrow> Inl e
         | Inr groups \<Rightarrow> mergeAlertConfigMaps c cms (map_set clusterName groups A))"

fun record_entries ::
  "rules_codec \<Rightarrow> (string \<times> string) list \<Rightarrow> group_records \<Rightarrow> string + group_records" where
  "record_entries c [] groups = Inr groups"
| "record_entries c ((groupName, rulesYAML) # entries) groups =
     (case yaml_records c rulesYAML of
        Inl e \<Rightarrow> Inl e
      | Inr recordRules \<Rightarrow> record_entries c entries (map_set groupName recordRules groups))"

fun mergeRecordConfigMaps :: "rules_codec \<Rightarrow> config_map list \<Rightarrow> cluster_records \<Rightarrow> string + cluster_records" where
  "mergeRecordConfigMaps c [] R = Inr R"
| "mergeRecordConfigMaps c (cm # cms) R =
     (let clusterName = get_str (cm_labels cm) KofRecordRulesClusterNameLabel
      in case record_entries c (cm_data cm) (lookup_map R clusterName) of
           Inl e \<Rightarrow> Inl e
         | Inr groups \<Rightarrow> mergeRecordConfigMaps c cms (map_set clusterName groups R))"

section \<open>Output\<close>

definition fileName :: "string \<Rightarrow> string \<Rightarrow> string" where
  "fileName clusterName groupName =
     (if clusterName \<noteq> DefaultClusterName then ''__'' @ clusterName @ ''__'' @ groupName @ ''.yaml''
      else groupName @ ''.yaml'')"

text \<open>
  The loop that adds the label \<open>alertgroup\<close> assigns to a copy of the rule: a label map is shared
  with the slice, a fresh map for a rule without labels is not.
\<close>

definition label_rule :: "string \<Rightarrow> rule \<Rightarrow> rule" where
  "label_rule groupName rule =
     (case RLabels rule of
        None \<Rightarrow> rule
      | Some l \<Rightarrow> rule\<lparr>RLabels := Some (map_set ''alertgroup'' groupName l)\<rparr>)"

definition alert_group :: "string \<Rightarrow> alert_rules \<Rightarrow> rule_group" where
  "alert_group groupName rules =
     \<lparr>GName = groupName, GRules = map (label_rule groupName) (sort_key RAlert (map snd rules))\<rparr>"

fun alert_files ::
  "rules_codec \<Rightarrow> (string \<times> string \<times> alert_rules) list \<Rightarrow> string gomap \<Rightarrow> string + string gomap" where
  "alert_files c [] files = Inr files"
| "alert_files c ((clusterName, groupName, rules) # gs) files =
     (case marshal_group c (alert_group groupName rules) of
        Inl e \<Rightarrow> Inl e
      | Inr yaml \<Rightarrow>
          alert_files c gs
            (map_set (fileName clusterName groupName) (get_str files (fileName clusterName groupName) @ yaml) files))"

definition all_groups :: "cluster_alerts \<Rightarrow> (string \<times> string \<times> alert_rules) list" where
  "all_groups A = concat (map (\<lambda>(cluster, groups). map (\<lambda>(g, rules). (cluster, g, rules)) groups) A)"

definition getAlertFiles :: "rules_codec \<Rightarrow> cluster_alerts \<Rightarrow> string + string gomap" where
  "getAlertFiles c A = alert_files c (all_groups A) []"

definition write_data :: "config_map \<Rightarrow> string gomap \<Rightarrow> kube \<Rightarrow> string option \<times> kube" where
  "write_data cm data k =
     (if maps_Equal (cm_data cm) data then (None, k)
      else if get_str (cm_labels cm) KofGeneratedLabel \<noteq> ''true'' then (None, k)
      else update_ConfigMap (cm\<lparr>cm_data := data\<rparr>) k)"

definition updateConfigMap ::
  "config_map option \<Rightarrow> string \<Rightarrow> string \<Rightarrow> string gomap \<Rightarrow> kube \<Rightarrow> string option \<times> kube" where
  "updateConfigMap configMap namespace name data k =
     (case configMap of
        Some cm \<Rightarrow> write_data cm data k
      | None \<Rightarrow>
          (case get_ConfigMap (namespace, name) k of
             (Inl e, k') \<Rightarrow> (Some e, k')
           | (Inr cm, k') \<Rightarrow> write_data cm data k'))"

definition record_groups :: "cluster_records \<Rightarrow> string \<Rightarrow> group_records" where
  "record_groups R clusterName =
     map_copy (map_copy [] (lookup_map R DefaultClusterName)) (lookup_map R clusterName)"

definition updateRecordVMRulesConfigMap ::
  "rules_codec \<Rightarrow> cluster_records \<Rightarrow> config_map \<Rightarrow> kube \<Rightarrow> string option \<times> kube" where
  "updateRecordVMRulesConfigMap c R cm k =
     (case marshal_vmrules c (record_groups R (get_str (cm_labels cm) KofRecordVMRulesClusterNameLabel)) of
        Inl e \<Rightarrow> (Some e, k)
      | Inr yaml \<Rightarrow> updateConfigMap (Some cm) [] [] [(''values'', yaml)] k)"

fun update_vmrules :: "rules_codec \<Rightarrow> cluster_records \<Rightarrow> config_map list \<Rightarrow> kube \<Rightarrow> string option \<times> kube" where
  "update_vmrules c R [] k = (None, k)"
| "update_vmrules c R (cm # cms) k =
     (case updateRecordVMRulesConfigMap c R cm k of
        (Some e, k') \<Rightarrow> (Some e, k')
      | (None, k') \<Rightarrow> update_vmrules c R cms k')"

section \<open>Reconciliation\<close>

text \<open>The rules of both kinds, merged from all sources.\<close>

definition merge_all ::
  "rules_codec \<Rightarrow> string \<Rightarrow> string \<Rightarrow> config_map list \<Rightarrow> config_map list \<Rightarrow> kube \<Rightarrow>
     (string + cluster_alerts \<times> cluster_records) \<times> kube" where
  "merge_all c namespace releaseName alertCMs recordCMs k =
     (case mergePrometheusRules namespace releaseName [(DefaultClusterName, [])] [(DefaultClusterName, [])] k of
        (Inl e, k1) \<Rightarrow> (Inl e, k1)
      | (Inr (A, R), k1) \<Rightarrow>
          (case mergeAlertConfigMaps c alertCMs A of
             Inl e \<Rightarrow> (Inl e, k1)
           | Inr A' \<Rightarrow>
               (case mergeRecordConfigMaps c recordCMs R of
                  Inl e \<Rightarrow> (Inl e, k1)
                | Inr R' \<Rightarrow> (Inr (A', R'), k1))))"

definition write_outputs ::
  "rules_codec \<Rightarrow> string \<Rightarrow> string \<Rightarrow> cluster_alerts \<Rightarrow> cluster_records \<Rightarrow> config_map list \<Rightarrow> kube \<Rightarrow>
     string option \<times> kube" where
  "write_outputs c namespace releaseName A R vmCMs k =
     (case getAlertFiles c A of
        Inl e \<Rightarrow> (Some e, k)
      | Inr files \<Rightarrow>
          (case updateConfigMap None namespace (releaseName @ ''-promxy-rules'') files k of
             (Some e, k1) \<Rightarrow> (Some e, k1)
           | (None, k1) \<Rightarrow> update_vmrules c R vmCMs k1))"

definition updateResultingConfigMaps :: "rules_codec \<Rightarrow> environ \<Rightarrow> kube \<Rightarrow> string option \<times> kube" where
  "updateResultingConfigMaps c e k =
     (case map_of e ''RELEASE_NAMESPACE'' of
        None \<Rightarrow> (Some ''required RELEASE_NAMESPACE env var is not set'', k)
      | Some namespace \<Rightarrow>
          (case map_of e ''RELEASE_NAME'' of
             None \<Rightarrow> (Some ''required RELEASE_NAME env var is not set'', k)
           | Some releaseName \<Rightarrow>
               (case getConfigMaps namespace KofAlertRulesClusterNameLabel k of
                  (Inl e, k1) \<Rightarrow> (Some e, k1)
                | (Inr alertCMs, k1) \<Rightarrow>
                    (case getConfigMaps namespace KofRecordRulesClusterNameLabel k1 of
                       (Inl e, k2) \<Rightarrow> (Some e, k2)
                     | (Inr recordCMs, k2) \<Rightarrow>
                         (case getConfigMaps [] KofRecordVMRulesClusterNameLabel k2 of
                            (Inl e, k3) \<Rightarrow> (Some e, k3)
                          | (Inr vmCMs, k3) \<Rightarrow>
                              (case merge_all c namespace releaseName alertCMs recordCMs k3 of
                                 (Inl e, k4) \<Rightarrow> (Some e, k4)
                               | (Inr (A, R), k4) \<Rightarrow> write_outputs c namespace releaseName A R vmCMs k4))))))"

definition Reconcile :: "rules_codec \<Rightarrow> environ \<Rightarrow> kube \<Rightarrow> string option \<times> kube" where
  "Reconcile c e k = updateResultingConfigMaps c e k"

text \<open>The event filter: which objects start a reconciliation.\<close>

definition watched :: "config_map \<Rightarrow> bool" where
  "watched cm \<longleftrightarrow>
     map_of (cm_labels cm) KofAlertRulesClusterNameLabel \<noteq> None \<or>
     map_of (cm_labels cm) KofRecordRulesClusterNameLabel \<noteq> None \<or>
     map_of (cm_labels cm) KofRecordVMRulesClusterNameLabel \<noteq> None"

end
