(* ===== verification/Storage_Connection.thy ===== *)
theory Storage_Connection
  imports Kube_Api
begin

text \<open>
  The controller for storage connections
  (\<open>kof-operator/internal/controller/vmstorageconnection_controller.go\<close>).

  A VMStorageConnection names a VTCluster or a VLCluster and a storage node. The controller puts the
  nodes of all connections of a cluster into its arguments, and guards a connection with a finalizer
  until its node is out of them. The two adapters for cluster kinds have the same shape: here one
  record with the kind as a field. Parameters (\<open>storage_env\<close>): the order in which a list call returns
  connections, and what the server stores of a cluster (empty optional fields are left out).
\<close>

record secret_ref =
  SecretName :: string
  PasswordKey :: string
  UsernameKey :: string

record target_storage_node =
  Address :: string
  NodeSecret :: secret_ref
  TlsEnabled :: bool
  TlsInsecureSkipVerify :: bool

record cluster_ref =
  RefName :: string
  RefNamespace :: string
  RefKind :: string

record storage_connection =
  conn_namespace :: string
  conn_name :: string
  conn_labels :: "string gomap"
  conn_finalizers :: "string list"
  conn_owners :: "owner_reference list"
  conn_deleting :: bool
  ClusterRef :: cluster_ref
  TargetStorageNode :: target_storage_node
  conn_version :: nat

record select_spec =
  ExtraArgs :: "string gomap option"
  Secrets :: "string list option"

record storage_cluster =
  cl_kind :: string
  cl_namespace :: string
  cl_name :: string
  cl_select :: "select_spec option"
  cl_version :: nat

record storage_api = api_state +
  connections :: "storage_connection list"
  clusters :: "storage_cluster list"

record storage_env =
  list_order :: "storage_connection list \<Rightarrow> storage_connection list"
  stored :: "storage_cluster \<Rightarrow> storage_cluster"

datatype storage_error =
  GetConnection api_error
| UnsupportedKind string
| GetCluster api_error
| ClusterNotFound
| AddFinalizer api_error
| SyncOnDeletion storage_error
| ListConnections api_error
| UpdateFailed api_error

definition vmStorageConnectionFinalizer :: string where
  "vmStorageConnectionFinalizer = ''k0rdent.mirantis.com/vmstorageconnection''"
definition vmSecretMountPath :: string where "vmSecretMountPath = ''/etc/vm/secrets''"
definition storageNodeArg :: string where "storageNodeArg = ''storageNode''"
definition storageNodeUsernameFileArg :: string where "storageNodeUsernameFileArg = ''storageNode.usernameFile''"
definition storageNodePasswordFileArg :: string where "storageNodePasswordFileArg = ''storageNode.passwordFile''"
definition storageNodeTLSArg :: string where "storageNodeTLSArg = ''storageNode.tls''"
definition storageNodeTLSInsecureSkipVerify :: string where
  "storageNodeTLSInsecureSkipVerify = ''storageNode.tlsInsecureSkipVerify''"
definition ClusterNameLabelKey :: string where "ClusterNameLabelKey = ''k0rdent.mirantis.com/cluster-name''"
definition ClusterKindLabelKey :: string where "ClusterKindLabelKey = ''k0rdent.mirantis.com/cluster-kind''"

definition storageNodeOwnedArgs :: "string list" where
  "storageNodeOwnedArgs =
     [storageNodeArg, storageNodeUsernameFileArg, storageNodePasswordFileArg, storageNodeTLSArg,
      storageNodeTLSInsecureSkipVerify]"

section \<open>The API\<close>

definition conn_key :: "storage_connection \<Rightarrow> string \<times> string" where
  "conn_key conn = (conn_namespace conn, conn_name conn)"

definition conn_bump :: "storage_connection \<Rightarrow> storage_connection" where
  "conn_bump conn = conn\<lparr>conn_version := Suc (conn_version conn)\<rparr>"

definition cl_key :: "storage_cluster \<Rightarrow> string \<times> string \<times> string" where
  "cl_key cl = (cl_kind cl, cl_namespace cl, cl_name cl)"

definition cl_bump :: "storage_env \<Rightarrow> storage_cluster \<Rightarrow> storage_cluster" where
  "cl_bump env cl = (stored env cl)\<lparr>cl_kind := cl_kind cl, cl_namespace := cl_namespace cl, cl_name := cl_name cl,
     cl_version := Suc (cl_version cl)\<rparr>"

interpretation conn_kind: object_kind conn_key conn_version conn_bump
  by unfold_locales (simp_all add: conn_key_def conn_bump_def)

interpretation cl_kind: object_kind cl_key cl_version "cl_bump env" for env
  by unfold_locales (simp_all add: cl_key_def cl_bump_def)

definition get_connection :: "string \<times> string \<Rightarrow> storage_api \<Rightarrow> (api_error + storage_connection) \<times> storage_api" where
  "get_connection key k =
     (case api_call k of
        (Some e, k') \<Rightarrow> (Inl (ApiFailure e), k')
      | (None, k') \<Rightarrow>
          (case find_object conn_key key (connections k) of
             None \<Rightarrow> (Inl NotFound, k')
           | Some conn \<Rightarrow> (Inr conn, k')))"

text \<open>An object that is being deleted goes away with its last finalizer.\<close>

definition update_connection :: "storage_connection \<Rightarrow> storage_api \<Rightarrow> api_error option \<times> storage_api" where
  "update_connection conn k =
     (case api_call k of
        (Some e, k') \<Rightarrow> (Some (ApiFailure e), k')
      | (None, k') \<Rightarrow>
          (case update_object conn_key conn_version conn_bump conn (connections k) of
             Inl e \<Rightarrow> (Some e, k')
           | Inr conns \<Rightarrow>
               (None, k'\<lparr>connections :=
                  filter (\<lambda>c. \<not> (conn_key c = conn_key conn \<and> conn_deleting c \<and> conn_finalizers c = [])) conns\<rparr>)))"

definition list_connections :: "storage_env \<Rightarrow> string \<Rightarrow> string \<Rightarrow> storage_api \<Rightarrow>
    (api_error + storage_connection list) \<times> storage_api" where
  "list_connections env clusterName clusterKind k =
     (case api_call k of
        (Some e, k') \<Rightarrow> (Inl (ApiFailure e), k')
      | (None, k') \<Rightarrow>
          (Inr (list_order env (filter (\<lambda>c. map_of (conn_labels c) ClusterNameLabelKey = Some clusterName \<and>
              map_of (conn_labels c) ClusterKindLabelKey = Some clusterKind) (connections k))), k'))"

definition update_cluster :: "storage_env \<Rightarrow> storage_cluster \<Rightarrow> storage_api \<Rightarrow> api_error option \<times> storage_api" where
  "update_cluster env cl k =
     (case api_call k of
        (Some e, k') \<Rightarrow> (Some (ApiFailure e), k')
      | (None, k') \<Rightarrow>
          (case update_object cl_key cl_version (cl_bump env) cl (clusters k) of
             Inl e \<Rightarrow> (Some e, k')
           | Inr cls \<Rightarrow> (None, k'\<lparr>clusters := cls\<rparr>)))"

section \<open>The arguments of a cluster\<close>

definition storageExtraArgs :: "storage_cluster \<Rightarrow> string gomap option" where
  "storageExtraArgs cl = (case cl_select cl of None \<Rightarrow> None | Some s \<Rightarrow> ExtraArgs s)"

definition storageSecrets :: "storage_cluster \<Rightarrow> string list option" where
  "storageSecrets cl = (case cl_select cl of None \<Rightarrow> None | Some s \<Rightarrow> Secrets s)"

definition applyStorageConfig :: "string gomap \<Rightarrow> string list \<Rightarrow> storage_cluster \<Rightarrow> storage_cluster" where
  "applyStorageConfig args secrets cl = cl\<lparr>cl_select := Some \<lparr>ExtraArgs = Some args, Secrets = Some secrets\<rparr>\<rparr>"

definition secretKeyPath :: "string \<Rightarrow> string \<Rightarrow> string" where
  "secretKeyPath secretName k =
     (if k = [] then [] else vmSecretMountPath @ ''/'' @ secretName @ ''/'' @ k)"

definition setArg :: "string \<Rightarrow> string list \<Rightarrow> string gomap \<Rightarrow> string gomap" where
  "setArg k vs args = (if \<exists>v \<in> set vs. v \<noteq> [] then map_set k (join '','' vs) args else args)"

definition FormatBool :: "bool \<Rightarrow> string" where
  "FormatBool b = (if b then ''true'' else ''false'')"

record node_lists =
  addresses :: "string list"
  secrets :: "string list"
  usernameFiles :: "string list"
  passwordFiles :: "string list"
  tlsEnabled :: "string list"
  tlsInsecure :: "string list"

definition add_connection :: "storage_connection \<Rightarrow> node_lists \<Rightarrow> node_lists" where
  "add_connection conn l =
     (if conn_deleting conn then l
      else (let node = TargetStorageNode conn; s = NodeSecret node
            in \<lparr>addresses = addresses l @ [Address node],
                secrets = (if SecretName s \<noteq> [] \<and> SecretName s \<notin> set (secrets l) then secrets l @ [SecretName s] else secrets l),
                usernameFiles = usernameFiles l @ [secretKeyPath (SecretName s) (UsernameKey s)],
                passwordFiles = passwordFiles l @ [secretKeyPath (SecretName s) (PasswordKey s)],
                tlsEnabled = tlsEnabled l @ [FormatBool (TlsEnabled node)],
                tlsInsecure = tlsInsecure l @ [FormatBool (TlsInsecureSkipVerify node)]\<rparr>))"

definition node_args :: "string gomap option \<Rightarrow> node_lists \<Rightarrow> string gomap" where
  "node_args existingArgs l =
     (let args = fold AList.delete storageNodeOwnedArgs (case existingArgs of None \<Rightarrow> [] | Some m \<Rightarrow> m)
      in setArg storageNodeTLSInsecureSkipVerify (tlsInsecure l)
           (setArg storageNodeTLSArg (tlsEnabled l)
             (setArg storageNodePasswordFileArg (passwordFiles l)
               (setArg storageNodeUsernameFileArg (usernameFiles l)
                 (setArg storageNodeArg (addresses l) args)))))"

definition no_nodes :: node_lists where
  "no_nodes = \<lparr>addresses = [], secrets = [], usernameFiles = [], passwordFiles = [], tlsEnabled = [], tlsInsecure = []\<rparr>"

definition buildStorageNodeConfig ::
  "storage_env \<Rightarrow> string \<Rightarrow> string \<Rightarrow> string gomap option \<Rightarrow> storage_api \<Rightarrow>
     (storage_error + string gomap \<times> string list) \<times> storage_api" where
  "buildStorageNodeConfig env clusterName clusterKind existingArgs k =
     (case list_connections env clusterName clusterKind k of
        (Inl e, k') \<Rightarrow> (Inl (ListConnections e), k')
      | (Inr conns, k') \<Rightarrow>
          (let l = fold add_connection conns no_nodes
           in (Inr (node_args existingArgs l, sort (secrets l)), k')))"

text \<open>\<open>reflect.DeepEqual\<close> tells a \<open>nil\<close> map or slice from an empty one.\<close>

definition syncCluster :: "storage_env \<Rightarrow> storage_cluster \<Rightarrow> storage_api \<Rightarrow> storage_error option \<times> storage_api" where
  "syncCluster env cl k =
     (case buildStorageNodeConfig env (cl_name cl) (cl_kind cl) (storageExtraArgs cl) k of
        (Inl e, k1) \<Rightarrow> (Some e, k1)
      | (Inr (args, secs), k1) \<Rightarrow>
          if (case storageExtraArgs cl of None \<Rightarrow> False | Some m \<Rightarrow> maps_Equal m args) \<and> storageSecrets cl = Some secs
          then (None, k1)
          else (case update_cluster env (applyStorageConfig args secs cl) k1 of
              (Some e, k2) \<Rightarrow> (Some (UpdateFailed e), k2)
            | (None, k2) \<Rightarrow> (None, k2)))"

section \<open>Reconciliation\<close>

definition fetchCluster :: "string \<Rightarrow> string \<Rightarrow> string \<Rightarrow> storage_api \<Rightarrow>
    (api_error + storage_cluster option) \<times> storage_api" where
  "fetchCluster kind name namespace k =
     (case api_call k of
        (Some e, k') \<Rightarrow> (Inl (ApiFailure e), k')
      | (None, k') \<Rightarrow> (Inr (find_object cl_key (kind, namespace, name) (clusters k)), k'))"

definition AddFinalizer_labels :: "storage_connection \<Rightarrow> storage_connection" where
  "AddFinalizer_labels conn =
     conn\<lparr>conn_finalizers := conn_finalizers conn @ [vmStorageConnectionFinalizer],
          conn_labels := map_set ClusterKindLabelKey (RefKind (ClusterRef conn))
            (map_set ClusterNameLabelKey (RefName (ClusterRef conn)) (conn_labels conn))\<rparr>"

definition RemoveFinalizer :: "storage_connection \<Rightarrow> storage_connection" where
  "RemoveFinalizer conn = conn\<lparr>conn_finalizers := filter (\<lambda>f. f \<noteq> vmStorageConnectionFinalizer) (conn_finalizers conn)\<rparr>"

definition drop_finalizer :: "storage_connection \<Rightarrow> storage_api \<Rightarrow> storage_error option \<times> storage_api" where
  "drop_finalizer conn k =
     (case update_connection (RemoveFinalizer conn) k of
        (Some e, k') \<Rightarrow> (Some (UpdateFailed e), k')
      | (None, k') \<Rightarrow> (None, k'))"

definition handleClusterDeletion ::
  "storage_env \<Rightarrow> storage_connection \<Rightarrow> storage_cluster option \<Rightarrow> storage_api \<Rightarrow> storage_error option \<times> storage_api" where
  "handleClusterDeletion env conn cluster k =
     (if vmStorageConnectionFinalizer \<notin> set (conn_finalizers conn) then (None, k)
      else (case cluster of
          None \<Rightarrow> drop_finalizer conn k
        | Some cl \<Rightarrow>
            (case syncCluster env cl k of
               (Some e, k1) \<Rightarrow> (Some (SyncOnDeletion e), k1)
             | (None, k1) \<Rightarrow> drop_finalizer conn k1)))"

definition reconcileCluster ::
  "storage_env \<Rightarrow> storage_connection \<Rightarrow> string \<Rightarrow> storage_api \<Rightarrow> storage_error option \<times> storage_api" where
  "reconcileCluster env conn clusterNS k =
     (case fetchCluster (RefKind (ClusterRef conn)) (RefName (ClusterRef conn)) clusterNS k of
        (Inl e, k1) \<Rightarrow> (Some (GetCluster e), k1)
      | (Inr cluster, k1) \<Rightarrow>
          if conn_deleting conn then handleClusterDeletion env conn cluster k1
          else (case cluster of
              None \<Rightarrow> (Some ClusterNotFound, k1)
            | Some cl \<Rightarrow>
                if vmStorageConnectionFinalizer \<in> set (conn_finalizers conn) then syncCluster env cl k1
                else (case update_connection (AddFinalizer_labels conn) k1 of
                    (Some e, k2) \<Rightarrow> (Some (AddFinalizer e), k2)
                  | (None, k2) \<Rightarrow> syncCluster env cl k2)))"

definition ref_namespace :: "storage_connection \<Rightarrow> string" where
  "ref_namespace conn =
     (if RefNamespace (ClusterRef conn) = [] then conn_namespace conn else RefNamespace (ClusterRef conn))"

definition Reconcile_connection ::
  "storage_env \<Rightarrow> string \<times> string \<Rightarrow> storage_api \<Rightarrow> storage_error option \<times> storage_api" where
  "Reconcile_connection env key k =
     (case get_connection key k of
        (Inl NotFound, k1) \<Rightarrow> (None, k1)
      | (Inl e, k1) \<Rightarrow> (Some (GetConnection e), k1)
      | (Inr conn, k1) \<Rightarrow>
          if RefKind (ClusterRef conn) = ''VTCluster'' \<or> RefKind (ClusterRef conn) = ''VLCluster''
          then reconcileCluster env conn (ref_namespace conn) k1
          else (Some (UnsupportedKind (RefKind (ClusterRef conn))), k1))"

end
