(* ===== verification/VMUser.thy ===== *)
theory VMUser
  imports Kube_Api "HOL-Library.Word"
begin

text \<open>
  Credentials and access rules of a cluster
  (\<open>kof-operator/internal/controller/vmuser/victoriametrics_user.go\<close>, with the passwords of
  \<open>internal/crypto\<close>).

  For a cluster the manager keeps a Secret with a generated password, a copy of it in the namespace
  \<open>kof\<close>, a VMUser that routes requests to the storage backends with query arguments for the tenant,
  and a MultiClusterService that propagates both. All are written with \<open>CreateOrUpdate\<close> of
  controller-runtime, stated here over the stores of \<open>Kube_Api\<close>. Parameter: the random bytes.
\<close>

section \<open>CreateOrUpdate\<close>

datatype op_result = OpCreated | OpUpdated | OpNone

datatype cou_error = CouApi api_error | CouMutate string

definition CreateOrUpdate ::
  "('o \<Rightarrow> 'k) \<Rightarrow> ('o \<Rightarrow> nat) \<Rightarrow> ('o \<Rightarrow> 'o) \<Rightarrow> ('o \<Rightarrow> 'o \<Rightarrow> bool) \<Rightarrow> ('s api_state_scheme \<Rightarrow> 'o list) \<Rightarrow>
     ('o list \<Rightarrow> 's api_state_scheme \<Rightarrow> 's api_state_scheme) \<Rightarrow> 'o \<Rightarrow> ('o \<Rightarrow> string + 'o) \<Rightarrow> 's api_state_scheme \<Rightarrow>
     (cou_error + op_result \<times> 'o) \<times> 's api_state_scheme" where
  "CreateOrUpdate key ver bump same objs set_objs template mutate k =
     (case api_call k of
        (Some e, k1) \<Rightarrow> (Inl (CouApi (ApiFailure e)), k1)
      | (None, k1) \<Rightarrow>
          (case find_object key (key template) (objs k) of
             None \<Rightarrow>
               (case mutate template of
                  Inl e \<Rightarrow> (Inl (CouMutate e), k1)
                | Inr obj \<Rightarrow>
                    (case api_call k1 of
                       (Some e, k2) \<Rightarrow> (Inl (CouApi (ApiFailure e)), k2)
                     | (None, k2) \<Rightarrow>
                         (case create_object key obj (objs k1) of
                            Inl e \<Rightarrow> (Inl (CouApi e), k2)
                          | Inr os \<Rightarrow> (Inr (OpCreated, obj), set_objs os k2))))
           | Some cur \<Rightarrow>
               (case mutate cur of
                  Inl e \<Rightarrow> (Inl (CouMutate e), k1)
                | Inr obj \<Rightarrow>
                    if same cur obj then (Inr (OpNone, obj), k1)
                    else (case api_call k1 of
                        (Some e, k2) \<Rightarrow> (Inl (CouApi (ApiFailure e)), k2)
                      | (None, k2) \<Rightarrow>
                          (case update_object key ver bump obj (objs k1) of
                             Inl e \<Rightarrow> (Inl (CouApi e), k2)
                           | Inr os \<Rightarrow> (Inr (OpUpdated, bump obj), set_objs os k2))))))"

section \<open>Passwords\<close>

definition charset :: string where
  "charset = ''abcdefghijklmnopqrstuvwxyzABCDEFGHIJKLMNOPQRSTUVWXYZ0123456789''"

text \<open>The byte read for each position, or an error.\<close>

type_synonym random_source = "nat \<Rightarrow> string + 8 word"

fun password_from :: "random_source \<Rightarrow> nat list \<Rightarrow> string + string" where
  "password_from rand [] = Inr []"
| "password_from rand (i # is) =
     (case rand i of
        Inl e \<Rightarrow> Inl e
      | Inr b \<Rightarrow>
          (case password_from rand is of
             Inl e \<Rightarrow> Inl e
           | Inr p \<Rightarrow> Inr (charset ! (unat b mod length charset) # p)))"

definition GeneratePassword :: "random_source \<Rightarrow> int \<Rightarrow> string + string" where
  "GeneratePassword rand n =
     (if n \<le> 0 then Inl ''length must be positive'' else password_from rand [0..<nat n])"

section \<open>Resources\<close>

record extra_label =
  LabelKey :: string
  LabelValue :: string

record vmuser_config =
  ExtraLabel :: "extra_label option"
  ExtraFilters :: "string gomap"

record label_selector =
  MatchLabels :: "string gomap option"
  MatchExpressions :: "string list"

record mcs_config =
  ClusterSelector :: label_selector
  DependsOn :: "string list"

record create_options =
  OptName :: string
  OptNamespace :: string
  OptOwner :: "owner_reference option"
  OptLabels :: "string gomap"
  OptMCS :: "mcs_config option"
  OptVMUser :: "vmuser_config option"

record secret =
  sec_namespace :: string
  sec_name :: string
  sec_data :: "string gomap"
  sec_labels :: "string gomap"
  sec_owners :: "owner_reference list"
  sec_version :: nat

record query_arg =
  ArgName :: string
  ArgValues :: "string list"

record target_ref =
  Paths :: "string list"
  StaticURL :: string
  DropSrcPathPrefixParts :: nat
  QueryArgs :: "query_arg list"

record vmuser_spec =
  Username :: string
  PasswordRefKey :: string
  PasswordRefName :: string
  TargetRefs :: "target_ref list"

record vmuser =
  vu_namespace :: string
  vu_name :: string
  vu_labels :: "string gomap"
  vu_owners :: "owner_reference list"
  vu_spec :: "vmuser_spec option"
  vu_version :: nat

record mcs_service =
  SvcName :: string
  SvcTemplate :: string
  SvcNamespace :: string
  SvcValues :: string

record template_ref =
  TRIdentifier :: string
  TRKind :: string
  TRName :: string
  TRNamespace :: string

record mcs_spec =
  KeepServicesOnSelectorMismatch :: bool
  SpecSelector :: label_selector
  SpecDependsOn :: "string list"
  Services :: "mcs_service list"
  TemplateResourceRefs :: "template_ref list"

record multi_cluster_service =
  mcs_name :: string
  mcs_labels :: "string gomap"
  mcs_spec_of :: "mcs_spec option"
  mcs_version :: nat

record vm_api = api_state +
  secrets :: "secret list"
  vmusers :: "vmuser list"
  mcss :: "multi_cluster_service list"

definition sec_key :: "secret \<Rightarrow> string \<times> string" where "sec_key s = (sec_namespace s, sec_name s)"
definition sec_bump :: "secret \<Rightarrow> secret" where "sec_bump s = s\<lparr>sec_version := Suc (sec_version s)\<rparr>"
definition vu_key :: "vmuser \<Rightarrow> string \<times> string" where "vu_key u = (vu_namespace u, vu_name u)"
definition vu_bump :: "vmuser \<Rightarrow> vmuser" where "vu_bump u = u\<lparr>vu_version := Suc (vu_version u)\<rparr>"
definition mcs_bump :: "multi_cluster_service \<Rightarrow> multi_cluster_service" where
  "mcs_bump m = m\<lparr>mcs_version := Suc (mcs_version m)\<rparr>"

text \<open>Semantic equality of two states of an object: maps are compared as maps.\<close>

definition same_secret :: "secret \<Rightarrow> secret \<Rightarrow> bool" where
  "same_secret s t \<longleftrightarrow> maps_Equal (sec_data s) (sec_data t) \<and> maps_Equal (sec_labels s) (sec_labels t) \<and> sec_owners s = sec_owners t"

definition same_vmuser :: "vmuser \<Rightarrow> vmuser \<Rightarrow> bool" where
  "same_vmuser u v \<longleftrightarrow> maps_Equal (vu_labels u) (vu_labels v) \<and> vu_owners u = vu_owners v \<and> vu_spec u = vu_spec v"

definition same_mcs :: "multi_cluster_service \<Rightarrow> multi_cluster_service \<Rightarrow> bool" where
  "same_mcs m n \<longleftrightarrow> maps_Equal (mcs_labels m) (mcs_labels n) \<and> mcs_spec_of m = mcs_spec_of n"

section \<open>Names and query arguments\<close>

definition PasswordKey :: string where "PasswordKey = ''password''"
definition UsernameKey :: string where "UsernameKey = ''username''"
definition KofNamespace :: string where "KofNamespace = ''kof''"
definition ManagedByLabel :: string where "ManagedByLabel = ''app.kubernetes.io/managed-by''"
definition ManagedByValue :: string where "ManagedByValue = ''kof-operator''"
definition KofVersionLabel :: string where "KofVersionLabel = ''k0rdent.mirantis.com/kof-version''"

definition BuildSecretName :: "string \<Rightarrow> string" where "BuildSecretName name = ''kof-vmuser-creds-'' @ name"
definition BuildMCSName :: "string \<Rightarrow> string" where "BuildMCSName name = ''kof-vmuser-propagation-'' @ name"
definition BuildVMUserName :: "string \<Rightarrow> string" where "BuildVMUserName name = ''kof-vmuser-'' @ name"

definition getLabels :: "string gomap \<Rightarrow> string gomap" where
  "getLabels extraLabels = map_copy [(ManagedByLabel, ManagedByValue)] extraLabels"

definition getOwnerReferences :: "owner_reference option \<Rightarrow> owner_reference list" where
  "getOwnerReferences ownerRef = (case ownerRef of None \<Rightarrow> [] | Some r \<Rightarrow> [r])"

definition maybeVersionedClusterSelector :: "environ \<Rightarrow> label_selector \<Rightarrow> label_selector" where
  "maybeVersionedClusterSelector e base =
     (let m = (case MatchLabels base of None \<Rightarrow> [] | Some m \<Rightarrow> m)
      in base\<lparr>MatchLabels := Some (if \<not> AutoUpgradeEnabled e \<and> GetKofVersion e \<noteq> [] then map_set KofVersionLabel (GetKofVersion e) m else m)\<rparr>)"

definition formatLabelParam :: "string \<Rightarrow> string \<Rightarrow> string" where
  "formatLabelParam k v = k @ ''='' @ v"

definition formatFilterParams :: "string \<Rightarrow> string \<Rightarrow> string" where
  "formatFilterParams k v = CHR 0x22 # k @ [CHR 0x22] @ '':='' @ [CHR 0x22] @ v @ [CHR 0x22]"

record query_args =
  vlSelectArgs :: "query_arg list"
  vlInsertArgs :: "query_arg list"
  vmInsertArgs :: "query_arg list"
  vmSelectArgs :: "query_arg list"
  vtSelectArgs :: "query_arg list"
  vtInsertArgs :: "query_arg list"

definition no_args :: query_args where
  "no_args = \<lparr>vlSelectArgs = [], vlInsertArgs = [], vmInsertArgs = [], vmSelectArgs = [], vtSelectArgs = [], vtInsertArgs = []\<rparr>"

definition applyExtraLabel :: "extra_label option \<Rightarrow> query_args \<Rightarrow> query_args" where
  "applyExtraLabel label a =
     (case label of
        None \<Rightarrow> a
      | Some l \<Rightarrow>
          (let labelParam = formatLabelParam (LabelKey l) (LabelValue l)
           in a\<lparr>vmInsertArgs := vmInsertArgs a @ [\<lparr>ArgName = ''extra_label'', ArgValues = [labelParam]\<rparr>],
                vlInsertArgs := vlInsertArgs a @ [\<lparr>ArgName = ''extra_fields'', ArgValues = [labelParam]\<rparr>],
                vtInsertArgs := vtInsertArgs a @
                  [\<lparr>ArgName = ''extra_fields'', ArgValues = [formatLabelParam (''resource_attr:'' @ LabelKey l) (LabelValue l)]\<rparr>]\<rparr>))"

definition vm_filter :: "string \<Rightarrow> string \<Rightarrow> string" where
  "vm_filter k v = k @ ''='' @ [CHR 0x22] @ v @ [CHR 0x22]"

definition applyExtraFilters :: "string gomap \<Rightarrow> query_args \<Rightarrow> query_args" where
  "applyExtraFilters filters a =
     (if length filters = 0 then a
      else (let vlValues = sort (map (\<lambda>(k, v). formatFilterParams k v) filters);
                vtValues = sort (map (\<lambda>(k, v). formatFilterParams (''resource_attr:'' @ k) v) filters);
                vmValues = sort (map (\<lambda>(k, v). vm_filter k v) filters)
            in a\<lparr>vlSelectArgs := vlSelectArgs a @ [\<lparr>ArgName = ''extra_filters'', ArgValues = vlValues\<rparr>],
                 vtSelectArgs := vtSelectArgs a @ [\<lparr>ArgName = ''extra_filters'', ArgValues = vtValues\<rparr>],
                 vmSelectArgs := vmSelectArgs a @ [\<lparr>ArgName = ''extra_filters'', ArgValues = [''{'' @ join '','' vmValues @ ''}'']\<rparr>]\<rparr>))"

definition buildQueryArgs :: "vmuser_config option \<Rightarrow> query_args" where
  "buildQueryArgs cfg =
     (case cfg of
        None \<Rightarrow> no_args
      | Some c \<Rightarrow> applyExtraFilters (ExtraFilters c) (applyExtraLabel (ExtraLabel c) no_args))"

definition route_paths :: "string list" where
  "route_paths = [''/vlas/.*'', ''/vlai/.*'', ''/vls/.*'', ''/vli/.*'', ''/vm/select/.*'', ''/vm/insert/.*'', ''/vts/.*'', ''/vti/.*'']"

definition buildTargetRefs :: "environ \<Rightarrow> vmuser_config option \<Rightarrow> target_ref list" where
  "buildTargetRefs e cfg =
     (let a = buildQueryArgs cfg
      in map (\<lambda>(path, url, args). \<lparr>Paths = [path], StaticURL = url, DropSrcPathPrefixParts = 1, QueryArgs = args\<rparr>)
           (zip route_paths
              [(GetVLAuditSelectURL e, vlSelectArgs a), (GetVLAuditInsertURL e, vlInsertArgs a),
               (GetVLSelectURL e, vlSelectArgs a), (GetVLInsertURL e, vlInsertArgs a),
               (GetVMSelectURL e, vmSelectArgs a), (GetVMInsertURL e, vmInsertArgs a),
               (GetVTSelectURL e, vtSelectArgs a), (GetVTInsertURL e, vtInsertArgs a)]))"

section \<open>The manager\<close>

datatype vmuser_error =
  EmptyName
| CreateSecret cou_error
| CreateKofSecret cou_error
| CreateVMUser cou_error
| CreateMCS cou_error
| DeleteMCS api_error
| DeleteVMUser api_error
| DeleteSecret api_error
| DeleteKofSecret api_error

definition set_secrets :: "secret list \<Rightarrow> 'a vm_api_scheme \<Rightarrow> 'a vm_api_scheme" where "set_secrets os k = k\<lparr>secrets := os\<rparr>"
definition set_vmusers :: "vmuser list \<Rightarrow> 'a vm_api_scheme \<Rightarrow> 'a vm_api_scheme" where "set_vmusers os k = k\<lparr>vmusers := os\<rparr>"
definition set_mcss :: "multi_cluster_service list \<Rightarrow> 'a vm_api_scheme \<Rightarrow> 'a vm_api_scheme" where "set_mcss os k = k\<lparr>mcss := os\<rparr>"

definition new_secret :: "string \<Rightarrow> string \<Rightarrow> secret" where
  "new_secret namespace name =
     \<lparr>sec_namespace = namespace, sec_name = name, sec_data = [], sec_labels = [], sec_owners = [], sec_version = 0\<rparr>"

text \<open>A password is generated only where there is none.\<close>

definition mutate_secret :: "random_source \<Rightarrow> create_options \<Rightarrow> secret \<Rightarrow> string + secret" where
  "mutate_secret rand opts s =
     (let finish = (\<lambda>s. s\<lparr>sec_labels := getLabels (OptLabels opts), sec_owners := getOwnerReferences (OptOwner opts)\<rparr>)
      in if length (get_str (sec_data s) PasswordKey) = 0
         then (case GeneratePassword rand 16 of
             Inl e \<Rightarrow> Inl e
           | Inr pass \<Rightarrow> Inr (finish (s\<lparr>sec_data := [(UsernameKey, OptName opts), (PasswordKey, pass)]\<rparr>)))
         else Inr (finish s))"

definition createSecret :: "random_source \<Rightarrow> create_options \<Rightarrow> 'a vm_api_scheme \<Rightarrow> vmuser_error option \<times> 'a vm_api_scheme" where
  "createSecret rand opts k =
     (case CreateOrUpdate sec_key sec_version sec_bump same_secret secrets set_secrets
             (new_secret (OptNamespace opts) (BuildSecretName (OptName opts))) (mutate_secret rand opts) k of
        (Inl e, k1) \<Rightarrow> (Some (CreateSecret e), k1)
      | (Inr (op, secret), k1) \<Rightarrow>
          (case CreateOrUpdate sec_key sec_version sec_bump same_secret secrets set_secrets
                  (new_secret KofNamespace (sec_name secret))
                  (\<lambda>s. Inr (s\<lparr>sec_labels := sec_labels secret, sec_data := sec_data secret\<rparr>)) k1 of
             (Inl e, k2) \<Rightarrow> (Some (CreateKofSecret e), k2)
           | (Inr _, k2) \<Rightarrow> (None, k2)))"

definition vmuser_spec_of :: "environ \<Rightarrow> create_options \<Rightarrow> vmuser_spec" where
  "vmuser_spec_of e opts =
     \<lparr>Username = OptName opts, PasswordRefKey = PasswordKey, PasswordRefName = BuildSecretName (OptName opts),
      TargetRefs = buildTargetRefs e (OptVMUser opts)\<rparr>"

definition createOrUpdateVMUser :: "environ \<Rightarrow> create_options \<Rightarrow> 'a vm_api_scheme \<Rightarrow> vmuser_error option \<times> 'a vm_api_scheme" where
  "createOrUpdateVMUser e opts k =
     (case CreateOrUpdate vu_key vu_version vu_bump same_vmuser vmusers set_vmusers
             \<lparr>vu_namespace = OptNamespace opts, vu_name = BuildVMUserName (OptName opts), vu_labels = [], vu_owners = [],
              vu_spec = None, vu_version = 0\<rparr>
             (\<lambda>u. Inr (u\<lparr>vu_owners := getOwnerReferences (OptOwner opts), vu_labels := getLabels (OptLabels opts),
                vu_spec := Some (vmuser_spec_of e opts)\<rparr>)) k of
        (Inl e, k1) \<Rightarrow> (Some (CreateVMUser e), k1)
      | (Inr _, k1) \<Rightarrow> (None, k1))"

definition propagation_values :: "string \<Rightarrow> string" where
  "propagation_values identifier =
     ''propagation:'' @ [CHR 0x0A] @ ''  enabled: true'' @ [CHR 0x0A] @ ''  data: |'' @ [CHR 0x0A] @
     ''{{ removeField '' @ [CHR 0x22] @ identifier @ [CHR 0x22] @ '' '' @ [CHR 0x22] @ ''metadata.ownerReferences'' @ [CHR 0x22] @
     '' | nindent 14 }}'' @ [CHR 0x0A]"

definition mcs_spec_for :: "environ \<Rightarrow> create_options \<Rightarrow> mcs_config \<Rightarrow> mcs_spec" where
  "mcs_spec_for e opts cfg =
     (let service = (\<lambda>name identifier. \<lparr>SvcName = name, SvcTemplate = GetPropagationTemplateName e,
             SvcNamespace = OptNamespace opts, SvcValues = propagation_values identifier\<rparr>);
          ref = (\<lambda>identifier kind name. \<lparr>TRIdentifier = identifier, TRKind = kind, TRName = name, TRNamespace = OptNamespace opts\<rparr>);
          user = BuildVMUserName (OptName opts); creds = BuildSecretName (OptName opts)
      in \<lparr>KeepServicesOnSelectorMismatch = True, SpecSelector = maybeVersionedClusterSelector e (ClusterSelector cfg),
          SpecDependsOn = DependsOn cfg, Services = [service user ''vmuser'', service creds ''secret''],
          TemplateResourceRefs = [ref ''vmuser'' ''VMUser'' user, ref ''secret'' ''Secret'' creds]\<rparr>)"

definition createOrUpdatePropagationMCS :: "environ \<Rightarrow> create_options \<Rightarrow> mcs_config \<Rightarrow> 'a vm_api_scheme \<Rightarrow> vmuser_error option \<times> 'a vm_api_scheme" where
  "createOrUpdatePropagationMCS e opts cfg k =
     (case CreateOrUpdate mcs_name mcs_version mcs_bump same_mcs mcss set_mcss
             \<lparr>mcs_name = BuildMCSName (OptName opts), mcs_labels = [], mcs_spec_of = None, mcs_version = 0\<rparr>
             (\<lambda>m. Inr (m\<lparr>mcs_labels := getLabels (OptLabels opts), mcs_spec_of := Some (mcs_spec_for e opts cfg)\<rparr>)) k of
        (Inl e, k1) \<Rightarrow> (Some (CreateMCS e), k1)
      | (Inr _, k1) \<Rightarrow> (None, k1))"

definition Create :: "random_source \<Rightarrow> environ \<Rightarrow> create_options \<Rightarrow> 'a vm_api_scheme \<Rightarrow> vmuser_error option \<times> 'a vm_api_scheme" where
  "Create rand e opts k =
     (if OptName opts = [] then (Some EmptyName, k)
      else (case createSecret rand opts k of
          (Some err, k1) \<Rightarrow> (Some err, k1)
        | (None, k1) \<Rightarrow>
            (case createOrUpdateVMUser e opts k1 of
               (Some err, k2) \<Rightarrow> (Some err, k2)
             | (None, k2) \<Rightarrow>
                 (case OptMCS opts of
                    None \<Rightarrow> (None, k2)
                  | Some cfg \<Rightarrow>
                      if RegionlessEnabled e then (None, k2) else createOrUpdatePropagationMCS e opts cfg k2))))"

text \<open>Deleting what is already gone is no error.\<close>

definition deleteResource ::
  "('o \<Rightarrow> 'k) \<Rightarrow> ('s api_state_scheme \<Rightarrow> 'o list) \<Rightarrow> ('o list \<Rightarrow> 's api_state_scheme \<Rightarrow> 's api_state_scheme) \<Rightarrow> 'k \<Rightarrow>
     's api_state_scheme \<Rightarrow> api_error option \<times> 's api_state_scheme" where
  "deleteResource key objs set_objs x k =
     (case api_call k of
        (Some e, k1) \<Rightarrow> (Some (ApiFailure e), k1)
      | (None, k1) \<Rightarrow>
          (case delete_object key x (objs k) of
             Inl NotFound \<Rightarrow> (None, k1)
           | Inl e \<Rightarrow> (Some e, k1)
           | Inr os \<Rightarrow> (None, set_objs os k1)))"

definition Delete :: "string \<Rightarrow> string \<Rightarrow> 'a vm_api_scheme \<Rightarrow> vmuser_error option \<times> 'a vm_api_scheme" where
  "Delete name namespace k =
     (if name = [] then (Some EmptyName, k)
      else (case deleteResource mcs_name mcss set_mcss (BuildMCSName name) k of
          (Some e, k1) \<Rightarrow> (Some (DeleteMCS e), k1)
        | (None, k1) \<Rightarrow>
            (case deleteResource vu_key vmusers set_vmusers (namespace, BuildVMUserName name) k1 of
               (Some e, k2) \<Rightarrow> (Some (DeleteVMUser e), k2)
             | (None, k2) \<Rightarrow>
                 (case deleteResource sec_key secrets set_secrets (namespace, BuildSecretName name) k2 of
                    (Some e, k3) \<Rightarrow> (Some (DeleteSecret e), k3)
                  | (None, k3) \<Rightarrow>
                      (case deleteResource sec_key secrets set_secrets (KofNamespace, BuildSecretName name) k3 of
                         (Some e, k4) \<Rightarrow> (Some (DeleteKofSecret e), k4)
                       | (None, k4) \<Rightarrow> (None, k4))))))"

end
