(* ===== verification/Names.thy ===== *)
theory Names
  imports Kof_Prelude "HOL-Library.Word"
begin

unbundle bit_operations_syntax

text \<open>
  Names of generated resources (\<open>kof-operator/internal/names/names.go\<close>): a prefix and a checksum of
  the name of the owner, FNV-1a in hexadecimal or Adler-32 in decimal.
\<close>

definition fnv1a :: "string \<Rightarrow> 32 word" where
  "fnv1a s = foldl (\<lambda>h c. (h XOR of_char c) * 16777619) 2166136261 s"

definition FNVName :: "string \<Rightarrow> string \<Rightarrow> string" where
  "FNVName pre name = pre @ ''-'' @ hex_nat (unat (fnv1a name))"

definition adler_step :: "nat \<times> nat \<Rightarrow> char \<Rightarrow> nat \<times> nat" where
  "adler_step st c = (case st of (a, b) \<Rightarrow> (let a' = (a + of_char c) mod 65521 in (a', (b + a') mod 65521)))"

definition adler32 :: "string \<Rightarrow> nat" where
  "adler32 s = (case foldl adler_step (1, 0) s of (a, b) \<Rightarrow> b * 65536 + a)"

definition Adler32Checksum :: "string \<Rightarrow> string" where
  "Adler32Checksum name = dec (adler32 name)"

definition Adler32Name :: "string \<Rightarrow> string \<Rightarrow> string" where
  "Adler32Name pre name = pre @ ''-'' @ Adler32Checksum name"

lemma adler_step_bounds: "fst (adler_step st c) < 65521 \<and> snd (adler_step st c) < 65521"
  by (cases st) (simp add: adler_step_def Let_def)

lemma adler_fold_bounds:
  "fst st < 65521 \<and> snd st < 65521 \<Longrightarrow> fst (foldl adler_step st s) < 65521 \<and> snd (foldl adler_step st s) < 65521"
  by (induction s arbitrary: st) (simp_all add: adler_step_bounds)

lemma adler32_range: "adler32 s < 2 ^ 32"
proof -
  have "fst (foldl adler_step (1, 0) s) < 65521 \<and> snd (foldl adler_step (1, 0) s) < 65521"
    by (rule adler_fold_bounds) simp
  then show ?thesis by (simp add: adler32_def case_prod_beta)
qed

text \<open>
  Adler-32 is linear: moving one unit from the middle to both neighbours of three characters changes
  neither sum, so names that differ like \<open>aca\<close> and \<open>bab\<close> collide, in every context.
\<close>

lemma adler_three:
  "foldl adler_step (a, b) [c1, c2, c3] =
     ((a + of_char c1 + of_char c2 + of_char c3) mod 65521,
      (b + 3 * a + 3 * of_char c1 + 2 * of_char c2 + of_char c3) mod 65521)"
proof -
  let ?x = "of_char c1 :: nat" and ?y = "of_char c2 :: nat" and ?z = "of_char c3 :: nat"
  have m: "(p + (q mod 65521 + y) + (r mod 65521 + z)) mod 65521 = (p + (q + y) + (r + z)) mod 65521" for p q r y z :: nat
    by (intro mod_add_cong refl) simp_all
  have "foldl adler_step (a, b) [c1, c2, c3] =
      ((a + ?x + ?y + ?z) mod 65521, (b + (a + ?x) + ((a + ?x) + ?y) + ((a + ?x + ?y) + ?z)) mod 65521)"
    by (simp only: foldl.simps adler_step_def Let_def case_prod_conv mod_add_left_eq mod_add_right_eq m)
  moreover have "b + (a + ?x) + ((a + ?x) + ?y) + ((a + ?x + ?y) + ?z) = b + 3 * a + 3 * ?x + 2 * ?y + ?z" by simp
  ultimately show ?thesis by (simp only:)
qed

lemma adler_step_collision: "foldl adler_step st ''aca'' = foldl adler_step st ''bab''"
  by (cases st) (simp only: adler_three, simp add: of_char_def)

lemma adler32_collision: "adler32 (u @ ''aca'' @ v) = adler32 (u @ ''bab'' @ v)"
  unfolding adler32_def foldl_append adler_step_collision ..

end
