(* ===== verification/Cluster_Config.thy ===== *)
theory Cluster_Config
  imports Alerts Storage_Connection VMUser Names
begin

text \<open>
  The configuration of clusters (\<open>configmap_cluster_data.go\<close>, \<open>clusterdeployment_config.go\<close>,
  \<open>cloud/cloud_name.go\<close> and the shared parts of \<open>clusterdeployment_kof_cluster_role.go\<close> in
  \<open>kof-operator/internal/controller\<close>), the state of the API that the cluster controllers share, and
  the readers of \<open>kof-operator/internal/k8s\<close>.

  Parameters (\<open>operator_env\<close>): the process environment, YAML and JSON decoding, \<open>url.Parse\<close>, the
  current context of a kubeconfig, the API version and kind that a Go type has in the client's scheme,
  random bytes, the identifier that the server gives to a new object, and the flag \<open>isIstio\<close> that the process reads from a namespace when it starts.
\<close>

section \<open>Names\<close>

definition KofClusterRoleLabel :: string where "KofClusterRoleLabel = ''k0rdent.mirantis.com/kof-cluster-role''"
definition KofRegionalClusterNameLabel :: string where
  "KofRegionalClusterNameLabel = ''k0rdent.mirantis.com/kof-regional-cluster-name''"
definition KofRegionalClusterNamespaceLabel :: string where
  "KofRegionalClusterNamespaceLabel = ''k0rdent.mirantis.com/kof-regional-cluster-namespace''"
definition KofRegionlessLabel :: string where "KofRegionlessLabel = ''k0rdent.mirantis.com/kof-regionless''"
definition IstioRoleLabel :: string where "IstioRoleLabel = ''k0rdent.mirantis.com/istio-role''"
definition ClusterNameLabel :: string where "ClusterNameLabel = ''k0rdent.mirantis.com/kof-cluster-name''"
definition KofKcmRegionLabel :: string where "KofKcmRegionLabel = ''k0rdent.mirantis.com/kcm-region-cluster''"
definition KofTenantLabel :: string where "KofTenantLabel = ''k0rdent.mirantis.com/kof-tenant-id''"
definition DefaultTenantID :: string where "DefaultTenantID = ''PLATFORM''"
definition SecretNameLabel :: string where "SecretNameLabel = ''k0rdent.mirantis.com/secret-name''"
definition KofRegionalDomainAnnotation :: string where
  "KofRegionalDomainAnnotation = ''k0rdent.mirantis.com/kof-regional-domain''"
definition KofRegionalHTTPClientConfigAnnotation :: string where
  "KofRegionalHTTPClientConfigAnnotation = ''k0rdent.mirantis.com/kof-http-config''"
definition DefaultSystemNamespace :: string where "DefaultSystemNamespace = ''kcm-system''"

datatype endpoint = ReadMetrics | ReadLogs | ReadAuditLogs | ReadTraces | WriteMetrics | WriteLogs | WriteAuditLogs | WriteTraces

fun endpoint_annotation :: "endpoint \<Rightarrow> string" where
  "endpoint_annotation WriteMetrics = ''k0rdent.mirantis.com/kof-write-metrics-endpoint''"
| "endpoint_annotation ReadMetrics = ''k0rdent.mirantis.com/kof-read-metrics-endpoint''"
| "endpoint_annotation WriteLogs = ''k0rdent.mirantis.com/kof-write-logs-endpoint''"
| "endpoint_annotation ReadLogs = ''k0rdent.mirantis.com/kof-read-logs-endpoint''"
| "endpoint_annotation WriteAuditLogs = ''k0rdent.mirantis.com/kof-write-audit-logs-endpoint''"
| "endpoint_annotation ReadAuditLogs = ''k0rdent.mirantis.com/kof-read-audit-logs-endpoint''"
| "endpoint_annotation WriteTraces = ''k0rdent.mirantis.com/kof-write-traces-endpoint''"
| "endpoint_annotation ReadTraces = ''k0rdent.mirantis.com/kof-read-traces-endpoint''"

text \<open>The formats of derived endpoints; an absent entry of a map is the empty format.\<close>

fun defaultEndpoints :: "endpoint \<Rightarrow> string" where
  "defaultEndpoints WriteMetrics = ''https://vmauth.%s/vm/insert/0/prometheus/api/v1/write''"
| "defaultEndpoints ReadMetrics = ''https://vmauth.%s/vm/select/0/prometheus''"
| "defaultEndpoints WriteLogs = ''https://vmauth.%s/vli/insert/opentelemetry/v1/logs''"
| "defaultEndpoints ReadLogs = ''https://vmauth.%s/vls''"
| "defaultEndpoints WriteAuditLogs = ''https://vmauth.%s/vlai/insert/opentelemetry/v1/logs''"
| "defaultEndpoints ReadAuditLogs = ''https://vmauth.%s/vlas''"
| "defaultEndpoints WriteTraces = ''https://vmauth.%s/vti/insert/opentelemetry/v1/traces''"
| "defaultEndpoints ReadTraces = ''https://vmauth.%s/vts''"

fun istioEndpoints :: "endpoint \<Rightarrow> string" where
  "istioEndpoints ReadLogs = ''http://%s-vmauth:8427/vls''"
| "istioEndpoints ReadAuditLogs = ''http://%s-vmauth:8427/vlas''"
| "istioEndpoints ReadMetrics = ''http://%s-vmauth:8427/vm/select/0/prometheus''"
| "istioEndpoints ReadTraces = ''http://%s-vmauth:8427/vts''"
| "istioEndpoints _ = []"

fun regionlessEndpoints :: "endpoint \<Rightarrow> string" where
  "regionlessEndpoints ReadLogs = ''http://vmauth-cluster:8427/vls''"
| "regionlessEndpoints ReadAuditLogs = ''http://vmauth-cluster:8427/vlas''"
| "regionlessEndpoints ReadMetrics = ''http://vmauth-cluster:8427/vm/select/0/prometheus''"
| "regionlessEndpoints ReadTraces = ''http://vmauth-cluster:8427/vts''"
| "regionlessEndpoints _ = []"

text \<open>\<open>fmt.Sprintf\<close> with one string for the first \<open>%s\<close>; an argument without a verb is reported in the text.\<close>

fun Sprintf_s :: "string \<Rightarrow> string \<Rightarrow> string" where
  "Sprintf_s [] x = ''%!(EXTRA string='' @ x @ '')''"
| "Sprintf_s (c # cs) x =
     (if c = CHR ''%'' \<and> cs \<noteq> [] \<and> hd cs = CHR ''s'' then x @ tl cs else c # Sprintf_s cs x)"

definition getDerivedEndpoint :: "endpoint \<Rightarrow> string \<Rightarrow> string \<Rightarrow> bool \<Rightarrow> string" where
  "getDerivedEndpoint ep clusterName domain isIstio =
     (if isIstio then Sprintf_s (istioEndpoints ep) clusterName else Sprintf_s (defaultEndpoints ep) domain)"

section \<open>Clouds and locations\<close>

definition cloud_names :: "string list" where
  "cloud_names = [''aws'', ''azure'', ''docker'', ''gcp'', ''openstack'', ''vsphere'', ''k0sproject-k0smotron'', ''internal'']"

definition IsValidName :: "string \<Rightarrow> bool" where
  "IsValidName c \<longleftrightarrow> c \<in> set cloud_names"

record cluster_deployment_config =
  ClusterAnnotations :: "string gomap"
  CfgRegion :: string
  CfgLocation :: string
  IdentityRegion :: string
  Datacenter :: string

definition locationIsTheSame :: "string \<Rightarrow> cluster_deployment_config \<Rightarrow> cluster_deployment_config \<Rightarrow> bool" where
  "locationIsTheSame cloudName c1 c2 =
     (if cloudName = ''internal'' then False
      else if cloudName = ''aws'' then CfgRegion c1 = CfgRegion c2
      else if cloudName = ''azure'' then CfgLocation c1 = CfgLocation c2
      else if cloudName = ''docker'' then True
      else if cloudName = ''openstack'' then IdentityRegion c1 = IdentityRegion c2
      else if cloudName = ''k0sproject-k0smotron'' then False
      else if cloudName = ''vsphere'' then Datacenter c1 = Datacenter c2
      else False)"

text \<open>\<open>strings.Cut\<close> at the first hyphen.\<close>

definition cut_hyphen :: "string \<Rightarrow> (string \<times> string) option" where
  "cut_hyphen s =
     (if CHR ''-'' \<in> set s then Some (takeWhile (\<lambda>c. c \<noteq> CHR ''-'') s, tl (dropWhile (\<lambda>c. c \<noteq> CHR ''-'') s)) else None)"

text \<open>The cloud of a template, by the first provider of infrastructure with a known name.\<close>

fun provider_cloud :: "string list \<Rightarrow> string option" where
  "provider_cloud [] = None"
| "provider_cloud (p # ps) =
     (case cut_hyphen p of
        None \<Rightarrow> provider_cloud ps
      | Some (pre, cloudName) \<Rightarrow>
          if pre = ''infrastructure'' \<and> IsValidName cloudName then Some cloudName else provider_cloud ps)"

section \<open>Configuration data\<close>

record config_data =
  RegionalClusterName :: string
  RegionalClusterNamespace :: string
  RegionalClusterCloud :: string
  IstioRole :: string
  RegionalHTTPClientConfig :: string
  ReadMetricsEndpoint :: string
  ReadLogsEndpoint :: string
  ReadAuditLogsEndpoint :: string
  ReadTracesEndpoint :: string
  WriteMetricsEndpoint :: string
  WriteLogsEndpoint :: string
  WriteAuditLogsEndpoint :: string
  WriteTracesEndpoint :: string
  AWSRegion :: string
  AzureLocation :: string
  OpenstackRegion :: string
  VSphereDatacenter :: string

definition RegionalClusterNameKey :: string where "RegionalClusterNameKey = ''regional_cluster_name''"
definition RegionalClusterNamespaceKey :: string where "RegionalClusterNamespaceKey = ''regional_cluster_namespace''"

definition ToMap :: "config_data \<Rightarrow> string gomap" where
  "ToMap c =
     [(RegionalClusterNameKey, RegionalClusterName c),
      (RegionalClusterNamespaceKey, RegionalClusterNamespace c),
      (''regional_cluster_cloud'', RegionalClusterCloud c),
      (''istio_role'', IstioRole c),
      (''kof_http_config'', RegionalHTTPClientConfig c),
      (''read_metrics_endpoint'', ReadMetricsEndpoint c),
      (''read_logs_endpoint'', ReadLogsEndpoint c),
      (''read_audit_logs_endpoint'', ReadAuditLogsEndpoint c),
      (''read_traces_endpoint'', ReadTracesEndpoint c),
      (''write_metrics_endpoint'', WriteMetricsEndpoint c),
      (''write_logs_endpoint'', WriteLogsEndpoint c),
      (''write_audit_logs_endpoint'', WriteAuditLogsEndpoint c),
      (''write_traces_endpoint'', WriteTracesEndpoint c),
      (''aws_region'', AWSRegion c),
      (''azure_location'', AzureLocation c),
      (''openstack_region'', OpenstackRegion c),
      (''vsphere_datacenter'', VSphereDatacenter c)]"

definition NewConfigDataFromConfigMap :: "string gomap \<Rightarrow> config_data" where
  "NewConfigDataFromConfigMap d =
     \<lparr>RegionalClusterName = get_str d RegionalClusterNameKey,
      RegionalClusterNamespace = get_str d RegionalClusterNamespaceKey,
      RegionalClusterCloud = get_str d ''regional_cluster_cloud'',
      IstioRole = get_str d ''istio_role'',
      RegionalHTTPClientConfig = get_str d ''kof_http_config'',
      ReadMetricsEndpoint = get_str d ''read_metrics_endpoint'',
      ReadLogsEndpoint = get_str d ''read_logs_endpoint'',
      ReadAuditLogsEndpoint = get_str d ''read_audit_logs_endpoint'',
      ReadTracesEndpoint = get_str d ''read_traces_endpoint'',
      WriteMetricsEndpoint = get_str d ''write_metrics_endpoint'',
      WriteLogsEndpoint = get_str d ''write_logs_endpoint'',
      WriteAuditLogsEndpoint = get_str d ''write_audit_logs_endpoint'',
      WriteTracesEndpoint = get_str d ''write_traces_endpoint'',
      AWSRegion = get_str d ''aws_region'',
      AzureLocation = get_str d ''azure_location'',
      OpenstackRegion = get_str d ''openstack_region'',
      VSphereDatacenter = get_str d ''vsphere_datacenter''\<rparr>"

definition ToClusterDeploymentConfig :: "config_data \<Rightarrow> cluster_deployment_config" where
  "ToClusterDeploymentConfig c =
     \<lparr>ClusterAnnotations = [], CfgRegion = AWSRegion c, CfgLocation = AzureLocation c,
      IdentityRegion = OpenstackRegion c, Datacenter = VSphereDatacenter c\<rparr>"

definition empty_config :: config_data where
  "empty_config = NewConfigDataFromConfigMap []"

text \<open>
  The data survive the way through a ConfigMap, whatever the order of its keys.
\<close>

lemma config_data_keys: "wf_map (ToMap c)"
  by (simp add: ToMap_def RegionalClusterNameKey_def RegionalClusterNamespaceKey_def)

lemma config_data_roundtrip_map: "same_map d (ToMap c) \<Longrightarrow> NewConfigDataFromConfigMap d = c"
  by (simp add: NewConfigDataFromConfigMap_def same_map_get_str [of d "ToMap c"])
    (simp add: ToMap_def get_str_def RegionalClusterNameKey_def RegionalClusterNamespaceKey_def)

lemma same_map_ToMap: "same_map d (ToMap c) \<Longrightarrow> get_str d RegionalClusterNameKey = RegionalClusterName c"
  by (simp add: same_map_get_str [of d "ToMap c"]) (simp add: ToMap_def get_str_def)

definition NewRegionlessConfigData :: "environ \<Rightarrow> bool \<Rightarrow> string \<Rightarrow> string \<Rightarrow> config_data" where
  "NewRegionlessConfigData e isIstio managementClusterName managementClusterNamespace =
     (let d = (\<lambda>ep. getDerivedEndpoint ep managementClusterName (GetRegionlessDomain e) isIstio);
          config = empty_config\<lparr>RegionalClusterName := managementClusterName, RegionalClusterNamespace := managementClusterNamespace,
            ReadMetricsEndpoint := d ReadMetrics, ReadLogsEndpoint := d ReadLogs, ReadAuditLogsEndpoint := d ReadAuditLogs,
            ReadTracesEndpoint := d ReadTraces\<rparr>
      in if isIstio then config\<lparr>IstioRole := ''member''\<rparr>
         else config\<lparr>WriteMetricsEndpoint := d WriteMetrics, WriteLogsEndpoint := d WriteLogs,
            WriteAuditLogsEndpoint := d WriteAuditLogs, WriteTracesEndpoint := d WriteTraces\<rparr>)"

section \<open>The shared state\<close>

record cluster_deployment =
  cd_namespace :: string
  cd_name :: string
  cd_uid :: string
  cd_labels :: "string gomap"
  cd_annotations :: "string gomap"
  cd_template :: string
  cd_credential :: string
  cd_config :: string
  cd_region :: string
  cd_version :: nat

record cluster_template =
  ct_namespace :: string
  ct_name :: string
  Providers :: "string list"

record kcm_region =
  rg_name :: string
  rg_namespace :: string
  rg_cluster :: "(string \<times> string) option"
  rg_kubeconfig :: "string option"

record credential =
  cred_namespace :: string
  cred_name :: string
  IdentityKind :: string
  IdentityName :: string

record basic_auth =
  CredentialsSecretName :: string
  BasicUsernameKey :: string
  BasicPasswordKey :: string

record http_client_config =
  DialTimeout :: duration
  InsecureSkipVerify :: bool
  BasicAuth :: basic_auth

record promxy_server_group =
  psg_namespace :: string
  psg_name :: string
  psg_labels :: "string gomap"
  psg_owners :: "owner_reference list"
  psg_cluster :: string
  psg_scheme :: string
  psg_path :: string
  psg_targets :: "string list"
  psg_http :: http_client_config
  psg_version :: nat

record container_port =
  port_name :: string
  ContainerPort :: nat

text \<open>A quantity of a resource, as its two readings \<open>MilliValue\<close> and \<open>Value\<close>.\<close>

record quantity =
  MilliValue :: "64 word"
  QValue :: "64 word"

record container =
  ctr_name :: string
  ctr_ports :: "container_port list"
  ctr_env :: "(string \<times> string) list"
  ctr_limits :: "quantity gomap"

record pod_condition =
  ConditionType :: string
  ConditionStatus :: string
  ConditionReason :: string
  ConditionMessage :: string

record pod =
  pod_namespace :: string
  pod_name :: string
  pod_labels :: "string gomap"
  pod_annotations :: "string gomap"
  pod_node :: string
  pod_phase :: string
  PodIP :: string
  pod_conditions :: "pod_condition list"
  Containers :: "container list"

text \<open>All objects, and the requests that were sent to pods.\<close>

record op_api = vm_api +
  cms :: "config_map list"
  deployments :: "cluster_deployment list"
  templates :: "cluster_template list"
  regions :: "kcm_region list"
  creds :: "credential list"
  groups :: "promxy_server_group list"
  conns :: "storage_connection list"
  pods :: "pod list"
  posted :: "string list"

record url_parts =
  Scheme :: string
  Host :: string
  Hostname :: string
  Port :: string
  Path :: string

record operator_env =
  op_environ :: environ
  isIstio :: bool
  yaml_config :: "string \<Rightarrow> string + cluster_deployment_config"
  http_json :: "string \<Rightarrow> http_client_config \<Rightarrow> string + http_client_config"
  url_parse :: "string \<Rightarrow> string + url_parts"
  current_context :: "string \<Rightarrow> string + string"
  kind_of :: "string \<Rightarrow> string + (string \<times> string)"
  op_random :: random_source
  new_uid :: "string \<times> string \<Rightarrow> string"

datatype op_error =
  OpApi api_error
| OpText string
| OpContext string op_error
| UnknownCloudProvider string
| OpJoin "op_error list"
| OpCou cou_error
| OpUser vmuser_error

definition cd_key :: "cluster_deployment \<Rightarrow> string \<times> string" where "cd_key cd = (cd_namespace cd, cd_name cd)"
definition cd_bump :: "cluster_deployment \<Rightarrow> cluster_deployment" where "cd_bump cd = cd\<lparr>cd_version := Suc (cd_version cd)\<rparr>"
definition ct_key :: "cluster_template \<Rightarrow> string \<times> string" where "ct_key t = (ct_namespace t, ct_name t)"
definition cred_key :: "credential \<Rightarrow> string \<times> string" where "cred_key c = (cred_namespace c, cred_name c)"
definition psg_key :: "promxy_server_group \<Rightarrow> string \<times> string" where "psg_key g = (psg_namespace g, psg_name g)"
definition psg_bump :: "promxy_server_group \<Rightarrow> promxy_server_group" where "psg_bump g = g\<lparr>psg_version := Suc (psg_version g)\<rparr>"

definition set_cms :: "config_map list \<Rightarrow> op_api \<Rightarrow> op_api" where "set_cms os k = k\<lparr>cms := os\<rparr>"
definition set_deployments :: "cluster_deployment list \<Rightarrow> op_api \<Rightarrow> op_api" where "set_deployments os k = k\<lparr>deployments := os\<rparr>"
definition set_groups :: "promxy_server_group list \<Rightarrow> op_api \<Rightarrow> op_api" where "set_groups os k = k\<lparr>groups := os\<rparr>"
definition set_conns :: "storage_connection list \<Rightarrow> op_api \<Rightarrow> op_api" where "set_conns os k = k\<lparr>conns := os\<rparr>"

text \<open>A context for an error of the API.\<close>

definition api_ctx :: "string \<Rightarrow> (api_error + 'a) \<times> op_api \<Rightarrow> (op_error + 'a) \<times> op_api" where
  "api_ctx msg m = in_context (\<lambda>e. OpContext msg (OpApi e)) m"

definition HasLabel :: "string \<Rightarrow> string gomap \<Rightarrow> bool" where
  "HasLabel labelKey labels \<longleftrightarrow> map_of labels labelKey \<noteq> None"

definition HasClusterNameLabel :: "string gomap \<Rightarrow> bool" where
  "HasClusterNameLabel labels \<longleftrightarrow> HasLabel ClusterNameLabel labels"

definition has_label :: "string \<Rightarrow> string \<Rightarrow> string gomap \<Rightarrow> bool" where
  "has_label l v m \<longleftrightarrow> map_of m l = Some v"

end
