(* ===== verification/Cluster_Read.thy ===== *)
theory Cluster_Read
  imports Cluster_Config
begin

text \<open>
  What the cluster controllers read from the API: the helpers of \<open>kof-operator/internal/k8s\<close>
  (\<open>meta.go\<close>, \<open>region.go\<close>, \<open>secrets.go\<close>, \<open>cluster_deployment.go\<close>, \<open>cluster_template.go\<close>), the cloud and
  the endpoints of a cluster (\<open>clusterdeployment_kof_cluster_role.go\<close>) and its configuration data
  (\<open>configmap_cluster_data.go\<close>). None of them writes: the state only loses the faults of the calls.
\<close>

section \<open>Helpers\<close>

definition GetOwnerReference :: "operator_env \<Rightarrow> string \<Rightarrow> string \<Rightarrow> string \<Rightarrow> op_error + owner_reference" where
  "GetOwnerReference e typ name uid =
     (case kind_of e typ of
        Inl err \<Rightarrow> Inl (OpText err)
      | Inr (apiVersion, kind) \<Rightarrow>
          Inr \<lparr>owner_api = apiVersion, owner_kind = kind, owner_name = name, owner_uid = uid\<rparr>)"

definition IsAdopted :: "cluster_deployment \<Rightarrow> bool" where
  "IsAdopted cluster \<longleftrightarrow> has_prefix (cd_template cluster) ''adopted-''"

text \<open>An object that already exists is not an error; the result says whether it was created.\<close>

definition EnsureCreated :: "('o \<Rightarrow> 'k) \<Rightarrow> ('s api_state_scheme \<Rightarrow> 'o list) \<Rightarrow>
    ('o list \<Rightarrow> 's api_state_scheme \<Rightarrow> 's api_state_scheme) \<Rightarrow> 'o \<Rightarrow> 's api_state_scheme \<Rightarrow>
    (api_error + bool) \<times> 's api_state_scheme" where
  "EnsureCreated key objs set_objs obj k =
     (case api_create key objs set_objs obj k of
        (Inl AlreadyExists, k') \<Rightarrow> (Inr False, k')
      | (Inl e, k') \<Rightarrow> (Inl e, k')
      | (Inr _, k') \<Rightarrow> (Inr True, k'))"

definition IsResourceExist :: "('o \<Rightarrow> 'k) \<Rightarrow> ('s api_state_scheme \<Rightarrow> 'o list) \<Rightarrow> 'k \<Rightarrow> 's api_state_scheme \<Rightarrow>
    (api_error + bool) \<times> 's api_state_scheme" where
  "IsResourceExist key objs x k =
     (case api_get key objs x k of
        (Inl NotFound, k') \<Rightarrow> (Inr False, k')
      | (Inl e, k') \<Rightarrow> (Inl e, k')
      | (Inr _, k') \<Rightarrow> (Inr True, k'))"

definition GetClusterDeployments :: "(cluster_deployment \<Rightarrow> bool) \<Rightarrow> op_api \<Rightarrow> (api_error + cluster_deployment list) \<times> op_api" where
  "GetClusterDeployments sel k = api_list deployments sel k"

definition GetKofClusterDeployments :: "op_api \<Rightarrow> (api_error + cluster_deployment list) \<times> op_api" where
  "GetKofClusterDeployments k = GetClusterDeployments (\<lambda>cd. map_of (cd_labels cd) KofClusterRoleLabel \<noteq> None) k"

definition GetKofChildClusterDeployments :: "op_api \<Rightarrow> (api_error + cluster_deployment list) \<times> op_api" where
  "GetKofChildClusterDeployments k = GetClusterDeployments (\<lambda>cd. has_label KofClusterRoleLabel ''child'' (cd_labels cd)) k"

definition GetIstioClusterDeployments :: "op_api \<Rightarrow> (api_error + cluster_deployment list) \<times> op_api" where
  "GetIstioClusterDeployments k = GetClusterDeployments (\<lambda>cd. has_label IstioRoleLabel ''member'' (cd_labels cd)) k"

definition GetClusterDeployment :: "string \<Rightarrow> string \<Rightarrow> op_api \<Rightarrow> (api_error + cluster_deployment) \<times> op_api" where
  "GetClusterDeployment name namespace k = api_get cd_key deployments (namespace, name) k"

definition GetClusterTemplate :: "string \<Rightarrow> string \<Rightarrow> op_api \<Rightarrow> (api_error + cluster_template) \<times> op_api" where
  "GetClusterTemplate name namespace k = api_get ct_key templates (namespace, name) k"

definition GetSecret :: "string \<Rightarrow> string \<Rightarrow> op_api \<Rightarrow> (api_error + secret) \<times> op_api" where
  "GetSecret name namespace k = api_get sec_key secrets (namespace, name) k"

definition GetSecretValue :: "secret \<Rightarrow> string" where
  "GetSecretValue secret = get_str (sec_data secret) ''value''"

text \<open>The current context of the kubeconfig in a Secret.\<close>

definition GetKubeconfigFromSecret :: "operator_env \<Rightarrow> string \<Rightarrow> string \<Rightarrow> op_api \<Rightarrow> (op_error + string) \<times> op_api" where
  "GetKubeconfigFromSecret e secretName namespace k =
     and_then (api_ctx ''failed to get secret'' (GetSecret secretName namespace k))
       (\<lambda>secret k. (case current_context e (GetSecretValue secret) of Inl err \<Rightarrow> Inl (OpText err) | Inr c \<Rightarrow> Inr c, k))"

definition GetCloudClusterSecretName :: "cluster_deployment \<Rightarrow> string" where
  "GetCloudClusterSecretName cd = cd_name cd @ ''-kubeconfig''"

definition GetAdoptedClusterSecretName :: "cluster_deployment \<Rightarrow> op_api \<Rightarrow> (op_error + string) \<times> op_api" where
  "GetAdoptedClusterSecretName cd k =
     and_then (api_ctx ''failed to get credential'' (api_get cred_key creds (cd_namespace cd, cd_credential cd) k))
       (\<lambda>cred k. (if IdentityKind cred \<noteq> ''Secret'' then Inl (OpText ''unsupported Credential IdentityRef kind'')
                  else Inr (IdentityName cred), k))"

definition GetKubeconfigSecretName :: "cluster_deployment \<Rightarrow> op_api \<Rightarrow> (op_error + string) \<times> op_api" where
  "GetKubeconfigSecretName cd k =
     (if IsAdopted cd then GetAdoptedClusterSecretName cd k else (Inr (GetCloudClusterSecretName cd), k))"

section \<open>Regions of KCM\<close>

definition CreatedInKCMRegion :: "cluster_deployment \<Rightarrow> bool" where
  "CreatedInKCMRegion cd \<longleftrightarrow> cd_region cd \<noteq> []"

definition GetRegion :: "string \<Rightarrow> op_api \<Rightarrow> (api_error + kcm_region) \<times> op_api" where
  "GetRegion regionName k = api_get rg_name regions regionName k"

definition GetCredentials :: "op_api \<Rightarrow> (api_error + credential list) \<times> op_api" where
  "GetCredentials k = api_list creds (\<lambda>_. True) k"

definition GetRegions :: "op_api \<Rightarrow> (api_error + kcm_region list) \<times> op_api" where
  "GetRegions k = api_list regions (\<lambda>_. True) k"

definition GetKcmRegionClusters :: "op_api \<Rightarrow> (api_error + cluster_deployment list) \<times> op_api" where
  "GetKcmRegionClusters k =
     GetClusterDeployments (\<lambda>cd. has_label KofClusterRoleLabel ''regional'' (cd_labels cd) \<and>
       has_label KofKcmRegionLabel ''true'' (cd_labels cd)) k"

definition IsClusterKcmRegion :: "string \<Rightarrow> string \<Rightarrow> op_api \<Rightarrow> (op_error + bool) \<times> op_api" where
  "IsClusterKcmRegion clusterName namespace k =
     and_then (api_ctx ''failed to get KCM region clusters'' (GetKcmRegionClusters k))
       (\<lambda>clusters k. (Inr (\<exists>cluster \<in> set clusters. cd_name cluster = clusterName \<and> cd_namespace cluster = namespace), k))"

definition IsClusterInSameKcmRegion :: "string \<Rightarrow> string \<Rightarrow> string \<Rightarrow> string \<Rightarrow> op_api \<Rightarrow> (op_error + bool) \<times> op_api" where
  "IsClusterInSameKcmRegion childName childNamespace regionalName regionalNamespace k =
     and_then (api_ctx ''failed to get regional cluster deployment'' (GetClusterDeployment regionalName regionalNamespace k))
     (\<lambda>regional k.
     and_then (api_ctx ''failed to get child cluster deployment'' (GetClusterDeployment childName childNamespace k))
     (\<lambda>child k.
     if cd_credential child = cd_credential regional then (Inr True, k)
     else and_then (api_ctx ''failed to get region'' (GetRegion (cd_region child) k))
     (\<lambda>region k.
     if rg_cluster region = Some (regionalNamespace, regionalName) then (Inr True, k)
     else (case rg_kubeconfig region of
         None \<Rightarrow> (Inr False, k)
       | Some kubeconfig \<Rightarrow>
           and_then (in_context (OpContext ''failed to get secret name'') (GetKubeconfigSecretName regional k))
             (\<lambda>kubeconfigSecretName k. (Inr (kubeconfig = kubeconfigSecretName), k))))))"

text \<open>The cluster of the region itself is found by name, the others by their region.\<close>

definition GetClusterDeploymentsInSameKcmRegion ::
    "operator_env \<Rightarrow> cluster_deployment \<Rightarrow> op_api \<Rightarrow> (op_error + cluster_deployment list) \<times> op_api" where
  "GetClusterDeploymentsInSameKcmRegion e cd k =
     (if cd_region cd = [] then (Inl (OpText ''cluster deployment is not in KCM region''), k)
      else and_then (api_ctx ''failed to list cluster deployments'' (GetClusterDeployments (\<lambda>_. True) k))
        (\<lambda>clusters k.
        and_then (api_ctx ''failed to get region'' (api_get rg_name regions (cd_region cd) k))
        (\<lambda>region k.
        and_then
          (case rg_kubeconfig region of
             Some name \<Rightarrow>
               if name \<noteq> [] then in_context (OpContext ''failed to get kubeconfig for region'')
                 (GetKubeconfigFromSecret e name (rg_namespace region) k)
               else (Inr (case rg_cluster region of None \<Rightarrow> [] | Some (_, n) \<Rightarrow> n), k)
           | None \<Rightarrow> (Inr (case rg_cluster region of None \<Rightarrow> [] | Some (_, n) \<Rightarrow> n), k))
          (\<lambda>regionClusterName k.
             (Inr (filter (\<lambda>cluster. cd_name cluster = regionClusterName \<or> cd_region cluster = cd_region cd) clusters), k)))))"

record cached_cluster_data =
  CachedRegions :: "kcm_region list option"
  CachedCredentials :: "credential list option"
  CachedClusters :: "cluster_deployment list option"

definition GetRegionByClusterDeployment ::
    "cluster_deployment \<Rightarrow> cached_cluster_data \<Rightarrow> op_api \<Rightarrow> (op_error + kcm_region option) \<times> op_api" where
  "GetRegionByClusterDeployment cd cache k =
     and_then (case CachedRegions cache of Some l \<Rightarrow> (Inr l, k) | None \<Rightarrow> api_ctx ''failed to list regions'' (GetRegions k))
     (\<lambda>regionList k.
     and_then (in_context (OpContext ''failed to get secret name for cluster deployment'') (GetKubeconfigSecretName cd k))
     (\<lambda>secretName k.
       (Inr (find (\<lambda>region. rg_cluster region = Some (cd_namespace cd, cd_name cd) \<or> rg_kubeconfig region = Some secretName)
          regionList), k)))"

definition GetKcmRegionChildClusters ::
    "cluster_deployment \<Rightarrow> cached_cluster_data \<Rightarrow> op_api \<Rightarrow> (op_error + cluster_deployment list) \<times> op_api" where
  "GetKcmRegionChildClusters regionCluster cache k =
     and_then (in_context (OpContext ''failed to get region by cluster deployment'') (GetRegionByClusterDeployment regionCluster cache k))
     (\<lambda>region k.
     (case region of
        None \<Rightarrow> (Inl (OpText ''region for cluster not found''), k)
      | Some r \<Rightarrow>
          and_then (case CachedClusters cache of
              Some l \<Rightarrow> (Inr l, k)
            | None \<Rightarrow> api_ctx ''failed to get kof child cluster deployments'' (GetKofChildClusterDeployments k))
            (\<lambda>clusters k. (Inr (filter (\<lambda>cluster. cd_region cluster = rg_name r) clusters), k))))"

section \<open>The cloud, endpoints and configuration of a cluster\<close>

definition getCloud :: "cluster_deployment \<Rightarrow> op_api \<Rightarrow> (op_error + string) \<times> op_api" where
  "getCloud cd k =
     and_then (api_ctx ''failed to get cluster template'' (GetClusterTemplate (cd_template cd) (cd_namespace cd) k))
       (\<lambda>t k. (case provider_cloud (Providers t) of None \<Rightarrow> Inl (UnknownCloudProvider (cd_template cd)) | Some c \<Rightarrow> Inr c, k))"

definition getEndpoint :: "endpoint \<Rightarrow> cluster_deployment \<Rightarrow> cluster_deployment_config \<Rightarrow> op_error + string" where
  "getEndpoint ep cd config =
     (let isIstio = (map_of (cd_labels cd) IstioRoleLabel \<noteq> None);
          annotations = ClusterAnnotations config;
          regionalDomain = map_of annotations KofRegionalDomainAnnotation
      in case map_of annotations (endpoint_annotation ep) of
           Some endpoint \<Rightarrow> Inr endpoint
         | None \<Rightarrow>
             if \<not> isIstio \<and> regionalDomain = None then Inl (OpText ''neither endpoint nor regional domain is set'')
             else Inr (getDerivedEndpoint ep (cd_name cd) (case regionalDomain of None \<Rightarrow> [] | Some d \<Rightarrow> d) isIstio))"

definition ReadClusterDeploymentConfig :: "operator_env \<Rightarrow> string \<Rightarrow> op_error + cluster_deployment_config" where
  "ReadClusterDeploymentConfig e raw = (case yaml_config e raw of Inl err \<Rightarrow> Inl (OpText err) | Inr c \<Rightarrow> Inr c)"

text \<open>The endpoints of a list, up to the first that is not set.\<close>

fun set_endpoints :: "(endpoint \<times> (string \<Rightarrow> config_data \<Rightarrow> config_data)) list \<Rightarrow> cluster_deployment \<Rightarrow>
    cluster_deployment_config \<Rightarrow> config_data \<Rightarrow> op_error + config_data" where
  "set_endpoints [] cd cdConfig config = Inr config"
| "set_endpoints ((ep, put) # eps) cd cdConfig config =
     (case getEndpoint ep cd cdConfig of
        Inl err \<Rightarrow> Inl err
      | Inr x \<Rightarrow> set_endpoints eps cd cdConfig (put x config))"

definition read_endpoints :: "(endpoint \<times> (string \<Rightarrow> config_data \<Rightarrow> config_data)) list" where
  "read_endpoints =
     [(ReadMetrics, \<lambda>x c. c\<lparr>ReadMetricsEndpoint := x\<rparr>), (ReadLogs, \<lambda>x c. c\<lparr>ReadLogsEndpoint := x\<rparr>),
      (ReadAuditLogs, \<lambda>x c. c\<lparr>ReadAuditLogsEndpoint := x\<rparr>), (ReadTraces, \<lambda>x c. c\<lparr>ReadTracesEndpoint := x\<rparr>)]"

definition write_endpoints :: "(endpoint \<times> (string \<Rightarrow> config_data \<Rightarrow> config_data)) list" where
  "write_endpoints =
     [(WriteMetrics, \<lambda>x c. c\<lparr>WriteMetricsEndpoint := x\<rparr>), (WriteLogs, \<lambda>x c. c\<lparr>WriteLogsEndpoint := x\<rparr>),
      (WriteAuditLogs, \<lambda>x c. c\<lparr>WriteAuditLogsEndpoint := x\<rparr>), (WriteTraces, \<lambda>x c. c\<lparr>WriteTracesEndpoint := x\<rparr>)]"

definition cluster_config_data :: "cluster_deployment \<Rightarrow> cluster_deployment_config \<Rightarrow> string \<Rightarrow> op_error + config_data" where
  "cluster_config_data cd cdConfig childCloud =
     (let config = empty_config\<lparr>RegionalClusterName := cd_name cd, RegionalClusterNamespace := cd_namespace cd,
            RegionalClusterCloud := childCloud,
            RegionalHTTPClientConfig := get_str (cd_annotations cd) KofRegionalHTTPClientConfigAnnotation,
            AWSRegion := CfgRegion cdConfig, AzureLocation := CfgLocation cdConfig,
            OpenstackRegion := IdentityRegion cdConfig, VSphereDatacenter := Datacenter cdConfig\<rparr>
      in case set_endpoints read_endpoints cd cdConfig config of
           Inl err \<Rightarrow> Inl err
         | Inr config \<Rightarrow>
             (case map_of (cd_labels cd) IstioRoleLabel of
                Some role \<Rightarrow> Inr (config\<lparr>IstioRole := role\<rparr>)
              | None \<Rightarrow> set_endpoints write_endpoints cd cdConfig config))"

definition NewConfigDataFromClusterDeployment ::
    "operator_env \<Rightarrow> cluster_deployment \<Rightarrow> op_api \<Rightarrow> (op_error + config_data) \<times> op_api" where
  "NewConfigDataFromClusterDeployment e cd k =
     (case ReadClusterDeploymentConfig e (cd_config cd) of
        Inl err \<Rightarrow> (Inl (OpContext ''failed to read cluster deployment config'' err), k)
      | Inr cdConfig \<Rightarrow>
          and_then (in_context (OpContext ''failed to get child cluster cloud'') (getCloud cd k))
            (\<lambda>childCloud k. (cluster_config_data cd cdConfig childCloud, k)))"

section \<open>Reading leaves the objects alone\<close>

definition reads :: "'s api_state_scheme \<Rightarrow> 'r \<times> 's api_state_scheme \<Rightarrow> bool" where
  "reads k m \<longleftrightarrow> (\<exists>n. snd m = k\<lparr>api_faults := drop n (api_faults k)\<rparr>)"

named_theorems reads_rules

lemma reads_done [reads_rules]: "reads k (r, k)"
proof -
  have "k\<lparr>api_faults := drop 0 (api_faults k)\<rparr> = k" by simp
  then show ?thesis unfolding reads_def by (metis snd_conv)
qed

lemma reads_case:
  assumes "reads k m" "\<And>r k'. reads k' (g r k')"
  shows "reads k (case m of (r, k') \<Rightarrow> g r k')"
proof -
  obtain r n where m: "m = (r, k\<lparr>api_faults := drop n (api_faults k)\<rparr>)" using assms(1) by (cases m) (auto simp: reads_def)
  let ?k = "k\<lparr>api_faults := drop n (api_faults k)\<rparr>"
  obtain n' where "snd (g r ?k) = ?k\<lparr>api_faults := drop n' (api_faults ?k)\<rparr>"
    using assms(2) [of ?k r] by (auto simp: reads_def)
  then have "snd (g r ?k) = k\<lparr>api_faults := drop (n' + n) (api_faults k)\<rparr>" by simp
  then have "reads k (g r ?k)" unfolding reads_def by blast
  then show ?thesis using m by simp
qed

lemma reads_and_then [reads_rules]: "reads k m \<Longrightarrow> (\<And>a k'. reads k' (f a k')) \<Longrightarrow> reads k (and_then m f)"
  unfolding and_then_def by (rule reads_case) (auto intro: reads_done split: sum.split)

lemma reads_in_context [reads_rules]: "reads k m \<Longrightarrow> reads k (in_context c m)"
  by (auto simp: reads_def in_context_def split: prod.splits sum.splits)

lemma reads_api_ctx [reads_rules]: "reads k m \<Longrightarrow> reads k (api_ctx c m)"
  unfolding api_ctx_def by (rule reads_in_context)

lemma reads_call: "api_call k = (f, k') \<Longrightarrow> reads k (r, k')"
proof -
  assume c: "api_call k = (f, k')"
  have "k' = k\<lparr>api_faults := drop (if api_faults k = [] then 0 else 1) (api_faults k)\<rparr>"
    using c by (cases "api_faults k") (simp_all add: api_call_def)
  then show ?thesis unfolding reads_def snd_conv by blast
qed

lemma reads_get [reads_rules]: "reads k (api_get key objs x k)"
  by (auto simp: api_get_def split: prod.splits option.splits intro: reads_call)

lemma reads_list [reads_rules]: "reads k (api_list objs sel k)"
  by (auto simp: api_list_def split: prod.splits option.splits intro: reads_call)

lemma reads_cluster_deployments [reads_rules]: "reads k (GetClusterDeployments sel k)"
  unfolding GetClusterDeployments_def by (rule reads_list)

lemma reads_secret_name [reads_rules]: "reads k (GetKubeconfigSecretName cd k)"
  by (auto simp: GetKubeconfigSecretName_def GetAdoptedClusterSecretName_def intro!: reads_rules)

lemma reads_kubeconfig [reads_rules]: "reads k (GetKubeconfigFromSecret e name namespace k)"
  by (auto simp: GetKubeconfigFromSecret_def GetSecret_def intro!: reads_rules)

lemma reads_is_region [reads_rules]: "reads k (IsClusterKcmRegion name namespace k)"
  by (auto simp: IsClusterKcmRegion_def GetKcmRegionClusters_def intro!: reads_rules)

lemma reads_same_region [reads_rules]: "reads k (IsClusterInSameKcmRegion n ns rn rns k)"
  by (auto simp: IsClusterInSameKcmRegion_def GetClusterDeployment_def GetRegion_def intro!: reads_rules split: option.split)

lemma reads_deployments_in_region [reads_rules]: "reads k (GetClusterDeploymentsInSameKcmRegion e cd k)"
  by (auto simp: GetClusterDeploymentsInSameKcmRegion_def intro!: reads_rules split: option.split)

lemma reads_region_by_deployment [reads_rules]: "reads k (GetRegionByClusterDeployment cd cache k)"
  by (auto simp: GetRegionByClusterDeployment_def GetRegions_def intro!: reads_rules split: option.split)

lemma reads_region_children [reads_rules]: "reads k (GetKcmRegionChildClusters cd cache k)"
  by (auto simp: GetKcmRegionChildClusters_def GetKofChildClusterDeployments_def intro!: reads_rules split: option.split)

lemma reads_cloud [reads_rules]: "reads k (getCloud cd k)"
  by (auto simp: getCloud_def GetClusterTemplate_def intro!: reads_rules)

lemma reads_config_data [reads_rules]: "reads k (NewConfigDataFromClusterDeployment e cd k)"
  by (auto simp: NewConfigDataFromClusterDeployment_def intro!: reads_rules split: sum.split)

lemma reads_state: "reads k m \<Longrightarrow> m = (r, k') \<Longrightarrow> \<exists>fs. k' = k\<lparr>api_faults := fs\<rparr>"
  by (auto simp: reads_def)

lemma reads_quiet: "reads k m \<Longrightarrow> api_faults k = [] \<Longrightarrow> m = (r, k') \<Longrightarrow> k' = k"
  by (auto simp: reads_def)

text \<open>The list for a region holds its clusters and those with the name of the region's own cluster.\<close>

lemma same_region_filter:
  assumes "GetClusterDeploymentsInSameKcmRegion e cd k = (Inr cds, k')"
  obtains regionClusterName
  where "cds = filter (\<lambda>c. cd_name c = regionClusterName \<or> cd_region c = cd_region cd) (deployments k)"
proof -
  obtain all k1 where l: "GetClusterDeployments (\<lambda>_. True) k = (Inr all, k1)"
    using assms(1) by (auto simp: GetClusterDeploymentsInSameKcmRegion_def api_ctx_def and_then_Inr in_context_Inr split: if_splits)
  have "all = deployments k" using api_list_ok [OF l [unfolded GetClusterDeployments_def]] by simp
  then show ?thesis
    using assms l that by (fastforce simp: GetClusterDeploymentsInSameKcmRegion_def api_ctx_def and_then_Inr in_context_Inr split: if_splits)
qed

end
