(* ===== verification/Cluster_Roles.thy ===== *)
theory Cluster_Roles
  imports Cluster_Read
begin

text \<open>
  The roles of clusters (\<open>clusterdeployment_kof_cluster_regional_role.go\<close>,
  \<open>clusterdeployment_kof_cluster_child_role.go\<close>, \<open>clusterdeployment_controller.go\<close>,
  \<open>regionless_configmap_bootstrap.go\<close> and the constructor of \<open>configmap_cluster_regional.go\<close>).

  A regional cluster publishes its configuration data in a ConfigMap. A child cluster discovers the
  ConfigMap of its regional cluster, by label or by location, and copies the data into its own
  ConfigMap. Without regional clusters the management cluster takes that place. Events and log lines
  are left out.
\<close>

definition GetRegionalClusterConfigMapName :: "string \<Rightarrow> string" where
  "GetRegionalClusterConfigMapName clusterName = ''kof-'' @ clusterName"

definition GetConfigMapName :: "string \<Rightarrow> string" where
  "GetConfigMapName clusterName = ''kof-cluster-config-'' @ clusterName"

definition GetChildConfigMapPropagationName :: "string \<Rightarrow> string" where
  "GetChildConfigMapPropagationName clusterName = FNVName ''kof-child-config-propagation'' clusterName"

definition GetVMUserName :: "string \<Rightarrow> string \<Rightarrow> string" where
  "GetVMUserName cmName cmNamespace = Adler32Checksum (cmName @ ''/'' @ cmNamespace)"

definition isRegionlessConfigMap :: "config_map \<Rightarrow> bool" where
  "isRegionlessConfigMap cm \<longleftrightarrow> get_str (cm_labels cm) KofRegionlessLabel = ''true''"

text \<open>A ConfigMap or nothing, where a missing one is no error.\<close>

definition get_config_map :: "string \<Rightarrow> string \<Rightarrow> op_api \<Rightarrow> (op_error + config_map option) \<times> op_api" where
  "get_config_map namespace name k =
     (case api_get cm_key cms (namespace, name) k of
        (Inl NotFound, k') \<Rightarrow> (Inr None, k')
      | (Inl e, k') \<Rightarrow> (Inl (OpApi e), k')
      | (Inr cm, k') \<Rightarrow> (Inr (Some cm), k'))"

text \<open>Writing new data into a ConfigMap that was read, unless they are the same.\<close>

definition update_config_data :: "config_map \<Rightarrow> string gomap \<Rightarrow> op_api \<Rightarrow> (op_error + unit) \<times> op_api" where
  "update_config_data cm d k =
     (if maps_Equal (cm_data cm) d then (Inr (), k)
      else in_context OpApi (api_update cm_key cm_version cm_bump cms set_cms (cm\<lparr>cm_data := d\<rparr>) k))"

section \<open>The regional role\<close>

record regional_role =
  rr_deployment :: cluster_deployment
  rr_owner :: owner_reference

definition NewRegionalClusterRole :: "operator_env \<Rightarrow> cluster_deployment \<Rightarrow> op_error + regional_role" where
  "NewRegionalClusterRole e cd =
     (case GetOwnerReference e ''ClusterDeployment'' (cd_name cd) (cd_uid cd) of
        Inl err \<Rightarrow> Inl (OpContext ''failed to get owner reference'' err)
      | Inr owner \<Rightarrow> Inr \<lparr>rr_deployment = cd, rr_owner = owner\<rparr>)"

definition regional_GetConfigMap :: "regional_role \<Rightarrow> op_api \<Rightarrow> (op_error + config_map option) \<times> op_api" where
  "regional_GetConfigMap r k =
     get_config_map (cd_namespace (rr_deployment r)) (GetRegionalClusterConfigMapName (cd_name (rr_deployment r))) k"

definition regional_config_map_of :: "operator_env \<Rightarrow> regional_role \<Rightarrow> config_data \<Rightarrow> config_map" where
  "regional_config_map_of e r configData =
     (let namespace = cd_namespace (rr_deployment r); name = GetRegionalClusterConfigMapName (cd_name (rr_deployment r))
      in \<lparr>cm_namespace = namespace, cm_name = name,
          cm_labels = [(ManagedByLabel, ManagedByValue), (KofGeneratedLabel, ''true''), (KofClusterRoleLabel, ''regional'')],
          cm_data = ToMap configData, cm_owners = [rr_owner r], cm_uid = new_uid e (namespace, name), cm_version = 0\<rparr>)"

definition regional_CreateConfigMap :: "operator_env \<Rightarrow> regional_role \<Rightarrow> config_data \<Rightarrow> op_api \<Rightarrow> (op_error + unit) \<times> op_api" where
  "regional_CreateConfigMap e r configData k =
     in_context OpApi (api_create cm_key cms set_cms (regional_config_map_of e r configData) k)"

definition regional_UpdateConfigMap :: "config_map \<Rightarrow> config_data \<Rightarrow> op_api \<Rightarrow> (op_error + unit) \<times> op_api" where
  "regional_UpdateConfigMap cm configData k = update_config_data cm (ToMap configData) k"

definition CreateOrUpdateRegionalConfigMap :: "operator_env \<Rightarrow> regional_role \<Rightarrow> op_api \<Rightarrow> (op_error + unit) \<times> op_api" where
  "CreateOrUpdateRegionalConfigMap e r k =
     and_then (in_context (OpContext ''failed to create config data'') (NewConfigDataFromClusterDeployment e (rr_deployment r) k))
     (\<lambda>configData k.
     and_then (in_context (OpContext ''failed to get ConfigMap'') (regional_GetConfigMap r k))
     (\<lambda>cm k.
       (case cm of
          None \<Rightarrow> in_context (OpContext ''failed to create ConfigMap'') (regional_CreateConfigMap e r configData k)
        | Some cm \<Rightarrow> in_context (OpContext ''failed to update ConfigMap'') (regional_UpdateConfigMap cm configData k))))"

definition regional_role_Reconcile :: "operator_env \<Rightarrow> regional_role \<Rightarrow> op_api \<Rightarrow> (op_error + unit) \<times> op_api" where
  "regional_role_Reconcile e r k =
     in_context (OpContext ''failed to create or update regional cluster ConfigMap'') (CreateOrUpdateRegionalConfigMap e r k)"

section \<open>The management cluster as its own region\<close>

definition same_config_map :: "config_map \<Rightarrow> config_map \<Rightarrow> bool" where
  "same_config_map c d \<longleftrightarrow> maps_Equal (cm_labels c) (cm_labels d) \<and> maps_Equal (cm_data c) (cm_data d) \<and> cm_owners c = cm_owners d"

definition mutate_regionless :: "config_data \<Rightarrow> config_map \<Rightarrow> string + config_map" where
  "mutate_regionless configData cm =
     Inr (cm\<lparr>cm_labels := map_set KofRegionlessLabel ''true'' (map_set KofClusterRoleLabel ''regional''
         (map_set KofGeneratedLabel ''true'' (map_set ManagedByLabel ManagedByValue (cm_labels cm)))),
       cm_data := ToMap configData\<rparr>)"

definition CreateOrUpdateRegionlessConfigMap :: "operator_env \<Rightarrow> string \<Rightarrow> op_api \<Rightarrow> (op_error + unit) \<times> op_api" where
  "CreateOrUpdateRegionlessConfigMap e managementClusterName k =
     (if \<not> RegionlessEnabled (op_environ e) then (Inr (), k)
      else (let name = GetRegionalClusterConfigMapName managementClusterName;
                configData = NewRegionlessConfigData (op_environ e) (isIstio e) managementClusterName DefaultSystemNamespace
            in and_then
                 (in_context (\<lambda>err. OpContext ''failed to create or update regionless regional ConfigMap'' (OpCou err))
                    (CreateOrUpdate cm_key cm_version cm_bump same_config_map cms set_cms
                       \<lparr>cm_namespace = DefaultSystemNamespace, cm_name = name, cm_labels = [], cm_data = [], cm_owners = [],
                        cm_uid = new_uid e (DefaultSystemNamespace, name), cm_version = 0\<rparr>
                       (mutate_regionless configData) k))
                 (\<lambda>_ k. (Inr (), k))))"

section \<open>A regional ConfigMap\<close>

record regional_config_map =
  rc_clusterName :: string
  rc_clusterNamespace :: string
  rc_releaseNamespace :: string
  rc_configMap :: config_map
  rc_owner :: owner_reference
  rc_configData :: config_data
  rc_isKcmRegionCluster :: bool

definition NewRegionalClusterConfigMap :: "operator_env \<Rightarrow> config_map \<Rightarrow> op_api \<Rightarrow> (op_error + regional_config_map) \<times> op_api" where
  "NewRegionalClusterConfigMap e cm k =
     (let d = NewConfigDataFromConfigMap (cm_data cm)
      in case GetOwnerReference e ''ConfigMap'' (cm_name cm) (cm_uid cm) of
           Inl err \<Rightarrow> (Inl (OpContext ''failed to get owner reference'' err), k)
         | Inr owner \<Rightarrow>
             (case GetReleaseNamespace (op_environ e) of
                Inl err \<Rightarrow> (Inl (OpContext ''failed to get release namespace'' (OpText err)), k)
              | Inr releaseNamespace \<Rightarrow>
                  and_then
                    (if isRegionlessConfigMap cm then (Inr False, k)
                     else in_context (OpContext ''failed to determine if cluster is KCM region cluster'')
                       (IsClusterKcmRegion (RegionalClusterName d) (RegionalClusterNamespace d) k))
                    (\<lambda>region k.
                      (Inr \<lparr>rc_clusterName = RegionalClusterName d, rc_clusterNamespace = RegionalClusterNamespace d,
                            rc_releaseNamespace = releaseNamespace, rc_configMap = cm, rc_owner = owner, rc_configData = d,
                            rc_isKcmRegionCluster = region\<rparr>, k))))"

section \<open>The child role\<close>

record child_role =
  ch_clusterName :: string
  ch_clusterNamespace :: string
  ch_isClusterInRegion :: bool
  ch_deployment :: cluster_deployment
  ch_config :: cluster_deployment_config
  ch_owner :: owner_reference

definition NewChildClusterRole :: "operator_env \<Rightarrow> cluster_deployment \<Rightarrow> op_error + child_role" where
  "NewChildClusterRole e cd =
     (case GetOwnerReference e ''ClusterDeployment'' (cd_name cd) (cd_uid cd) of
        Inl err \<Rightarrow> Inl (OpContext ''failed to get owner reference'' err)
      | Inr owner \<Rightarrow>
          (case ReadClusterDeploymentConfig e (cd_config cd) of
             Inl err \<Rightarrow> Inl (OpContext ''failed to read cluster deployment config'' err)
           | Inr cdConfig \<Rightarrow>
               Inr \<lparr>ch_clusterName = cd_name cd, ch_clusterNamespace = cd_namespace cd,
                    ch_isClusterInRegion = CreatedInKCMRegion cd, ch_deployment = cd, ch_config = cdConfig, ch_owner = owner\<rparr>))"

definition child_GetConfigMap :: "child_role \<Rightarrow> op_api \<Rightarrow> (op_error + config_map option) \<times> op_api" where
  "child_GetConfigMap c k = get_config_map (ch_clusterNamespace c) (GetConfigMapName (ch_clusterName c)) k"

definition DiscoverRegionalClusterCmByLabel ::
    "operator_env \<Rightarrow> child_role \<Rightarrow> string \<Rightarrow> op_api \<Rightarrow> (op_error + config_map) \<times> op_api" where
  "DiscoverRegionalClusterCmByLabel e c regionalClusterName k =
     (case (if CrossNamespaceEnabled (op_environ e) then map_of (cd_labels (ch_deployment c)) KofRegionalClusterNamespaceLabel
            else Some (ch_clusterNamespace c)) of
        None \<Rightarrow> (Inl (OpText ''label is required''), k)
      | Some regionalClusterNamespace \<Rightarrow>
          and_then
            (if ch_isClusterInRegion c
             then and_then (in_context (OpContext ''failed to determine if clusters are in the same KCM region'')
                    (IsClusterInSameKcmRegion (ch_clusterName c) (ch_clusterNamespace c) regionalClusterName regionalClusterNamespace k))
                    (\<lambda>isSameRegion k.
                      (if isSameRegion then Inr ()
                       else Inl (OpText ''child cluster and regional cluster are not in the same KCM region''), k))
             else (Inr (), k))
            (\<lambda>_ k. in_context OpApi
               (api_get cm_key cms (regionalClusterNamespace, GetRegionalClusterConfigMapName regionalClusterName) k)))"

definition isPreviouslyUsedRegionalCluster :: "config_map option \<Rightarrow> config_data \<Rightarrow> bool" where
  "isPreviouslyUsedRegionalCluster childConfigMap regionalConfigData =
     (case childConfigMap of
        None \<Rightarrow> False
      | Some cm \<Rightarrow>
          get_str (cm_data cm) RegionalClusterNameKey = RegionalClusterName regionalConfigData \<and>
          (get_str (cm_data cm) RegionalClusterNamespaceKey = [] \<or>
           get_str (cm_data cm) RegionalClusterNamespaceKey = RegionalClusterNamespace regionalConfigData))"

text \<open>
  The loop over the regional ConfigMaps: the first match that was used before ends it, the other
  matches are candidates.
\<close>

definition regional_matches :: "child_role \<Rightarrow> string \<Rightarrow> cluster_deployment list \<Rightarrow> config_data \<Rightarrow> bool" where
  "regional_matches c childCloud cdsInSameRegion d \<longleftrightarrow>
     (ch_isClusterInRegion c \<longrightarrow> (\<exists>cd \<in> set cdsInSameRegion. cd_name cd = RegionalClusterName d)) \<and>
     childCloud = RegionalClusterCloud d \<and>
     locationIsTheSame childCloud (ch_config c) (ToClusterDeploymentConfig d)"

fun scan_regional :: "child_role \<Rightarrow> string \<Rightarrow> cluster_deployment list \<Rightarrow> config_map option \<Rightarrow> config_map list \<Rightarrow>
    config_map list \<Rightarrow> config_map + config_map list" where
  "scan_regional c childCloud cds configMap candidates [] = Inr candidates"
| "scan_regional c childCloud cds configMap candidates (cm # rest) =
     (let d = NewConfigDataFromConfigMap (cm_data cm)
      in if \<not> regional_matches c childCloud cds d then scan_regional c childCloud cds configMap candidates rest
         else if isPreviouslyUsedRegionalCluster configMap d then Inl cm
         else scan_regional c childCloud cds configMap (candidates @ [cm]) rest)"

definition pick_regional :: "child_role \<Rightarrow> string \<Rightarrow> cluster_deployment list \<Rightarrow> config_map option \<Rightarrow> config_map list \<Rightarrow> op_error + config_map" where
  "pick_regional c childCloud cdsInSameRegion configMap regionalConfigMaps =
     (case scan_regional c childCloud cdsInSameRegion configMap [] regionalConfigMaps of
        Inl cm \<Rightarrow> Inr cm
      | Inr candidates \<Rightarrow>
          if configMap \<noteq> None then Inl (OpText ''previously used regional cluster is not discovered in the same location'')
          else (case candidates of
              cm # _ \<Rightarrow> Inr cm
            | [] \<Rightarrow> Inl (OpText ''regional cluster ConfigMap with matching location is not found'')))"

definition DiscoverRegionalClusterConfigMapByLocation ::
    "operator_env \<Rightarrow> child_role \<Rightarrow> op_api \<Rightarrow> (op_error + config_map) \<times> op_api" where
  "DiscoverRegionalClusterConfigMapByLocation e c k =
     (let crossNamespace = CrossNamespaceEnabled (op_environ e); isRegionless = RegionlessEnabled (op_environ e);
          in_scope = (\<lambda>cm. if isRegionless then cm_namespace cm = DefaultSystemNamespace
                           else crossNamespace \<or> cm_namespace cm = ch_clusterNamespace c)
      in and_then (in_context OpApi (api_list cms (\<lambda>cm. has_label KofClusterRoleLabel ''regional'' (cm_labels cm) \<and> in_scope cm) k))
         (\<lambda>regionalConfigMaps k.
           if isRegionless then
             (case find isRegionlessConfigMap regionalConfigMaps of
                Some cm \<Rightarrow> (Inr cm, k)
              | None \<Rightarrow> (Inl (OpText ''regionless is enabled but no regionless ConfigMap was found''), k))
           else
             (case getCloud (ch_deployment c) k of
                (Inl (UnknownCloudProvider t), k) \<Rightarrow>
                  (Inl (OpContext ''cannot discover regional cluster by location'' (UnknownCloudProvider t)), k)
              | (Inl err, k) \<Rightarrow> (Inl (OpContext ''failed to get child cluster cloud'' err), k)
              | (Inr childCloud, k) \<Rightarrow>
                  and_then (in_context (OpContext ''failed to get ConfigMap'') (child_GetConfigMap c k))
                  (\<lambda>configMap k.
                  and_then
                    (if ch_isClusterInRegion c
                     then in_context (OpContext ''failed to get cluster deployments in the same kcm region'')
                       (GetClusterDeploymentsInSameKcmRegion e (ch_deployment c) k)
                     else (Inr [], k))
                  (\<lambda>cdsInSameRegion k.
                    (pick_regional c childCloud cdsInSameRegion configMap regionalConfigMaps, k))))))"

definition GetRegionalConfigMap :: "operator_env \<Rightarrow> child_role \<Rightarrow> op_api \<Rightarrow> (op_error + regional_config_map) \<times> op_api" where
  "GetRegionalConfigMap e c k =
     and_then
       (case map_of (cd_labels (ch_deployment c)) KofRegionalClusterNameLabel of
          Some regionalClusterName \<Rightarrow> DiscoverRegionalClusterCmByLabel e c regionalClusterName k
        | None \<Rightarrow> DiscoverRegionalClusterConfigMapByLocation e c k)
       (\<lambda>cm k. NewRegionalClusterConfigMap e cm k)"

definition child_UpdateConfigMap :: "config_map \<Rightarrow> string gomap \<Rightarrow> op_api \<Rightarrow> (op_error + unit) \<times> op_api" where
  "child_UpdateConfigMap configMap newConfigData k = update_config_data configMap newConfigData k"

definition child_config_map_of :: "operator_env \<Rightarrow> child_role \<Rightarrow> string gomap \<Rightarrow> config_map" where
  "child_config_map_of e c d =
     \<lparr>cm_namespace = ch_clusterNamespace c, cm_name = GetConfigMapName (ch_clusterName c),
      cm_labels = [(ManagedByLabel, ManagedByValue), (KofClusterRoleLabel, ''child'')],
      cm_data = d, cm_owners = [ch_owner c],
      cm_uid = new_uid e (ch_clusterNamespace c, GetConfigMapName (ch_clusterName c)), cm_version = 0\<rparr>"

definition child_CreateConfigMap :: "operator_env \<Rightarrow> child_role \<Rightarrow> string gomap \<Rightarrow> op_api \<Rightarrow> (op_error + unit) \<times> op_api" where
  "child_CreateConfigMap e c configData k =
     and_then (in_context OpApi (EnsureCreated cm_key cms set_cms (child_config_map_of e c configData) k)) (\<lambda>_ k. (Inr (), k))"

text \<open>The service that copies a ConfigMap to the clusters of regions.\<close>

definition propagation_spec :: "environ \<Rightarrow> string \<Rightarrow> string \<Rightarrow> string \<Rightarrow> string \<Rightarrow> mcs_spec" where
  "propagation_spec e service identifier name namespace =
     \<lparr>KeepServicesOnSelectorMismatch = False,
      SpecSelector = \<lparr>MatchLabels = Some [(KofKcmRegionLabel, ''true'')], MatchExpressions = []\<rparr>,
      SpecDependsOn = [],
      Services = [\<lparr>SvcName = service, SvcTemplate = GetPropagationTemplateName e, SvcNamespace = KofNamespace,
        SvcValues = propagation_values identifier\<rparr>],
      TemplateResourceRefs = [\<lparr>TRIdentifier = identifier, TRKind = ''ConfigMap'', TRName = name, TRNamespace = namespace\<rparr>]\<rparr>"

definition mutate_propagation :: "string \<Rightarrow> string \<Rightarrow> mcs_spec \<Rightarrow> multi_cluster_service \<Rightarrow> string + multi_cluster_service" where
  "mutate_propagation clusterName clusterNamespace spec mcs =
     Inr (mcs\<lparr>mcs_labels := map_set ''cluster-namespace'' clusterNamespace (map_set ''cluster-name'' clusterName
         (map_set ManagedByLabel ManagedByValue (mcs_labels mcs))),
       mcs_spec_of := Some spec\<rparr>)"

definition propagate :: "string \<Rightarrow> string \<Rightarrow> string \<Rightarrow> mcs_spec \<Rightarrow> string \<Rightarrow> op_api \<Rightarrow> (op_error + unit) \<times> op_api" where
  "propagate name clusterName clusterNamespace spec msg k =
     and_then (in_context (\<lambda>err. OpContext msg (OpCou err))
       (CreateOrUpdate mcs_name mcs_version mcs_bump same_mcs mcss set_mcss
          \<lparr>mcs_name = name, mcs_labels = [], mcs_spec_of = None, mcs_version = 0\<rparr>
          (mutate_propagation clusterName clusterNamespace spec) k))
       (\<lambda>_ k. (Inr (), k))"

definition CreateConfigMapPropagation :: "operator_env \<Rightarrow> child_role \<Rightarrow> op_api \<Rightarrow> (op_error + unit) \<times> op_api" where
  "CreateConfigMapPropagation e c k =
     (if \<not> ch_isClusterInRegion c then (Inr (), k)
      else propagate (GetChildConfigMapPropagationName (ch_clusterName c)) (ch_clusterName c) (ch_clusterNamespace c)
        (propagation_spec (op_environ e) (FNVName ''kof-child-config'' (ch_clusterNamespace c @ ''/'' @ ch_clusterName c))
           ''childConfig'' (GetConfigMapName (ch_clusterName c)) (ch_clusterNamespace c))
        ''failed to create or update child ConfigMap propagation'' k)"

definition child_CreateOrUpdateConfigMap :: "operator_env \<Rightarrow> child_role \<Rightarrow> string gomap \<Rightarrow> op_api \<Rightarrow> (op_error + unit) \<times> op_api" where
  "child_CreateOrUpdateConfigMap e c newConfigData k =
     and_then (in_context (OpContext ''failed to get ConfigMap'') (child_GetConfigMap c k))
     (\<lambda>configMap k.
     and_then
       (case configMap of
          None \<Rightarrow> in_context (OpContext ''failed to create ConfigMap'') (child_CreateConfigMap e c newConfigData k)
        | Some cm \<Rightarrow> in_context (OpContext ''failed to update ConfigMap'') (child_UpdateConfigMap cm newConfigData k))
       (\<lambda>_ k. in_context (OpContext ''failed to create ConfigMap propagation'') (CreateConfigMapPropagation e c k)))"

definition IsIstioRole :: "child_role \<Rightarrow> bool" where
  "IsIstioRole c \<longleftrightarrow> HasLabel IstioRoleLabel (cd_labels (ch_deployment c))"

definition child_GetRegionalMCSName :: "environ \<Rightarrow> child_role \<Rightarrow> string" where
  "child_GetRegionalMCSName e c = (if IsIstioRole c then GetIstioRegionalMCSName e else GetRegionalMCSName e)"

definition tenant_of :: "cluster_deployment \<Rightarrow> string" where
  "tenant_of cd = (case map_of (cd_labels cd) KofTenantLabel of None \<Rightarrow> DefaultTenantID | Some t \<Rightarrow> t)"

definition child_user_options :: "environ \<Rightarrow> child_role \<Rightarrow> string \<Rightarrow> create_options" where
  "child_user_options e c regionalClusterName =
     \<lparr>OptName = GetVMUserName (GetConfigMapName (ch_clusterName c)) (ch_clusterNamespace c),
      OptNamespace = ch_clusterNamespace c, OptOwner = Some (ch_owner c),
      OptLabels = [(ClusterNameLabel, ch_clusterName c), (KofTenantLabel, tenant_of (ch_deployment c))],
      OptMCS = Some \<lparr>ClusterSelector = \<lparr>MatchLabels = Some [(ClusterNameLabel, regionalClusterName)], MatchExpressions = []\<rparr>,
        DependsOn = [child_GetRegionalMCSName e c]\<rparr>,
      OptVMUser = Some \<lparr>ExtraLabel = Some \<lparr>LabelKey = ''tenant'', LabelValue = tenant_of (ch_deployment c)\<rparr>,
        ExtraFilters = [(''tenant'', tenant_of (ch_deployment c))]\<rparr>\<rparr>"

definition create_user :: "operator_env \<Rightarrow> create_options \<Rightarrow> op_api \<Rightarrow> (op_error + unit) \<times> op_api" where
  "create_user e opts k =
     (case Create (op_random e) (op_environ e) opts k of
        (Some err, k') \<Rightarrow> (Inl (OpUser err), k')
      | (None, k') \<Rightarrow> (Inr (), k'))"

definition CreateVMUserCredentials :: "operator_env \<Rightarrow> child_role \<Rightarrow> string \<Rightarrow> op_api \<Rightarrow> (op_error + unit) \<times> op_api" where
  "CreateVMUserCredentials e c regionalClusterName k = create_user e (child_user_options (op_environ e) c regionalClusterName) k"

definition child_role_Reconcile :: "operator_env \<Rightarrow> child_role \<Rightarrow> op_api \<Rightarrow> (op_error + unit) \<times> op_api" where
  "child_role_Reconcile e c k =
     and_then (in_context (OpContext ''failed to get regional cluster'') (GetRegionalConfigMap e c k))
     (\<lambda>regional k.
     and_then (in_context (OpContext ''failed to create or update config map'')
       (child_CreateOrUpdateConfigMap e c (cm_data (rc_configMap regional)) k))
     (\<lambda>_ k. in_context (OpContext ''failed to create VM user credentials'')
       (CreateVMUserCredentials e c (rc_clusterName regional) k)))"

section \<open>The controller of cluster deployments\<close>

definition ReconcileKofClusterRole :: "operator_env \<Rightarrow> cluster_deployment \<Rightarrow> op_api \<Rightarrow> (op_error + unit) \<times> op_api" where
  "ReconcileKofClusterRole e cd k =
     (let role = get_str (cd_labels cd) KofClusterRoleLabel
      in if role = ''child'' then
           (case NewChildClusterRole e cd of Inl err \<Rightarrow> (Inl err, k) | Inr c \<Rightarrow> child_role_Reconcile e c k)
         else if role = ''regional'' then
           (case NewRegionalClusterRole e cd of Inl err \<Rightarrow> (Inl err, k) | Inr r \<Rightarrow> regional_role_Reconcile e r k)
         else (Inr (), k))"

definition addClusterNameLabel :: "cluster_deployment \<Rightarrow> op_api \<Rightarrow> (op_error + unit) \<times> op_api" where
  "addClusterNameLabel cd k =
     api_ctx ''failed to add cluster name label to ClusterDeployment''
       (api_update cd_key cd_version cd_bump deployments set_deployments
          (cd\<lparr>cd_labels := map_set ClusterNameLabel (cd_name cd) (cd_labels cd)\<rparr>) k)"

definition cleanup_mcs :: "string \<Rightarrow> op_api \<Rightarrow> (api_error + unit) \<times> op_api" where
  "cleanup_mcs name k =
     (case deleteResource mcs_name mcss set_mcss name k of
        (Some e, k') \<Rightarrow> (Inl e, k')
      | (None, k') \<Rightarrow> (Inr (), k'))"

definition CleanupChildConfigMapMcsPropagation :: "string \<Rightarrow> op_api \<Rightarrow> (op_error + unit) \<times> op_api" where
  "CleanupChildConfigMapMcsPropagation clusterName k =
     api_ctx ''failed to delete child config map propagation MultiClusterService''
       (cleanup_mcs (GetChildConfigMapPropagationName clusterName) k)"

definition ClusterDeployment_Reconcile :: "operator_env \<Rightarrow> string \<times> string \<Rightarrow> op_api \<Rightarrow> (op_error + unit) \<times> op_api" where
  "ClusterDeployment_Reconcile e req k =
     (case api_get cd_key deployments req k of
        (Inl NotFound, k) \<Rightarrow> CleanupChildConfigMapMcsPropagation (snd req) k
      | (Inl err, k) \<Rightarrow> (Inl (OpApi err), k)
      | (Inr cd, k) \<Rightarrow>
          if \<not> HasClusterNameLabel (cd_labels cd) then addClusterNameLabel cd k
          else ReconcileKofClusterRole e cd k)"

end
