(* ===== verification/Regional_Config.thy ===== *)
theory Regional_Config
  imports Cluster_Roles
begin

text \<open>
  The controller of regional ConfigMaps (\<open>configmap_cluster_regional.go\<close> and
  \<open>regional_cluster_configmap_controller.go\<close>).

  For the ConfigMap of a regional cluster it creates the ConfigMap of record rules that the alert
  rules controller fills, its propagation, the data of the child clusters, the credentials of the
  management cluster, a server group of promxy and three storage connections, in this order, and
  stops at the first error.
\<close>

section \<open>Names\<close>

definition vmRulesConfigMapNamePrefix :: string where "vmRulesConfigMapNamePrefix = ''kof-record-vmrules-''"

definition GetVmRulesMcsPropagationName :: "string \<Rightarrow> string" where
  "GetVmRulesMcsPropagationName cmName = FNVName ''kof-vm-rules-propagation'' cmName"
definition GetTracesStorageConnectionName :: "string \<Rightarrow> string \<Rightarrow> string" where
  "GetTracesStorageConnectionName cmName cmNamespace = FNVName ''kof-traces-storage-connection'' (cmName @ ''/'' @ cmNamespace)"
definition GetLogsStorageConnectionName :: "string \<Rightarrow> string \<Rightarrow> string" where
  "GetLogsStorageConnectionName cmName cmNamespace = FNVName ''kof-logs-storage-connection'' (cmName @ ''/'' @ cmNamespace)"
definition GetAuditLogsStorageConnectionName :: "string \<Rightarrow> string \<Rightarrow> string" where
  "GetAuditLogsStorageConnectionName cmName cmNamespace = FNVName ''kof-audit-logs-storage-connection'' (cmName @ ''/'' @ cmNamespace)"
definition GetPromxyServerGroupName :: "string \<Rightarrow> string \<Rightarrow> string" where
  "GetPromxyServerGroupName cmName cmNamespace = FNVName ''promxy-server-group'' (cmName @ ''/'' @ cmNamespace)"
definition GetVMUserAdminName :: "string \<Rightarrow> string \<Rightarrow> string" where
  "GetVMUserAdminName cmName cmNamespace = Adler32Name ''admin'' (cmName @ ''/'' @ cmNamespace)"

text \<open>The Secret of the management cluster's own credentials.\<close>

definition admin_name :: "regional_config_map \<Rightarrow> string" where
  "admin_name c = GetVMUserAdminName (cm_name (rc_configMap c)) (cm_namespace (rc_configMap c))"

section \<open>Rules and their propagation\<close>

definition vm_rules_config_map :: "operator_env \<Rightarrow> regional_config_map \<Rightarrow> config_map" where
  "vm_rules_config_map e c =
     (let name = vmRulesConfigMapNamePrefix @ rc_clusterName c
      in \<lparr>cm_namespace = rc_clusterNamespace c, cm_name = name,
          cm_labels = [(KofRecordVMRulesClusterNameLabel, rc_clusterName c), (ManagedByLabel, ManagedByValue),
            (KofGeneratedLabel, ''true'')],
          cm_data = [], cm_owners = [rc_owner c], cm_uid = new_uid e (rc_clusterNamespace c, name), cm_version = 0\<rparr>)"

definition CreateVmRulesConfigMap :: "operator_env \<Rightarrow> regional_config_map \<Rightarrow> op_api \<Rightarrow> (op_error + unit) \<times> op_api" where
  "CreateVmRulesConfigMap e c k =
     and_then (api_ctx ''failed to create VMRulesConfigMap'' (EnsureCreated cm_key cms set_cms (vm_rules_config_map e c) k))
       (\<lambda>_ k. (Inr (), k))"

definition CreateOrUpdateMcsForVmRulesPropagation :: "operator_env \<Rightarrow> regional_config_map \<Rightarrow> op_api \<Rightarrow> (op_error + unit) \<times> op_api" where
  "CreateOrUpdateMcsForVmRulesPropagation e c k =
     (if \<not> rc_isKcmRegionCluster c then (Inr (), k)
      else propagate (GetVmRulesMcsPropagationName (cm_name (rc_configMap c))) (rc_clusterName c) (rc_clusterNamespace c)
        (propagation_spec (op_environ e) (FNVName ''kof-vm-rules'' (rc_clusterNamespace c @ ''/'' @ rc_clusterName c))
           ''vmRules'' (vmRulesConfigMapNamePrefix @ rc_clusterName c) (rc_clusterNamespace c))
        ''failed to create or update VMRules propagation'' k)"

section \<open>Child clusters\<close>

text \<open>The roles of deployments; the first that cannot be built ends the list with its error.\<close>

fun child_roles :: "operator_env \<Rightarrow> cluster_deployment list \<Rightarrow> op_error + child_role list" where
  "child_roles e [] = Inr []"
| "child_roles e (cd # cds) =
     (case NewChildClusterRole e cd of
        Inl err \<Rightarrow> Inl (OpContext ''failed to create child cluster'' err)
      | Inr c \<Rightarrow> (case child_roles e cds of Inl err \<Rightarrow> Inl err | Inr cs \<Rightarrow> Inr (c # cs)))"

text \<open>
  By location: a deployment whose cloud or configuration cannot be read is skipped; one in the same
  location is taken unless it names another regional cluster.
\<close>

fun children_by_location :: "operator_env \<Rightarrow> regional_config_map \<Rightarrow> cluster_deployment list \<Rightarrow> op_api \<Rightarrow>
    (op_error + child_role list) \<times> op_api" where
  "children_by_location e c [] k = (Inr [], k)"
| "children_by_location e c (cd # cds) k =
     (case getCloud cd k of
        (Inl _, k) \<Rightarrow> children_by_location e c cds k
      | (Inr childCloud, k) \<Rightarrow>
          if RegionalClusterCloud (rc_configData c) \<noteq> childCloud then children_by_location e c cds k
          else (case ReadClusterDeploymentConfig e (cd_config cd) of
              Inl _ \<Rightarrow> children_by_location e c cds k
            | Inr cfg \<Rightarrow>
                (let label = get_str (cd_labels cd) KofRegionalClusterNameLabel
                 in if locationIsTheSame (RegionalClusterCloud (rc_configData c)) (ToClusterDeploymentConfig (rc_configData c)) cfg \<and>
                       (label = [] \<or> label = rc_clusterName c)
                    then (case NewChildClusterRole e cd of
                        Inl err \<Rightarrow> (Inl (OpContext ''failed to create child cluster'' err), k)
                      | Inr r \<Rightarrow> and_then (children_by_location e c cds k) (\<lambda>rs k. (Inr (r # rs), k)))
                    else children_by_location e c cds k)))"

definition GetChildClusters :: "operator_env \<Rightarrow> regional_config_map \<Rightarrow> op_api \<Rightarrow> (op_error + child_role list) \<times> op_api" where
  "GetChildClusters e c k =
     and_then (api_ctx ''failed to get ClusterDeployments list''
       (GetClusterDeployments (\<lambda>cd. has_label KofClusterRoleLabel ''child'' (cd_labels cd)) k))
     (\<lambda>cds k.
       if isRegionlessConfigMap (rc_configMap c) then (child_roles e cds, k)
       else if RegionalClusterCloud (rc_configData c) = [] then
         (child_roles e (filter (\<lambda>cd. get_str (cd_labels cd) KofRegionalClusterNameLabel = rc_clusterName c \<and>
            get_str (cd_labels cd) KofRegionalClusterNamespaceLabel = rc_clusterNamespace c) cds), k)
       else children_by_location e c cds k)"

fun update_children :: "string gomap \<Rightarrow> child_role list \<Rightarrow> op_api \<Rightarrow> (op_error + unit) \<times> op_api" where
  "update_children d [] k = (Inr (), k)"
| "update_children d (r # rs) k =
     and_then (in_context (OpContext ''failed to get config map'') (child_GetConfigMap r k))
     (\<lambda>configMap k.
       (case configMap of
          None \<Rightarrow> update_children d rs k
        | Some cm \<Rightarrow>
            and_then (in_context (OpContext ''failed to update config map'') (child_UpdateConfigMap cm d k))
              (\<lambda>_ k. update_children d rs k)))"

definition UpdateChildConfigMap :: "operator_env \<Rightarrow> regional_config_map \<Rightarrow> op_api \<Rightarrow> (op_error + unit) \<times> op_api" where
  "UpdateChildConfigMap e c k =
     and_then (in_context (OpContext ''failed to get child clusters'') (GetChildClusters e c k))
       (\<lambda>rs k. update_children (cm_data (rc_configMap c)) rs k)"

section \<open>Credentials\<close>

definition IsIstioCluster :: "regional_config_map \<Rightarrow> bool" where
  "IsIstioCluster c \<longleftrightarrow> IstioRole (rc_configData c) \<noteq> []"

definition regional_GetRegionalMCSName :: "environ \<Rightarrow> regional_config_map \<Rightarrow> string" where
  "regional_GetRegionalMCSName e c = (if IsIstioCluster c then GetIstioRegionalMCSName e else GetRegionalMCSName e)"

definition admin_options :: "environ \<Rightarrow> regional_config_map \<Rightarrow> create_options" where
  "admin_options e c =
     \<lparr>OptName = admin_name c, OptNamespace = rc_clusterNamespace c, OptOwner = Some (rc_owner c),
      OptLabels = [(ClusterNameLabel, rc_clusterName c)],
      OptMCS = Some \<lparr>ClusterSelector = \<lparr>MatchLabels = Some [(ClusterNameLabel, rc_clusterName c)], MatchExpressions = []\<rparr>,
        DependsOn = [regional_GetRegionalMCSName e c]\<rparr>,
      OptVMUser = None\<rparr>"

definition regional_CreateVMUser :: "operator_env \<Rightarrow> regional_config_map \<Rightarrow> op_api \<Rightarrow> (op_error + unit) \<times> op_api" where
  "regional_CreateVMUser e c k = create_user e (admin_options (op_environ e) c) k"

section \<open>Endpoints\<close>

definition GetReadEndpoint :: "operator_env \<Rightarrow> regional_config_map \<Rightarrow> endpoint \<Rightarrow> string \<Rightarrow> string" where
  "GetReadEndpoint e c ep externalEndpoint =
     (if \<not> isRegionlessConfigMap (rc_configMap c) then externalEndpoint
      else if isIstio e then Sprintf_s (istioEndpoints ep) (rc_clusterName c)
      else regionlessEndpoints ep)"

definition parsePort :: "url_parts \<Rightarrow> op_error + string" where
  "parsePort u =
     (if Port u \<noteq> [] then Inr (Port u)
      else if Scheme u = ''http'' then Inr ''80''
      else if Scheme u = ''https'' then Inr ''443''
      else Inl (OpText (''unknown scheme: '' @ Scheme u)))"

record metrics_data =
  MetricsEndpoint :: string
  MetricsTarget :: string
  MetricsPort :: string
  MetricsURL :: url_parts

definition GetMetricsData :: "operator_env \<Rightarrow> regional_config_map \<Rightarrow> op_error + metrics_data" where
  "GetMetricsData e c =
     (let metricsEndpoint = GetReadEndpoint e c ReadMetrics (ReadMetricsEndpoint (rc_configData c))
      in case url_parse e metricsEndpoint of
           Inl err \<Rightarrow> Inl (OpText err)
         | Inr u \<Rightarrow>
             (case parsePort u of
                Inl err \<Rightarrow> Inl err
              | Inr port \<Rightarrow>
                  Inr \<lparr>MetricsEndpoint = metricsEndpoint, MetricsTarget = Hostname u @ '':'' @ port, MetricsPort = port,
                       MetricsURL = u\<rparr>))"

definition defaultDialTimeout :: duration where "defaultDialTimeout = 5 * second"

definition no_http_config :: http_client_config where
  "no_http_config = \<lparr>DialTimeout = 0, InsecureSkipVerify = False,
     BasicAuth = \<lparr>CredentialsSecretName = [], BasicUsernameKey = [], BasicPasswordKey = []\<rparr>\<rparr>"

definition GetHttpClientConfig :: "operator_env \<Rightarrow> regional_config_map \<Rightarrow> op_error + http_client_config option" where
  "GetHttpClientConfig e c =
     (let httpConfigJson = RegionalHTTPClientConfig (rc_configData c)
      in if httpConfigJson = [] then Inr None
         else (case http_json e httpConfigJson (no_http_config\<lparr>DialTimeout := defaultDialTimeout\<rparr>) of
             Inl err \<Rightarrow> Inl (OpText err)
           | Inr cfg \<Rightarrow> Inr (Some cfg)))"

definition insecure_skip_verify :: "regional_config_map \<Rightarrow> http_client_config option \<Rightarrow> bool" where
  "insecure_skip_verify c cfg =
     (case cfg of None \<Rightarrow> False | Some h \<Rightarrow> \<not> isRegionlessConfigMap (rc_configMap c) \<and> InsecureSkipVerify h)"

section \<open>The server group of promxy\<close>

definition server_group_of :: "regional_config_map \<Rightarrow> metrics_data \<Rightarrow> http_client_config option \<Rightarrow> promxy_server_group \<Rightarrow> string + promxy_server_group" where
  "server_group_of c metrics cfg g =
     (let dialTimeout = (case cfg of Some h \<Rightarrow> if DialTimeout h \<noteq> 0 then DialTimeout h else defaultDialTimeout | None \<Rightarrow> defaultDialTimeout);
          secretName = (case cfg of
              Some h \<Rightarrow> if CredentialsSecretName (BasicAuth h) \<noteq> [] then CredentialsSecretName (BasicAuth h)
                        else BuildSecretName (admin_name c)
            | None \<Rightarrow> BuildSecretName (admin_name c))
      in Inr (g\<lparr>psg_owners := [rc_owner c],
            psg_labels := [(ManagedByLabel, ManagedByValue), (SecretNameLabel, ''kof-mothership-promxy-config'')],
            psg_cluster := rc_clusterName c, psg_scheme := Scheme (MetricsURL metrics), psg_path := Path (MetricsURL metrics),
            psg_targets := [MetricsTarget metrics],
            psg_http := \<lparr>DialTimeout = dialTimeout, InsecureSkipVerify = insecure_skip_verify c cfg,
              BasicAuth = \<lparr>CredentialsSecretName = secretName, BasicUsernameKey = VMUser.UsernameKey, BasicPasswordKey = VMUser.PasswordKey\<rparr>\<rparr>\<rparr>))"

definition new_server_group :: "string \<Rightarrow> string \<Rightarrow> promxy_server_group" where
  "new_server_group namespace name =
     \<lparr>psg_namespace = namespace, psg_name = name, psg_labels = [], psg_owners = [], psg_cluster = [], psg_scheme = [], psg_path = [],
      psg_targets = [], psg_http = no_http_config, psg_version = 0\<rparr>"

definition same_server_group :: "promxy_server_group \<Rightarrow> promxy_server_group \<Rightarrow> bool" where
  "same_server_group g h \<longleftrightarrow>
     maps_Equal (psg_labels g) (psg_labels h) \<and> psg_owners g = psg_owners h \<and> psg_cluster g = psg_cluster h \<and>
     psg_scheme g = psg_scheme h \<and> psg_path g = psg_path h \<and> psg_targets g = psg_targets h \<and> psg_http g = psg_http h"

definition CreateOrUpdatePromxyServerGroup :: "operator_env \<Rightarrow> regional_config_map \<Rightarrow> op_api \<Rightarrow> (op_error + unit) \<times> op_api" where
  "CreateOrUpdatePromxyServerGroup e c k =
     (case GetMetricsData e c of
        Inl err \<Rightarrow> (Inl (OpContext ''failed to get metrics data'' err), k)
      | Inr metrics \<Rightarrow>
          (case GetHttpClientConfig e c of
             Inl err \<Rightarrow> (Inl (OpContext ''failed to get http client config'' err), k)
           | Inr cfg \<Rightarrow>
               and_then (in_context (\<lambda>err. OpContext ''failed to create or update PromxyServerGroup'' (OpCou err))
                 (CreateOrUpdate psg_key psg_version psg_bump same_server_group groups set_groups
                    (new_server_group (rc_clusterNamespace c)
                       (GetPromxyServerGroupName (cm_name (rc_configMap c)) (cm_namespace (rc_configMap c))))
                    (server_group_of c metrics cfg) k))
                 (\<lambda>_ k. (Inr (), k))))"

section \<open>Storage connections\<close>

definition no_node :: target_storage_node where
  "no_node = \<lparr>Address = [], NodeSecret = \<lparr>SecretName = [], secret_ref.PasswordKey = [], secret_ref.UsernameKey = []\<rparr>,
     TlsEnabled = False, TlsInsecureSkipVerify = False\<rparr>"

definition new_connection :: "string \<Rightarrow> string \<Rightarrow> storage_connection" where
  "new_connection namespace name =
     \<lparr>conn_namespace = namespace, conn_name = name, conn_labels = [], conn_finalizers = [], conn_owners = [], conn_deleting = False,
      ClusterRef = \<lparr>RefName = [], RefNamespace = [], RefKind = []\<rparr>, TargetStorageNode = no_node, conn_version = 0\<rparr>"

definition same_connection :: "storage_connection \<Rightarrow> storage_connection \<Rightarrow> bool" where
  "same_connection a b \<longleftrightarrow>
     maps_Equal (conn_labels a) (conn_labels b) \<and> conn_finalizers a = conn_finalizers b \<and> conn_owners a = conn_owners b \<and>
     ClusterRef a = ClusterRef b \<and> TargetStorageNode a = TargetStorageNode b"

definition connection_of :: "regional_config_map \<Rightarrow> string \<Rightarrow> string \<Rightarrow> url_parts \<Rightarrow> bool \<Rightarrow> storage_connection \<Rightarrow> string + storage_connection" where
  "connection_of c kind cluster u skipVerify conn =
     Inr (conn\<lparr>conn_labels := map_set ManagedByLabel ManagedByValue (map_set ClusterNameLabel (rc_clusterName c)
           (map_set KofGeneratedLabel ''true'' (conn_labels conn))),
         conn_owners := [rc_owner c],
         ClusterRef := \<lparr>RefName = cluster, RefNamespace = rc_releaseNamespace c, RefKind = kind\<rparr>,
         TargetStorageNode := \<lparr>Address = Host u @ Path u,
           NodeSecret = \<lparr>SecretName = BuildSecretName (admin_name c), secret_ref.PasswordKey = VMUser.PasswordKey,
             secret_ref.UsernameKey = VMUser.UsernameKey\<rparr>,
           TlsEnabled = (Scheme u = ''https''), TlsInsecureSkipVerify = skipVerify\<rparr>\<rparr>)"

text \<open>
  The three operations differ in the endpoint, the kind and name of the storage cluster and the name
  of the connection. Without the name of a storage cluster nothing is written.
\<close>

definition storage_connection_step ::
    "operator_env \<Rightarrow> regional_config_map \<Rightarrow> string \<Rightarrow> string \<Rightarrow> string \<Rightarrow> string \<Rightarrow> string \<Rightarrow> op_api \<Rightarrow> (op_error + unit) \<times> op_api" where
  "storage_connection_step e c endpoint msg kind cluster name k =
     (case GetHttpClientConfig e c of
        Inl err \<Rightarrow> (Inl (OpContext ''failed to get http client config'' err), k)
      | Inr cfg \<Rightarrow>
          (case url_parse e endpoint of
             Inl err \<Rightarrow> (Inl (OpContext msg (OpText err)), k)
           | Inr u \<Rightarrow>
               if cluster = [] then (Inr (), k)
               else and_then (in_context OpCou
                 (CreateOrUpdate conn_key conn_version conn_bump same_connection conns set_conns
                    (new_connection (rc_clusterNamespace c) name)
                    (connection_of c kind cluster u (insecure_skip_verify c cfg)) k))
                 (\<lambda>_ k. (Inr (), k))))"

definition CreateOrUpdateLogsStorageConnection :: "operator_env \<Rightarrow> regional_config_map \<Rightarrow> op_api \<Rightarrow> (op_error + unit) \<times> op_api" where
  "CreateOrUpdateLogsStorageConnection e c k =
     storage_connection_step e c (GetReadEndpoint e c ReadLogs (ReadLogsEndpoint (rc_configData c)))
       ''failed to parse logs endpoint'' ''VLCluster'' (GetVLClusterName (op_environ e))
       (GetLogsStorageConnectionName (cm_name (rc_configMap c)) (cm_namespace (rc_configMap c))) k"

definition CreateOrUpdateTracesStorageConnection :: "operator_env \<Rightarrow> regional_config_map \<Rightarrow> op_api \<Rightarrow> (op_error + unit) \<times> op_api" where
  "CreateOrUpdateTracesStorageConnection e c k =
     storage_connection_step e c (GetReadEndpoint e c ReadTraces (ReadTracesEndpoint (rc_configData c)))
       ''failed to parse traces endpoint'' ''VTCluster'' (GetVTClusterName (op_environ e))
       (GetTracesStorageConnectionName (cm_name (rc_configMap c)) (cm_namespace (rc_configMap c))) k"

definition CreateOrUpdateAuditLogsStorageConnection :: "operator_env \<Rightarrow> regional_config_map \<Rightarrow> op_api \<Rightarrow> (op_error + unit) \<times> op_api" where
  "CreateOrUpdateAuditLogsStorageConnection e c k =
     storage_connection_step e c (GetReadEndpoint e c ReadAuditLogs (ReadAuditLogsEndpoint (rc_configData c)))
       ''failed to parse audit logs endpoint'' ''VLCluster'' (GetVLClusterName (op_environ e))
       (GetAuditLogsStorageConnectionName (cm_name (rc_configMap c)) (cm_namespace (rc_configMap c))) k"

section \<open>Reconciliation\<close>

definition regional_Reconcile :: "operator_env \<Rightarrow> regional_config_map \<Rightarrow> op_api \<Rightarrow> (op_error + unit) \<times> op_api" where
  "regional_Reconcile e c k =
     and_then (in_context (OpContext ''failed to create vm rules ConfigMap'') (CreateVmRulesConfigMap e c k)) (\<lambda>_ k.
     and_then (in_context (OpContext ''failed to create or update MCS for VM rules propagation'') (CreateOrUpdateMcsForVmRulesPropagation e c k)) (\<lambda>_ k.
     and_then (in_context (OpContext ''failed to update child's ConfigMap'') (UpdateChildConfigMap e c k)) (\<lambda>_ k.
     and_then (in_context (OpContext ''failed to create VMUser'') (regional_CreateVMUser e c k)) (\<lambda>_ k.
     and_then (in_context (OpContext ''failed to create or update Promxy ServerGroup'') (CreateOrUpdatePromxyServerGroup e c k)) (\<lambda>_ k.
     and_then (in_context (OpContext ''failed to create or update TracesStorageConnection'') (CreateOrUpdateTracesStorageConnection e c k)) (\<lambda>_ k.
     and_then (in_context (OpContext ''failed to create or update LogsStorageConnection'') (CreateOrUpdateLogsStorageConnection e c k)) (\<lambda>_ k.
     in_context (OpContext ''failed to create or update AuditLogsStorageConnection'') (CreateOrUpdateAuditLogsStorageConnection e c k))))))))"

definition CleanupVmRulesMcsPropagation :: "string \<Rightarrow> op_api \<Rightarrow> (api_error + unit) \<times> op_api" where
  "CleanupVmRulesMcsPropagation cmName k = cleanup_mcs (GetVmRulesMcsPropagationName cmName) k"

definition ResourceCleanup :: "string \<Rightarrow> string \<Rightarrow> op_api \<Rightarrow> (op_error + unit) \<times> op_api" where
  "ResourceCleanup cmName namespace k =
     (case Delete (GetVMUserAdminName cmName namespace) namespace k of
        (Some err, k) \<Rightarrow> (Inl (OpContext ''failed to delete VMUser resources'' (OpUser err)), k)
      | (None, k) \<Rightarrow> api_ctx ''failed to cleanup VM rules MCS propagation'' (CleanupVmRulesMcsPropagation cmName k))"

definition RegionalClusterConfigMap_Reconcile :: "operator_env \<Rightarrow> string \<times> string \<Rightarrow> op_api \<Rightarrow> (op_error + unit) \<times> op_api" where
  "RegionalClusterConfigMap_Reconcile e req k =
     (case api_get cm_key cms req k of
        (Inl NotFound, k) \<Rightarrow> ResourceCleanup (snd req) (fst req) k
      | (Inl err, k) \<Rightarrow> (Inl (OpContext ''failed to get config map'' (OpApi err)), k)
      | (Inr cm, k) \<Rightarrow>
          and_then (in_context (OpContext ''failed to create cluster config map'') (NewRegionalClusterConfigMap e cm k))
            (\<lambda>c k. in_context (OpContext ''failed to reconcile cluster config map'') (regional_Reconcile e c k)))"

end
