(* ===== verification/VMUser_Run.thy ===== *)
theory VMUser_Run
  imports VMUser
begin

text \<open>
  What the VMUser manager guarantees: passwords are never replaced, after a successful call the
  credentials are usable and copied, a second call changes nothing, the routes of a tenant do not
  depend on the iteration order of its filters, and deleting removes every resource and nothing else.
\<close>

section \<open>CreateOrUpdate\<close>

text \<open>
  The effect on the objects of a kind: nothing on an error; else the object of the template is the
  mutated one, or the one that was there if mutation makes no difference.
\<close>

definition cou_effect ::
  "('o \<Rightarrow> 'k) \<Rightarrow> ('o \<Rightarrow> 'o) \<Rightarrow> ('o \<Rightarrow> 'o \<Rightarrow> bool) \<Rightarrow> 'o \<Rightarrow> ('o \<Rightarrow> string + 'o) \<Rightarrow> 'o list \<Rightarrow>
     cou_error + op_result \<times> 'o \<Rightarrow> 'o list \<Rightarrow> bool" where
  "cou_effect key bump same template mutate os0 res os \<longleftrightarrow>
     (case res of
        Inl _ \<Rightarrow> os = os0
      | Inr (op, obj) \<Rightarrow>
          (\<exists>obj0 kept. mutate (case find_object key (key template) os0 of None \<Rightarrow> template | Some c \<Rightarrow> c) = Inr obj0 \<and>
             (obj = obj0 \<or> obj = bump obj0) \<and>
             (kept = obj \<or> find_object key (key template) os0 = Some kept \<and> same kept obj) \<and>
             (\<forall>x. find_object key x os = (if x = key template then Some kept else find_object key x os0))))"

lemma cou_effect_other:
  "cou_effect key bump same template mutate os0 r os \<Longrightarrow> x \<noteq> key template \<Longrightarrow> find_object key x os = find_object key x os0"
  by (auto simp: cou_effect_def split: sum.splits)

lemma cou_effect_kept:
  assumes "cou_effect key bump same template mutate os0 (Inr (op, obj)) os"
  obtains kept obj0 where "find_object key (key template) os = Some kept" "kept = obj \<or> same kept obj"
    "mutate (case find_object key (key template) os0 of None \<Rightarrow> template | Some c \<Rightarrow> c) = Inr obj0"
    "obj = obj0 \<or> obj = bump obj0"
  using assms by (auto simp: cou_effect_def)

locale object_store_kind = object_kind key ver bump
  for key :: "'o \<Rightarrow> 'k" and ver :: "'o \<Rightarrow> nat" and bump :: "'o \<Rightarrow> 'o" +
  fixes objs :: "'s api_state_scheme \<Rightarrow> 'o list" and set_objs :: "'o list \<Rightarrow> 's api_state_scheme \<Rightarrow> 's api_state_scheme"
  assumes objs_set: "objs (set_objs os k) = os"
    and objs_faults: "objs (k\<lparr>api_faults := fs\<rparr>) = objs k"
    and set_same: "set_objs (objs k) k = k"
begin

lemma calls:
  assumes "api_call k = (f, k1)"
  obtains fs where "k1 = k\<lparr>api_faults := fs\<rparr>" "objs k1 = objs k"
  using api_call_frame [OF assms] objs_faults by metis

lemma cou_spec:
  assumes run: "CreateOrUpdate key ver bump same objs set_objs template mutate k = (r, k')"
    and keeps: "\<And>a b. mutate a = Inr b \<Longrightarrow> key b = key a"
  shows "\<exists>fs os. k' = set_objs os (k\<lparr>api_faults := fs\<rparr>) \<and> cou_effect key bump same template mutate (objs k) r os"
proof -
  have idle: "\<exists>fs os. k1 = set_objs os (k\<lparr>api_faults := fs\<rparr>) \<and> os = objs k" if "k1 = k\<lparr>api_faults := fs\<rparr>" for k1 fs
    using that set_same [of k1] objs_faults by metis
  obtain f k1 where c1: "api_call k = (f, k1)" by fastforce
  obtain fs1 where k1: "k1 = k\<lparr>api_faults := fs1\<rparr>" "objs k1 = objs k" by (rule calls [OF c1])
  obtain g k2 where c2: "api_call k1 = (g, k2)" by fastforce
  obtain fs2 where k2: "k2 = k\<lparr>api_faults := fs2\<rparr>" "objs k2 = objs k" using calls [OF c2] k1 by auto
  let ?base = "case find_object key (key template) (objs k) of None \<Rightarrow> template | Some c \<Rightarrow> c"
  have base: "key ?base = key template" by (auto split: option.split dest: find_object_SomeD)
  show ?thesis
  proof (cases r)
    case (Inl e)
    then have "k' = k1 \<or> k' = k2"
      using run c1 c2 k1 k2 by (auto simp: CreateOrUpdate_def split: option.splits sum.splits if_splits)
    then show ?thesis using idle k1(1) k2(1) Inl by (auto simp: cou_effect_def)
  next
    case (Inr p)
    obtain op obj where p: "p = (op, obj)" by fastforce
    have f: "f = None" using run c1 Inr by (cases f) (auto simp: CreateOrUpdate_def)
    obtain obj0 where m: "mutate ?base = Inr obj0"
      using run c1 Inr f by (cases "mutate ?base") (auto simp: CreateOrUpdate_def split: option.splits)
    have key0: "key obj0 = key template" using keeps [OF m] base by simp
    show ?thesis
    proof (cases "find_object key (key template) (objs k)")
      case None
      then obtain os where "create_object key obj0 (objs k) = Inr os" "k' = set_objs os k2" "obj = obj0"
        using run c1 c2 f m Inr p k1 by (auto simp: CreateOrUpdate_def split: option.splits sum.splits)
      then have "cou_effect key bump same template mutate (objs k) r os" "k' = set_objs os (k\<lparr>api_faults := fs2\<rparr>)"
        using m key0 k2(1) create_object_find [of key obj0 "objs k" os] Inr p by (auto simp: cou_effect_def)
      then show ?thesis by blast
    next
      case (Some cur)
      show ?thesis
      proof (cases "same cur obj0")
        case True
        then have "k' = k1" "obj = obj0" using run c1 f m Inr p Some by (auto simp: CreateOrUpdate_def)
        then show ?thesis using idle k1(1) m Inr p Some True by (fastforce simp: cou_effect_def)
      next
        case False
        then obtain os where u: "update_object key ver bump obj0 (objs k) = Inr os" and k': "k' = set_objs os k2" and obj: "obj = bump obj0"
          using run c1 c2 f m Inr p k1 Some by (auto simp: CreateOrUpdate_def split: option.splits sum.splits)
        have "cou_effect key bump same template mutate (objs k) r os"
          using m key0 update_find [OF u] obj Inr p by (auto simp: cou_effect_def)
        then show ?thesis using k' k2(1) by blast
      qed
    qed
  qed
qed

lemma cou_idle:
  "api_faults k = [] \<Longrightarrow> find_object key (key template) (objs k) = Some cur \<Longrightarrow> mutate cur = Inr obj \<Longrightarrow> same cur obj \<Longrightarrow>
     CreateOrUpdate key ver bump same objs set_objs template mutate k = (Inr (OpNone, obj), k)"
  by (simp add: CreateOrUpdate_def)

text \<open>Without a failing call an object is written: what was read is current.\<close>

lemma cou_succeeds:
  assumes "api_faults k = []" "\<And>a. \<exists>b. mutate a = Inr b \<and> key b = key a \<and> ver b = ver a"
  shows "\<exists>res os. CreateOrUpdate key ver bump same objs set_objs template mutate k = (Inr res, set_objs os k)"
proof (cases "find_object key (key template) (objs k)")
  case None
  obtain b where b: "mutate template = Inr b" "key b = key template" using assms(2) by blast
  then show ?thesis using None assms(1) by (auto simp: CreateOrUpdate_def create_object_def)
next
  case (Some cur)
  obtain b where b: "mutate cur = Inr b" "key b = key cur" "ver b = ver cur" using assms(2) by blast
  have "key cur = key template" using find_object_SomeD [OF Some] by simp
  then have "\<exists>os. update_object key ver bump b (objs k) = Inr os" using b Some by (simp add: update_object_def)
  moreover have "k = set_objs (objs k) k" by (simp add: set_same)
  ultimately show ?thesis using Some b assms(1) by (auto simp: CreateOrUpdate_def)
qed

lemma delete_spec:
  assumes "deleteResource key objs set_objs x k = (r, k')"
  shows "\<exists>fs os. k' = set_objs os (k\<lparr>api_faults := fs\<rparr>) \<and>
    (if r = None then \<forall>y. find_object key y os = (if y = x then None else find_object key y (objs k)) else os = objs k)"
proof -
  obtain f k1 where c: "api_call k = (f, k1)" by fastforce
  obtain fs where k1: "k1 = k\<lparr>api_faults := fs\<rparr>" "objs k1 = objs k" by (rule calls [OF c])
  have idle: "k1 = set_objs (objs k) (k\<lparr>api_faults := fs\<rparr>)" using set_same [of k1] k1 by simp
  show ?thesis
  proof (cases "f = None \<and> \<not> isl (delete_object key x (objs k))")
    case True
    then obtain os where d: "delete_object key x (objs k) = Inr os" by (cases "delete_object key x (objs k)") auto
    then have "r = None" "k' = set_objs os k1" using assms c True by (auto simp: deleteResource_def)
    then show ?thesis using delete_object_find [OF d] k1(1) by (intro exI [of _ fs] exI [of _ os]) simp
  next
    case False
    then have k': "k' = k1" using assms c by (auto simp: deleteResource_def split: option.splits sum.splits api_error.splits)
    have "find_object key x (objs k) = None" if "r = None"
      using that False assms c by (cases "find_object key x (objs k)") (auto simp: deleteResource_def delete_object_def split: option.splits)
    then show ?thesis using idle k' by auto
  qed
qed

end

interpretation sec_kind: object_store_kind sec_key sec_version sec_bump secrets set_secrets
  by unfold_locales (simp_all add: sec_key_def sec_bump_def set_secrets_def)

interpretation vu_kind: object_store_kind vu_key vu_version vu_bump vmusers set_vmusers
  by unfold_locales (simp_all add: vu_key_def vu_bump_def set_vmusers_def)

interpretation mcs_kind: object_store_kind mcs_name mcs_version mcs_bump mcss set_mcss
  by unfold_locales (simp_all add: mcs_bump_def set_mcss_def)

section \<open>Secrets\<close>

lemma password_from_ok:
  "password_from rand is = Inr p \<Longrightarrow> length p = length is \<and> set p \<subseteq> set charset"
proof (induction rand "is" arbitrary: p rule: password_from.induct)
  case (2 rand i "is")
  obtain b q where q: "rand i = Inr b" "password_from rand is = Inr q" "p = charset ! (unat b mod length charset) # q"
    using "2.prems" by (auto split: sum.splits)
  have "length charset \<noteq> 0" by (simp add: charset_def)
  then have "charset ! (unat b mod length charset) \<in> set charset" by (intro nth_mem) simp
  then show ?case using "2.IH" [OF q(1,2)] q(3) by simp
qed simp

lemma GeneratePassword_ok:
  "GeneratePassword rand n = Inr p \<Longrightarrow> int (length p) = n \<and> 0 < n \<and> set p \<subseteq> set charset"
  using password_from_ok [of rand "[0..<nat n]" p] by (auto simp: GeneratePassword_def split: if_splits)

lemma wf_getLabels [simp]: "wf_map (getLabels l)"
  by (simp add: getLabels_def)

lemma mutate_secret_ok:
  assumes "mutate_secret rand opts s = Inr t"
  shows "sec_key t = sec_key s" "sec_labels t = getLabels (OptLabels opts)" "sec_owners t = getOwnerReferences (OptOwner opts)"
    "get_str (sec_data t) PasswordKey \<noteq> []" "get_str (sec_data s) PasswordKey \<noteq> [] \<Longrightarrow> sec_data t = sec_data s"
    "wf_map (sec_data s) \<Longrightarrow> wf_map (sec_data t)"
proof -
  have "p \<noteq> []" if "GeneratePassword rand 16 = Inr p" for p using GeneratePassword_ok [OF that] by auto
  then show "sec_key t = sec_key s" "sec_labels t = getLabels (OptLabels opts)" "sec_owners t = getOwnerReferences (OptOwner opts)"
    "get_str (sec_data t) PasswordKey \<noteq> []" "get_str (sec_data s) PasswordKey \<noteq> [] \<Longrightarrow> sec_data t = sec_data s"
    "wf_map (sec_data s) \<Longrightarrow> wf_map (sec_data t)"
    using assms
    by (auto simp: mutate_secret_def Let_def sec_key_def get_str_def PasswordKey_def UsernameKey_def
        split: if_splits sum.splits)
qed

lemma sec_bump_simps [simp]:
  "sec_data (sec_bump s) = sec_data s" "sec_labels (sec_bump s) = sec_labels s" "sec_owners (sec_bump s) = sec_owners s"
  "sec_key (sec_bump s) = sec_key s" "sec_name (sec_bump s) = sec_name s"
  by (simp_all add: sec_bump_def sec_key_def)

lemma new_secret_simps [simp]:
  "sec_key (new_secret ns name) = (ns, name)" "sec_data (new_secret ns name) = []" "sec_labels (new_secret ns name) = []"
  by (simp_all add: new_secret_def sec_key_def)

text \<open>The two writes of \<open>createSecret\<close>, as effects on the Secrets.\<close>

definition creds_key :: "create_options \<Rightarrow> string \<times> string" where
  "creds_key opts = (OptNamespace opts, BuildSecretName (OptName opts))"

definition copy_key :: "create_options \<Rightarrow> string \<times> string" where
  "copy_key opts = (KofNamespace, BuildSecretName (OptName opts))"

definition copy_of :: "secret \<Rightarrow> secret \<Rightarrow> string + secret" where
  "copy_of s t = Inr (t\<lparr>sec_labels := sec_labels s, sec_data := sec_data s\<rparr>)"

lemma createSecret_effects:
  assumes "createSecret rand opts k = (r, k')"
  obtains (failed) fs where "r \<noteq> None" "k' = k\<lparr>api_faults := fs\<rparr>"
  | (wrote) op s os r2 os2 fs where
      "cou_effect sec_key sec_bump same_secret (new_secret (OptNamespace opts) (BuildSecretName (OptName opts)))
         (mutate_secret rand opts) (secrets k) (Inr (op, s)) os"
      "cou_effect sec_key sec_bump same_secret (new_secret KofNamespace (BuildSecretName (OptName opts))) (copy_of s) os r2 os2"
      "k' = k\<lparr>api_faults := fs, secrets := os2\<rparr>" "r = None \<longleftrightarrow> \<not> isl r2"
proof -
  let ?t1 = "new_secret (OptNamespace opts) (BuildSecretName (OptName opts))"
  obtain r1 k1 where c1: "CreateOrUpdate sec_key sec_version sec_bump same_secret secrets set_secrets ?t1 (mutate_secret rand opts) k = (r1, k1)"
    by fastforce
  obtain fs1 os1 where e1: "k1 = set_secrets os1 (k\<lparr>api_faults := fs1\<rparr>)"
      "cou_effect sec_key sec_bump same_secret ?t1 (mutate_secret rand opts) (secrets k) r1 os1"
    using sec_kind.cou_spec [OF c1] mutate_secret_ok(1) by blast
  show ?thesis
  proof (cases r1)
    case (Inl e)
    then have "os1 = secrets k" using e1(2) by (simp add: cou_effect_def)
    then have "k' = k\<lparr>api_faults := fs1\<rparr>" "r \<noteq> None" using assms c1 Inl e1(1) by (auto simp: createSecret_def set_secrets_def)
    then show ?thesis using failed by blast
  next
    case (Inr p)
    obtain op s where p: "p = (op, s)" by fastforce
    obtain obj0 where "mutate_secret rand opts (case find_object sec_key (sec_key ?t1) (secrets k) of None \<Rightarrow> ?t1 | Some c \<Rightarrow> c) = Inr obj0"
        "s = obj0 \<or> s = sec_bump obj0"
      using e1(2) Inr p by (auto simp: cou_effect_def)
    then have "sec_key s = sec_key ?t1"
      using mutate_secret_ok(1) by (fastforce split: option.splits dest: find_object_SomeD)
    then have name: "sec_name s = BuildSecretName (OptName opts)" by (simp add: sec_key_def new_secret_def)
    let ?t2 = "new_secret KofNamespace (BuildSecretName (OptName opts))"
    obtain r2 k2 where c2: "CreateOrUpdate sec_key sec_version sec_bump same_secret secrets set_secrets ?t2 (copy_of s) k1 = (r2, k2)"
      by fastforce
    have "secrets k1 = os1" using e1(1) by (simp add: set_secrets_def)
    moreover have "sec_key b = sec_key a" if "copy_of s a = Inr b" for a b using that by (auto simp: copy_of_def sec_key_def)
    ultimately obtain fs2 os2 where e2: "k2 = set_secrets os2 (k1\<lparr>api_faults := fs2\<rparr>)"
        "cou_effect sec_key sec_bump same_secret ?t2 (copy_of s) os1 r2 os2"
      using sec_kind.cou_spec [OF c2] by metis
    have "createSecret rand opts k = (case r2 of Inl e \<Rightarrow> Some (CreateKofSecret e) | Inr _ \<Rightarrow> None, k2)"
      using c1 c2 Inr p name unfolding createSecret_def copy_of_def by (simp split: sum.split)
    then have "k' = k\<lparr>api_faults := fs2, secrets := os2\<rparr>" "r = None \<longleftrightarrow> \<not> isl r2"
      using assms e1(1) e2(1) by (auto simp: set_secrets_def split: sum.splits)
    then show ?thesis using wrote e1(2) e2(2) Inr p by blast
  qed
qed

text \<open>A written Secret has the password that was there before, if there was one.\<close>

lemma creds_effect_password:
  assumes "cou_effect sec_key sec_bump same_secret (new_secret ns name) (mutate_secret rand opts) os0 (Inr (op, s)) os"
    and "find_object sec_key (ns, name) os0 = Some old" "get_str (sec_data old) PasswordKey \<noteq> []"
  shows "sec_data s = sec_data old" "\<exists>kept. find_object sec_key (ns, name) os = Some kept \<and> sec_data kept = sec_data old"
  using assms mutate_secret_ok(5) [OF _ assms(3)] by (auto simp: cou_effect_def)

lemma copy_effect_other:
  assumes "cou_effect sec_key sec_bump same_secret (new_secret ns name) (copy_of s) os0 r os" "x \<noteq> (ns, name)"
  shows "find_object sec_key x os = find_object sec_key x os0"
  using cou_effect_other [OF assms(1)] assms(2) by simp

lemma copy_effect_data:
  assumes "cou_effect sec_key sec_bump same_secret (new_secret ns name) (copy_of s) os0 r os"
    and "find_object sec_key (ns, name) os0 = Some old" "sec_data old = sec_data s"
  shows "\<exists>kept. find_object sec_key (ns, name) os = Some kept \<and> sec_data kept = sec_data s"
  using assms by (auto simp: cou_effect_def copy_of_def split: sum.splits)

lemma createSecret_password:
  assumes "createSecret rand opts k = (r, k')" "find_object sec_key (creds_key opts) (secrets k) = Some old"
    and "get_str (sec_data old) PasswordKey \<noteq> []"
  shows "\<exists>s. find_object sec_key (creds_key opts) (secrets k') = Some s \<and> sec_data s = sec_data old"
  using assms(1)
proof (cases rule: createSecret_effects)
  case failed
  then show ?thesis using assms(2) by auto
next
  case (wrote op s os r2 os2 fs)
  note c = creds_effect_password [OF wrote(1) assms(2) [unfolded creds_key_def] assms(3)]
  obtain kept where kept: "find_object sec_key (creds_key opts) os = Some kept" "sec_data kept = sec_data old"
    using c(2) by (auto simp: creds_key_def)
  show ?thesis
  proof (cases "creds_key opts = copy_key opts")
    case True
    then show ?thesis using copy_effect_data [OF wrote(2)] kept c(1) wrote(3) by (simp add: copy_key_def)
  next
    case False
    then show ?thesis using copy_effect_other [OF wrote(2), of "creds_key opts"] kept wrote(3) by (simp add: copy_key_def)
  qed
qed

lemma createOrUpdateVMUser_frame:
  assumes "createOrUpdateVMUser e opts k = (r, k')"
  shows "\<exists>fs us. k' = k\<lparr>api_faults := fs, vmusers := us\<rparr>"
proof -
  let ?c = "CreateOrUpdate vu_key vu_version vu_bump same_vmuser vmusers set_vmusers
             \<lparr>vu_namespace = OptNamespace opts, vu_name = BuildVMUserName (OptName opts), vu_labels = [], vu_owners = [],
              vu_spec = None, vu_version = 0\<rparr>
             (\<lambda>u. Inr (u\<lparr>vu_owners := getOwnerReferences (OptOwner opts), vu_labels := getLabels (OptLabels opts),
                vu_spec := Some (vmuser_spec_of e opts)\<rparr>)) k"
  have "k' = snd ?c" using assms by (auto simp: createOrUpdateVMUser_def split: prod.splits sum.splits)
  then show ?thesis using vu_kind.cou_spec [OF surjective_pairing [of ?c]] by (auto simp: vu_key_def set_vmusers_def)
qed

lemma createOrUpdatePropagationMCS_frame:
  assumes "createOrUpdatePropagationMCS e opts cfg k = (r, k')"
  shows "\<exists>fs ms. k' = k\<lparr>api_faults := fs, mcss := ms\<rparr>"
proof -
  let ?c = "CreateOrUpdate mcs_name mcs_version mcs_bump same_mcs mcss set_mcss
             \<lparr>mcs_name = BuildMCSName (OptName opts), mcs_labels = [], mcs_spec_of = None, mcs_version = 0\<rparr>
             (\<lambda>m. Inr (m\<lparr>mcs_labels := getLabels (OptLabels opts), mcs_spec_of := Some (mcs_spec_for e opts cfg)\<rparr>)) k"
  have "k' = snd ?c" using assms by (auto simp: createOrUpdatePropagationMCS_def split: prod.splits sum.splits)
  then show ?thesis using mcs_kind.cou_spec [OF surjective_pairing [of ?c]] by (auto simp: set_mcss_def)
qed

text \<open>After the Secrets, the other steps of \<open>Create\<close> leave them alone.\<close>

lemma Create_secrets:
  assumes "Create rand e opts k = (r, k')" "OptName opts \<noteq> []"
  obtains r1 k1 where "createSecret rand opts k = (r1, k1)" "secrets k' = secrets k1" "r = None \<Longrightarrow> r1 = None"
proof -
  obtain r1 k1 where c: "createSecret rand opts k = (r1, k1)" by fastforce
  obtain r2 k2 where u: "createOrUpdateVMUser e opts k1 = (r2, k2)" by fastforce
  have "secrets k2 = secrets k1" using createOrUpdateVMUser_frame [OF u] by auto
  moreover have "secrets k3 = secrets k2" if "createOrUpdatePropagationMCS e opts cfg k2 = (r3, k3)" for cfg r3 k3
    using createOrUpdatePropagationMCS_frame [OF that] by auto
  ultimately have "secrets k' = secrets k1"
    using assms c u by (auto simp: Create_def split: option.splits if_splits)
  moreover have "r = None \<Longrightarrow> r1 = None" using assms c by (auto simp: Create_def split: option.splits)
  ultimately show ?thesis using that c by blast
qed

text \<open>
  C21: A password is never replaced. Whatever fails on the way, a Secret with a password keeps its
  data when \<open>Create\<close> is called again for the cluster.
\<close>

theorem password_never_replaced:
  assumes "find_object sec_key (creds_key opts) (secrets k) = Some old" "get_str (sec_data old) PasswordKey \<noteq> []"
  shows "\<exists>s. find_object sec_key (creds_key opts) (secrets (snd (Create rand e opts k))) = Some s \<and> sec_data s = sec_data old"
proof (cases "OptName opts = []")
  case True
  then show ?thesis using assms(1) by (simp add: Create_def)
next
  case False
  obtain r1 k1 where "createSecret rand opts k = (r1, k1)" "secrets (snd (Create rand e opts k)) = secrets k1"
    using Create_secrets [OF surjective_pairing False] by metis
  then show ?thesis using createSecret_password [OF _ assms] by auto
qed

section \<open>Usable credentials\<close>

definition wf_secrets :: "secret list \<Rightarrow> bool" where
  "wf_secrets os \<longleftrightarrow> (\<forall>x s. find_object sec_key x os = Some s \<longrightarrow> wf_map (sec_data s) \<and> wf_map (sec_labels s))"

lemma secret_written:
  assumes "cou_effect sec_key sec_bump same_secret (new_secret ns name) mutate os0 (Inr (op, s)) os" "wf_secrets os0"
    and wf: "\<And>a b. mutate a = Inr b \<Longrightarrow> wf_map (sec_data a) \<Longrightarrow> wf_map (sec_data b) \<and> wf_map (sec_labels b)"
  obtains kept obj0 where "find_object sec_key (ns, name) os = Some kept" "same_map (sec_data kept) (sec_data s)"
    "same_map (sec_labels kept) (sec_labels s)" "sec_owners kept = sec_owners s"
    "mutate (case find_object sec_key (ns, name) os0 of None \<Rightarrow> new_secret ns name | Some c \<Rightarrow> c) = Inr obj0"
    "sec_data s = sec_data obj0" "sec_labels s = sec_labels obj0" "sec_owners s = sec_owners obj0" "wf_secrets os"
proof -
  let ?base = "case find_object sec_key (ns, name) os0 of None \<Rightarrow> new_secret ns name | Some c \<Rightarrow> c"
  obtain obj0 kept where e: "mutate ?base = Inr obj0" "s = obj0 \<or> s = sec_bump obj0"
      "kept = s \<or> find_object sec_key (ns, name) os0 = Some kept \<and> same_secret kept s"
      "\<And>x. find_object sec_key x os = (if x = (ns, name) then Some kept else find_object sec_key x os0)"
    using assms(1) unfolding cou_effect_def by (simp del: split_paired_All) metis
  have base: "wf_map (sec_data ?base)" using assms(2) by (auto simp: wf_secrets_def split: option.split)
  have s: "wf_map (sec_data s)" "wf_map (sec_labels s)" using wf [OF e(1) base] e(2) by auto
  have kept: "same_map (sec_data kept) (sec_data s) \<and> same_map (sec_labels kept) (sec_labels s) \<and> sec_owners kept = sec_owners s"
  proof (cases "kept = s")
    case False
    then have k: "find_object sec_key (ns, name) os0 = Some kept" "same_secret kept s" using e(3) by auto
    then have "wf_map (sec_data kept)" "wf_map (sec_labels kept)" using assms(2) by (auto simp: wf_secrets_def)
    then show ?thesis using k(2) s by (simp add: same_secret_def maps_Equal_same_map)
  qed (use s in \<open>simp add: same_map_refl\<close>)
  have "wf_secrets os" using e(4) kept assms(2) by (simp add: wf_secrets_def same_map_def)
  then show ?thesis using that [OF _ _ _ _ e(1)] e(2,4) kept by auto
qed

definition creds_ready :: "create_options \<Rightarrow> secret list \<Rightarrow> bool" where
  "creds_ready opts os \<longleftrightarrow>
     (\<exists>s t. find_object sec_key (creds_key opts) os = Some s \<and> find_object sec_key (copy_key opts) os = Some t \<and>
        get_str (sec_data s) PasswordKey \<noteq> [] \<and> sec_owners s = getOwnerReferences (OptOwner opts) \<and>
        same_map (sec_labels s) (getLabels (OptLabels opts)) \<and>
        same_map (sec_labels t) (getLabels (OptLabels opts)) \<and> same_map (sec_data t) (sec_data s))"

lemma createSecret_ready:
  assumes "createSecret rand opts k = (None, k')" "wf_secrets (secrets k)"
  shows "creds_ready opts (secrets k')"
  using assms(1)
proof (cases rule: createSecret_effects)
  case (wrote op s os r2 os2 fs)
  obtain op2 s2 where r2: "r2 = Inr (op2, s2)" using wrote(4) by (cases r2) auto
  have wf1: "wf_map (sec_data b) \<and> wf_map (sec_labels b)" if "mutate_secret rand opts a = Inr b" "wf_map (sec_data a)" for a b
    using mutate_secret_ok [OF that(1)] that(2) by simp
  obtain kept obj0 where k1: "find_object sec_key (creds_key opts) os = Some kept" "same_map (sec_data kept) (sec_data s)"
    "same_map (sec_labels kept) (sec_labels s)" "sec_owners kept = sec_owners s" "wf_secrets os"
    and m: "sec_data s = sec_data obj0" "sec_labels s = sec_labels obj0" "sec_owners s = sec_owners obj0"
      "\<exists>base. mutate_secret rand opts base = Inr obj0"
    by (rule secret_written [OF wrote(1) assms(2) wf1]) (auto simp: creds_key_def)
  have s: "sec_labels s = getLabels (OptLabels opts)" "sec_owners s = getOwnerReferences (OptOwner opts)"
      "get_str (sec_data s) PasswordKey \<noteq> []"
    using m mutate_secret_ok by auto
  have wf2: "wf_map (sec_data b) \<and> wf_map (sec_labels b)" if "copy_of s a = Inr b" "wf_map (sec_data a)" for a b
    using that k1(2,3) by (auto simp: copy_of_def same_map_def)
  obtain kept2 obj2 where k2: "find_object sec_key (copy_key opts) os2 = Some kept2" "same_map (sec_data kept2) (sec_data s2)"
    "same_map (sec_labels kept2) (sec_labels s2)" "sec_owners kept2 = sec_owners s2"
    and m2: "copy_of s (case find_object sec_key (copy_key opts) os of None \<Rightarrow> new_secret KofNamespace (BuildSecretName (OptName opts)) | Some c \<Rightarrow> c) = Inr obj2"
      "sec_data s2 = sec_data obj2" "sec_labels s2 = sec_labels obj2" "sec_owners s2 = sec_owners obj2"
    by (rule secret_written [OF wrote(2) [unfolded r2] k1(5) wf2]) (auto simp: copy_key_def)
  have s2: "sec_data s2 = sec_data s" "sec_labels s2 = getLabels (OptLabels opts)" using m2 s(1) by (auto simp: copy_of_def)
  have k': "secrets k' = os2" using wrote(3) by simp
  show ?thesis
  proof (cases "creds_key opts = copy_key opts")
    case True
    then have "sec_owners kept2 = sec_owners kept" using k1(1) k2(4) m2 by (auto simp: copy_of_def)
    moreover have "get_str (sec_data kept2) PasswordKey \<noteq> []" using same_map_get_str [OF k2(2)] s2(1) s(3) by simp
    ultimately show ?thesis using True k1(4) k2(1-3) s s2 k' same_map_refl by (auto simp: creds_ready_def same_map_def)
  next
    case False
    then have "find_object sec_key (creds_key opts) os2 = Some kept"
      using copy_effect_other [OF wrote(2), of "creds_key opts"] k1(1) by (simp add: copy_key_def)
    moreover have "get_str (sec_data kept) PasswordKey \<noteq> []" using same_map_get_str [OF k1(2)] s(3) by simp
    moreover have "same_map (sec_data kept2) (sec_data kept)" using k1(2) k2(2) s2(1) same_map_trans same_map_sym by metis
    ultimately show ?thesis using k1(3,4) k2(1,3) s s2 k' by (auto simp: creds_ready_def)
  qed
qed simp

lemma createSecret_idle:
  assumes "creds_ready opts (secrets k)" "api_faults k = []"
  shows "createSecret rand opts k = (None, k)"
proof -
  obtain s t where s: "find_object sec_key (creds_key opts) (secrets k) = Some s" "get_str (sec_data s) PasswordKey \<noteq> []"
      "sec_owners s = getOwnerReferences (OptOwner opts)" "same_map (sec_labels s) (getLabels (OptLabels opts))"
    and t: "find_object sec_key (copy_key opts) (secrets k) = Some t" "same_map (sec_labels t) (getLabels (OptLabels opts))"
      "same_map (sec_data t) (sec_data s)"
    using assms(1) by (auto simp: creds_ready_def)
  let ?s = "s\<lparr>sec_labels := getLabels (OptLabels opts), sec_owners := getOwnerReferences (OptOwner opts)\<rparr>"
  have "mutate_secret rand opts s = Inr ?s" using s(2) by (simp add: mutate_secret_def)
  moreover have "maps_Equal (sec_data s) (sec_data s)" using t(3) by (auto simp: same_map_def intro: same_maps_Equal)
  then have "same_secret s ?s" using s(3,4) by (simp add: same_secret_def same_maps_Equal)
  ultimately have c1: "CreateOrUpdate sec_key sec_version sec_bump same_secret secrets set_secrets
      (new_secret (OptNamespace opts) (BuildSecretName (OptName opts))) (mutate_secret rand opts) k = (Inr (OpNone, ?s), k)"
    using s(1) by (intro sec_kind.cou_idle [OF assms(2), of _ s]) (simp_all add: creds_key_def)
  have name: "sec_name s = BuildSecretName (OptName opts)" using find_object_SomeD [OF s(1)] by (simp add: creds_key_def sec_key_def)
  have "same_secret t (t\<lparr>sec_labels := sec_labels ?s, sec_data := sec_data ?s\<rparr>)"
    using t(2,3) by (simp add: same_secret_def same_maps_Equal)
  then have "CreateOrUpdate sec_key sec_version sec_bump same_secret secrets set_secrets
      (new_secret KofNamespace (sec_name ?s)) (\<lambda>u. Inr (u\<lparr>sec_labels := sec_labels ?s, sec_data := sec_data ?s\<rparr>)) k =
      (Inr (OpNone, t\<lparr>sec_labels := sec_labels ?s, sec_data := sec_data ?s\<rparr>), k)"
    using t(1) name by (intro sec_kind.cou_idle [OF assms(2), of _ t]) (simp_all add: copy_key_def)
  with c1 show ?thesis by (simp add: createSecret_def)
qed

section \<open>VMUser and propagation\<close>

definition user_ready :: "environ \<Rightarrow> create_options \<Rightarrow> vmuser list \<Rightarrow> bool" where
  "user_ready e opts us \<longleftrightarrow>
     (\<exists>u. find_object vu_key (OptNamespace opts, BuildVMUserName (OptName opts)) us = Some u \<and>
        maps_Equal (vu_labels u) (getLabels (OptLabels opts)) \<and> vu_owners u = getOwnerReferences (OptOwner opts) \<and>
        vu_spec u = Some (vmuser_spec_of e opts))"

definition mcs_ready :: "environ \<Rightarrow> create_options \<Rightarrow> multi_cluster_service list \<Rightarrow> bool" where
  "mcs_ready e opts ms \<longleftrightarrow>
     (case OptMCS opts of
        None \<Rightarrow> True
      | Some cfg \<Rightarrow>
          RegionlessEnabled e \<or>
          (\<exists>m. find_object mcs_name (BuildMCSName (OptName opts)) ms = Some m \<and>
             maps_Equal (mcs_labels m) (getLabels (OptLabels opts)) \<and> mcs_spec_of m = Some (mcs_spec_for e opts cfg)))"

lemma createOrUpdateVMUser_ready:
  assumes "createOrUpdateVMUser e opts k = (None, k')"
  shows "user_ready e opts (vmusers k')"
proof -
  let ?t = "\<lparr>vu_namespace = OptNamespace opts, vu_name = BuildVMUserName (OptName opts), vu_labels = [], vu_owners = [],
              vu_spec = None, vu_version = 0\<rparr>"
  let ?m = "\<lambda>u. Inr (u\<lparr>vu_owners := getOwnerReferences (OptOwner opts), vu_labels := getLabels (OptLabels opts),
                vu_spec := Some (vmuser_spec_of e opts)\<rparr>)"
  obtain op u where c: "CreateOrUpdate vu_key vu_version vu_bump same_vmuser vmusers set_vmusers ?t ?m k = (Inr (op, u), k')"
    using assms by (auto simp: createOrUpdateVMUser_def split: prod.splits sum.splits)
  obtain fs us where e: "k' = set_vmusers us (k\<lparr>api_faults := fs\<rparr>)" "cou_effect vu_key vu_bump same_vmuser ?t ?m (vmusers k) (Inr (op, u)) us"
    using vu_kind.cou_spec [OF c] by (auto simp: vu_key_def)
  obtain kept where "find_object vu_key (vu_key ?t) us = Some kept" "kept = u \<or> same_vmuser kept u"
      "vu_labels u = getLabels (OptLabels opts)" "vu_owners u = getOwnerReferences (OptOwner opts)" "vu_spec u = Some (vmuser_spec_of e opts)"
    by (rule cou_effect_kept [OF e(2)]) (auto simp: vu_bump_def)
  then show ?thesis using e(1) by (auto simp: user_ready_def set_vmusers_def vu_key_def same_vmuser_def maps_Equal_refl)
qed

lemma createOrUpdateVMUser_idle:
  "user_ready e opts (vmusers k) \<Longrightarrow> api_faults k = [] \<Longrightarrow> createOrUpdateVMUser e opts k = (None, k)"
  unfolding createOrUpdateVMUser_def user_ready_def
  by (elim exE conjE, subst vu_kind.cou_idle) (auto simp: vu_key_def same_vmuser_def)

lemma createOrUpdatePropagationMCS_ready:
  assumes "createOrUpdatePropagationMCS e opts cfg k = (None, k')" "OptMCS opts = Some cfg"
  shows "mcs_ready e opts (mcss k')"
proof -
  let ?t = "\<lparr>mcs_name = BuildMCSName (OptName opts), mcs_labels = [], mcs_spec_of = None, mcs_version = 0\<rparr>"
  let ?m = "\<lambda>m. Inr (m\<lparr>mcs_labels := getLabels (OptLabels opts), mcs_spec_of := Some (mcs_spec_for e opts cfg)\<rparr>)"
  obtain op u where c: "CreateOrUpdate mcs_name mcs_version mcs_bump same_mcs mcss set_mcss ?t ?m k = (Inr (op, u), k')"
    using assms by (auto simp: createOrUpdatePropagationMCS_def split: prod.splits sum.splits)
  obtain fs us where e: "k' = set_mcss us (k\<lparr>api_faults := fs\<rparr>)" "cou_effect mcs_name mcs_bump same_mcs ?t ?m (mcss k) (Inr (op, u)) us"
    using mcs_kind.cou_spec [OF c] by auto
  obtain kept where "find_object mcs_name (mcs_name ?t) us = Some kept" "kept = u \<or> same_mcs kept u"
      "mcs_labels u = getLabels (OptLabels opts)" "mcs_spec_of u = Some (mcs_spec_for e opts cfg)"
    by (rule cou_effect_kept [OF e(2)]) (auto simp: mcs_bump_def)
  then show ?thesis using e(1) assms(2) by (auto simp: mcs_ready_def set_mcss_def same_mcs_def maps_Equal_refl)
qed

lemma createOrUpdatePropagationMCS_idle:
  "mcs_ready e opts (mcss k) \<Longrightarrow> api_faults k = [] \<Longrightarrow> OptMCS opts = Some cfg \<Longrightarrow> \<not> RegionlessEnabled e \<Longrightarrow>
     createOrUpdatePropagationMCS e opts cfg k = (None, k)"
  unfolding createOrUpdatePropagationMCS_def mcs_ready_def
  by (simp, elim exE conjE, subst mcs_kind.cou_idle) (auto simp: same_mcs_def)

lemma Create_ready:
  assumes "Create rand e opts k = (None, k')" "wf_secrets (secrets k)"
  shows "creds_ready opts (secrets k')" "user_ready e opts (vmusers k')" "mcs_ready e opts (mcss k')" "OptName opts \<noteq> []"
proof -
  show name: "OptName opts \<noteq> []" using assms(1) by (auto simp: Create_def)
  obtain k1 k2 where c: "createSecret rand opts k = (None, k1)" "createOrUpdateVMUser e opts k1 = (None, k2)"
      "(case OptMCS opts of None \<Rightarrow> (None, k2) | Some cfg \<Rightarrow>
         if RegionlessEnabled e then (None, k2) else createOrUpdatePropagationMCS e opts cfg k2) = (None, k')"
    using assms(1) name by (auto simp: Create_def split: prod.splits option.splits)
  have f2: "secrets k2 = secrets k1" using createOrUpdateVMUser_frame [OF c(2)] by auto
  have f3: "secrets k' = secrets k2 \<and> vmusers k' = vmusers k2"
    using c(3) by (auto split: option.splits if_splits dest: createOrUpdatePropagationMCS_frame)
  show "creds_ready opts (secrets k')" using createSecret_ready [OF c(1) assms(2)] f2 f3 by simp
  show "user_ready e opts (vmusers k')" using createOrUpdateVMUser_ready [OF c(2)] f3 by simp
  show "mcs_ready e opts (mcss k')"
    using c(3) createOrUpdatePropagationMCS_ready by (fastforce simp: mcs_ready_def split: option.splits if_splits)
qed

lemma Create_idle:
  assumes "creds_ready opts (secrets k)" "user_ready e opts (vmusers k)" "mcs_ready e opts (mcss k)" "OptName opts \<noteq> []"
    and "api_faults k = []"
  shows "Create rand e opts k = (None, k)"
proof -
  have "createOrUpdatePropagationMCS e opts cfg k = (None, k)" if "OptMCS opts = Some cfg" "\<not> RegionlessEnabled e" for cfg
    using assms that by (intro createOrUpdatePropagationMCS_idle) simp_all
  then show ?thesis
    using assms createSecret_idle [OF assms(1,5)] createOrUpdateVMUser_idle [OF assms(2,5)] by (simp add: Create_def split: option.split)
qed

lemma Create_frame:
  assumes "Create rand e opts k = (r, k')"
  shows "\<exists>fs ss us ms. k' = k\<lparr>api_faults := fs, secrets := ss, vmusers := us, mcss := ms\<rparr>"
proof (cases "OptName opts = []")
  case True
  then have "k' = k\<lparr>api_faults := api_faults k, secrets := secrets k, vmusers := vmusers k, mcss := mcss k\<rparr>"
    using assms by (simp add: Create_def)
  then show ?thesis by blast
next
  case False
  obtain r1 k1 where c1: "createSecret rand opts k = (r1, k1)" by fastforce
  obtain r2 k2 where c2: "createOrUpdateVMUser e opts k1 = (r2, k2)" by fastforce
  have "\<exists>fs ss. k1 = k\<lparr>api_faults := fs, secrets := ss\<rparr>"
    using c1
  proof (cases rule: createSecret_effects)
    case (failed fs)
    then have "k1 = k\<lparr>api_faults := fs, secrets := secrets k\<rparr>" by simp
    then show ?thesis by blast
  qed blast
  then obtain fs ss where k1: "k1 = k\<lparr>api_faults := fs, secrets := ss\<rparr>" by blast
  obtain fs' us where k2: "k2 = k1\<lparr>api_faults := fs', vmusers := us\<rparr>" using createOrUpdateVMUser_frame [OF c2] by auto
  consider "k' = k1" | "k' = k2" | cfg where "createOrUpdatePropagationMCS e opts cfg k2 = (r, k')"
    using assms False c1 c2 by (auto simp: Create_def split: option.splits if_splits)
  then obtain fs'' us' ms where "k' = k1\<lparr>api_faults := fs'', vmusers := us', mcss := ms\<rparr>"
  proof cases
    case 1
    then have "k' = k1\<lparr>api_faults := api_faults k1, vmusers := vmusers k1, mcss := mcss k1\<rparr>" by simp
    then show ?thesis using that by blast
  next
    case 2
    then have "k' = k1\<lparr>api_faults := fs', vmusers := us, mcss := mcss k1\<rparr>" using k2 by simp
    then show ?thesis using that by blast
  next
    case (3 cfg)
    obtain fs3 ms where "k' = k2\<lparr>api_faults := fs3, mcss := ms\<rparr>"
      using createOrUpdatePropagationMCS_frame [OF 3] by blast
    then have "k' = k1\<lparr>api_faults := fs3, vmusers := us, mcss := ms\<rparr>" using k2 by simp
    then show ?thesis using that by blast
  qed
  then have "k' = k\<lparr>api_faults := fs'', secrets := ss, vmusers := us', mcss := ms\<rparr>" using k1 by simp
  then show ?thesis by blast
qed

lemma password_from_total: "\<forall>i. \<exists>b. rand i = Inr b \<Longrightarrow> \<exists>p. password_from rand is = Inr p"
  by (induction "is") (auto split: sum.split, metis sum.distinct(1))

lemma Create_succeeds:
  assumes "api_faults k = []" "OptName opts \<noteq> []" "\<forall>i. \<exists>b. rand i = Inr b"
  shows "\<exists>k'. Create rand e opts k = (None, k') \<and> api_faults k' = []"
proof -
  have m: "\<exists>b. mutate_secret rand opts a = Inr b \<and> sec_key b = sec_key a \<and> sec_version b = sec_version a" for a
    using password_from_total [OF assms(3), of "[0..<16]"] by (auto simp: mutate_secret_def GeneratePassword_def Let_def sec_key_def)
  obtain op s os where c1: "CreateOrUpdate sec_key sec_version sec_bump same_secret secrets set_secrets
      (new_secret (OptNamespace opts) (BuildSecretName (OptName opts))) (mutate_secret rand opts) k = (Inr (op, s), set_secrets os k)"
    using sec_kind.cou_succeeds [OF assms(1) m] by (metis surj_pair)
  obtain res os2 where c2: "CreateOrUpdate sec_key sec_version sec_bump same_secret secrets set_secrets (new_secret KofNamespace (sec_name s))
      (\<lambda>u. Inr (u\<lparr>sec_labels := sec_labels s, sec_data := sec_data s\<rparr>)) (set_secrets os k) = (Inr res, set_secrets os2 (set_secrets os k))"
    using sec_kind.cou_succeeds [of "set_secrets os k" "\<lambda>u. Inr (u\<lparr>sec_labels := sec_labels s, sec_data := sec_data s\<rparr>)"
        same_secret "new_secret KofNamespace (sec_name s)"] assms(1)
    by (auto simp: set_secrets_def sec_key_def)
  obtain k1 where k1: "createSecret rand opts k = (None, k1)" "api_faults k1 = []"
    using c1 c2 assms(1) by (cases res) (simp add: createSecret_def set_secrets_def)
  obtain k2 where k2: "createOrUpdateVMUser e opts k1 = (None, k2)" "api_faults k2 = []"
    using vu_kind.cou_succeeds [OF k1(2), of "\<lambda>u. Inr (u\<lparr>vu_owners := getOwnerReferences (OptOwner opts), vu_labels := getLabels (OptLabels opts),
        vu_spec := Some (vmuser_spec_of e opts)\<rparr>)" same_vmuser "\<lparr>vu_namespace = OptNamespace opts, vu_name = BuildVMUserName (OptName opts), vu_labels = [], vu_owners = [],
        vu_spec = None, vu_version = 0\<rparr>"] k1(2)
    by (auto simp: createOrUpdateVMUser_def set_vmusers_def vu_key_def)
  have "\<exists>k3. createOrUpdatePropagationMCS e opts cfg k2 = (None, k3) \<and> api_faults k3 = []" for cfg
    using mcs_kind.cou_succeeds [OF k2(2), of "\<lambda>m. Inr (m\<lparr>mcs_labels := getLabels (OptLabels opts), mcs_spec_of := Some (mcs_spec_for e opts cfg)\<rparr>)"
        same_mcs "\<lparr>mcs_name = BuildMCSName (OptName opts), mcs_labels = [], mcs_spec_of = None, mcs_version = 0\<rparr>"] k2(2)
    by (auto simp: createOrUpdatePropagationMCS_def set_mcss_def)
  then show ?thesis using k1 k2 assms(2) by (auto simp: Create_def split: option.split)
qed

section \<open>Properties\<close>

text \<open>
  What it takes to log in: the VMUser has the given user name, the Secret and the
  key that it refers to exist in its namespace and hold a password, and the namespace \<open>kof\<close> has a Secret
  of the same name with the same password under the same key.
\<close>

definition login_works :: "string \<Rightarrow> secret list \<Rightarrow> vmuser \<Rightarrow> vmuser_spec \<Rightarrow> bool" where
  "login_works name os u sp \<longleftrightarrow>
     vu_spec u = Some sp \<and> Username sp = name \<and>
     (\<exists>s t. find_object sec_key (vu_namespace u, PasswordRefName sp) os = Some s \<and>
        find_object sec_key (''kof'', PasswordRefName sp) os = Some t \<and>
        get_str (sec_data s) (PasswordRefKey sp) \<noteq> [] \<and>
        get_str (sec_data t) (PasswordRefKey sp) = get_str (sec_data s) (PasswordRefKey sp))"

text \<open>
  A MultiClusterService copies an object if it refers to the object under an identifier of its own
  and has a service with the values for that identifier.
\<close>

definition propagates :: "mcs_spec \<Rightarrow> string \<Rightarrow> string \<Rightarrow> string \<Rightarrow> bool" where
  "propagates sp kind namespace name \<longleftrightarrow>
     distinct (map TRIdentifier (TemplateResourceRefs sp)) \<and>
     (\<exists>r \<in> set (TemplateResourceRefs sp). \<exists>v \<in> set (Services sp).
        TRKind r = kind \<and> TRNamespace r = namespace \<and> TRName r = name \<and>
        SvcName v = name \<and> SvcNamespace v = namespace \<and> SvcValues v = propagation_values (TRIdentifier r))"

text \<open>
  It does so on the clusters with the given labels; unless upgrades are automatic, only on those of
  the operator's version.
\<close>

definition selects :: "environ \<Rightarrow> mcs_spec \<Rightarrow> (string \<rightharpoonup> string) \<Rightarrow> bool" where
  "selects e sp labels \<longleftrightarrow>
     (\<exists>m. MatchLabels (SpecSelector sp) = Some m \<and>
        map_of m = (if AutoUpgradeEnabled e \<or> GetKofVersion e = [] then labels
          else labels(''k0rdent.mirantis.com/kof-version'' \<mapsto> GetKofVersion e)))"

definition propagated ::
  "environ \<Rightarrow> string \<Rightarrow> (string \<rightharpoonup> string) \<Rightarrow> string list \<Rightarrow> multi_cluster_service list \<Rightarrow> vmuser \<Rightarrow> string \<Rightarrow> bool" where
  "propagated e name labels exprs ms u secret_name \<longleftrightarrow>
     (\<exists>m sp. find_object mcs_name (''kof-vmuser-propagation-'' @ name) ms = Some m \<and> mcs_spec_of m = Some sp \<and>
        selects e sp labels \<and> MatchExpressions (SpecSelector sp) = exprs \<and>
        propagates sp ''VMUser'' (vu_namespace u) (vu_name u) \<and> propagates sp ''Secret'' (vu_namespace u) secret_name)"

abbreviation selected_labels :: "mcs_config \<Rightarrow> string \<rightharpoonup> string" where
  "selected_labels cfg \<equiv> (case MatchLabels (ClusterSelector cfg) of None \<Rightarrow> Map.empty | Some labels \<Rightarrow> map_of labels)"

lemma spec_selects:
  "selects e (mcs_spec_for e opts cfg) (selected_labels cfg)"
  by (auto simp: selects_def mcs_spec_for_def maybeVersionedClusterSelector_def KofVersionLabel_def Let_def split: option.split)

lemma spec_propagates:
  "propagates (mcs_spec_for e opts cfg) ''VMUser'' (OptNamespace opts) (BuildVMUserName (OptName opts))"
  "propagates (mcs_spec_for e opts cfg) ''Secret'' (OptNamespace opts) (BuildSecretName (OptName opts))"
  by (auto simp: propagates_def mcs_spec_for_def Let_def)

lemma ready_login:
  assumes "creds_ready opts os" "user_ready e opts us"
  obtains u sp where "find_object vu_key (OptNamespace opts, BuildVMUserName (OptName opts)) us = Some u"
    "login_works (OptName opts) os u sp" "PasswordRefName sp = BuildSecretName (OptName opts)" "PasswordRefKey sp = PasswordKey"
proof -
  obtain u where u: "find_object vu_key (OptNamespace opts, BuildVMUserName (OptName opts)) us = Some u"
    "vu_spec u = Some (vmuser_spec_of e opts)" using assms(2) by (auto simp: user_ready_def)
  have "vu_namespace u = OptNamespace opts" using find_object_SomeD [OF u(1)] by (simp add: vu_key_def)
  moreover obtain s t where "find_object sec_key (creds_key opts) os = Some s" "find_object sec_key (copy_key opts) os = Some t"
    "get_str (sec_data s) PasswordKey \<noteq> []" "same_map (sec_data t) (sec_data s)" using assms(1) by (auto simp: creds_ready_def)
  ultimately have "login_works (OptName opts) os u (vmuser_spec_of e opts)"
    using u(2) same_map_get_str [of "sec_data t" "sec_data s"]
    by (simp add: login_works_def vmuser_spec_of_def creds_key_def copy_key_def KofNamespace_def)
  then show thesis using that [OF u(1), of "vmuser_spec_of e opts"] by (simp add: vmuser_spec_of_def)
qed

lemma ready_propagated:
  assumes "mcs_ready e opts ms" "OptMCS opts = Some cfg" "\<not> RegionlessEnabled e"
    and "vu_namespace u = OptNamespace opts" "vu_name u = BuildVMUserName (OptName opts)"
  shows "propagated e (OptName opts) (selected_labels cfg) (MatchExpressions (ClusterSelector cfg)) ms u (BuildSecretName (OptName opts))"
  using assms spec_selects [of e opts cfg] spec_propagates [of e opts cfg]
  by (auto simp: mcs_ready_def propagated_def BuildMCSName_def mcs_spec_for_def maybeVersionedClusterSelector_def Let_def)


text \<open>
  C38: \<open>Create\<close> is idempotent: called again with the same options, whatever the random source gives,
  it changes nothing (no call failing).
\<close>

theorem second_create_changes_nothing:
  assumes "Create rand e opts k = (None, k')" "wf_secrets (secrets k)"
  shows "Create rand' e opts (k'\<lparr>api_faults := []\<rparr>) = (None, k'\<lparr>api_faults := []\<rparr>)"
  using Create_ready [OF assms] by (intro Create_idle) simp_all

text \<open>
  A successful \<open>Delete\<close> removes the propagation, the VMUser, the Secret and its copy, and
  nothing else.
\<close>

theorem delete_removes_resources:
  assumes "Delete name namespace k = (None, k')"
  shows "find_object mcs_name m (mcss k') = (if m = BuildMCSName name then None else find_object mcs_name m (mcss k)) \<and>
    find_object vu_key u (vmusers k') = (if u = (namespace, BuildVMUserName name) then None else find_object vu_key u (vmusers k)) \<and>
    find_object sec_key s (secrets k') =
      (if s = (namespace, BuildSecretName name) \<or> s = (KofNamespace, BuildSecretName name) then None
       else find_object sec_key s (secrets k))"
proof -
  obtain k1 k2 k3 where d: "deleteResource mcs_name mcss set_mcss (BuildMCSName name) k = (None, k1)"
      "deleteResource vu_key vmusers set_vmusers (namespace, BuildVMUserName name) k1 = (None, k2)"
      "deleteResource sec_key secrets set_secrets (namespace, BuildSecretName name) k2 = (None, k3)"
      "deleteResource sec_key secrets set_secrets (KofNamespace, BuildSecretName name) k3 = (None, k')"
    using assms by (auto simp: Delete_def split: if_splits prod.splits option.splits)
  show ?thesis
    using mcs_kind.delete_spec [OF d(1)] vu_kind.delete_spec [OF d(2)] sec_kind.delete_spec [OF d(3)] sec_kind.delete_spec [OF d(4)]
    by (auto simp: set_mcss_def set_vmusers_def set_secrets_def simp del: split_paired_All)
qed

lemma sort_map_same: "same_map m n \<Longrightarrow> sort (map f m) = sort (map f n)"
  by (rule properties_for_sort) (simp_all add: same_map_mset mset_map)

text \<open>
  The routes of a VMUser do not depend on the iteration order of its filters, so that a
  reconciliation with the same configuration gives the same object.
\<close>

theorem routes_independent_of_filter_order:
  assumes "same_map (ExtraFilters c) (ExtraFilters c')" "ExtraLabel c = ExtraLabel c'"
  shows "buildTargetRefs e (Some c) = buildTargetRefs e (Some c')"
proof -
  have "applyExtraFilters (ExtraFilters c) a = applyExtraFilters (ExtraFilters c') a" for a
    by (simp only: applyExtraFilters_def same_map_length [OF assms(1)] sort_map_same [OF assms(1)])
  then show ?thesis using assms(2) by (simp add: buildTargetRefs_def buildQueryArgs_def)
qed

text \<open>Every route for reading carries all filters of the tenant, every route for writing its label.\<close>

lemma routes_restricted:
  assumes "t \<in> set (buildTargetRefs e (Some c))" "ExtraLabel c = Some l" "(k, v) \<in> set (ExtraFilters c)"
  shows "if hd (Paths t) \<in> {''/vlas/.*'', ''/vls/.*''}
      then \<exists>a \<in> set (QueryArgs t). ArgName a = ''extra_filters'' \<and> formatFilterParams k v \<in> set (ArgValues a)
    else if hd (Paths t) = ''/vts/.*''
      then \<exists>a \<in> set (QueryArgs t). ArgName a = ''extra_filters'' \<and> formatFilterParams (''resource_attr:'' @ k) v \<in> set (ArgValues a)
    else if hd (Paths t) = ''/vm/select/.*''
      then \<exists>a \<in> set (QueryArgs t). \<exists>fs. ArgName a = ''extra_filters'' \<and> ArgValues a = [''{'' @ join '','' fs @ ''}''] \<and> vm_filter k v \<in> set fs
    else \<exists>a \<in> set (QueryArgs t). ArgName a \<in> {''extra_label'', ''extra_fields''} \<and> length (ArgValues a) = 1"
proof -
  have "ExtraFilters c \<noteq> []" using assms(3) by auto
  then show ?thesis using assms
    by (auto simp: buildTargetRefs_def route_paths_def buildQueryArgs_def applyExtraFilters_def applyExtraLabel_def no_args_def Let_def
        intro: rev_image_eqI intro!: exI [of _ "sort (map (\<lambda>(x, y). vm_filter x y) (ExtraFilters c))"] rev_image_eqI [of "(k, v)"])
qed

section \<open>Examples\<close>

definition ex_opts :: create_options where
  "ex_opts = \<lparr>OptName = ''c1'', OptNamespace = ''kcm'', OptOwner = None, OptLabels = [(''tier'', ''child'')],
     OptMCS = Some \<lparr>ClusterSelector = \<lparr>MatchLabels = None, MatchExpressions = []\<rparr>, DependsOn = []\<rparr>,
     OptVMUser = Some \<lparr>ExtraLabel = Some \<lparr>LabelKey = ''tenantId'', LabelValue = ''t''\<rparr>, ExtraFilters = [(''tenantId'', ''t'')]\<rparr>\<rparr>"

definition ex_rand :: random_source where
  "ex_rand = (\<lambda>i. Inr (of_nat (17 * i)))"

definition ex_vm :: vm_api where
  "ex_vm = \<lparr>api_faults = [], secrets = [], vmusers = [], mcss = []\<rparr>"

lemma ex_wf: "wf_secrets (secrets ex_vm)"
  by (simp add: wf_secrets_def ex_vm_def find_object_def)

lemma ex_created:
  "fst (Create ex_rand [] ex_opts ex_vm) = None"
  "length (secrets (snd (Create ex_rand [] ex_opts ex_vm))) = 2"
  "map_option (\<lambda>s. get_str (sec_data s) PasswordKey)
     (find_object sec_key (creds_key ex_opts) (secrets (snd (Create ex_rand [] ex_opts ex_vm)))) = Some ''arIZgxO5mDUbsJ0h''"
  "fst (Delete ''c1'' ''kcm'' (snd (Create ex_rand [] ex_opts ex_vm))) = None"
  by code_simp+

lemma ex_create: "Create ex_rand [] ex_opts ex_vm = (None, snd (Create ex_rand [] ex_opts ex_vm))"
  using ex_created(1) by (metis prod.collapse)

theorem password_never_replaced_witness:
  "\<exists>s. find_object sec_key (creds_key ex_opts)
       (secrets (snd (Create (\<lambda>_. Inr 0) [] ex_opts (snd (Create ex_rand [] ex_opts ex_vm))))) = Some s \<and>
     get_str (sec_data s) PasswordKey = ''arIZgxO5mDUbsJ0h''"
proof -
  obtain old where old: "find_object sec_key (creds_key ex_opts) (secrets (snd (Create ex_rand [] ex_opts ex_vm))) = Some old"
      "get_str (sec_data old) PasswordKey = ''arIZgxO5mDUbsJ0h''"
    using ex_created(3) by auto
  from password_never_replaced [OF old(1), of "\<lambda>_. Inr 0" "[]"] old(2) show ?thesis by auto
qed


theorem second_create_changes_nothing_witness:
  "\<exists>k'. Create ex_rand [] ex_opts ex_vm = (None, k') \<and> length (secrets k') = 2 \<and>
     Create (\<lambda>_. Inr 0) [] ex_opts (k'\<lparr>api_faults := []\<rparr>) = (None, k'\<lparr>api_faults := []\<rparr>)"
  using second_create_changes_nothing [OF ex_create ex_wf, of "\<lambda>_. Inr 0"] ex_create ex_created(2) by blast

theorem delete_removes_resources_witness:
  "find_object sec_key (KofNamespace, BuildSecretName ''c1'')
     (secrets (snd (Delete ''c1'' ''kcm'' (snd (Create ex_rand [] ex_opts ex_vm))))) = None"
proof -
  let ?k = "snd (Create ex_rand [] ex_opts ex_vm)"
  have "Delete ''c1'' ''kcm'' ?k = (None, snd (Delete ''c1'' ''kcm'' ?k))" using ex_created(4) by (metis prod.collapse)
  from delete_removes_resources [OF this, of "[]" "([], [])" "(KofNamespace, BuildSecretName ''c1'')"] show ?thesis by simp
qed

theorem routes_independent_of_filter_order_witness:
  "buildTargetRefs [] (Some \<lparr>ExtraLabel = None, ExtraFilters = [(''a'', ''1''), (''b'', ''2'')]\<rparr>) =
     buildTargetRefs [] (Some \<lparr>ExtraLabel = None, ExtraFilters = [(''b'', ''2''), (''a'', ''1'')]\<rparr>)"
  by (rule routes_independent_of_filter_order) (auto simp: same_map_def fun_eq_iff)

end
