(* ===== verification/Cluster_Run.thy ===== *)
theory Cluster_Run
  imports Regional_Config VMUser_Run
begin

text \<open>
  Properties of the controller of cluster deployments and of the two roles of clusters. The stores
  of the new kinds are interpretations of the locale \<open>object_store_kind\<close>, extended here with the
  laws of creation and update.
\<close>

section \<open>Stores\<close>

context object_store_kind
begin

lemma get_spec:
  assumes "api_get key objs x k = (r, k')"
  shows "\<exists>fs. k' = k\<lparr>api_faults := fs\<rparr> \<and> (case r of Inr obj \<Rightarrow> find_object key x (objs k) = Some obj
    | Inl NotFound \<Rightarrow> find_object key x (objs k) = None | Inl _ \<Rightarrow> True)"
  using assms by (auto simp: api_get_def split: prod.splits option.splits dest: api_call_frame)

lemma idle_state:
  assumes "k' = k\<lparr>api_faults := fs\<rparr>"
  shows "k' = set_objs (objs k) (k\<lparr>api_faults := fs\<rparr>)"
  using assms set_same [of k'] objs_faults [of fs k] by simp

lemma create_spec:
  assumes "api_create key objs set_objs obj k = (r, k')"
  shows "\<exists>fs os. k' = set_objs os (k\<lparr>api_faults := fs\<rparr>) \<and>
    (case r of
       Inl err \<Rightarrow> os = objs k \<and> (err = AlreadyExists \<longrightarrow> find_object key (key obj) (objs k) \<noteq> None)
     | Inr _ \<Rightarrow> find_object key (key obj) (objs k) = None \<and>
         (\<forall>x. find_object key x os = (if x = key obj then Some obj else find_object key x (objs k))))"
proof -
  obtain f k1 where c: "api_call k = (f, k1)" by fastforce
  obtain fs where k1: "k1 = k\<lparr>api_faults := fs\<rparr>" by (rule calls [OF c])
  show ?thesis
  proof (cases r)
    case (Inl err)
    then have "k' = k1" "err = AlreadyExists \<longrightarrow> find_object key (key obj) (objs k) \<noteq> None"
      using assms c by (auto simp: api_create_def create_object_def split: option.splits)
    then show ?thesis using idle_state [OF k1] Inl k1 by (intro exI [of _ fs] exI [of _ "objs k"]) simp
  next
    case (Inr u)
    then obtain os where os: "create_object key obj (objs k) = Inr os" "k' = set_objs os k1"
      using assms c by (auto simp: api_create_def split: option.splits sum.splits)
    then have "find_object key (key obj) (objs k) = None" by (auto simp: create_object_def split: option.splits)
    then show ?thesis using os create_object_find [OF os(1)] Inr k1 by (intro exI [of _ fs] exI [of _ os]) simp
  qed
qed

lemma ensure_spec:
  assumes "EnsureCreated key objs set_objs obj k = (r, k')"
  shows "\<exists>fs os. k' = set_objs os (k\<lparr>api_faults := fs\<rparr>) \<and>
    (case r of
       Inl _ \<Rightarrow> os = objs k
     | Inr b \<Rightarrow> b = (find_object key (key obj) (objs k) = None) \<and>
         (\<forall>x. find_object key x os = (if x = key obj \<and> b then Some obj else find_object key x (objs k))))"
proof -
  obtain r1 k1 where c: "api_create key objs set_objs obj k = (r1, k1)" by fastforce
  then have "k' = k1" using assms by (auto simp: EnsureCreated_def split: sum.splits api_error.splits)
  moreover have "r = (case r1 of Inl err \<Rightarrow> if err = AlreadyExists then Inr False else Inl err | Inr _ \<Rightarrow> Inr True)"
    using assms c by (auto simp: EnsureCreated_def split: sum.splits api_error.splits)
  ultimately show ?thesis using create_spec [OF c] by (cases r1) (fastforce split: if_splits)+
qed

lemma update_spec:
  assumes "api_update key ver bump objs set_objs obj k = (r, k')"
  shows "\<exists>fs os. k' = set_objs os (k\<lparr>api_faults := fs\<rparr>) \<and>
    (case r of
       Inl _ \<Rightarrow> os = objs k
     | Inr _ \<Rightarrow> (\<forall>x. find_object key x os = (if x = key obj then Some (bump obj) else find_object key x (objs k))))"
proof -
  obtain f k1 where c: "api_call k = (f, k1)" by fastforce
  obtain fs where k1: "k1 = k\<lparr>api_faults := fs\<rparr>" by (rule calls [OF c])
  show ?thesis
  proof (cases r)
    case (Inl err)
    then have "k' = k1" using assms c by (auto simp: api_update_def split: option.splits sum.splits)
    then show ?thesis using idle_state [OF k1] Inl k1 by (intro exI [of _ fs] exI [of _ "objs k"]) simp
  next
    case (Inr u)
    then obtain os where os: "update_object key ver bump obj (objs k) = Inr os" "k' = set_objs os k1"
      using assms c by (auto simp: api_update_def split: option.splits sum.splits)
    then show ?thesis using update_find [OF os(1)] Inr k1 by (intro exI [of _ fs] exI [of _ os]) simp
  qed
qed

lemma ensure_idle:
  "api_faults k = [] \<Longrightarrow> find_object key (key obj) (objs k) = Some cur \<Longrightarrow> EnsureCreated key objs set_objs obj k = (Inr False, k)"
  by (simp add: EnsureCreated_def api_create_def create_object_def)

end

interpretation cm_store: object_store_kind cm_key cm_version cm_bump cms set_cms
  by unfold_locales (simp_all add: set_cms_def)

interpretation cd_store: object_store_kind cd_key cd_version cd_bump deployments set_deployments
  by unfold_locales (simp_all add: cd_key_def cd_bump_def set_deployments_def)

interpretation psg_store: object_store_kind psg_key psg_version psg_bump groups set_groups
  by unfold_locales (simp_all add: psg_key_def psg_bump_def set_groups_def)

interpretation conn_store: object_store_kind conn_key conn_version conn_bump conns set_conns
  by unfold_locales (simp_all add: set_conns_def)

definition wf_cms :: "config_map list \<Rightarrow> bool" where
  "wf_cms os \<longleftrightarrow> (\<forall>cm \<in> set os. wf_map (cm_data cm))"

lemma wf_cmsD: "wf_cms os \<Longrightarrow> find_object cm_key x os = Some cm \<Longrightarrow> wf_map (cm_data cm)"
  by (auto simp: wf_cms_def dest: find_object_SomeD)

section \<open>ConfigMaps\<close>

lemma get_config_map_spec:
  assumes "get_config_map namespace name k = (r, k')"
  shows "\<exists>fs. k' = k\<lparr>api_faults := fs\<rparr> \<and> (case r of Inr m \<Rightarrow> find_object cm_key (namespace, name) (cms k) = m | Inl _ \<Rightarrow> True)"
proof -
  obtain r1 k1 where g: "api_get cm_key cms (namespace, name) k = (r1, k1)" by fastforce
  then show ?thesis using cm_store.get_spec [OF g] assms
    by (cases r1) (auto simp: get_config_map_def split: api_error.splits)
qed

lemma get_config_map_idle:
  "api_faults k = [] \<Longrightarrow> get_config_map namespace name k = (Inr (find_object cm_key (namespace, name) (cms k)), k)"
  by (simp add: get_config_map_def api_get_def split: option.split)

text \<open>After a successful write of data, the ConfigMap has them.\<close>

lemma update_config_data_spec:
  assumes "update_config_data cm d k = (r, k')" "find_object cm_key (cm_key cm) (cms k) = Some cm"
  shows "\<exists>fs os cm'. k' = k\<lparr>api_faults := fs, cms := os\<rparr> \<and>
    (\<forall>x. find_object cm_key x os = (if x = cm_key cm then Some cm' else find_object cm_key x (cms k))) \<and>
    (cm' = cm \<or> cm' = cm_bump (cm\<lparr>cm_data := d\<rparr>)) \<and>
    (\<not> isl r \<longrightarrow> cm_data cm' = d \<or> cm' = cm \<and> maps_Equal (cm_data cm) d)"
proof (cases "maps_Equal (cm_data cm) d")
  case True
  then have "k' = k\<lparr>api_faults := api_faults k, cms := cms k\<rparr>" using assms(1) by (simp add: update_config_data_def)
  then show ?thesis using True assms(2) by (intro exI [of _ "api_faults k"] exI [of _ "cms k"] exI [of _ cm]) simp
next
  case False
  obtain r1 k1 where u: "api_update cm_key cm_version cm_bump cms set_cms (cm\<lparr>cm_data := d\<rparr>) k = (r1, k1)" by fastforce
  then have r: "k' = k1" "isl r = isl r1" using assms(1) False
    by (auto simp: update_config_data_def in_context_def split: sum.splits)
  have key: "cm_key (cm\<lparr>cm_data := d\<rparr>) = cm_key cm" by (simp add: cm_key_def)
  obtain fs os where s: "k1 = set_cms os (k\<lparr>api_faults := fs\<rparr>)"
      "case r1 of Inl _ \<Rightarrow> os = cms k | Inr _ \<Rightarrow> (\<forall>x. find_object cm_key x os =
         (if x = cm_key cm then Some (cm_bump (cm\<lparr>cm_data := d\<rparr>)) else find_object cm_key x (cms k)))"
    using cm_store.update_spec [OF u] unfolding key by blast
  show ?thesis
  proof (cases r1)
    case (Inl err)
    then show ?thesis using s r assms(2)
      by (intro exI [of _ fs] exI [of _ os] exI [of _ cm]) (simp add: set_cms_def)
  next
    case (Inr u)
    then show ?thesis using s r
      by (intro exI [of _ fs] exI [of _ os] exI [of _ "cm_bump (cm\<lparr>cm_data := d\<rparr>)"]) (simp add: set_cms_def cm_bump_def)
  qed
qed

lemma update_config_data_idle: "maps_Equal (cm_data cm) d \<Longrightarrow> update_config_data cm d k = (Inr (), k)"
  by (simp add: update_config_data_def)

section \<open>The regional role\<close>

definition regional_cm_key :: "cluster_deployment \<Rightarrow> string \<times> string" where
  "regional_cm_key cd = (cd_namespace cd, GetRegionalClusterConfigMapName (cd_name cd))"

lemma set_endpoints_identity:
  assumes "set_endpoints eps cd cfg c = Inr d" "\<forall>p \<in> set eps. \<forall>x c. f (snd p x c) = f c"
  shows "f d = f c"
  using assms
proof (induction eps arbitrary: c)
  case (Cons p eps)
  then show ?case by (cases p) (fastforce split: sum.splits)
qed simp

lemma cluster_config_identity:
  assumes "cluster_config_data cd cfg cloud = Inr d"
  shows "RegionalClusterName d = cd_name cd \<and> RegionalClusterNamespace d = cd_namespace cd \<and> RegionalClusterCloud d = cloud \<and>
    ToClusterDeploymentConfig d = cfg\<lparr>ClusterAnnotations := []\<rparr>"
proof -
  let ?f = "\<lambda>d. (RegionalClusterName d, RegionalClusterNamespace d, RegionalClusterCloud d, ToClusterDeploymentConfig d)"
  obtain c c1 where c: "set_endpoints read_endpoints cd cfg c = Inr c1"
      "?f c = (cd_name cd, cd_namespace cd, cloud, cfg\<lparr>ClusterAnnotations := []\<rparr>)"
      "(case map_of (cd_labels cd) IstioRoleLabel of Some role \<Rightarrow> Inr (c1\<lparr>IstioRole := role\<rparr>)
        | None \<Rightarrow> set_endpoints write_endpoints cd cfg c1) = Inr d"
    using assms by (fastforce simp: cluster_config_data_def Let_def ToClusterDeploymentConfig_def split: sum.splits)
  have "?f c1 = ?f c" by (rule set_endpoints_identity [OF c(1)]) (simp add: read_endpoints_def ToClusterDeploymentConfig_def)
  moreover have "?f d = ?f c1"
  proof (cases "map_of (cd_labels cd) IstioRoleLabel")
    case None
    then have "set_endpoints write_endpoints cd cfg c1 = Inr d" using c(3) by simp
    then show ?thesis by (rule set_endpoints_identity) (simp add: write_endpoints_def ToClusterDeploymentConfig_def)
  qed (use c(3) in \<open>auto simp: ToClusterDeploymentConfig_def\<close>)
  ultimately show ?thesis using c(2) by simp
qed

lemma config_data_ok:
  assumes "NewConfigDataFromClusterDeployment e cd k = (Inr d, k')"
  obtains cfg cloud where "yaml_config e (cd_config cd) = Inr cfg" "getCloud cd k = (Inr cloud, k')"
    "cluster_config_data cd cfg cloud = Inr d"
  using assms by (auto simp: NewConfigDataFromClusterDeployment_def ReadClusterDeploymentConfig_def and_then_Inr in_context_Inr split: sum.splits)

lemma regional_role_effect:
  assumes "regional_role_Reconcile e r k = (Inr (), k')" "wf_cms (cms k)"
  obtains d k1 fs os cm where "NewConfigDataFromClusterDeployment e (rr_deployment r) k = (Inr d, k1)"
    "k' = k\<lparr>api_faults := fs, cms := os\<rparr>" "same_map (cm_data cm) (ToMap d)"
    "\<And>x. find_object cm_key x os = (if x = regional_cm_key (rr_deployment r) then Some cm else find_object cm_key x (cms k))"
proof -
  let ?key = "regional_cm_key (rr_deployment r)"
  obtain d k1 where d: "NewConfigDataFromClusterDeployment e (rr_deployment r) k = (Inr d, k1)"
    using assms(1) by (auto simp: regional_role_Reconcile_def CreateOrUpdateRegionalConfigMap_def and_then_Inr in_context_Inr)
  obtain m k2 where m: "regional_GetConfigMap r k1 = (Inr m, k2)"
      and w: "(case m of None \<Rightarrow> regional_CreateConfigMap e r d k2 | Some cm \<Rightarrow> regional_UpdateConfigMap cm d k2) = (Inr (), k')"
    using assms(1) d
    by (auto simp: regional_role_Reconcile_def CreateOrUpdateRegionalConfigMap_def and_then_Inr in_context_Inr split: option.splits)
  obtain fs1 where k1: "k1 = k\<lparr>api_faults := fs1\<rparr>" using reads_state [OF reads_config_data d] by blast
  obtain fs2 where k2: "k2 = k\<lparr>api_faults := fs2\<rparr>" and found: "find_object cm_key ?key (cms k) = m"
    using get_config_map_spec [OF m [unfolded regional_GetConfigMap_def]] k1 by (auto simp: regional_cm_key_def)
  show ?thesis
  proof (cases m)
    case None
    let ?cm = "regional_config_map_of e r d"
    have key: "cm_key ?cm = ?key" by (simp add: regional_config_map_of_def cm_key_def regional_cm_key_def Let_def)
    have "api_create cm_key cms set_cms ?cm k2 = (Inr (), k')"
      using w None by (simp add: regional_CreateConfigMap_def in_context_Inr)
    from cm_store.create_spec [OF this] obtain fs os where "k' = k\<lparr>api_faults := fs, cms := os\<rparr>"
        "\<forall>x. find_object cm_key x os = (if x = ?key then Some ?cm else find_object cm_key x (cms k))"
      unfolding key k2 by (auto simp: set_cms_def simp del: split_paired_All)
    moreover have "same_map (cm_data ?cm) (ToMap d)"
      by (simp add: regional_config_map_of_def Let_def same_map_refl config_data_keys)
    ultimately show ?thesis using that [OF d] by blast
  next
    case (Some cm)
    have key: "cm_key cm = ?key" using find_object_SomeD found Some by fastforce
    have "update_config_data cm (ToMap d) k2 = (Inr (), k')" using w Some by (simp add: regional_UpdateConfigMap_def)
    from update_config_data_spec [OF this] obtain fs os cm' where s: "k' = k\<lparr>api_faults := fs, cms := os\<rparr>"
        "\<forall>x. find_object cm_key x os = (if x = ?key then Some cm' else find_object cm_key x (cms k))"
        "cm_data cm' = ToMap d \<or> cm' = cm \<and> maps_Equal (cm_data cm) (ToMap d)"
      using found Some unfolding key k2 by (auto simp del: split_paired_All)
    then have "same_map (cm_data cm') (ToMap d)"
      using wf_cmsD [OF assms(2)] found Some by (auto simp: maps_Equal_same_map same_map_refl config_data_keys)
    then show ?thesis using that [OF d s(1)] s(2) by blast
  qed
qed

lemma getCloud_again:
  "getCloud cd k = (Inr cloud, k1) \<Longrightarrow> templates k' = templates k \<Longrightarrow> api_faults k' = [] \<Longrightarrow> getCloud cd k' = (Inr cloud, k')"
  by (auto simp: getCloud_def GetClusterTemplate_def api_get_def api_ctx_def and_then_Inr in_context_Inr and_then_def in_context_def
      split: prod.splits option.splits)

lemma config_data_again:
  assumes "NewConfigDataFromClusterDeployment e cd k = (Inr d, k1)" "templates k' = templates k" "api_faults k' = []"
  shows "NewConfigDataFromClusterDeployment e cd k' = (Inr d, k')"
  using assms(1)
proof (rule config_data_ok)
  fix cfg cloud
  assume "yaml_config e (cd_config cd) = Inr cfg" "getCloud cd k = (Inr cloud, k1)" "cluster_config_data cd cfg cloud = Inr d"
  then show ?thesis using getCloud_again [OF _ assms(2,3)]
    by (simp add: NewConfigDataFromClusterDeployment_def ReadClusterDeploymentConfig_def and_then_def in_context_def)
qed

lemma regional_role_idle:
  assumes "NewConfigDataFromClusterDeployment e (rr_deployment r) k = (Inr d, k)" "api_faults k = []"
    and "find_object cm_key (regional_cm_key (rr_deployment r)) (cms k) = Some cm" "same_map (cm_data cm) (ToMap d)"
  shows "regional_role_Reconcile e r k = (Inr (), k)"
  using assms
  by (simp add: regional_role_Reconcile_def CreateOrUpdateRegionalConfigMap_def regional_GetConfigMap_def regional_UpdateConfigMap_def
      get_config_map_idle update_config_data_idle same_maps_Equal and_then_def in_context_def regional_cm_key_def)

section \<open>Discovery\<close>

text \<open>
  The loop gives a match that was used before, or the candidates in their order: all matches, and
  none of them used before.
\<close>

lemma scan_regional_found:
  "scan_regional c cloud cds prev cands l = Inl cm \<Longrightarrow>
     cm \<in> set l \<and> regional_matches c cloud cds (NewConfigDataFromConfigMap (cm_data cm)) \<and>
     isPreviouslyUsedRegionalCluster prev (NewConfigDataFromConfigMap (cm_data cm))"
  by (induction l arbitrary: cands) (auto simp: Let_def split: if_splits)

lemma scan_regional_candidates:
  "scan_regional c cloud cds prev cands l = Inr cands' \<Longrightarrow>
     cands' = cands @ filter (\<lambda>cm. regional_matches c cloud cds (NewConfigDataFromConfigMap (cm_data cm))) l \<and>
     (\<forall>cm \<in> set l. regional_matches c cloud cds (NewConfigDataFromConfigMap (cm_data cm)) \<longrightarrow>
        \<not> isPreviouslyUsedRegionalCluster prev (NewConfigDataFromConfigMap (cm_data cm)))"
proof (induction l arbitrary: cands)
  case (Cons cm l)
  let ?d = "NewConfigDataFromConfigMap (cm_data cm)"
  consider "\<not> regional_matches c cloud cds ?d" "scan_regional c cloud cds prev cands l = Inr cands'"
    | "regional_matches c cloud cds ?d" "\<not> isPreviouslyUsedRegionalCluster prev ?d"
      "scan_regional c cloud cds prev (cands @ [cm]) l = Inr cands'"
    using Cons.prems by (auto simp: Let_def split: if_splits)
  then show ?case
  proof cases
    case 1
    then show ?thesis using Cons.IH [OF 1(2)] by simp
  next
    case 2
    then show ?thesis using Cons.IH [OF 2(3)] by simp
  qed
qed simp

lemma pick_regional_ok:
  assumes "pick_regional c cloud cds prev l = Inr cm"
  shows "cm \<in> set l" "regional_matches c cloud cds (NewConfigDataFromConfigMap (cm_data cm))"
    "prev \<noteq> None \<Longrightarrow> isPreviouslyUsedRegionalCluster prev (NewConfigDataFromConfigMap (cm_data cm))"
  using assms scan_regional_found [of c cloud cds prev "[]" l cm] scan_regional_candidates [of c cloud cds prev "[]" l]
  by (auto simp: pick_regional_def filter_eq_Cons_iff split: sum.splits if_splits list.splits)

text \<open>The ConfigMaps that discovery by location looks at.\<close>

definition in_discovery_scope :: "operator_env \<Rightarrow> child_role \<Rightarrow> config_map \<Rightarrow> bool" where
  "in_discovery_scope e c cm \<longleftrightarrow>
     has_label KofClusterRoleLabel ''regional'' (cm_labels cm) \<and>
     (if RegionlessEnabled (op_environ e) then cm_namespace cm = DefaultSystemNamespace
      else CrossNamespaceEnabled (op_environ e) \<or> cm_namespace cm = ch_clusterNamespace c)"

lemma discovery_ok:
  assumes "DiscoverRegionalClusterConfigMapByLocation e c k = (Inr cm, k')"
  obtains (regionless) "RegionlessEnabled (op_environ e)" "isRegionlessConfigMap cm" "cm \<in> set (cms k)" "in_discovery_scope e c cm"
  | (location) cloud cds k1 where "\<not> RegionlessEnabled (op_environ e)" "getCloud (ch_deployment c) k1 = (Inr cloud, snd (getCloud (ch_deployment c) k1))"
      "templates k1 = templates k" "cm \<in> set (cms k)" "in_discovery_scope e c cm"
      "regional_matches c cloud cds (NewConfigDataFromConfigMap (cm_data cm))"
      "ch_isClusterInRegion c \<Longrightarrow> (\<exists>k2 k3. deployments k2 = deployments k \<and>
         GetClusterDeploymentsInSameKcmRegion e (ch_deployment c) k2 = (Inr cds, k3))"
      "\<And>prev. find_object cm_key (ch_clusterNamespace c, GetConfigMapName (ch_clusterName c)) (cms k) = Some prev \<Longrightarrow>
         isPreviouslyUsedRegionalCluster (Some prev) (NewConfigDataFromConfigMap (cm_data cm))"
proof -
  let ?sel = "\<lambda>cm. has_label KofClusterRoleLabel ''regional'' (cm_labels cm) \<and>
      (if RegionlessEnabled (op_environ e) then cm_namespace cm = DefaultSystemNamespace
       else CrossNamespaceEnabled (op_environ e) \<or> cm_namespace cm = ch_clusterNamespace c)"
  obtain l k1 where l: "api_list cms ?sel k = (Inr l, k1)"
    using assms unfolding DiscoverRegionalClusterConfigMapByLocation_def Let_def by (auto simp: and_then_Inr in_context_Inr)
  have scope: "set l = {cm \<in> set (cms k). in_discovery_scope e c cm}" and k1: "\<exists>fs. k1 = k\<lparr>api_faults := fs\<rparr>"
    using api_list_ok [OF l] by (auto simp: in_discovery_scope_def)
  show ?thesis
  proof (cases "RegionlessEnabled (op_environ e)")
    case True
    then have "find isRegionlessConfigMap l = Some cm" using assms l
      unfolding DiscoverRegionalClusterConfigMapByLocation_def Let_def by (auto simp: and_then_Inr in_context_Inr split: option.splits)
    then have "cm \<in> set l" "isRegionlessConfigMap cm" by (auto simp: find_Some_iff)
    then show ?thesis using regionless True scope by blast
  next
    case False
    obtain cloud k2 where cloud: "getCloud (ch_deployment c) k1 = (Inr cloud, k2)"
      using assms l False unfolding DiscoverRegionalClusterConfigMapByLocation_def Let_def
      by (auto simp: and_then_Inr in_context_Inr split: prod.splits sum.splits op_error.splits)
    obtain prev k3 where prev: "child_GetConfigMap c k2 = (Inr prev, k3)"
      using assms l False cloud unfolding DiscoverRegionalClusterConfigMapByLocation_def Let_def
      by (auto simp: and_then_Inr in_context_Inr)
    obtain cds k4 where cds: "(if ch_isClusterInRegion c
          then in_context (OpContext ''failed to get cluster deployments in the same kcm region'')
            (GetClusterDeploymentsInSameKcmRegion e (ch_deployment c) k3)
          else (Inr [], k3)) = (Inr cds, k4)"
        and r: "pick_regional c cloud cds prev l = Inr cm"
      using assms l False cloud prev unfolding DiscoverRegionalClusterConfigMapByLocation_def Let_def
      by (auto simp: and_then_Inr in_context_Inr)
    obtain fs where k2: "k2 = k\<lparr>api_faults := fs\<rparr>" using reads_state [OF reads_cloud cloud] k1 by auto
    obtain fs3 where k3: "k3 = k\<lparr>api_faults := fs3\<rparr>"
        "find_object cm_key (ch_clusterNamespace c, GetConfigMapName (ch_clusterName c)) (cms k) = prev"
      using get_config_map_spec [OF prev [unfolded child_GetConfigMap_def]] k2 by auto
    note m = pick_regional_ok [OF r]
    have region: "\<exists>k2 k3. deployments k2 = deployments k \<and> GetClusterDeploymentsInSameKcmRegion e (ch_deployment c) k2 = (Inr cds, k3)"
      if "ch_isClusterInRegion c"
      using cds that k3(1) by (intro exI [of _ k3] exI [of _ k4]) (simp add: in_context_Inr)
    have used: "isPreviouslyUsedRegionalCluster (Some p) (NewConfigDataFromConfigMap (cm_data cm))"
      if "find_object cm_key (ch_clusterNamespace c, GetConfigMapName (ch_clusterName c)) (cms k) = Some p" for p
      using m(3) that k3(2) by simp
    show ?thesis
      by (rule location [OF False, of k1 cloud cds]) (use cloud scope m k1 region used in auto)
  qed
qed

section \<open>The child role\<close>

definition child_cm_key :: "child_role \<Rightarrow> string \<times> string" where
  "child_cm_key c = (ch_clusterNamespace c, GetConfigMapName (ch_clusterName c))"

lemma propagate_frame:
  assumes "propagate name clusterName namespace spec msg k = (r, k')"
  shows "\<exists>fs ms. k' = k\<lparr>api_faults := fs, mcss := ms\<rparr>"
proof -
  let ?t = "\<lparr>mcs_name = name, mcs_labels = [], mcs_spec_of = None, mcs_version = 0\<rparr>"
  obtain r1 k1 where c: "CreateOrUpdate mcs_name mcs_version mcs_bump same_mcs mcss set_mcss ?t (mutate_propagation clusterName namespace spec) k = (r1, k1)"
    by fastforce
  then have "k' = k1" using assms by (auto simp: propagate_def and_then_def in_context_def split: sum.splits)
  then show ?thesis using mcs_kind.cou_spec [OF c] by (auto simp: mutate_propagation_def set_mcss_def)
qed

lemma config_map_propagation_frame:
  assumes "CreateConfigMapPropagation e c k = (r, k')"
  shows "\<exists>fs ms. k' = k\<lparr>api_faults := fs, mcss := ms\<rparr>"
proof (cases "ch_isClusterInRegion c")
  case True
  then show ?thesis using assms propagate_frame unfolding CreateConfigMapPropagation_def by fastforce
next
  case False
  then have "k' = k\<lparr>api_faults := api_faults k, mcss := mcss k\<rparr>" using assms by (simp add: CreateConfigMapPropagation_def)
  then show ?thesis by blast
qed

lemma child_config_effect:
  assumes "child_CreateOrUpdateConfigMap e c d k = (Inr (), k')" "wf_cms (cms k)" "wf_map d"
  obtains fs os ms cm where "k' = k\<lparr>api_faults := fs, cms := os, mcss := ms\<rparr>" "same_map (cm_data cm) d"
    "\<And>x. find_object cm_key x os = (if x = child_cm_key c then Some cm else find_object cm_key x (cms k))"
proof -
  let ?key = "child_cm_key c"
  obtain m k1 where m: "child_GetConfigMap c k = (Inr m, k1)"
    using assms(1) by (auto simp: child_CreateOrUpdateConfigMap_def and_then_Inr in_context_Inr)
  obtain k2 where w: "(case m of None \<Rightarrow> child_CreateConfigMap e c d k1 | Some cm \<Rightarrow> child_UpdateConfigMap cm d k1) = (Inr (), k2)"
      and p: "CreateConfigMapPropagation e c k2 = (Inr (), k')"
    using assms(1) m by (cases m) (auto simp: child_CreateOrUpdateConfigMap_def and_then_Inr in_context_Inr)
  obtain fs1 where k1: "k1 = k\<lparr>api_faults := fs1\<rparr>" and found: "find_object cm_key ?key (cms k) = m"
    using get_config_map_spec [OF m [unfolded child_GetConfigMap_def]] by (auto simp: child_cm_key_def)
  have "\<exists>fs os cm. k2 = k\<lparr>api_faults := fs, cms := os\<rparr> \<and> same_map (cm_data cm) d \<and>
    (\<forall>x. find_object cm_key x os = (if x = ?key then Some cm else find_object cm_key x (cms k)))"
  proof (cases m)
    case None
    let ?cm = "child_config_map_of e c d"
    have key: "cm_key ?cm = ?key" by (simp add: child_config_map_of_def cm_key_def child_cm_key_def)
    obtain b where "EnsureCreated cm_key cms set_cms ?cm k1 = (Inr b, k2)"
      using w None by (auto simp: child_CreateConfigMap_def and_then_Inr in_context_Inr)
    from cm_store.ensure_spec [OF this] obtain fs os where "k2 = k\<lparr>api_faults := fs, cms := os\<rparr>"
        "\<forall>x. find_object cm_key x os = (if x = ?key then Some ?cm else find_object cm_key x (cms k))"
      using found None unfolding key k1 by (auto simp: set_cms_def simp del: split_paired_All)
    moreover have "same_map (cm_data ?cm) d" using assms(3) by (simp add: child_config_map_of_def same_map_refl)
    ultimately show ?thesis by blast
  next
    case (Some cm)
    have key: "cm_key cm = ?key" using find_object_SomeD found Some by fastforce
    have "update_config_data cm d k1 = (Inr (), k2)" using w Some by (simp add: child_UpdateConfigMap_def)
    from update_config_data_spec [OF this] obtain fs os cm' where s: "k2 = k\<lparr>api_faults := fs, cms := os\<rparr>"
        "\<forall>x. find_object cm_key x os = (if x = ?key then Some cm' else find_object cm_key x (cms k))"
        "cm_data cm' = d \<or> cm' = cm \<and> maps_Equal (cm_data cm) d"
      using found Some unfolding key k1 by (auto simp del: split_paired_All)
    then have "same_map (cm_data cm') d"
      using wf_cmsD [OF assms(2)] found Some assms(3) by (auto simp: maps_Equal_same_map same_map_refl)
    then show ?thesis using s(1,2) by blast
  qed
  then obtain fs os cm where k2: "k2 = k\<lparr>api_faults := fs, cms := os\<rparr>" "same_map (cm_data cm) d"
      "\<forall>x. find_object cm_key x os = (if x = ?key then Some cm else find_object cm_key x (cms k))" by blast
  obtain fs' ms where "k' = k2\<lparr>api_faults := fs', mcss := ms\<rparr>" using config_map_propagation_frame [OF p] by blast
  then have "k' = k\<lparr>api_faults := fs', cms := os, mcss := ms\<rparr>" using k2(1) by simp
  then show ?thesis using that k2(2,3) by blast
qed

lemma reads_get_config_map [reads_rules]: "reads k (get_config_map namespace name k)"
  using reads_get [of k cm_key cms "(namespace, name)"]
  by (auto simp: get_config_map_def reads_def split: prod.splits sum.splits api_error.splits)

lemma reads_new_regional [reads_rules]: "reads k (NewRegionalClusterConfigMap e cm k)"
  by (auto simp: NewRegionalClusterConfigMap_def Let_def intro!: reads_rules split: sum.split)

lemma reads_discovery [reads_rules]: "reads k (DiscoverRegionalClusterConfigMapByLocation e c k)"
  unfolding DiscoverRegionalClusterConfigMapByLocation_def Let_def child_GetConfigMap_def
  by (auto intro!: reads_rules reads_case [OF reads_cloud] split: option.split sum.split op_error.split)

text \<open>The namespace of the regional cluster that a child names by label.\<close>

definition label_namespace :: "operator_env \<Rightarrow> child_role \<Rightarrow> string \<Rightarrow> bool" where
  "label_namespace e c ns \<longleftrightarrow>
     (if CrossNamespaceEnabled (op_environ e)
      then map_of (cd_labels (ch_deployment c)) KofRegionalClusterNamespaceLabel = Some ns
      else ns = ch_clusterNamespace c)"

lemma by_label_ok:
  assumes "DiscoverRegionalClusterCmByLabel e c name k = (Inr cm, k1)"
  obtains ns k2 where "api_get cm_key cms (ns, GetRegionalClusterConfigMapName name) k2 = (Inr cm, k1)" "\<exists>fs. k2 = k\<lparr>api_faults := fs\<rparr>"
    "label_namespace e c ns"
proof -
  let ?check = "\<lambda>ns. if ch_isClusterInRegion c
     then and_then (in_context (OpContext ''failed to determine if clusters are in the same KCM region'')
            (IsClusterInSameKcmRegion (ch_clusterName c) (ch_clusterNamespace c) name ns k))
            (\<lambda>same k. (if same then Inr () else Inl (OpText ''child cluster and regional cluster are not in the same KCM region''), k))
     else (Inr (), k)"
  obtain ns k2 where g: "?check ns = (Inr (), k2)" "api_get cm_key cms (ns, GetRegionalClusterConfigMapName name) k2 = (Inr cm, k1)"
      "label_namespace e c ns"
    using assms unfolding DiscoverRegionalClusterCmByLabel_def label_namespace_def
    by (auto simp: and_then_Inr in_context_Inr split: option.splits if_splits)
  have "reads k (?check ns)" by (auto intro!: reads_rules)
  then show ?thesis using that g reads_state [OF _ g(1)] by blast
qed

lemma reads_by_label: "reads k (DiscoverRegionalClusterCmByLabel e c name k)"
  by (auto simp: DiscoverRegionalClusterCmByLabel_def intro!: reads_rules split: option.split)

text \<open>The regional ConfigMap of a child is one of the store, and reading it changes nothing.\<close>

lemma regional_config_ok:
  assumes "GetRegionalConfigMap e c k = (Inr rc, k')"
  obtains fs where "k' = k\<lparr>api_faults := fs\<rparr>" "rc_configMap rc \<in> set (cms k)"
    "rc_clusterName rc = RegionalClusterName (NewConfigDataFromConfigMap (cm_data (rc_configMap rc)))"
    "\<And>name. map_of (cd_labels (ch_deployment c)) KofRegionalClusterNameLabel = Some name \<Longrightarrow>
       cm_name (rc_configMap rc) = GetRegionalClusterConfigMapName name \<and> label_namespace e c (cm_namespace (rc_configMap rc))"
    "map_of (cd_labels (ch_deployment c)) KofRegionalClusterNameLabel = None \<Longrightarrow> in_discovery_scope e c (rc_configMap rc)"
proof -
  let ?label = "map_of (cd_labels (ch_deployment c)) KofRegionalClusterNameLabel"
  obtain cm k1 where cm: "(case ?label of Some name \<Rightarrow> DiscoverRegionalClusterCmByLabel e c name k
        | None \<Rightarrow> DiscoverRegionalClusterConfigMapByLocation e c k) = (Inr cm, k1)"
      and rc: "NewRegionalClusterConfigMap e cm k1 = (Inr rc, k')"
    using assms by (auto simp: GetRegionalConfigMap_def and_then_Inr)
  have new: "rc_configMap rc = cm" "rc_clusterName rc = RegionalClusterName (NewConfigDataFromConfigMap (cm_data cm))"
    using rc by (auto simp: NewRegionalClusterConfigMap_def Let_def and_then_Inr split: sum.splits if_splits)
  obtain fs1 where k': "k' = k1\<lparr>api_faults := fs1\<rparr>" using reads_state [OF reads_new_regional rc] by blast
  have found: "(\<exists>fs. k1 = k\<lparr>api_faults := fs\<rparr>) \<and> cm \<in> set (cms k) \<and>
      (case ?label of
         Some name \<Rightarrow> cm_name cm = GetRegionalClusterConfigMapName name \<and> label_namespace e c (cm_namespace cm)
       | None \<Rightarrow> in_discovery_scope e c cm)"
  proof (cases ?label)
    case None
    then have d: "DiscoverRegionalClusterConfigMapByLocation e c k = (Inr cm, k1)" using cm by simp
    have "cm \<in> set (cms k)" "in_discovery_scope e c cm" using d by (auto elim: discovery_ok)
    then show ?thesis using reads_state [OF reads_discovery d] None by simp
  next
    case (Some name)
    then have d: "DiscoverRegionalClusterCmByLabel e c name k = (Inr cm, k1)" using cm by simp
    obtain ns k2 where g: "api_get cm_key cms (ns, GetRegionalClusterConfigMapName name) k2 = (Inr cm, k1)" "\<exists>fs. k2 = k\<lparr>api_faults := fs\<rparr>"
        "label_namespace e c ns"
      by (rule by_label_ok [OF d])
    then show ?thesis using api_get_ok [OF g(1)] Some
      by (auto simp: cm_key_def dest!: find_object_SomeD)
  qed
  show ?thesis using that [of "api_faults k'"] k' found new by (auto split: option.splits)
qed

lemma child_reconcile_effect:
  assumes "child_role_Reconcile e c k = (Inr (), k')" "wf_cms (cms k)" "wf_secrets (secrets k)"
  obtains rc k1 own where "GetRegionalConfigMap e c k = (Inr rc, k1)"
    "find_object cm_key (child_cm_key c) (cms k') = Some own" "same_map (cm_data own) (cm_data (rc_configMap rc))"
    "\<And>x. x \<noteq> child_cm_key c \<Longrightarrow> find_object cm_key x (cms k') = find_object cm_key x (cms k)"
    "creds_ready (child_user_options (op_environ e) c (rc_clusterName rc)) (secrets k')"
    "user_ready (op_environ e) (child_user_options (op_environ e) c (rc_clusterName rc)) (vmusers k')"
    "mcs_ready (op_environ e) (child_user_options (op_environ e) c (rc_clusterName rc)) (mcss k')"
proof -
  obtain rc k1 where rc: "GetRegionalConfigMap e c k = (Inr rc, k1)"
    using assms(1) by (auto simp: child_role_Reconcile_def and_then_Inr in_context_Inr)
  let ?opts = "child_user_options (op_environ e) c (rc_clusterName rc)"
  obtain k2 where k2: "child_CreateOrUpdateConfigMap e c (cm_data (rc_configMap rc)) k1 = (Inr (), k2)"
      and u: "CreateVMUserCredentials e c (rc_clusterName rc) k2 = (Inr (), k')"
    using assms(1) rc by (auto simp: child_role_Reconcile_def and_then_Inr in_context_Inr)
  obtain fs where k1: "k1 = k\<lparr>api_faults := fs\<rparr>" "rc_configMap rc \<in> set (cms k)" by (rule regional_config_ok [OF rc])
  have wf: "wf_cms (cms k1)" "wf_map (cm_data (rc_configMap rc))" using assms(2) k1 by (auto simp: wf_cms_def)
  obtain fs2 os ms own where w: "k2 = k1\<lparr>api_faults := fs2, cms := os, mcss := ms\<rparr>" "same_map (cm_data own) (cm_data (rc_configMap rc))"
      "\<And>x. find_object cm_key x os = (if x = child_cm_key c then Some own else find_object cm_key x (cms k1))"
    by (rule child_config_effect [OF k2 wf]) blast
  have cr: "Create (op_random e) (op_environ e) ?opts k2 = (None, k')"
    using u by (auto simp: CreateVMUserCredentials_def create_user_def split: prod.splits option.splits)
  have "cms k' = os" using Create_frame [OF cr] w(1) by (auto simp: k1)
  then show ?thesis using that [OF rc] w(2,3) Create_ready [OF cr] assms(3) w(1) k1 by simp
qed

section \<open>Tenants\<close>

text \<open>A route is confined to a tenant when reading is filtered by it and writing is labelled with it.\<close>

definition confined :: "string \<Rightarrow> target_ref \<Rightarrow> bool" where
  "confined tenant t \<longleftrightarrow>
     (let path = hd (Paths t)
      in if path \<in> {''/vlas/.*'', ''/vls/.*''} then
           QueryArgs t = [\<lparr>ArgName = ''extra_filters'', ArgValues = [formatFilterParams ''tenant'' tenant]\<rparr>]
         else if path = ''/vts/.*'' then
           QueryArgs t = [\<lparr>ArgName = ''extra_filters'', ArgValues = [formatFilterParams ''resource_attr:tenant'' tenant]\<rparr>]
         else if path = ''/vm/select/.*'' then
           QueryArgs t = [\<lparr>ArgName = ''extra_filters'', ArgValues = [''{'' @ vm_filter ''tenant'' tenant @ ''}'']\<rparr>]
         else if path = ''/vm/insert/.*'' then QueryArgs t = [\<lparr>ArgName = ''extra_label'', ArgValues = [''tenant='' @ tenant]\<rparr>]
         else if path = ''/vti/.*'' then QueryArgs t = [\<lparr>ArgName = ''extra_fields'', ArgValues = [''resource_attr:tenant='' @ tenant]\<rparr>]
         else path \<in> {''/vlai/.*'', ''/vli/.*''} \<and> QueryArgs t = [\<lparr>ArgName = ''extra_fields'', ArgValues = [''tenant='' @ tenant]\<rparr>])"

lemma child_routes_confined:
  "t \<in> set (TargetRefs (vmuser_spec_of e (child_user_options e c r))) \<Longrightarrow> confined (tenant_of (ch_deployment c)) t"
  by (auto simp: vmuser_spec_of_def child_user_options_def buildTargetRefs_def route_paths_def buildQueryArgs_def applyExtraFilters_def
      applyExtraLabel_def no_args_def formatLabelParam_def confined_def Let_def)

section \<open>Progress\<close>

lemma update_config_data_succeeds:
  "api_faults k = [] \<Longrightarrow> find_object cm_key (cm_key cm) (cms k) = Some cm \<Longrightarrow> \<exists>os. update_config_data cm d k = (Inr (), k\<lparr>cms := os\<rparr>)"
proof -
  assume q: "api_faults k = []" "find_object cm_key (cm_key cm) (cms k) = Some cm"
  have "cm_key (cm\<lparr>cm_data := d\<rparr>) = cm_key cm" by (simp add: cm_key_def)
  then have "\<exists>os. update_object cm_key cm_version cm_bump (cm\<lparr>cm_data := d\<rparr>) (cms k) = Inr os" using q(2) by (simp add: update_object_def)
  moreover have "\<exists>os. k = k\<lparr>cms := os\<rparr>" by (rule exI [of _ "cms k"]) simp
  ultimately show ?thesis using q(1)
    by (auto simp: update_config_data_def api_update_def in_context_def set_cms_def)
qed

lemma propagate_succeeds: "api_faults k = [] \<Longrightarrow> \<exists>ms. propagate name clusterName namespace spec msg k = (Inr (), k\<lparr>mcss := ms\<rparr>)"
proof -
  assume q: "api_faults k = []"
  obtain res os where "CreateOrUpdate mcs_name mcs_version mcs_bump same_mcs mcss set_mcss
      \<lparr>mcs_name = name, mcs_labels = [], mcs_spec_of = None, mcs_version = 0\<rparr> (mutate_propagation clusterName namespace spec) k =
      (Inr res, set_mcss os k)"
    using mcs_kind.cou_succeeds [OF q, of "mutate_propagation clusterName namespace spec" same_mcs
        "\<lparr>mcs_name = name, mcs_labels = [], mcs_spec_of = None, mcs_version = 0\<rparr>"]
    by (auto simp: mutate_propagation_def)
  then show ?thesis by (auto simp: propagate_def and_then_def in_context_def set_mcss_def)
qed

lemma child_config_succeeds:
  assumes "api_faults k = []"
  shows "\<exists>k'. child_CreateOrUpdateConfigMap e c d k = (Inr (), k') \<and> api_faults k' = []"
proof -
  let ?w = "case find_object cm_key (child_cm_key c) (cms k) of
      None \<Rightarrow> child_CreateConfigMap e c d k | Some cm \<Rightarrow> child_UpdateConfigMap cm d k"
  have "\<exists>os. ?w = (Inr (), k\<lparr>cms := os\<rparr>)"
  proof (cases "find_object cm_key (child_cm_key c) (cms k)")
    case None
    have "cm_key (child_config_map_of e c d) = child_cm_key c" by (simp add: child_config_map_of_def cm_key_def child_cm_key_def)
    then show ?thesis using None assms
      by (auto simp: child_CreateConfigMap_def EnsureCreated_def api_create_def create_object_def and_then_def in_context_def set_cms_def)
  next
    case (Some cm)
    then have "cm_key cm = child_cm_key c" by (auto dest: find_object_SomeD)
    then show ?thesis using Some update_config_data_succeeds [OF assms, of cm d] by (simp add: child_UpdateConfigMap_def)
  qed
  then obtain os where w: "?w = (Inr (), k\<lparr>cms := os\<rparr>)" by blast
  have "\<exists>ms. CreateConfigMapPropagation e c (k\<lparr>cms := os\<rparr>) = (Inr (), k\<lparr>cms := os, mcss := ms\<rparr>)"
  proof (cases "ch_isClusterInRegion c")
    case True
    then show ?thesis using propagate_succeeds [of "k\<lparr>cms := os\<rparr>"] assms by (simp add: CreateConfigMapPropagation_def)
  next
    case False
    then show ?thesis by (intro exI [of _ "mcss k"]) (simp add: CreateConfigMapPropagation_def)
  qed
  then obtain ms where "CreateConfigMapPropagation e c (k\<lparr>cms := os\<rparr>) = (Inr (), k\<lparr>cms := os, mcss := ms\<rparr>)" by blast
  then have "child_CreateOrUpdateConfigMap e c d k = (Inr (), k\<lparr>cms := os, mcss := ms\<rparr>)"
    using w assms
    by (auto simp: child_CreateOrUpdateConfigMap_def child_GetConfigMap_def get_config_map_idle child_cm_key_def and_then_def in_context_def
        split: option.splits)
  then show ?thesis using assms by simp
qed

lemma child_reconcile_succeeds:
  assumes "api_faults k = []" "\<forall>i. \<exists>b. op_random e i = Inr b" "GetRegionalConfigMap e c k = (Inr rc, k1)"
  shows "\<exists>k'. child_role_Reconcile e c k = (Inr (), k')"
proof -
  obtain fs where "k1 = k\<lparr>api_faults := fs\<rparr>" by (rule regional_config_ok [OF assms(3)])
  have "reads k (GetRegionalConfigMap e c k)"
    unfolding GetRegionalConfigMap_def
    by (auto intro!: reads_rules reads_by_label split: option.split)
  then have k1: "k1 = k" by (rule reads_quiet [OF _ assms(1,3)])
  obtain k2 where k2: "child_CreateOrUpdateConfigMap e c (cm_data (rc_configMap rc)) k = (Inr (), k2)" "api_faults k2 = []"
    using child_config_succeeds [OF assms(1)] by blast
  have "OptName (child_user_options (op_environ e) c (rc_clusterName rc)) \<noteq> []"
    by (simp add: child_user_options_def GetVMUserName_def Adler32Checksum_def)
  then obtain k3 where "Create (op_random e) (op_environ e) (child_user_options (op_environ e) c (rc_clusterName rc)) k2 = (None, k3)"
    using Create_succeeds [OF k2(2) _ assms(2)] by blast
  then show ?thesis
    using k2(1) assms(3) k1 by (simp add: child_role_Reconcile_def CreateVMUserCredentials_def create_user_def and_then_def in_context_def)
qed

lemma pick_regional_complete:
  assumes "cm \<in> set l" "regional_matches c cloud cds (NewConfigDataFromConfigMap (cm_data cm))"
  shows "\<exists>cm'. pick_regional c cloud cds None l = Inr cm'"
proof (cases "scan_regional c cloud cds None [] l")
  case (Inr cands)
  then have "cm \<in> set cands" using scan_regional_candidates [OF Inr] assms by auto
  then show ?thesis using Inr by (auto simp: pick_regional_def split: list.split)
qed (simp add: pick_regional_def)

lemma discovery_complete:
  assumes "api_faults k = []" "\<not> RegionlessEnabled (op_environ e)" "\<not> ch_isClusterInRegion c"
    and "getCloud (ch_deployment c) k = (Inr cloud, k)" "find_object cm_key (child_cm_key c) (cms k) = None"
    and "cm \<in> set (cms k)" "in_discovery_scope e c cm" "regional_matches c cloud [] (NewConfigDataFromConfigMap (cm_data cm))"
  shows "\<exists>cm'. DiscoverRegionalClusterConfigMapByLocation e c k = (Inr cm', k) \<and> cm' \<in> set (cms k) \<and>
    in_discovery_scope e c cm' \<and> regional_matches c cloud [] (NewConfigDataFromConfigMap (cm_data cm'))"
proof -
  let ?l = "filter (\<lambda>cm. has_label KofClusterRoleLabel ''regional'' (cm_labels cm) \<and>
      (CrossNamespaceEnabled (op_environ e) \<or> cm_namespace cm = ch_clusterNamespace c)) (cms k)"
  have "cm \<in> set ?l" using assms(2,6,7) by (simp add: in_discovery_scope_def)
  then obtain cm' where p: "pick_regional c cloud [] None ?l = Inr cm'" using pick_regional_complete assms(8) by blast
  then have "cm' \<in> set (cms k) \<and> in_discovery_scope e c cm' \<and> regional_matches c cloud [] (NewConfigDataFromConfigMap (cm_data cm'))"
    using pick_regional_ok(1,2) [OF p] assms(2) by (simp add: in_discovery_scope_def)
  then show ?thesis
    using assms(1-5) p
    by (simp add: DiscoverRegionalClusterConfigMapByLocation_def api_list_def child_GetConfigMap_def get_config_map_idle child_cm_key_def and_then_def in_context_def)
qed

section \<open>Properties\<close>

text \<open>
  The configuration data of a cluster survive the way through a ConfigMap, in whatever order the
  API server returns the keys, and different data give different ConfigMaps.
\<close>

theorem config_data_roundtrip:
  "(same_map d (ToMap c) \<longrightarrow> NewConfigDataFromConfigMap d = c) \<and> wf_map (ToMap c) \<and> (ToMap c = ToMap c' \<longleftrightarrow> c = c')"
  using config_data_roundtrip_map [of d c] config_data_keys [of c] config_data_roundtrip_map [of "ToMap c"]
    same_map_refl [OF config_data_keys [of c]] by metis

text \<open>
  C23: A successful run of the regional role publishes the cluster: its ConfigMap holds the data of the
  deployment (its own name, namespace, cloud and location among them), and no other ConfigMap
  changes.
\<close>

theorem regional_config_published:
  assumes "regional_role_Reconcile e r k = (Inr (), k')" "wf_cms (cms k)"
  shows "\<exists>cm cfg. yaml_config e (cd_config (rr_deployment r)) = Inr cfg \<and>
    find_object cm_key (regional_cm_key (rr_deployment r)) (cms k') = Some cm \<and>
    (let d = NewConfigDataFromConfigMap (cm_data cm)
     in RegionalClusterName d = cd_name (rr_deployment r) \<and> RegionalClusterNamespace d = cd_namespace (rr_deployment r) \<and>
        fst (getCloud (rr_deployment r) k) = Inr (RegionalClusterCloud d) \<and>
        ToClusterDeploymentConfig d = cfg\<lparr>ClusterAnnotations := []\<rparr>) \<and>
    (\<forall>x. x \<noteq> regional_cm_key (rr_deployment r) \<longrightarrow> find_object cm_key x (cms k') = find_object cm_key x (cms k))"
proof -
  obtain d k1 fs os cm where w: "NewConfigDataFromClusterDeployment e (rr_deployment r) k = (Inr d, k1)"
    "k' = k\<lparr>api_faults := fs, cms := os\<rparr>" "same_map (cm_data cm) (ToMap d)"
    "\<And>x. find_object cm_key x os = (if x = regional_cm_key (rr_deployment r) then Some cm else find_object cm_key x (cms k))"
    by (rule regional_role_effect [OF assms]) blast
  obtain cfg cloud where c: "yaml_config e (cd_config (rr_deployment r)) = Inr cfg" "getCloud (rr_deployment r) k = (Inr cloud, k1)"
    "cluster_config_data (rr_deployment r) cfg cloud = Inr d" by (rule config_data_ok [OF w(1)])
  then show ?thesis
    using w(2,4) cluster_config_identity [OF c(3)] config_data_roundtrip_map [OF w(3)]
    by (intro exI [of _ cm] exI [of _ cfg]) (simp add: Let_def del: split_paired_All)
qed

text \<open>
  C24: Discovery by location is sticky. Where regions are in use, a child cluster that already has a
  ConfigMap gets the regional cluster named there or an error, never another one, and the regional
  cluster has the cloud and the location of the child and is in a namespace that the settings allow.
  In regionless mode neither the ConfigMap nor the location counts: every child gets a ConfigMap of
  the system namespace with the regionless label.
\<close>

theorem discovery_sticky:
  assumes "DiscoverRegionalClusterConfigMapByLocation e c k = (Inr cm, k')"
    and "find_object cm_key (child_cm_key c) (cms k) = Some own"
  shows "cm \<in> set (cms k) \<and> get_str (cm_labels cm) KofClusterRoleLabel = ''regional'' \<and>
    (if RegionlessEnabled (op_environ e)
     then cm_namespace cm = DefaultSystemNamespace \<and> get_str (cm_labels cm) KofRegionlessLabel = ''true''
     else (let d = NewConfigDataFromConfigMap (cm_data cm)
       in RegionalClusterName d = get_str (cm_data own) RegionalClusterNameKey \<and>
          (get_str (cm_data own) RegionalClusterNamespaceKey \<in> {[], RegionalClusterNamespace d}) \<and>
          fst (getCloud (ch_deployment c) (k\<lparr>api_faults := []\<rparr>)) = Inr (RegionalClusterCloud d) \<and>
          locationIsTheSame (RegionalClusterCloud d) (ch_config c) (ToClusterDeploymentConfig d) \<and>
          (CrossNamespaceEnabled (op_environ e) \<or> cm_namespace cm = ch_clusterNamespace c)))"
  using assms(1)
proof (cases rule: discovery_ok)
  case regionless
  then show ?thesis
    by (auto simp: in_discovery_scope_def isRegionlessConfigMap_def has_label_def get_str_def)
next
  case (location cloud cds k1)
  have "getCloud (ch_deployment c) (k\<lparr>api_faults := []\<rparr>) = (Inr cloud, k\<lparr>api_faults := []\<rparr>)"
    using getCloud_again [OF location(2)] location(3) by simp
  moreover have "get_str (cm_labels cm) KofClusterRoleLabel = ''regional''"
    "CrossNamespaceEnabled (op_environ e) \<or> cm_namespace cm = ch_clusterNamespace c"
    using location(1,5) by (auto simp: in_discovery_scope_def has_label_def get_str_def)
  ultimately show ?thesis
    using location(1,4,6) location(8) assms(2)
    by (auto simp: Let_def child_cm_key_def regional_matches_def isPreviouslyUsedRegionalCluster_def)
qed

text \<open>
  A child cluster is attached to the regional cluster of a ConfigMap: its own ConfigMap has the same
  data, its VMUser can log in, and, where regions are in use, VMUser and password are propagated to
  the cluster whose name label is the name in the data.
\<close>

definition attached :: "operator_env \<Rightarrow> child_role \<Rightarrow> config_map \<Rightarrow> op_api \<Rightarrow> bool" where
  "attached e c cm k \<longleftrightarrow>
     (\<exists>own. find_object cm_key (child_cm_key c) (cms k) = Some own \<and>
        NewConfigDataFromConfigMap (cm_data own) = NewConfigDataFromConfigMap (cm_data cm)) \<and>
     (let name = GetVMUserName (GetConfigMapName (ch_clusterName c)) (ch_clusterNamespace c)
      in \<exists>u sp. find_object vu_key (ch_clusterNamespace c, ''kof-vmuser-'' @ name) (vmusers k) = Some u \<and>
        login_works name (secrets k) u sp \<and>
        (\<not> RegionlessEnabled (op_environ e) \<longrightarrow>
           propagated (op_environ e) name [ClusterNameLabel \<mapsto> RegionalClusterName (NewConfigDataFromConfigMap (cm_data cm))] []
             (mcss k) u (PasswordRefName sp)))"

lemma child_attached:
  assumes "child_role_Reconcile e c k = (Inr (), k')" "wf_cms (cms k)" "wf_secrets (secrets k)"
    and "GetRegionalConfigMap e c k = (Inr rc, k1)"
  shows "attached e c (rc_configMap rc) k'" "x \<noteq> child_cm_key c \<Longrightarrow> find_object cm_key x (cms k') = find_object cm_key x (cms k)"
proof -
  let ?opts = "child_user_options (op_environ e) c (rc_clusterName rc)"
  obtain rc' k1' own where w: "GetRegionalConfigMap e c k = (Inr rc', k1')"
    "find_object cm_key (child_cm_key c) (cms k') = Some own" "same_map (cm_data own) (cm_data (rc_configMap rc'))"
    "\<And>x. x \<noteq> child_cm_key c \<Longrightarrow> find_object cm_key x (cms k') = find_object cm_key x (cms k)"
    "creds_ready (child_user_options (op_environ e) c (rc_clusterName rc')) (secrets k')"
    "user_ready (op_environ e) (child_user_options (op_environ e) c (rc_clusterName rc')) (vmusers k')"
    "mcs_ready (op_environ e) (child_user_options (op_environ e) c (rc_clusterName rc')) (mcss k')"
    by (rule child_reconcile_effect [OF assms(1-3)]) blast
  have rc: "rc' = rc" using w(1) assms(4) by simp
  show "find_object cm_key x (cms k') = find_object cm_key x (cms k)" if "x \<noteq> child_cm_key c" using w(4) that .
  have same: "NewConfigDataFromConfigMap (cm_data own) = NewConfigDataFromConfigMap (cm_data (rc_configMap rc))"
    using same_map_get_str [OF w(3)] by (simp add: NewConfigDataFromConfigMap_def rc)
  have name: "rc_clusterName rc = RegionalClusterName (NewConfigDataFromConfigMap (cm_data (rc_configMap rc)))"
    by (rule regional_config_ok [OF assms(4)])
  obtain u sp where u: "find_object vu_key (OptNamespace ?opts, BuildVMUserName (OptName ?opts)) (vmusers k') = Some u"
    "login_works (OptName ?opts) (secrets k') u sp" "PasswordRefName sp = BuildSecretName (OptName ?opts)"
    using ready_login [OF w(5,6) [unfolded rc]] by blast
  have "vu_namespace u = OptNamespace ?opts" "vu_name u = BuildVMUserName (OptName ?opts)"
    using find_object_SomeD [OF u(1)] by (simp_all add: vu_key_def)
  from ready_propagated [OF w(7) [unfolded rc] _ _ this]
  have "propagated (op_environ e) (OptName ?opts) [ClusterNameLabel \<mapsto> rc_clusterName rc] [] (mcss k') u (PasswordRefName sp)"
    if "\<not> RegionlessEnabled (op_environ e)"
    using that u(3) by (simp add: child_user_options_def)
  then show "attached e c (rc_configMap rc) k'"
    using w(2) same u(1,2) name unfolding attached_def Let_def
    by (simp add: child_user_options_def BuildVMUserName_def) blast
qed


text \<open>
  C26: A child cluster is confined to its tenant: after a successful run its VMUser exists, and every
  route of it filters what is read by the tenant on the label of the deployment (\<open>PLATFORM\<close> without
  the label) and labels what is written with it.
\<close>

theorem child_confined_to_tenant:
  assumes "child_role_Reconcile e c k = (Inr (), k')" "wf_cms (cms k)" "wf_secrets (secrets k)"
  shows "\<exists>u spec. find_object vu_key
      (ch_clusterNamespace c, BuildVMUserName (GetVMUserName (GetConfigMapName (ch_clusterName c)) (ch_clusterNamespace c))) (vmusers k') = Some u \<and>
    vu_spec u = Some spec \<and> length (TargetRefs spec) = 8 \<and> (\<forall>t \<in> set (TargetRefs spec). confined (tenant_of (ch_deployment c)) t)"
proof -
  obtain rc :: regional_config_map where "user_ready (op_environ e) (child_user_options (op_environ e) c (rc_clusterName rc)) (vmusers k')"
    by (rule child_reconcile_effect [OF assms]) blast
  then obtain u where "find_object vu_key
      (ch_clusterNamespace c, BuildVMUserName (GetVMUserName (GetConfigMapName (ch_clusterName c)) (ch_clusterNamespace c))) (vmusers k') = Some u"
      "vu_spec u = Some (vmuser_spec_of (op_environ e) (child_user_options (op_environ e) c (rc_clusterName rc)))"
    by (auto simp: user_ready_def child_user_options_def)
  moreover have "length (TargetRefs (vmuser_spec_of (op_environ e) (child_user_options (op_environ e) c (rc_clusterName rc)))) = 8"
    by (simp add: vmuser_spec_of_def buildTargetRefs_def route_paths_def Let_def)
  ultimately show ?thesis using child_routes_confined by blast
qed

section \<open>Settling\<close>

lemma role_settles:
  assumes "ReconcileKofClusterRole e cd k = (Inr (), k')" "get_str (cd_labels cd) KofClusterRoleLabel \<noteq> ''child''" "wf_cms (cms k)"
  shows "ReconcileKofClusterRole e cd (k'\<lparr>api_faults := []\<rparr>) = (Inr (), k'\<lparr>api_faults := []\<rparr>) \<and> deployments k' = deployments k"
proof (cases "get_str (cd_labels cd) KofClusterRoleLabel = ''regional''")
  case True
  let ?K = "k'\<lparr>api_faults := []\<rparr>"
  obtain r where r: "NewRegionalClusterRole e cd = Inr r" "regional_role_Reconcile e r k = (Inr (), k')"
    using assms(1) True by (auto simp: ReconcileKofClusterRole_def split: sum.splits)
  obtain d k1 fs os cm where w: "NewConfigDataFromClusterDeployment e (rr_deployment r) k = (Inr d, k1)"
    "k' = k\<lparr>api_faults := fs, cms := os\<rparr>" "same_map (cm_data cm) (ToMap d)"
    "\<And>x. find_object cm_key x os = (if x = regional_cm_key (rr_deployment r) then Some cm else find_object cm_key x (cms k))"
    by (rule regional_role_effect [OF r(2) assms(3)]) blast
  have "NewConfigDataFromClusterDeployment e (rr_deployment r) ?K = (Inr d, ?K)"
    by (rule config_data_again [OF w(1)]) (simp_all add: w(2))
  then have "regional_role_Reconcile e r ?K = (Inr (), ?K)"
    by (rule regional_role_idle) (use w(2-4) in simp_all)
  then show ?thesis using True r(1) w(2) by (simp add: ReconcileKofClusterRole_def)
qed (use assms in \<open>simp add: ReconcileKofClusterRole_def\<close>)

lemma cleanup_settles:
  assumes "CleanupChildConfigMapMcsPropagation name k = (Inr (), k')"
  shows "CleanupChildConfigMapMcsPropagation name (k'\<lparr>api_faults := []\<rparr>) = (Inr (), k'\<lparr>api_faults := []\<rparr>) \<and> deployments k' = deployments k"
proof -
  have d: "deleteResource mcs_name mcss set_mcss (GetChildConfigMapPropagationName name) k = (None, k')"
    using assms by (auto simp: CleanupChildConfigMapMcsPropagation_def cleanup_mcs_def api_ctx_def in_context_Inr split: prod.splits option.splits)
  obtain fs os where "k' = set_mcss os (k\<lparr>api_faults := fs\<rparr>)" "find_object mcs_name (GetChildConfigMapPropagationName name) os = None"
    using mcs_kind.delete_spec [OF d] by auto
  then show ?thesis
    by (simp add: CleanupChildConfigMapMcsPropagation_def cleanup_mcs_def deleteResource_def delete_object_def api_ctx_def in_context_def set_mcss_def)
qed

text \<open>
  C27: Reconciliation of a deployment that is not a child comes to rest: a successful run either adds the
  missing label with the name of the cluster, or leaves a state in which another run changes nothing.
  So two successful runs reach a fixed point, and the events of the controller's own writes end.
\<close>

theorem reconcile_settles:
  assumes "ClusterDeployment_Reconcile e req k = (Inr (), k')" "wf_cms (cms k)"
    and "\<And>cd. find_object cd_key req (deployments k) = Some cd \<Longrightarrow> get_str (cd_labels cd) KofClusterRoleLabel \<noteq> ''child''"
  shows "(\<exists>cd cd'. find_object cd_key req (deployments k) = Some cd \<and> \<not> HasClusterNameLabel (cd_labels cd) \<and>
       find_object cd_key req (deployments k') = Some cd' \<and> HasClusterNameLabel (cd_labels cd')) \<or>
     ClusterDeployment_Reconcile e req (k'\<lparr>api_faults := []\<rparr>) = (Inr (), k'\<lparr>api_faults := []\<rparr>)"
proof -
  obtain r k1 where g: "api_get cd_key deployments req k = (r, k1)" by fastforce
  obtain fs where k1: "k1 = k\<lparr>api_faults := fs\<rparr>" and r: "case r of Inr cd \<Rightarrow> find_object cd_key req (deployments k) = Some cd
      | Inl NotFound \<Rightarrow> find_object cd_key req (deployments k) = None | Inl _ \<Rightarrow> True"
    using cd_store.get_spec [OF g] by auto
  show ?thesis
  proof (cases r)
    case (Inl err)
    then have "err = NotFound" "CleanupChildConfigMapMcsPropagation (snd req) k1 = (Inr (), k')"
      using assms(1) g by (auto simp: ClusterDeployment_Reconcile_def split: api_error.splits)
    then show ?thesis using cleanup_settles [of "snd req" k1 k'] r Inl k1 by (simp add: ClusterDeployment_Reconcile_def api_get_def)
  next
    case (Inr cd)
    then have cd: "find_object cd_key req (deployments k) = Some cd" using r by simp
    then have key: "cd_key cd = req" by (auto dest: find_object_SomeD)
    show ?thesis
    proof (cases "HasClusterNameLabel (cd_labels cd)")
      case True
      then have "ReconcileKofClusterRole e cd k1 = (Inr (), k')" using assms(1) g Inr by (simp add: ClusterDeployment_Reconcile_def)
      then show ?thesis using role_settles [of e cd k1 k'] assms(2,3) cd k1 True
        by (simp add: ClusterDeployment_Reconcile_def api_get_def)
    next
      case False
      let ?cd = "cd\<lparr>cd_labels := map_set ClusterNameLabel (cd_name cd) (cd_labels cd)\<rparr>"
      have "api_update cd_key cd_version cd_bump deployments set_deployments ?cd k1 = (Inr (), k')"
        using assms(1) g Inr False by (simp add: ClusterDeployment_Reconcile_def addClusterNameLabel_def api_ctx_def in_context_Inr)
      from cd_store.update_spec [OF this] have "find_object cd_key req (deployments k') = Some (cd_bump ?cd)"
        using key by (auto simp: set_deployments_def cd_key_def simp del: split_paired_All)
      then show ?thesis using cd False by (auto simp: HasClusterNameLabel_def HasLabel_def cd_bump_def)
    qed
  qed
qed


section \<open>Examples\<close>

definition ex_cfg :: cluster_deployment_config where
  "ex_cfg = \<lparr>ClusterAnnotations = [(KofRegionalDomainAnnotation, ''r1.example'')], CfgRegion = ''us-east-2'', CfgLocation = [],
     IdentityRegion = [], Datacenter = []\<rparr>"

definition ex_op :: operator_env where
  "ex_op = \<lparr>op_environ = [(''RELEASE_NAMESPACE'', ''kof''), (''KOF_VL_CLUSTER_NAME'', ''vl''), (''KOF_VT_CLUSTER_NAME'', ''vt'')],
     isIstio = False, yaml_config = (\<lambda>_. Inr ex_cfg), http_json = (\<lambda>_ c. Inr c),
     url_parse = (\<lambda>s. Inr \<lparr>Scheme = ''https'', Host = ''vmauth.r1.example'', Hostname = ''vmauth.r1.example'', Port = [], Path = s\<rparr>),
     current_context = (\<lambda>_. Inr []), kind_of = (\<lambda>t. Inr (''v1'', t)), op_random = ex_rand, new_uid = (\<lambda>_. ''uid'')\<rparr>"

definition ex_cd :: "string \<Rightarrow> string \<Rightarrow> cluster_deployment" where
  "ex_cd name role =
     \<lparr>cd_namespace = ''kcm'', cd_name = name, cd_uid = ''u'', cd_labels = [(KofClusterRoleLabel, role), (ClusterNameLabel, name)],
      cd_annotations = [], cd_template = ''aws'', cd_credential = ''c'', cd_config = [], cd_region = [], cd_version = 0\<rparr>"

definition ex_state :: op_api where
  "ex_state = \<lparr>api_faults = [], secrets = [], vmusers = [], mcss = [], cms = [],
     deployments = [ex_cd ''r1'' ''regional'', ex_cd ''c1'' ''child''],
     templates = [\<lparr>ct_namespace = ''kcm'', ct_name = ''aws'', Providers = [''bootstrap-k0s'', ''infrastructure-aws'']\<rparr>],
     regions = [], creds = [], groups = [], conns = [], pods = [], posted = []\<rparr>"

definition ex_role :: regional_role where
  "ex_role = \<lparr>rr_deployment = ex_cd ''r1'' ''regional'',
     rr_owner = \<lparr>owner_api = ''v1'', owner_kind = ''ClusterDeployment'', owner_name = ''r1'', owner_uid = ''u''\<rparr>\<rparr>"

definition ex_child :: child_role where
  "ex_child = \<lparr>ch_clusterName = ''c1'', ch_clusterNamespace = ''kcm'', ch_isClusterInRegion = False, ch_deployment = ex_cd ''c1'' ''child'',
     ch_config = ex_cfg, ch_owner = \<lparr>owner_api = ''v1'', owner_kind = ''ClusterDeployment'', owner_name = ''c1'', owner_uid = ''u''\<rparr>\<rparr>"

text \<open>The regional cluster published, then the child attached, then the child again.\<close>

definition ex_regional :: op_api where
  "ex_regional = snd (regional_role_Reconcile ex_op ex_role ex_state)"

definition ex_attached :: op_api where
  "ex_attached = snd (child_role_Reconcile ex_op ex_child ex_regional)"

lemma ex_regional_ok: "fst (regional_role_Reconcile ex_op ex_role ex_state) = Inr ()"
  by code_simp

lemma ex_regional_data:
  "map cm_key (cms ex_regional) = [(''kcm'', ''kof-r1'')]"
  "api_faults ex_regional = []" "secrets ex_regional = []" "wf_map (cm_data (hd (cms ex_regional)))"
  "NewConfigDataFromConfigMap (cm_data (hd (cms ex_regional))) =
     empty_config\<lparr>RegionalClusterName := ''r1'', RegionalClusterNamespace := ''kcm'', RegionalClusterCloud := ''aws'',
       AWSRegion := ''us-east-2'', ReadMetricsEndpoint := ''https://vmauth.r1.example/vm/select/0/prometheus'',
       ReadLogsEndpoint := ''https://vmauth.r1.example/vls'', ReadAuditLogsEndpoint := ''https://vmauth.r1.example/vlas'',
       ReadTracesEndpoint := ''https://vmauth.r1.example/vts'',
       WriteMetricsEndpoint := ''https://vmauth.r1.example/vm/insert/0/prometheus/api/v1/write'',
       WriteLogsEndpoint := ''https://vmauth.r1.example/vli/insert/opentelemetry/v1/logs'',
       WriteAuditLogsEndpoint := ''https://vmauth.r1.example/vlai/insert/opentelemetry/v1/logs'',
       WriteTracesEndpoint := ''https://vmauth.r1.example/vti/insert/opentelemetry/v1/traces''\<rparr>"
  by code_simp+

lemma ex_discovered: "GetRegionalConfigMap ex_op ex_child ex_regional =
    (Inr (projr (fst (GetRegionalConfigMap ex_op ex_child ex_regional))), snd (GetRegionalConfigMap ex_op ex_child ex_regional))"
proof -
  have "\<not> isl (fst (GetRegionalConfigMap ex_op ex_child ex_regional))" by code_simp
  then show ?thesis by (metis prod.collapse sum.collapse(2))
qed

lemma ex_wf_state: "wf_cms (cms ex_regional)" "wf_secrets (secrets ex_regional)" "wf_cms (cms ex_state)"
proof -
  obtain cm where "cms ex_regional = [cm]" using ex_regional_data(1) by auto
  then show "wf_cms (cms ex_regional)" using ex_regional_data(4) by (simp add: wf_cms_def)
qed (simp_all add: ex_regional_data(3) wf_secrets_def wf_cms_def ex_state_def find_object_def)

lemma ex_random: "\<forall>i. \<exists>b. op_random ex_op i = Inr b"
  by (simp add: ex_op_def ex_rand_def)

lemma ex_attached: "child_role_Reconcile ex_op ex_child ex_regional = (Inr (), ex_attached)"
  using child_reconcile_succeeds [OF ex_regional_data(2) ex_random ex_discovered] by (auto simp: ex_attached_def)

lemma ex_published: "regional_role_Reconcile ex_op ex_role ex_state = (Inr (), ex_regional)"
  using ex_regional_ok by (metis ex_regional_def prod.collapse)

theorem config_data_roundtrip_witness:
  "NewConfigDataFromConfigMap (rev (ToMap (empty_config\<lparr>RegionalClusterName := ''r1''\<rparr>))) = empty_config\<lparr>RegionalClusterName := ''r1''\<rparr>"
proof -
  have "same_map (rev (ToMap c)) (ToMap c)" for c
    using config_data_keys [of c] by (simp add: same_map_def wf_map_def rev_map [symmetric] map_of_inject_set)
  then show ?thesis using config_data_roundtrip [of "rev (ToMap (empty_config\<lparr>RegionalClusterName := ''r1''\<rparr>))"] by blast
qed

theorem regional_config_published_witness:
  "\<exists>cm. find_object cm_key (''kcm'', ''kof-r1'') (cms ex_regional) = Some cm \<and>
     RegionalClusterName (NewConfigDataFromConfigMap (cm_data cm)) = ''r1''"
  using regional_config_published [OF ex_published ex_wf_state(3)]
  by (auto simp: Let_def regional_cm_key_def ex_role_def ex_cd_def GetRegionalClusterConfigMapName_def simp del: split_paired_All)


theorem child_confined_to_tenant_witness:
  "\<exists>u spec. u \<in> set (vmusers ex_attached) \<and> vu_spec u = Some spec \<and> (\<forall>t \<in> set (TargetRefs spec). confined ''PLATFORM'' t)"
proof -
  have "tenant_of (ch_deployment ex_child) = ''PLATFORM''"
    by (simp add: tenant_of_def ex_child_def ex_cd_def KofTenantLabel_def KofClusterRoleLabel_def ClusterNameLabel_def DefaultTenantID_def)
  then show ?thesis using child_confined_to_tenant [OF ex_attached ex_wf_state(1,2)] by (fastforce dest: find_object_SomeD)
qed

text \<open>Two regional clusters in the location of a child that uses the second.\<close>

definition ex_two :: op_api where
  "ex_two = ex_regional\<lparr>cms :=
     [(hd (cms ex_regional))\<lparr>cm_name := ''kof-r0'', cm_data := map_set RegionalClusterNameKey ''r0'' (cm_data (hd (cms ex_regional)))\<rparr>,
      hd (cms ex_regional),
      child_config_map_of ex_op ex_child (cm_data (hd (cms ex_regional)))]\<rparr>"

lemma ex_two_discovered:
  "\<not> isl (fst (DiscoverRegionalClusterConfigMapByLocation ex_op ex_child ex_two))"
  "map_option (\<lambda>cm. get_str (cm_data cm) RegionalClusterNameKey) (find_object cm_key (child_cm_key ex_child) (cms ex_two)) = Some ''r1''"
  "\<not> RegionlessEnabled (op_environ ex_op)"
  by code_simp+

theorem discovery_sticky_witness:
  "\<exists>cm k'. DiscoverRegionalClusterConfigMapByLocation ex_op ex_child ex_two = (Inr cm, k') \<and>
     RegionalClusterName (NewConfigDataFromConfigMap (cm_data cm)) = ''r1''"
proof -
  obtain cm k' where d: "DiscoverRegionalClusterConfigMapByLocation ex_op ex_child ex_two = (Inr cm, k')"
    using ex_two_discovered(1) by (metis prod.collapse sum.collapse(2))
  obtain own where "find_object cm_key (child_cm_key ex_child) (cms ex_two) = Some own" "get_str (cm_data own) RegionalClusterNameKey = ''r1''"
    using ex_two_discovered(2) by auto
  then show ?thesis using discovery_sticky [OF d] ex_two_discovered(3) d by (auto simp: Let_def)
qed

lemma ex_reconciled:
  "fst (ClusterDeployment_Reconcile ex_op (''kcm'', ''r1'') ex_state) = Inr ()"
  "find_object cd_key (''kcm'', ''r1'') (deployments ex_state) = Some (ex_cd ''r1'' ''regional'')"
  "get_str (cd_labels (ex_cd ''r1'' ''regional'')) KofClusterRoleLabel = ''regional''"
  "HasClusterNameLabel (cd_labels (ex_cd ''r1'' ''regional''))"
  by code_simp+

theorem reconcile_settles_witness:
  "\<exists>k'. ClusterDeployment_Reconcile ex_op (''kcm'', ''r1'') ex_state = (Inr (), k') \<and>
     ClusterDeployment_Reconcile ex_op (''kcm'', ''r1'') (k'\<lparr>api_faults := []\<rparr>) = (Inr (), k'\<lparr>api_faults := []\<rparr>)"
proof -
  obtain k' where k': "ClusterDeployment_Reconcile ex_op (''kcm'', ''r1'') ex_state = (Inr (), k')"
    using ex_reconciled(1) by (metis prod.collapse)
  from reconcile_settles [OF this ex_wf_state(3)] k' show ?thesis using ex_reconciled(2-4) by auto
qed

lemma ex_attach_conditions:
  "getCloud (ch_deployment ex_child) ex_regional = (Inr ''aws'', ex_regional)"
  "find_object cm_key (child_cm_key ex_child) (cms ex_regional) = None"
  "in_discovery_scope ex_op ex_child (hd (cms ex_regional))"
  "regional_matches ex_child ''aws'' [] (NewConfigDataFromConfigMap (cm_data (hd (cms ex_regional))))"
  "map_of (cd_labels (ch_deployment ex_child)) KofRegionalClusterNameLabel = None" "\<not> ch_isClusterInRegion ex_child"
  "GetReleaseNamespace (op_environ ex_op) = Inr ''kof''"
  by code_simp+


end
