(* ===== verification/Operator_Process.thy ===== *)
theory Operator_Process
  imports Watcher_Process Cluster_Run
begin

text \<open>
  The start of the operator (\<open>cmd/main.go\<close>): its flags, the steps that must succeed before the
  controllers run, whether endpoints are those of Istio (\<open>InitIsIstio\<close>), and the ConfigMap of a
  management cluster that is its own region (\<open>regionless_configmap_bootstrap.go\<close>). The telemetry
  exporter, the client, the manager and its health checks are parameters: each may fail, and then the
  process exits. The routes of the web server, which runs beside, are in the theory \<open>Web\<close>.
\<close>

section \<open>Flags\<close>

record operator_vars =
  ov_metricsAddr :: string
  ov_httpServerPort :: string
  ov_probeAddr :: string
  ov_remoteWriteUrl :: string
  ov_managementClusterName :: string
  ov_enableServerCORS :: bool
  ov_runController :: bool
  ov_enableLeaderElection :: bool
  ov_secureMetrics :: bool
  ov_enableHTTP2 :: bool

definition operator_flags :: "operator_vars flag_set" where
  "operator_flags =
     [(''metrics-bind-address'', StringVar ov_metricsAddr_update),
      (''http-server-port'', StringVar ov_httpServerPort_update),
      (''health-probe-bind-address'', StringVar ov_probeAddr_update),
      (''remote-write-url'', StringVar ov_remoteWriteUrl_update),
      (''management-cluster-name'', StringVar ov_managementClusterName_update),
      (''enable-cors'', BoolVar ov_enableServerCORS_update),
      (''run-controller'', BoolVar ov_runController_update),
      (''leader-elect'', BoolVar ov_enableLeaderElection_update),
      (''metrics-secure'', BoolVar ov_secureMetrics_update),
      (''enable-http2'', BoolVar ov_enableHTTP2_update)]"

definition operator_defaults :: operator_vars where
  "operator_defaults =
     \<lparr>ov_metricsAddr = ''0'', ov_httpServerPort = ''9090'', ov_probeAddr = '':8081'',
      ov_remoteWriteUrl = ''http://vminsert-cluster:8480/insert/0/prometheus/api/v1/write'', ov_managementClusterName = ''mothership'',
      ov_enableServerCORS = True, ov_runController = True, ov_enableLeaderElection = False, ov_secureMetrics = True,
      ov_enableHTTP2 = False\<rparr>"

section \<open>Start-up\<close>

definition KofNamespace :: string where "KofNamespace = ''kof''"

text \<open>\<open>InitIsIstio\<close> on the answer for the namespace of KOF: its labels, or an error.\<close>

definition InitIsIstio :: "(string \<Rightarrow> api_error + string gomap) \<Rightarrow> op_error + bool" where
  "InitIsIstio namespace_labels =
     (case namespace_labels KofNamespace of
        Inl err \<Rightarrow> Inl (OpContext ''failed to determine Istio status because namespace is unavailable'' (OpApi err))
      | Inr labels \<Rightarrow> Inr (get_str labels ''istio-injection'' = ''enabled''))"

record 'z operator_world =
  ow_other_flags :: "'z flag_set"
  ow_other_vars :: 'z
  telemetry_error :: "string option"
  kube_client_error :: "string option"
  namespace_labels :: "string \<Rightarrow> api_error + string gomap"
  manager_error :: "string option"
  setup_error :: "string \<Rightarrow> string option"
  healthz_error :: "string option"
  readyz_error :: "string option"
  ow_env :: operator_env

definition controllers :: "string list" where
  "controllers = [''PromxyServerGroup'', ''ClusterDeployment'', ''AlertsConfigMap'', ''RegionalClusterConfigMapReconciler'', ''VMStorageConnection'']"

text \<open>
  The process has exited, or it serves: the manager runs the controllers if the flag says so, with
  \<open>isIstio\<close> set.
\<close>

datatype started = Exited nat | Serving operator_env operator_vars

definition register_flags :: "'z flag_set \<Rightarrow> (operator_vars \<times> 'z) flag_set" where
  "register_flags others = map (map_prod id on_fst) operator_flags @ map (map_prod id on_snd) others"

text \<open>The manager with its controllers and health checks, then the ConfigMap.\<close>

definition manager_ready :: "'z operator_world \<Rightarrow> bool" where
  "manager_ready w \<longleftrightarrow>
     manager_error w = None \<and> list_all (\<lambda>c. setup_error w c = None) controllers \<and> healthz_error w = None \<and> readyz_error w = None"

definition bootstrap :: "operator_env \<Rightarrow> operator_vars \<Rightarrow> op_api \<Rightarrow> started \<times> op_api" where
  "bootstrap e v k =
     (case CreateOrUpdateRegionlessConfigMap e (ov_managementClusterName v) k of
        (Inl err, k) \<Rightarrow> (Exited 1, k)
      | (Inr _, k) \<Rightarrow> (Serving e v, k))"

definition operator_main :: "'z operator_world \<Rightarrow> string list \<Rightarrow> op_api \<Rightarrow> started \<times> op_api" where
  "operator_main w args k =
     (if fst ` set (ow_other_flags w) \<inter> fst ` set operator_flags \<noteq> {} then (Exited 2, k)
      else (case Parse (register_flags (ow_other_flags w)) args (operator_defaults, ow_other_vars w) of
          Inl err \<Rightarrow> (Exited (if err = ErrHelp then 0 else 2), k)
        | Inr (v, _) \<Rightarrow>
            if telemetry_error w \<noteq> None then (Exited 1, k)
            else if kube_client_error w \<noteq> None then (Exited 1, k)
            else (case InitIsIstio (namespace_labels w) of
                Inl err \<Rightarrow> (Exited 1, k)
              | Inr istio \<Rightarrow>
                  if \<not> manager_ready w then (Exited 1, k) else bootstrap ((ow_env w)\<lparr>isIstio := istio\<rparr>) v k)))"

section \<open>Keys stay distinct\<close>

context object_store_kind
begin

lemma cou_distinct:
  assumes "CreateOrUpdate key ver bump same objs set_objs template mutate k = (r, k')" "distinct (map key (objs k))"
  shows "distinct (map key (objs k'))"
proof -
  obtain f k1 where c1: "api_call k = (f, k1)" by fastforce
  have k1: "objs k1 = objs k" using calls [OF c1] by blast
  obtain g k2 where c2: "api_call k1 = (g, k2)" by fastforce
  have k2: "objs k2 = objs k" using calls [OF c2] k1 by auto
  consider "objs k' = objs k" | obj os where "create_object key obj (objs k) = Inr os" "objs k' = os"
    | obj os where "update_object key ver bump obj (objs k) = Inr os" "objs k' = os"
    using assms(1) c1 c2 k1 k2 objs_set by (auto simp: CreateOrUpdate_def split: option.splits sum.splits if_splits)
  then show ?thesis
  proof cases
    case 2
    then show ?thesis using create_object_distinct [OF 2(1) assms(2)] by simp
  next
    case 3
    then show ?thesis using update_keys [OF 3(1)] assms(2) by simp
  qed (use assms(2) in simp)
qed

end

section \<open>The ConfigMap of the management cluster\<close>

definition wf_config_maps :: "config_map list \<Rightarrow> bool" where
  "wf_config_maps os \<longleftrightarrow> (\<forall>cm \<in> set os. wf_map (cm_labels cm) \<and> wf_map (cm_data cm))"

abbreviation regionless_key :: "string \<Rightarrow> string \<times> string" where
  "regionless_key name \<equiv> (DefaultSystemNamespace, GetRegionalClusterConfigMapName name)"

lemma regionless_written:
  assumes "CreateOrUpdateRegionlessConfigMap e name k = (Inr (), k')" "RegionlessEnabled (op_environ e)" "wf_config_maps (cms k)"
  obtains fs os cm where "k' = set_cms os (k\<lparr>api_faults := fs\<rparr>)"
    "\<And>x. find_object cm_key x os = (if x = regionless_key name then Some cm else find_object cm_key x (cms k))"
    "same_map (cm_data cm) (ToMap (NewRegionlessConfigData (op_environ e) (isIstio e) name DefaultSystemNamespace))"
    "isRegionlessConfigMap cm" "has_label KofClusterRoleLabel ''regional'' (cm_labels cm)"
proof -
  let ?d = "NewRegionlessConfigData (op_environ e) (isIstio e) name DefaultSystemNamespace"
  let ?t = "\<lparr>cm_namespace = DefaultSystemNamespace, cm_name = GetRegionalClusterConfigMapName name, cm_labels = [], cm_data = [],
      cm_owners = [], cm_uid = new_uid e (regionless_key name), cm_version = 0\<rparr>"
  have key: "cm_key ?t = regionless_key name" by (simp add: cm_key_def)
  obtain op obj where run: "CreateOrUpdate cm_key cm_version cm_bump same_config_map cms set_cms ?t (mutate_regionless ?d) k = (Inr (op, obj), k')"
    using assms(1,2) by (auto simp: CreateOrUpdateRegionlessConfigMap_def Let_def and_then_Inr in_context_Inr)
  have "cm_key b = cm_key a" if "mutate_regionless ?d a = Inr b" for a b using that by (auto simp: mutate_regionless_def cm_key_def)
  from cm_store.cou_spec [OF run this] obtain fs os where k': "k' = set_cms os (k\<lparr>api_faults := fs\<rparr>)"
      and eff: "cou_effect cm_key cm_bump same_config_map ?t (mutate_regionless ?d) (cms k) (Inr (op, obj)) os" by blast
  let ?base = "case find_object cm_key (regionless_key name) (cms k) of None \<Rightarrow> ?t | Some c \<Rightarrow> c"
  obtain obj0 kept where o: "mutate_regionless ?d ?base = Inr obj0" "obj = obj0 \<or> obj = cm_bump obj0"
      "kept = obj \<or> find_object cm_key (regionless_key name) (cms k) = Some kept \<and> same_config_map kept obj"
      and os: "\<forall>x. find_object cm_key x os = (if x = regionless_key name then Some kept else find_object cm_key x (cms k))"
    using eff unfolding cou_effect_def key by auto
  have base: "wf_map (cm_labels ?base)"
    using assms(3) by (auto simp: wf_config_maps_def split: option.split dest: find_object_SomeD)
  have obj: "wf_map (cm_labels obj)" "cm_data obj = ToMap ?d" "map_of (cm_labels obj) KofRegionlessLabel = Some ''true''"
      "map_of (cm_labels obj) KofClusterRoleLabel = Some ''regional''"
    using o(1,2) base by (auto simp: mutate_regionless_def cm_bump_def KofRegionlessLabel_def KofClusterRoleLabel_def)
  have kept: "same_map (cm_labels kept) (cm_labels obj) \<and> same_map (cm_data kept) (ToMap ?d)"
  proof (cases "kept = obj")
    case True
    then show ?thesis using obj by (simp add: same_map_refl config_data_keys)
  next
    case False
    then have "kept \<in> set (cms k)" "same_config_map kept obj" using o(3) by (auto dest: find_object_SomeD)
    then show ?thesis using assms(3) obj(1,2) by (simp add: wf_config_maps_def same_config_map_def maps_Equal_same_map config_data_keys)
  qed
  show ?thesis
  proof (rule that [OF k'])
    show "same_map (cm_data kept) (ToMap ?d)" using kept by blast
    show "isRegionlessConfigMap kept" "has_label KofClusterRoleLabel ''regional'' (cm_labels kept)"
      using kept obj(3,4) by (simp_all add: isRegionlessConfigMap_def has_label_def same_map_def get_str_def)
    show "find_object cm_key x os = (if x = regionless_key name then Some kept else find_object cm_key x (cms k))" for x
      using os by blast
  qed
qed

lemma bootstrap_serves:
  "bootstrap e v k = (Serving e' v', k') \<Longrightarrow> e' = e \<and> v' = v \<and> CreateOrUpdateRegionlessConfigMap e (ov_managementClusterName v) k = (Inr (), k')"
proof -
  obtain r k1 where r: "CreateOrUpdateRegionlessConfigMap e (ov_managementClusterName v) k = (r, k1)" by fastforce
  assume "bootstrap e v k = (Serving e' v', k')"
  then show ?thesis unfolding bootstrap_def r by (cases r) simp_all
qed

lemma operator_serves:
  assumes "operator_main w args k = (Serving e v, k')"
  shows "CreateOrUpdateRegionlessConfigMap e (ov_managementClusterName v) k = (Inr (), k')"
    "InitIsIstio (namespace_labels w) = Inr (isIstio e)" "op_environ e = op_environ (ow_env w)"
proof -
  obtain istio where "InitIsIstio (namespace_labels w) = Inr istio" "bootstrap ((ow_env w)\<lparr>isIstio := istio\<rparr>) v k = (Serving e v, k')"
    using assms unfolding operator_main_def by (auto split: if_split_asm sum.split_asm prod.split_asm dest: bootstrap_serves)
  then show "CreateOrUpdateRegionlessConfigMap e (ov_managementClusterName v) k = (Inr (), k')"
    "InitIsIstio (namespace_labels w) = Inr (isIstio e)" "op_environ e = op_environ (ow_env w)"
    by (auto dest!: bootstrap_serves)
qed

lemma regionless_distinct:
  assumes "CreateOrUpdateRegionlessConfigMap e name k = (r, k')" "distinct (map cm_key (cms k))"
  shows "distinct (map cm_key (cms k'))"
proof (cases "RegionlessEnabled (op_environ e)")
  case True
  let ?d = "NewRegionlessConfigData (op_environ e) (isIstio e) name DefaultSystemNamespace"
  let ?t = "\<lparr>cm_namespace = DefaultSystemNamespace, cm_name = GetRegionalClusterConfigMapName name, cm_labels = [], cm_data = [],
      cm_owners = [], cm_uid = new_uid e (regionless_key name), cm_version = 0\<rparr>"
  obtain q k1 where q: "CreateOrUpdate cm_key cm_version cm_bump same_config_map cms set_cms ?t (mutate_regionless ?d) k = (q, k1)" by fastforce
  then have "k' = k1"
    using assms(1) True by (cases q) (simp_all add: CreateOrUpdateRegionlessConfigMap_def Let_def and_then_def in_context_def)
  then show ?thesis using cm_store.cou_distinct [OF q assms(2)] by simp
next
  case False
  then show ?thesis using assms by (simp add: CreateOrUpdateRegionlessConfigMap_def)
qed

lemma find_mem: "find P l = Some x \<Longrightarrow> x \<in> set l \<and> P x"
  by (induction l) (auto split: if_splits)

text \<open>Discovery in an installation whose management cluster is the only region.\<close>

lemma discovery_regionless:
  assumes "api_faults k = []" "RegionlessEnabled (op_environ e)" "cm0 \<in> set (cms k)" "cm_namespace cm0 = DefaultSystemNamespace"
    and "isRegionlessConfigMap cm0" "has_label KofClusterRoleLabel ''regional'' (cm_labels cm0)"
  obtains cm where "DiscoverRegionalClusterConfigMapByLocation e c k = (Inr cm, k)" "cm \<in> set (cms k)" "isRegionlessConfigMap cm"
    "cm_namespace cm = DefaultSystemNamespace"
proof -
  let ?l = "filter (\<lambda>cm. has_label KofClusterRoleLabel ''regional'' (cm_labels cm) \<and> cm_namespace cm = DefaultSystemNamespace) (cms k)"
  obtain cm where cm: "find isRegionlessConfigMap ?l = Some cm"
  proof (cases "find isRegionlessConfigMap ?l")
    case None
    then show ?thesis using assms(3-6) by (auto simp: find_None_iff)
  qed blast
  note mem = find_mem [OF cm]
  have "DiscoverRegionalClusterConfigMapByLocation e c k = (Inr cm, k)"
    using assms(1,2) cm by (simp add: DiscoverRegionalClusterConfigMapByLocation_def Let_def api_list_def and_then_def in_context_def)
  then show ?thesis by (rule that) (use mem in simp_all)
qed

section \<open>Properties\<close>

text \<open>
  C40: when the operator has started in an installation without regional clusters and the calls do not fail, discovery by
  location, which serves every child without a label that names its regional cluster, finds a ConfigMap with the role of the
  management cluster as region in the system namespace. If no other ConfigMap claims that role (one of a management cluster that was renamed
  does), what is found are the endpoints derived for the management cluster, in the mode that the label of the KOF namespace says.
\<close>

theorem started_operator_serves_children:
  assumes "operator_main w args k = (Serving e v, k')" "RegionlessEnabled (op_environ (ow_env w))" "api_faults k' = []"
    and "wf_config_maps (cms k)" "distinct (map cm_key (cms k))"
  shows "\<exists>cm. DiscoverRegionalClusterConfigMapByLocation e c k' = (Inr cm, k') \<and> isRegionlessConfigMap cm \<and>
    cm_namespace cm = DefaultSystemNamespace \<and>
    ((\<forall>cm' \<in> set (cms k). isRegionlessConfigMap cm' \<longrightarrow> cm_key cm' = regionless_key (ov_managementClusterName v)) \<longrightarrow>
       (\<exists>labels. namespace_labels w KofNamespace = Inr labels \<and>
          NewConfigDataFromConfigMap (cm_data cm) =
            NewRegionlessConfigData (op_environ (ow_env w)) (get_str labels ''istio-injection'' = ''enabled'')
              (ov_managementClusterName v) DefaultSystemNamespace))"
proof -
  let ?name = "ov_managementClusterName v"
  note start = operator_serves [OF assms(1)]
  have on: "RegionlessEnabled (op_environ e)" using assms(2) start(3) by simp
  obtain fs os cm0 where k': "k' = set_cms os (k\<lparr>api_faults := fs\<rparr>)"
      and os: "\<And>x. find_object cm_key x os = (if x = regionless_key ?name then Some cm0 else find_object cm_key x (cms k))"
      and cm0: "same_map (cm_data cm0) (ToMap (NewRegionlessConfigData (op_environ e) (isIstio e) ?name DefaultSystemNamespace))"
        "isRegionlessConfigMap cm0" "has_label KofClusterRoleLabel ''regional'' (cm_labels cm0)"
    by (rule regionless_written [OF start(1) on assms(4)]) (rule that)
  have cms': "cms k' = os" using k' by (simp add: set_cms_def)
  have mem: "cm0 \<in> set (cms k')" "cm_key cm0 = regionless_key ?name" using os [of "regionless_key ?name"] cms' by (auto dest: find_object_SomeD)
  then have ns: "cm_namespace cm0 = DefaultSystemNamespace" by (simp add: cm_key_def)
  obtain cm where cm: "DiscoverRegionalClusterConfigMapByLocation e c k' = (Inr cm, k')" "cm \<in> set (cms k')" "isRegionlessConfigMap cm"
      "cm_namespace cm = DefaultSystemNamespace"
    by (rule discovery_regionless [OF assms(3) on mem(1) ns cm0(2,3)])
  have found: "find_object cm_key (cm_key cm) os = Some cm"
    using find_object_mem [OF regionless_distinct [OF start(1) assms(5)] cm(2)] cms' by simp
  obtain labels where labels: "namespace_labels w KofNamespace = Inr labels" "isIstio e = (get_str labels ''istio-injection'' = ''enabled'')"
    using start(2) by (cases "namespace_labels w KofNamespace") (simp_all add: InitIsIstio_def)
  have "cm = cm0" if "\<forall>cm' \<in> set (cms k). isRegionlessConfigMap cm' \<longrightarrow> cm_key cm' = regionless_key ?name"
  proof (rule ccontr)
    assume "cm \<noteq> cm0"
    then have "cm_key cm \<noteq> regionless_key ?name" using found os [of "cm_key cm"] by auto
    then have "cm \<in> set (cms k)" using found os [of "cm_key cm"] by (auto dest: find_object_SomeD)
    then show False using that cm(3) \<open>cm_key cm \<noteq> regionless_key ?name\<close> by blast
  qed
  then show ?thesis using cm labels config_data_roundtrip_map [OF cm0(1)] start(3) by (intro exI [of _ cm]) auto
qed

section \<open>Example\<close>

definition ex_operator_world :: "unit operator_world" where
  "ex_operator_world = \<lparr>ow_other_flags = [], ow_other_vars = (), telemetry_error = None, kube_client_error = None,
     namespace_labels = (\<lambda>_. Inr [(''istio-injection'', ''enabled'')]), manager_error = None, setup_error = (\<lambda>_. None),
     healthz_error = None, readyz_error = None,
     ow_env = ex_op\<lparr>op_environ := (''KOF_REGIONLESS_ENABLED'', ''true'') # op_environ ex_op\<rparr>\<rparr>"

definition ex_operator_args :: "string list" where
  "ex_operator_args = [''--management-cluster-name=hub'', ''--enable-cors=false'', ''-http-server-port'', ''8080'']"

definition ex_started :: "started \<times> op_api" where
  "ex_started = operator_main ex_operator_world ex_operator_args ex_state"

lemma ex_started:
  "case ex_started of (Exited _, _) \<Rightarrow> False
   | (Serving e v, k) \<Rightarrow> ov_managementClusterName v = ''hub'' \<and> isIstio e \<and> api_faults k = [] \<and> map cm_name (cms k) = [''kof-hub'']"
  by code_simp

theorem started_operator_serves_children_witness:
  "case ex_started of (Exited _, _) \<Rightarrow> False
   | (Serving e v, k) \<Rightarrow> \<exists>cm. DiscoverRegionalClusterConfigMapByLocation e ex_child k = (Inr cm, k) \<and>
       NewConfigDataFromConfigMap (cm_data cm) = NewRegionlessConfigData (op_environ (ow_env ex_operator_world)) True ''hub'' DefaultSystemNamespace"
proof -
  obtain e v k where run: "ex_started = (Serving e v, k)" and v: "ov_managementClusterName v = ''hub''" and quiet: "api_faults k = []"
    using ex_started by (auto split: prod.splits started.splits)
  have on: "RegionlessEnabled (op_environ (ow_env ex_operator_world))" by code_simp
  have none: "cms ex_state = []" by (simp add: ex_state_def)
  show ?thesis
    using started_operator_serves_children [OF run [unfolded ex_started_def] on quiet, of ex_child]
    by (auto simp: run none v wf_config_maps_def ex_operator_world_def get_str_def)
qed

text \<open>
  A management cluster that gets another name leaves its old ConfigMap behind, and children may find
  that one.
\<close>

lemma renamed_management_cluster:
  "case operator_main ex_operator_world [''--management-cluster-name=hub2''] (snd ex_started) of
     (Exited _, _) \<Rightarrow> False
   | (Serving e v, k) \<Rightarrow> map cm_name (cms k) = [''kof-hub'', ''kof-hub2''] \<and>
       (case fst (DiscoverRegionalClusterConfigMapByLocation e ex_child k) of
          Inl _ \<Rightarrow> False
        | Inr cm \<Rightarrow> RegionalClusterName (NewConfigDataFromConfigMap (cm_data cm)) = ''hub'')"
  by code_simp

end
