(* ===== verification/Go_Url.thy ===== *)
theory Go_Url
  imports Kof_Prelude
begin

text \<open>
  The part of package \<open>net/url\<close> the HTTP components use: the percent encoding of query
  components, \<open>url.Values\<close> with \<open>Get\<close>, \<open>Set\<close>, \<open>Has\<close> and \<open>Encode\<close>, and \<open>ParseQuery\<close>.
  The main result is \<open>ParseQuery_Encode\<close>: what a server parses from an encoded query is the
  map that was encoded.
\<close>

definition unreserved :: "char \<Rightarrow> bool" where
  "unreserved c \<longleftrightarrow>
     (let n = of_char c :: nat in
      (48 \<le> n \<and> n \<le> 57) \<or> (65 \<le> n \<and> n \<le> 90) \<or> (97 \<le> n \<and> n \<le> 122) \<or>
      c = CHR ''-'' \<or> c = CHR ''_'' \<or> c = CHR ''.'' \<or> c = CHR ''~'')"

definition upper_hex :: "nat \<Rightarrow> char" where
  "upper_hex n = char_of (if n < 10 then 48 + n else 55 + n)"

definition escape_char :: "char \<Rightarrow> string" where
  "escape_char c =
     (if unreserved c then [c]
      else if c = CHR '' '' then ''+''
      else [CHR ''%'', upper_hex (of_char c div 16), upper_hex (of_char c mod 16)])"

definition QueryEscape :: "string \<Rightarrow> string" where
  "QueryEscape s = concat (map escape_char s)"

fun QueryUnescape :: "string \<Rightarrow> string option" where
  "QueryUnescape [] = Some []"
| "QueryUnescape (c # s) =
     (if c = CHR ''%'' then
        (case s of
           a # b # t \<Rightarrow>
             (case (hex_val a, hex_val b, QueryUnescape t) of
                (Some x, Some y, Some r) \<Rightarrow> Some (char_of (16 * x + y) # r)
              | _ \<Rightarrow> None)
         | _ \<Rightarrow> None)
      else map_option (Cons (if c = CHR ''+'' then CHR '' '' else c)) (QueryUnescape s))"

section \<open>Values\<close>

type_synonym url_values = "string list gomap"

definition Values_Get :: "url_values \<Rightarrow> string \<Rightarrow> string" where
  "Values_Get v k = (case map_of v k of Some (x # _) \<Rightarrow> x | _ \<Rightarrow> [])"

definition Values_Set :: "string \<Rightarrow> string \<Rightarrow> url_values \<Rightarrow> url_values" where
  "Values_Set k x v = map_set k [x] v"

definition Values_Has :: "url_values \<Rightarrow> string \<Rightarrow> bool" where
  "Values_Has v k \<longleftrightarrow> map_of v k \<noteq> None"

definition Values_Add :: "string \<times> string \<Rightarrow> url_values \<Rightarrow> url_values" where
  "Values_Add kx v =
     map_set (fst kx) ((case map_of v (fst kx) of None \<Rightarrow> [] | Some xs \<Rightarrow> xs) @ [snd kx]) v"

definition encode_pair :: "string \<times> string \<Rightarrow> string" where
  "encode_pair kx = QueryEscape (fst kx) @ ''='' @ QueryEscape (snd kx)"

text \<open>The pairs in the order \<open>Encode\<close> writes them: keys sorted, values in order.\<close>

definition query_pairs :: "url_values \<Rightarrow> (string \<times> string) list" where
  "query_pairs v =
     concat (map (\<lambda>k. map (Pair k) (case map_of v k of None \<Rightarrow> [] | Some xs \<Rightarrow> xs))
       (sort (map fst v)))"

definition Encode :: "url_values \<Rightarrow> string" where
  "Encode v = join ''&'' (map encode_pair (query_pairs v))"

text \<open>\<open>strings.Cut(s, "=")\<close>.\<close>

fun cut_eq :: "string \<Rightarrow> string \<times> string" where
  "cut_eq [] = ([], [])"
| "cut_eq (c # s) =
     (if c = CHR ''='' then ([], s) else (case cut_eq s of (a, b) \<Rightarrow> (c # a, b)))"

text \<open>One setting of the query string: the new values and whether it was malformed.\<close>

definition parse_setting :: "string \<Rightarrow> url_values \<times> bool \<Rightarrow> url_values \<times> bool" where
  "parse_setting s ve =
     (case ve of (v, err) \<Rightarrow>
        if CHR '';'' \<in> set s then (v, True)
        else if s = [] then (v, err)
        else (case cut_eq s of (key, val) \<Rightarrow>
                (case (QueryUnescape key, QueryUnescape val) of
                   (Some k, Some x) \<Rightarrow> (Values_Add (k, x) v, err)
                 | _ \<Rightarrow> (v, True))))"

text \<open>\<open>url.ParseQuery\<close>: the settings that parse, and whether one did not.\<close>

definition ParseQuery :: "string \<Rightarrow> url_values \<times> bool" where
  "ParseQuery query = fold parse_setting (split_on (CHR ''&'') query) ([], False)"

text \<open>\<open>req.URL.Query()\<close> drops the malformed settings silently.\<close>

definition Query :: "string \<Rightarrow> url_values" where
  "Query rawQuery = fst (ParseQuery rawQuery)"

section \<open>Laws\<close>

lemma wf_Values_Set [simp]: "wf_map v \<Longrightarrow> wf_map (Values_Set k x v)"
  by (simp add: Values_Set_def)

lemma wf_Values_Add [simp]: "wf_map v \<Longrightarrow> wf_map (Values_Add kx v)"
  by (simp add: Values_Add_def)

lemma map_of_Values_Set [simp]: "map_of (Values_Set k x v) = (map_of v)(k \<mapsto> [x])"
  by (simp add: Values_Set_def)

lemma Values_Get_Set [simp]: "Values_Get (Values_Set k x v) k = x"
  by (simp add: Values_Get_def)

lemma wf_parse_setting: "wf_map (fst ve) \<Longrightarrow> wf_map (fst (parse_setting s ve))"
  by (auto simp: parse_setting_def split: prod.splits option.splits)

lemma wf_ParseQuery: "wf_map (fst (ParseQuery q))"
proof -
  have "wf_map (fst ve) \<Longrightarrow> wf_map (fst (fold parse_setting ss ve))" for ss ve
    by (induction ss arbitrary: ve) (auto simp: wf_parse_setting)
  then show ?thesis by (simp add: ParseQuery_def)
qed

lemma wf_Query [simp]: "wf_map (Query q)"
  by (simp add: Query_def wf_ParseQuery)

lemma hex_val_upper_hex: "n < 16 \<Longrightarrow> hex_val (upper_hex n) = Some n"
  by (auto simp: hex_val_def upper_hex_def Let_def)

lemma unreserved_special [simp]:
  "\<not> unreserved (CHR ''%'')" "\<not> unreserved (CHR ''+'')" "\<not> unreserved (CHR ''&'')"
  "\<not> unreserved (CHR ''='')" "\<not> unreserved (CHR '';'')"
  by (simp_all add: unreserved_def)

lemma QueryUnescape_append:
  "QueryUnescape (escape_char c @ s) = map_option (Cons c) (QueryUnescape s)"
proof -
  have lt: "of_char c div 16 < (16::nat)"
    using of_char_bound [of c] by (simp add: less_mult_imp_div_less)
  have e: "16 * (of_char c div 16) + of_char c mod 16 = (of_char c :: nat)" by simp
  consider "unreserved c" | "\<not> unreserved c" "c = CHR '' ''" | "\<not> unreserved c" "c \<noteq> CHR '' ''"
    by blast
  then show ?thesis
  proof cases
    case 1
    then have "c \<noteq> CHR ''%''" "c \<noteq> CHR ''+''" by auto
    with 1 show ?thesis by (simp add: escape_char_def)
  next
    case 2
    then show ?thesis by (simp add: escape_char_def)
  next
    case 3
    then show ?thesis
      by (simp add: escape_char_def hex_val_upper_hex lt e split: option.splits)
  qed
qed

lemma QueryUnescape_Escape [simp]: "QueryUnescape (QueryEscape s) = Some s"
  by (induction s) (simp_all add: QueryEscape_def QueryUnescape_append)

lemma upper_hex_unreserved: "n < 16 \<Longrightarrow> unreserved (upper_hex n)"
  by (auto simp: unreserved_def upper_hex_def Let_def)

lemma escape_char_chars:
  "d \<in> set (escape_char c) \<Longrightarrow> unreserved d \<or> d = CHR ''%'' \<or> d = CHR ''+''"
proof -
  have "of_char c div 16 < (16::nat)"
    using of_char_bound [of c] by (simp add: less_mult_imp_div_less)
  then show "d \<in> set (escape_char c) \<Longrightarrow> unreserved d \<or> d = CHR ''%'' \<or> d = CHR ''+''"
    by (auto simp: escape_char_def upper_hex_unreserved split: if_splits)
qed

lemma QueryEscape_chars:
  "d \<in> set (QueryEscape s) \<Longrightarrow> d \<noteq> CHR ''&'' \<and> d \<noteq> CHR ''='' \<and> d \<noteq> CHR '';''"
  using escape_char_chars by (fastforce simp: QueryEscape_def)

lemma cut_eq_append: "CHR ''='' \<notin> set a \<Longrightarrow> cut_eq (a @ CHR ''='' # b) = (a, b)"
  by (induction a) auto

lemma cut_eq_pair: "cut_eq (encode_pair kx) = (QueryEscape (fst kx), QueryEscape (snd kx))"
  unfolding encode_pair_def using QueryEscape_chars
  by (simp add: cut_eq_append) (metis cut_eq_append)

lemma parse_setting_pair: "parse_setting (encode_pair kx) (v, err) = (Values_Add kx v, err)"
proof -
  have "CHR '';'' \<notin> set (encode_pair kx)" "encode_pair kx \<noteq> []"
    using QueryEscape_chars by (auto simp: encode_pair_def)
  then show ?thesis
    by (simp add: parse_setting_def cut_eq_pair)
qed

lemma fold_parse_pairs:
  "fold parse_setting (map encode_pair kxs) (v, err) = (fold Values_Add kxs v, err)"
  by (induction kxs arbitrary: v) (simp_all add: parse_setting_pair)

lemma ParseQuery_join_pairs:
  "ParseQuery (join ''&'' (map encode_pair kxs)) = (fold Values_Add kxs [], False)"
proof (cases "kxs = []")
  case True
  then show ?thesis by (simp add: ParseQuery_def parse_setting_def)
next
  case False
  have "split_on (CHR ''&'') (join ''&'' (map encode_pair kxs)) = map encode_pair kxs"
    using False QueryEscape_chars by (intro split_on_join) (auto simp: encode_pair_def)
  then show ?thesis by (simp add: ParseQuery_def fold_parse_pairs)
qed

lemma fold_Values_Add_lookup:
  "map_of (fold Values_Add kxs v) k =
     (let xs = map snd (filter (\<lambda>kx. fst kx = k) kxs) in
      case map_of v k of
        None \<Rightarrow> if xs = [] then None else Some xs
      | Some ys \<Rightarrow> Some (ys @ xs))"
  by (induction kxs arbitrary: v) (auto simp: Values_Add_def Let_def split: option.splits)

lemma filter_query_pairs:
  assumes "wf_map v"
  shows "map snd (filter (\<lambda>kx. fst kx = k) (query_pairs v)) =
    (case map_of v k of None \<Rightarrow> [] | Some xs \<Rightarrow> xs)"
proof -
  let ?vals = "\<lambda>k. case map_of v k of None \<Rightarrow> [] | Some xs \<Rightarrow> xs"
  have one: "map snd (filter (\<lambda>kx. fst kx = k) (concat (map (\<lambda>k. map (Pair k) (f k)) ks)))
      = (if k \<in> set ks then f k else [])" if "distinct ks" for ks and f :: "string \<Rightarrow> string list"
    using that
  proof (induction ks)
    case (Cons q ks)
    have "map snd (filter (\<lambda>kx. fst kx = k) (map (Pair q) (f q))) = (if q = k then f q else [])"
      by (simp add: filter_map comp_def)
    with Cons show ?case by auto
  qed simp
  have "distinct (sort (map fst v))" using assms by (simp add: wf_map_def)
  then have "map snd (filter (\<lambda>kx. fst kx = k) (query_pairs v))
      = (if k \<in> fst ` set v then ?vals k else [])"
    unfolding query_pairs_def by (subst one) simp_all
  also have "\<dots> = ?vals k"
    using map_of_eq_None_iff [of v k] by (cases "k \<in> fst ` set v") simp_all
  finally show ?thesis .
qed

text \<open>
  A query that is encoded and parsed again is the same map, but for keys without values, which
  \<open>Encode\<close> does not write; nothing is reported malformed.
\<close>

lemma ParseQuery_Encode:
  assumes "wf_map v"
  shows "snd (ParseQuery (Encode v)) = False"
    and "map_of (fst (ParseQuery (Encode v))) k =
      (case map_of v k of Some (x # xs) \<Rightarrow> Some (x # xs) | _ \<Rightarrow> None)"
  using filter_query_pairs [OF assms, of k]
  by (auto simp: Encode_def ParseQuery_join_pairs fold_Values_Add_lookup Let_def
      split: option.splits list.splits)

lemma Query_Encode_Set:
  assumes "wf_map v"
  shows "map_of (Query (Encode (Values_Set k x v))) k = Some [x]"
  using ParseQuery_Encode(2) [of "Values_Set k x v" k] assms by (simp add: Query_def)

end
