(* ===== verification/Server.thy ===== *)
theory Server
  imports Kof_Prelude Go_Url
begin

text \<open>
  The HTTP server shared by the operator's web application and the ACL proxy
  (\<open>kof-operator/internal/server\<close>): \<open>Response\<close> (\<open>server.go\<close>), the router
  (\<open>router.go\<close>), the middlewares and their chaining (\<open>middleware.go\<close>), and the token
  helpers (\<open>helper/helper.go\<close>).

  A handler maps the response under construction and the request to an \<open>outcome\<close>: it returns
  normally or panics, in both cases with the response as far as it was written. The requests
  a handler sends to a backend are recorded in the response (\<open>upstream\<close>), in order. The type
  variable \<open>'p\<close> is the type of objects that handlers send as JSON.
\<close>

section \<open>Requests and responses\<close>

record url =
  Scheme :: string
  Host :: string
  UPath :: string
  RawQuery :: string

text \<open>The claims the proxy reads from a verified OIDC token, or the error of decoding them.\<close>

record claims =
  Email :: string
  CName :: string
  Groups :: "string list"
  Verified :: bool
  TenantID :: string

record id_token =
  tok_claims :: "string + claims"

record request =
  Method :: string
  Path :: string
  ReqRawQuery :: string
  Authorization :: string
  Body :: string
  BodyErr :: bool
  ctxToken :: "id_token option"
  ctxRoute :: "string option"

record upstream_request =
  up_method :: string
  up_url :: url
  up_body :: "string option"

datatype 'p chunk = Bytes string | Json 'p

record 'p response =
  Status :: nat
  wcode :: "nat option"
  headers :: "string gomap"
  out_body :: "'p chunk list"
  upstream :: "upstream_request list"

definition new_response :: "'p response" where
  "new_response = \<lparr>Status = 0, wcode = None, headers = [], out_body = [], upstream = []\<rparr>"

datatype panic = PanicError string | PanicValue string

datatype 'p outcome = Done "'p response" | Panics panic "'p response"

primrec outcome_response :: "'p outcome \<Rightarrow> 'p response" where
  "outcome_response (Done r) = r"
| "outcome_response (Panics v r) = r"

type_synonym 'p handler = "'p response \<Rightarrow> request \<Rightarrow> 'p outcome"

text \<open>
  \<open>http.ResponseWriter\<close>: only the first status code is sent, and writing a body sends 200
  when none was.
\<close>

definition WriteHeader :: "nat \<Rightarrow> 'p response \<Rightarrow> 'p response" where
  "WriteHeader code r = (case wcode r of None \<Rightarrow> r\<lparr>wcode := Some code\<rparr> | Some _ \<Rightarrow> r)"

definition WriteChunk :: "'p chunk \<Rightarrow> 'p response \<Rightarrow> 'p response" where
  "WriteChunk c r = (let r' = WriteHeader 200 r in r'\<lparr>out_body := out_body r' @ [c]\<rparr>)"

definition set_header :: "string \<Rightarrow> string \<Rightarrow> 'p response \<Rightarrow> 'p response" where
  "set_header k v r = r\<lparr>headers := map_set k v (headers r)\<rparr>"

text \<open>\<open>http.Error\<close>.\<close>

definition http_Error :: "string \<Rightarrow> nat \<Rightarrow> 'p response \<Rightarrow> 'p response" where
  "http_Error msg code r =
     WriteChunk (Bytes (msg @ ''\<newline>''))
       (WriteHeader code
         (set_header ''X-Content-Type-Options'' ''nosniff''
           (set_header ''Content-Type'' ''text/plain; charset=utf-8'' r)))"

definition SetStatus :: "nat \<Rightarrow> 'p response \<Rightarrow> 'p response" where
  "SetStatus code r = WriteHeader code (r\<lparr>Status := code\<rparr>)"

definition SetContentType :: "string \<Rightarrow> 'p response \<Rightarrow> 'p response" where
  "SetContentType ct r = set_header ''Content-Type'' ct r"

definition Send :: "string \<Rightarrow> nat \<Rightarrow> 'p response \<Rightarrow> 'p response" where
  "Send content code r = WriteChunk (Bytes content) (SetStatus code r)"

definition SendJson :: "'p \<Rightarrow> nat \<Rightarrow> 'p response \<Rightarrow> 'p response" where
  "SendJson json code r =
     WriteChunk (Json json) (SetStatus code (SetContentType ''application/json'' r))"

definition Fail :: "string \<Rightarrow> nat \<Rightarrow> 'p response \<Rightarrow> 'p response" where
  "Fail content code r = http_Error content code (r\<lparr>Status := code\<rparr>)"

text \<open>\<open>SendObj\<close>; \<open>marshals\<close> says for which objects \<open>json.Marshal\<close> succeeds.\<close>

definition SendObj :: "('p \<Rightarrow> bool) \<Rightarrow> 'p \<Rightarrow> nat \<Rightarrow> 'p response \<Rightarrow> 'p response" where
  "SendObj marshals content code r =
     (if marshals content then SendJson content code r
      else Fail ''Something went wrong'' 500 r)"

definition DefaultErrorHandler :: "string \<Rightarrow> 'p response \<Rightarrow> 'p response" where
  "DefaultErrorHandler err r = Fail err 500 r"

section \<open>Router\<close>

text \<open>\<open>routes[method][path]\<close>: two levels of Go maps, in iteration order.\<close>

record 'p router =
  routes :: "(string \<times> (string \<times> 'p handler) list) list"
  notFoundHandler :: "'p handler"
  middlewares :: "('p handler \<Rightarrow> 'p handler) list"

definition defaultNotFoundHandler :: "'p handler" where
  "defaultNotFoundHandler res req = Done (http_Error ''404 page not found'' 404 res)"

definition NewRouter :: "'p router" where
  "NewRouter = \<lparr>routes = [], notFoundHandler = defaultNotFoundHandler, middlewares = []\<rparr>"

definition NotFound :: "'p handler \<Rightarrow> 'p router \<Rightarrow> 'p router" where
  "NotFound h r = r\<lparr>notFoundHandler := h\<rparr>"

definition addRoute :: "string \<Rightarrow> string \<Rightarrow> 'p handler \<Rightarrow> 'p router \<Rightarrow> 'p router" where
  "addRoute method path h r =
     r\<lparr>routes := map_set method
        (map_set path h (case map_of (routes r) method of None \<Rightarrow> [] | Some rs \<Rightarrow> rs)) (routes r)\<rparr>"

definition GET :: "string \<Rightarrow> 'p handler \<Rightarrow> 'p router \<Rightarrow> 'p router" where
  "GET = addRoute ''GET''"

definition POST :: "string \<Rightarrow> 'p handler \<Rightarrow> 'p router \<Rightarrow> 'p router" where
  "POST = addRoute ''POST''"

definition PUT :: "string \<Rightarrow> 'p handler \<Rightarrow> 'p router \<Rightarrow> 'p router" where
  "PUT = addRoute ''PUT''"

definition DELETE :: "string \<Rightarrow> 'p handler \<Rightarrow> 'p router \<Rightarrow> 'p router" where
  "DELETE = addRoute ''DELETE''"

text \<open>The loops over the parts of a pattern; the caller has compared the lengths.\<close>

fun parts_match :: "string list \<Rightarrow> string list \<Rightarrow> bool" where
  "parts_match [] qs = True"
| "parts_match (p # ps) [] = False"
| "parts_match (p # ps) (q # qs) = (p = q \<and> parts_match ps qs)"

fun parts_match_star :: "string list \<Rightarrow> string list \<Rightarrow> bool" where
  "parts_match_star [] qs = True"
| "parts_match_star (p # ps) [] = False"
| "parts_match_star (p # ps) (q # qs) = ((p = ''*'' \<or> p = q) \<and> parts_match_star ps qs)"

definition isWildcardMatch :: "string \<Rightarrow> string \<Rightarrow> bool" where
  "isWildcardMatch routePath requestPath =
     (let routeParts = split_on (CHR ''/'') routePath;
          requestParts = split_on (CHR ''/'') requestPath
      in if last routeParts = ''*'' then
           (let prefixParts = butlast routeParts in
            if length requestParts < length prefixParts then False
            else parts_match prefixParts requestParts)
         else if length routeParts \<noteq> length requestParts then False
         else parts_match_star routeParts requestParts)"

definition findHandler :: "'p router \<Rightarrow> string \<Rightarrow> string \<Rightarrow> (string \<times> 'p handler) option" where
  "findHandler r method path =
     (case map_of (routes r) method of
        None \<Rightarrow> None
      | Some methodRoutes \<Rightarrow>
          (case map_of methodRoutes path of
             Some h \<Rightarrow> Some (path, h)
           | None \<Rightarrow> find (\<lambda>(routePath, h). isWildcardMatch routePath path) methodRoutes))"

section \<open>Middleware\<close>

type_synonym 'p middleware = "'p handler \<Rightarrow> 'p handler"

text \<open>The loop of \<open>Chain\<close> runs from the last middleware to the first.\<close>

fun Chain :: "'p handler \<Rightarrow> 'p middleware list \<Rightarrow> 'p handler" where
  "Chain h [] = h"
| "Chain h (m # ms) = m (Chain h ms)"

definition ApplyMiddleware :: "'p router \<Rightarrow> 'p handler \<Rightarrow> 'p handler" where
  "ApplyMiddleware r h = (if middlewares r = [] then h else Chain h (middlewares r))"

definition Use :: "'p middleware \<Rightarrow> 'p router \<Rightarrow> 'p router" where
  "Use m r = r\<lparr>middlewares := middlewares r @ [m]\<rparr>"

definition ServeHTTP :: "'p router \<Rightarrow> 'p handler" where
  "ServeHTTP r res req =
     (case findHandler r (Method req) (Path req) of
        None \<Rightarrow> ApplyMiddleware r (notFoundHandler r) res req
      | Some (routePath, h) \<Rightarrow>
          ApplyMiddleware r h res (req\<lparr>ctxRoute := Some routePath\<rparr>))"

text \<open>Spans are telemetry only; the request and the response pass unchanged.\<close>

definition SpanNameMiddleware :: "'p middleware" where
  "SpanNameMiddleware next res req = next res req"

text \<open>
  The recovery asserts that the panic value is an \<open>error\<close>; the assertion itself panics on
  any other value, before \<open>Fail\<close> runs.
\<close>

definition RecoveryMiddleware :: "'p middleware" where
  "RecoveryMiddleware next res req =
     (case next res req of
        Done r \<Rightarrow> Done r
      | Panics (PanicError e) r \<Rightarrow> Done (Fail ''Internal Server Error'' 500 r)
      | Panics (PanicValue v) r \<Rightarrow>
          Panics (PanicError ''interface conversion: interface {} is not error'') r)"

definition LoggingMiddleware :: "'p middleware" where
  "LoggingMiddleware next res req = next res req"

record cors_config =
  AllowOrigins :: "string list"
  AllowMethods :: "string list"
  AllowHeaders :: "string list"
  AllowCredentials :: bool
  MaxAge :: int

definition DefaultCORSConfig :: cors_config where
  "DefaultCORSConfig =
     \<lparr>AllowOrigins = [''*''],
      AllowMethods = [''GET'', ''POST'', ''PUT'', ''DELETE'', ''OPTIONS''],
      AllowHeaders = [''Origin'', ''Content-Type'', ''Accept'', ''Authorization''],
      AllowCredentials = True, MaxAge = 0\<rparr>"

definition CORSMiddleware :: "cors_config option \<Rightarrow> 'p middleware" where
  "CORSMiddleware config next res req =
     (let c = (case config of None \<Rightarrow> DefaultCORSConfig | Some c \<Rightarrow> c);
          r1 = set_header ''Access-Control-Allow-Headers'' (join '', '' (AllowHeaders c))
                 (set_header ''Access-Control-Allow-Methods'' (join '', '' (AllowMethods c))
                   (set_header ''Access-Control-Allow-Origin'' (join '', '' (AllowOrigins c)) res));
          r2 = (if AllowCredentials c
                then set_header ''Access-Control-Allow-Credentials'' ''true'' r1 else r1);
          r3 = (if MaxAge c > 0
                then set_header ''Access-Control-Max-Age'' (dec_int (MaxAge c)) r2 else r2)
      in if Method req = ''OPTIONS'' then Done (SetStatus 204 r3) else next r3 req)"

definition GetJwtTokenFromHeader :: "request \<Rightarrow> string" where
  "GetJwtTokenFromHeader req =
     (case cut_prefix (Authorization req) ''Bearer '' of (token, True) \<Rightarrow> token | _ \<Rightarrow> [])"

definition GetIDToken :: "request \<Rightarrow> id_token option" where
  "GetIDToken req = ctxToken req"

text \<open>
  \<open>AuthConfig\<close>: the verification of a token against the OIDC provider for the client id is
  the parameter \<open>verify\<close>; \<open>None\<close> is a failed verification.
\<close>

record auth_config =
  verify :: "string \<Rightarrow> id_token option"
  SkipOnEmptyToken :: bool

definition AuthenticationMiddleware :: "auth_config \<Rightarrow> 'p middleware" where
  "AuthenticationMiddleware config next res req =
     (let jwtToken = GetJwtTokenFromHeader req in
      if jwtToken = [] \<and> SkipOnEmptyToken config then next res req
      else if jwtToken = [] then Done (Fail ''Unauthorized'' 401 res)
      else (case verify config jwtToken of
              None \<Rightarrow> Done (Fail ''Unauthorized'' 401 res)
            | Some idToken \<Rightarrow> next res (req\<lparr>ctxToken := Some idToken\<rparr>)))"

section \<open>Lemmas\<close>

lemma upstream_frame [simp]:
  "upstream (WriteHeader code r) = upstream r"
  "upstream (WriteChunk c r) = upstream r"
  "upstream (set_header k v r) = upstream r"
  "upstream (http_Error msg code r) = upstream r"
  "upstream (SetStatus code r) = upstream r"
  "upstream (SetContentType ct r) = upstream r"
  "upstream (Send content code r) = upstream r"
  "upstream (SendJson json code r) = upstream r"
  "upstream (Fail msg code r) = upstream r"
  "upstream (SendObj marshals obj code r) = upstream r"
  by (simp_all add: WriteHeader_def WriteChunk_def set_header_def http_Error_def SetStatus_def
      SetContentType_def Send_def SendJson_def Fail_def SendObj_def Let_def split: option.split)

text \<open>The status code on the wire after a failure, when nothing was written before.\<close>

lemma wcode_frame [simp]:
  "wcode (set_header k v r) = wcode r"
  "wcode (WriteHeader code r) = Some (case wcode r of None \<Rightarrow> code | Some c \<Rightarrow> c)"
  "wcode (WriteChunk c r) = Some (case wcode r of None \<Rightarrow> 200 | Some c \<Rightarrow> c)"
  "wcode (http_Error msg code r) = Some (case wcode r of None \<Rightarrow> code | Some c \<Rightarrow> c)"
  "wcode (Fail msg code r) = Some (case wcode r of None \<Rightarrow> code | Some c \<Rightarrow> c)"
  by (simp_all add: WriteHeader_def WriteChunk_def set_header_def http_Error_def Fail_def Let_def
      split: option.split)

subsection \<open>Routing\<close>

lemma parts_match_iff: "parts_match ps qs \<longleftrightarrow> take (length ps) qs = ps"
  by (induction ps qs rule: parts_match.induct) auto

lemma parts_match_star_exact:
  "''*'' \<notin> set ps \<Longrightarrow> length ps = length qs \<Longrightarrow> parts_match_star ps qs \<longleftrightarrow> qs = ps"
  by (induction ps qs rule: parts_match_star.induct) auto

text \<open>A pattern without a wildcard part matches only itself.\<close>

lemma isWildcardMatch_exact:
  assumes "''*'' \<notin> set (split_on (CHR ''/'') p)" "isWildcardMatch p path"
  shows "path = p"
proof -
  have "last (split_on (CHR ''/'') p) \<noteq> ''*''" using assms(1) last_in_set split_on_nonempty by metis
  then have "split_on (CHR ''/'') path = split_on (CHR ''/'') p"
    using assms by (auto simp: isWildcardMatch_def Let_def parts_match_star_exact split: if_splits)
  then show ?thesis by (metis join_split_on)
qed

lemma parts_match_star_nth:
  "parts_match_star ps qs \<Longrightarrow> i < length ps \<Longrightarrow> i < length qs \<Longrightarrow> ps ! i \<noteq> ''*'' \<Longrightarrow> qs ! i = ps ! i"
proof (induction ps qs arbitrary: i rule: parts_match_star.induct)
  case (3 p ps q qs)
  then show ?case by (cases i) auto
qed auto

text \<open>A path agrees with a pattern it matches in every part before the last that is no wildcard.\<close>

lemma matched_part:
  assumes "p = path \<or> isWildcardMatch p path"
    and "Suc i < length (split_on (CHR ''/'') p)" "split_on (CHR ''/'') p ! i \<noteq> ''*''"
  shows "split_on (CHR ''/'') path ! i = split_on (CHR ''/'') p ! i"
proof (cases "p = path")
  case False
  let ?ps = "split_on (CHR ''/'') p" and ?qs = "split_on (CHR ''/'') path"
  have w: "isWildcardMatch p path" using False assms(1) by simp
  show ?thesis
  proof (cases "last ?ps = ''*''")
    case True
    then have "take (length ?ps - 1) ?qs = butlast ?ps"
      using w by (simp add: isWildcardMatch_def Let_def parts_match_iff split: if_splits)
    then show ?thesis using assms(2) by (metis Suc_less_eq2 diff_Suc_1 length_butlast nth_butlast nth_take)
  next
    case False
    then have "length ?ps = length ?qs" "parts_match_star ?ps ?qs"
      using w by (simp_all add: isWildcardMatch_def Let_def split: if_splits)
    then show ?thesis using assms(2,3) by (intro parts_match_star_nth) auto
  qed
qed simp

lemma find_SomeD: "find P xs = Some x \<Longrightarrow> x \<in> set xs \<and> P x"
  by (auto simp: find_Some_iff)

lemma findHandler_sound:
  assumes "findHandler r method path = Some (p, h)"
  shows "\<exists>rs. map_of (routes r) method = Some rs \<and> (p, h) \<in> set rs \<and>
    (p = path \<or> isWildcardMatch p path)"
  using assms
  by (auto simp: findHandler_def split: option.splits dest!: find_SomeD dest: map_of_SomeD)

lemma findHandler_None:
  "findHandler r method path = None \<longleftrightarrow>
     (\<forall>rs p h. map_of (routes r) method = Some rs \<longrightarrow> (p, h) \<in> set rs \<longrightarrow>
        p \<noteq> path \<and> \<not> isWildcardMatch p path)"
  by (auto simp: findHandler_def find_None_iff map_of_eq_None_iff split: option.splits
      dest!: map_of_SomeD intro: rev_image_eqI)

lemma find_unique:
  assumes "set xs = set ys" "\<forall>x \<in> set xs. \<forall>y \<in> set xs. P x \<longrightarrow> P y \<longrightarrow> x = y"
  shows "find P xs = find P ys"
proof (cases "find P xs")
  case None
  with assms show ?thesis by (metis find_None_iff)
next
  case (Some x)
  then have x: "x \<in> set xs" "P x" by (auto dest: find_SomeD)
  then obtain y where y: "find P ys = Some y"
    using assms(1) by (cases "find P ys") (auto simp: find_None_iff)
  then have "y \<in> set xs" "P y" using assms(1) by (auto dest: find_SomeD)
  with x assms(2) Some y show ?thesis by auto
qed

text \<open>No two patterns of the list match the path.\<close>

definition unambiguous :: "string list \<Rightarrow> string \<Rightarrow> bool" where
  "unambiguous ps path \<longleftrightarrow>
     (\<forall>p \<in> set ps. \<forall>q \<in> set ps. isWildcardMatch p path \<longrightarrow> isWildcardMatch q path \<longrightarrow> p = q)"

text \<open>
  The iteration order of the Go map does not matter where no two patterns compete for a path
  that is not registered itself.
\<close>

lemma findHandler_order:
  assumes "map_of (routes r) method = Some rs" "map_of (routes r') method = Some rs'"
    and "same_map rs rs'" "path \<notin> fst ` set rs \<Longrightarrow> unambiguous (map fst rs) path"
  shows "findHandler r method path = findHandler r' method path"
proof (cases "map_of rs path")
  case None
  have eq: "map_of rs = map_of rs'" "set rs = set rs'" "wf_map rs"
    using assms(3) same_map_set [OF assms(3)] by (simp_all add: same_map_def)
  have "unambiguous (map fst rs) path" using None assms(4) by (simp add: map_of_eq_None_iff)
  then have "\<forall>x \<in> set rs. \<forall>y \<in> set rs. isWildcardMatch (fst x) path \<longrightarrow> isWildcardMatch (fst y) path \<longrightarrow> x = y"
    using eq(3) unfolding unambiguous_def wf_map_def set_map
    by (metis eq_key_imp_eq_value imageI prod.collapse)
  then have "find (\<lambda>(p, h). isWildcardMatch p path) rs = find (\<lambda>(p, h). isWildcardMatch p path) rs'"
    using eq(2) by (intro find_unique) (auto simp: case_prod_beta)
  with assms(1,2) eq(1) show ?thesis
    by (simp add: findHandler_def split: option.split)
next
  case (Some h)
  with assms show ?thesis by (simp add: findHandler_def same_map_def)
qed

lemma wildcard_prefix:
  assumes "isWildcardMatch p path" "last (split_on (CHR ''/'') p) = ''*''"
  shows "take (length (split_on (CHR ''/'') p) - 1) (split_on (CHR ''/'') path) = butlast (split_on (CHR ''/'') p)"
  using assms by (simp add: isWildcardMatch_def Let_def parts_match_iff split: if_splits)

lemma Chain_append: "Chain h (ms @ ns) = Chain (Chain h ns) ms"
  by (induction ms) auto

subsection \<open>What a handler sends\<close>

text \<open>Every request \<open>h\<close> sends to a backend satisfies \<open>Q\<close>, and it forgets none.\<close>

definition sends_only ::
  "(request \<Rightarrow> upstream_request \<Rightarrow> bool) \<Rightarrow> 'p handler \<Rightarrow> bool" where
  "sends_only Q h \<longleftrightarrow>
     (\<forall>res req. \<exists>us. upstream (outcome_response (h res req)) = upstream res @ us \<and>
        (\<forall>u \<in> set us. Q req u))"

lemma sends_onlyI:
  assumes "\<And>res req. \<exists>us. upstream (outcome_response (h res req)) = upstream res @ us \<and>
    (\<forall>u \<in> set us. Q req u)"
  shows "sends_only Q h"
  using assms by (simp add: sends_only_def)

lemma sends_onlyD:
  assumes "sends_only Q h"
  shows "\<exists>us. upstream (outcome_response (h res req)) = upstream res @ us \<and> (\<forall>u \<in> set us. Q req u)"
  using assms by (simp add: sends_only_def)

lemma sends_only_fresh:
  assumes "sends_only Q h" "u \<in> set (upstream (outcome_response (h new_response req)))"
  shows "Q req u"
  using sends_onlyD [OF assms(1), of new_response req] assms(2) by (auto simp: new_response_def)

lemma sends_only_mono:
  assumes "sends_only Q h" "\<And>req u. Q req u \<Longrightarrow> R req u"
  shows "sends_only R h"
  using assms unfolding sends_only_def by meson

text \<open>
  The contract of a middleware that neither sends requests itself nor changes what the
  wrapped handler may send.
\<close>

locale transparent_middleware =
  fixes m :: "'p middleware"
  assumes transparent: "sends_only Q h \<Longrightarrow> sends_only Q (m h)"
begin

lemma transparent_Chain: "sends_only Q (Chain h ms) \<Longrightarrow> sends_only Q (Chain h (m # ms))"
  by (simp add: transparent)

lemma silent: "sends_only (\<lambda>_ _. False) h \<Longrightarrow> sends_only Q (m h)"
  by (rule transparent, erule sends_only_mono) simp

end

interpretation span: transparent_middleware SpanNameMiddleware
  by unfold_locales (simp add: sends_only_def SpanNameMiddleware_def)

interpretation logging: transparent_middleware LoggingMiddleware
  by unfold_locales (simp add: sends_only_def LoggingMiddleware_def)

interpretation recovery: transparent_middleware RecoveryMiddleware
proof unfold_locales
  fix Q and h :: "'p handler"
  assume h: "sends_only Q h"
  show "sends_only Q (RecoveryMiddleware h)"
  proof (rule sends_onlyI)
    fix res req
    have "upstream (outcome_response (RecoveryMiddleware h res req))
        = upstream (outcome_response (h res req))"
      by (simp add: RecoveryMiddleware_def split: outcome.split panic.split)
    with sends_onlyD [OF h, of res req]
    show "\<exists>us. upstream (outcome_response (RecoveryMiddleware h res req)) = upstream res @ us
      \<and> (\<forall>u \<in> set us. Q req u)" by simp
  qed
qed

interpretation cors: transparent_middleware "CORSMiddleware config"
proof unfold_locales
  fix Q and h :: "'p handler"
  assume h: "sends_only Q h"
  show "sends_only Q (CORSMiddleware config h)"
  proof (rule sends_onlyI)
    fix res req
    have "\<exists>r. upstream r = upstream res \<and>
        (CORSMiddleware config h res req = h r req \<or> CORSMiddleware config h res req = Done r)"
      by (simp add: CORSMiddleware_def Let_def) (metis upstream_frame(3,5))
    then obtain r where "upstream r = upstream res"
      "CORSMiddleware config h res req = h r req \<or> CORSMiddleware config h res req = Done r" by blast
    with sends_onlyD [OF h, of r req]
    show "\<exists>us. upstream (outcome_response (CORSMiddleware config h res req)) = upstream res @ us
      \<and> (\<forall>u \<in> set us. Q req u)" by auto
  qed
qed

text \<open>
  Authentication: what the wrapped handler sends, it sends for a request that carries a
  verified token, or, where empty tokens are skipped, no token at all.
\<close>

definition authenticated :: "auth_config \<Rightarrow> request \<Rightarrow> request \<Rightarrow> bool" where
  "authenticated config req req' \<longleftrightarrow>
     (GetJwtTokenFromHeader req = [] \<and> SkipOnEmptyToken config \<and> req' = req) \<or>
     (GetJwtTokenFromHeader req \<noteq> [] \<and>
      (\<exists>tok. verify config (GetJwtTokenFromHeader req) = Some tok \<and>
             req' = req\<lparr>ctxToken := Some tok\<rparr>))"

lemma sends_only_auth:
  assumes "sends_only Q h"
  shows "sends_only (\<lambda>req u. \<exists>req'. authenticated config req req' \<and> Q req' u)
    (AuthenticationMiddleware config h)"
proof (rule sends_onlyI)
  fix res req
  let ?o = "AuthenticationMiddleware config h res req"
  have "(\<exists>r. ?o = Done r \<and> upstream r = upstream res) \<or>
    (\<exists>req'. authenticated config req req' \<and> ?o = h res req')"
    by (auto simp: AuthenticationMiddleware_def authenticated_def Let_def split: option.splits)
  with sends_onlyD [OF assms, of res]
  show "\<exists>us. upstream (outcome_response ?o) = upstream res @ us \<and>
    (\<forall>u \<in> set us. \<exists>req'. authenticated config req req' \<and> Q req' u)"
    by (metis append.right_neutral empty_iff list.set(1) outcome_response.simps(1))
qed

end
