(* ===== verification/Go_Json.thy ===== *)
theory Go_Json
  imports Kof_Prelude
begin

text \<open>
  The part of \<open>encoding/json\<close> the components use: the encoding of strings and of
  \<open>map[string]string\<close> by \<open>json.Marshal\<close>, and \<open>json.Unmarshal\<close> into a
  \<open>map[string]string\<close> (a flat object; every other value is an error). Strings are bytes;
  UTF-8 that does not decode is replaced by U+FFFD in both directions, as the package does.

  The main result is the round trip \<open>unmarshal_marshal\<close>: a map of valid UTF-8 strings is read
  back unchanged from its encoding.
\<close>

section \<open>UTF-8\<close>

definition cont_byte :: "char \<Rightarrow> bool" where
  "cont_byte c \<longleftrightarrow> (128::nat) \<le> of_char c \<and> of_char c \<le> (191::nat)"

definition second_ok :: "nat \<Rightarrow> char \<Rightarrow> bool" where
  "second_ok n c \<longleftrightarrow>
     (if n = 0xE0 then 0xA0 else if n = 0xF0 then 0x90 else 0x80) \<le> (of_char c :: nat) \<and>
     of_char c \<le> (if n = 0xED then 0x9F else if n = 0xF4 then 0x8F else 0xBF :: nat)"

text \<open>The width of the rune at the head of a string, 0 where the bytes are not valid UTF-8.\<close>

fun utf8_len :: "string \<Rightarrow> nat" where
  "utf8_len [] = 0"
| "utf8_len (a # s) =
     (let n = of_char a :: nat in
      if n < 0x80 then 1
      else if 0xC2 \<le> n \<and> n \<le> 0xDF then
        (case s of b # _ \<Rightarrow> if second_ok n b then 2 else 0 | _ \<Rightarrow> 0)
      else if 0xE0 \<le> n \<and> n \<le> 0xEF then
        (case s of b # c # _ \<Rightarrow> if second_ok n b \<and> cont_byte c then 3 else 0 | _ \<Rightarrow> 0)
      else if 0xF0 \<le> n \<and> n \<le> 0xF4 then
        (case s of b # c # d # _ \<Rightarrow>
           if second_ok n b \<and> cont_byte c \<and> cont_byte d then 4 else 0 | _ \<Rightarrow> 0)
      else 0)"

definition rune_bytes :: "nat \<Rightarrow> string" where
  "rune_bytes r =
     map char_of
       (if r < 0x80 then [r]
        else if r < 0x800 then [0xC0 + r div 64, 0x80 + r mod 64]
        else if r < 0x10000 then [0xE0 + r div 4096, 0x80 + r div 64 mod 64, 0x80 + r mod 64]
        else [0xF0 + r div 262144, 0x80 + r div 4096 mod 64, 0x80 + r div 64 mod 64,
              0x80 + r mod 64 :: nat])"

definition replacement :: string where
  "replacement = map char_of [0xEF, 0xBF, 0xBD :: nat]"

lemma utf8_len_take:
  assumes "utf8_len s = Suc k"
  shows "utf8_len (take (Suc k) s @ t) = Suc k" and "Suc k \<le> length s"
  using assms
  by (cases s; auto simp: Let_def split: if_splits list.splits)+

section \<open>Encoding strings\<close>

definition backslash :: char where "backslash = char_of (92::nat)"
definition dquote :: char where "dquote = char_of (34::nat)"

definition esc_ascii :: "char \<Rightarrow> string" where
  "esc_ascii c =
     (let n = of_char c :: nat in
      if c = dquote \<or> c = backslash then [backslash, c]
      else if n = 8 then [backslash, CHR ''b'']
      else if n = 12 then [backslash, CHR ''f'']
      else if n = 10 then [backslash, CHR ''n'']
      else if n = 13 then [backslash, CHR ''r'']
      else if n = 9 then [backslash, CHR ''t'']
      else if n < 32 \<or> c = CHR ''<'' \<or> c = CHR ''>'' \<or> c = CHR ''&''
        then [backslash, CHR ''u'', CHR ''0'', CHR ''0'', digit_char (n div 16), digit_char (n mod 16)]
      else [c])"

definition line_sep :: string where "line_sep = map char_of [0xE2, 0x80, 0xA8 :: nat]"
definition para_sep :: string where "para_sep = map char_of [0xE2, 0x80, 0xA9 :: nat]"

function quote_body :: "string \<Rightarrow> string" where
  "quote_body [] = []"
| "quote_body (c # s) =
     (if of_char c < (128::nat) then esc_ascii c @ quote_body s
      else (let k = utf8_len (c # s) in
        if k = 0 then backslash # ''ufffd'' @ quote_body s
        else if take k (c # s) = line_sep then backslash # ''u2028'' @ quote_body (drop k (c # s))
        else if take k (c # s) = para_sep then backslash # ''u2029'' @ quote_body (drop k (c # s))
        else take k (c # s) @ quote_body (drop k (c # s))))"
  by pat_completeness auto
termination
  by (relation "measure length") auto

text \<open>\<open>json.Marshal\<close> of a string.\<close>

definition json_string :: "string \<Rightarrow> string" where
  "json_string s = dquote # quote_body s @ [dquote]"

text \<open>Every byte that is not part of valid UTF-8 replaced by U+FFFD.\<close>

function utf8_fix :: "string \<Rightarrow> string" where
  "utf8_fix [] = []"
| "utf8_fix (c # s) =
     (let k = utf8_len (c # s) in
      if k = 0 then replacement @ utf8_fix s else take k (c # s) @ utf8_fix (drop k (c # s)))"
  by pat_completeness auto
termination
  by (relation "measure length") auto

definition valid_utf8 :: "string \<Rightarrow> bool" where
  "valid_utf8 s \<longleftrightarrow> utf8_fix s = s"

declare quote_body.simps [simp del] utf8_fix.simps [simp del]

section \<open>Decoding strings\<close>

definition simple_escape :: "char \<Rightarrow> char option" where
  "simple_escape c =
     (if c = dquote \<or> c = backslash \<or> c = CHR ''/'' then Some c
      else if c = CHR ''b'' then Some (char_of (8::nat))
      else if c = CHR ''f'' then Some (char_of (12::nat))
      else if c = CHR ''n'' then Some (char_of (10::nat))
      else if c = CHR ''r'' then Some (char_of (13::nat))
      else if c = CHR ''t'' then Some (char_of (9::nat))
      else None)"

fun hex4 :: "string \<Rightarrow> (nat \<times> string) option" where
  "hex4 (a # b # c # d # s) =
     (case (hex_val a, hex_val b, hex_val c, hex_val d) of
        (Some w, Some x, Some y, Some z) \<Rightarrow> Some (4096 * w + 256 * x + 16 * y + z, s)
      | _ \<Rightarrow> None)"
| "hex4 _ = None"

definition high_surrogate :: "nat \<Rightarrow> bool" where
  "high_surrogate r \<longleftrightarrow> 0xD800 \<le> r \<and> r < 0xDC00"

definition low_surrogate :: "nat \<Rightarrow> bool" where
  "low_surrogate r \<longleftrightarrow> 0xDC00 \<le> r \<and> r < 0xE000"

text \<open>The text and the rest after the four digits of a \<open>\u\<close> escape with value \<open>r\<close>.\<close>

definition unicode_escape :: "nat \<Rightarrow> string \<Rightarrow> string \<times> string" where
  "unicode_escape r s =
     (if high_surrogate r then
        (case s of
           a # b # t \<Rightarrow>
             if a = backslash \<and> b = CHR ''u'' then
               (case hex4 t of
                  Some (r2, t') \<Rightarrow>
                    if low_surrogate r2
                    then (rune_bytes (0x10000 + (r - 0xD800) * 1024 + (r2 - 0xDC00)), t')
                    else (replacement, s)
                | None \<Rightarrow> (replacement, s))
             else (replacement, s)
         | _ \<Rightarrow> (replacement, s))
      else if low_surrogate r then (replacement, s)
      else (rune_bytes r, s))"

lemma hex4_length: "hex4 s = Some (r, t) \<Longrightarrow> length t < length s"
  by (induction s rule: hex4.induct) (auto split: option.splits)

lemma unicode_escape_length: "length (snd (unicode_escape r s)) \<le> length s"
  by (auto simp: unicode_escape_def split: list.splits option.splits dest: hex4_length)

text \<open>
  The decoded text up to the closing quote, and what follows it. The control characters and
  the malformed escapes that make the whole document invalid give \<open>None\<close>.
\<close>

function unquote :: "string \<Rightarrow> (string \<times> string) option" where
  "unquote [] = None"
| "unquote (c # s) =
     (if c = dquote then Some ([], s)
      else if c = backslash then
        (case s of
           [] \<Rightarrow> None
         | d # t \<Rightarrow>
             (case simple_escape d of
                Some x \<Rightarrow> map_option (apfst (Cons x)) (unquote t)
              | None \<Rightarrow>
                  if d = CHR ''u'' then
                    (case hex4 t of
                       None \<Rightarrow> None
                     | Some (r, t') \<Rightarrow>
                         map_option (apfst ((@) (fst (unicode_escape r t'))))
                           (unquote (snd (unicode_escape r t'))))
                  else None))
      else if of_char c < (32::nat) then None
      else if of_char c < (128::nat) then map_option (apfst (Cons c)) (unquote s)
      else (let k = utf8_len (c # s) in
        if k = 0 then map_option (apfst ((@) replacement)) (unquote s)
        else map_option (apfst ((@) (take k (c # s)))) (unquote (drop k (c # s)))))"
  by pat_completeness auto
termination
  by (relation "measure length")
    (auto dest!: hex4_length intro: le_less_trans [OF unicode_escape_length])

declare unquote.simps [simp del]


lemma unquote_length: "unquote s = Some (x, t) \<Longrightarrow> length t < length s"
proof (induction s arbitrary: x t rule: unquote.induct)
  case (2 c s)
  note e = "2.prems" [unfolded unquote.simps(2)]
  show ?case
  proof (cases "c = dquote \<or> c \<noteq> backslash")
    case True
    then show ?thesis using e "2.IH"(3-5)
      by (fastforce simp: Let_def split: if_splits)
  next
    case False
    then have c: "c \<noteq> dquote" "c = backslash" by auto
    obtain d u where s: "s = d # u" using e c by (cases s) auto
    show ?thesis
    proof (cases "simple_escape d")
      case (Some y)
      then show ?thesis using e c s "2.IH"(2) [OF c s Some] by auto
    next
      case None
      then obtain r u' where h: "d = CHR ''u''" "hex4 u = Some (r, u')"
        using e c s by (auto split: if_splits option.splits)
      have "length t < length (snd (unicode_escape r u'))"
        using e c s None h "2.IH"(1) [OF c s None h(1) h(2) refl] by auto
      also have "\<dots> \<le> length u'" by (rule unicode_escape_length)
      also have "\<dots> < length u" by (rule hex4_length [OF h(2)])
      finally show ?thesis using s by simp
    qed
  qed
qed (simp add: unquote.simps)

section \<open>Objects of strings\<close>

definition json_ws :: "char \<Rightarrow> bool" where
  "json_ws c \<longleftrightarrow> of_char c \<in> {9, 10, 13, 32 :: nat}"

definition skip_ws :: "string \<Rightarrow> string" where
  "skip_ws s = dropWhile json_ws s"

text \<open>A value that fits a Go string: a string, or \<open>null\<close>, which leaves the empty string.\<close>

definition string_value :: "string \<Rightarrow> (string \<times> string) option" where
  "string_value s =
     (case s of
        [] \<Rightarrow> None
      | c # t \<Rightarrow>
          if c = dquote then unquote t
          else if has_prefix s ''null'' then Some ([], drop 4 s)
          else None)"

text \<open>One member, and the text after it without leading white space.\<close>

definition json_member :: "string \<Rightarrow> ((string \<times> string) \<times> string) option" where
  "json_member s =
     (case skip_ws s of
        [] \<Rightarrow> None
      | c # t \<Rightarrow>
          if c \<noteq> dquote then None
          else (case unquote t of
             None \<Rightarrow> None
           | Some (k, u) \<Rightarrow>
               (case skip_ws u of
                  [] \<Rightarrow> None
                | d # v \<Rightarrow>
                    if d \<noteq> CHR '':'' then None
                    else (case string_value (skip_ws v) of
                       None \<Rightarrow> None
                     | Some (x, w) \<Rightarrow> Some ((k, x), skip_ws w)))))"

lemma skip_ws_length: "length (skip_ws s) \<le> length s"
  by (simp add: skip_ws_def length_dropWhile_le)

lemma string_value_length: "string_value s = Some (x, t) \<Longrightarrow> length t < length s"
  by (auto simp: string_value_def split: list.splits if_splits dest: unquote_length)

lemma json_member_length:
  assumes "json_member s = Some (kx, t)"
  shows "length t < length s"
proof -
  from assms obtain c u k u' d v x w where
    e: "skip_ws s = c # u" "unquote u = Some (k, u')" "skip_ws u' = d # v"
       "string_value (skip_ws v) = Some (x, w)" "t = skip_ws w"
    by (auto simp: json_member_def split: list.splits if_splits option.splits prod.splits)
  have "length (skip_ws w) \<le> length w" "length w < length (skip_ws v)"
    "length (skip_ws v) \<le> length v" "length (skip_ws u') \<le> length u'" "length u' < length u"
    "length (skip_ws s) \<le> length s"
    using string_value_length [OF e(4)] unquote_length [OF e(2)] by (simp_all only: skip_ws_length)
  with e show ?thesis by simp
qed

function json_members :: "string \<Rightarrow> string gomap \<Rightarrow> (string gomap \<times> string) option" where
  "json_members s acc =
     (case json_member s of
        None \<Rightarrow> None
      | Some (kx, t) \<Rightarrow>
          (case t of
             [] \<Rightarrow> None
           | c # u \<Rightarrow>
               if c = CHR '','' then json_members u (map_set (fst kx) (snd kx) acc)
               else if c = CHR ''}'' then Some (map_set (fst kx) (snd kx) acc, u)
               else None))"
  by pat_completeness auto
termination
  by (relation "measure (\<lambda>(s, _). length s)") (auto dest: json_member_length)

declare json_members.simps [simp del]

lemma json_members_length: "json_members s acc = Some (m, t) \<Longrightarrow> length t < length s"
proof (induction s acc rule: json_members.induct)
  case (1 s acc)
  from "1.prems" obtain kx c u where e: "json_member s = Some (kx, c # u)"
    "c = CHR '','' \<and> json_members u (map_set (fst kx) (snd kx) acc) = Some (m, t) \<or>
     c \<noteq> CHR '','' \<and> t = u"
    by (auto simp: json_members.simps [of s acc] split: option.splits list.splits if_splits)
  then have "length t \<le> length u"
    using "1.IH" [OF e(1) refl refl] by (auto simp: less_imp_le)
  with json_member_length [OF e(1)] show ?case by simp
qed

text \<open>
  \<open>json.Unmarshal\<close> into an empty \<open>map[string]string\<close>: an error, or the document \<open>null\<close>, which
  makes the map nil, or the map read.
\<close>

datatype flat_json = JsonError | JsonNull | JsonMap "string gomap"

definition unmarshal_flat :: "string \<Rightarrow> flat_json" where
  "unmarshal_flat s =
     (case skip_ws s of
        [] \<Rightarrow> JsonError
      | c # t \<Rightarrow>
          if c = CHR ''{'' then
            (case skip_ws t of
               [] \<Rightarrow> JsonError
             | d # u \<Rightarrow>
                 if d = CHR ''}'' then (if skip_ws u = [] then JsonMap [] else JsonError)
                 else (case json_members (d # u) [] of
                         Some (m, v) \<Rightarrow> if skip_ws v = [] then JsonMap m else JsonError
                       | None \<Rightarrow> JsonError))
          else if has_prefix (c # t) ''null'' \<and> skip_ws (drop 4 (c # t)) = [] then JsonNull
          else JsonError)"

definition json_pair :: "string \<times> string \<Rightarrow> string" where
  "json_pair kx = json_string (fst kx) @ '':'' @ json_string (snd kx)"

text \<open>\<open>json.Marshal\<close> of a \<open>map[string]string\<close>: the keys sorted.\<close>

definition marshal_flat :: "string gomap \<Rightarrow> string" where
  "marshal_flat m =
     ''{'' @ join '','' (map (\<lambda>k. json_pair (k, get_str m k)) (sort (map fst m))) @ ''}''"

section \<open>Round trips\<close>

lemma rune_bytes_ascii: "of_char c < (128::nat) \<Longrightarrow> rune_bytes (of_char c) = [c]"
  by (simp add: rune_bytes_def)

lemma rune_bytes_special:
  "rune_bytes 65533 = replacement" "rune_bytes 8232 = line_sep" "rune_bytes 8233 = para_sep"
  by (simp_all add: rune_bytes_def replacement_def line_sep_def para_sep_def)

lemma special_chars: "backslash = CHR 0x5C" "dquote = CHR 0x22"
  unfolding backslash_def dquote_def by code_simp+

lemma simple_escape_simps [simp]:
  "simple_escape dquote = Some dquote" "simple_escape backslash = Some backslash"
  "simple_escape (CHR ''b'') = Some (char_of (8::nat))"
  "simple_escape (CHR ''f'') = Some (char_of (12::nat))"
  "simple_escape (CHR ''n'') = Some (char_of (10::nat))"
  "simple_escape (CHR ''r'') = Some (char_of (13::nat))"
  "simple_escape (CHR ''t'') = Some (char_of (9::nat))"
  "simple_escape (CHR ''u'') = None"
  by (simp_all add: simple_escape_def special_chars)

lemma unquote_u:
  assumes "hex4 t = Some (r, t')" "\<not> high_surrogate r" "\<not> low_surrogate r"
  shows "unquote (backslash # CHR ''u'' # t) = map_option (apfst ((@) (rune_bytes r))) (unquote t')"
  using assms by (simp add: unquote.simps unicode_escape_def special_chars simple_escape_def)

lemma unquote_simple:
  "simple_escape d = Some x \<Longrightarrow> unquote (backslash # d # t) = map_option (apfst (Cons x)) (unquote t)"
  by (simp add: unquote.simps special_chars)

lemma hex4_00:
  assumes "n < (256::nat)"
  shows "hex4 (CHR ''0'' # CHR ''0'' # digit_char (n div 16) # digit_char (n mod 16) # t) = Some (n, t)"
proof -
  have "hex_val (CHR ''0'') = Some 0" by (simp add: hex_val_def)
  moreover have "n div 16 < 16" using assms by (simp add: less_mult_imp_div_less)
  ultimately show ?thesis by (simp add: hex_val_digit_char)
qed

lemma append_single: "(@) [c] = (#) c"
  by (rule ext) simp

lemma unquote_esc_ascii:
  assumes "of_char c < (128::nat)"
  shows "unquote (esc_ascii c @ t) = map_option (apfst (Cons c)) (unquote t)"
proof -
  let ?n = "of_char c :: nat"
  consider (quote) "c = dquote \<or> c = backslash"
    | (ctrl) "c \<noteq> dquote" "c \<noteq> backslash" "?n \<in> {8, 9, 10, 12, 13}"
    | (hex) "c \<noteq> dquote" "c \<noteq> backslash" "?n \<notin> {8, 9, 10, 12, 13}"
        "?n < 32 \<or> c = CHR ''<'' \<or> c = CHR ''>'' \<or> c = CHR ''&''"
    | (plain) "c \<noteq> dquote" "c \<noteq> backslash" "?n \<notin> {8, 9, 10, 12, 13}"
        "\<not> (?n < 32 \<or> c = CHR ''<'' \<or> c = CHR ''>'' \<or> c = CHR ''&'')"
    by blast
  then show ?thesis
  proof cases
    case quote
    then show ?thesis by (auto simp: esc_ascii_def unquote_simple)
  next
    case ctrl
    then have "char_of ?n \<in> char_of ` {8, 9, 10, 12, 13 :: nat}" by blast
    then have "c \<in> {char_of (8::nat), char_of (9::nat), char_of (10::nat), char_of (12::nat),
      char_of (13::nat)}" by simp
    with ctrl show ?thesis by (auto simp: esc_ascii_def unquote_simple)
  next
    case hex
    have sur: "\<not> high_surrogate ?n" "\<not> low_surrogate ?n"
      using assms by (auto simp: high_surrogate_def low_surrogate_def)
    have "esc_ascii c @ t =
        backslash # CHR ''u'' # CHR ''0'' # CHR ''0'' # digit_char (?n div 16) # digit_char (?n mod 16) # t"
      using hex by (simp add: esc_ascii_def Let_def)
    then show ?thesis
      using unquote_u [OF hex4_00 sur] assms by (simp add: rune_bytes_ascii append_single)
  next
    case plain
    then show ?thesis using assms by (simp add: esc_ascii_def unquote.simps)
  qed
qed

lemma unquote_rune:
  assumes "128 \<le> (of_char c :: nat)" "utf8_len (c # s) = Suc k"
  shows "unquote (take (Suc k) (c # s) @ t) =
    map_option (apfst ((@) (take (Suc k) (c # s)))) (unquote t)"
proof -
  have "c \<noteq> dquote" "c \<noteq> backslash" using assms(1) by (auto simp: dquote_def backslash_def)
  moreover have "utf8_len (c # take k s @ t) = Suc k" "k \<le> length s"
    using utf8_len_take [OF assms(2)] by simp_all
  ultimately show ?thesis using assms(1) by (simp add: unquote.simps)
qed

lemma utf8_fix_ascii: "of_char c < (128::nat) \<Longrightarrow> utf8_fix (c # s) = c # utf8_fix s"
  by (simp add: utf8_fix.simps)

lemma unquote_quote: "unquote (quote_body s @ dquote # t) = Some (utf8_fix s, t)"
proof (induction s rule: quote_body.induct)
  case 1
  then show ?case by (simp add: unquote.simps quote_body.simps utf8_fix.simps)
next
  case (2 c s)
  show ?case
  proof (cases "of_char c < (128::nat)")
    case True
    then show ?thesis using 2(1) by (simp add: quote_body.simps unquote_esc_ascii utf8_fix_ascii)
  next
    case False
    have sur: "\<not> high_surrogate r \<and> \<not> low_surrogate r" if "r \<in> {65533, 8232, 8233}" for r
      using that by (auto simp: high_surrogate_def low_surrogate_def)
    have hex: "hex4 (''fffd'' @ u) = Some (65533, u)" "hex4 (''2028'' @ u) = Some (8232, u)"
      "hex4 (''2029'' @ u) = Some (8233, u)" for u
      by (simp_all add: hex_val_def)
    note u = unquote_u [OF hex(1), unfolded append.simps] unquote_u [OF hex(2), unfolded append.simps]
      unquote_u [OF hex(3), unfolded append.simps]
    show ?thesis
    proof (cases "utf8_len (c # s)")
      case 0
      then show ?thesis using False 2(2)
        by (simp add: quote_body.simps(2) utf8_fix.simps(2) u sur rune_bytes_special del: utf8_len.simps)
    next
      case (Suc k)
      then show ?thesis using False 2(3-5) [OF False refl] unquote_rune [OF _ Suc]
        by (auto simp: quote_body.simps(2) utf8_fix.simps(2) Let_def u sur rune_bytes_special
            simp del: utf8_len.simps take_Suc_Cons)
    qed
  qed
qed

lemma skip_ws_plain: "\<not> json_ws c \<Longrightarrow> skip_ws (c # s) = c # s"
  by (simp add: skip_ws_def)

lemma json_ws_special [simp]:
  "\<not> json_ws dquote" "\<not> json_ws (CHR '':'')" "\<not> json_ws (CHR '','')" "\<not> json_ws (CHR ''}'')"
  "\<not> json_ws (CHR ''{'')"
  by (simp_all add: json_ws_def dquote_def)

lemma json_member_pair:
  assumes "\<not> json_ws c"
  shows "json_member (json_pair kx @ c # t) = Some ((utf8_fix (fst kx), utf8_fix (snd kx)), c # t)"
  using assms
  by (simp add: json_member_def json_pair_def json_string_def skip_ws_plain unquote_quote
      string_value_def)

definition fix_pair :: "string \<times> string \<Rightarrow> string \<times> string" where
  "fix_pair kx = (utf8_fix (fst kx), utf8_fix (snd kx))"

lemma json_members_pairs:
  "kxs \<noteq> [] \<Longrightarrow> json_members (join '','' (map json_pair kxs) @ CHR ''}'' # t) acc =
     Some (map_copy acc (map fix_pair kxs), t)"
proof (induction kxs arbitrary: acc rule: list_nonempty_induct)
  case (single kx)
  then show ?case
    using json_member_pair [of "CHR ''}''" kx t]
    by (simp add: json_members.simps [of "json_pair kx @ CHR ''}'' # t"] fix_pair_def map_copy_def)
next
  case (cons kx kxs)
  then obtain ky kys where [simp]: "kxs = ky # kys" by (cases kxs) auto
  show ?case
    using cons json_member_pair [of "CHR '',''" kx]
    by (simp add: json_members.simps [of "json_pair kx @ _"] fix_pair_def map_copy_def)
qed

lemma map_of_tabulate: "map_of (map (\<lambda>k. (k, f k)) ks) k = (if k \<in> set ks then Some (f k) else None)"
  by (induction ks) auto

text \<open>What \<open>Unmarshal\<close> reads from the encoding of a map of valid UTF-8 is the map.\<close>

lemma unmarshal_marshal:
  assumes wf: "wf_map m" and valid: "\<And>k v. map_of m k = Some v \<Longrightarrow> valid_utf8 k \<and> valid_utf8 v"
  shows "\<exists>n. unmarshal_flat (marshal_flat m) = JsonMap n \<and> same_map n m"
proof (cases "m = []")
  case True
  then show ?thesis
    by (simp add: unmarshal_flat_def marshal_flat_def skip_ws_plain skip_ws_def same_map_refl)
next
  case False
  let ?kxs = "map (\<lambda>k. (k, get_str m k)) (sort (map fst m))"
  have fixed: "map fix_pair ?kxs = ?kxs"
    using valid wf by (auto simp: fix_pair_def valid_utf8_def get_str_def wf_map_def)
  have wf_kxs: "wf_map ?kxs" using wf by (simp add: wf_map_def comp_def)
  have look: "map_of ?kxs = map_of m"
  proof (rule ext)
    show "map_of ?kxs k = map_of m k" for k
      using map_of_eq_None_iff [of m k]
      by (cases "map_of m k") (auto simp: map_of_tabulate get_str_def)
  qed
  have "length ?kxs \<noteq> 0" using False by simp
  then have ne: "?kxs \<noteq> []" by blast
  obtain d u where start: "join '','' (map json_pair ?kxs) @ ''}'' = d # u" "d = dquote"
    using ne by (cases ?kxs; cases "tl ?kxs") (auto simp: json_pair_def json_string_def)
  have "marshal_flat m = CHR ''{'' # join '','' (map json_pair ?kxs) @ CHR ''}'' # []"
    by (simp add: marshal_flat_def comp_def)
  then have "marshal_flat m = CHR ''{'' # d # u" using start(1) by simp
  moreover have "json_members (d # u) [] = Some (map_copy [] ?kxs, [])"
    using json_members_pairs [OF ne, of "[]" "[]", unfolded fixed] start(1) by simp
  moreover have "\<not> json_ws d" "d \<noteq> CHR ''}''" using start(2) by (simp, simp add: special_chars)
  ultimately have "unmarshal_flat (marshal_flat m) = JsonMap (map_copy [] ?kxs)"
    by (simp add: unmarshal_flat_def skip_ws_plain) (simp add: skip_ws_def)
  moreover have "same_map (map_copy [] ?kxs) m"
    using wf_kxs look wf by (simp add: same_map_def map_of_map_copy)
  ultimately show ?thesis by blast
qed

text \<open>What is decoded is valid UTF-8.\<close>

lemma utf8_fix_append:
  assumes "utf8_len (a @ b) = length a" "a \<noteq> []"
  shows "utf8_fix (a @ b) = a @ utf8_fix b"
proof (cases a)
  case (Cons c s)
  then show ?thesis using assms by (simp add: utf8_fix.simps(2) del: utf8_len.simps)
qed (use assms in simp)

lemma rune_bytes_len:
  assumes "r < 0x110000" "\<not> high_surrogate r" "\<not> low_surrogate r"
  shows "utf8_len (rune_bytes r @ t) = length (rune_bytes r)"
proof -
  consider "r < 0x80" | "0x80 \<le> r" "r < 0x800" | "0x800 \<le> r" "r < 0x10000" | "0x10000 \<le> r" by linarith
  then show ?thesis
  proof cases
    case 1
    then show ?thesis by (simp add: rune_bytes_def)
  next
    case 2
    then have "2 \<le> r div 64" "r div 64 < 32" by (simp_all add: less_mult_imp_div_less)
    with 2 show ?thesis
      by (auto simp: rune_bytes_def Let_def second_ok_def cont_byte_def)
  next
    case 3
    have "r div 64 = 64 * (r div 4096) + r div 64 mod 64"
      using div_mult2_eq [of r 64 64] mult_div_mod_eq [of 64 "r div 64"] by simp
    moreover have "r div 64 < 864" if "r < 55296" using that by (simp add: less_mult_imp_div_less)
    ultimately have "r div 64 mod 64 \<le> 31" if "r < 55296" "r div 4096 = 13" using that by linarith
    with 3 show ?thesis
      using assms by (auto simp: rune_bytes_def Let_def second_ok_def cont_byte_def high_surrogate_def low_surrogate_def)
  next
    case 4
    have "r div 4096 = 64 * (r div 262144) + r div 4096 mod 64"
      using div_mult2_eq [of r 4096 64] mult_div_mod_eq [of 64 "r div 4096"] by simp
    moreover have "r div 4096 < 272" using assms(1) by (simp add: less_mult_imp_div_less)
    ultimately have "r div 4096 mod 64 \<le> 15" if "r div 262144 = 4" using that by linarith
    with 4 show ?thesis
      using assms by (auto simp: rune_bytes_def Let_def second_ok_def cont_byte_def)
  qed
qed


lemma hex_val_bound: "hex_val c = Some n \<Longrightarrow> n < 16"
  by (auto simp: hex_val_def Let_def split: if_splits)

lemma hex4_bound: "hex4 s = Some (r, t) \<Longrightarrow> r < 0x10000"
  by (induction s rule: hex4.induct) (auto split: option.splits dest!: hex_val_bound)

lemma utf8_fix_replacement: "utf8_fix (replacement @ b) = replacement @ utf8_fix b"
  by (rule utf8_fix_append) (auto simp: replacement_def Let_def second_ok_def cont_byte_def)

lemma utf8_fix_unicode_escape:
  assumes "r < 0x10000"
  shows "utf8_fix (fst (unicode_escape r s) @ b) = fst (unicode_escape r s) @ utf8_fix b"
proof -
  have one: "utf8_fix (rune_bytes n @ b) = rune_bytes n @ utf8_fix b"
    if "n < 0x110000" "\<not> high_surrogate n" "\<not> low_surrogate n" for n
    by (rule utf8_fix_append [OF rune_bytes_len [OF that]]) (simp add: rune_bytes_def)
  have pair: "utf8_fix (rune_bytes n @ b) = rune_bytes n @ utf8_fix b"
    if "high_surrogate r" "low_surrogate r2" "n = 0x10000 + (r - 0xD800) * 1024 + (r2 - 0xDC00)" for n r2
    using that by (intro one) (auto simp: high_surrogate_def low_surrogate_def)
  show ?thesis
    using assms one [of r] pair
    by (auto simp: unicode_escape_def utf8_fix_replacement split: list.split option.split)
qed

lemma unquote_valid: "unquote s = Some (x, t) \<Longrightarrow> valid_utf8 x"
  unfolding valid_utf8_def
proof (induction s arbitrary: x t rule: unquote.induct)
  case (2 c s)
  note e = "2.prems" [unfolded unquote.simps(2)]
  show ?case
  proof (cases "c = dquote \<or> c \<noteq> backslash")
    case True
    have rune: "utf8_fix (take (Suc k) (c # s) @ b) = take (Suc k) (c # s) @ utf8_fix b"
      if "utf8_len (c # s) = Suc k" for k b
      using utf8_len_take [OF that] by (intro utf8_fix_append) (auto simp: min_def)
    show ?thesis
    proof (cases "utf8_len (c # s)")
      case 0
      then show ?thesis using e True "2.IH"(3-5)
        by (auto simp: Let_def utf8_fix_ascii utf8_fix_replacement utf8_fix.simps(1)
            simp del: utf8_len.simps split: if_splits)
    next
      case (Suc k)
      then show ?thesis using e True "2.IH"(3-5) rune [OF Suc]
        by (auto simp: Let_def utf8_fix_ascii utf8_fix.simps(1)
            simp del: utf8_len.simps split: if_splits)
    qed
  next
    case False
    then have c: "c \<noteq> dquote" "c = backslash" by auto
    obtain d u where s: "s = d # u" using e c by (cases s) auto
    show ?thesis
    proof (cases "simple_escape d")
      case (Some y)
      have "of_char y < (128::nat)" using Some
        by (auto simp: simple_escape_def special_chars split: if_splits)
      then show ?thesis using e c s Some "2.IH"(2) [OF c s Some] by (auto simp: utf8_fix_ascii)
    next
      case None
      then obtain r u' where h: "d = CHR ''u''" "hex4 u = Some (r, u')"
        using e c s by (auto split: if_splits option.splits)
      show ?thesis
        using e c s None h "2.IH"(1) [OF c s None h(1) h(2) refl] utf8_fix_unicode_escape [OF hex4_bound [OF h(2)]]
        by auto
    qed
  qed
qed (simp add: unquote.simps)


definition valid_map :: "string gomap \<Rightarrow> bool" where
  "valid_map m \<longleftrightarrow> wf_map m \<and> (\<forall>k v. map_of m k = Some v \<longrightarrow> valid_utf8 k \<and> valid_utf8 v)"

lemma valid_map_set: "valid_map m \<Longrightarrow> valid_utf8 k \<Longrightarrow> valid_utf8 v \<Longrightarrow> valid_map (map_set k v m)"
  by (simp add: valid_map_def)

lemma json_member_valid:
  "json_member s = Some (kx, t) \<Longrightarrow> valid_utf8 (fst kx) \<and> valid_utf8 (snd kx)"
  by (auto simp: json_member_def string_value_def valid_utf8_def utf8_fix.simps(1)
      split: list.splits if_splits option.splits prod.splits dest!: unquote_valid [unfolded valid_utf8_def])

lemma json_members_valid: "json_members s acc = Some (m, t) \<Longrightarrow> valid_map acc \<Longrightarrow> valid_map m"
proof (induction s acc rule: json_members.induct)
  case (1 s acc)
  from "1.prems"(1) obtain kx c u where e: "json_member s = Some (kx, c # u)"
    "c = CHR '','' \<and> json_members u (map_set (fst kx) (snd kx) acc) = Some (m, t) \<or>
     c \<noteq> CHR '','' \<and> m = map_set (fst kx) (snd kx) acc"
    by (auto simp: json_members.simps [of s acc] split: option.splits list.splits if_splits)
  with "1.IH" [OF e(1) refl refl] "1.prems"(2) json_member_valid [OF e(1)] show ?case
    by (auto intro: valid_map_set)
qed

lemma unmarshal_valid: "unmarshal_flat s = JsonMap m \<Longrightarrow> valid_map m"
  by (auto simp: unmarshal_flat_def valid_map_def [of "[]"]
      split: list.splits if_splits option.splits prod.splits dest!: json_members_valid)

lemma unmarshal_marshal_valid:
  "valid_map m \<Longrightarrow> \<exists>n. unmarshal_flat (marshal_flat m) = JsonMap n \<and> same_map n m"
  by (rule unmarshal_marshal) (auto simp: valid_map_def)

end
