(* ===== verification/Acl.thy ===== *)
theory Acl
  imports Server Go_Json
begin

text \<open>
  The ACL proxy in front of the metrics, logs and traces backends
  (\<open>kof-operator/internal/acl/handlers\<close> and \<open>kof-operator/cmd/acl/main.go\<close>): who may send
  what to a backend, how a request is restricted to the tenant of its token, and how an answer
  is filtered where the backend cannot filter.

  Parameters (\<open>acl_env\<close>): the backends, the PromQL enforcer of \<open>prom-label-proxy\<close>, the JSON
  decoders of the answers. Every request that is handed to the HTTP client is recorded in the
  response, so the theorems speak about what reaches a backend.
\<close>

section \<open>Data of the backends\<close>

text \<open>
  \<open>v1.Alert\<close> and the structs of the answers. Numbers and times are only passed through and
  are kept as text; pointers are options.
\<close>

record alert =
  Labels :: "string gomap"
  AState :: string
  AnnotationsA :: "string gomap"
  ActiveAt :: string
  AValue :: string

record alerts_response =
  ARStatus :: string
  Alerts :: "alert option list"

record alert_rule =
  RState :: string
  RName :: string
  RQuery :: string
  Duration :: string
  RLabels :: "string gomap"
  Annotations :: "string gomap"
  RAlerts :: "alert option list"
  Health :: string
  REvaluationTime :: string
  RLastEvaluation :: string
  RType :: string

record rule_group =
  EvaluationTime :: string
  File :: string
  Interval :: string
  LastEvaluation :: string
  Limit :: int
  GName :: string
  Rules :: "alert_rule option list"

record rules_response =
  RRStatus :: string
  RGroups :: "rule_group option list"

datatype json_any = AnyString string | AnyOther string

record key_value =
  Key :: string
  KType :: string
  Value :: json_any

record process =
  ServiceName :: string
  Tags :: "key_value list"

record jaeger_trace =
  TraceID :: string
  Spans :: string
  Processes :: "process gomap"

record jaeger_trace_response =
  TData :: "jaeger_trace option list"
  TErrors :: json_any
  TLimit :: int
  TOffset :: int
  TTotal :: int

record jaeger_service_response =
  SData :: "string list"
  SErrors :: string
  SLimit :: int
  SOffset :: int
  STotal :: int

datatype payload =
    AlertsJson alerts_response
  | RulesJson rules_response
  | ServicesJson jaeger_service_response
  | TraceJson jaeger_trace_response

type_synonym acl_response = "payload response"

section \<open>The environment\<close>

record backend_response =
  StatusCode :: nat
  BStatus :: string
  BBody :: string
  BBodyErr :: bool

record acl_env =
  new_request :: "string \<Rightarrow> url \<Rightarrow> string option"
  backend :: "upstream_request \<Rightarrow> string + backend_response"
  Enforce :: "string \<Rightarrow> string \<Rightarrow> string + string"
  decode_alerts :: "backend_response \<Rightarrow> string + alerts_response"
  decode_rules :: "backend_response \<Rightarrow> string + rules_response"
  decode_trace :: "string \<Rightarrow> string + jaeger_trace_response"
  json_error :: "string \<Rightarrow> string"
  query_error :: "string \<Rightarrow> string"
  marshals :: "payload \<Rightarrow> bool"

record acl_config =
  cfgHost :: string
  cfgScheme :: string
  DevMode :: bool
  AdminEmail :: string

text \<open>The interface \<open>Proxy\<close>: the tenant injection of a handler and its configuration.\<close>

record proxy =
  HandleTenantInjection :: "acl_response \<Rightarrow> request \<Rightarrow> id_token \<Rightarrow> payload outcome"
  config :: acl_config

section \<open>Helpers\<close>

definition TenantLabelName :: string where "TenantLabelName = ''tenant''"

definition TenantGroupPrefix :: string where "TenantGroupPrefix = ''tenant:''"

definition MaxBodySize :: nat where "MaxBodySize = 10 * (1024 * 1024)"

text \<open>
  The struct \<open>url.URL\<close>; its text, which \<open>BuildURL\<close> returns and the HTTP client parses again,
  separates host and path by a slash.
\<close>

definition BuildURL :: "string \<Rightarrow> string \<Rightarrow> string \<Rightarrow> string \<Rightarrow> url" where
  "BuildURL scheme host path query =
     \<lparr>Scheme = scheme, Host = host,
      UPath = (if host \<noteq> [] \<and> path \<noteq> [] \<and> hd path \<noteq> CHR ''/'' then CHR ''/'' # path else path),
      RawQuery = query\<rparr>"

fun getTenantIDFromGroups :: "string list \<Rightarrow> string" where
  "getTenantIDFromGroups [] = []"
| "getTenantIDFromGroups (g # groups) =
     (case cut_prefix g TenantGroupPrefix of
        (idt, ok) \<Rightarrow> if ok \<and> idt \<noteq> [] then idt else getTenantIDFromGroups groups)"

definition isAdminUser :: "id_token \<Rightarrow> string \<Rightarrow> bool" where
  "isAdminUser idToken adminEmail =
     (if adminEmail = [] then False
      else (case tok_claims idToken of
              Inl e \<Rightarrow> False
            | Inr claims \<Rightarrow> Email claims = adminEmail))"

definition ExtractTenantIDFromToken :: "id_token \<Rightarrow> string + string" where
  "ExtractTenantIDFromToken idToken =
     (case tok_claims idToken of
        Inl e \<Rightarrow> Inl (''failed to parse claims: '' @ e)
      | Inr claims \<Rightarrow>
          if TenantID claims \<noteq> [] then Inr (TenantID claims)
          else (let tenantID = getTenantIDFromGroups (Groups claims) in
            if tenantID \<noteq> [] then Inr tenantID
            else Inl (''unauthorized: user has no tenant group (expected '' @ TenantGroupPrefix @
                      '' prefix)'')))"

datatype query_failure = TooLarge string | BadQuery string

definition extractQuery :: "acl_env \<Rightarrow> request \<Rightarrow> query_failure + url_values" where
  "extractQuery env req =
     (if Method req = ''POST'' then
        (if length (Body req) > MaxBodySize then Inl (TooLarge ''http: request body too large'')
         else if BodyErr req then Inl (BadQuery ''unexpected EOF'')
         else (case ParseQuery (Body req) of
                 (q, malformed) \<Rightarrow>
                   if malformed then Inl (BadQuery (query_error env (Body req))) else Inr q))
      else Inr (Query (ReqRawQuery req)))"

text \<open>\<open>Header().Add\<close>; the model keeps the first value of a header.\<close>

definition add_header :: "string \<Rightarrow> string \<Rightarrow> 'p response \<Rightarrow> 'p response" where
  "add_header k v r = (if map_of (headers r) k = None then set_header k v r else r)"

definition ProxyRequest ::
  "acl_env \<Rightarrow> url \<Rightarrow> string \<Rightarrow> string option \<Rightarrow> acl_response \<Rightarrow>
     (string + backend_response) \<times> acl_response" where
  "ProxyRequest env promxyURL method body r =
     (case new_request env method promxyURL of
        Some err \<Rightarrow> (Inl (''failed to create proxy request: '' @ err), r)
      | None \<Rightarrow>
          (let proxyReq = \<lparr>up_method = method, up_url = promxyURL, up_body = body\<rparr>;
               r' = r\<lparr>upstream := upstream r @ [proxyReq]\<rparr>
           in case backend env proxyReq of
                Inl err \<Rightarrow> (Inl (''failed to proxy request: '' @ err), r')
              | Inr resp \<Rightarrow> (Inr resp, r')))"

definition StreamProxyRequest ::
  "acl_env \<Rightarrow> url \<Rightarrow> string \<Rightarrow> string option \<Rightarrow> acl_response \<Rightarrow> string option \<times> acl_response" where
  "StreamProxyRequest env url method body r =
     (case ProxyRequest env url method body r of
        (Inl err, r') \<Rightarrow> (Some (''failed to proxy request: '' @ err), r')
      | (Inr resp, r') \<Rightarrow>
          if StatusCode resp \<noteq> 200
          then (Some (''received non-OK response: '' @ BStatus resp), r')
          else (let r1 = add_header ''Content-Type'' ''application/json'' r';
                    r2 = (if BBody resp = [] then r1 else WriteChunk (Bytes (BBody resp)) r1)
                in if BBodyErr resp then (Some ''failed to proxy response body'', r2)
                   else (None, r2)))"

definition post_body :: "request \<Rightarrow> string option" where
  "post_body req = (if Method req = ''POST'' then Some (Body req) else None)"

text \<open>The tail of the streaming handlers: an error is reported, anything else is the answer.\<close>

definition stream_or_fail ::
  "acl_env \<Rightarrow> url \<Rightarrow> string \<Rightarrow> string option \<Rightarrow> acl_response \<Rightarrow> payload outcome" where
  "stream_or_fail env url method body res =
     (case StreamProxyRequest env url method body res of
        (Some err, r) \<Rightarrow> Done (http_Error ''unable to make request'' 500 r)
      | (None, r) \<Rightarrow> Done r)"

definition ProxyBypass :: "acl_env \<Rightarrow> acl_config \<Rightarrow> payload handler" where
  "ProxyBypass env cfg res req =
     (let pathParts = split_on (CHR ''/'') (Path req) in
      if length pathParts < 2
      then Panics (PanicError ''runtime error: slice bounds out of range'') res
      else
        (let path = join ''/'' (drop 2 pathParts);
             targetURL = BuildURL (cfgScheme cfg) (cfgHost cfg) path (Encode (Query (ReqRawQuery req)))
         in stream_or_fail env targetURL (Method req) (post_body req) res))"

definition ACLProxy :: "acl_env \<Rightarrow> proxy \<Rightarrow> payload handler" where
  "ACLProxy env p res req =
     (case GetIDToken req of
        Some idToken \<Rightarrow>
          if isAdminUser idToken (AdminEmail (config p)) then ProxyBypass env (config p) res req
          else HandleTenantInjection p res req idToken
      | None \<Rightarrow>
          if DevMode (config p) then ProxyBypass env (config p) res req
          else Done (Fail ''Unauthorized: authentication required'' 401 res))"

definition AdminProxy :: "acl_env \<Rightarrow> proxy \<Rightarrow> payload handler" where
  "AdminProxy env p res req =
     (let admin = (case GetIDToken req of
                     Some idToken \<Rightarrow> isAdminUser idToken (AdminEmail (config p))
                   | None \<Rightarrow> False)
      in if admin then ProxyBypass env (config p) res req
         else if DevMode (config p) then ProxyBypass env (config p) res req
         else Done (Fail ''Forbidden: admin access required'' 403 res))"

section \<open>Logs\<close>

definition quoted :: "string \<Rightarrow> string" where
  "quoted s = [dquote] @ s @ [dquote]"

definition logs_filter :: "string \<Rightarrow> string" where
  "logs_filter tenantID = TenantLabelName @ '':='' @ quoted tenantID"

definition logs_injection :: "acl_env \<Rightarrow> acl_config \<Rightarrow> acl_response \<Rightarrow> request \<Rightarrow> id_token \<Rightarrow> payload outcome" where
  "logs_injection env cfg res req idToken =
     (case ExtractTenantIDFromToken idToken of
        Inl err \<Rightarrow> Done (Fail (''failed to extract tenant ID: '' @ err) 401 res)
      | Inr tenantID \<Rightarrow>
          (let query = Query (ReqRawQuery req);
               path = trim_prefix (Path req) ''/logs'';
               query' = Values_Set ''extra_filters'' (logs_filter tenantID) query;
               logsURL = BuildURL (cfgScheme cfg) (cfgHost cfg) path (Encode query')
           in stream_or_fail env logsURL (Method req) (post_body req) res))"

definition NewLogsHandler :: "acl_env \<Rightarrow> acl_config \<Rightarrow> proxy" where
  "NewLogsHandler env cfg = \<lparr>HandleTenantInjection = logs_injection env cfg, config = cfg\<rparr>"

section \<open>Traces\<close>

definition traces_filter :: "string \<Rightarrow> string" where
  "traces_filter tenantID = quoted (''resource_attr:'' @ TenantLabelName) @ '':='' @ quoted tenantID"

text \<open>
  The stream of JSON objects in an answer, decoded one value at a time; \<open>null\<close> leaves the
  entry nil. \<open>None\<close> is a decoding error.
\<close>

definition decode_entry :: "string \<Rightarrow> (string gomap \<times> string) option" where
  "decode_entry s =
     (if has_prefix s ''null'' then Some ([], drop 4 s)
      else (case s of
          [] \<Rightarrow> None
        | c # t \<Rightarrow>
            if c \<noteq> CHR ''{'' then None
            else (case skip_ws t of
                [] \<Rightarrow> None
              | d # u \<Rightarrow> if d = CHR ''}'' then Some ([], u) else json_members (d # u) [])))"

lemma decode_entry_length:
  assumes "decode_entry s = Some (m, t)"
  shows "length t < length s"
proof (cases "has_prefix s ''null''")
  case True
  then show ?thesis using assms by (auto simp: decode_entry_def has_prefix_iff)
next
  case False
  then obtain c u d v where s: "s = c # u" "skip_ws u = d # v"
    "t = v \<or> json_members (d # v) [] = Some (m, t)"
    using assms unfolding decode_entry_def by (auto split: list.splits if_splits)
  then have "length t \<le> length (skip_ws u)" by (auto dest: json_members_length)
  with skip_ws_length [of u] s(1) show ?thesis by simp
qed

function serviceNames :: "string \<Rightarrow> string list option" where
  "serviceNames s =
     (if skip_ws s = [] then Some []
      else (case decode_entry (skip_ws s) of
          None \<Rightarrow> None
        | Some (entry, t) \<Rightarrow>
            map_option ((@) (case map_of entry ''resource_attr:service.name'' of
                               Some n \<Rightarrow> [n] | None \<Rightarrow> []))
              (serviceNames t)))"
  by pat_completeness auto
termination
  by (relation "measure length") (auto dest: decode_entry_length intro: less_le_trans [OF _ skip_ws_length])

declare serviceNames.simps [simp del]

definition jaeger_services_injection ::
  "acl_env \<Rightarrow> acl_config \<Rightarrow> acl_response \<Rightarrow> request \<Rightarrow> id_token \<Rightarrow> payload outcome" where
  "jaeger_services_injection env cfg res req idToken =
     (case ExtractTenantIDFromToken idToken of
        Inl err \<Rightarrow> Done (Fail (''failed to extract tenant ID: '' @ err) 401 res)
      | Inr tenantID \<Rightarrow>
          (let query = Query (ReqRawQuery req);
               query1 = Values_Set ''extra_filters'' (traces_filter tenantID) query;
               query2 = Values_Set ''query''
                          (''* | uniq by ('' @ quoted ''resource_attr:service.name'' @ '')'') query1;
               backendURL = BuildURL (cfgScheme cfg) (cfgHost cfg) ''/select/logsql/query'' (Encode query2)
           in case ProxyRequest env backendURL (Method req) (post_body req) res of
                (Inl err, r) \<Rightarrow> Done (http_Error ''unable to make request'' 500 r)
              | (Inr vtResp, r) \<Rightarrow>
                  if StatusCode vtResp \<noteq> 200
                  then Done (Fail (''received non-OK response: '' @ BStatus vtResp) (StatusCode vtResp) r)
                  else (case (if BBodyErr vtResp then None else serviceNames (BBody vtResp)) of
                      None \<Rightarrow> Done (http_Error ''unable to decode response'' 500 r)
                    | Some names \<Rightarrow>
                        Done (WriteChunk (Json (ServicesJson
                          \<lparr>SData = names, SErrors = [], SLimit = 0, SOffset = 0,
                           STotal = int (length names)\<rparr>)) r))))"

definition NewJaegerServicesHandler :: "acl_env \<Rightarrow> acl_config \<Rightarrow> proxy" where
  "NewJaegerServicesHandler env cfg =
     \<lparr>HandleTenantInjection = jaeger_services_injection env cfg, config = cfg\<rparr>"

text \<open>Comparing an \<open>any\<close> holding another dynamic type with a string is false, never a panic.\<close>

definition hasProcessTagWithValue :: "jaeger_trace \<Rightarrow> string \<Rightarrow> string \<Rightarrow> bool" where
  "hasProcessTagWithValue trace key value =
     list_ex (\<lambda>(_, proc). list_ex (\<lambda>tag. Key tag = key \<and> Value tag = AnyString value) (Tags proc))
       (Processes trace)"

text \<open>The loop over the traces; a nil trace is a nil dereference, \<open>None\<close> here.\<close>

fun filter_traces :: "string \<Rightarrow> jaeger_trace option list \<Rightarrow> jaeger_trace option list option" where
  "filter_traces tenantID [] = Some []"
| "filter_traces tenantID (None # ts) = None"
| "filter_traces tenantID (Some t # ts) =
     map_option (\<lambda>xs. if hasProcessTagWithValue t TenantLabelName tenantID then Some t # xs else xs)
       (filter_traces tenantID ts)"

definition nil_dereference :: panic where
  "nil_dereference = PanicError ''runtime error: invalid memory address or nil pointer dereference''"

definition jaeger_trace_injection ::
  "acl_env \<Rightarrow> acl_config \<Rightarrow> acl_response \<Rightarrow> request \<Rightarrow> id_token \<Rightarrow> payload outcome" where
  "jaeger_trace_injection env cfg res req idToken =
     (case ExtractTenantIDFromToken idToken of
        Inl err \<Rightarrow> Done (Fail (''failed to extract tenant ID: '' @ err) 401 res)
      | Inr tenantID \<Rightarrow>
          (let path = trim_prefix (Path req) ''/traces'';
               backendURL = BuildURL (cfgScheme cfg) (cfgHost cfg) path (Encode (Query (ReqRawQuery req)))
           in case ProxyRequest env backendURL (Method req) (post_body req) res of
                (Inl err, r) \<Rightarrow> Done (http_Error ''unable to make request'' 500 r)
              | (Inr vtResp, r) \<Rightarrow>
                  if StatusCode vtResp \<noteq> 200
                  then Done (Fail (''received non-OK response: '' @ BStatus vtResp) (StatusCode vtResp) r)
                  else if BBodyErr vtResp then Done (http_Error ''unable to read response'' 500 r)
                  else (case decode_trace env (BBody vtResp) of
                      Inl err \<Rightarrow> Done (http_Error ''unable to parse response'' 500 r)
                    | Inr result \<Rightarrow>
                        (case filter_traces tenantID (TData result) of
                           None \<Rightarrow> Panics nil_dereference r
                         | Some filteredData \<Rightarrow>
                             Done (WriteChunk (Json (TraceJson
                               (result\<lparr>TData := filteredData,
                                       TTotal := int (length filteredData)\<rparr>))) r)))))"

definition NewJaegerTraceHandler :: "acl_env \<Rightarrow> acl_config \<Rightarrow> proxy" where
  "NewJaegerTraceHandler env cfg =
     \<lparr>HandleTenantInjection = jaeger_trace_injection env cfg, config = cfg\<rparr>"

definition tenant_tag :: string where
  "tenant_tag = ''resource_attr:'' @ TenantLabelName"

definition jaeger_traces_injection ::
  "acl_env \<Rightarrow> acl_config \<Rightarrow> acl_response \<Rightarrow> request \<Rightarrow> id_token \<Rightarrow> payload outcome" where
  "jaeger_traces_injection env cfg res req idToken =
     (case ExtractTenantIDFromToken idToken of
        Inl err \<Rightarrow> Done (Fail (''failed to extract tenant ID: '' @ err) 401 res)
      | Inr tenantID \<Rightarrow>
          (let query = Query (ReqRawQuery req);
               rawTags = Values_Get query ''tags''
           in case (if rawTags \<noteq> [] then unmarshal_flat rawTags else JsonMap []) of
                JsonError \<Rightarrow> Done (Fail (''failed to parse tags: '' @ json_error env rawTags) 500 res)
              | JsonNull \<Rightarrow> Panics (PanicError ''assignment to entry in nil map'') res
              | JsonMap tags \<Rightarrow>
                  (let tagsJSON = marshal_flat (map_set tenant_tag tenantID tags);
                       query' = Values_Set ''tags'' tagsJSON query;
                       path = trim_prefix (Path req) ''/traces'';
                       url = BuildURL (cfgScheme cfg) (cfgHost cfg) path (Encode query')
                   in stream_or_fail env url (Method req) (post_body req) res)))"

definition NewJaegerTracesHandler :: "acl_env \<Rightarrow> acl_config \<Rightarrow> proxy" where
  "NewJaegerTracesHandler env cfg =
     \<lparr>HandleTenantInjection = jaeger_traces_injection env cfg, config = cfg\<rparr>"

section \<open>Metrics\<close>

definition isQueryEndpoint :: "string \<Rightarrow> bool" where
  "isQueryEndpoint path = contains path ''query''"

text \<open>The enforcer of prom-label-proxy with the one matcher \<open>tenant="..."\<close>, conflicts replaced.\<close>

definition injectTenantIDLabel :: "acl_env \<Rightarrow> string \<Rightarrow> string \<Rightarrow> string + string" where
  "injectTenantIDLabel env tenantID originalQuery = Enforce env tenantID originalQuery"

definition PrometheusQueryParamName :: string where "PrometheusQueryParamName = ''query''"

definition PrometheusMatchParamName :: string where "PrometheusMatchParamName = ''match[]''"

definition DummyMatchSelector :: string where
  "DummyMatchSelector = ''{__name__=~'' @ quoted ''.+'' @ ''}''"

text \<open>The switch that chooses the parameter to enforce, with the query it leaves.\<close>

definition choose_param :: "string \<Rightarrow> url_values \<Rightarrow> (string \<times> url_values) option" where
  "choose_param path query =
     (if Values_Has query PrometheusQueryParamName then Some (PrometheusQueryParamName, query)
      else if Values_Has query PrometheusMatchParamName then Some (PrometheusMatchParamName, query)
      else if isQueryEndpoint path then None
      else Some (PrometheusMatchParamName,
                 Values_Set PrometheusMatchParamName DummyMatchSelector query))"

definition promxy_query_injection ::
  "acl_env \<Rightarrow> acl_config \<Rightarrow> acl_response \<Rightarrow> request \<Rightarrow> id_token \<Rightarrow> payload outcome" where
  "promxy_query_injection env cfg res req idToken =
     (case extractQuery env req of
        Inl (TooLarge err) \<Rightarrow> Done (Fail (''request body too large: '' @ err) 413 res)
      | Inl (BadQuery err) \<Rightarrow> Done (Fail (''failed to extract query: '' @ err) 400 res)
      | Inr query0 \<Rightarrow>
          (case choose_param (Path req) query0 of
             None \<Rightarrow> Done (Fail (''missing required query parameter: '' @ PrometheusQueryParamName) 400 res)
           | Some (paramName, query) \<Rightarrow>
               (case ExtractTenantIDFromToken idToken of
                  Inl err \<Rightarrow> Done (Fail (''failed to extract tenant ID: '' @ err) 401 res)
                | Inr tenantID \<Rightarrow>
                    (case injectTenantIDLabel env tenantID (Values_Get query paramName) of
                       Inl err \<Rightarrow>
                         Done (Fail (''failed to inject tenant ID label into query: '' @ err) 400 res)
                     | Inr modifiedQuery \<Rightarrow>
                         (let query1 = Values_Set paramName modifiedQuery query;
                              body = (if Method req = ''POST'' then Some (Encode query1) else None);
                              query2 = (if Method req = ''POST'' then Query (ReqRawQuery req) else query1);
                              path = trim_prefix (Path req) ''/metrics'';
                              promxyURL = BuildURL (cfgScheme cfg) (cfgHost cfg) path (Encode query2)
                          in stream_or_fail env promxyURL (Method req) body res)))))"

definition NewPromxyQueryHandler :: "acl_env \<Rightarrow> acl_config \<Rightarrow> proxy" where
  "NewPromxyQueryHandler env cfg =
     \<lparr>HandleTenantInjection = promxy_query_injection env cfg, config = cfg\<rparr>"

fun filterAlertsByTenant :: "alert option list \<Rightarrow> string \<Rightarrow> alert option list" where
  "filterAlertsByTenant [] tenantID = []"
| "filterAlertsByTenant (None # alerts) tenantID = filterAlertsByTenant alerts tenantID"
| "filterAlertsByTenant (Some alert # alerts) tenantID =
     (if length (Labels alert) = 0 then filterAlertsByTenant alerts tenantID
      else (case map_of (Labels alert) TenantLabelName of
              Some val \<Rightarrow>
                if val = tenantID then Some alert # filterAlertsByTenant alerts tenantID
                else filterAlertsByTenant alerts tenantID
            | None \<Rightarrow> filterAlertsByTenant alerts tenantID))"

definition promxy_alerts_injection ::
  "acl_env \<Rightarrow> acl_config \<Rightarrow> acl_response \<Rightarrow> request \<Rightarrow> id_token \<Rightarrow> payload outcome" where
  "promxy_alerts_injection env cfg res req idToken =
     (case ExtractTenantIDFromToken idToken of
        Inl err \<Rightarrow> Done (Fail (''failed to extract tenant ID: '' @ err) 401 res)
      | Inr tenantID \<Rightarrow>
          (let path = trim_prefix (Path req) ''/metrics'';
               backendURL = BuildURL (cfgScheme cfg) (cfgHost cfg) path (Encode (Query (ReqRawQuery req)))
           in case ProxyRequest env backendURL (Method req) None res of
                (Inl err, r) \<Rightarrow> Done (Fail (''failed to proxy request: '' @ err) 500 r)
              | (Inr resp, r) \<Rightarrow>
                  if StatusCode resp \<noteq> 200
                  then Done (Fail (''received non-OK response: '' @ BStatus resp) (StatusCode resp) r)
                  else (case decode_alerts env resp of
                      Inl err \<Rightarrow> Done (Fail (''failed to decode alerts: '' @ err) 500 r)
                    | Inr alerts \<Rightarrow>
                        Done (SendObj (marshals env)
                          (AlertsJson (alerts\<lparr>Alerts := filterAlertsByTenant (Alerts alerts) tenantID\<rparr>))
                          200 r))))"

definition NewPromxyAlertsHandler :: "acl_env \<Rightarrow> acl_config \<Rightarrow> proxy" where
  "NewPromxyAlertsHandler env cfg =
     \<lparr>HandleTenantInjection = promxy_alerts_injection env cfg, config = cfg\<rparr>"

definition firing_alert :: "alert option \<Rightarrow> bool" where
  "firing_alert a = (case a of None \<Rightarrow> False | Some x \<Rightarrow> AState x = ''firing'')"

definition filter_rule :: "string \<Rightarrow> alert_rule \<Rightarrow> alert_rule" where
  "filter_rule tenantID rule =
     (if RType rule \<noteq> ''alerting'' then rule
      else
        (let matchingAlerts = filterAlertsByTenant (RAlerts rule) tenantID;
             isFiring = list_ex firing_alert matchingAlerts
         in rule\<lparr>RState := (if length matchingAlerts = 0 then ''inactive''
                             else if isFiring then ''firing'' else ''pending''),
                 RAlerts := matchingAlerts\<rparr>))"

text \<open>A nil rule or a nil group is a nil dereference, \<open>None\<close> here.\<close>

fun filter_rules :: "string \<Rightarrow> alert_rule option list \<Rightarrow> alert_rule option list option" where
  "filter_rules tenantID [] = Some []"
| "filter_rules tenantID (None # rs) = None"
| "filter_rules tenantID (Some r # rs) =
     map_option ((#) (Some (filter_rule tenantID r))) (filter_rules tenantID rs)"

fun filter_groups :: "string \<Rightarrow> rule_group option list \<Rightarrow> rule_group option list option" where
  "filter_groups tenantID [] = Some []"
| "filter_groups tenantID (None # gs) = None"
| "filter_groups tenantID (Some g # gs) =
     (case filter_rules tenantID (Rules g) of
        None \<Rightarrow> None
      | Some rs \<Rightarrow> map_option ((#) (Some (g\<lparr>Rules := rs\<rparr>))) (filter_groups tenantID gs))"

definition promxy_rules_injection ::
  "acl_env \<Rightarrow> acl_config \<Rightarrow> acl_response \<Rightarrow> request \<Rightarrow> id_token \<Rightarrow> payload outcome" where
  "promxy_rules_injection env cfg res req idToken =
     (case ExtractTenantIDFromToken idToken of
        Inl err \<Rightarrow> Done (Fail (''failed to extract tenant ID: '' @ err) 401 res)
      | Inr tenantID \<Rightarrow>
          (let path = trim_prefix (Path req) ''/metrics'';
               backendURL = BuildURL (cfgScheme cfg) (cfgHost cfg) path (Encode (Query (ReqRawQuery req)))
           in case ProxyRequest env backendURL (Method req) None res of
                (Inl err, r) \<Rightarrow> Done (Fail (''failed to proxy request: '' @ err) 500 r)
              | (Inr resp, r) \<Rightarrow>
                  if StatusCode resp \<noteq> 200
                  then Done (Fail (''received non-OK response: '' @ BStatus resp) (StatusCode resp) r)
                  else (case decode_rules env resp of
                      Inl err \<Rightarrow> Done (Fail (''failed to decode rules: '' @ err) 500 r)
                    | Inr ruleResponse \<Rightarrow>
                        (case filter_groups tenantID (RGroups ruleResponse) of
                           None \<Rightarrow> Panics nil_dereference r
                         | Some gs \<Rightarrow>
                             Done (SendObj (marshals env) (RulesJson (ruleResponse\<lparr>RGroups := gs\<rparr>))
                               200 r)))))"

definition NewPromxyRulesHandler :: "acl_env \<Rightarrow> acl_config \<Rightarrow> proxy" where
  "NewPromxyRulesHandler env cfg =
     \<lparr>HandleTenantInjection = promxy_rules_injection env cfg, config = cfg\<rparr>"

section \<open>What a handler sends\<close>

lemma ProxyRequest_upstream:
  assumes "ProxyRequest env url method body r = (x, r')"
  shows "r' = r \<or> r' = r\<lparr>upstream := upstream r @ [\<lparr>up_method = method, up_url = url, up_body = body\<rparr>]\<rparr>"
  using assms by (auto simp: ProxyRequest_def Let_def split: option.splits sum.splits)

lemma upstream_add_header [simp]: "upstream (add_header k v r) = upstream r"
  by (simp add: add_header_def)

lemma stream_or_fail_upstream:
  "\<exists>us. upstream (outcome_response (stream_or_fail env url method body res)) = upstream res @ us \<and>
     set us \<subseteq> {\<lparr>up_method = method, up_url = url, up_body = body\<rparr>}"
proof -
  obtain x r where pr: "ProxyRequest env url method body res = (x, r)" by fastforce
  have "upstream (outcome_response (stream_or_fail env url method body res)) = upstream r"
    by (auto simp: stream_or_fail_def StreamProxyRequest_def pr Let_def split: sum.split)
  then show ?thesis using ProxyRequest_upstream [OF pr] by auto
qed

text \<open>The request an unrestricted user's request is passed on as.\<close>

definition bypass_request :: "acl_config \<Rightarrow> request \<Rightarrow> upstream_request" where
  "bypass_request cfg req =
     \<lparr>up_method = Method req,
      up_url = BuildURL (cfgScheme cfg) (cfgHost cfg)
                 (join ''/'' (drop 2 (split_on (CHR ''/'') (Path req)))) (Encode (Query (ReqRawQuery req))),
      up_body = post_body req\<rparr>"

lemma sends_bypass: "sends_only (\<lambda>req u. u = bypass_request cfg req) (ProxyBypass env cfg)"
proof (rule sends_onlyI)
  fix res req
  show "\<exists>us. upstream (outcome_response (ProxyBypass env cfg res req)) = upstream res @ us \<and>
      (\<forall>u \<in> set us. u = bypass_request cfg req)"
  proof (cases "length (split_on (CHR ''/'') (Path req)) < 2")
    case False
    then show ?thesis
      using stream_or_fail_upstream [of env "up_url (bypass_request cfg req)" "Method req"
          "post_body req" res]
      by (auto simp: ProxyBypass_def bypass_request_def Let_def subset_singleton_iff)
  qed (simp add: ProxyBypass_def)
qed

text \<open>What a request may be sent to the backend for, and as which request.\<close>

definition granted ::
  "proxy \<Rightarrow> (string \<Rightarrow> request \<Rightarrow> upstream_request \<Rightarrow> bool) \<Rightarrow> request \<Rightarrow> upstream_request \<Rightarrow> bool" where
  "granted p Q req u \<longleftrightarrow>
     (case GetIDToken req of
        None \<Rightarrow> DevMode (config p) \<and> u = bypass_request (config p) req
      | Some tok \<Rightarrow>
          if isAdminUser tok (AdminEmail (config p)) then u = bypass_request (config p) req
          else (case ExtractTenantIDFromToken tok of Inl e \<Rightarrow> False | Inr t \<Rightarrow> Q t req u))"

text \<open>
  The contract of a tenant injection: without a tenant nothing is sent; for a tenant every
  request that is sent satisfies \<open>Q tenant\<close>; a panic is a runtime error.
\<close>

locale tenant_proxy =
  fixes p :: proxy
    and Q :: "string \<Rightarrow> request \<Rightarrow> upstream_request \<Rightarrow> bool"
  assumes no_tenant: "ExtractTenantIDFromToken tok = Inl e \<Longrightarrow>
      upstream (outcome_response (HandleTenantInjection p res req tok)) = upstream res"
    and scoped: "ExtractTenantIDFromToken tok = Inr t \<Longrightarrow>
      \<exists>us. upstream (outcome_response (HandleTenantInjection p res req tok)) = upstream res @ us \<and>
        (\<forall>u \<in> set us. Q t req u)"
    and runtime_panic: "HandleTenantInjection p res req tok = Panics v r \<Longrightarrow> \<exists>e. v = PanicError e"
begin

lemma sends_ACLProxy: "sends_only (granted p Q) (ACLProxy env p)"
proof (rule sends_onlyI)
  fix res req
  let ?o = "ACLProxy env p res req"
  have bypass: "\<exists>us. upstream (outcome_response (ProxyBypass env (config p) res req)) = upstream res @ us \<and>
      (\<forall>u \<in> set us. u = bypass_request (config p) req)"
    by (rule sends_onlyD [OF sends_bypass])
  show "\<exists>us. upstream (outcome_response ?o) = upstream res @ us \<and> (\<forall>u \<in> set us. granted p Q req u)"
  proof (cases "GetIDToken req")
    case None
    then show ?thesis using bypass by (auto simp: ACLProxy_def granted_def)
  next
    case (Some tok)
    then show ?thesis
      using bypass scoped [of tok _ res req] no_tenant [of tok _ res req]
      by (cases "ExtractTenantIDFromToken tok") (auto simp: ACLProxy_def granted_def)
  qed
qed

lemma tenant_request:
  assumes "GetIDToken req = Some tok" "\<not> isAdminUser tok (AdminEmail (config p))" "granted p Q req u"
  shows "\<exists>t. ExtractTenantIDFromToken tok = Inr t \<and> Q t req u"
  using assms by (auto simp: granted_def split: sum.splits)

lemma token_required:
  assumes "granted p Q req u" "\<not> DevMode (config p)"
  shows "\<exists>tok. GetIDToken req = Some tok \<and>
    (isAdminUser tok (AdminEmail (config p)) \<or> (\<exists>t. ExtractTenantIDFromToken tok = Inr t))"
  using assms by (auto simp: granted_def split: option.splits if_splits sum.splits)

end

section \<open>The handlers meet the contract\<close>

definition logs_request :: "acl_config \<Rightarrow> string \<Rightarrow> request \<Rightarrow> upstream_request" where
  "logs_request cfg t req =
     \<lparr>up_method = Method req,
      up_url = BuildURL (cfgScheme cfg) (cfgHost cfg) (trim_prefix (Path req) ''/logs'')
        (Encode (Values_Set ''extra_filters'' (logs_filter t) (Query (ReqRawQuery req)))),
      up_body = post_body req\<rparr>"

definition services_request :: "acl_config \<Rightarrow> string \<Rightarrow> request \<Rightarrow> upstream_request" where
  "services_request cfg t req =
     \<lparr>up_method = Method req,
      up_url = BuildURL (cfgScheme cfg) (cfgHost cfg) ''/select/logsql/query''
        (Encode (Values_Set ''query''
           (''* | uniq by ('' @ quoted ''resource_attr:service.name'' @ '')'')
           (Values_Set ''extra_filters'' (traces_filter t) (Query (ReqRawQuery req))))),
      up_body = post_body req\<rparr>"

text \<open>The backend request that only drops the given prefix of the path.\<close>

definition plain_request ::
  "string \<Rightarrow> (request \<Rightarrow> string option) \<Rightarrow> acl_config \<Rightarrow> request \<Rightarrow> upstream_request" where
  "plain_request pre body cfg req =
     \<lparr>up_method = Method req,
      up_url = BuildURL (cfgScheme cfg) (cfgHost cfg) (trim_prefix (Path req) pre)
        (Encode (Query (ReqRawQuery req))),
      up_body = body req\<rparr>"

definition traces_request :: "acl_config \<Rightarrow> string gomap \<Rightarrow> string \<Rightarrow> request \<Rightarrow> upstream_request" where
  "traces_request cfg tags t req =
     \<lparr>up_method = Method req,
      up_url = BuildURL (cfgScheme cfg) (cfgHost cfg) (trim_prefix (Path req) ''/traces'')
        (Encode (Values_Set ''tags'' (marshal_flat (map_set tenant_tag t tags)) (Query (ReqRawQuery req)))),
      up_body = post_body req\<rparr>"

definition query_request :: "acl_config \<Rightarrow> url_values \<Rightarrow> request \<Rightarrow> upstream_request" where
  "query_request cfg query req =
     \<lparr>up_method = Method req,
      up_url = BuildURL (cfgScheme cfg) (cfgHost cfg) (trim_prefix (Path req) ''/metrics'')
        (Encode (if Method req = ''POST'' then Query (ReqRawQuery req) else query)),
      up_body = (if Method req = ''POST'' then Some (Encode query) else None)\<rparr>"

text \<open>The tags a traces query is sent with: those of the request, which parse.\<close>

definition request_tags :: "request \<Rightarrow> string gomap option" where
  "request_tags req =
     (let rawTags = Values_Get (Query (ReqRawQuery req)) ''tags'' in
      if rawTags = [] then Some []
      else (case unmarshal_flat rawTags of JsonMap m \<Rightarrow> Some m | _ \<Rightarrow> None))"

definition traces_scope :: "acl_config \<Rightarrow> string \<Rightarrow> request \<Rightarrow> upstream_request \<Rightarrow> bool" where
  "traces_scope cfg t req u \<longleftrightarrow>
     (\<exists>tags. request_tags req = Some tags \<and> u = traces_request cfg tags t req)"

definition query_scope :: "acl_env \<Rightarrow> acl_config \<Rightarrow> string \<Rightarrow> request \<Rightarrow> upstream_request \<Rightarrow> bool" where
  "query_scope env cfg t req u \<longleftrightarrow>
     (\<exists>query0 name query q.
        extractQuery env req = Inr query0 \<and>
        choose_param (Path req) query0 = Some (name, query) \<and>
        Enforce env t (Values_Get query name) = Inr q \<and>
        u = query_request cfg (Values_Set name q query) req)"

lemma subset_singleton_all: "set us \<subseteq> {x} \<longleftrightarrow> (\<forall>u \<in> set us. u = x)"
  by blast

lemma stream_sends:
  assumes "Q \<lparr>up_method = method, up_url = url, up_body = body\<rparr>"
  shows "\<exists>us. upstream (outcome_response (stream_or_fail env url method body res)) = upstream res @ us \<and>
     (\<forall>u \<in> set us. Q u)"
  using stream_or_fail_upstream [of env url "method" body res] assms
  by (auto simp: subset_singleton_all)

lemma stream_or_fail_Done: "\<exists>r. stream_or_fail env url method body res = Done r"
  by (simp add: stream_or_fail_def split: prod.split option.split)

interpretation logs: tenant_proxy "NewLogsHandler env cfg" "\<lambda>t req u. u = logs_request cfg t req"
proof unfold_locales
  show "HandleTenantInjection (NewLogsHandler env cfg) res req tok = Panics v r \<Longrightarrow> \<exists>e. v = PanicError e"
    for res req tok v r
    using stream_or_fail_Done
    by (auto simp: NewLogsHandler_def logs_injection_def Let_def split: sum.splits)
      (metis outcome.distinct(1))
qed (auto simp: NewLogsHandler_def logs_injection_def logs_request_def Let_def intro!: stream_sends)

interpretation traces: tenant_proxy "NewJaegerTracesHandler env cfg" "traces_scope cfg"
proof unfold_locales
  show "\<exists>e. v = PanicError e"
    if "HandleTenantInjection (NewJaegerTracesHandler env cfg) res req tok = Panics v r" for res req tok v r
    using that stream_or_fail_Done
    by (auto simp: NewJaegerTracesHandler_def jaeger_traces_injection_def Let_def
        split: sum.splits if_splits flat_json.splits) (metis outcome.distinct(1))+
qed (auto simp: NewJaegerTracesHandler_def jaeger_traces_injection_def traces_scope_def
    traces_request_def request_tags_def Let_def split: flat_json.split intro!: stream_sends)

lemma proxy_sends:
  assumes "Q \<lparr>up_method = method, up_url = url, up_body = body\<rparr>"
    and "\<And>x r. upstream (outcome_response (k x r)) = upstream r"
  shows "\<exists>us. upstream (outcome_response (case ProxyRequest env url method body res of (x, r) \<Rightarrow> k x r))
      = upstream res @ us \<and> (\<forall>u \<in> set us. Q u)"
proof -
  obtain x r where pr: "ProxyRequest env url method body res = (x, r)" by fastforce
  with ProxyRequest_upstream [OF pr] assms show ?thesis by auto
qed

lemma proxy_panics:
  assumes "(case ProxyRequest env url method body res of (x, r) \<Rightarrow> k x r) = Panics v r'"
    and "\<And>x r. k x r = Panics v r' \<Longrightarrow> \<exists>e. v = PanicError e"
  shows "\<exists>e. v = PanicError e"
  using assms by (auto split: prod.splits)

interpretation services: tenant_proxy "NewJaegerServicesHandler env cfg"
  "\<lambda>t req u. u = services_request cfg t req"
proof unfold_locales
  show "\<exists>e. v = PanicError e"
    if "HandleTenantInjection (NewJaegerServicesHandler env cfg) res req tok = Panics v r"
    for res req tok v r
    using that
    by (auto simp: NewJaegerServicesHandler_def jaeger_services_injection_def Let_def
        split: sum.splits if_splits option.splits elim!: proxy_panics)
qed (auto simp: NewJaegerServicesHandler_def jaeger_services_injection_def services_request_def Let_def
    split: sum.split option.split intro!: proxy_sends)

interpretation trace: tenant_proxy "NewJaegerTraceHandler env cfg"
  "\<lambda>t req u. u = plain_request ''/traces'' post_body cfg req"
proof unfold_locales
  show "\<exists>e. v = PanicError e"
    if "HandleTenantInjection (NewJaegerTraceHandler env cfg) res req tok = Panics v r"
    for res req tok v r
    using that
    by (auto simp: NewJaegerTraceHandler_def jaeger_trace_injection_def Let_def nil_dereference_def
        split: sum.splits if_splits option.splits elim!: proxy_panics)
qed (auto simp: NewJaegerTraceHandler_def jaeger_trace_injection_def plain_request_def Let_def
    split: sum.split option.split intro!: proxy_sends)

interpretation alerts: tenant_proxy "NewPromxyAlertsHandler env cfg"
  "\<lambda>t req u. u = plain_request ''/metrics'' (\<lambda>_. None) cfg req"
proof unfold_locales
  show "\<exists>e. v = PanicError e"
    if "HandleTenantInjection (NewPromxyAlertsHandler env cfg) res req tok = Panics v r"
    for res req tok v r
    using that
    by (auto simp: NewPromxyAlertsHandler_def promxy_alerts_injection_def Let_def
        split: sum.splits if_splits elim!: proxy_panics)
qed (auto simp: NewPromxyAlertsHandler_def promxy_alerts_injection_def plain_request_def Let_def
    split: sum.split intro!: proxy_sends)

interpretation rules: tenant_proxy "NewPromxyRulesHandler env cfg"
  "\<lambda>t req u. u = plain_request ''/metrics'' (\<lambda>_. None) cfg req"
proof unfold_locales
  show "\<exists>e. v = PanicError e"
    if "HandleTenantInjection (NewPromxyRulesHandler env cfg) res req tok = Panics v r"
    for res req tok v r
    using that
    by (auto simp: NewPromxyRulesHandler_def promxy_rules_injection_def Let_def nil_dereference_def
        split: sum.splits if_splits option.splits elim!: proxy_panics)
qed (auto simp: NewPromxyRulesHandler_def promxy_rules_injection_def plain_request_def Let_def
    split: sum.split option.split intro!: proxy_sends)

interpretation metrics: tenant_proxy "NewPromxyQueryHandler env cfg" "query_scope env cfg"
proof unfold_locales
  show "\<exists>e. v = PanicError e"
    if "HandleTenantInjection (NewPromxyQueryHandler env cfg) res req tok = Panics v r"
    for res req tok v r
    using that stream_or_fail_Done
    by (auto simp: NewPromxyQueryHandler_def promxy_query_injection_def Let_def
        split: sum.splits if_splits option.splits query_failure.splits prod.splits)
      (metis outcome.distinct(1))+
  show "\<exists>us. upstream (outcome_response (HandleTenantInjection (NewPromxyQueryHandler env cfg) res req tok))
      = upstream res @ us \<and> (\<forall>u \<in> set us. query_scope env cfg t req u)"
    if t: "ExtractTenantIDFromToken tok = Inr t" for tok t res req
  proof (cases "extractQuery env req")
    case (Inl e)
    then show ?thesis
      by (cases e) (simp_all add: NewPromxyQueryHandler_def promxy_query_injection_def)
  next
    case (Inr query0)
    note q0 = this
    show ?thesis
    proof (cases "choose_param (Path req) query0")
      case None
      with q0 show ?thesis by (simp add: NewPromxyQueryHandler_def promxy_query_injection_def)
    next
      case (Some nq)
      then obtain name query where nq: "choose_param (Path req) query0 = Some (name, query)"
        by (cases nq) auto
      show ?thesis
      proof (cases "Enforce env t (Values_Get query name)")
        case (Inl e)
        with q0 nq t show ?thesis
          by (simp add: NewPromxyQueryHandler_def promxy_query_injection_def injectTenantIDLabel_def)
      next
        case (Inr q)
        have "query_scope env cfg t req (query_request cfg (Values_Set name q query) req)"
          using q0 nq Inr by (auto simp: query_scope_def)
        with q0 nq t Inr show ?thesis
          by (simp add: NewPromxyQueryHandler_def promxy_query_injection_def injectTenantIDLabel_def Let_def)
            (auto simp: query_request_def intro!: stream_sends)
      qed
    qed
  qed
qed (auto simp: NewPromxyQueryHandler_def promxy_query_injection_def split: sum.split query_failure.split
    option.split)

end
