(* ===== verification/Acl_Server.thy ===== *)
theory Acl_Server
  imports Acl
begin

text \<open>
  The ACL server as \<open>kof-operator/cmd/acl/main.go\<close> puts it together: the middlewares, the
  route table, and the properties of the whole server. They are stated on \<open>acl_serve\<close>, the
  answer to one request: what reaches a backend (\<open>upstream\<close>) and what the client is sent.
\<close>

section \<open>The server\<close>

text \<open>The command line of \<open>cmd/acl\<close> and the OIDC provider.\<close>

record acl_flags =
  promxyHost :: string
  promxyScheme :: string
  logsHost :: string
  logsScheme :: string
  tracesHost :: string
  tracesScheme :: string
  adminEmail :: string
  developmentMode :: bool
  verifyToken :: "string \<Rightarrow> id_token option"

definition NotFoundHandler :: "'p handler" where
  "NotFoundHandler res req =
     Done (WriteChunk (Bytes ''404 - Page not found\<newline>'')
       (SetStatus 404 (set_header ''Content-Type'' ''text/plain'' res)))"

definition promxyConfig :: "acl_flags \<Rightarrow> acl_config" where
  "promxyConfig f = \<lparr>cfgHost = promxyHost f, cfgScheme = promxyScheme f,
     DevMode = developmentMode f, AdminEmail = adminEmail f\<rparr>"

definition logsConfig :: "acl_flags \<Rightarrow> acl_config" where
  "logsConfig f = \<lparr>cfgHost = logsHost f, cfgScheme = logsScheme f,
     DevMode = developmentMode f, AdminEmail = adminEmail f\<rparr>"

definition tracesConfig :: "acl_flags \<Rightarrow> acl_config" where
  "tracesConfig f = \<lparr>cfgHost = tracesHost f, cfgScheme = tracesScheme f,
     DevMode = developmentMode f, AdminEmail = adminEmail f\<rparr>"

definition query_routes :: "payload handler \<Rightarrow> payload router \<Rightarrow> payload router" where
  "query_routes h =
     POST ''/metrics/api/v1/labels/*'' h \<circ> GET ''/metrics/api/v1/labels/*'' h \<circ>
     POST ''/metrics/api/v1/series/*'' h \<circ> GET ''/metrics/api/v1/series/*'' h \<circ>
     POST ''/metrics/api/v1/query/*'' h \<circ> GET ''/metrics/api/v1/query/*'' h \<circ>
     POST ''/metrics/api/v1/query_range/*'' h \<circ> GET ''/metrics/api/v1/query_range/*'' h \<circ>
     POST ''/metrics/api/v1/parse_query/*'' h \<circ> GET ''/metrics/api/v1/parse_query/*'' h \<circ>
     POST ''/metrics/api/v1/format_query/*'' h \<circ> GET ''/metrics/api/v1/format_query/*'' h \<circ>
     POST ''/metrics/api/v1/query_exemplars/*'' h \<circ> GET ''/metrics/api/v1/query_exemplars/*'' h"

definition status_routes :: "payload handler \<Rightarrow> payload router \<Rightarrow> payload router" where
  "status_routes h =
     GET ''/metrics/api/v1/status/blocks'' h \<circ> GET ''/metrics/api/v1/status/tsdb'' h \<circ>
     GET ''/metrics/api/v1/status/runtimeinfo'' h \<circ> GET ''/metrics/api/v1/status/flags'' h \<circ>
     GET ''/metrics/api/v1/status/config'' h"

text \<open>
  \<open>main\<close>: the middlewares in the order of \<open>Use\<close> and the routes in the order they are
  registered. \<open>enableServerCORS\<close> has no flag and is always false.
\<close>

definition acl_router :: "acl_env \<Rightarrow> acl_flags \<Rightarrow> payload router" where
  "acl_router env f =
     (let promxyQueryHandler = NewPromxyQueryHandler env (promxyConfig f);
          promxyAlertsHandler = NewPromxyAlertsHandler env (promxyConfig f);
          promxyRulesHandler = NewPromxyRulesHandler env (promxyConfig f);
          logsHandler = NewLogsHandler env (logsConfig f);
          jaegerAPITraceHandler = NewJaegerTraceHandler env (tracesConfig f);
          jaegerAPITracesHandler = NewJaegerTracesHandler env (tracesConfig f);
          jaegerAPIServiceHandler = NewJaegerServicesHandler env (tracesConfig f);
          r0 = Use (AuthenticationMiddleware
                     \<lparr>verify = verifyToken f, SkipOnEmptyToken = developmentMode f\<rparr>)
                 (Use LoggingMiddleware (Use RecoveryMiddleware (Use SpanNameMiddleware NewRouter)));
          r1 = query_routes (ACLProxy env promxyQueryHandler) r0;
          r2 = GET ''/metrics/api/v1/alerts/*'' (ACLProxy env promxyAlertsHandler)
                 (GET ''/metrics/api/v1/rules/*'' (ACLProxy env promxyRulesHandler)
                   (GET ''/metrics/api/v1/label/*'' (ACLProxy env promxyQueryHandler) r1));
          r3 = status_routes (AdminProxy env promxyQueryHandler)
                 (GET ''/metrics/api/v1/status/buildinfo'' (ProxyBypass env (promxyConfig f)) r2);
          r4 = POST ''/logs/*'' (ACLProxy env logsHandler) (GET ''/logs/*'' (ACLProxy env logsHandler) r3);
          r5 = GET ''/traces/select/jaeger/api/traces'' (ACLProxy env jaegerAPITracesHandler)
                 (GET ''/traces/select/jaeger/api/traces/*'' (ACLProxy env jaegerAPITraceHandler)
                   (GET ''/traces/select/jaeger/api/services'' (ACLProxy env jaegerAPIServiceHandler) r4))
      in NotFound NotFoundHandler r5)"

definition acl_serve :: "acl_env \<Rightarrow> acl_flags \<Rightarrow> request \<Rightarrow> payload outcome" where
  "acl_serve env f req = ServeHTTP (acl_router env f) new_response req"

section \<open>The route table\<close>

text \<open>The two maps the registrations build, in the order of \<open>main\<close>.\<close>

datatype acl_route =
  QueryRoute | AlertsRoute | RulesRoute | LogsRoute | TraceRoute | TracesRoute | ServicesRoute |
  AdminRoute | BuildinfoRoute

primrec route_handler :: "acl_env \<Rightarrow> acl_flags \<Rightarrow> acl_route \<Rightarrow> payload handler" where
  "route_handler env f QueryRoute = ACLProxy env (NewPromxyQueryHandler env (promxyConfig f))"
| "route_handler env f AlertsRoute = ACLProxy env (NewPromxyAlertsHandler env (promxyConfig f))"
| "route_handler env f RulesRoute = ACLProxy env (NewPromxyRulesHandler env (promxyConfig f))"
| "route_handler env f LogsRoute = ACLProxy env (NewLogsHandler env (logsConfig f))"
| "route_handler env f TraceRoute = ACLProxy env (NewJaegerTraceHandler env (tracesConfig f))"
| "route_handler env f TracesRoute = ACLProxy env (NewJaegerTracesHandler env (tracesConfig f))"
| "route_handler env f ServicesRoute = ACLProxy env (NewJaegerServicesHandler env (tracesConfig f))"
| "route_handler env f AdminRoute = AdminProxy env (NewPromxyQueryHandler env (promxyConfig f))"
| "route_handler env f BuildinfoRoute = ProxyBypass env (promxyConfig f)"

definition get_table :: "(string \<times> acl_route) list" where
  "get_table =
     [(''/metrics/api/v1/query_exemplars/*'', QueryRoute), (''/metrics/api/v1/format_query/*'', QueryRoute),
      (''/metrics/api/v1/parse_query/*'', QueryRoute), (''/metrics/api/v1/query_range/*'', QueryRoute),
      (''/metrics/api/v1/query/*'', QueryRoute), (''/metrics/api/v1/series/*'', QueryRoute),
      (''/metrics/api/v1/labels/*'', QueryRoute), (''/metrics/api/v1/label/*'', QueryRoute),
      (''/metrics/api/v1/rules/*'', RulesRoute), (''/metrics/api/v1/alerts/*'', AlertsRoute),
      (''/metrics/api/v1/status/buildinfo'', BuildinfoRoute),
      (''/metrics/api/v1/status/config'', AdminRoute), (''/metrics/api/v1/status/flags'', AdminRoute),
      (''/metrics/api/v1/status/runtimeinfo'', AdminRoute), (''/metrics/api/v1/status/tsdb'', AdminRoute),
      (''/metrics/api/v1/status/blocks'', AdminRoute),
      (''/logs/*'', LogsRoute),
      (''/traces/select/jaeger/api/services'', ServicesRoute),
      (''/traces/select/jaeger/api/traces/*'', TraceRoute),
      (''/traces/select/jaeger/api/traces'', TracesRoute)]"

definition post_table :: "(string \<times> acl_route) list" where
  "post_table =
     [(''/metrics/api/v1/query_exemplars/*'', QueryRoute), (''/metrics/api/v1/format_query/*'', QueryRoute),
      (''/metrics/api/v1/parse_query/*'', QueryRoute), (''/metrics/api/v1/query_range/*'', QueryRoute),
      (''/metrics/api/v1/query/*'', QueryRoute), (''/metrics/api/v1/series/*'', QueryRoute),
      (''/metrics/api/v1/labels/*'', QueryRoute), (''/logs/*'', LogsRoute)]"

definition get_routes :: "acl_env \<Rightarrow> acl_flags \<Rightarrow> (string \<times> payload handler) list" where
  "get_routes env f = map (\<lambda>(p, k). (p, route_handler env f k)) get_table"

definition post_routes :: "acl_env \<Rightarrow> acl_flags \<Rightarrow> (string \<times> payload handler) list" where
  "post_routes env f = map (\<lambda>(p, k). (p, route_handler env f k)) post_table"

lemma acl_routes:
  "routes (acl_router env f) = [(''GET'', get_routes env f), (''POST'', post_routes env f)]"
  by (simp add: acl_router_def get_routes_def post_routes_def get_table_def post_table_def Let_def query_routes_def
    status_routes_def GET_def POST_def addRoute_def Use_def NewRouter_def NotFound_def)

lemma acl_middlewares:
  "middlewares (acl_router env f) = [SpanNameMiddleware, RecoveryMiddleware, LoggingMiddleware,
     AuthenticationMiddleware \<lparr>verify = verifyToken f, SkipOnEmptyToken = developmentMode f\<rparr>]"
  "notFoundHandler (acl_router env f) = NotFoundHandler"
  by (simp_all add: acl_router_def Let_def query_routes_def
    status_routes_def GET_def POST_def addRoute_def Use_def NewRouter_def NotFound_def)



section \<open>From the server to the handler\<close>

definition acl_auth :: "acl_flags \<Rightarrow> auth_config" where
  "acl_auth f = \<lparr>verify = verifyToken f, SkipOnEmptyToken = developmentMode f\<rparr>"

text \<open>The JSON objects of an answer.\<close>

definition payloads :: "'p response \<Rightarrow> 'p set" where
  "payloads r = {x. Json x \<in> set (out_body r)}"

lemma payloads_frame [simp]:
  "payloads (WriteHeader code r) = payloads r"
  "payloads (set_header k v r) = payloads r"
  "payloads (SetStatus code r) = payloads r"
  "payloads (WriteChunk (Bytes b) r) = payloads r"
  "payloads (WriteChunk (Json x) r) = insert x (payloads r)"
  "payloads (http_Error msg code r) = payloads r"
  "payloads (Fail msg code r) = payloads r"
  "payloads (add_header k v r) = payloads r"
  "payloads (r\<lparr>upstream := us\<rparr>) = payloads r"
  "payloads new_response = {}"
  by (auto simp: payloads_def WriteHeader_def set_header_def SetStatus_def WriteChunk_def http_Error_def
      Fail_def add_header_def new_response_def Let_def split: option.splits)

lemma payloads_SendObj [simp]:
  "payloads (SendObj m x code r) = (if m x then insert x (payloads r) else payloads r)"
  by (simp add: SendObj_def SendJson_def SetContentType_def)

lemma acl_serve_eq:
  "acl_serve env f req =
      (case findHandler (acl_router env f) (Method req) (Path req) of
         None \<Rightarrow> RecoveryMiddleware (AuthenticationMiddleware (acl_auth f) NotFoundHandler) new_response req
       | Some (p, h) \<Rightarrow> RecoveryMiddleware (AuthenticationMiddleware (acl_auth f) h) new_response
           (req\<lparr>ctxRoute := Some p\<rparr>))"
  by (simp add: acl_serve_def ServeHTTP_def ApplyMiddleware_def acl_middlewares acl_auth_def
      SpanNameMiddleware_def LoggingMiddleware_def [abs_def] split: option.split)

lemma recovery_keeps:
  "upstream (outcome_response (RecoveryMiddleware h res req)) = upstream (outcome_response (h res req))"
  "payloads (outcome_response (RecoveryMiddleware h res req)) = payloads (outcome_response (h res req))"
  by (simp_all add: RecoveryMiddleware_def split: outcome.split panic.split)

text \<open>
  A request that no route or no token admits reaches no backend and is answered without data;
  any other is answered by the handler of its route, for the authenticated request.
\<close>

lemma acl_serve_cases:
  obtains (refused) "upstream (outcome_response (acl_serve env f req)) = []"
      "payloads (outcome_response (acl_serve env f req)) = {}"
    | (handled) p h req' where
      "findHandler (acl_router env f) (Method req) (Path req) = Some (p, h)"
      "authenticated (acl_auth f) (req\<lparr>ctxRoute := Some p\<rparr>) req'"
      "upstream (outcome_response (acl_serve env f req)) = upstream (outcome_response (h new_response req'))"
      "payloads (outcome_response (acl_serve env f req)) = payloads (outcome_response (h new_response req'))"
proof -
  have auth: "(\<exists>r. AuthenticationMiddleware (acl_auth f) h new_response rq = Done (Fail ''Unauthorized'' 401 new_response)) \<or>
      (\<exists>rq'. authenticated (acl_auth f) rq rq' \<and>
         AuthenticationMiddleware (acl_auth f) h new_response rq = h new_response rq')"
    for h :: "payload handler" and rq
    by (auto simp: AuthenticationMiddleware_def authenticated_def Let_def split: option.splits)
  show thesis
  proof (cases "findHandler (acl_router env f) (Method req) (Path req)")
    case None
    have "upstream (outcome_response (acl_serve env f req)) = [] \<and>
      payloads (outcome_response (acl_serve env f req)) = {}"
      using auth [of NotFoundHandler req] None
      by (auto simp: acl_serve_eq recovery_keeps NotFoundHandler_def) (auto simp: new_response_def)
    with refused show thesis by blast
  next
    case (Some ph)
    then obtain p h where ph: "findHandler (acl_router env f) (Method req) (Path req) = Some (p, h)"
      by (cases ph) auto
    from auth [of h "req\<lparr>ctxRoute := Some p\<rparr>"] show thesis
    proof
      assume "\<exists>r. AuthenticationMiddleware (acl_auth f) h new_response (req\<lparr>ctxRoute := Some p\<rparr>)
        = Done (Fail ''Unauthorized'' 401 new_response)"
      then have "upstream (outcome_response (acl_serve env f req)) = [] \<and>
          payloads (outcome_response (acl_serve env f req)) = {}"
        using ph by (auto simp: acl_serve_eq recovery_keeps) (auto simp: new_response_def)
      with refused show thesis by blast
    next
      assume "\<exists>rq'. authenticated (acl_auth f) (req\<lparr>ctxRoute := Some p\<rparr>) rq' \<and>
         AuthenticationMiddleware (acl_auth f) h new_response (req\<lparr>ctxRoute := Some p\<rparr>) = h new_response rq'"
      with ph handled show thesis by (auto simp: acl_serve_eq recovery_keeps)
    qed
  qed
qed

section \<open>Every handler of the table\<close>

definition acl_proxies :: "acl_env \<Rightarrow> acl_flags \<Rightarrow> proxy list" where
  "acl_proxies env f =
     [NewPromxyQueryHandler env (promxyConfig f), NewPromxyAlertsHandler env (promxyConfig f),
      NewPromxyRulesHandler env (promxyConfig f), NewLogsHandler env (logsConfig f),
      NewJaegerTraceHandler env (tracesConfig f), NewJaegerTracesHandler env (tracesConfig f),
      NewJaegerServicesHandler env (tracesConfig f)]"

lemma found_route:
  assumes "findHandler (acl_router env f) method path = Some (p, h)"
  obtains k where "(p, k) \<in> set get_table \<union> set post_table" "h = route_handler env f k"
    "p = path \<or> isWildcardMatch p path"
  using findHandler_sound [OF assms]
  by (auto simp: acl_routes get_routes_def post_routes_def split: if_splits)

lemma buildinfo_path:
  assumes "(p, BuildinfoRoute) \<in> set get_table \<union> set post_table" "p = path \<or> isWildcardMatch p path"
  shows "path = ''/metrics/api/v1/status/buildinfo''"
proof -
  have p: "p = ''/metrics/api/v1/status/buildinfo''"
    using assms(1) by (auto simp: get_table_def post_table_def)
  then show ?thesis using assms(2) isWildcardMatch_exact [of p path] by auto
qed

lemma route_handlers:
  assumes "findHandler (acl_router env f) method path = Some (p, h)"
  shows "(\<exists>px \<in> set (acl_proxies env f). h = ACLProxy env px) \<or>
    h = AdminProxy env (NewPromxyQueryHandler env (promxyConfig f)) \<or>
    (path = ''/metrics/api/v1/status/buildinfo'' \<and> h = ProxyBypass env (promxyConfig f))"
proof -
  obtain k where k: "(p, k) \<in> set get_table \<union> set post_table" "h = route_handler env f k"
    "p = path \<or> isWildcardMatch p path"
    by (rule found_route [OF assms])
  have "path = ''/metrics/api/v1/status/buildinfo''" if "k = BuildinfoRoute"
    using buildinfo_path k(1,3) that by blast
  with k(2) show ?thesis by (cases k) (auto simp: acl_proxies_def)
qed

lemma AdminEmail_proxies:
  "px \<in> set (acl_proxies env f) \<Longrightarrow>
     AdminEmail (config px) = adminEmail f \<and> DevMode (config px) = developmentMode f"
  by (auto simp: acl_proxies_def NewPromxyQueryHandler_def NewPromxyAlertsHandler_def NewPromxyRulesHandler_def
      NewLogsHandler_def NewJaegerTraceHandler_def NewJaegerTracesHandler_def NewJaegerServicesHandler_def
      promxyConfig_def logsConfig_def tracesConfig_def)

lemma proxies_contract:
  assumes "px \<in> set (acl_proxies env f)"
  shows "\<exists>Q. tenant_proxy px Q"
  using assms unfolding acl_proxies_def
  by (auto intro: metrics.tenant_proxy_axioms alerts.tenant_proxy_axioms rules.tenant_proxy_axioms
      logs.tenant_proxy_axioms trace.tenant_proxy_axioms traces.tenant_proxy_axioms
      services.tenant_proxy_axioms)

lemma sends_AdminProxy:
  "sends_only (\<lambda>req u. u = bypass_request (config px) req \<and> (DevMode (config px) \<or>
      (\<exists>tok. GetIDToken req = Some tok \<and> isAdminUser tok (AdminEmail (config px))))) (AdminProxy env px)"
  using sends_onlyD [OF sends_bypass]
  by (fastforce simp: sends_only_def AdminProxy_def split: option.splits)

text \<open>
  C1: in production mode nothing reaches a backend without a token that the OIDC provider
  verified; and that token is the administrator's, or names a tenant, or the request is for
  the build information.
\<close>

theorem production_requires_token:
  assumes "\<not> developmentMode f"
    and "u \<in> set (upstream (outcome_response (acl_serve env f req)))"
  shows "\<exists>tok. verifyToken f (GetJwtTokenFromHeader req) = Some tok \<and>
    (isAdminUser tok (adminEmail f) \<or> (\<exists>t. ExtractTenantIDFromToken tok = Inr t) \<or>
     Path req = ''/metrics/api/v1/status/buildinfo'')"
proof (cases rule: acl_serve_cases [of env f req])
  case (handled p h req')
  then obtain tok where tok: "verifyToken f (GetJwtTokenFromHeader req) = Some tok" "ctxToken req' = Some tok"
    using assms(1) by (auto simp: authenticated_def acl_auth_def GetJwtTokenFromHeader_def)
  have u: "u \<in> set (upstream (outcome_response (h new_response req')))" using assms(2) handled by simp
  from route_handlers [OF handled(1)] show ?thesis
  proof (elim disjE bexE conjE)
    fix px
    assume px: "px \<in> set (acl_proxies env f)" "h = ACLProxy env px"
    then obtain Q where c: "tenant_proxy px Q" using proxies_contract by blast
    have "granted px Q req' u"
      using sends_only_fresh [OF tenant_proxy.sends_ACLProxy [OF c]] u px(2) by simp
    then show ?thesis
      using tenant_proxy.token_required [OF c, of req' u] AdminEmail_proxies [OF px(1)] assms(1) tok
      by (auto simp: GetIDToken_def)
  next
    assume h: "h = AdminProxy env (NewPromxyQueryHandler env (promxyConfig f))"
    have "NewPromxyQueryHandler env (promxyConfig f) \<in> set (acl_proxies env f)"
      by (simp add: acl_proxies_def)
    then show ?thesis
      using sends_only_fresh [OF sends_AdminProxy] u h AdminEmail_proxies assms(1) tok
      by (fastforce simp: GetIDToken_def)
  next
    assume "Path req = ''/metrics/api/v1/status/buildinfo''"
    with tok show ?thesis by auto
  qed
qed (use assms(2) in simp)

section \<open>Requests of a tenant\<close>

definition token_of :: "acl_flags \<Rightarrow> request \<Rightarrow> id_token option" where
  "token_of f req =
     (if GetJwtTokenFromHeader req = [] then None else verifyToken f (GetJwtTokenFromHeader req))"

lemma authenticated_token:
  assumes "authenticated (acl_auth f) (req\<lparr>ctxRoute := Some p\<rparr>) req'" "token_of f req = Some tok"
  shows "req' = req\<lparr>ctxRoute := Some p, ctxToken := Some tok\<rparr>"
  using assms
  by (auto simp: authenticated_def token_of_def acl_auth_def GetJwtTokenFromHeader_def split: if_splits)

text \<open>
  A request with the token of a tenant, sent through a route of one of the proxies: what
  reaches the backend satisfies the contract of that proxy.
\<close>

lemma tenant_requests:
  assumes tok: "token_of f req = Some tok" "\<not> isAdminUser tok (adminEmail f)"
    and h: "\<forall>p h. findHandler (acl_router env f) (Method req) (Path req) = Some (p, h) \<longrightarrow>
      h = ACLProxy env px"
    and px: "px \<in> set (acl_proxies env f)" "tenant_proxy px Q"
    and u: "u \<in> set (upstream (outcome_response (acl_serve env f req)))"
  shows "\<exists>t p. ExtractTenantIDFromToken tok = Inr t \<and>
    Q t (req\<lparr>ctxRoute := Some p, ctxToken := Some tok\<rparr>) u"
proof (cases rule: acl_serve_cases [of env f req])
  case (handled p h' req')
  have req': "req' = req\<lparr>ctxRoute := Some p, ctxToken := Some tok\<rparr>"
    by (rule authenticated_token [OF handled(2) tok(1)])
  have "granted px Q req' u"
    using sends_only_fresh [OF tenant_proxy.sends_ACLProxy [OF px(2)]] u handled(1,3) h
    by simp
  then show ?thesis
    using tenant_proxy.tenant_request [OF px(2), of req' tok u] tok(2) AdminEmail_proxies [OF px(1)] req'
    by (auto simp: GetIDToken_def)
qed (use u in simp)

lemma acl_serve_tenant:
  assumes "findHandler (acl_router env f) (Method req) (Path req) = Some (p, ACLProxy env px)"
    and "token_of f req = Some tok" "\<not> isAdminUser tok (AdminEmail (config px))"
  shows "upstream (outcome_response (acl_serve env f req)) =
      upstream (outcome_response (HandleTenantInjection px new_response
        (req\<lparr>ctxRoute := Some p, ctxToken := Some tok\<rparr>) tok))"
    and "payloads (outcome_response (acl_serve env f req)) =
      payloads (outcome_response (HandleTenantInjection px new_response
        (req\<lparr>ctxRoute := Some p, ctxToken := Some tok\<rparr>) tok))"
  using assms
  by (simp_all add: acl_serve_eq recovery_keeps AuthenticationMiddleware_def acl_auth_def token_of_def
      GetJwtTokenFromHeader_def ACLProxy_def GetIDToken_def split: if_splits)

text \<open>The first parts of the path decide which handlers can answer.\<close>

abbreviation path_part :: "nat \<Rightarrow> string \<Rightarrow> string" where
  "path_part i path \<equiv> split_on (CHR ''/'') path ! i"

definition query_endpoints :: "string list" where
  "query_endpoints = [''query_exemplars'', ''format_query'', ''parse_query'', ''query_range'', ''query'',
     ''series'', ''labels'', ''label'']"

definition table_parts :: "string \<times> acl_route \<Rightarrow> bool" where
  "table_parts pk =
     (case pk of (p, k) \<Rightarrow>
        2 < length (split_on (CHR ''/'') p) \<and> path_part 1 p \<noteq> ''*'' \<and>
        (path_part 1 p = ''logs'') = (k = LogsRoute) \<and>
        (path_part 1 p = ''traces'') = (k \<in> {TraceRoute, TracesRoute, ServicesRoute}) \<and>
        (path_part 1 p = ''metrics'' \<longrightarrow>
           5 < length (split_on (CHR ''/'') p) \<and> path_part 4 p \<noteq> ''*'' \<and>
           (path_part 4 p \<in> set query_endpoints) = (k = QueryRoute) \<and>
           (path_part 4 p = ''alerts'') = (k = AlertsRoute) \<and>
           (path_part 4 p = ''rules'') = (k = RulesRoute) \<and>
           (path_part 4 p = ''status'') = (k \<in> {AdminRoute, BuildinfoRoute})))"

lemma tables: "list_all table_parts (get_table @ post_table)"
  by code_simp

lemma logs_route:
  assumes "findHandler (acl_router env f) method path = Some (p, h)" "path_part 1 path = ''logs''"
  shows "h = route_handler env f LogsRoute"
proof -
  obtain k where k: "(p, k) \<in> set get_table \<union> set post_table" "h = route_handler env f k"
    "p = path \<or> isWildcardMatch p path"
    by (rule found_route [OF assms(1)])
  with tables have "table_parts (p, k)" by (auto simp: list_all_iff)
  with matched_part [OF k(3), of 1] assms(2) k(2) show ?thesis by (auto simp: table_parts_def)
qed

lemma metrics_route:
  assumes "findHandler (acl_router env f) method path = Some (p, h)" "path_part 1 path = ''metrics''"
  obtains k where "h = route_handler env f k"
    "path_part 4 path \<in> set query_endpoints \<longleftrightarrow> k = QueryRoute"
    "path_part 4 path = ''alerts'' \<longleftrightarrow> k = AlertsRoute"
    "path_part 4 path = ''rules'' \<longleftrightarrow> k = RulesRoute"
    "path_part 4 path = ''status'' \<longleftrightarrow> k \<in> {AdminRoute, BuildinfoRoute}"
    "k = BuildinfoRoute \<Longrightarrow> path = ''/metrics/api/v1/status/buildinfo''"
proof -
  obtain k where k: "(p, k) \<in> set get_table \<union> set post_table" "h = route_handler env f k"
    "p = path \<or> isWildcardMatch p path"
    by (rule found_route [OF assms(1)])
  with tables have "table_parts (p, k)" by (auto simp: list_all_iff)
  with matched_part [OF k(3), of 1] matched_part [OF k(3), of 4] assms(2) k that buildinfo_path
  show thesis by (auto simp: table_parts_def)
qed

text \<open>Parameters that the proxy does not set reach the backend as the client sent them.\<close>

definition kept :: "string \<Rightarrow> url_values \<Rightarrow> url_values \<Rightarrow> bool" where
  "kept name sent received \<longleftrightarrow>
     (\<forall>k. k \<noteq> name \<longrightarrow> map_of received k =
        (case map_of sent k of Some (x # xs) \<Rightarrow> Some (x # xs) | _ \<Rightarrow> None))"

lemma kept_Set: "wf_map v \<Longrightarrow> kept name v (Query (Encode (Values_Set name x v)))"
  using ParseQuery_Encode(2) [of "Values_Set name x v"] by (simp add: kept_def Query_def)

text \<open>
  C2: a logs query of a tenant reaches the logs backend with the filter for the tenant as the
  only \<open>extra_filters\<close> of its URL, whatever the client sent there; the path and the other
  parameters of the URL are the client's. No request but a POST has a body; the body of a POST is
  the client's, parameters in it included.
\<close>

theorem logs_tenant_filter:
  assumes "token_of f req = Some tok" "\<not> isAdminUser tok (adminEmail f)"
    and "Path req = ''/logs/'' @ path"
    and "u \<in> set (upstream (outcome_response (acl_serve env f req)))"
  shows "\<exists>t. ExtractTenantIDFromToken tok = Inr t \<and>
    map_of (Query (RawQuery (up_url u))) ''extra_filters'' = Some [logs_filter t] \<and>
    kept ''extra_filters'' (Query (ReqRawQuery req)) (Query (RawQuery (up_url u))) \<and>
    Host (up_url u) = logsHost f \<and> UPath (up_url u) = ''/'' @ path \<and> up_method u = Method req \<and>
    up_body u = (if Method req = ''POST'' then Some (Body req) else None)"
proof -
  have h: "\<forall>p h. findHandler (acl_router env f) (Method req) (Path req) = Some (p, h) \<longrightarrow>
      h = ACLProxy env (NewLogsHandler env (logsConfig f))"
    using logs_route [of env f] assms(3) by auto
  have px: "NewLogsHandler env (logsConfig f) \<in> set (acl_proxies env f)" by (simp add: acl_proxies_def)
  obtain t p where t: "ExtractTenantIDFromToken tok = Inr t"
    and u: "u = logs_request (logsConfig f) t (req\<lparr>ctxRoute := Some p, ctxToken := Some tok\<rparr>)"
    using tenant_requests [OF assms(1,2) h px logs.tenant_proxy_axioms assms(4)] by auto
  have "trim_prefix (''/logs/'' @ path) ''/logs'' = ''/'' @ path"
    using trim_prefix_append [of "''/logs''" "''/'' @ path"] by simp
  then show ?thesis
    using t assms(3) by (simp add: u logs_request_def BuildURL_def logsConfig_def Query_Encode_Set kept_Set post_body_def)
qed

text \<open>A small environment: one tenant, one administrator, a backend that answers with 200.\<close>

definition demo_token :: "string \<Rightarrow> string list \<Rightarrow> id_token" where
  "demo_token email groups = \<lparr>tok_claims = Inr \<lparr>Email = email, CName = [], Groups = groups,
     Verified = True, TenantID = []\<rparr>\<rparr>"

definition demo_flags :: acl_flags where
  "demo_flags = \<lparr>promxyHost = ''promxy'', promxyScheme = ''http'', logsHost = ''logs'', logsScheme = ''http'',
     tracesHost = ''traces'', tracesScheme = ''http'', adminEmail = ''root@kof'', developmentMode = False,
     verifyToken = (\<lambda>t. if t = ''a'' then Some (demo_token ''root@kof'' [])
        else if t = ''t'' then Some (demo_token ''u@kof'' [''dev'', ''tenant:blue'']) else None)\<rparr>"

definition demo_alert :: "string \<Rightarrow> string \<Rightarrow> alert" where
  "demo_alert tenant state = \<lparr>Labels = [(''tenant'', tenant)], AState = state, AnnotationsA = [],
     ActiveAt = [], AValue = []\<rparr>"

definition demo_trace :: "string \<Rightarrow> jaeger_trace" where
  "demo_trace tenant = \<lparr>TraceID = ''1'', Spans = ''[]'',
     Processes = [(''p1'', \<lparr>ServiceName = ''s'', Tags =
       [\<lparr>Key = ''tenant'', KType = ''string'', Value = AnyString tenant\<rparr>]\<rparr>)]\<rparr>"

definition demo_rule :: alert_rule where
  "demo_rule = \<lparr>RState = ''firing'', RName = ''r'', RQuery = [], Duration = [], RLabels = [], Annotations = [],
     RAlerts = [Some (demo_alert ''red'' ''firing''), Some (demo_alert ''blue'' ''pending'')],
     Health = ''ok'', REvaluationTime = [], RLastEvaluation = [], RType = ''alerting''\<rparr>"

definition demo_env :: acl_env where
  "demo_env = \<lparr>new_request = (\<lambda>_ _. None),
     backend = (\<lambda>_. Inr \<lparr>StatusCode = 200, BStatus = ''200 OK'', BBody = ''{}'', BBodyErr = False\<rparr>),
     Enforce = (\<lambda>t q. Inr (q @ ''{tenant='' @ t @ ''}'')),
     decode_alerts = (\<lambda>_. Inr \<lparr>ARStatus = ''success'',
        Alerts = [Some (demo_alert ''red'' ''firing''), None, Some (demo_alert ''blue'' ''pending'')]\<rparr>),
     decode_rules = (\<lambda>_. Inr \<lparr>RRStatus = ''success'', RGroups = [Some \<lparr>EvaluationTime = [], File = [],
        Interval = [], LastEvaluation = [], Limit = 0, GName = ''g'', Rules = [Some demo_rule]\<rparr>]\<rparr>),
     decode_trace = (\<lambda>_. Inr \<lparr>TData = [Some (demo_trace ''red''), Some (demo_trace ''blue'')],
        TErrors = AnyOther ''null'', TLimit = 0, TOffset = 0, TTotal = 2\<rparr>),
     json_error = (\<lambda>_. ''json''), query_error = (\<lambda>_. ''query''), marshals = (\<lambda>_. True)\<rparr>"

definition demo_get :: "string \<Rightarrow> string \<Rightarrow> string \<Rightarrow> request" where
  "demo_get token path query = \<lparr>Method = ''GET'', Path = path, ReqRawQuery = query,
     Authorization = ''Bearer '' @ token, Body = [], BodyErr = False, ctxToken = None, ctxRoute = None\<rparr>"

lemma demo_get_simps: "Method (demo_get t path query) = ''GET''" "Path (demo_get t path query) = path"
  by (simp_all add: demo_get_def)

lemma demo_tenant:
  "token_of demo_flags (demo_get ''t'' path query) = Some (demo_token ''u@kof'' [''dev'', ''tenant:blue''])"
  "\<not> isAdminUser (demo_token ''u@kof'' [''dev'', ''tenant:blue'']) (adminEmail demo_flags)"
  by (simp_all add: token_of_def demo_flags_def demo_get_def GetJwtTokenFromHeader_def cut_prefix_def
     isAdminUser_def demo_token_def)

lemma demo_proxies:
  "px \<in> set (acl_proxies demo_env demo_flags) \<Longrightarrow>
    findHandler (acl_router demo_env demo_flags) ''GET'' path = Some (p, ACLProxy demo_env px) \<Longrightarrow>
    upstream (outcome_response (acl_serve demo_env demo_flags (demo_get ''t'' path query))) =
      upstream (outcome_response (HandleTenantInjection px new_response
        ((demo_get ''t'' path query)\<lparr>ctxRoute := Some p,
           ctxToken := Some (demo_token ''u@kof'' [''dev'', ''tenant:blue''])\<rparr>)
        (demo_token ''u@kof'' [''dev'', ''tenant:blue''])))"
  by (rule acl_serve_tenant) (auto simp: demo_tenant demo_get_simps dest: AdminEmail_proxies)

definition demo_logs :: request where
  "demo_logs = demo_get ''t'' ''/logs/q'' ''extra_filters=x&limit=1''"

definition demo_logs_upstream :: upstream_request where
  "demo_logs_upstream = \<lparr>up_method = ''GET'', up_url = \<lparr>Scheme = ''http'', Host = ''logs'', UPath = ''/q'',
     RawQuery = ''extra_filters=tenant%3A%3D%22blue%22&limit=1''\<rparr>, up_body = None\<rparr>"

lemma demo_logs_tenant:
  "token_of demo_flags demo_logs = Some (demo_token ''u@kof'' [''dev'', ''tenant:blue''])"
  "\<not> isAdminUser (demo_token ''u@kof'' [''dev'', ''tenant:blue'']) (adminEmail demo_flags)"
  "Path demo_logs = ''/logs/q''"
  by (simp_all add: demo_logs_def demo_tenant demo_get_simps)

lemma logs_demo:
  "upstream (outcome_response (acl_serve demo_env demo_flags demo_logs)) = [demo_logs_upstream]"
proof -
  have route: "findHandler (acl_router demo_env demo_flags) ''GET'' ''/logs/q'' =
      Some (''/logs/*'', ACLProxy demo_env (NewLogsHandler demo_env (logsConfig demo_flags)))"
    by (simp add: findHandler_def acl_routes get_routes_def get_table_def isWildcardMatch_def Let_def)
  show ?thesis unfolding demo_logs_def
    by (rule trans [OF demo_proxies [OF _ route]]) (simp add: acl_proxies_def, code_simp)
qed

theorem logs_tenant_filter_witness:
  "\<exists>t. ExtractTenantIDFromToken (demo_token ''u@kof'' [''dev'', ''tenant:blue'']) = Inr t \<and>
    map_of (Query (RawQuery (up_url demo_logs_upstream))) ''extra_filters'' = Some [logs_filter t]"
  using logs_tenant_filter [of demo_flags demo_logs "demo_token ''u@kof'' [''dev'', ''tenant:blue'']" "''q''"
      demo_logs_upstream demo_env]
  by (auto simp: logs_demo demo_logs_tenant)

theorem production_requires_token_witness:
  "\<exists>tok. verifyToken demo_flags (GetJwtTokenFromHeader demo_logs) = Some tok \<and>
    (isAdminUser tok (adminEmail demo_flags) \<or> (\<exists>t. ExtractTenantIDFromToken tok = Inr t) \<or>
     Path demo_logs = ''/metrics/api/v1/status/buildinfo'')"
  by (rule production_requires_token [of _ demo_logs_upstream demo_env])
    (simp add: demo_flags_def, simp add: logs_demo)

section \<open>Metrics queries\<close>

lemma ctx_frame:
  "extractQuery env (req\<lparr>ctxRoute := a, ctxToken := b\<rparr>) = extractQuery env req"
  "query_request cfg query (req\<lparr>ctxRoute := a, ctxToken := b\<rparr>) = query_request cfg query req"
  by (simp_all add: extractQuery_def query_request_def split: prod.split)

lemma metrics_requests:
  assumes "token_of f req = Some tok" "\<not> isAdminUser tok (adminEmail f)"
    and "path_part 1 (Path req) = ''metrics''" "path_part 4 (Path req) \<in> set query_endpoints"
    and "u \<in> set (upstream (outcome_response (acl_serve env f req)))"
  shows "\<exists>t. ExtractTenantIDFromToken tok = Inr t \<and>
    query_scope env (promxyConfig f) t req u"
proof -
  have h: "\<forall>p h. findHandler (acl_router env f) (Method req) (Path req) = Some (p, h) \<longrightarrow>
      h = ACLProxy env (NewPromxyQueryHandler env (promxyConfig f))"
    using assms(3,4) by (auto elim!: metrics_route)
  have px: "NewPromxyQueryHandler env (promxyConfig f) \<in> set (acl_proxies env f)"
    by (simp add: acl_proxies_def)
  obtain t p where t: "ExtractTenantIDFromToken tok = Inr t"
    "query_scope env (promxyConfig f) t (req\<lparr>ctxRoute := Some p, ctxToken := Some tok\<rparr>) u"
    using tenant_requests [OF assms(1,2) h px metrics.tenant_proxy_axioms assms(5)] by auto
  then show ?thesis by (auto simp: query_scope_def ctx_frame)
qed

text \<open>
  C3: a metrics query that a tenant sends with GET reaches the backend with the enforcer's
  restriction of the client's expression to the tenant: of \<open>query\<close> where the client gave one,
  otherwise of \<open>match[]\<close>, and of the selector for everything where it gave neither. The
  restricted expression is the only value of that parameter, there is no body, and the other
  parameters of the URL are the client's: so is \<open>match[]\<close> beside a \<open>query\<close>.
\<close>

theorem metrics_query_enforced:
  assumes "token_of f req = Some tok" "\<not> isAdminUser tok (adminEmail f)" "Method req = ''GET''"
    and "path_part 1 (Path req) = ''metrics''" "path_part 4 (Path req) \<in> set query_endpoints"
    and "u \<in> set (upstream (outcome_response (acl_serve env f req)))"
  shows "let sent = Query (ReqRawQuery req); received = Query (RawQuery (up_url u));
      name = (if Values_Has sent ''query'' then ''query'' else ''match[]'') in
    \<exists>t q. ExtractTenantIDFromToken tok = Inr t \<and>
      Enforce env t (if Values_Has sent name then Values_Get sent name else DummyMatchSelector) = Inr q \<and>
      map_of received name = Some [q] \<and> kept name sent received \<and> up_body u = None \<and> Host (up_url u) = promxyHost f"
proof -
  obtain t where t: "ExtractTenantIDFromToken tok = Inr t" "query_scope env (promxyConfig f) t req u"
    using metrics_requests [OF assms(1,2,4-6)] by blast
  let ?sent = "Query (ReqRawQuery req)"
  obtain name query q where q: "choose_param (Path req) ?sent = Some (name, query)" "Enforce env t (Values_Get query name) = Inr q"
    "u = query_request (promxyConfig f) (Values_Set name q query) req"
    using t(2) assms(3) by (auto simp: query_scope_def extractQuery_def)
  have name: "name = (if Values_Has ?sent ''query'' then ''query'' else ''match[]'')"
    "Values_Get query name = (if Values_Has ?sent name then Values_Get ?sent name else DummyMatchSelector)"
    using q(1) by (auto simp: choose_param_def PrometheusQueryParamName_def PrometheusMatchParamName_def
        split: if_splits)
  have wf: "wf_map query" and same: "\<forall>k. k \<noteq> name \<longrightarrow> map_of query k = map_of ?sent k"
    using q(1) by (auto simp: choose_param_def split: if_splits)
  have url: "RawQuery (up_url u) = Encode (Values_Set name q query)" "up_body u = None" "Host (up_url u) = promxyHost f"
    using assms(3) by (simp_all add: q(3) query_request_def BuildURL_def promxyConfig_def)
  have "kept name ?sent (Query (RawQuery (up_url u)))"
    using kept_Set [OF wf, of name q] same by (simp add: url kept_def)
  moreover have "map_of (Query (RawQuery (up_url u))) name = Some [q]"
    using Query_Encode_Set [OF wf] by (simp add: url)
  ultimately show ?thesis unfolding Let_def name(1) [symmetric] using t(1) q(2) url name(2) by auto
qed

text \<open>
  Of a POST the body is restricted in this way, but the parameters of its URL reach the backend as the
  client wrote them.
\<close>

lemma post_url_passes:
  assumes "token_of f req = Some tok" "\<not> isAdminUser tok (adminEmail f)" "Method req = ''POST''"
    and "path_part 1 (Path req) = ''metrics''" "path_part 4 (Path req) \<in> set query_endpoints"
    and "u \<in> set (upstream (outcome_response (acl_serve env f req)))"
  shows "RawQuery (up_url u) = Encode (Query (ReqRawQuery req))"
  using metrics_requests [OF assms(1,2,4-6)] assms(3) by (auto simp: query_scope_def query_request_def BuildURL_def)

text \<open>
  Of a request with both parameters only \<open>query\<close> is restricted to the tenant; every
  \<open>match[]\<close> selector reaches the backend as the client wrote it.
\<close>

theorem match_passes_beside_query:
  assumes "token_of f req = Some tok" "\<not> isAdminUser tok (adminEmail f)"
    and "path_part 1 (Path req) = ''metrics''" "path_part 4 (Path req) \<in> set query_endpoints"
    and "u \<in> set (upstream (outcome_response (acl_serve env f req)))"
    and "Method req = ''GET''" "Values_Has (Query (ReqRawQuery req)) ''query''"
    and "map_of (Query (ReqRawQuery req)) ''match[]'' = Some (m # ms)"
  shows "map_of (Query (RawQuery (up_url u))) ''match[]'' = Some (m # ms)"
proof -
  obtain t query0 name query q where q: "extractQuery env req = Inr query0"
    "choose_param (Path req) query0 = Some (name, query)"
    "u = query_request (promxyConfig f) (Values_Set name q query) req"
    using metrics_requests [OF assms(1-5)] by (auto simp: query_scope_def)
  then have "query0 = Query (ReqRawQuery req)" using assms(6) by (simp add: extractQuery_def)
  with q(2) assms(7) have n: "name = ''query''" "query = Query (ReqRawQuery req)"
    by (auto simp: choose_param_def PrometheusQueryParamName_def split: if_splits)
  then have "kept ''query'' query (Query (RawQuery (up_url u)))"
    using kept_Set [of query "''query''" q] assms(6) by (simp add: q(3) query_request_def BuildURL_def)
  with n(2) assms(8) show ?thesis by (simp add: kept_def)
qed

definition demo_query :: request where
  "demo_query = demo_get ''t'' ''/metrics/api/v1/series'' ''query=up&match%5B%5D=secret''"

definition demo_query_upstream :: upstream_request where
  "demo_query_upstream = \<lparr>up_method = ''GET'', up_url = \<lparr>Scheme = ''http'', Host = ''promxy'',
     UPath = ''/api/v1/series'', RawQuery = ''match%5B%5D=secret&query=up%7Btenant%3Dblue%7D''\<rparr>, up_body = None\<rparr>"

lemma demo_query_tenant:
  "token_of demo_flags demo_query = Some (demo_token ''u@kof'' [''dev'', ''tenant:blue''])"
  "Path demo_query = ''/metrics/api/v1/series''" "Method demo_query = ''GET''"
  by (simp_all add: demo_query_def demo_tenant demo_get_simps)

lemma query_demo:
  "upstream (outcome_response (acl_serve demo_env demo_flags demo_query)) = [demo_query_upstream]"
proof -
  have route: "findHandler (acl_router demo_env demo_flags) ''GET'' ''/metrics/api/v1/series'' =
      Some (''/metrics/api/v1/series/*'', ACLProxy demo_env (NewPromxyQueryHandler demo_env (promxyConfig demo_flags)))"
    by (simp add: findHandler_def acl_routes get_routes_def get_table_def isWildcardMatch_def Let_def)
  show ?thesis unfolding demo_query_def
    by (rule trans [OF demo_proxies [OF _ route]]) (simp add: acl_proxies_def, code_simp)
qed

lemma demo_query_path:
  "path_part 1 (Path demo_query) = ''metrics''" "path_part 4 (Path demo_query) \<in> set query_endpoints"
  "demo_query_upstream \<in> set (upstream (outcome_response (acl_serve demo_env demo_flags demo_query)))"
  by (simp_all add: demo_query_tenant query_endpoints_def query_demo)

theorem metrics_query_enforced_witness:
  "\<exists>q. Enforce demo_env ''blue'' (Values_Get (Query (ReqRawQuery demo_query)) ''query'') = Inr q \<and>
    map_of (Query (RawQuery (up_url demo_query_upstream))) ''query'' = Some [q]"
proof -
  have "Values_Has (Query (ReqRawQuery demo_query)) ''query''" by code_simp
  moreover have "ExtractTenantIDFromToken (demo_token ''u@kof'' [''dev'', ''tenant:blue'']) = Inr ''blue''" by code_simp
  ultimately show ?thesis
    using metrics_query_enforced [OF demo_query_tenant(1) demo_tenant(2) demo_query_tenant(3) demo_query_path] by (auto simp: Let_def)
qed

theorem match_passes_beside_query_witness:
  "map_of (Query (RawQuery (up_url demo_query_upstream))) ''match[]'' = Some [''secret'']"
proof (rule match_passes_beside_query [OF demo_query_tenant(1) demo_tenant(2) demo_query_path demo_query_tenant(3)])
  show "Values_Has (Query (ReqRawQuery demo_query)) ''query''" by code_simp
  show "map_of (Query (ReqRawQuery demo_query)) ''match[]'' = Some [''secret'']" by code_simp
qed

section \<open>Filtered answers\<close>

lemma ProxyRequest_payloads:
  "ProxyRequest env url method body r = (x, r') \<Longrightarrow> payloads r' = payloads r"
  by (auto dest: ProxyRequest_upstream)

lemma ProxyRequest_answer:
  "ProxyRequest env url method body r = (Inr resp, r') \<Longrightarrow> \<exists>u. backend env u = Inr resp"
  by (auto simp: ProxyRequest_def Let_def split: option.splits sum.splits)

text \<open>What a tenant is sent by one of the proxies, its handler sent.\<close>

lemma tenant_payloads:
  assumes tok: "token_of f req = Some tok" "\<not> isAdminUser tok (adminEmail f)"
    and h: "\<forall>p h. findHandler (acl_router env f) (Method req) (Path req) = Some (p, h) \<longrightarrow>
      h = ACLProxy env px"
    and px: "px \<in> set (acl_proxies env f)"
    and x: "x \<in> payloads (outcome_response (acl_serve env f req))"
  shows "\<exists>req'. x \<in> payloads (outcome_response (HandleTenantInjection px new_response req' tok))"
proof (cases rule: acl_serve_cases [of env f req])
  case (handled p h' req')
  then have "req' = req\<lparr>ctxRoute := Some p, ctxToken := Some tok\<rparr>"
    by (intro authenticated_token [OF _ tok(1)])
  then have "ACLProxy env px new_response req' = HandleTenantInjection px new_response req' tok"
    using tok(2) AdminEmail_proxies [OF px] by (simp add: ACLProxy_def GetIDToken_def)
  with handled(1,4) h x show ?thesis by auto
qed (use x in simp)

definition alert_of_tenant :: "string \<Rightarrow> alert option \<Rightarrow> bool" where
  "alert_of_tenant t a = (case a of None \<Rightarrow> False | Some x \<Rightarrow> map_of (Labels x) TenantLabelName = Some t)"

text \<open>The early exits of the loop do not matter: it is the filter for the tenant's label.\<close>

lemma filterAlertsByTenant_filter:
  "filterAlertsByTenant as t = filter (alert_of_tenant t) as"
  by (induction as t rule: filterAlertsByTenant.induct)
    (auto simp: alert_of_tenant_def split: option.split)

lemma alerts_payload:
  assumes "x \<in> payloads (outcome_response (HandleTenantInjection (NewPromxyAlertsHandler env cfg) new_response req tok))"
  shows "\<exists>t u resp a. ExtractTenantIDFromToken tok = Inr t \<and> backend env u = Inr resp \<and> decode_alerts env resp = Inr a \<and>
    x = AlertsJson (a\<lparr>Alerts := filterAlertsByTenant (Alerts a) t\<rparr>)"
  using assms
  by (auto simp: NewPromxyAlertsHandler_def promxy_alerts_injection_def Let_def ProxyRequest_payloads
      split: sum.splits prod.splits if_splits dest!: ProxyRequest_answer)

text \<open>
  C4: whatever JSON a tenant is sent for the alerts is an answer of the backend with exactly
  the alerts that carry the tenant's label, in their order.
\<close>

theorem alerts_filtered:
  assumes "token_of f req = Some tok" "\<not> isAdminUser tok (adminEmail f)"
    and "path_part 1 (Path req) = ''metrics''" "path_part 4 (Path req) = ''alerts''"
    and "x \<in> payloads (outcome_response (acl_serve env f req))"
  shows "\<exists>t u resp a. ExtractTenantIDFromToken tok = Inr t \<and> backend env u = Inr resp \<and> decode_alerts env resp = Inr a \<and>
    x = AlertsJson (a\<lparr>Alerts := filter (alert_of_tenant t) (Alerts a)\<rparr>)"
proof -
  have h: "\<forall>p h. findHandler (acl_router env f) (Method req) (Path req) = Some (p, h) \<longrightarrow>
      h = ACLProxy env (NewPromxyAlertsHandler env (promxyConfig f))"
    using assms(3,4) by (auto elim!: metrics_route)
  have "NewPromxyAlertsHandler env (promxyConfig f) \<in> set (acl_proxies env f)"
    by (simp add: acl_proxies_def)
  from tenant_payloads [OF assms(1,2) h this assms(5)] show ?thesis
    unfolding filterAlertsByTenant_filter [symmetric] by (blast dest: alerts_payload)
qed

text \<open>A rule as a tenant sees it: an alerting rule with the tenant's alerts and the state they give.\<close>

definition rule_for_tenant :: "string \<Rightarrow> alert_rule \<Rightarrow> alert_rule \<Rightarrow> bool" where
  "rule_for_tenant t r r' \<longleftrightarrow>
     (if RType r = ''alerting'' then
        RAlerts r' = filter (alert_of_tenant t) (RAlerts r) \<and>
        RState r' = (if \<exists>a \<in> set (RAlerts r). alert_of_tenant t a \<and> firing_alert a then ''firing''
                     else if \<exists>a \<in> set (RAlerts r). alert_of_tenant t a then ''pending'' else ''inactive'') \<and>
        r' = r\<lparr>RAlerts := RAlerts r', RState := RState r'\<rparr>
      else r' = r)"

definition group_for_tenant :: "string \<Rightarrow> rule_group \<Rightarrow> rule_group \<Rightarrow> bool" where
  "group_for_tenant t g g' \<longleftrightarrow>
     list_all2 (rel_option (rule_for_tenant t)) (Rules g) (Rules g') \<and> g' = g\<lparr>Rules := Rules g'\<rparr>"

lemma filter_rule_spec: "rule_for_tenant t r (filter_rule t r)"
  by (auto simp: rule_for_tenant_def filter_rule_def Let_def filterAlertsByTenant_filter list_ex_iff
      filter_empty_conv split: if_splits)

lemma filter_rules_spec:
  "filter_rules t rs = Some rs' \<Longrightarrow> list_all2 (rel_option (rule_for_tenant t)) rs rs'"
  by (induction t rs arbitrary: rs' rule: filter_rules.induct) (auto simp: filter_rule_spec)

lemma filter_groups_spec:
  "filter_groups t gs = Some gs' \<Longrightarrow> list_all2 (rel_option (group_for_tenant t)) gs gs'"
  by (induction t gs arbitrary: gs' rule: filter_groups.induct)
    (auto simp: group_for_tenant_def filter_rules_spec split: option.splits)

lemma rules_payload:
  assumes "x \<in> payloads (outcome_response (HandleTenantInjection (NewPromxyRulesHandler env cfg) new_response req tok))"
  shows "\<exists>t u resp a gs. ExtractTenantIDFromToken tok = Inr t \<and> backend env u = Inr resp \<and> decode_rules env resp = Inr a \<and>
    filter_groups t (RGroups a) = Some gs \<and> x = RulesJson (a\<lparr>RGroups := gs\<rparr>)"
  using assms
  by (auto simp: NewPromxyRulesHandler_def promxy_rules_injection_def Let_def ProxyRequest_payloads
      split: sum.splits prod.splits if_splits option.splits dest!: ProxyRequest_answer)

text \<open>
  C5: in the rules a tenant is sent every alerting rule holds exactly the tenant's alerts and
  the state that they give it, firing, pending or inactive; nothing else is changed.
\<close>

theorem rules_filtered:
  assumes "token_of f req = Some tok" "\<not> isAdminUser tok (adminEmail f)"
    and "path_part 1 (Path req) = ''metrics''" "path_part 4 (Path req) = ''rules''"
    and "x \<in> payloads (outcome_response (acl_serve env f req))"
  shows "\<exists>t u resp a gs. ExtractTenantIDFromToken tok = Inr t \<and> backend env u = Inr resp \<and> decode_rules env resp = Inr a \<and>
    x = RulesJson (a\<lparr>RGroups := gs\<rparr>) \<and>
    list_all2 (rel_option (group_for_tenant t)) (RGroups a) gs"
proof -
  have h: "\<forall>p h. findHandler (acl_router env f) (Method req) (Path req) = Some (p, h) \<longrightarrow>
      h = ACLProxy env (NewPromxyRulesHandler env (promxyConfig f))"
    using assms(3,4) by (auto elim!: metrics_route)
  have "NewPromxyRulesHandler env (promxyConfig f) \<in> set (acl_proxies env f)"
    by (simp add: acl_proxies_def)
  from tenant_payloads [OF assms(1,2) h this assms(5)] show ?thesis
    by (blast dest: rules_payload filter_groups_spec)
qed

lemma filter_traces_spec:
  "filter_traces t ts = Some ts' \<Longrightarrow>
     None \<notin> set ts \<and>
     ts' = filter (\<lambda>x. hasProcessTagWithValue (the x) TenantLabelName t) ts"
  by (induction t ts arbitrary: ts' rule: filter_traces.induct) auto

lemma trace_payload:
  assumes "x \<in> payloads (outcome_response (HandleTenantInjection (NewJaegerTraceHandler env cfg) new_response req tok))"
  shows "\<exists>t u resp a ts. ExtractTenantIDFromToken tok = Inr t \<and> backend env u = Inr resp \<and>
    decode_trace env (BBody resp) = Inr a \<and> filter_traces t (TData a) = Some ts \<and>
    x = TraceJson (a\<lparr>TData := ts, TTotal := int (length ts)\<rparr>)"
  using assms
  by (auto simp: NewJaegerTraceHandler_def jaeger_trace_injection_def Let_def ProxyRequest_payloads
      split: sum.splits prod.splits if_splits option.splits dest!: ProxyRequest_answer)

lemma exact_table:
  "list_all (\<lambda>(p, k). (k = ServicesRoute \<longrightarrow> p = ''/traces/select/jaeger/api/services'') \<and>
     (k = TracesRoute \<longrightarrow> p = ''/traces/select/jaeger/api/traces'')) (get_table @ post_table)"
  by code_simp

lemma trace_route:
  assumes "findHandler (acl_router env f) method path = Some (p, h)"
    "has_prefix path ''/traces/select/jaeger/api/traces/''"
  shows "h = route_handler env f TraceRoute"
proof -
  obtain k where k: "(p, k) \<in> set get_table \<union> set post_table" "h = route_handler env f k"
    "p = path \<or> isWildcardMatch p path"
    by (rule found_route [OF assms(1)])
  obtain rest where path: "path = ''/traces/select/jaeger/api/traces/'' @ rest"
    using assms(2) by (auto simp: has_prefix_iff)
  have parts: "split_on (CHR ''/'') path =
      [[], ''traces'', ''select'', ''jaeger'', ''api'', ''traces''] @ split_on (CHR ''/'') rest"
    by (simp add: path)
  have "table_parts (p, k)" using k(1) tables by (auto simp: list_all_iff)
  then have "k \<in> {TraceRoute, TracesRoute, ServicesRoute}"
    using matched_part [OF k(3), of 1] parts by (auto simp: table_parts_def)
  moreover have False if "k \<in> {TracesRoute, ServicesRoute}"
  proof -
    have p: "p \<in> {''/traces/select/jaeger/api/traces'', ''/traces/select/jaeger/api/services''}"
      using k(1) exact_table that by (auto simp: list_all_iff)
    then have "path = p" using k(3) isWildcardMatch_exact [of p path] by auto
    with p path show False by auto
  qed
  ultimately show ?thesis using k(2) by auto
qed

text \<open>
  Of a trace a tenant asks for by its id, the answer holds only the traces with a process
  tagged with the tenant, all of them, and counts them.
\<close>

theorem trace_filtered:
  assumes "token_of f req = Some tok" "\<not> isAdminUser tok (adminEmail f)"
    and "has_prefix (Path req) ''/traces/select/jaeger/api/traces/''"
    and "x \<in> payloads (outcome_response (acl_serve env f req))"
  shows "\<exists>t u resp a. ExtractTenantIDFromToken tok = Inr t \<and> backend env u = Inr resp \<and>
    decode_trace env (BBody resp) = Inr a \<and>
    (let own = filter (\<lambda>x. hasProcessTagWithValue (the x) TenantLabelName t) (TData a)
     in None \<notin> set own \<and> x = TraceJson (a\<lparr>TData := own, TTotal := int (length own)\<rparr>))"
proof -
  have h: "\<forall>p h. findHandler (acl_router env f) (Method req) (Path req) = Some (p, h) \<longrightarrow>
      h = ACLProxy env (NewJaegerTraceHandler env (tracesConfig f))"
    using trace_route assms(3) by fastforce
  have "NewJaegerTraceHandler env (tracesConfig f) \<in> set (acl_proxies env f)"
    by (simp add: acl_proxies_def)
  from tenant_payloads [OF assms(1,2) h this assms(4)] obtain t u resp a ts where
    x: "ExtractTenantIDFromToken tok = Inr t" "backend env u = Inr resp"
      "decode_trace env (BBody resp) = Inr a" "filter_traces t (TData a) = Some ts"
      "x = TraceJson (a\<lparr>TData := ts, TTotal := int (length ts)\<rparr>)"
    by (blast dest: trace_payload)
  with filter_traces_spec [OF x(4)] show ?thesis by (auto simp: Let_def)
qed

section \<open>Trace searches\<close>

lemma traces_route:
  assumes "findHandler (acl_router env f) method ''/traces/select/jaeger/api/traces'' = Some (p, h)"
  shows "h = route_handler env f TracesRoute"
proof -
  have g: "map_of get_table ''/traces/select/jaeger/api/traces'' = Some TracesRoute" by code_simp
  have "map_of (get_routes env f) x = map_option (route_handler env f) (map_of get_table x)" for x
    unfolding get_routes_def by (simp add: map_of_map)
  moreover have "\<not> list_ex (\<lambda>(p, k). isWildcardMatch p ''/traces/select/jaeger/api/traces'') post_table"
    by code_simp
  moreover have "map_of post_table ''/traces/select/jaeger/api/traces'' = None" by code_simp
  moreover have "map_of (post_routes env f) x = map_option (route_handler env f) (map_of post_table x)" for x
    unfolding post_routes_def by (simp add: map_of_map)
  ultimately show ?thesis
    using assms g findHandler_sound [OF assms]
    by (auto simp: findHandler_def acl_routes find_Some_iff2 list_ex_iff post_routes_def
        split: if_splits option.splits dest!: find_SomeD)
qed

text \<open>
  A search for traces reaches the backend with tags that any JSON reader decodes to the
  client's tags with the tenant's tag set to the tenant; a tag the client gave for the tenant
  is overwritten.
\<close>

theorem traces_tagged:
  assumes "token_of f req = Some tok" "\<not> isAdminUser tok (adminEmail f)"
    and "Path req = ''/traces/select/jaeger/api/traces''"
    and "u \<in> set (upstream (outcome_response (acl_serve env f req)))"
    and "ExtractTenantIDFromToken tok = Inr t" "valid_utf8 t"
  shows "\<exists>tags text n. request_tags req = Some tags \<and>
    map_of (Query (RawQuery (up_url u))) ''tags'' = Some [text] \<and>
    unmarshal_flat text = JsonMap n \<and> map_of n = (map_of tags)(tenant_tag \<mapsto> t) \<and>
    kept ''tags'' (Query (ReqRawQuery req)) (Query (RawQuery (up_url u)))"
proof -
  have h: "\<forall>p h. findHandler (acl_router env f) (Method req) (Path req) = Some (p, h) \<longrightarrow>
      h = ACLProxy env (NewJaegerTracesHandler env (tracesConfig f))"
    using traces_route assms(3) by fastforce
  have px: "NewJaegerTracesHandler env (tracesConfig f) \<in> set (acl_proxies env f)" by (simp add: acl_proxies_def)
  obtain p where "traces_scope (tracesConfig f) t (req\<lparr>ctxRoute := Some p, ctxToken := Some tok\<rparr>) u"
    using tenant_requests [OF assms(1,2) h px traces.tenant_proxy_axioms assms(4)] assms(5) by auto
  then obtain tags where tags: "request_tags req = Some tags" and u: "u = traces_request (tracesConfig f) tags t req"
    by (auto simp: traces_scope_def request_tags_def traces_request_def post_body_def)
  have "valid_map tags"
    using tags unmarshal_valid by (auto simp: request_tags_def Let_def valid_map_def split: if_splits flat_json.splits)
  moreover have "valid_utf8 tenant_tag" by code_simp
  ultimately have "valid_map (map_set tenant_tag t tags)" using assms(6) by (simp add: valid_map_set)
  then obtain n where n: "unmarshal_flat (marshal_flat (map_set tenant_tag t tags)) = JsonMap n"
    "same_map n (map_set tenant_tag t tags)"
    using unmarshal_marshal_valid by blast
  show ?thesis
    using tags n by (auto simp: u traces_request_def BuildURL_def Query_Encode_Set kept_Set same_map_def)
qed

section \<open>The server as a whole\<close>

lemma bypass_panics: "ProxyBypass env cfg res req = Panics v r \<Longrightarrow> \<exists>e. v = PanicError e"
  using stream_or_fail_Done [of env]
  by (auto simp: ProxyBypass_def Let_def split: if_splits) (metis outcome.distinct(1))

lemma handlers_panic:
  assumes "findHandler (acl_router env f) method path = Some (p, h)" "h res req = Panics v r"
  shows "\<exists>e. v = PanicError e"
  using route_handlers [OF assms(1)]
proof (elim disjE bexE conjE)
  fix px
  assume px: "px \<in> set (acl_proxies env f)" "h = ACLProxy env px"
  then obtain Q where "tenant_proxy px Q" using proxies_contract by blast
  with assms(2) px(2) show ?thesis
    by (auto simp: ACLProxy_def split: option.splits if_splits dest: bypass_panics tenant_proxy.runtime_panic)
next
  assume "h = AdminProxy env (NewPromxyQueryHandler env (promxyConfig f))"
  with assms(2) show ?thesis
    by (auto simp: AdminProxy_def Let_def split: if_splits dest: bypass_panics)
next
  assume "h = ProxyBypass env (promxyConfig f)"
  with assms(2) show ?thesis by (auto dest: bypass_panics)
qed

text \<open>
  C6: the server answers every request; whatever panics in a handler is a runtime error, which
  the recovery turns into a status 500.
\<close>

theorem acl_answers: "\<exists>r. acl_serve env f req = Done r"
proof -
  have auth: "AuthenticationMiddleware c h res rq = Panics v r \<Longrightarrow> \<exists>rq'. h res rq' = Panics v r"
    for c and h :: "payload handler" and res rq v r
    by (auto simp: AuthenticationMiddleware_def Let_def split: if_splits option.splits)
  have recovered: "\<exists>r. RecoveryMiddleware h res rq = Done r"
    if "\<And>v r. h res rq = Panics v r \<Longrightarrow> \<exists>e. v = PanicError e" for h :: "payload handler" and res rq
    using that by (auto simp: RecoveryMiddleware_def split: outcome.split panic.split)
  show ?thesis
  proof (cases "findHandler (acl_router env f) (Method req) (Path req)")
    case None
    then show ?thesis
      by (auto simp: acl_serve_eq NotFoundHandler_def intro!: recovered dest!: auth)
  next
    case (Some ph)
    then obtain p h where ph: "findHandler (acl_router env f) (Method req) (Path req) = Some (p, h)"
      by (cases ph) auto
    then show ?thesis
      by (auto simp: acl_serve_eq intro!: recovered dest!: auth handlers_panic [OF ph])
  qed
qed

text \<open>
  In production mode the status endpoints, all but the build information, are the
  administrator's alone.
\<close>

theorem status_for_admin_only:
  assumes "\<not> developmentMode f"
    and "Path req \<in> (\<lambda>e. ''/metrics/api/v1/status/'' @ e) ` {''config'', ''flags'', ''runtimeinfo'', ''tsdb'', ''blocks''}"
    and "u \<in> set (upstream (outcome_response (acl_serve env f req)))"
  shows "\<exists>tok. token_of f req = Some tok \<and> isAdminUser tok (adminEmail f) \<and>
    u = bypass_request (promxyConfig f) req"
proof (cases rule: acl_serve_cases [of env f req])
  case (handled p h req')
  let ?px = "NewPromxyQueryHandler env (promxyConfig f)"
  have parts: "path_part 1 (Path req) = ''metrics''" "path_part 4 (Path req) = ''status''"
    "path_part 4 (Path req) \<notin> set query_endpoints"
    using assms(2) by (auto simp: query_endpoints_def)
  have nb: "Path req \<noteq> ''/metrics/api/v1/status/buildinfo''" using assms(2) by auto
  obtain k where k: "h = route_handler env f k" "k \<in> {AdminRoute, BuildinfoRoute}" "k \<noteq> BuildinfoRoute"
    by (rule metrics_route [OF handled(1) parts(1)]) (use parts(2) nb in auto)
  then have h: "h = AdminProxy env ?px" by auto
  obtain tok where tok: "token_of f req = Some tok" "req' = req\<lparr>ctxRoute := Some p, ctxToken := Some tok\<rparr>"
    using handled(2) assms(1)
    by (auto simp: authenticated_def acl_auth_def token_of_def GetJwtTokenFromHeader_def)
  have "u \<in> set (upstream (outcome_response (AdminProxy env ?px new_response req')))"
    using assms(3) handled(3) h by simp
  from sends_only_fresh [OF sends_AdminProxy this] tok assms(1) show ?thesis
    by (auto simp: GetIDToken_def NewPromxyQueryHandler_def promxyConfig_def bypass_request_def post_body_def)
qed (use assms(3) in simp)

text \<open>
  No two patterns of a table cover a common path: neither list of fixed parts extends the other,
  and a pattern without a wildcard is found as an exact route first.
\<close>

definition apart :: "string \<Rightarrow> string \<Rightarrow> bool" where
  "apart p q \<longleftrightarrow>
     (let ps = butlast (split_on (CHR ''/'') p); qs = butlast (split_on (CHR ''/'') q);
          n = min (length ps) (length qs)
      in take n ps \<noteq> take n qs)"

definition starred :: "string \<Rightarrow> bool" where
  "starred p \<longleftrightarrow> last (split_on (CHR ''/'') p) = ''*''"

lemma tables_apart:
  "list_all (\<lambda>p. list_all (\<lambda>q. starred p \<longrightarrow> starred q \<longrightarrow> p = q \<or> apart p q) (map fst get_table)) (map fst get_table)"
  "list_all (\<lambda>p. list_all (\<lambda>q. starred p \<longrightarrow> starred q \<longrightarrow> p = q \<or> apart p q) (map fst post_table)) (map fst post_table)"
  "list_all (\<lambda>p. starred p \<or> ''*'' \<notin> set (split_on (CHR ''/'') p)) (map fst (get_table @ post_table))"
  by code_simp+

lemma apart_no_path:
  assumes "isWildcardMatch p path" "isWildcardMatch q path" "starred p" "starred q"
  shows "\<not> apart p q"
proof -
  let ?s = "split_on (CHR ''/'')"
  have "butlast (?s p) = take (length (?s p) - 1) (?s path)" "butlast (?s q) = take (length (?s q) - 1) (?s path)"
    using wildcard_prefix assms by (auto simp: starred_def)
  then show ?thesis by (simp add: apart_def Let_def min_def)
qed

lemma table_unambiguous:
  assumes "list_all (\<lambda>p. list_all (\<lambda>q. starred p \<longrightarrow> starred q \<longrightarrow> p = q \<or> apart p q) ps) ps"
    and "list_all (\<lambda>p. starred p \<or> ''*'' \<notin> set (split_on (CHR ''/'') p)) ps" "path \<notin> set ps"
  shows "unambiguous ps path"
  unfolding unambiguous_def
proof (intro ballI impI)
  fix p q assume pq: "p \<in> set ps" "q \<in> set ps" "isWildcardMatch p path" "isWildcardMatch q path"
  then have "starred p" "starred q"
    using assms(2,3) isWildcardMatch_exact by (metis list_all_iff)+
  with pq assms(1) apart_no_path show "p = q" by (fastforce simp: list_all_iff)
qed

text \<open>
  The route of a request does not depend on the order in which Go iterates over the maps
  of routes.
\<close>

theorem routing_independent_of_map_order:
  assumes "same_map (get_routes env f) gets" "same_map (post_routes env f) posts"
  shows "findHandler ((acl_router env f)\<lparr>routes := [(''GET'', gets), (''POST'', posts)]\<rparr>) method path =
    findHandler (acl_router env f) method path"
proof -
  have fst: "map fst (get_routes env f) = map fst get_table" "map fst (post_routes env f) = map fst post_table"
    by (auto simp: get_routes_def post_routes_def)
  have stars: "list_all (\<lambda>p. starred p \<or> ''*'' \<notin> set (split_on (CHR ''/'') p)) (map fst get_table)"
    "list_all (\<lambda>p. starred p \<or> ''*'' \<notin> set (split_on (CHR ''/'') p)) (map fst post_table)"
    using tables_apart(3) by (auto simp: list_all_iff)
  have un: "path \<notin> fst ` set (get_routes env f) \<Longrightarrow> unambiguous (map fst (get_routes env f)) path"
    "path \<notin> fst ` set (post_routes env f) \<Longrightarrow> unambiguous (map fst (post_routes env f)) path"
    using table_unambiguous [OF tables_apart(1) stars(1), of path]
      table_unambiguous [OF tables_apart(2) stars(2), of path]
    by (simp_all add: fst [symmetric])
  consider "method = ''GET''" | "method = ''POST''" | "method \<notin> {''GET'', ''POST''}" by blast
  then show ?thesis
  proof cases
    case 1
    then show ?thesis
      by (intro findHandler_order [OF _ _ assms(1) un(1), symmetric]) (simp_all add: acl_routes)
  next
    case 2
    then show ?thesis
      by (intro findHandler_order [OF _ _ assms(2) un(2), symmetric]) (simp_all add: acl_routes)
  next
    case 3
    then show ?thesis by (simp add: findHandler_def acl_routes)
  qed
qed

section \<open>Witnesses\<close>

lemma demo_payloads:
  "px \<in> set (acl_proxies demo_env demo_flags) \<Longrightarrow>
    findHandler (acl_router demo_env demo_flags) ''GET'' path = Some (p, ACLProxy demo_env px) \<Longrightarrow>
    payloads (outcome_response (acl_serve demo_env demo_flags (demo_get ''t'' path query))) =
      payloads (outcome_response (HandleTenantInjection px new_response
        ((demo_get ''t'' path query)\<lparr>ctxRoute := Some p,
           ctxToken := Some (demo_token ''u@kof'' [''dev'', ''tenant:blue''])\<rparr>)
        (demo_token ''u@kof'' [''dev'', ''tenant:blue''])))"
  by (rule acl_serve_tenant) (auto simp: demo_tenant demo_get_simps dest: AdminEmail_proxies)

definition demo_alerts_payload :: payload where
  "demo_alerts_payload = AlertsJson \<lparr>ARStatus = ''success'', Alerts = [Some (demo_alert ''blue'' ''pending'')]\<rparr>"

lemma alerts_demo:
  "demo_alerts_payload \<in> payloads (outcome_response (acl_serve demo_env demo_flags
     (demo_get ''t'' ''/metrics/api/v1/alerts'' [])))"
proof -
  have route: "findHandler (acl_router demo_env demo_flags) ''GET'' ''/metrics/api/v1/alerts'' =
      Some (''/metrics/api/v1/alerts/*'', ACLProxy demo_env (NewPromxyAlertsHandler demo_env (promxyConfig demo_flags)))"
    by (simp add: findHandler_def acl_routes get_routes_def get_table_def isWildcardMatch_def Let_def)
  have "Json demo_alerts_payload \<in> set (out_body (outcome_response
      (HandleTenantInjection (NewPromxyAlertsHandler demo_env (promxyConfig demo_flags)) new_response
        ((demo_get ''t'' ''/metrics/api/v1/alerts'' [])\<lparr>ctxRoute := Some ''/metrics/api/v1/alerts/*'',
           ctxToken := Some (demo_token ''u@kof'' [''dev'', ''tenant:blue''])\<rparr>)
        (demo_token ''u@kof'' [''dev'', ''tenant:blue'']))))"
    by code_simp
  then show ?thesis
    by (subst demo_payloads [OF _ route]) (simp_all add: acl_proxies_def payloads_def)
qed

theorem alerts_filtered_witness:
  "\<exists>t u resp a. ExtractTenantIDFromToken (demo_token ''u@kof'' [''dev'', ''tenant:blue'']) = Inr t \<and>
    backend demo_env u = Inr resp \<and> decode_alerts demo_env resp = Inr a \<and>
    demo_alerts_payload = AlertsJson (a\<lparr>Alerts := filter (alert_of_tenant t) (Alerts a)\<rparr>)"
  by (rule alerts_filtered [OF demo_tenant _ _ alerts_demo]) (simp_all add: demo_get_simps)

definition demo_rules_payload :: payload where
  "demo_rules_payload = RulesJson \<lparr>RRStatus = ''success'', RGroups = [Some \<lparr>EvaluationTime = [], File = [],
      Interval = [], LastEvaluation = [], Limit = 0, GName = ''g'',
      Rules = [Some (demo_rule\<lparr>RState := ''pending'', RAlerts := [Some (demo_alert ''blue'' ''pending'')]\<rparr>)]\<rparr>]\<rparr>"

lemma rules_demo:
  "demo_rules_payload \<in> payloads (outcome_response (acl_serve demo_env demo_flags
     (demo_get ''t'' ''/metrics/api/v1/rules'' [])))"
proof -
  have route: "findHandler (acl_router demo_env demo_flags) ''GET'' ''/metrics/api/v1/rules'' =
      Some (''/metrics/api/v1/rules/*'', ACLProxy demo_env (NewPromxyRulesHandler demo_env (promxyConfig demo_flags)))"
    by (simp add: findHandler_def acl_routes get_routes_def get_table_def isWildcardMatch_def Let_def)
  have "Json demo_rules_payload \<in> set (out_body (outcome_response
      (HandleTenantInjection (NewPromxyRulesHandler demo_env (promxyConfig demo_flags)) new_response
        ((demo_get ''t'' ''/metrics/api/v1/rules'' [])\<lparr>ctxRoute := Some ''/metrics/api/v1/rules/*'',
           ctxToken := Some (demo_token ''u@kof'' [''dev'', ''tenant:blue''])\<rparr>)
        (demo_token ''u@kof'' [''dev'', ''tenant:blue'']))))"
    by code_simp
  then show ?thesis
    by (subst demo_payloads [OF _ route]) (simp_all add: acl_proxies_def payloads_def)
qed

theorem rules_filtered_witness:
  "\<exists>t u resp a gs. ExtractTenantIDFromToken (demo_token ''u@kof'' [''dev'', ''tenant:blue'']) = Inr t \<and>
    backend demo_env u = Inr resp \<and> decode_rules demo_env resp = Inr a \<and>
    demo_rules_payload = RulesJson (a\<lparr>RGroups := gs\<rparr>) \<and>
    list_all2 (rel_option (group_for_tenant t)) (RGroups a) gs"
  by (rule rules_filtered [OF demo_tenant _ _ rules_demo]) (simp_all add: demo_get_simps)

definition demo_trace_payload :: payload where
  "demo_trace_payload = TraceJson \<lparr>TData = [Some (demo_trace ''blue'')], TErrors = AnyOther ''null'',
     TLimit = 0, TOffset = 0, TTotal = 1\<rparr>"

lemma trace_demo:
  "demo_trace_payload \<in> payloads (outcome_response (acl_serve demo_env demo_flags
     (demo_get ''t'' ''/traces/select/jaeger/api/traces/1'' [])))"
proof -
  have route: "findHandler (acl_router demo_env demo_flags) ''GET'' ''/traces/select/jaeger/api/traces/1'' =
      Some (''/traces/select/jaeger/api/traces/*'', ACLProxy demo_env (NewJaegerTraceHandler demo_env (tracesConfig demo_flags)))"
    by (simp add: findHandler_def acl_routes get_routes_def get_table_def isWildcardMatch_def Let_def)
  have "Json demo_trace_payload \<in> set (out_body (outcome_response
      (HandleTenantInjection (NewJaegerTraceHandler demo_env (tracesConfig demo_flags)) new_response
        ((demo_get ''t'' ''/traces/select/jaeger/api/traces/1'' [])\<lparr>ctxRoute := Some ''/traces/select/jaeger/api/traces/*'',
           ctxToken := Some (demo_token ''u@kof'' [''dev'', ''tenant:blue''])\<rparr>)
        (demo_token ''u@kof'' [''dev'', ''tenant:blue'']))))"
    by code_simp
  then show ?thesis
    by (subst demo_payloads [OF _ route]) (simp_all add: acl_proxies_def payloads_def)
qed

theorem trace_filtered_witness:
  "\<exists>t u resp a. ExtractTenantIDFromToken (demo_token ''u@kof'' [''dev'', ''tenant:blue'']) = Inr t \<and>
    backend demo_env u = Inr resp \<and> decode_trace demo_env (BBody resp) = Inr a \<and>
    (let own = filter (\<lambda>x. hasProcessTagWithValue (the x) TenantLabelName t) (TData a)
     in None \<notin> set own \<and> demo_trace_payload = TraceJson (a\<lparr>TData := own, TTotal := int (length own)\<rparr>))"
  by (rule trace_filtered [OF demo_tenant _ trace_demo]) (simp_all add: demo_get_simps)

definition demo_traces_upstream :: upstream_request where
  "demo_traces_upstream = \<lparr>up_method = ''GET'', up_url = \<lparr>Scheme = ''http'', Host = ''traces'',
     UPath = ''/select/jaeger/api/traces'',
     RawQuery = ''limit=1&tags=%7B%22resource_attr%3Atenant%22%3A%22blue%22%7D''\<rparr>, up_body = None\<rparr>"

lemma traces_demo:
  "demo_traces_upstream \<in> set (upstream (outcome_response (acl_serve demo_env demo_flags
     (demo_get ''t'' ''/traces/select/jaeger/api/traces'' ''limit=1''))))"
proof -
  have route: "findHandler (acl_router demo_env demo_flags) ''GET'' ''/traces/select/jaeger/api/traces'' =
      Some (''/traces/select/jaeger/api/traces'', ACLProxy demo_env (NewJaegerTracesHandler demo_env (tracesConfig demo_flags)))"
    by (simp add: findHandler_def acl_routes get_routes_def get_table_def)
  have "upstream (outcome_response (acl_serve demo_env demo_flags
     (demo_get ''t'' ''/traces/select/jaeger/api/traces'' ''limit=1''))) = [demo_traces_upstream]"
    by (rule trans [OF demo_proxies [OF _ route]]) (simp add: acl_proxies_def, code_simp)
  then show ?thesis by simp
qed

theorem traces_tagged_witness:
  "\<exists>tags text n. request_tags (demo_get ''t'' ''/traces/select/jaeger/api/traces'' ''limit=1'') = Some tags \<and>
    map_of (Query (RawQuery (up_url demo_traces_upstream))) ''tags'' = Some [text] \<and>
    unmarshal_flat text = JsonMap n \<and> map_of n = (map_of tags)(tenant_tag \<mapsto> ''blue'') \<and>
    kept ''tags'' (Query (ReqRawQuery (demo_get ''t'' ''/traces/select/jaeger/api/traces'' ''limit=1'')))
      (Query (RawQuery (up_url demo_traces_upstream)))"
proof (rule traces_tagged [OF demo_tenant _ traces_demo])
  show "ExtractTenantIDFromToken (demo_token ''u@kof'' [''dev'', ''tenant:blue'']) = Inr ''blue''" by code_simp
  show "valid_utf8 ''blue''" by code_simp
qed (simp add: demo_get_simps)

definition demo_status :: request where
  "demo_status = demo_get ''a'' ''/metrics/api/v1/status/config'' []"

lemma status_demo:
  "bypass_request (promxyConfig demo_flags) demo_status \<in>
     set (upstream (outcome_response (acl_serve demo_env demo_flags demo_status)))"
proof -
  have route: "findHandler (acl_router demo_env demo_flags) ''GET'' ''/metrics/api/v1/status/config'' =
      Some (''/metrics/api/v1/status/config'', AdminProxy demo_env (NewPromxyQueryHandler demo_env (promxyConfig demo_flags)))"
    by (simp add: findHandler_def acl_routes get_routes_def get_table_def)
  have "bypass_request (promxyConfig demo_flags) demo_status \<in> set (upstream (outcome_response
      (AuthenticationMiddleware (acl_auth demo_flags)
        (AdminProxy demo_env (NewPromxyQueryHandler demo_env (promxyConfig demo_flags))) new_response
        (demo_status\<lparr>ctxRoute := Some ''/metrics/api/v1/status/config''\<rparr>))))"
    by code_simp
  then show ?thesis
    by (simp add: acl_serve_eq recovery_keeps demo_status_def demo_get_simps route)
qed

theorem status_for_admin_only_witness:
  "\<exists>tok. token_of demo_flags demo_status = Some tok \<and> isAdminUser tok (adminEmail demo_flags) \<and>
    bypass_request (promxyConfig demo_flags) demo_status = bypass_request (promxyConfig demo_flags) demo_status"
  by (rule status_for_admin_only [OF _ _ status_demo])
    (simp add: demo_flags_def, simp add: demo_status_def demo_get_simps)

theorem routing_independent_of_map_order_witness:
  "findHandler ((acl_router demo_env demo_flags)\<lparr>routes := [(''GET'', rev (get_routes demo_env demo_flags)),
      (''POST'', rev (post_routes demo_env demo_flags))]\<rparr>) ''GET'' ''/logs/q'' =
    findHandler (acl_router demo_env demo_flags) ''GET'' ''/logs/q''"
proof -
  have "distinct (map fst get_table)" "distinct (map fst post_table)" by code_simp+
  then have wf: "wf_map (get_routes env f)" "wf_map (post_routes env f)" for env f
    by (auto simp: wf_map_def get_routes_def post_routes_def comp_def case_prod_beta)
  then have "same_map (get_routes env f) (rev (get_routes env f))"
    "same_map (post_routes env f) (rev (post_routes env f))" for env f
    by (simp_all add: same_map_def wf_map_def map_of_inject_set rev_map [symmetric])
  then show ?thesis by (rule routing_independent_of_map_order)
qed

end
