(* ===== verification/Promxy.thy ===== *)
theory Promxy
  imports Cluster_Read
begin

text \<open>
  The controller of promxy server groups (\<open>promxyservergroup_controller.go\<close>, \<open>secret.go\<close> with
  \<open>template/secret.tmpl\<close>, \<open>promxy_reload.go\<close> in \<open>kof-operator/internal/controller\<close>, and \<open>pods.go\<close>,
  \<open>container.go\<close>, \<open>post_pod_http.go\<close> in \<open>internal/k8s\<close>).

  It renders all server groups with the same secret name into one Secret, with the credentials of each
  group, and tells the running promxy pods to reload. Parameters (\<open>promxy_env\<close>): parsing of label
  selectors, the HTTP exchange, and the order in which Go ranges over a map.
\<close>

record promxy_env =
  parse_selector :: "string \<Rightarrow> string + (string gomap \<Rightarrow> bool)"
  http_post :: "string \<Rightarrow> string + nat"
  range_order :: "(string \<times> promxy_server_group list) list \<Rightarrow> (string \<times> promxy_server_group list) list"

section \<open>Durations as text\<close>

text \<open>\<open>time.Duration.String\<close>: a fraction without trailing zeros.\<close>

definition fmtFrac :: "nat \<Rightarrow> nat \<Rightarrow> string" where
  "fmtFrac v prec =
     (let ds = trim_right (CHR ''0'') (pad prec (dec (v mod 10 ^ prec))) in if ds = [] then [] else CHR ''.'' # ds)"

definition Duration_String :: "duration \<Rightarrow> string" where
  "Duration_String d =
     (let u = nat \<bar>d\<bar>;
          body =
            (if u = 0 then ''0s''
             else if u < 1000 then dec u @ ''ns''
             else if u < 1000000 then dec (u div 1000) @ fmtFrac u 3 @ [CHR 0xC2, CHR 0xB5, CHR ''s'']
             else if u < 1000000000 then dec (u div 1000000) @ fmtFrac u 6 @ ''ms''
             else (let s = u div 1000000000; m = s div 60; h = m div 60
                   in (if h > 0 then dec h @ ''h'' else []) @ (if m > 0 then dec (m mod 60) @ ''m'' else []) @
                      dec (s mod 60) @ fmtFrac u 9 @ ''s''))
      in if d < 0 then CHR ''-'' # body else body)"

section \<open>The template\<close>

record promxy_config_server_group =
  Targets :: "string list"
  PathPrefix :: string
  PScheme :: string
  PDialTimeout :: string
  TlsSkipVerify :: bool
  PUsername :: string
  Password :: string
  PClusterName :: string
  PClusterNamespace :: string
  BasicAuthEnabled :: bool

record promxy_config =
  RemoteWriteUrl :: string
  ServerGroups :: "promxy_config_server_group list"

abbreviation nl :: string where "nl \<equiv> [CHR 0x0A]"

definition in_quotes :: "string \<Rightarrow> string" where
  "in_quotes s = CHR 0x22 # s @ [CHR 0x22]"

definition render_group :: "promxy_config_server_group \<Rightarrow> string" where
  "render_group g =
     nl @ ''    - static_configs:'' @ nl @ ''        - targets:'' @
     concat (map (\<lambda>t. nl @ ''          - '' @ in_quotes t) (Targets g)) @
     nl @ ''      path_prefix: '' @ in_quotes (PathPrefix g) @ nl @ ''      scheme: '' @ in_quotes (PScheme g) @
     nl @ ''      http_client:'' @ nl @ ''        dial_timeout: '' @ in_quotes (PDialTimeout g) @
     (if BasicAuthEnabled g then
        nl @ ''        tls_config:'' @ nl @ ''          insecure_skip_verify: '' @ (if TlsSkipVerify g then ''true'' else ''false'') @
        nl @ ''        basic_auth:'' @ nl @ ''          username: '' @ in_quotes (PUsername g) @
        nl @ ''          password: '' @ in_quotes (Password g)
      else []) @
     nl @ ''      labels:'' @ nl @ ''        promxyCluster: '' @ in_quotes (PClusterName g) @
     nl @ ''        promxyClusterNamespace: '' @ in_quotes (PClusterNamespace g) @
     nl @ ''      ignore_error: true''"

definition RenderMetricsSecretTemplate :: "promxy_config \<Rightarrow> string" where
  "RenderMetricsSecretTemplate config =
     ''global:'' @ nl @ ''  evaluation_interval: 5s'' @ nl @ ''  external_labels:'' @ nl @ ''    source: promxy'' @ nl @
     ''rule_files:'' @ nl @ ''  - /etc/promxy/rules/*.yaml'' @ nl @ ''alerting:'' @ nl @ ''  alertmanagers:'' @ nl @
     ''    - scheme: http'' @ nl @ ''      static_configs:'' @ nl @ ''        - targets:'' @ nl @
     ''          - vmalertmanager-cluster:9093'' @ nl @ ''remote_write:'' @ nl @
     ''  - url: '' @ in_quotes (RemoteWriteUrl config) @ nl @ ''promxy:'' @ nl @ ''  server_groups:'' @
     concat (map render_group (ServerGroups config)) @ nl"

section \<open>Reloading\<close>

definition GetPods :: "string \<Rightarrow> (string gomap \<Rightarrow> bool) \<Rightarrow> op_api \<Rightarrow> (api_error + pod list) \<times> op_api" where
  "GetPods namespace sel k = api_list pods (\<lambda>p. pod_namespace p = namespace \<and> sel (pod_labels p)) k"

definition GetContainer :: "container list \<Rightarrow> string \<Rightarrow> container option" where
  "GetContainer containers name = find (\<lambda>c. ctr_name c = name) containers"

definition GetContainerPort :: "container_port list \<Rightarrow> string \<Rightarrow> container_port option" where
  "GetContainerPort ports name = find (\<lambda>p. port_name p = name) ports"

definition ExtractContainerPort :: "pod \<Rightarrow> string \<Rightarrow> string \<Rightarrow> op_error + string" where
  "ExtractContainerPort pod containerName portName =
     (case GetContainer (Containers pod) containerName of
        None \<Rightarrow> Inl (OpText ''failed to find container'')
      | Some c \<Rightarrow>
          (case GetContainerPort (ctr_ports c) portName of
             None \<Rightarrow> Inl (OpText ''port not found in container ports'')
           | Some p \<Rightarrow> Inr (dec (ContainerPort p))))"

definition JoinHostPort :: "string \<Rightarrow> string \<Rightarrow> string" where
  "JoinHostPort host port = (if CHR '':'' \<in> set host then ''['' @ host @ '']:'' @ port else host @ '':'' @ port)"

text \<open>A request that reaches the pod is recorded, whatever the answer.\<close>

definition PostPodHTTP :: "promxy_env \<Rightarrow> pod \<Rightarrow> string \<Rightarrow> string \<Rightarrow> string \<Rightarrow> op_api \<Rightarrow> (op_error + unit) \<times> op_api" where
  "PostPodHTTP pe pod containerName portName path k =
     (if PodIP pod = [] then (Inl (OpText ''pod has no IP assigned''), k)
      else (case ExtractContainerPort pod containerName portName of
          Inl err \<Rightarrow> (Inl (OpContext ''pod'' err), k)
        | Inr port \<Rightarrow>
            (let url = ''http://'' @ JoinHostPort (PodIP pod) port @ path
             in case http_post pe url of
                  Inl err \<Rightarrow> (Inl (OpContext ''pod'' (OpText err)), k)
                | Inr status \<Rightarrow>
                    (if status < 200 \<or> status \<ge> 300 then Inl (OpText ''unexpected status'') else Inr (),
                     k\<lparr>posted := posted k @ [url]\<rparr>))))"

fun reload_pods :: "promxy_env \<Rightarrow> pod list \<Rightarrow> nat \<Rightarrow> op_error list \<Rightarrow> op_api \<Rightarrow> (nat \<times> op_error list) \<times> op_api" where
  "reload_pods pe [] reloaded errs k = ((reloaded, errs), k)"
| "reload_pods pe (pod # ps) reloaded errs k =
     (if pod_phase pod \<noteq> ''Running'' then reload_pods pe ps reloaded errs k
      else (case PostPodHTTP pe pod ''promxy'' ''http'' ''/-/reload'' k of
          (Inl err, k) \<Rightarrow> reload_pods pe ps reloaded (errs @ [OpContext (pod_name pod) err]) k
        | (Inr _, k) \<Rightarrow> reload_pods pe ps (Suc reloaded) errs k))"

definition ReloadPromxyConfig :: "promxy_env \<Rightarrow> string \<Rightarrow> string \<Rightarrow> op_api \<Rightarrow> (op_error + unit) \<times> op_api" where
  "ReloadPromxyConfig pe namespace labelSelector k =
     (case parse_selector pe labelSelector of
        Inl err \<Rightarrow> (Inl (OpContext ''invalid promxy pod label selector'' (OpText err)), k)
      | Inr selector \<Rightarrow>
          and_then (api_ctx ''listing promxy pods'' (GetPods namespace selector k))
          (\<lambda>ps k.
            if ps = [] then (Inl (OpText ''no promxy pods found''), k)
            else (case reload_pods pe ps 0 [] k of
                ((reloaded, errs), k) \<Rightarrow>
                  (if reloaded = 0 then
                     (if errs \<noteq> [] then Inl (OpContext ''failed to reload promxy config on all pods'' (OpJoin errs))
                      else Inl (OpText ''no running promxy pods to reload''))
                   else if errs \<noteq> [] then Inl (OpJoin errs) else Inr (), k))))"

text \<open>The reload that the operator passes to the controller.\<close>

definition PromxyConfigReload :: "operator_env \<Rightarrow> promxy_env \<Rightarrow> op_api \<Rightarrow> (op_error + unit) \<times> op_api" where
  "PromxyConfigReload e pe k =
     (case GetReleaseNamespace (op_environ e) of
        Inl err \<Rightarrow> (Inl (OpText err), k)
      | Inr releaseNamespace \<Rightarrow>
          (case GetPromxyPodLabelSelector (op_environ e) of
             Inl err \<Rightarrow> (Inl (OpText err), k)
           | Inr labelSelector \<Rightarrow> ReloadPromxyConfig pe releaseNamespace labelSelector k))"

section \<open>The controller\<close>

fun groups_by_secret :: "promxy_server_group list \<Rightarrow> (string \<times> promxy_server_group list) list \<Rightarrow>
    (string \<times> promxy_server_group list) list" where
  "groups_by_secret [] m = m"
| "groups_by_secret (g # gs) m =
     (case map_of (psg_labels g) SecretNameLabel of
        None \<Rightarrow> groups_by_secret gs m
      | Some name \<Rightarrow>
          groups_by_secret gs (map_set name ((case map_of m name of None \<Rightarrow> [] | Some l \<Rightarrow> l) @ [g]) m))"

definition config_group :: "promxy_server_group \<Rightarrow> bool \<Rightarrow> string gomap \<Rightarrow> promxy_config_server_group" where
  "config_group g basicAuthEnabled credentials =
     \<lparr>Targets = psg_targets g, PathPrefix = psg_path g, PScheme = psg_scheme g,
      PDialTimeout = Duration_String (DialTimeout (psg_http g)), TlsSkipVerify = InsecureSkipVerify (psg_http g),
      PUsername = get_str credentials (BasicUsernameKey (BasicAuth (psg_http g))),
      Password = get_str credentials (BasicPasswordKey (BasicAuth (psg_http g))),
      PClusterName = psg_cluster g, PClusterNamespace = psg_namespace g, BasicAuthEnabled = basicAuthEnabled\<rparr>"

fun config_groups :: "string \<Rightarrow> promxy_server_group list \<Rightarrow> op_api \<Rightarrow> (op_error + promxy_config_server_group list) \<times> op_api" where
  "config_groups releaseNamespace [] k = (Inr [], k)"
| "config_groups releaseNamespace (g # gs) k =
     (let name = CredentialsSecretName (BasicAuth (psg_http g)); basicAuthEnabled = (name \<noteq> [])
      in and_then
           (if basicAuthEnabled
            then and_then (in_context OpApi (GetSecret name releaseNamespace k)) (\<lambda>s k. (Inr (sec_data s), k))
            else (Inr [], k))
           (\<lambda>credentials k. and_then (config_groups releaseNamespace gs k)
              (\<lambda>cs k. (Inr (config_group g basicAuthEnabled credentials # cs), k))))"

definition setSecretOperatorLabels :: "secret \<Rightarrow> secret" where
  "setSecretOperatorLabels s = s\<lparr>sec_labels := [(ManagedByLabel, ManagedByValue)]\<rparr>"

text \<open>The server merges \<open>StringData\<close> into the data of a Secret.\<close>

definition set_config :: "string \<Rightarrow> secret \<Rightarrow> secret" where
  "set_config text s = (setSecretOperatorLabels s)\<lparr>sec_data := map_set ''config.yaml'' text (sec_data s)\<rparr>"

definition write_promxy_secret :: "string \<Rightarrow> string \<Rightarrow> string \<Rightarrow> op_api \<Rightarrow> (op_error + unit) \<times> op_api" where
  "write_promxy_secret releaseNamespace name text k =
     (case GetSecret name releaseNamespace k of
        (Inl NotFound, k) \<Rightarrow>
          in_context OpApi (api_create sec_key secrets set_secrets (set_config text (new_secret releaseNamespace name)) k)
      | (Inl err, k) \<Rightarrow> (Inl (OpApi err), k)
      | (Inr s, k) \<Rightarrow> in_context OpApi (api_update sec_key sec_version sec_bump secrets set_secrets (set_config text s) k))"

fun write_configs :: "(op_api \<Rightarrow> (op_error + unit) \<times> op_api) \<Rightarrow> string \<Rightarrow> string \<Rightarrow> (string \<times> promxy_server_group list) list \<Rightarrow> op_api \<Rightarrow>
    (op_error + unit) \<times> op_api" where
  "write_configs reload url releaseNamespace [] k = (Inr (), k)"
| "write_configs reload url releaseNamespace ((name, gs) # rest) k =
     and_then (config_groups releaseNamespace gs k)
     (\<lambda>cs k. and_then (write_promxy_secret releaseNamespace name
         (RenderMetricsSecretTemplate \<lparr>RemoteWriteUrl = url, ServerGroups = cs\<rparr>) k)
     (\<lambda>_ k. and_then (reload k)
     (\<lambda>_ k. write_configs reload url releaseNamespace rest k)))"

definition PromxyServerGroup_Reconcile :: "operator_env \<Rightarrow> promxy_env \<Rightarrow> (op_api \<Rightarrow> (op_error + unit) \<times> op_api) \<Rightarrow> string \<Rightarrow> op_api \<Rightarrow>
    (op_error + unit) \<times> op_api" where
  "PromxyServerGroup_Reconcile e pe reload url k =
     (case GetReleaseNamespace (op_environ e) of
        Inl err \<Rightarrow> (Inl (OpContext ''failed to get release namespace'' (OpText err)), k)
      | Inr releaseNamespace \<Rightarrow>
          and_then (in_context OpApi (api_list groups (\<lambda>_. True) k))
            (\<lambda>gs k. write_configs reload url releaseNamespace (range_order pe (groups_by_secret gs [])) k))"

text \<open>The rendered text of the example in the repository's test of the template.\<close>

definition test_group :: promxy_config_server_group where
  "test_group = \<lparr>Targets = [''vmauth.storage0.example.net:443''], PathPrefix = ''/vm/select/0/prometheus/'', PScheme = ''https'',
     PDialTimeout = ''1s'', TlsSkipVerify = True, PUsername = ''u'', Password = ''p'', PClusterName = ''test-cluster'',
     PClusterNamespace = ''default'', BasicAuthEnabled = True\<rparr>"

lemma render_test_group:
  "split_on (CHR 0x0A) (render_group test_group) =
     [[], ''    - static_configs:'', ''        - targets:'', ''          - '' @ in_quotes ''vmauth.storage0.example.net:443'',
      ''      path_prefix: '' @ in_quotes ''/vm/select/0/prometheus/'', ''      scheme: '' @ in_quotes ''https'',
      ''      http_client:'', ''        dial_timeout: '' @ in_quotes ''1s'', ''        tls_config:'',
      ''          insecure_skip_verify: true'', ''        basic_auth:'', ''          username: '' @ in_quotes ''u'',
      ''          password: '' @ in_quotes ''p'', ''      labels:'', ''        promxyCluster: '' @ in_quotes ''test-cluster'',
      ''        promxyClusterNamespace: '' @ in_quotes ''default'', ''      ignore_error: true'']"
  by code_simp

lemma Duration_String_examples:
  "Duration_String 5000000000 = ''5s''" "Duration_String 90000000000 = ''1m30s''" "Duration_String 3605000000000 = ''1h0m5s''"
  "Duration_String 1500000000 = ''1.5s''" "Duration_String 250000000 = ''250ms''" "Duration_String (-1500) = ''-1.5'' @ [CHR 0xC2, CHR 0xB5, CHR ''s'']"
  by (simp_all add: Duration_String_def Let_def fmtFrac_def pad_def dec.simps digit_char_def trim_right_def) code_simp+

end
