(* ===== verification/Metrics.thy ===== *)
theory Metrics
  imports Promxy
begin

text \<open>
  The metrics of pods (\<open>kof-operator/internal/metrics\<close>): the collector that runs for each pod
  (\<open>service.go\<close>, \<open>health.go\<close>, \<open>resources.go\<close>, \<open>internal.go\<close>, \<open>helper.go\<close>) and the nested maps of clusters,
  custom resources, pods and metrics into which its messages are added (\<open>metrics.go\<close>, \<open>types.go\<close>).

  A collector only sends to a channel: it is the list of messages it sends, in order. The text of a
  message is kept as the error it is the text of (\<open>op_error\<close>). What the API, the metrics server and the
  pod answer to a collector is the record \<open>pod_answers\<close>; the parser of the Prometheus text format and
  the order in which Go ranges over a map are parameters (\<open>metrics_env\<close>).
\<close>

section \<open>Types\<close>

datatype any_value = VString string | VInt "64 word" | VFloat "64 word"

record metric_value =
  Labels :: "string gomap"
  Value :: any_value

abbreviation plain :: "any_value \<Rightarrow> metric_value" where
  "plain v \<equiv> \<lparr>Labels = [], Value = v\<rparr>"

record resource_usage =
  CPU :: "64 word"
  Memory :: "64 word"

datatype message_type = NoMessage | MessageTypeInfo | MessageTypeWarning | MessageTypeError

record resource_address =
  Cluster :: string
  CustomResource :: string
  Pod :: string

record status_message = resource_address +
  SType :: message_type
  SMessage :: op_error
  SDetails :: string

record metric_data = resource_address +
  MName :: string
  MValue :: "metric_value option"
  MErr :: "op_error option"

record resource_message =
  RStatus :: "status_message option"
  RMetrics :: "metric_data option"

record base_resource_status =
  BName :: string
  BMessage :: op_error
  BType :: message_type

record pod_info = base_resource_status +
  PMetrics :: "metric_value list gomap"

record custom_resource_info = base_resource_status +
  Pods :: "pod_info gomap"

record cluster_info = base_resource_status +
  CustomResources :: "custom_resource_info gomap"

type_synonym cluster_map = "cluster_info gomap"

section \<open>The maps\<close>

definition new_pod_info :: "string \<Rightarrow> pod_info" where
  "new_pod_info name = \<lparr>BName = name, BMessage = OpText [], BType = NoMessage, PMetrics = []\<rparr>"

definition new_custom_resource_info :: "string \<Rightarrow> custom_resource_info" where
  "new_custom_resource_info name = \<lparr>BName = name, BMessage = OpText [], BType = NoMessage, Pods = []\<rparr>"

definition new_cluster_info :: "string \<Rightarrow> cluster_info" where
  "new_cluster_info name = \<lparr>BName = name, BMessage = OpText [], BType = NoMessage, CustomResources = []\<rparr>"

text \<open>An entry that is made when it is first used: the shape of all methods of the maps.\<close>

definition at_entry :: "(string \<Rightarrow> 'v) \<Rightarrow> ('v \<Rightarrow> 'v) \<Rightarrow> string \<Rightarrow> 'v gomap \<Rightarrow> 'v gomap" where
  "at_entry new f k m = map_set k (f (case map_of m k of None \<Rightarrow> new k | Some v \<Rightarrow> v)) m"

definition MetricsMap_Add :: "metric_data \<Rightarrow> metric_value list gomap \<Rightarrow> metric_value list gomap" where
  "MetricsMap_Add d m =
     (case MValue d of
        None \<Rightarrow> m
      | Some v \<Rightarrow>
          if MName d = [] then m
          else map_set (MName d) ((case map_of m (MName d) of None \<Rightarrow> [] | Some vs \<Rightarrow> vs) @ [v]) m)"

definition PodMap_AddMetric :: "metric_data \<Rightarrow> pod_info gomap \<Rightarrow> pod_info gomap" where
  "PodMap_AddMetric d pm =
     (if Pod d = [] then pm
      else at_entry new_pod_info (\<lambda>p. p\<lparr>PMetrics := MetricsMap_Add d (PMetrics p)\<rparr>) (Pod d) pm)"

definition CustomResourceMap_AddMetric :: "metric_data \<Rightarrow> custom_resource_info gomap \<Rightarrow> custom_resource_info gomap" where
  "CustomResourceMap_AddMetric d crm =
     (if CustomResource d = [] then crm
      else at_entry new_custom_resource_info (\<lambda>c. c\<lparr>Pods := PodMap_AddMetric d (Pods c)\<rparr>) (CustomResource d) crm)"

definition ClusterMap_AddMetric :: "metric_data \<Rightarrow> cluster_map \<Rightarrow> cluster_map" where
  "ClusterMap_AddMetric d cm =
     (if Cluster d = [] then cm
      else at_entry new_cluster_info (\<lambda>c. c\<lparr>CustomResources := CustomResourceMap_AddMetric d (CustomResources c)\<rparr>)
             (Cluster d) cm)"

definition PodMap_AddStatus :: "status_message \<Rightarrow> pod_info gomap \<Rightarrow> pod_info gomap" where
  "PodMap_AddStatus s pm =
     (if Pod s = [] then pm
      else at_entry new_pod_info (\<lambda>p. p\<lparr>BMessage := SMessage s, BType := SType s\<rparr>) (Pod s) pm)"

definition CustomResourceMap_AddStatus :: "status_message \<Rightarrow> custom_resource_info gomap \<Rightarrow> custom_resource_info gomap" where
  "CustomResourceMap_AddStatus s crm =
     (if CustomResource s = [] then crm
      else at_entry new_custom_resource_info
             (\<lambda>c. if Pod s = [] then c\<lparr>BMessage := SMessage s, BType := SType s\<rparr>
                  else c\<lparr>Pods := PodMap_AddStatus s (Pods c)\<rparr>)
             (CustomResource s) crm)"

definition ClusterMap_AddStatus :: "status_message \<Rightarrow> cluster_map \<Rightarrow> cluster_map" where
  "ClusterMap_AddStatus s cm =
     (if Cluster s = [] then cm
      else at_entry new_cluster_info
             (\<lambda>c. if CustomResource s = [] then c\<lparr>BMessage := SMessage s, BType := SType s\<rparr>
                  else c\<lparr>CustomResources := CustomResourceMap_AddStatus s (CustomResources c)\<rparr>)
             (Cluster s) cm)"

section \<open>The collector of a pod\<close>

datatype metric_type = COUNTER | GAUGE | HISTOGRAM | SUMMARY | OTHER_TYPE

record dto_metric =
  dto_labels :: "(string \<times> string) list"
  dto_counter :: "64 word option"
  dto_gauge :: "64 word option"
  dto_histogram_sum :: "64 word option"
  dto_summary_sum :: "64 word option"
  dto_untyped :: "64 word option"

record metric_family =
  FType :: metric_type
  FMetrics :: "dto_metric list"

record metrics_env =
  text_families :: "string \<Rightarrow> string + metric_family gomap"
  metric_range :: "metric_value list gomap \<Rightarrow> metric_value list gomap"

record pod_answers =
  pod_metrics :: "string \<Rightarrow> string \<Rightarrow> op_error + (string \<times> quantity gomap) list"
  node_metrics :: "string \<Rightarrow> op_error + quantity gomap"
  node_allocatable :: "string \<Rightarrow> op_error + quantity gomap"
  proxy_get :: "string \<Rightarrow> string \<Rightarrow> string \<Rightarrow> op_error + string"

record metric_collector_config =
  ConfigPod :: pod
  ClusterName :: string
  CustomResourceName :: string
  ContainerName :: string
  PortAnnotation :: string
  PortName :: string
  ProxyEndpoint :: string

definition service_address :: "metric_collector_config \<Rightarrow> resource_address" where
  "service_address s =
     \<lparr>Cluster = ClusterName s, CustomResource = CustomResourceName s, Pod = pod_name (ConfigPod s)\<rparr>"

definition sendMetric :: "metric_collector_config \<Rightarrow> string \<Rightarrow> metric_value \<Rightarrow> resource_message" where
  "sendMetric s name v =
     \<lparr>RStatus = None,
      RMetrics = Some (resource_address.extend (service_address s) (metric_data.fields name (Some v) None))\<rparr>"

definition sendStatus :: "metric_collector_config \<Rightarrow> message_type \<Rightarrow> op_error \<Rightarrow> string \<Rightarrow> resource_message" where
  "sendStatus s msgType message details =
     \<lparr>RStatus = Some (resource_address.extend (service_address s) (status_message.fields msgType message details)),
      RMetrics = None\<rparr>"

definition service_error :: "metric_collector_config \<Rightarrow> op_error \<Rightarrow> resource_message" where
  "service_error s err = sendStatus s MessageTypeError err []"

definition ConditionReadyHealthy :: string where "ConditionReadyHealthy = ''condition_ready_healthy''"
definition ConditionReadyReason :: string where "ConditionReadyReason = ''condition_ready_reason''"
definition ConditionReadyMessage :: string where "ConditionReadyMessage = ''condition_ready_message''"
definition ContainerCPUUsage :: string where "ContainerCPUUsage = ''container_resource_cpu_usage''"
definition ContainerCPULimit :: string where "ContainerCPULimit = ''container_resource_cpu_limit''"
definition ContainerMemoryUsage :: string where "ContainerMemoryUsage = ''container_resource_memory_usage''"
definition ContainerMemoryLimit :: string where "ContainerMemoryLimit = ''container_resource_memory_limit''"

lemmas metric_names = ConditionReadyHealthy_def ConditionReadyReason_def ConditionReadyMessage_def
  ContainerCPUUsage_def ContainerCPULimit_def ContainerMemoryUsage_def ContainerMemoryLimit_def

subsection \<open>Health\<close>

definition getReadyCondition :: "pod_condition list \<Rightarrow> pod_condition option" where
  "getReadyCondition conditions = find (\<lambda>c. ConditionType c = ''Ready'') conditions"

definition CollectHealth :: "metric_collector_config \<Rightarrow> resource_message list" where
  "CollectHealth s =
     (case getReadyCondition (pod_conditions (ConfigPod s)) of
        None \<Rightarrow>
          [sendMetric s ConditionReadyHealthy (plain (VString ''unhealthy'')),
           sendMetric s ConditionReadyReason (plain (VString ''MissingReadyCondition'')),
           sendMetric s ConditionReadyMessage (plain (VString ''Pod status does not contain Ready condition'')),
           service_error s (OpText ''the Ready condition is not found in pod status'')]
      | Some condition \<Rightarrow>
          if ConditionStatus condition = ''True''
          then [sendMetric s ConditionReadyHealthy (plain (VString ''healthy''))]
          else
            [sendMetric s ConditionReadyHealthy (plain (VString ''unhealthy'')),
             sendMetric s ConditionReadyReason (plain (VString (ConditionReason condition))),
             sendMetric s ConditionReadyMessage (plain (VString (ConditionMessage condition)))])"

subsection \<open>Resources\<close>

text \<open>\<open>ResourceList.Cpu\<close> and \<open>Memory\<close>: the zero quantity where there is none.\<close>

definition list_quantity :: "quantity gomap \<Rightarrow> string \<Rightarrow> quantity" where
  "list_quantity l name = (case map_of l name of None \<Rightarrow> \<lparr>MilliValue = 0, QValue = 0\<rparr> | Some q \<Rightarrow> q)"

definition findContainerMetric :: "(string \<times> quantity gomap) list \<Rightarrow> string \<Rightarrow> op_error + quantity gomap" where
  "findContainerMetric containers name =
     (case find (\<lambda>c. fst c = name) containers of
        None \<Rightarrow> Inl (OpText (''metrics not found for container: '' @ name))
      | Some c \<Rightarrow> Inr (snd c))"

definition getContainerLimits :: "metric_collector_config \<Rightarrow> op_error + resource_usage" where
  "getContainerLimits s =
     (case GetContainer (Containers (ConfigPod s)) (ContainerName s) of
        None \<Rightarrow> Inl (OpText ''container not found'')
      | Some c \<Rightarrow>
          Inr \<lparr>CPU = MilliValue (list_quantity (ctr_limits c) ''cpu''),
               Memory = QValue (list_quantity (ctr_limits c) ''memory'')\<rparr>)"

definition getContainerUsage :: "pod_answers \<Rightarrow> metric_collector_config \<Rightarrow> op_error + resource_usage" where
  "getContainerUsage a s =
     (case pod_metrics a (pod_name (ConfigPod s)) (pod_namespace (ConfigPod s)) of
        Inl err \<Rightarrow> Inl (OpContext ''failed to get pod metrics'' err)
      | Inr containers \<Rightarrow>
          (case findContainerMetric containers (ContainerName s) of
             Inl err \<Rightarrow> Inl (OpContext (''failed to find container '' @ ContainerName s) err)
           | Inr usage \<Rightarrow>
               Inr \<lparr>CPU = MilliValue (list_quantity usage ''cpu''), Memory = QValue (list_quantity usage ''memory'')\<rparr>))"

definition getNodeAvailableNow :: "pod_answers \<Rightarrow> metric_collector_config \<Rightarrow> op_error + resource_usage" where
  "getNodeAvailableNow a s =
     (case node_metrics a (pod_node (ConfigPod s)) of
        Inl err \<Rightarrow> Inl (OpContext ''failed to get node metrics'' err)
      | Inr usage \<Rightarrow>
          (case node_allocatable a (pod_node (ConfigPod s)) of
             Inl err \<Rightarrow> Inl (OpContext ''failed to get node'' err)
           | Inr allocatable \<Rightarrow>
               (case map_of allocatable ''cpu'' of
                  None \<Rightarrow> Inl (OpText ''CPU resource not found in node'')
                | Some cpu \<Rightarrow>
                    (case map_of allocatable ''memory'' of
                       None \<Rightarrow> Inl (OpText ''memory resource not found in node'')
                     | Some memory \<Rightarrow>
                         Inr \<lparr>CPU = MilliValue cpu - MilliValue (list_quantity usage ''cpu''),
                              Memory = QValue memory - QValue (list_quantity usage ''memory'')\<rparr>))))"

text \<open>The usage that is read without an error is never \<open>nil\<close>.\<close>

definition CollectResources :: "pod_answers \<Rightarrow> metric_collector_config \<Rightarrow> resource_message list" where
  "CollectResources a s =
     (case getContainerUsage a s of
        Inl err \<Rightarrow> [service_error s (OpContext ''failed to get container resources usage'' err)]
      | Inr usage \<Rightarrow>
          [sendMetric s ContainerCPUUsage (plain (VInt (CPU usage))),
           sendMetric s ContainerMemoryUsage (plain (VInt (Memory usage)))] @
          (case getContainerLimits s of
             Inl err \<Rightarrow> [service_error s (OpContext ''failed to get container resources limit'' err)]
           | Inr limits \<Rightarrow>
               if 0 <s CPU limits \<and> 0 <s Memory limits then
                 [sendMetric s ContainerCPULimit (plain (VInt (CPU limits))),
                  sendMetric s ContainerMemoryLimit (plain (VInt (Memory limits)))]
               else
                 (case getNodeAvailableNow a s of
                    Inl err \<Rightarrow> [service_error s (OpContext ''failed to get node limits'' err)]
                  | Inr available \<Rightarrow>
                      [sendMetric s ContainerCPULimit (plain (VInt (CPU available + CPU usage))),
                       sendMetric s ContainerMemoryLimit (plain (VInt (Memory available + Memory usage)))])))"

subsection \<open>The metrics of the pod itself\<close>

definition metric_number :: "metric_type \<Rightarrow> dto_metric \<Rightarrow> 64 word" where
  "metric_number t m =
     (case (case t of COUNTER \<Rightarrow> dto_counter m | GAUGE \<Rightarrow> dto_gauge m | HISTOGRAM \<Rightarrow> dto_histogram_sum m
              | SUMMARY \<Rightarrow> dto_summary_sum m | OTHER_TYPE \<Rightarrow> dto_untyped m) of
        None \<Rightarrow> 0 | Some v \<Rightarrow> v)"

definition metric_value_of :: "metric_type \<Rightarrow> dto_metric \<Rightarrow> metric_value" where
  "metric_value_of t m = \<lparr>Labels = map_copy [] (dto_labels m), Value = VFloat (metric_number t m)\<rparr>"

fun add_family :: "string \<Rightarrow> metric_value list \<Rightarrow> metric_value list gomap \<Rightarrow> metric_value list gomap" where
  "add_family name [] m = m"
| "add_family name (v # vs) m =
     add_family name vs (map_set name ((case map_of m name of None \<Rightarrow> [] | Some l \<Rightarrow> l) @ [v]) m)"

definition ParsePrometheusMetrics :: "metrics_env \<Rightarrow> string \<Rightarrow> op_error + metric_value list gomap" where
  "ParsePrometheusMetrics e text =
     (case text_families e text of
        Inl err \<Rightarrow> Inl (OpContext ''failed to parse metrics'' (OpText err))
      | Inr families \<Rightarrow>
          Inr (fold (\<lambda>(name, mf). add_family name (map (metric_value_of (FType mf)) (FMetrics mf))) families []))"

definition getPort :: "metric_collector_config \<Rightarrow> op_error + string" where
  "getPort s =
     (case map_of (pod_annotations (ConfigPod s)) (PortAnnotation s) of
        Some port \<Rightarrow> Inr port
      | None \<Rightarrow> ExtractContainerPort (ConfigPod s) (ContainerName s) (PortName s))"

definition Proxy :: "pod_answers \<Rightarrow> pod \<Rightarrow> string \<Rightarrow> string \<Rightarrow> op_error + string" where
  "Proxy a pod port path = proxy_get a (pod_namespace pod) (pod_name pod @ '':'' @ port) path"

definition CollectInternal :: "metrics_env \<Rightarrow> pod_answers \<Rightarrow> metric_collector_config \<Rightarrow> resource_message list" where
  "CollectInternal e a s =
     (case getPort s of
        Inl err \<Rightarrow> [service_error s (OpContext ''failed to get metrics port'' err)]
      | Inr port \<Rightarrow>
          (case Proxy a (ConfigPod s) port (ProxyEndpoint s) of
             Inl err \<Rightarrow> [service_error s (OpContext ''failed to proxy'' err)]
           | Inr resp \<Rightarrow>
               (case ParsePrometheusMetrics e resp of
                  Inl err \<Rightarrow> [service_error s (OpContext ''failed to parse prometheus metrics'' err)]
                | Inr metrics \<Rightarrow>
                    concat (map (\<lambda>(name, values). map (sendMetric s name) values) (metric_range e metrics)))))"

definition CollectAll :: "metrics_env \<Rightarrow> pod_answers \<Rightarrow> metric_collector_config \<Rightarrow> resource_message list" where
  "CollectAll e a s = CollectHealth s @ CollectResources a s @ CollectInternal e a s"

section \<open>What the maps hold\<close>

type_synonym pod_address = "string \<times> string \<times> string"

definition pod_at :: "cluster_map \<Rightarrow> pod_address \<Rightarrow> pod_info option" where
  "pod_at cm a =
     (case a of (cl, cr, p) \<Rightarrow>
       Option.bind (map_of cm cl) (\<lambda>c. Option.bind (map_of (CustomResources c) cr) (\<lambda>r. map_of (Pods r) p)))"

definition metrics_at :: "cluster_map \<Rightarrow> pod_address \<Rightarrow> string \<Rightarrow> metric_value list" where
  "metrics_at cm a name =
     (case pod_at cm a of None \<Rightarrow> [] | Some p \<Rightarrow> (case map_of (PMetrics p) name of None \<Rightarrow> [] | Some vs \<Rightarrow> vs))"

definition status_at :: "cluster_map \<Rightarrow> pod_address \<Rightarrow> message_type \<times> op_error" where
  "status_at cm a = (case pod_at cm a of None \<Rightarrow> (NoMessage, OpText []) | Some p \<Rightarrow> (BType p, BMessage p))"

text \<open>The address of a message, and whether all its parts are set.\<close>

definition address :: "'a resource_address_scheme \<Rightarrow> pod_address" where
  "address d = (Cluster d, CustomResource d, Pod d)"

definition full_address :: "pod_address \<Rightarrow> bool" where
  "full_address a \<longleftrightarrow> (case a of (cl, cr, p) \<Rightarrow> cl \<noteq> [] \<and> cr \<noteq> [] \<and> p \<noteq> [])"

lemma map_of_at_entry [simp]:
  "map_of (at_entry new f k m) = (map_of m)(k \<mapsto> f (case map_of m k of None \<Rightarrow> new k | Some v \<Rightarrow> v))"
  by (simp add: at_entry_def)

lemma new_info_simps [simp]:
  "CustomResources (new_cluster_info n) = []" "Pods (new_custom_resource_info n) = []" "PMetrics (new_pod_info n) = []"
  "BMessage (new_pod_info n) = OpText []" "BType (new_pod_info n) = NoMessage"
  by (simp_all add: new_cluster_info_def new_custom_resource_info_def new_pod_info_def)

text \<open>A metric reaches the pod of its address and no other; a status changes the message of its pod only.\<close>

definition put_metric :: "metric_data \<Rightarrow> pod_info option \<Rightarrow> pod_info" where
  "put_metric d q =
     (let p = (case q of None \<Rightarrow> new_pod_info (Pod d) | Some p \<Rightarrow> p) in p\<lparr>PMetrics := MetricsMap_Add d (PMetrics p)\<rparr>)"

definition put_status :: "status_message \<Rightarrow> pod_info option \<Rightarrow> pod_info" where
  "put_status s q = (case q of None \<Rightarrow> new_pod_info (Pod s) | Some p \<Rightarrow> p)\<lparr>BMessage := SMessage s, BType := SType s\<rparr>"

definition resource_pod :: "custom_resource_info gomap \<Rightarrow> string \<Rightarrow> string \<Rightarrow> pod_info option" where
  "resource_pod crm cr p = (case map_of crm cr of None \<Rightarrow> None | Some r \<Rightarrow> map_of (Pods r) p)"

lemma pod_at_simp: "pod_at cm (cl, cr, p) = (case map_of cm cl of None \<Rightarrow> None | Some c \<Rightarrow> resource_pod (CustomResources c) cr p)"
  by (simp add: pod_at_def resource_pod_def split: option.split)

lemma pod_put_metric: "map_of (PodMap_AddMetric d pm) p = (if p = Pod d \<and> p \<noteq> [] then Some (put_metric d (map_of pm p)) else map_of pm p)"
  by (simp add: PodMap_AddMetric_def put_metric_def Let_def split: option.split)

lemma pod_put_status: "map_of (PodMap_AddStatus s pm) p = (if p = Pod s \<and> p \<noteq> [] then Some (put_status s (map_of pm p)) else map_of pm p)"
  by (simp add: PodMap_AddStatus_def put_status_def split: option.split)

lemma resource_put_metric:
  "resource_pod (CustomResourceMap_AddMetric d crm) cr p =
     (if cr = CustomResource d \<and> cr \<noteq> [] \<and> p = Pod d \<and> p \<noteq> [] then Some (put_metric d (resource_pod crm cr p)) else resource_pod crm cr p)"
  by (auto simp: resource_pod_def CustomResourceMap_AddMetric_def pod_put_metric split: option.split)

lemma resource_put_status:
  "resource_pod (CustomResourceMap_AddStatus s crm) cr p =
     (if cr = CustomResource s \<and> cr \<noteq> [] \<and> p = Pod s \<and> p \<noteq> [] then Some (put_status s (resource_pod crm cr p)) else resource_pod crm cr p)"
  by (auto simp: resource_pod_def CustomResourceMap_AddStatus_def pod_put_status split: option.split)

lemma pod_at_AddMetric:
  "pod_at (ClusterMap_AddMetric d cm) a = (if a = address d \<and> full_address a then Some (put_metric d (pod_at cm a)) else pod_at cm a)"
proof (cases a)
  case (fields cl cr p)
  then show ?thesis
    by (auto simp: pod_at_simp address_def full_address_def ClusterMap_AddMetric_def resource_put_metric split: option.split)
      (auto simp: resource_pod_def)
qed

lemma pod_at_AddStatus:
  "pod_at (ClusterMap_AddStatus s cm) a = (if a = address s \<and> full_address a then Some (put_status s (pod_at cm a)) else pod_at cm a)"
proof (cases a)
  case (fields cl cr p)
  then show ?thesis
    by (auto simp: pod_at_simp address_def full_address_def ClusterMap_AddStatus_def resource_put_status split: option.split)
      (auto simp: resource_pod_def)
qed

definition metric_sent :: "pod_address \<Rightarrow> string \<Rightarrow> metric_data \<Rightarrow> metric_value list" where
  "metric_sent a name d =
     (case MValue d of
        None \<Rightarrow> []
      | Some v \<Rightarrow> if a = address d \<and> full_address a \<and> name = MName d \<and> name \<noteq> [] then [v] else [])"

lemma metrics_at_AddMetric: "metrics_at (ClusterMap_AddMetric d cm) a name = metrics_at cm a name @ metric_sent a name d"
  by (auto simp: metrics_at_def pod_at_AddMetric put_metric_def metric_sent_def MetricsMap_Add_def Let_def split: option.splits)

lemma metrics_at_AddStatus: "metrics_at (ClusterMap_AddStatus s cm) a name = metrics_at cm a name"
  by (auto simp: metrics_at_def pod_at_AddStatus put_status_def split: option.splits)

lemma status_at_AddMetric: "status_at (ClusterMap_AddMetric d cm) a = status_at cm a"
  by (auto simp: status_at_def pod_at_AddMetric put_metric_def Let_def split: option.splits)

lemma status_at_AddStatus:
  "status_at (ClusterMap_AddStatus s cm) a =
     (if a = address s \<and> full_address a then (SType s, SMessage s) else status_at cm a)"
  by (auto simp: status_at_def pod_at_AddStatus put_status_def split: option.splits)

section \<open>What a collector sends\<close>

definition values_sent :: "pod_address \<Rightarrow> string \<Rightarrow> resource_message \<Rightarrow> metric_value list" where
  "values_sent a name m = (case RMetrics m of None \<Rightarrow> [] | Some d \<Rightarrow> if MErr d = None then metric_sent a name d else [])"

definition all_values_sent :: "pod_address \<Rightarrow> string \<Rightarrow> resource_message list \<Rightarrow> metric_value list" where
  "all_values_sent a name ms = concat (map (values_sent a name) ms)"

definition collector_address :: "metric_collector_config \<Rightarrow> pod_address" where
  "collector_address s = (ClusterName s, CustomResourceName s, pod_name (ConfigPod s))"

lemma all_values_sent_simps [simp]:
  "all_values_sent a name [] = []"
  "all_values_sent a name (m # ms) = values_sent a name m @ all_values_sent a name ms"
  "all_values_sent a name (ms @ ms') = all_values_sent a name ms @ all_values_sent a name ms'"
  by (simp_all add: all_values_sent_def)

lemma values_sent_metric [simp]:
  "values_sent a name (sendMetric s n v) =
     (if a = collector_address s \<and> full_address a \<and> name = n \<and> name \<noteq> [] then [v] else [])"
  by (auto simp: values_sent_def sendMetric_def metric_sent_def address_def collector_address_def service_address_def
      resource_address.defs metric_data.defs)

lemma values_sent_status [simp]: "values_sent a name (sendStatus s t m d) = []" "values_sent a name (service_error s err) = []"
  by (simp_all add: values_sent_def sendStatus_def service_error_def)

text \<open>Every message carries the address of its collector.\<close>

definition message_address :: "resource_message \<Rightarrow> pod_address option" where
  "message_address m =
     (case RMetrics m of Some d \<Rightarrow> Some (address d) | None \<Rightarrow> map_option address (RStatus m))"

lemma message_address_sent [simp]:
  "message_address (sendMetric s n v) = Some (collector_address s)"
  "message_address (sendStatus s t m d) = Some (collector_address s)"
  "message_address (service_error s err) = Some (collector_address s)"
  by (simp_all add: message_address_def sendMetric_def sendStatus_def service_error_def address_def collector_address_def
      service_address_def resource_address.defs metric_data.defs status_message.defs)

lemma CollectAll_address: "m \<in> set (CollectAll e a s) \<Longrightarrow> message_address m = Some (collector_address s)"
  by (auto simp: CollectAll_def CollectHealth_def CollectResources_def CollectInternal_def
      split: option.splits sum.splits if_splits)

end
