(* ===== verification/Metrics_Run.thy ===== *)
theory Metrics_Run
  imports Metrics
begin

text \<open>
  The metrics handlers of the operator's web server (\<open>metrics_handler.go\<close>, \<open>collector_metrics_handler.go\<close>,
  \<open>victoria_handler.go\<close>, \<open>types.go\<close> in \<open>kof-operator/internal/server/handlers\<close>, \<open>otel.go\<close> in \<open>internal/k8s\<close>).

  One goroutine per pod runs the collector of \<open>Metrics\<close>; one more per cluster sends the states of the
  custom resources; the handler receives from the channel they share. \<open>interleaving\<close> relates the
  messages of the goroutines to the order in which they may be received. It leaves out that a
  goroutine starts after the messages its parent sent before, so it allows more orders than Go does;
  the theorems hold for all of them.
\<close>

section \<open>Custom resources\<close>

record resource_status =
  StatusType :: message_type
  StatusText :: op_error

record custom_resource =
  cr_name :: string
  cr_pods :: "op_error + pod list"
  cr_status :: "resource_status option"

record 'c metrics_config =
  GetCustomResourcesFn :: "'c \<Rightarrow> op_error + custom_resource list"
  MaxResponseTime :: duration
  MetricsPortAnnotation :: string
  MetricsPortName :: string
  MetricsEndpoint :: string
  MetricsContainerName :: string

subsection \<open>OpenTelemetry collectors\<close>

record otel_collector =
  oc_name :: string
  Selector :: string
  Replicas :: "32 word"
  StatusReplicas :: string

datatype list_option = HasLabels "string list" | MatchingLabelsSelector "(string gomap \<Rightarrow> bool) option"

text \<open>What a cluster answers: its collectors, and its pods for the options of a list call.\<close>

record 'c cluster_answers =
  list_collectors :: "'c \<Rightarrow> op_error + otel_collector list"
  list_pods :: "'c \<Rightarrow> list_option list \<Rightarrow> op_error + pod list"
  labels_parse :: "string \<Rightarrow> string + (string gomap \<Rightarrow> bool)"

definition CollectorNoReplicasMessage :: string where
  "CollectorNoReplicasMessage = ''Collector has no replicas, please check configuration of the collector.''"

definition CollectorFailedFetchStatusMessage :: string where
  "CollectorFailedFetchStatusMessage = ''Failed to fetch current collector status.''"

definition CollectorZeroReplicasWarningMessage :: string where
  "CollectorZeroReplicasWarningMessage =
     ''Collector was not deployed because the replica count is zero. This may be caused by a mismatched selector.''"

definition CollectorReplicasDownMessage :: "int \<Rightarrow> int \<Rightarrow> string" where
  "CollectorReplicasDownMessage current expected =
     ''Collector replicas are not ready ('' @ dec_int current @ '' of '' @ dec_int expected @
     '' replicas ready). Check the Collector configuration and pod logs for details.''"

definition ExtractPodSelectorsFromOTelCollector ::
    "'c cluster_answers \<Rightarrow> otel_collector \<Rightarrow> string + (string gomap \<Rightarrow> bool) option" where
  "ExtractPodSelectorsFromOTelCollector w oc =
     (if Selector oc = [] then Inr None
      else (case labels_parse w (Selector oc) of Inl err \<Rightarrow> Inl err | Inr sel \<Rightarrow> Inr (Some sel)))"

definition CollectorMetricsLabel :: string where
  "CollectorMetricsLabel = ''k0rdent.mirantis.com/kof-collector-metrics''"

definition collector_GetPods :: "'c cluster_answers \<Rightarrow> 'c \<Rightarrow> otel_collector \<Rightarrow> op_error + pod list" where
  "collector_GetPods w c oc =
     (case ExtractPodSelectorsFromOTelCollector w oc of
        Inl err \<Rightarrow> Inl (OpContext ''failed to extract pod selectors from collector'' (OpText err))
      | Inr sel \<Rightarrow>
          (case list_pods w c [HasLabels [CollectorMetricsLabel], MatchingLabelsSelector sel] of
             Inl err \<Rightarrow> Inl (OpContext ''failed to get pods of collector'' err)
           | Inr ps \<Rightarrow> Inr ps))"

definition collector_GetStatus :: "otel_collector \<Rightarrow> resource_status option" where
  "collector_GetStatus oc =
     (if StatusReplicas oc = [] then Some \<lparr>StatusType = MessageTypeError, StatusText = OpText CollectorNoReplicasMessage\<rparr>
      else
        (case Atoi (hd (split_on (CHR ''/'') (StatusReplicas oc))) of
           None \<Rightarrow> Some \<lparr>StatusType = MessageTypeError, StatusText = OpText CollectorFailedFetchStatusMessage\<rparr>
         | Some currentReplicas \<Rightarrow>
             let expectedReplicas = sint (Replicas oc) in
             if expectedReplicas = 0 \<and> currentReplicas = 0
             then Some \<lparr>StatusType = MessageTypeWarning, StatusText = OpText CollectorZeroReplicasWarningMessage\<rparr>
             else if currentReplicas \<noteq> expectedReplicas
             then Some \<lparr>StatusType = MessageTypeError,
                        StatusText = OpText (CollectorReplicasDownMessage currentReplicas expectedReplicas)\<rparr>
             else None))"

definition GetOpenTelemetryCollectors :: "'c cluster_answers \<Rightarrow> 'c \<Rightarrow> op_error + custom_resource list" where
  "GetOpenTelemetryCollectors w c =
     (case list_collectors w c of
        Inl err \<Rightarrow> Inl (OpContext ''failed to get OpenTelemetryCollectors'' err)
      | Inr os \<Rightarrow>
          Inr (map (\<lambda>oc. \<lparr>cr_name = oc_name oc, cr_pods = collector_GetPods w c oc, cr_status = collector_GetStatus oc\<rparr>) os))"

definition newCollectorHandler :: "'c cluster_answers \<Rightarrow> 'c metrics_config" where
  "newCollectorHandler w =
     \<lparr>GetCustomResourcesFn = GetOpenTelemetryCollectors w, MaxResponseTime = 60 * 10 ^ 9,
      MetricsPortAnnotation = ''kof.k0rdent.mirantis.com/collector-metrics-port'', MetricsPortName = ''metrics'',
      MetricsEndpoint = ''metrics'', MetricsContainerName = ''otc-container''\<rparr>"

subsection \<open>VictoriaMetrics and VictoriaLogs\<close>

definition VictoriaMetricsLabel :: string where "VictoriaMetricsLabel = ''k0rdent.mirantis.com/kof-victoria-metrics''"

definition victoria_logs_pod :: "pod \<Rightarrow> bool" where
  "victoria_logs_pod p \<longleftrightarrow> get_str (pod_labels p) ''app.kubernetes.io/name'' = ''victoria-logs-cluster''"

definition NewVictoriaResource :: "string \<Rightarrow> pod list \<Rightarrow> custom_resource" where
  "NewVictoriaResource name ps = \<lparr>cr_name = name, cr_pods = Inr ps, cr_status = None\<rparr>"

definition GetVictoriaResources :: "'c cluster_answers \<Rightarrow> 'c \<Rightarrow> op_error + custom_resource list" where
  "GetVictoriaResources w c =
     (case list_pods w c [HasLabels [VictoriaMetricsLabel]] of
        Inl err \<Rightarrow> Inl (OpContext ''failed to get victoria metrics/logs pods'' err)
      | Inr ps \<Rightarrow>
          let vlPods = filter victoria_logs_pod ps; vmPods = filter (\<lambda>p. \<not> victoria_logs_pod p) ps in
          Inr ((if vlPods \<noteq> [] then [NewVictoriaResource ''VictoriaLogs'' vlPods] else []) @
               (if vmPods \<noteq> [] then [NewVictoriaResource ''VictoriaMetrics'' vmPods] else [])))"

definition newVictoriaHandler :: "'c cluster_answers \<Rightarrow> 'c metrics_config" where
  "newVictoriaHandler w =
     \<lparr>GetCustomResourcesFn = GetVictoriaResources w, MaxResponseTime = 10 * 10 ^ 9,
      MetricsPortAnnotation = ''kof.k0rdent.mirantis.com/victoria-metrics-port'', MetricsPortName = ''http'',
      MetricsEndpoint = ''metrics'', MetricsContainerName = []\<rparr>"

section \<open>Collection\<close>

text \<open>
  The collector started for a pod; \<open>None\<close> is the panic on a pod without containers where the handler
  names none.
\<close>

definition pod_collector :: "'c metrics_config \<Rightarrow> string \<Rightarrow> string \<Rightarrow> pod \<Rightarrow> metric_collector_config option" where
  "pod_collector cfg clusterName crName pod =
     map_option
       (\<lambda>containerName. \<lparr>ConfigPod = pod, ClusterName = clusterName, CustomResourceName = crName, ContainerName = containerName,
          PortAnnotation = MetricsPortAnnotation cfg, PortName = MetricsPortName cfg, ProxyEndpoint = MetricsEndpoint cfg\<rparr>)
       (if MetricsContainerName cfg \<noteq> [] then Some (MetricsContainerName cfg)
        else (case Containers pod of [] \<Rightarrow> None | c # _ \<Rightarrow> Some (ctr_name c)))"

definition status_of_resource :: "string \<Rightarrow> custom_resource \<Rightarrow> resource_message list" where
  "status_of_resource clusterName cr =
     (case cr_status cr of
        None \<Rightarrow> []
      | Some st \<Rightarrow>
          [\<lparr>RStatus = Some \<lparr>Cluster = clusterName, CustomResource = cr_name cr, Pod = [],
              SType = StatusType st, SMessage = StatusText st, SDetails = []\<rparr>, RMetrics = None\<rparr>])"

fun those_collectors :: "'c metrics_config \<Rightarrow> string \<Rightarrow> string \<Rightarrow> pod list \<Rightarrow> metric_collector_config list option" where
  "those_collectors cfg clusterName crName [] = Some []"
| "those_collectors cfg clusterName crName (p # ps) =
     (case pod_collector cfg clusterName crName p of
        None \<Rightarrow> None
      | Some s \<Rightarrow> map_option ((#) s) (those_collectors cfg clusterName crName ps))"

fun collect_resources :: "'c metrics_config \<Rightarrow> string \<Rightarrow> custom_resource list \<Rightarrow>
    (resource_message list \<times> metric_collector_config list) option" where
  "collect_resources cfg clusterName [] = Some ([], [])"
| "collect_resources cfg clusterName (cr # crs) =
     (case cr_pods cr of
        Inl err \<Rightarrow> collect_resources cfg clusterName crs
      | Inr ps \<Rightarrow>
          (case those_collectors cfg clusterName (cr_name cr) ps of
             None \<Rightarrow> None
           | Some ss \<Rightarrow>
               map_option (\<lambda>(ms, ts). (status_of_resource clusterName cr @ ms, ss @ ts))
                 (collect_resources cfg clusterName crs)))"

text \<open>\<open>CollectMetrics\<close>: what the goroutine of the cluster sends, and the collectors it starts.\<close>

definition CollectMetrics :: "'c metrics_config \<Rightarrow> 'c \<Rightarrow> string \<Rightarrow> (resource_message list \<times> metric_collector_config list) option" where
  "CollectMetrics cfg kubeClient clusterName =
     (case GetCustomResourcesFn cfg kubeClient of
        Inl err \<Rightarrow> Some ([], [])
      | Inr crs \<Rightarrow> collect_resources cfg clusterName crs)"

fun collect_clusters :: "'c metrics_config \<Rightarrow> (string \<times> 'c) list \<Rightarrow>
    (resource_message list list \<times> ('c \<times> metric_collector_config) list) option" where
  "collect_clusters cfg [] = Some ([], [])"
| "collect_clusters cfg ((name, c) # cs) =
     (case CollectMetrics cfg c name of
        None \<Rightarrow> None
      | Some (ms, ss) \<Rightarrow>
          map_option (\<lambda>(mss, ts). (ms # mss, map (Pair c) ss @ ts)) (collect_clusters cfg cs))"

text \<open>The goroutines of a request: one per cluster and one per pod.\<close>

definition goroutines :: "metrics_env \<Rightarrow> ('c \<Rightarrow> pod \<Rightarrow> pod_answers) \<Rightarrow>
    resource_message list list \<times> ('c \<times> metric_collector_config) list \<Rightarrow> resource_message list list" where
  "goroutines e ans r = (case r of (mss, ts) \<Rightarrow> mss @ map (\<lambda>(c, s). CollectAll e (ans c (ConfigPod s)) s) ts)"

text \<open>The receives from the shared channel: each takes the next message of one of the goroutines.\<close>

inductive interleaving :: "'a list list \<Rightarrow> 'a list \<Rightarrow> bool" where
  all_done: "(\<forall>t \<in> set ts. t = []) \<Longrightarrow> interleaving ts []"
| receive: "interleaving (us @ t # vs) ms \<Longrightarrow> interleaving (us @ (m # t) # vs) (m # ms)"

definition absorb :: "resource_message \<Rightarrow> op_error list \<times> cluster_map \<Rightarrow> op_error list \<times> cluster_map" where
  "absorb m r =
     (case r of (errs, cm0) \<Rightarrow>
       let with_status = (\<lambda>cm. case RStatus m of None \<Rightarrow> cm | Some s \<Rightarrow> ClusterMap_AddStatus s cm) in
       (case RMetrics m of
          None \<Rightarrow> (errs, with_status cm0)
        | Some d \<Rightarrow>
            (case MErr d of
               Some err \<Rightarrow> (errs @ [err], cm0)
             | None \<Rightarrow> (errs, with_status (ClusterMap_AddMetric d cm0)))))"

definition received :: "resource_message list \<Rightarrow> cluster_map" where
  "received ms = snd (fold absorb ms ([], []))"

text \<open>
  \<open>GetMetrics\<close> for the clients of the management cluster and of the remote clusters: the maps it may
  return, one per order of receives.
\<close>

definition GetMetrics :: "metrics_env \<Rightarrow> ('c \<Rightarrow> pod \<Rightarrow> pod_answers) \<Rightarrow> 'c metrics_config \<Rightarrow> (string \<times> 'c) \<Rightarrow> (string \<times> 'c) list \<Rightarrow>
    cluster_map \<Rightarrow> bool" where
  "GetMetrics e ans cfg management remotes cm \<longleftrightarrow>
     (\<exists>r ms. collect_clusters cfg (management # remotes) = Some r \<and> interleaving (goroutines e ans r) ms \<and> cm = received ms)"

section \<open>Orders of receives\<close>

text \<open>The messages of a kind that only one goroutine sends are received in the order in which it sends them.\<close>

lemma interleaving_filter:
  assumes "interleaving ts ms" "i < length ts" "\<And>j. j < length ts \<Longrightarrow> j \<noteq> i \<Longrightarrow> filter P (ts ! j) = []"
  shows "filter P ms = filter P (ts ! i)"
  using assms
proof (induction ts ms rule: interleaving.induct)
  case (all_done ts)
  then have "ts ! i = []" by (metis nth_mem)
  then show ?case by simp
next
  case (receive us t vs ms m)
  let ?ts = "us @ (m # t) # vs"
  have same: "(us @ t # vs) ! l = ?ts ! l" if "l \<noteq> length us" for l using that by (simp add: nth_append)
  have here: "filter P (?ts ! length us) = [] \<Longrightarrow> filter P ((us @ t # vs) ! length us) = [] \<and> \<not> P m"
    by (simp split: if_splits)
  have "filter P ((us @ t # vs) ! l) = []" if "l < length (us @ t # vs)" "l \<noteq> i" for l
  proof (cases "l = length us")
    case True
    then show ?thesis using here receive.prems(2) [of l] that by simp
  next
    case False
    then show ?thesis using receive.prems(2) [of l] that unfolding same [OF False] by simp
  qed
  then have "filter P ms = filter P ((us @ t # vs) ! i)" using receive.IH receive.prems(1) by simp
  note ms = this
  show ?case
  proof (cases "i = length us")
    case True
    then show ?thesis using ms by simp
  next
    case False
    then show ?thesis using ms here receive.prems(2) [of "length us"] unfolding same [OF False] by simp
  qed
qed

lemma interleaving_set: "interleaving ts ms \<Longrightarrow> set ms = (\<Union>t \<in> set ts. set t)"
  by (induction ts ms rule: interleaving.induct) auto

text \<open>Every request has an order of receives: none of the goroutines waits for another.\<close>

lemma interleaving_exists: "\<exists>ms. interleaving ts ms"
proof (induction "sum_list (map length ts)" arbitrary: ts rule: less_induct)
  case less
  show ?case
  proof (cases "\<forall>t \<in> set ts. t = []")
    case True
    then show ?thesis by (blast intro: all_done)
  next
    case False
    then obtain us t vs where "ts = us @ t # vs" "t \<noteq> []" by (meson split_list)
    then obtain m t' where ts: "ts = us @ (m # t') # vs" by (cases t) auto
    then obtain ms where "interleaving (us @ t' # vs) ms" using less [of "us @ t' # vs"] by auto
    then show ?thesis using ts by (blast intro: receive)
  qed
qed

section \<open>What is received\<close>

definition status_sent :: "pod_address \<Rightarrow> resource_message \<Rightarrow> (message_type \<times> op_error) list" where
  "status_sent a m =
     (case RStatus m of
        None \<Rightarrow> []
      | Some s \<Rightarrow> if a = address s \<and> full_address a \<and> (\<forall>d. RMetrics m = Some d \<longrightarrow> MErr d = None) then [(SType s, SMessage s)] else [])"

text \<open>The last of the messages, and no message where there is none.\<close>

definition last_status :: "message_type \<times> op_error \<Rightarrow> pod_address \<Rightarrow> resource_message list \<Rightarrow> message_type \<times> op_error" where
  "last_status st a ms = last (st # concat (map (status_sent a) ms))"

lemma metrics_at_absorb:
  "metrics_at (snd (absorb m r)) a name = metrics_at (snd r) a name @ values_sent a name m"
  by (cases r) (simp add: absorb_def values_sent_def Let_def metrics_at_AddMetric metrics_at_AddStatus split: option.split)

lemma metrics_at_fold:
  "metrics_at (snd (fold absorb ms r)) a name = metrics_at (snd r) a name @ all_values_sent a name ms"
  by (induction ms arbitrary: r) (simp_all add: metrics_at_absorb)

lemma received_metrics: "metrics_at (received ms) a name = all_values_sent a name ms"
  by (simp add: received_def metrics_at_fold) (simp add: metrics_at_def pod_at_def split: prod.split)

definition from_pod :: "pod_address \<Rightarrow> resource_message \<Rightarrow> bool" where
  "from_pod a m \<longleftrightarrow> message_address m = Some a"

lemma values_sent_from: "values_sent a name m \<noteq> [] \<Longrightarrow> from_pod a m"
  by (auto simp: values_sent_def metric_sent_def from_pod_def message_address_def split: option.splits if_splits)

lemma all_values_sent_filter: "all_values_sent a name ms = all_values_sent a name (filter (from_pod a) ms)"
proof (induction ms)
  case (Cons m ms)
  then show ?case using values_sent_from [of a name m] by auto
qed simp

lemma status_of_resource_address: "m \<in> set (status_of_resource clusterName cr) \<Longrightarrow> \<exists>cl r. message_address m = Some (cl, r, [])"
  by (auto simp: status_of_resource_def message_address_def address_def split: option.splits)

lemma collect_resources_status:
  "collect_resources cfg clusterName crs = Some (ms, ss) \<Longrightarrow> m \<in> set ms \<Longrightarrow> \<exists>cl r. message_address m = Some (cl, r, [])"
  by (induction cfg clusterName crs arbitrary: ms ss rule: collect_resources.induct)
    (auto split: sum.splits option.splits dest: status_of_resource_address)

lemma collect_clusters_status:
  "collect_clusters cfg cs = Some (mss, ts) \<Longrightarrow> ms \<in> set mss \<Longrightarrow> m \<in> set ms \<Longrightarrow> \<exists>cl r. message_address m = Some (cl, r, [])"
  by (induction cfg cs arbitrary: mss ts rule: collect_clusters.induct)
    (auto simp: CollectMetrics_def split: option.splits sum.splits dest: collect_resources_status)

lemma status_at_absorb:
  "status_at (snd (absorb m r)) a = last (status_at (snd r) a # status_sent a m)"
  by (cases r) (auto simp: absorb_def status_sent_def Let_def status_at_AddMetric status_at_AddStatus split: option.split)

lemma status_at_fold: "status_at (snd (fold absorb ms r)) a = last_status (status_at (snd r) a) a ms"
proof (induction ms arbitrary: r)
  case Nil
  then show ?case by (simp add: last_status_def)
next
  case (Cons m ms)
  have "last (last (st # xs) # ys) = last (st # xs @ ys)" for st :: "message_type \<times> op_error" and xs ys by auto
  then show ?case using Cons by (simp add: status_at_absorb last_status_def)
qed

lemma received_status: "status_at (received ms) a = last_status (NoMessage, OpText []) a ms"
  by (simp add: received_def status_at_fold) (simp add: status_at_def pod_at_def split: prod.split)

lemma status_sent_from: "RMetrics m = None \<Longrightarrow> status_sent a m \<noteq> [] \<Longrightarrow> from_pod a m"
  by (auto simp: status_sent_def from_pod_def message_address_def split: option.splits if_splits)

definition one_part :: "resource_message \<Rightarrow> bool" where
  "one_part m \<longleftrightarrow> RMetrics m = None \<or> RStatus m = None"

lemma last_status_filter:
  assumes "\<forall>m \<in> set ms. one_part m"
  shows "last_status st a ms = last_status st a (filter (from_pod a) ms)"
proof -
  have "status_sent a m = []" if "m \<in> set ms" "\<not> from_pod a m" for m
  proof (cases "RMetrics m = None")
    case True
    then show ?thesis using that(2) status_sent_from [of m a] by blast
  next
    case False
    then show ?thesis using assms that(1) by (auto simp: one_part_def status_sent_def)
  qed
  then have "concat (map (status_sent a) ms) = concat (map (status_sent a) (filter (from_pod a) ms))"
    by (induction ms) auto
  then show ?thesis by (simp add: last_status_def)
qed

lemma one_part_sent [simp]: "one_part (sendMetric s n v)" "one_part (sendStatus s t m d)" "one_part (service_error s err)"
  by (simp_all add: one_part_def sendMetric_def sendStatus_def service_error_def)

lemma one_part_CollectAll: "m \<in> set (CollectAll e a s) \<Longrightarrow> one_part m"
  by (auto simp: CollectAll_def CollectHealth_def CollectResources_def CollectInternal_def split: option.splits sum.splits if_splits)

lemma one_part_resources: "collect_resources cfg clusterName crs = Some (ms, ss) \<Longrightarrow> m \<in> set ms \<Longrightarrow> one_part m"
  by (induction cfg clusterName crs arbitrary: ms ss rule: collect_resources.induct)
    (auto simp: status_of_resource_def one_part_def split: sum.splits option.splits)

lemma one_part_clusters: "collect_clusters cfg cs = Some (mss, ts) \<Longrightarrow> ms \<in> set mss \<Longrightarrow> m \<in> set ms \<Longrightarrow> one_part m"
  by (induction cfg cs arbitrary: mss ts rule: collect_clusters.induct)
    (auto simp: CollectMetrics_def split: option.splits sum.splits dest: one_part_resources)

text \<open>The only collector with its names of cluster, resource and pod.\<close>

definition own_address :: "('c \<times> metric_collector_config) list \<Rightarrow> metric_collector_config \<Rightarrow> bool" where
  "own_address ts s \<longleftrightarrow> length (filter (\<lambda>t. collector_address (snd t) = collector_address s) ts) = 1"

lemma own_address_index:
  assumes "own_address ts s" "l < length ts" "k < length ts" "l \<noteq> k" "snd (ts ! k) = s"
  shows "collector_address (snd (ts ! l)) \<noteq> collector_address s"
proof -
  have "card {i. i < length ts \<and> collector_address (snd (ts ! i)) = collector_address s} = 1"
    using assms(1) by (simp add: own_address_def length_filter_conv_card)
  then obtain i where i: "{i. i < length ts \<and> collector_address (snd (ts ! i)) = collector_address s} = {i}"
    by (rule card_1_singletonE)
  have "k \<in> {i}" unfolding i [symmetric] using assms(3,5) by simp
  moreover have "l \<notin> {i}" using \<open>k \<in> {i}\<close> assms(4) by simp
  ultimately show ?thesis using assms(2) unfolding i [symmetric] by simp
qed

text \<open>All that is received from the pod of a collector with an address of its own is what the collector sends.\<close>

lemma received_from_pod:
  assumes run: "collect_clusters cfg cs = Some (mss, ts)" "interleaving (goroutines e ans (mss, ts)) ms"
    and own: "own_address ts s" "(c, s) \<in> set ts" "pod_name (ConfigPod s) \<noteq> []"
  shows "filter (from_pod (collector_address s)) ms = CollectAll e (ans c (ConfigPod s)) s"
proof -
  let ?a = "collector_address s" and ?g = "goroutines e ans (mss, ts)"
  obtain k where k: "k < length ts" "ts ! k = (c, s)" using own(2) by (auto simp: in_set_conv_nth)
  have at: "?g ! (length mss + k) = CollectAll e (ans c (ConfigPod s)) s" using k by (simp add: goroutines_def nth_append)
  have "filter (from_pod ?a) (?g ! j) = []" if j: "j < length ?g" "j \<noteq> length mss + k" for j
  proof (cases "j < length mss")
    case True
    then have "?g ! j \<in> set mss" by (simp add: goroutines_def nth_append)
    then show ?thesis
      using collect_clusters_status [OF run(1)] own(3) by (fastforce simp: filter_empty_conv from_pod_def collector_address_def)
  next
    case False
    define l where "l = j - length mss"
    obtain c' s' where l: "l < length ts" "l \<noteq> k" "ts ! l = (c', s')"
      using False j by (cases "ts ! l") (auto simp: goroutines_def l_def)
    then have "?g ! j = CollectAll e (ans c' (ConfigPod s')) s'" using False by (simp add: goroutines_def nth_append l_def)
    moreover have "collector_address s' \<noteq> ?a"
      using own_address_index [OF own(1) l(1) k(1) l(2)] l(3) k(2) by simp
    ultimately show ?thesis by (auto simp: filter_empty_conv from_pod_def dest: CollectAll_address)
  qed
  then have "filter (from_pod ?a) ms = filter (from_pod ?a) (?g ! (length mss + k))"
    using interleaving_filter [OF run(2), of "length mss + k" "from_pod ?a"] k by (simp add: goroutines_def)
  then show ?thesis using at CollectAll_address [of _ e "ans c (ConfigPod s)" s] by (simp add: from_pod_def)
qed

lemma shown_metrics:
  assumes "collect_clusters cfg (management # remotes) = Some (mss, ts)" "GetMetrics e ans cfg management remotes cm"
    and "own_address ts s" "(c, s) \<in> set ts" "pod_name (ConfigPod s) \<noteq> []"
  shows "metrics_at cm (collector_address s) name = all_values_sent (collector_address s) name (CollectAll e (ans c (ConfigPod s)) s)"
    and "status_at cm (collector_address s) =
       last_status (NoMessage, OpText []) (collector_address s) (CollectAll e (ans c (ConfigPod s)) s)"
proof -
  obtain ms where ms: "interleaving (goroutines e ans (mss, ts)) ms" "cm = received ms"
    using assms(1,2) by (auto simp: GetMetrics_def)
  note from_pod = received_from_pod [OF assms(1) ms(1) assms(3-5)]
  show "metrics_at cm (collector_address s) name = all_values_sent (collector_address s) name (CollectAll e (ans c (ConfigPod s)) s)"
    using ms(2) from_pod all_values_sent_filter [of "collector_address s" name ms] by (simp add: received_metrics)
  have "one_part m" if "m \<in> set ms" for m
    using that interleaving_set [OF ms(1)] one_part_clusters [OF assms(1)] by (auto simp: goroutines_def dest: one_part_CollectAll)
  then show "status_at cm (collector_address s) =
      last_status (NoMessage, OpText []) (collector_address s) (CollectAll e (ans c (ConfigPod s)) s)"
    using ms(2) from_pod last_status_filter [of ms _ "collector_address s"] by (simp add: received_status)
qed

section \<open>What a collector sends\<close>

lemma values_of_range:
  "wf_map m \<Longrightarrow> a = collector_address s \<Longrightarrow> full_address a \<Longrightarrow>
     all_values_sent a name (concat (map (\<lambda>(n, vs). map (sendMetric s n) vs) m)) =
     (if name = [] then [] else case map_of m name of None \<Rightarrow> [] | Some vs \<Rightarrow> vs)"
proof (induction m)
  case Nil
  then show ?case by simp
next
  case (Cons nv m)
  obtain n vs where nv: "nv = (n, vs)" by (cases nv)
  have vs: "all_values_sent a name (map (sendMetric s n) vs) = (if name = n \<and> name \<noteq> [] then vs else [])"
    using Cons.prems by (induction vs) auto
  have "map_of m n = None" using Cons.prems nv by (simp add: map_of_eq_None_iff)
  then show ?case using Cons vs nv by auto
qed

lemma map_of_add_family:
  "map_of (add_family name vs m) x =
     (if x = name \<and> vs \<noteq> [] then Some ((case map_of m name of None \<Rightarrow> [] | Some l \<Rightarrow> l) @ vs) else map_of m x)"
  by (induction name vs m rule: add_family.induct) auto

lemma wf_add_family: "wf_map m \<Longrightarrow> wf_map (add_family name vs m)"
  by (induction name vs m rule: add_family.induct) auto

definition family_values :: "metric_family \<Rightarrow> metric_value list" where
  "family_values mf = map (metric_value_of (FType mf)) (FMetrics mf)"

text \<open>Every family of the text becomes the list of its values, whatever the order of the families.\<close>

lemma parse_fold:
  "wf_map families \<Longrightarrow> map_of families name = Some mf \<Longrightarrow> map_of m name = None \<Longrightarrow>
     (case map_of (fold (\<lambda>(name, mf). add_family name (map (metric_value_of (FType mf)) (FMetrics mf))) families m) name of
        None \<Rightarrow> [] | Some vs \<Rightarrow> vs) = family_values mf"
proof (induction families arbitrary: m)
  case Nil
  then show ?case by simp
next
  case (Cons f families)
  obtain n g where f: "f = (n, g)" by (cases f)
  have rest: "map_of (fold (\<lambda>(name, mf). add_family name (map (metric_value_of (FType mf)) (FMetrics mf))) fs m) x = map_of m x"
    if "x \<notin> fst ` set fs" for fs m x
    using that by (induction fs arbitrary: m) (auto simp: map_of_add_family)
  show ?case
  proof (cases "n = name")
    case True
    then show ?thesis using Cons.prems f rest [of name families] by (simp add: map_of_add_family family_values_def)
  next
    case False
    then show ?thesis using Cons f by (simp add: map_of_add_family)
  qed
qed

lemma wf_parse: "ParsePrometheusMetrics e text = Inr m \<Longrightarrow> wf_map m"
proof -
  have "wf_map (fold (\<lambda>(name, mf). add_family name (map (metric_value_of (FType mf)) (FMetrics mf))) fs m)" if "wf_map m"
    for fs :: "metric_family gomap" and m
    using that by (induction fs arbitrary: m) (auto simp: wf_add_family)
  then show "ParsePrometheusMetrics e text = Inr m \<Longrightarrow> wf_map m" by (auto simp: ParsePrometheusMetrics_def split: sum.splits)
qed

definition reserved_names :: "string list" where
  "reserved_names = [ConditionReadyHealthy, ConditionReadyReason, ConditionReadyMessage, ContainerCPUUsage, ContainerCPULimit,
     ContainerMemoryUsage, ContainerMemoryLimit]"

lemma health_values:
  "name \<notin> {ConditionReadyHealthy, ConditionReadyReason, ConditionReadyMessage} \<Longrightarrow> all_values_sent a name (CollectHealth s) = []"
  by (auto simp: CollectHealth_def split: option.split)

lemma resource_values:
  "name \<notin> {ContainerCPUUsage, ContainerCPULimit, ContainerMemoryUsage, ContainerMemoryLimit} \<Longrightarrow>
     all_values_sent a name (CollectResources r s) = []"
  by (auto simp: CollectResources_def split: option.split sum.split)

lemma ready_value:
  assumes "a = collector_address s" "full_address a"
  shows "all_values_sent a ConditionReadyHealthy (CollectHealth s) =
     [plain (VString (if \<exists>c. getReadyCondition (pod_conditions (ConfigPod s)) = Some c \<and> ConditionStatus c = ''True''
        then ''healthy'' else ''unhealthy''))]"
  using assms by (auto simp: CollectHealth_def metric_names split: option.split)

text \<open>When a collector reports an error.\<close>

definition collector_fails :: "metrics_env \<Rightarrow> pod_answers \<Rightarrow> metric_collector_config \<Rightarrow> bool" where
  "collector_fails e r s \<longleftrightarrow>
     getReadyCondition (pod_conditions (ConfigPod s)) = None \<or>
     isl (getContainerUsage r s) \<or>
     (case getContainerLimits s of Inl _ \<Rightarrow> True | Inr l \<Rightarrow> \<not> (0 <s CPU l \<and> 0 <s Memory l) \<and> isl (getNodeAvailableNow r s)) \<or>
     (case getPort s of Inl _ \<Rightarrow> True | Inr port \<Rightarrow>
        (case Proxy r (ConfigPod s) port (ProxyEndpoint s) of Inl _ \<Rightarrow> True | Inr text \<Rightarrow> isl (ParsePrometheusMetrics e text)))"

lemma status_sent_metric [simp]:
  "status_sent a (sendMetric s n v) = []"
  "status_sent a (service_error s err) = (if a = collector_address s \<and> full_address a then [(MessageTypeError, err)] else [])"
  by (auto simp: status_sent_def sendMetric_def service_error_def sendStatus_def address_def collector_address_def
      service_address_def resource_address.defs status_message.defs)

lemma error_statuses:
  assumes "\<forall>x \<in> set xs. fst x = MessageTypeError" "fst st \<noteq> MessageTypeError"
  shows "fst (last (st # xs)) = MessageTypeError \<longleftrightarrow> xs \<noteq> []"
  using assms last_in_set [of xs] by auto

lemma collector_error:
  assumes "a = collector_address s" "full_address a"
  shows "fst (last_status (NoMessage, OpText []) a (CollectAll e r s)) = MessageTypeError \<longleftrightarrow> collector_fails e r s"
proof -
  let ?st = "\<lambda>ms. concat (map (status_sent a) ms)"
  have "?st (concat (map (\<lambda>(n, vs). map (sendMetric s n) vs) m)) = []" for m by (induction m) auto
  then have i: "?st (CollectInternal e r s) \<noteq> [] \<longleftrightarrow>
      (case getPort s of Inl _ \<Rightarrow> True | Inr port \<Rightarrow>
        (case Proxy r (ConfigPod s) port (ProxyEndpoint s) of Inl _ \<Rightarrow> True | Inr text \<Rightarrow> isl (ParsePrometheusMetrics e text)))"
    using assms by (simp add: CollectInternal_def split: sum.split)
  have h: "?st (CollectHealth s) \<noteq> [] \<longleftrightarrow> getReadyCondition (pod_conditions (ConfigPod s)) = None"
    using assms by (auto simp: CollectHealth_def split: option.split)
  have u: "?st (CollectResources r s) \<noteq> [] \<longleftrightarrow> isl (getContainerUsage r s) \<or>
     (case getContainerLimits s of Inl _ \<Rightarrow> True | Inr l \<Rightarrow> \<not> (0 <s CPU l \<and> 0 <s Memory l) \<and> isl (getNodeAvailableNow r s))"
    using assms by (auto simp: CollectResources_def split: sum.split)
  have "fst x = MessageTypeError" if "m \<in> set (CollectAll e r s)" "x \<in> set (status_sent a m)" for m x
    using that by (auto simp: CollectAll_def CollectHealth_def CollectResources_def CollectInternal_def
        split: option.splits sum.splits if_splits)
  then have "fst (last_status (NoMessage, OpText []) a (CollectAll e r s)) = MessageTypeError \<longleftrightarrow> ?st (CollectAll e r s) \<noteq> []"
    unfolding last_status_def by (intro error_statuses) auto
  also have "\<dots> \<longleftrightarrow> collector_fails e r s" using h u i by (simp add: CollectAll_def collector_fails_def)
  finally show ?thesis .
qed

section \<open>Properties\<close>

text \<open>
  The handler shows for each pod what its collector sends, whatever the order in which the goroutines
  of the request run: whether the pod is ready comes first under its name, and the pod is marked with
  an error exactly when a part of its collection fails, which does not stop the other parts.
\<close>

theorem pod_health_shown:
  assumes "collect_clusters cfg (management # remotes) = Some (mss, ts)" "own_address ts s"
    and "(c, s) \<in> set ts" "full_address (collector_address s)"
    and "GetMetrics e ans cfg management remotes cm"
  shows "(\<exists>scraped. metrics_at cm (collector_address s) ConditionReadyHealthy =
      plain (VString (if \<exists>q. getReadyCondition (pod_conditions (ConfigPod s)) = Some q \<and> ConditionStatus q = ''True''
        then ''healthy'' else ''unhealthy'')) # scraped) \<and>
    (fst (status_at cm (collector_address s)) = MessageTypeError \<longleftrightarrow> collector_fails e (ans c (ConfigPod s)) s)"
proof
  have named: "pod_name (ConfigPod s) \<noteq> []" using assms(4) by (simp add: full_address_def collector_address_def)
  note shown = shown_metrics [OF assms(1,5,2,3) named]
  show "\<exists>scraped. metrics_at cm (collector_address s) ConditionReadyHealthy =
      plain (VString (if \<exists>q. getReadyCondition (pod_conditions (ConfigPod s)) = Some q \<and> ConditionStatus q = ''True''
        then ''healthy'' else ''unhealthy'')) # scraped"
    unfolding shown(1) CollectAll_def all_values_sent_simps ready_value [OF refl assms(4)] by simp
  show "fst (status_at cm (collector_address s)) = MessageTypeError \<longleftrightarrow> collector_fails e (ans c (ConfigPod s)) s"
    unfolding shown(2) by (rule collector_error [OF refl assms(4)])
qed

text \<open>
  C32: a metric that the endpoint of a pod exposes is shown with exactly the values of its family, in their
  order, whatever the order of the goroutines and of Go's maps. The pod is the only one with its names of
  cluster, resource and pod (others with the same names would be put together with it), these names are not
  empty, and the metric does not have one of the names that the operator uses for its own values.
\<close>

theorem scraped_metrics_shown:
  assumes "collect_clusters cfg (management # remotes) = Some (mss, ts)" "own_address ts s"
    and "(c, s) \<in> set ts" "full_address (collector_address s)"
    and "GetMetrics e ans cfg management remotes cm"
    and "getPort s = Inr port" "Proxy (ans c (ConfigPod s)) (ConfigPod s) port (ProxyEndpoint s) = Inr text"
    and "text_families e text = Inr families" "wf_map families" "map_of families name = Some mf"
    and "name \<noteq> []" "name \<notin> set reserved_names"
    and "\<And>m. wf_map m \<Longrightarrow> same_map (metric_range e m) m"
  shows "metrics_at cm (collector_address s) name = family_values mf"
proof -
  have named: "pod_name (ConfigPod s) \<noteq> []" using assms(4) by (simp add: full_address_def collector_address_def)
  let ?m = "fold (\<lambda>(name, mf). add_family name (map (metric_value_of (FType mf)) (FMetrics mf))) families []"
  have parsed: "ParsePrometheusMetrics e text = Inr ?m" using assms(8) by (simp add: ParsePrometheusMetrics_def)
  have range: "same_map (metric_range e ?m) ?m" using assms(13) wf_parse [OF parsed] by blast
  have other: "all_values_sent (collector_address s) name (CollectHealth s) = []"
    "all_values_sent (collector_address s) name (CollectResources (ans c (ConfigPod s)) s) = []"
    using assms(12) by (auto simp: reserved_names_def intro!: health_values resource_values)
  have "all_values_sent (collector_address s) name (CollectInternal e (ans c (ConfigPod s)) s) =
      (case map_of (metric_range e ?m) name of None \<Rightarrow> [] | Some vs \<Rightarrow> vs)"
    using assms(6,7,11) parsed range
    by (simp add: CollectInternal_def values_of_range [OF _ refl assms(4)] same_map_def)
  also have "\<dots> = family_values mf" using parse_fold [OF assms(9,10), of "[]"] range by (simp add: same_map_def)
  finally show ?thesis unfolding shown_metrics(1) [OF assms(1,5,2,3) named] by (simp add: CollectAll_def other)
qed

lemma sint_sub_add:
  fixes a n u :: "64 word"
  assumes "0 \<le> sint n" "sint n \<le> sint a" "0 \<le> sint u" "sint a + sint u < 2 ^ 63"
  shows "sint (a - n + u) = sint a - sint n + sint u"
proof -
  have "sint (a - n) = sint a - sint n"
    using assms by (simp add: sint_word_ariths signed_take_bit_int_eq_self)
  then show ?thesis using assms by (simp add: sint_word_ariths signed_take_bit_int_eq_self)
qed

text \<open>
  C33: a container without limits of its own is measured against its node: the limit that is shown is
  what the node can give less what the node's other pods use, computed without wrap-around, and so at
  least the usage that is shown, as long as the quantities are not negative, the node uses at most what
  it can give, and the sums fit in an \<open>int64\<close>.
\<close>

theorem node_limit_shown:
  assumes "getContainerUsage r s = Inr u" "getContainerLimits s = Inr l" "\<not> (0 <s CPU l \<and> 0 <s Memory l)"
    and "node_metrics r (pod_node (ConfigPod s)) = Inr used" "node_allocatable r (pod_node (ConfigPod s)) = Inr given"
    and "map_of given ''cpu'' = Some qc" "map_of given ''memory'' = Some qm"
    and cpu: "0 \<le> sint (CPU u)" "0 \<le> sint (MilliValue (list_quantity used ''cpu''))"
      "sint (MilliValue (list_quantity used ''cpu'')) \<le> sint (MilliValue qc)" "sint (MilliValue qc) + sint (CPU u) < 2 ^ 63"
    and mem: "0 \<le> sint (Memory u)" "0 \<le> sint (QValue (list_quantity used ''memory''))"
      "sint (QValue (list_quantity used ''memory'')) \<le> sint (QValue qm)" "sint (QValue qm) + sint (Memory u) < 2 ^ 63"
  shows "\<exists>x y. {sendMetric s ContainerCPULimit (plain (VInt x)), sendMetric s ContainerMemoryLimit (plain (VInt y))} \<subseteq>
        set (CollectResources r s) \<and>
      sint x = sint (MilliValue qc) - (sint (MilliValue (list_quantity used ''cpu'')) - sint (CPU u)) \<and> sint (CPU u) \<le> sint x \<and>
      sint y = sint (QValue qm) - (sint (QValue (list_quantity used ''memory'')) - sint (Memory u)) \<and> sint (Memory u) \<le> sint y"
proof -
  let ?x = "MilliValue qc - MilliValue (list_quantity used ''cpu'') + CPU u"
  let ?y = "QValue qm - QValue (list_quantity used ''memory'') + Memory u"
  have "{sendMetric s ContainerCPULimit (plain (VInt ?x)), sendMetric s ContainerMemoryLimit (plain (VInt ?y))} \<subseteq> set (CollectResources r s)"
    using assms(1,2,4-7) by (simp add: CollectResources_def getNodeAvailableNow_def if_not_P [OF assms(3)])
  moreover have "sint ?x = sint (MilliValue qc) - sint (MilliValue (list_quantity used ''cpu'')) + sint (CPU u)"
    using cpu by (intro sint_sub_add)
  moreover have "sint ?y = sint (QValue qm) - sint (QValue (list_quantity used ''memory'')) + sint (Memory u)"
    using mem by (intro sint_sub_add)
  ultimately show ?thesis using cpu(3) mem(3) by (intro exI [of _ ?x] exI [of _ ?y]) simp
qed

section \<open>Example\<close>

lemma GetMetrics_returns:
  "collect_clusters cfg (management # remotes) = Some r \<Longrightarrow> \<exists>cm. GetMetrics e ans cfg management remotes cm"
  using interleaving_exists [of "goroutines e ans r"] by (auto simp: GetMetrics_def)

definition ex_metrics_pod :: pod where
  "ex_metrics_pod = \<lparr>pod_namespace = ''kof'', pod_name = ''vl-0'', pod_labels = [(''app.kubernetes.io/name'', ''victoria-logs-cluster'')],
     pod_annotations = [], pod_node = ''n1'', pod_phase = ''Running'', PodIP = ''10.0.0.2'',
     pod_conditions = [\<lparr>ConditionType = ''Ready'', ConditionStatus = ''True'', ConditionReason = [], ConditionMessage = []\<rparr>],
     Containers = [\<lparr>ctr_name = ''vlselect'', ctr_ports = [\<lparr>port_name = ''http'', ContainerPort = 80\<rparr>], ctr_env = [], ctr_limits = []\<rparr>]\<rparr>"

definition ex_cluster_answers :: "unit cluster_answers" where
  "ex_cluster_answers = \<lparr>list_collectors = (\<lambda>_. Inr []), list_pods = (\<lambda>_ _. Inr [ex_metrics_pod]), labels_parse = (\<lambda>_. Inl ''bad'')\<rparr>"

definition ex_family :: metric_family where
  "ex_family = \<lparr>FType = GAUGE, FMetrics = [\<lparr>dto_labels = [(''job'', ''vl'')], dto_counter = None, dto_gauge = Some 7,
     dto_histogram_sum = None, dto_summary_sum = None, dto_untyped = None\<rparr>]\<rparr>"

definition ex_metrics_env :: metrics_env where
  "ex_metrics_env = \<lparr>text_families = (\<lambda>_. Inr [(''up'', ex_family)]), metric_range = id\<rparr>"

definition ex_quantities :: "quantity gomap" where
  "ex_quantities = [(''cpu'', \<lparr>MilliValue = 500, QValue = 1\<rparr>), (''memory'', \<lparr>MilliValue = 0, QValue = 1024\<rparr>)]"

definition ex_pod_answers :: pod_answers where
  "ex_pod_answers = \<lparr>pod_metrics = (\<lambda>_ _. Inr [(''vlselect'', ex_quantities)]), node_metrics = (\<lambda>_. Inr ex_quantities),
     node_allocatable = (\<lambda>_. Inr [(''cpu'', \<lparr>MilliValue = 4000, QValue = 4\<rparr>), (''memory'', \<lparr>MilliValue = 0, QValue = 8192\<rparr>)]),
     proxy_get = (\<lambda>_ _ _. Inr ''up 7'')\<rparr>"

definition ex_collector :: metric_collector_config where
  "ex_collector = \<lparr>ConfigPod = ex_metrics_pod, ClusterName = ''mothership'', CustomResourceName = ''VictoriaLogs'', ContainerName = ''vlselect'',
     PortAnnotation = ''kof.k0rdent.mirantis.com/victoria-metrics-port'', PortName = ''http'', ProxyEndpoint = ''metrics''\<rparr>"

lemma ex_collected:
  "collect_clusters (newVictoriaHandler ex_cluster_answers) [(''mothership'', ())] = Some ([[]], [((), ex_collector)])"
  by (simp add: CollectMetrics_def newVictoriaHandler_def GetVictoriaResources_def ex_cluster_answers_def ex_collector_def
      NewVictoriaResource_def victoria_logs_pod_def ex_metrics_pod_def get_str_def pod_collector_def status_of_resource_def)

lemma ex_port: "getPort ex_collector = Inr ''80''"
  by (simp add: getPort_def ex_collector_def ex_metrics_pod_def ExtractContainerPort_def GetContainer_def GetContainerPort_def dec.simps digit_char_def)
    code_simp

lemma ex_proxy: "Proxy ex_pod_answers (ConfigPod ex_collector) port (ProxyEndpoint ex_collector) = Inr ''up 7''"
  by (simp add: Proxy_def ex_pod_answers_def)

lemma ex_families: "text_families ex_metrics_env text = Inr [(''up'', ex_family)]"
  by (simp add: ex_metrics_env_def)

lemma ex_address: "full_address (collector_address ex_collector)"
  by (simp add: full_address_def collector_address_def ex_collector_def ex_metrics_pod_def)

lemma ex_not_failing: "\<not> collector_fails ex_metrics_env ex_pod_answers ex_collector"
  by (simp add: collector_fails_def ex_port ex_proxy ParsePrometheusMetrics_def ex_families)
    (simp add: ex_collector_def ex_metrics_pod_def ex_pod_answers_def ex_quantities_def getReadyCondition_def getContainerUsage_def
      findContainerMetric_def getContainerLimits_def GetContainer_def getNodeAvailableNow_def)

theorem pod_health_shown_witness:
  "\<exists>cm. GetMetrics ex_metrics_env (\<lambda>_ _. ex_pod_answers) (newVictoriaHandler ex_cluster_answers) (''mothership'', ()) [] cm \<and>
     fst (status_at cm (collector_address ex_collector)) \<noteq> MessageTypeError"
proof -
  obtain cm where cm: "GetMetrics ex_metrics_env (\<lambda>_ _. ex_pod_answers) (newVictoriaHandler ex_cluster_answers) (''mothership'', ()) [] cm"
    using GetMetrics_returns [OF ex_collected] by blast
  have "fst (status_at cm (collector_address ex_collector)) = MessageTypeError \<longleftrightarrow>
      collector_fails ex_metrics_env ex_pod_answers ex_collector"
    using pod_health_shown [OF ex_collected _ _ ex_address cm, of "()"] by (simp add: own_address_def)
  then show ?thesis using cm ex_not_failing by blast
qed

theorem scraped_metrics_shown_witness:
  "\<exists>cm. GetMetrics ex_metrics_env (\<lambda>_ _. ex_pod_answers) (newVictoriaHandler ex_cluster_answers) (''mothership'', ()) [] cm \<and>
     metrics_at cm (collector_address ex_collector) ''up'' = [\<lparr>Labels = [(''job'', ''vl'')], Value = VFloat 7\<rparr>]"
proof -
  obtain cm where cm: "GetMetrics ex_metrics_env (\<lambda>_ _. ex_pod_answers) (newVictoriaHandler ex_cluster_answers) (''mothership'', ()) [] cm"
    using GetMetrics_returns [OF ex_collected] by blast
  have "metrics_at cm (collector_address ex_collector) ''up'' = family_values ex_family"
    by (rule scraped_metrics_shown [OF ex_collected _ _ ex_address cm ex_port ex_proxy ex_families])
      (simp_all add: own_address_def reserved_names_def metric_names same_map_refl, simp add: ex_metrics_env_def same_map_refl)
  moreover have "family_values ex_family = [\<lparr>Labels = [(''job'', ''vl'')], Value = VFloat 7\<rparr>]"
    by (simp add: family_values_def ex_family_def metric_value_of_def metric_number_def map_copy_def)
  ultimately show ?thesis using cm by auto
qed

theorem node_limit_shown_witness:
  "\<exists>x y. {sendMetric ex_collector ContainerCPULimit (plain (VInt x)), sendMetric ex_collector ContainerMemoryLimit (plain (VInt y))} \<subseteq>
      set (CollectResources ex_pod_answers ex_collector) \<and> sint x = 4000 \<and> sint y = 8192"
proof -
  have "\<exists>x y. {sendMetric ex_collector ContainerCPULimit (plain (VInt x)), sendMetric ex_collector ContainerMemoryLimit (plain (VInt y))} \<subseteq>
        set (CollectResources ex_pod_answers ex_collector) \<and>
      sint x = sint (4000 :: 64 word) - (sint (500 :: 64 word) - sint (500 :: 64 word)) \<and> sint (500 :: 64 word) \<le> sint x \<and>
      sint y = sint (8192 :: 64 word) - (sint (1024 :: 64 word) - sint (1024 :: 64 word)) \<and> sint (1024 :: 64 word) \<le> sint y"
    using node_limit_shown [of ex_pod_answers ex_collector "\<lparr>CPU = 500, Memory = 1024\<rparr>" "\<lparr>CPU = 0, Memory = 0\<rparr>" ex_quantities
        "[(''cpu'', \<lparr>MilliValue = 4000, QValue = 4\<rparr>), (''memory'', \<lparr>MilliValue = 0, QValue = 8192\<rparr>)]"
        "\<lparr>MilliValue = 4000, QValue = 4\<rparr>" "\<lparr>MilliValue = 0, QValue = 8192\<rparr>"]
    by (simp add: getContainerUsage_def getContainerLimits_def findContainerMetric_def ex_pod_answers_def ex_collector_def ex_metrics_pod_def
        GetContainer_def ex_quantities_def list_quantity_def)
  then show ?thesis by auto
qed

end
