(* ===== verification/Remote_Clusters.thy ===== *)
theory Remote_Clusters
  imports Metrics_Run
begin

text \<open>
  The clients of remote clusters (\<open>client.go\<close> in \<open>kof-operator/internal/k8s\<close>) and how the metrics handlers
  find them (\<open>metrics_handler.go\<close> in \<open>internal/server/handlers\<close>).

  The management cluster knows all cluster deployments; the kubeconfig of a child of a KCM region is read
  from the cluster of the region. One goroutine goes over the regions and then over all deployments and
  starts one more for each cluster it asks for; a cluster whose name is marked as processed is not asked for again. The
  goroutines are tasks of a state, and a step of \<open>disc_step\<close> is a step of one of them: a task sends its
  client and marks the name in two steps. One region of the main loop is a single step, its send and its mark
  included: nothing else reads the mark before the loop over all deployments begins. A cluster is known by a client \<open>'c\<close>, and \<open>apis\<close> gives the API
  behind each client.
\<close>

section \<open>Clients\<close>

text \<open>\<open>connect\<close> makes a client from the text of a kubeconfig.\<close>

definition NewKubeClientFromSecret :: "(string \<Rightarrow> string + 'c) \<Rightarrow> string \<Rightarrow> string \<Rightarrow> op_api \<Rightarrow> (op_error + 'c) \<times> op_api" where
  "NewKubeClientFromSecret connect secretName namespace k =
     and_then (api_ctx ''failed to get secret'' (GetSecret secretName namespace k))
       (\<lambda>secret k.
          (let kubeconfig = GetSecretValue secret in
           if length kubeconfig = 0 then Inl (OpText ''kubeconfig is empty'')
           else (case connect kubeconfig of
               Inl err \<Rightarrow> Inl (OpContext ''failed to create new client from kubeconfig'' (OpText err))
             | Inr kc \<Rightarrow> Inr kc), k))"

definition NewKubeClientFromClusterDeployment ::
    "(string \<Rightarrow> string + 'c) \<Rightarrow> cluster_deployment \<Rightarrow> op_api \<Rightarrow> (op_error + 'c) \<times> op_api" where
  "NewKubeClientFromClusterDeployment connect cd k =
     and_then (in_context (OpContext ''failed to get secret name'') (GetKubeconfigSecretName cd k))
       (\<lambda>secretName k. NewKubeClientFromSecret connect secretName (cd_namespace cd) k)"

lemma reads_client [reads_rules]: "reads k (NewKubeClientFromSecret connect secretName namespace k)"
  by (auto simp: NewKubeClientFromSecret_def GetSecret_def intro!: reads_rules)

section \<open>The state\<close>

datatype 'c task = Connect 'c cluster_deployment | Store string

datatype main_task = MRegions "cluster_deployment list" | MOthers "cluster_deployment list" | MDone

record 'c discovery =
  apis :: "'c \<Rightarrow> op_api"
  processed :: "string list"
  sent :: "(string \<times> 'c) list"
  tasks :: "'c task list"
  main_at :: main_task

record 'c discovery_env =
  dconnect :: "string \<Rightarrow> string + 'c"
  local_client :: 'c
  dcache :: cached_cluster_data
  dclusters :: "cluster_deployment list"

text \<open>A call through a client.\<close>

definition at_client :: "'c \<Rightarrow> (op_api \<Rightarrow> 'r \<times> op_api) \<Rightarrow> 'c discovery \<Rightarrow> 'r \<times> 'c discovery" where
  "at_client c f st = (case f (apis st c) of (r, k) \<Rightarrow> (r, st\<lparr>apis := (apis st)(c := k)\<rparr>))"

definition fetchClusterData :: "op_api \<Rightarrow> (op_error + kcm_region list \<times> credential list \<times> cluster_deployment list) \<times> op_api" where
  "fetchClusterData k =
     and_then (api_ctx ''failed to get region list'' (api_list regions (\<lambda>_. True) k))
     (\<lambda>regionList k. and_then (api_ctx ''failed to get credential list'' (api_list creds (\<lambda>_. True) k))
     (\<lambda>credList k. and_then (api_ctx ''failed to get cluster deployment list'' (api_list deployments (\<lambda>_. True) k))
     (\<lambda>clusterList k. (Inr (regionList, credList, clusterList), k))))"

section \<open>The steps\<close>

text \<open>The secret name is read from the management cluster, the Secret through the client of the goroutine.\<close>

definition createAndSendKubeClient :: "'c discovery_env \<Rightarrow> 'c \<Rightarrow> string \<Rightarrow> cluster_deployment \<Rightarrow> 'c discovery \<Rightarrow>
    (op_error + 'c) \<times> 'c discovery" where
  "createAndSendKubeClient e c secretName cd st =
     (case at_client c (NewKubeClientFromSecret (dconnect e) secretName (cd_namespace cd)) st of
        (Inl err, st) \<Rightarrow> (Inl err, st)
      | (Inr kc, st) \<Rightarrow> (Inr kc, st\<lparr>sent := sent st @ [(cd_name cd, kc)]\<rparr>))"

definition mark :: "string \<Rightarrow> 'c discovery \<Rightarrow> 'c discovery" where
  "mark name st = st\<lparr>processed := name # processed st\<rparr>"

text \<open>One region of \<open>handleRegionClusters\<close>: its own client, then a goroutine for each of its children.\<close>

definition region_iteration :: "'c discovery_env \<Rightarrow> cluster_deployment \<Rightarrow> 'c discovery \<Rightarrow> 'c discovery" where
  "region_iteration e cd st =
     (case at_client (local_client e) (GetKcmRegionChildClusters cd (dcache e)) st of
        (Inl err, st) \<Rightarrow> st
      | (Inr childs, st) \<Rightarrow>
          (case at_client (local_client e) (GetKubeconfigSecretName cd) st of
             (Inl err, st) \<Rightarrow> st
           | (Inr secretName, st) \<Rightarrow>
               (case createAndSendKubeClient e (local_client e) secretName cd st of
                  (Inl err, st) \<Rightarrow> st
                | (Inr kc, st) \<Rightarrow> (let st = mark (cd_name cd) st in st\<lparr>tasks := tasks st @ map (Connect kc) childs\<rparr>))))"

text \<open>The goroutine of a cluster up to its send.\<close>

definition connect_task :: "'c discovery_env \<Rightarrow> 'c \<Rightarrow> cluster_deployment \<Rightarrow> 'c discovery \<Rightarrow> (op_error + 'c) \<times> 'c discovery" where
  "connect_task e c cd st =
     (case at_client (local_client e) (GetKubeconfigSecretName cd) st of
        (Inl err, st) \<Rightarrow> (Inl err, st)
      | (Inr secretName, st) \<Rightarrow> createAndSendKubeClient e c secretName cd st)"

inductive disc_step :: "'c discovery_env \<Rightarrow> 'c discovery \<Rightarrow> 'c discovery \<Rightarrow> bool" for e where
  region: "main_at st = MRegions (cd # cds) \<Longrightarrow> disc_step e st ((region_iteration e cd st)\<lparr>main_at := MRegions cds\<rparr>)"
| regions_done: "main_at st = MRegions [] \<Longrightarrow> disc_step e st (st\<lparr>main_at := MOthers (dclusters e)\<rparr>)"
| skip: "main_at st = MOthers (cd # cds) \<Longrightarrow> cd_name cd \<in> set (processed st) \<Longrightarrow>
    disc_step e st (st\<lparr>main_at := MOthers cds\<rparr>)"
| spawn: "main_at st = MOthers (cd # cds) \<Longrightarrow> cd_name cd \<notin> set (processed st) \<Longrightarrow>
    disc_step e st (st\<lparr>main_at := MOthers cds, tasks := tasks st @ [Connect (local_client e) cd]\<rparr>)"
| others_done: "main_at st = MOthers [] \<Longrightarrow> disc_step e st (st\<lparr>main_at := MDone\<rparr>)"
| failed: "tasks st = us @ Connect c cd # vs \<Longrightarrow> connect_task e c cd st = (Inl err, st') \<Longrightarrow>
    disc_step e st (st'\<lparr>tasks := us @ vs\<rparr>)"
| connected: "tasks st = us @ Connect c cd # vs \<Longrightarrow> connect_task e c cd st = (Inr kc, st') \<Longrightarrow>
    disc_step e st (st'\<lparr>tasks := us @ Store (cd_name cd) # vs\<rparr>)"
| store: "tasks st = us @ Store name # vs \<Longrightarrow> disc_step e st ((mark name st)\<lparr>tasks := us @ vs\<rparr>)"

text \<open>All goroutines have ended and the channel is closed.\<close>

definition disc_final :: "'c discovery \<Rightarrow> bool" where
  "disc_final st \<longleftrightarrow> main_at st = MDone \<and> tasks st = []"

text \<open>
  \<open>collectRemoteClusterKubeClients\<close> up to the loops: without the lists no client is sent; without the
  region clusters it goes on with all deployments.
\<close>

definition collectRemoteClusterKubeClients :: "(string \<Rightarrow> string + 'c) \<Rightarrow> 'c \<Rightarrow> ('c \<Rightarrow> op_api) \<Rightarrow>
    'c discovery_env option \<times> 'c discovery" where
  "collectRemoteClusterKubeClients connect c w =
     (let st = \<lparr>apis = w, processed = [], sent = [], tasks = [], main_at = MDone\<rparr> in
      case at_client c fetchClusterData st of
        (Inl err, st) \<Rightarrow> (None, st)
      | (Inr (regionList, credList, clusterList), st) \<Rightarrow>
          let e = \<lparr>dconnect = connect, local_client = c,
                dcache = \<lparr>CachedRegions = Some regionList, CachedCredentials = Some credList, CachedClusters = Some clusterList\<rparr>,
                dclusters = clusterList\<rparr> in
          (case at_client c GetKcmRegionClusters st of
             (Inl err, st) \<Rightarrow> (Some e, st\<lparr>main_at := MOthers clusterList\<rparr>)
           | (Inr regionClusters, st) \<Rightarrow> (Some e, st\<lparr>main_at := MRegions regionClusters\<rparr>)))"

section \<open>What a step changes\<close>

text \<open>The objects behind every client stay as they are.\<close>

definition api_le :: "('c \<Rightarrow> op_api) \<Rightarrow> ('c \<Rightarrow> op_api) \<Rightarrow> bool" where
  "api_le w w' \<longleftrightarrow> (\<forall>c. \<exists>n. w' c = (w c)\<lparr>api_faults := drop n (api_faults (w c))\<rparr>)"

lemma api_le_refl [simp, intro]: "api_le w w"
  unfolding api_le_def by (metis reads_def reads_done snd_conv)

lemma api_le_trans: "api_le w w' \<Longrightarrow> api_le w' w'' \<Longrightarrow> api_le w w''"
proof -
  have "\<exists>n. k'' = k\<lparr>api_faults := drop n (api_faults k)\<rparr>"
    if "k' = k\<lparr>api_faults := drop n (api_faults k)\<rparr>" "k'' = k'\<lparr>api_faults := drop m (api_faults k')\<rparr>" for k k' k'' :: op_api and n m
    using that by (intro exI [of _ "m + n"]) simp
  then show "api_le w w' \<Longrightarrow> api_le w' w'' \<Longrightarrow> api_le w w''" unfolding api_le_def by metis
qed

lemma api_le_objects:
  assumes "api_le w w'"
  shows "secrets (w' c) = secrets (w c)" "deployments (w' c) = deployments (w c)" "creds (w' c) = creds (w c)"
    "regions (w' c) = regions (w c)"
proof -
  obtain n where "w' c = (w c)\<lparr>api_faults := drop n (api_faults (w c))\<rparr>" using assms unfolding api_le_def by blast
  then show "secrets (w' c) = secrets (w c)" "deployments (w' c) = deployments (w c)" "creds (w' c) = creds (w c)"
    "regions (w' c) = regions (w c)" by simp_all
qed

lemma api_le_quiet: "api_le w w' \<Longrightarrow> api_faults (w c) = [] \<Longrightarrow> w' c = w c"
proof -
  assume "api_le w w'" "api_faults (w c) = []"
  moreover from this obtain n where "w' c = (w c)\<lparr>api_faults := drop n (api_faults (w c))\<rparr>" unfolding api_le_def by blast
  ultimately show "w' c = w c" by simp
qed

lemma at_client_frame:
  assumes "at_client c f st = (r, st')" "\<And>k. reads k (f k)"
  obtains w where "st' = st\<lparr>apis := w\<rparr>" "api_le (apis st) w" "f (apis st c) = (r, w c)"
proof -
  obtain k where k: "f (apis st c) = (r, k)" "st' = st\<lparr>apis := (apis st)(c := k)\<rparr>"
    using assms(1) by (auto simp: at_client_def split: prod.splits)
  have "\<exists>n. k = (apis st c)\<lparr>api_faults := drop n (api_faults (apis st c))\<rparr>"
    using assms(2) [of "apis st c"] k(1) by (simp add: reads_def)
  moreover have "\<exists>n. apis st d = (apis st d)\<lparr>api_faults := drop n (api_faults (apis st d))\<rparr>" for d
    using api_le_refl [of "apis st"] unfolding api_le_def by blast
  ultimately have "api_le (apis st) ((apis st)(c := k))" by (simp add: api_le_def)
  then show ?thesis using that [of "(apis st)(c := k)"] k by simp
qed

section \<open>Which client belongs to a cluster\<close>

text \<open>
  The Secret with the kubeconfig of a deployment: for an adopted cluster the one its credential names,
  else the one named after the cluster.
\<close>

definition kubeconfig_secret :: "op_api \<Rightarrow> cluster_deployment \<Rightarrow> string option" where
  "kubeconfig_secret k cd =
     (if has_prefix (cd_template cd) ''adopted-''
      then (case find_object cred_key (cd_namespace cd, cd_credential cd) (creds k) of
          None \<Rightarrow> None
        | Some cred \<Rightarrow> if IdentityKind cred = ''Secret'' then Some (IdentityName cred) else None)
      else Some (cd_name cd @ ''-kubeconfig''))"

definition secret_client :: "(string \<Rightarrow> string + 'c) \<Rightarrow> op_api \<Rightarrow> string \<Rightarrow> string \<Rightarrow> 'c option" where
  "secret_client connect k namespace name =
     (case find_object sec_key (namespace, name) (secrets k) of
        None \<Rightarrow> None
      | Some s \<Rightarrow> if GetSecretValue s = [] then None
                  else (case connect (GetSecretValue s) of Inl _ \<Rightarrow> None | Inr kc \<Rightarrow> Some kc))"

text \<open>
  The client of a deployment, whose kubeconfig Secret is read through the client \<open>via\<close>; the name of
  the Secret comes from the management cluster.
\<close>

definition client_of :: "'c discovery_env \<Rightarrow> ('c \<Rightarrow> op_api) \<Rightarrow> 'c \<Rightarrow> cluster_deployment \<Rightarrow> 'c option" where
  "client_of e w via cd =
     (case kubeconfig_secret (w (local_client e)) cd of
        None \<Rightarrow> None
      | Some name \<Rightarrow> secret_client (dconnect e) (w via) (cd_namespace cd) name)"

text \<open>
  The children of a region: the deployments with the name of the first region that refers to the
  cluster of the region or to its kubeconfig Secret.
\<close>

definition region_children :: "'c discovery_env \<Rightarrow> ('c \<Rightarrow> op_api) \<Rightarrow> cluster_deployment \<Rightarrow> cluster_deployment list option" where
  "region_children e w cd =
     (case kubeconfig_secret (w (local_client e)) cd of
        None \<Rightarrow> None
      | Some name \<Rightarrow>
          (case find (\<lambda>r. rg_cluster r = Some (cd_namespace cd, cd_name cd) \<or> rg_kubeconfig r = Some name) (regions (w (local_client e))) of
             None \<Rightarrow> None
           | Some r \<Rightarrow> Some (filter (\<lambda>child. cd_region child = rg_name r) (dclusters e))))"

text \<open>
  A client is genuine for a deployment if it was made from the kubeconfig Secret of that deployment,
  read from the management cluster or from the cluster of the region whose child the deployment is.
\<close>

definition genuine :: "'c discovery_env \<Rightarrow> ('c \<Rightarrow> op_api) \<Rightarrow> cluster_deployment \<Rightarrow> 'c \<Rightarrow> bool" where
  "genuine e w cd kc \<longleftrightarrow>
     client_of e w (local_client e) cd = Some kc \<or>
     (\<exists>region \<in> set (dclusters e). \<exists>rc l. client_of e w (local_client e) region = Some rc \<and>
        region_children e w region = Some l \<and> cd \<in> set l \<and> client_of e w rc cd = Some kc)"

lemma client_le:
  assumes "api_le w w'"
  shows "client_of e w' via cd = client_of e w via cd"
  unfolding client_of_def kubeconfig_secret_def secret_client_def api_le_objects(1,3) [OF assms] ..

lemma children_le:
  assumes "api_le w w'"
  shows "region_children e w' cd = region_children e w cd"
  unfolding region_children_def kubeconfig_secret_def api_le_objects(3,4) [OF assms] ..

lemma secret_name_ok: "GetKubeconfigSecretName cd k = (Inr name, k') \<Longrightarrow> kubeconfig_secret k cd = Some name"
  by (auto simp: GetKubeconfigSecretName_def IsAdopted_def GetCloudClusterSecretName_def GetAdoptedClusterSecretName_def
      kubeconfig_secret_def api_ctx_def and_then_Inr in_context_Inr dest!: api_get_ok split: if_splits)

lemma secret_name_quiet:
  "api_faults k = [] \<Longrightarrow> kubeconfig_secret k cd = Some name \<Longrightarrow> GetKubeconfigSecretName cd k = (Inr name, k)"
  by (auto simp: GetKubeconfigSecretName_def IsAdopted_def GetCloudClusterSecretName_def GetAdoptedClusterSecretName_def
      kubeconfig_secret_def api_ctx_def and_then_def in_context_def api_get_def split: if_splits option.splits)

lemma new_client_ok:
  "NewKubeClientFromSecret connect name namespace k = (Inr kc, k') \<Longrightarrow> secret_client connect k namespace name = Some kc"
  by (auto simp: NewKubeClientFromSecret_def GetSecret_def secret_client_def api_ctx_def and_then_Inr in_context_Inr Let_def
      dest!: api_get_ok split: if_splits sum.splits)

lemma new_client_quiet:
  "api_faults k = [] \<Longrightarrow> secret_client connect k namespace name = Some kc \<Longrightarrow>
     NewKubeClientFromSecret connect name namespace k = (Inr kc, k)"
  by (auto simp: NewKubeClientFromSecret_def GetSecret_def secret_client_def api_get_def api_ctx_def and_then_def in_context_def Let_def
      split: if_splits sum.splits option.splits)

text \<open>What was fetched before the loops.\<close>

definition fetched :: "'c discovery_env \<Rightarrow> ('c \<Rightarrow> op_api) \<Rightarrow> bool" where
  "fetched e w \<longleftrightarrow>
     CachedClusters (dcache e) = Some (dclusters e) \<and> CachedRegions (dcache e) = Some (regions (w (local_client e)))"

lemma fetched_le: "api_le w w' \<Longrightarrow> fetched e w' = fetched e w"
  by (simp add: fetched_def api_le_objects)

lemma children_ok:
  assumes "GetKcmRegionChildClusters cd (dcache e) (w (local_client e)) = (Inr childs, k')" "fetched e w"
  shows "region_children e w cd = Some childs"
proof -
  obtain r k1 where r: "GetRegionByClusterDeployment cd (dcache e) (w (local_client e)) = (Inr (Some r), k1)"
      "childs = filter (\<lambda>child. cd_region child = rg_name r) (dclusters e)"
    using assms by (auto simp: GetKcmRegionChildClusters_def fetched_def and_then_Inr in_context_Inr split: option.splits)
  then show ?thesis
    using assms(2) by (auto simp: GetRegionByClusterDeployment_def fetched_def region_children_def and_then_Inr in_context_Inr
        dest!: secret_name_ok)
qed

lemma children_quiet:
  assumes "api_faults (w (local_client e)) = []" "region_children e w cd = Some childs" "fetched e w"
  shows "GetKcmRegionChildClusters cd (dcache e) (w (local_client e)) = (Inr childs, w (local_client e))"
proof -
  obtain name r where r: "kubeconfig_secret (w (local_client e)) cd = Some name"
      "find (\<lambda>r. rg_cluster r = Some (cd_namespace cd, cd_name cd) \<or> rg_kubeconfig r = Some name) (regions (w (local_client e))) = Some r"
      "childs = filter (\<lambda>child. cd_region child = rg_name r) (dclusters e)"
    using assms(2) by (auto simp: region_children_def split: option.splits)
  then show ?thesis
    using assms(3) secret_name_quiet [OF assms(1) r(1)]
    by (simp add: GetKcmRegionChildClusters_def GetRegionByClusterDeployment_def fetched_def and_then_def in_context_def)
qed

section \<open>What a goroutine does\<close>

lemma create_frame:
  assumes "createAndSendKubeClient e c secretName cd st = (r, st')"
  obtains (fails) w err where "r = Inl err" "st' = st\<lparr>apis := w\<rparr>" "api_le (apis st) w"
  | (sends) w kc where "r = Inr kc" "st' = st\<lparr>apis := w, sent := sent st @ [(cd_name cd, kc)]\<rparr>" "api_le (apis st) w"
      "secret_client (dconnect e) (apis st c) (cd_namespace cd) secretName = Some kc"
proof -
  obtain q st1 where q: "at_client c (NewKubeClientFromSecret (dconnect e) secretName (cd_namespace cd)) st = (q, st1)" by fastforce
  then obtain w where w: "st1 = st\<lparr>apis := w\<rparr>" "api_le (apis st) w"
      "NewKubeClientFromSecret (dconnect e) secretName (cd_namespace cd) (apis st c) = (q, w c)"
    by (rule at_client_frame) (rule reads_client)
  show ?thesis
  proof (cases q)
    case (Inl err)
    then show ?thesis using assms q w(1,2) fails [of err w] by (auto simp: createAndSendKubeClient_def)
  next
    case (Inr kc)
    then have "secret_client (dconnect e) (apis st c) (cd_namespace cd) secretName = Some kc" using new_client_ok w(3) by metis
    then show ?thesis using Inr assms q w(1,2) sends [of kc w] by (auto simp: createAndSendKubeClient_def)
  qed
qed

lemma connect_frame:
  assumes "connect_task e c cd st = (r, st')"
  obtains (fails) w err where "r = Inl err" "st' = st\<lparr>apis := w\<rparr>" "api_le (apis st) w"
  | (sends) w kc where "r = Inr kc" "st' = st\<lparr>apis := w, sent := sent st @ [(cd_name cd, kc)]\<rparr>" "api_le (apis st) w"
      "client_of e (apis st) c cd = Some kc"
proof -
  obtain q st1 where q: "at_client (local_client e) (GetKubeconfigSecretName cd) st = (q, st1)" by fastforce
  then obtain w where w: "st1 = st\<lparr>apis := w\<rparr>" "api_le (apis st) w"
      "GetKubeconfigSecretName cd (apis st (local_client e)) = (q, w (local_client e))"
    by (rule at_client_frame) (rule reads_secret_name)
  show ?thesis
  proof (cases q)
    case (Inl err)
    then show ?thesis using assms q w(1,2) fails [of err w] by (auto simp: connect_task_def)
  next
    case (Inr name)
    have "kubeconfig_secret (apis st (local_client e)) cd = Some name" using secret_name_ok w(3) Inr by metis
    then have g: "secret_client (dconnect e) (w c) (cd_namespace cd) name = Some kc \<Longrightarrow> client_of e (apis st) c cd = Some kc" for kc
      using w(2) by (simp add: client_of_def secret_client_def api_le_objects)
    have "createAndSendKubeClient e c name cd st1 = (r, st')" using assms q Inr by (simp add: connect_task_def)
    then show ?thesis
      using w(1,2) g fails sends by (elim create_frame) (auto intro: api_le_trans)
  qed
qed

lemma region_frame:
  assumes "fetched e (apis st)"
  obtains (fails) w where "region_iteration e cd st = st\<lparr>apis := w\<rparr>" "api_le (apis st) w"
  | (sends) w kc childs where "region_iteration e cd st = st\<lparr>apis := w, sent := sent st @ [(cd_name cd, kc)],
        processed := cd_name cd # processed st, tasks := tasks st @ map (Connect kc) childs\<rparr>"
      "api_le (apis st) w" "client_of e (apis st) (local_client e) cd = Some kc" "region_children e (apis st) cd = Some childs"
proof -
  obtain q st1 where q: "at_client (local_client e) (GetKcmRegionChildClusters cd (dcache e)) st = (q, st1)" by fastforce
  then obtain w where w: "st1 = st\<lparr>apis := w\<rparr>" "api_le (apis st) w"
      "GetKcmRegionChildClusters cd (dcache e) (apis st (local_client e)) = (q, w (local_client e))"
    by (rule at_client_frame) (rule reads_region_children)
  show ?thesis
  proof (cases q)
    case (Inl err)
    then show ?thesis using q w fails by (simp add: region_iteration_def)
  next
    case (Inr childs)
    have childs: "region_children e (apis st) cd = Some childs" using children_ok w(3) assms Inr by metis
    obtain r st2 where r: "connect_task e (local_client e) cd st1 = (r, st2)" by fastforce
    have it: "region_iteration e cd st =
        (case r of Inl _ \<Rightarrow> st2 | Inr kc \<Rightarrow> (mark (cd_name cd) st2)\<lparr>tasks := tasks st2 @ map (Connect kc) childs\<rparr>)"
    proof -
      obtain n st3 where n: "at_client (local_client e) (GetKubeconfigSecretName cd) st1 = (n, st3)" by fastforce
      show ?thesis using q Inr r n by (cases n; cases r) (simp_all add: region_iteration_def connect_task_def mark_def Let_def)
    qed
    from r show ?thesis
    proof (cases rule: connect_frame)
      case (fails w' err)
      then show ?thesis using that(1) [of w'] it w by (simp add: api_le_trans)
    next
      case (sends w' kc)
      then show ?thesis using that(2) [of kc childs w'] it w childs by (simp add: api_le_trans mark_def client_le)
    qed
  qed
qed

text \<open>Where no call fails, a cluster with a client is connected, and a region starts its children.\<close>

lemma quiet_connects:
  assumes "api_le w (apis st)" "api_faults (w (local_client e)) = []" "api_faults (w c) = []" "client_of e w c cd = Some kc"
  shows "connect_task e c cd st = (Inr kc, st\<lparr>sent := sent st @ [(cd_name cd, kc)]\<rparr>)"
proof -
  have k: "apis st (local_client e) = w (local_client e)" "apis st c = w c"
    using api_le_quiet [OF assms(1)] assms(2,3) by auto
  obtain name where n: "kubeconfig_secret (w (local_client e)) cd = Some name"
      "secret_client (dconnect e) (w c) (cd_namespace cd) name = Some kc"
    using assms(4) by (auto simp: client_of_def split: option.splits)
  show ?thesis
    using secret_name_quiet [OF assms(2) n(1)] new_client_quiet [OF assms(3) n(2)] k
    by (simp add: connect_task_def createAndSendKubeClient_def at_client_def fun_upd_idem)
qed

lemma quiet_region:
  assumes "api_le w (apis st)" "api_faults (w (local_client e)) = []" "fetched e w"
    and "client_of e w (local_client e) cd = Some kc" "region_children e w cd = Some childs"
  shows "region_iteration e cd st = st\<lparr>sent := sent st @ [(cd_name cd, kc)],
    processed := cd_name cd # processed st, tasks := tasks st @ map (Connect kc) childs\<rparr>"
proof -
  have k: "apis st (local_client e) = w (local_client e)" by (rule api_le_quiet [OF assms(1,2)])
  have "at_client (local_client e) (GetKcmRegionChildClusters cd (dcache e)) st = (Inr childs, st)"
    using children_quiet [OF assms(2,5,3)] k by (simp add: at_client_def fun_upd_idem)
  moreover obtain name where n: "kubeconfig_secret (w (local_client e)) cd = Some name"
      "secret_client (dconnect e) (w (local_client e)) (cd_namespace cd) name = Some kc"
    using assms(4) by (auto simp: client_of_def split: option.splits)
  moreover have "at_client (local_client e) (GetKubeconfigSecretName cd) st = (Inr name, st)"
    using secret_name_quiet [OF assms(2) n(1)] k by (simp add: at_client_def fun_upd_idem)
  moreover have "createAndSendKubeClient e (local_client e) name cd st = (Inr kc, st\<lparr>sent := sent st @ [(cd_name cd, kc)]\<rparr>)"
    using new_client_quiet [OF assms(2) n(2)] k by (simp add: createAndSendKubeClient_def at_client_def fun_upd_idem)
  ultimately show ?thesis by (simp add: region_iteration_def mark_def)
qed

section \<open>Invariant\<close>

definition sent_names :: "'c discovery \<Rightarrow> string set" where
  "sent_names st = fst ` set (sent st)"

fun remaining :: "main_task \<Rightarrow> cluster_deployment list option" where
  "remaining (MRegions cds) = None"
| "remaining (MOthers cds) = Some cds"
| "remaining MDone = Some []"

fun main_clusters :: "main_task \<Rightarrow> cluster_deployment list" where
  "main_clusters (MRegions cds) = cds"
| "main_clusters (MOthers cds) = cds"
| "main_clusters MDone = []"

fun pending_regions :: "main_task \<Rightarrow> cluster_deployment list" where
  "pending_regions (MRegions cds) = cds"
| "pending_regions _ = []"

text \<open>A client that a goroutine may read kubeconfigs through for a deployment.\<close>

definition may_ask :: "'c discovery_env \<Rightarrow> ('c \<Rightarrow> op_api) \<Rightarrow> 'c \<Rightarrow> cluster_deployment \<Rightarrow> bool" where
  "may_ask e w c cd \<longleftrightarrow> cd \<in> set (dclusters e) \<and>
     (c = local_client e \<or>
      (\<exists>region \<in> set (dclusters e). \<exists>l. client_of e w (local_client e) region = Some c \<and>
         region_children e w region = Some l \<and> cd \<in> set l))"

definition disc_inv :: "'c discovery_env \<Rightarrow> ('c \<Rightarrow> op_api) \<Rightarrow> 'c discovery \<Rightarrow> bool" where
  "disc_inv e w st \<longleftrightarrow>
     fetched e w \<and> api_le w (apis st) \<and>
     set (main_clusters (main_at st)) \<subseteq> set (dclusters e) \<and>
     (\<forall>c cd. Connect c cd \<in> set (tasks st) \<longrightarrow> may_ask e w c cd) \<and>
     (\<forall>n kc. (n, kc) \<in> set (sent st) \<longrightarrow> (\<exists>cd \<in> set (dclusters e). cd_name cd = n \<and> genuine e w cd kc)) \<and>
     set (processed st) \<subseteq> sent_names st \<and> (\<forall>n. Store n \<in> set (tasks st) \<longrightarrow> n \<in> sent_names st)"

text \<open>Once the loop has passed a cluster, its client is sent or its goroutine waits.\<close>

definition disc_passed :: "'c discovery_env \<Rightarrow> ('c \<Rightarrow> op_api) \<Rightarrow> 'c discovery \<Rightarrow> bool" where
  "disc_passed e w st \<longleftrightarrow>
     (\<forall>cds cd. remaining (main_at st) = Some cds \<longrightarrow> cd \<in> set (dclusters e) \<longrightarrow> client_of e w (local_client e) cd \<noteq> None \<longrightarrow>
        cd \<in> set cds \<or> cd_name cd \<in> sent_names st \<or> Connect (local_client e) cd \<in> set (tasks st))"

text \<open>The same for a region, with the clients of its children.\<close>

definition region_passed :: "'c discovery_env \<Rightarrow> ('c \<Rightarrow> op_api) \<Rightarrow> 'c discovery \<Rightarrow> 'c \<Rightarrow> cluster_deployment list \<Rightarrow> bool" where
  "region_passed e w st rc l \<longleftrightarrow>
     (\<forall>child \<in> set l. \<forall>kc. api_faults (w rc) = [] \<longrightarrow> client_of e w rc child = Some kc \<longrightarrow>
        Connect rc child \<in> set (tasks st) \<or> (cd_name child, kc) \<in> set (sent st))"

definition regions_passed :: "'c discovery_env \<Rightarrow> ('c \<Rightarrow> op_api) \<Rightarrow> cluster_deployment list \<Rightarrow> 'c discovery \<Rightarrow> bool" where
  "regions_passed e w R st \<longleftrightarrow>
     (\<forall>region \<in> set R. \<forall>rc l. client_of e w (local_client e) region = Some rc \<longrightarrow> region_children e w region = Some l \<longrightarrow>
        region \<in> set (pending_regions (main_at st)) \<or>
        (cd_name region, rc) \<in> set (sent st) \<and> region_passed e w st rc l)"

lemma sent_by: "may_ask e w c cd \<Longrightarrow> client_of e w c cd = Some kc \<Longrightarrow> genuine e w cd kc"
  unfolding may_ask_def genuine_def by blast

lemma region_children_subset: "region_children e w cd = Some l \<Longrightarrow> set l \<subseteq> set (dclusters e) \<and> length l \<le> length (dclusters e)"
  by (auto simp: region_children_def split: option.splits)

lemma disc_step_inv:
  assumes "disc_step e st st'" "disc_inv e w st"
  shows "disc_inv e w st'"
  using assms(1)
proof cases
  case (region cd cds)
  have cache: "fetched e (apis st)" and le: "api_le w (apis st)" and cd: "cd \<in> set (dclusters e)"
    using assms(2) region(2) by (auto simp: disc_inv_def fetched_le [of w "apis st"])
  from cache show ?thesis
  proof (cases rule: region_frame [where cd = cd])
    case (fails w')
    then show ?thesis using assms(2) region by (auto simp: disc_inv_def sent_names_def intro: api_le_trans)
  next
    case (sends w' kc childs)
    have c: "client_of e w (local_client e) cd = Some kc" "region_children e w cd = Some childs"
      using sends(3,4) by (simp_all add: client_le [OF le] children_le [OF le])
    then have "genuine e w cd kc" "\<forall>child \<in> set childs. may_ask e w kc child"
      using cd region_children_subset [OF c(2)] by (auto simp: genuine_def may_ask_def)
    then show ?thesis using assms(2) region sends(1,2) cd by (auto simp: disc_inv_def sent_names_def intro: api_le_trans)
  qed
next
  case (failed us c cd vs err st1)
  from failed(3) show ?thesis
  proof (cases rule: connect_frame)
    case (fails w' err')
    then show ?thesis using assms(2) failed by (auto simp: disc_inv_def sent_names_def intro: api_le_trans)
  qed simp
next
  case (connected us c cd vs kc st1)
  have le: "api_le w (apis st)" and cd: "may_ask e w c cd" using assms(2) connected(2) by (auto simp: disc_inv_def)
  from connected(3) show ?thesis
  proof (cases rule: connect_frame)
    case (sends w' kc')
    have "genuine e w cd kc'" "cd \<in> set (dclusters e)"
      using sends(4) client_le [OF le] sent_by [OF cd] cd by (auto simp: may_ask_def)
    then show ?thesis using assms(2) connected sends(1-3) by (auto simp: disc_inv_def sent_names_def intro: api_le_trans)
  qed simp
next
  case (spawn cd cds)
  then have "may_ask e w (local_client e) cd" using assms(2) by (auto simp: disc_inv_def may_ask_def)
  then show ?thesis using assms(2) spawn by (auto simp: disc_inv_def sent_names_def)
qed (use assms(2) in \<open>auto simp: disc_inv_def sent_names_def mark_def\<close>)

lemma disc_step_passed:
  assumes "disc_step e st st'" "disc_inv e w st" "disc_passed e w st" "api_faults (w (local_client e)) = []"
  shows "disc_passed e w st'"
  using assms(1)
proof cases
  case (region cd cds)
  then show ?thesis by (simp add: disc_passed_def)
next
  case (failed us c cd vs err st1)
  have lost: "\<not> (c = local_client e \<and> client_of e w (local_client e) cd \<noteq> None)"
    using quiet_connects [of w st e "local_client e" cd] assms(2,4) failed(3) by (fastforce simp: disc_inv_def)
  from failed(3) show ?thesis
  proof (cases rule: connect_frame)
    case (fails w' err')
    then show ?thesis using assms(3) failed(1,2) lost unfolding disc_passed_def sent_names_def by fastforce
  qed simp
next
  case (connected us c cd vs kc st1)
  from connected(3) show ?thesis
  proof (cases rule: connect_frame)
    case (sends w' kc')
    then show ?thesis using assms(3) connected(1,2) by (auto simp: disc_passed_def sent_names_def)
  qed simp
next
  case (skip cd cds)
  then show ?thesis using assms(2,3) by (auto simp: disc_passed_def disc_inv_def sent_names_def)
qed (use assms(3) in \<open>auto simp: disc_passed_def sent_names_def mark_def\<close>)

lemma region_passed_mono:
  assumes "region_passed e w st rc l" "set (sent st) \<subseteq> set (sent st')"
    and "\<And>child kc. Connect rc child \<in> set (tasks st) \<Longrightarrow> api_faults (w rc) = [] \<Longrightarrow> client_of e w rc child = Some kc \<Longrightarrow>
      Connect rc child \<in> set (tasks st') \<or> (cd_name child, kc) \<in> set (sent st')"
  shows "region_passed e w st' rc l"
  using assms unfolding region_passed_def by blast

lemma regions_passed_mono:
  assumes "regions_passed e w R st" "set (sent st) \<subseteq> set (sent st')" "pending_regions (main_at st') = pending_regions (main_at st)"
    and "\<And>rc child kc. Connect rc child \<in> set (tasks st) \<Longrightarrow> api_faults (w rc) = [] \<Longrightarrow> client_of e w rc child = Some kc \<Longrightarrow>
      Connect rc child \<in> set (tasks st') \<or> (cd_name child, kc) \<in> set (sent st')"
  shows "regions_passed e w R st'"
proof -
  have "region_passed e w st rc l \<Longrightarrow> region_passed e w st' rc l" for rc l
    using region_passed_mono [OF _ assms(2)] assms(4) by blast
  then show ?thesis using assms(1-3) unfolding regions_passed_def by (metis subsetD)
qed

lemma disc_step_regions:
  assumes "disc_step e st st'" "disc_inv e w st" "regions_passed e w R st" "api_faults (w (local_client e)) = []"
  shows "regions_passed e w R st'"
  using assms(1)
proof cases
  case (region cd cds)
  have inv: "fetched e w" "api_le w (apis st)" "fetched e (apis st)" using assms(2) by (auto simp: disc_inv_def fetched_le [of w "apis st"])
  have sub: "set (sent st) \<subseteq> set (sent st') \<and> set (tasks st) \<subseteq> set (tasks st')"
    using inv(3)
  proof (cases rule: region_frame [where cd = cd])
    case (fails w')
    then show ?thesis unfolding region(1) by simp
  next
    case (sends w' kc childs)
    then show ?thesis unfolding region(1) by auto
  qed
  have "regions_passed e w R (st'\<lparr>main_at := main_at st\<rparr>)"
    by (rule regions_passed_mono [OF assms(3)]) (use sub in auto)
  then have others: "region' \<in> set cds \<or> (cd_name region', rc) \<in> set (sent st') \<and> region_passed e w st' rc l"
    if "region' \<in> set R" "region' \<noteq> cd" "client_of e w (local_client e) region' = Some rc" "region_children e w region' = Some l" for region' rc l
    using that region(2) unfolding regions_passed_def region_passed_def by fastforce
  have "(cd_name cd, rc) \<in> set (sent st') \<and> region_passed e w st' rc l"
    if "client_of e w (local_client e) cd = Some rc" "region_children e w cd = Some l" for rc l
    using quiet_region [OF inv(2) assms(4) inv(1) that] region by (auto simp: region_passed_def)
  with others region show ?thesis unfolding regions_passed_def by fastforce
next
  case (failed us c cd vs err st1)
  have lost: "\<not> (api_faults (w c) = [] \<and> client_of e w c cd \<noteq> None)"
    using quiet_connects [of w st e c cd] assms(2,4) failed(3) by (fastforce simp: disc_inv_def)
  from failed(3) show ?thesis
  proof (cases rule: connect_frame)
    case (fails w' err')
    then show ?thesis using failed(1,2) lost by (intro regions_passed_mono [OF assms(3)]) auto
  qed simp
next
  case (connected us c cd vs kc st1)
  have le: "api_le w (apis st)" using assms(2) by (simp add: disc_inv_def)
  from connected(3) show ?thesis
  proof (cases rule: connect_frame)
    case (sends w' kc')
    then show ?thesis using connected(1,2) by (intro regions_passed_mono [OF assms(3)]) (auto simp: client_le [OF le])
  qed simp
qed (use assms(3) in \<open>auto simp: mark_def elim!: regions_passed_mono\<close>)

section \<open>The end of a run\<close>

fun task_size :: "'c task \<Rightarrow> nat" where
  "task_size (Connect c cd) = 2"
| "task_size (Store n) = 1"

fun main_size :: "nat \<Rightarrow> main_task \<Rightarrow> nat" where
  "main_size n (MRegions cds) = length cds * (2 * n + 1) + 3 * n + 2"
| "main_size n (MOthers cds) = 3 * length cds + 1"
| "main_size n MDone = 0"

definition disc_size :: "'c discovery_env \<Rightarrow> 'c discovery \<Rightarrow> nat" where
  "disc_size e st = main_size (length (dclusters e)) (main_at st) + sum_list (map task_size (tasks st))"

lemma sum_list_const: "sum_list (map (\<lambda>_. n) xs) = n * length xs" for n :: nat
  by (induction xs) auto

lemma disc_step_size:
  assumes "disc_step e st st'" "disc_inv e w st"
  shows "disc_size e st' < disc_size e st"
  using assms(1)
proof cases
  case (region cd cds)
  have "fetched e (apis st)" using assms(2) by (auto simp: disc_inv_def fetched_le [of w "apis st"])
  then show ?thesis
  proof (cases rule: region_frame [where cd = cd])
    case (fails w')
    then show ?thesis using region by (simp add: disc_size_def)
  next
    case (sends w' kc childs)
    have "sum_list (map (task_size \<circ> Connect kc) childs) = 2 * length childs" by (induction childs) auto
    then show ?thesis using region sends(1) region_children_subset [OF sends(4)] by (simp add: disc_size_def)
  qed
next
  case (failed us c cd vs err st1)
  from failed(3) show ?thesis by (cases rule: connect_frame) (use failed(1,2) in \<open>auto simp: disc_size_def\<close>)
next
  case (connected us c cd vs kc st1)
  from connected(3) show ?thesis by (cases rule: connect_frame) (use connected(1,2) in \<open>auto simp: disc_size_def\<close>)
qed (auto simp: disc_size_def mark_def)

text \<open>No run goes on for ever.\<close>

lemma disc_no_infinite_run:
  assumes "disc_inv e w (f 0)"
  shows "\<not> (\<forall>i. disc_step e (f i) (f (Suc i)))"
proof
  assume steps: "\<forall>i. disc_step e (f i) (f (Suc i))"
  have inv: "disc_inv e w (f i)" for i
    by (induction i) (use assms steps disc_step_inv in blast)+
  have "disc_size e (f i) + i \<le> disc_size e (f 0)" for i
  proof (induction i)
    case (Suc i)
    then show ?case using disc_step_size [OF spec [OF steps] inv, of i] by simp
  qed simp
  from this [of "Suc (disc_size e (f 0))"] show False by simp
qed

text \<open>No goroutine waits for another: as long as one is left, one can go on.\<close>

lemma disc_progress: "\<not> disc_final st \<Longrightarrow> \<exists>st'. disc_step e st st'"
proof (cases "tasks st")
  case Nil
  assume "\<not> disc_final st"
  then have "main_at st \<noteq> MDone" using Nil by (simp add: disc_final_def)
  then show ?thesis
  proof (cases "main_at st")
    case (MRegions cds)
    then show ?thesis by (cases cds) (auto intro: disc_step.region disc_step.regions_done)
  next
    case (MOthers cds)
    then show ?thesis by (cases cds) (auto intro: disc_step.skip disc_step.spawn disc_step.others_done)
  qed simp
next
  case (Cons t ts)
  then have t: "tasks st = [] @ t # ts" by simp
  show ?thesis
  proof (cases t)
    case (Connect c cd)
    obtain r st1 where "connect_task e c cd st = (r, st1)" by fastforce
    then show ?thesis using t Connect by (cases r) (blast intro: disc_step.failed disc_step.connected)+
  next
    case (Store n)
    then show ?thesis using t by (blast intro: disc_step.store)
  qed
qed

lemma disc_ends: "disc_inv e w st \<Longrightarrow> \<exists>st'. (disc_step e)\<^sup>*\<^sup>* st st' \<and> disc_final st'"
proof (induction "disc_size e st" arbitrary: st rule: less_induct)
  case less
  show ?case
  proof (cases "disc_final st")
    case False
    then obtain st1 where s: "disc_step e st st1" using disc_progress by blast
    then obtain st' where "(disc_step e)\<^sup>*\<^sup>* st1 st'" "disc_final st'"
      using less.hyps [OF disc_step_size [OF s less.prems] disc_step_inv [OF s less.prems]] by blast
    then show ?thesis using s by (meson converse_rtranclp_into_rtranclp)
  qed blast
qed

lemma disc_run_inv: "(disc_step e)\<^sup>*\<^sup>* st st' \<Longrightarrow> disc_inv e w st \<Longrightarrow> disc_inv e w st'"
  by (induction rule: rtranclp_induct) (auto intro: disc_step_inv)

lemma disc_run_passed:
  assumes "(disc_step e)\<^sup>*\<^sup>* st st'" "disc_inv e w st" "disc_passed e w st" "api_faults (w (local_client e)) = []"
  shows "disc_passed e w st'"
  using assms
proof (induction rule: rtranclp_induct)
  case (step y z)
  then show ?case using disc_run_inv [OF step.hyps(1)] by (blast intro: disc_step_passed)
qed

lemma disc_run_regions:
  assumes "(disc_step e)\<^sup>*\<^sup>* st st'" "disc_inv e w st" "regions_passed e w R st" "api_faults (w (local_client e)) = []"
  shows "regions_passed e w R st'"
  using assms
proof (induction rule: rtranclp_induct)
  case (step y z)
  then show ?case using disc_run_inv [OF step.hyps(1)] by (blast intro: disc_step_regions)
qed

text \<open>The clusters of regions: regional clusters with the label of a KCM region.\<close>

definition region_clusters :: "op_api \<Rightarrow> cluster_deployment list" where
  "region_clusters k = filter (\<lambda>cd. has_label KofClusterRoleLabel ''regional'' (cd_labels cd) \<and>
     has_label KofKcmRegionLabel ''true'' (cd_labels cd)) (deployments k)"

lemma collect_start:
  assumes "collectRemoteClusterKubeClients connect c w = (Some e, st)"
  shows "disc_inv e w st" "disc_passed e w st" "dclusters e = deployments (w c)" "local_client e = c" "dconnect e = connect"
    "api_faults (w c) = [] \<Longrightarrow> regions_passed e w (region_clusters (w c)) st"
proof -
  let ?st = "\<lparr>apis = w, processed = [], sent = [], tasks = [], main_at = MDone\<rparr>"
  obtain q st1 where q: "at_client c fetchClusterData ?st = (q, st1)" by fastforce
  have "reads k (fetchClusterData k)" for k by (auto simp: fetchClusterData_def intro!: reads_rules)
  then obtain w1 where w1: "st1 = ?st\<lparr>apis := w1\<rparr>" "api_le w w1" "fetchClusterData (w c) = (q, w1 c)"
    using at_client_frame [OF q] by (metis discovery.select_convs(1))
  obtain l where l: "q = Inr l" using assms q by (cases q) (auto simp: collectRemoteClusterKubeClients_def)
  obtain regionList credList clusterList where ls: "l = (regionList, credList, clusterList)" by (cases l)
  have cl: "clusterList = deployments (w c)" "regionList = regions (w c)"
    using w1(3) unfolding l ls fetchClusterData_def api_ctx_def and_then_Inr in_context_Inr
    by (auto dest!: api_list_ok)
  obtain r st2 where r: "at_client c GetKcmRegionClusters st1 = (r, st2)" by fastforce
  have "reads k (GetKcmRegionClusters k)" for k by (auto simp: GetKcmRegionClusters_def intro!: reads_rules)
  then obtain w2 where w2: "st2 = st1\<lparr>apis := w2\<rparr>" "api_le w1 w2" "GetKcmRegionClusters (w1 c) = (r, w2 c)"
    using at_client_frame [OF r] w1(1) by (metis discovery.select_convs(1) discovery.update_convs(1))
  have same: "deployments (w1 c) = deployments (w c)" by (rule api_le_objects(2) [OF w1(2)])
  have regs: "set rs \<subseteq> set (deployments (w c))" if "r = Inr rs" for rs
    using w2(3) same by (auto simp: that GetKcmRegionClusters_def GetClusterDeployments_def dest!: api_list_ok)
  have e: "e = \<lparr>dconnect = connect, local_client = c,
        dcache = \<lparr>CachedRegions = Some regionList, CachedCredentials = Some credList, CachedClusters = Some clusterList\<rparr>,
        dclusters = clusterList\<rparr>"
    and st: "st = st2\<lparr>main_at := (case r of Inl _ \<Rightarrow> MOthers clusterList | Inr rs \<Rightarrow> MRegions rs)\<rparr>"
    using assms q l ls r by (cases r; simp add: collectRemoteClusterKubeClients_def Let_def)+
  show "disc_inv e w st" "disc_passed e w st" "dclusters e = deployments (w c)" "local_client e = c" "dconnect e = connect"
    using e st cl w1 w2 regs api_le_trans [OF w1(2) w2(2)]
    by (auto simp: disc_inv_def disc_passed_def sent_names_def fetched_def split: sum.splits)
  show "regions_passed e w (region_clusters (w c)) st" if "api_faults (w c) = []"
  proof -
    have "w1 c = w c" by (rule api_le_quiet [OF w1(2) that])
    then have "r = Inr (region_clusters (w c))"
      using w2(3) that by (auto simp: GetKcmRegionClusters_def GetClusterDeployments_def api_list_def region_clusters_def)
    then show ?thesis using st by (simp add: regions_passed_def)
  qed
qed

text \<open>
  A deployment that can be reached: the management cluster has its kubeconfig, or it is the child of a
  region, the management cluster has the kubeconfig of the region, and the cluster of the region
  answers and has the kubeconfig of the child.
\<close>

definition can_reach :: "'c discovery_env \<Rightarrow> ('c \<Rightarrow> op_api) \<Rightarrow> cluster_deployment \<Rightarrow> bool" where
  "can_reach e w cd \<longleftrightarrow>
     client_of e w (local_client e) cd \<noteq> None \<or>
     (\<exists>region \<in> set (region_clusters (w (local_client e))). \<exists>rc l. client_of e w (local_client e) region = Some rc \<and>
        region_children e w region = Some l \<and> cd \<in> set l \<and> api_faults (w rc) = [] \<and> client_of e w rc cd \<noteq> None)"

lemma discovery_genuine:
  assumes "collectRemoteClusterKubeClients connect c w = (Some e, st)" "(disc_step e)\<^sup>*\<^sup>* st st'" "(name, kc) \<in> set (sent st')"
  shows "\<exists>cd \<in> set (deployments (w c)). cd_name cd = name \<and> genuine e w cd kc"
  using disc_run_inv [OF assms(2) collect_start(1) [OF assms(1)]] assms(3) collect_start(3) [OF assms(1)]
  by (auto simp: disc_inv_def)

lemma regions_found:
  assumes "collectRemoteClusterKubeClients connect c w = (Some e, st)" "api_faults (w c) = []" "(disc_step e)\<^sup>*\<^sup>* st st'" "disc_final st'"
    and "region \<in> set (region_clusters (w c))" "client_of e w c region = Some rc" "region_children e w region = Some l"
  shows "(cd_name region, rc) \<in> set (sent st')"
    "api_faults (w rc) = [] \<Longrightarrow> child \<in> set l \<Longrightarrow> client_of e w rc child = Some kc \<Longrightarrow> (cd_name child, kc) \<in> set (sent st')"
proof -
  note s = collect_start [OF assms(1)]
  have "regions_passed e w (region_clusters (w c)) st'"
    using disc_run_regions [OF assms(3) s(1) s(6) [OF assms(2)]] assms(2) s(4) by simp
  then have "(cd_name region, rc) \<in> set (sent st') \<and> region_passed e w st' rc l"
    using assms(4-7) s(4) unfolding regions_passed_def disc_final_def by fastforce
  then show "(cd_name region, rc) \<in> set (sent st')"
    "api_faults (w rc) = [] \<Longrightarrow> child \<in> set l \<Longrightarrow> client_of e w rc child = Some kc \<Longrightarrow> (cd_name child, kc) \<in> set (sent st')"
    using assms(4) by (auto simp: region_passed_def disc_final_def)
qed

lemma discovery_found:
  assumes "collectRemoteClusterKubeClients connect c w = (Some e, st)" "api_faults (w c) = []" "(disc_step e)\<^sup>*\<^sup>* st st'" "disc_final st'"
    and "cd \<in> set (deployments (w c))" "can_reach e w cd"
  shows "\<exists>kc. (cd_name cd, kc) \<in> set (sent st')"
proof (cases "client_of e w c cd")
  case None
  note s = collect_start [OF assms(1)]
  show ?thesis using assms(6) None regions_found(2) [OF assms(1-4)] s(4) unfolding can_reach_def by fastforce
next
  case (Some kc)
  note s = collect_start [OF assms(1)]
  have "disc_passed e w st'" using disc_run_passed [OF assms(3) s(1,2)] assms(2) s(4) by simp
  then show ?thesis using assms(4,5) Some s(3,4) by (fastforce simp: disc_passed_def disc_final_def sent_names_def)
qed

lemma discovery_ends:
  "collectRemoteClusterKubeClients connect c w = (Some e, st) \<Longrightarrow> (disc_step e)\<^sup>*\<^sup>* st st' \<Longrightarrow>
     \<exists>st''. (disc_step e)\<^sup>*\<^sup>* st' st'' \<and> disc_final st''"
  by (rule disc_ends [OF disc_run_inv [OF _ collect_start(1)]])

lemma discovery_no_infinite_run:
  "collectRemoteClusterKubeClients connect c w = (Some e, st) \<Longrightarrow> f 0 = st \<Longrightarrow> \<not> (\<forall>i. disc_step e (f i) (f (Suc i)))"
  using disc_no_infinite_run collect_start(1) by metis

section \<open>The answer of a metrics handler\<close>

text \<open>
  The clients received by \<open>CollectRemoteMetricsAsync\<close>, in the order of a run, and the maps that
  \<open>GetMetrics\<close> may return for them and the management cluster.
\<close>

definition remote_clients :: "(string \<Rightarrow> string + 'c) \<Rightarrow> 'c \<Rightarrow> ('c \<Rightarrow> op_api) \<Rightarrow> (string \<times> 'c) list \<Rightarrow> bool" where
  "remote_clients connect c w remotes \<longleftrightarrow>
     (case collectRemoteClusterKubeClients connect c w of
        (None, st) \<Rightarrow> remotes = []
      | (Some e, st) \<Rightarrow> \<exists>st'. (disc_step e)\<^sup>*\<^sup>* st st' \<and> disc_final st' \<and> remotes = sent st')"

definition metrics_answer :: "metrics_env \<Rightarrow> ('c \<Rightarrow> pod \<Rightarrow> pod_answers) \<Rightarrow> 'c metrics_config \<Rightarrow> (string \<Rightarrow> string + 'c) \<Rightarrow> string \<Rightarrow> 'c \<Rightarrow>
    ('c \<Rightarrow> op_api) \<Rightarrow> cluster_map \<Rightarrow> bool" where
  "metrics_answer e ans cfg connect managementClusterName c w cm \<longleftrightarrow>
     (\<exists>remotes. remote_clients connect c w remotes \<and> GetMetrics e ans cfg (managementClusterName, c) remotes cm)"

lemma collectors_listed:
  "collect_clusters cfg cs = Some (mss, ts) \<Longrightarrow> (name, c) \<in> set cs \<Longrightarrow> CollectMetrics cfg c name = Some (ms, ss) \<Longrightarrow>
     s \<in> set ss \<Longrightarrow> (c, s) \<in> set ts"
  by (induction cfg cs arbitrary: mss ts rule: collect_clusters.induct) (auto split: option.splits)

lemma pod_shown:
  assumes "GetMetrics e ans cfg management remotes cm" "(name, c) \<in> set (management # remotes)"
    and "CollectMetrics cfg c name = Some (ms, ss)" "s \<in> set ss" "full_address (collector_address s)"
  shows "metrics_at cm (collector_address s) ConditionReadyHealthy \<noteq> []"
proof -
  obtain mss ts l where l: "collect_clusters cfg (management # remotes) = Some (mss, ts)" "interleaving (goroutines e ans (mss, ts)) l"
      "cm = received l"
    using assms(1) by (auto simp: GetMetrics_def)
  have "(c, s) \<in> set ts" by (rule collectors_listed [OF l(1) assms(2-4)])
  then have sub: "set (CollectHealth s) \<subseteq> set l"
    using interleaving_set [OF l(2)] by (fastforce simp: goroutines_def CollectAll_def)
  have "all_values_sent (collector_address s) ConditionReadyHealthy (CollectHealth s) \<noteq> []"
    by (simp add: ready_value [OF refl assms(5)])
  then obtain m where "m \<in> set (CollectHealth s)" "values_sent (collector_address s) ConditionReadyHealthy m \<noteq> []"
    by (auto simp: all_values_sent_def)
  then show ?thesis using sub l(3) by (auto simp: received_metrics all_values_sent_def)
qed

text \<open>Two collectors with one address put their values into one entry.\<close>

lemma same_name_pods_merged:
  assumes "collector_address s = collector_address s'" "full_address (collector_address s)"
  shows "2 \<le> length (metrics_at (received (CollectAll e r s @ CollectAll e r' s')) (collector_address s) ConditionReadyHealthy)"
  using assms ready_value [OF refl assms(2)] ready_value [of "collector_address s" s']
  by (simp add: received_metrics CollectAll_def)

section \<open>Properties of discovery\<close>

text \<open>
  C34: discovery ends under every order of its goroutines: no run goes on for ever and none is stuck before
  all goroutines have ended. Whatever fails, a client that is sent under a name belongs to a deployment of that name:
  it was made from the kubeconfig Secret of that deployment, read from the management cluster or from the cluster of
  its region. When discovery has ended and the calls to the management cluster did not fail, a client has been sent
  under the name of every deployment whose kubeconfig the management cluster has; for every cluster of a region that has
  one, and whose region is found, its own client has been sent; and for every child of that region whose kubeconfig the
  cluster of the region has, its own client, if the calls to the cluster of the region did not fail.
\<close>

theorem remote_clusters_found:
  assumes "collectRemoteClusterKubeClients connect c w = (Some e, st)" "(disc_step e)\<^sup>*\<^sup>* st st'"
  shows "\<not> (\<exists>f. f 0 = st \<and> (\<forall>i. disc_step e (f i) (f (Suc i)))) \<and>
    (\<exists>st''. (disc_step e)\<^sup>*\<^sup>* st' st'' \<and> disc_final st'') \<and>
    (\<forall>(name, kc) \<in> set (sent st'). \<exists>cd \<in> set (deployments (w c)). cd_name cd = name \<and> genuine e w cd kc) \<and>
    (disc_final st' \<and> api_faults (w c) = [] \<longrightarrow>
       (\<forall>cd \<in> set (deployments (w c)). client_of e w c cd \<noteq> None \<longrightarrow> cd_name cd \<in> fst ` set (sent st')) \<and>
       (\<forall>region \<in> set (region_clusters (w c)). \<forall>rc l. client_of e w c region = Some rc \<longrightarrow> region_children e w region = Some l \<longrightarrow>
          (cd_name region, rc) \<in> set (sent st') \<and>
          (api_faults (w rc) = [] \<longrightarrow>
             (\<forall>child \<in> set l. \<forall>kc. client_of e w rc child = Some kc \<longrightarrow> (cd_name child, kc) \<in> set (sent st')))))"
proof -
  have "cd_name cd \<in> fst ` set (sent st')"
    if "api_faults (w c) = []" "disc_final st'" "cd \<in> set (deployments (w c))" "client_of e w c cd \<noteq> None" for cd
    using discovery_found [OF assms(1) that(1) assms(2) that(2,3)] that(4) collect_start(4) [OF assms(1)] by (force simp: can_reach_def)
  moreover have "\<forall>(name, kc) \<in> set (sent st'). \<exists>cd \<in> set (deployments (w c)). cd_name cd = name \<and> genuine e w cd kc"
    using discovery_genuine [OF assms] by blast
  ultimately show ?thesis
    using discovery_no_infinite_run [OF assms(1)] discovery_ends [OF assms] regions_found [OF assms(1) _ assms(2)] by blast
qed


section \<open>Example\<close>

definition ex_remote_cd :: cluster_deployment where
  "ex_remote_cd = \<lparr>cd_namespace = ''kcm'', cd_name = ''r1'', cd_uid = ''u'', cd_labels = [], cd_annotations = [], cd_template = ''aws'',
     cd_credential = ''cred'', cd_config = [], cd_region = [], cd_version = 0\<rparr>"

definition ex_remote_world :: "bool \<Rightarrow> op_api" where
  "ex_remote_world c = \<lparr>api_faults = [], secrets = [(new_secret ''kcm'' ''r1-kubeconfig'')\<lparr>sec_data := [(''value'', ''kc'')]\<rparr>],
     vmusers = [], mcss = [], cms = [], deployments = [ex_remote_cd], templates = [], regions = [], creds = [], groups = [], conns = [],
     pods = [], posted = []\<rparr>"

text \<open>
  The cluster of a region and a child, whose kubeconfig only the cluster of the region has: the
  management cluster is behind the client 0, the region behind 1, the child behind 2.
\<close>

definition ex_member_cd :: cluster_deployment where
  "ex_member_cd = \<lparr>cd_namespace = ''kcm'', cd_name = ''c1'', cd_uid = ''u'', cd_labels = [], cd_annotations = [], cd_template = ''aws'',
     cd_credential = ''cred'', cd_config = [], cd_region = ''eu'', cd_version = 0\<rparr>"

definition ex_region_cd :: cluster_deployment where
  "ex_region_cd = ex_member_cd\<lparr>cd_name := ''r1'', cd_region := [],
     cd_labels := [(KofClusterRoleLabel, ''regional''), (KofKcmRegionLabel, ''true'')]\<rparr>"

definition ex_eu :: kcm_region where
  "ex_eu = \<lparr>rg_name = ''eu'', rg_namespace = ''kcm'', rg_cluster = Some (''kcm'', ''r1''), rg_kubeconfig = None\<rparr>"

definition ex_region_world :: "nat \<Rightarrow> op_api" where
  "ex_region_world c = \<lparr>api_faults = [],
     secrets = (if c = 0 then [(new_secret ''kcm'' ''r1-kubeconfig'')\<lparr>sec_data := [(''value'', ''region'')]\<rparr>]
                else if c = 1 then [(new_secret ''kcm'' ''c1-kubeconfig'')\<lparr>sec_data := [(''value'', ''child'')]\<rparr>] else []),
     vmusers = [], mcss = [], cms = [], deployments = (if c = 0 then [ex_region_cd, ex_member_cd] else []), templates = [],
     regions = (if c = 0 then [ex_eu] else []), creds = [], groups = [], conns = [], pods = [], posted = []\<rparr>"

abbreviation ex_connect :: "string \<Rightarrow> string + nat" where
  "ex_connect t \<equiv> Inr (if t = ''region'' then 1 else 2)"

definition ex_disc :: "nat discovery_env" where
  "ex_disc = \<lparr>dconnect = ex_connect, local_client = 0,
     dcache = \<lparr>CachedRegions = Some [ex_eu], CachedCredentials = Some [], CachedClusters = Some [ex_region_cd, ex_member_cd]\<rparr>,
     dclusters = [ex_region_cd, ex_member_cd]\<rparr>"

definition ex_disc_start :: "nat discovery" where
  "ex_disc_start = \<lparr>apis = ex_region_world, processed = [], sent = [], tasks = [], main_at = MRegions [ex_region_cd]\<rparr>"

lemma ex_disc_starts: "collectRemoteClusterKubeClients ex_connect 0 ex_region_world = (Some ex_disc, ex_disc_start)"
  by (simp add: collectRemoteClusterKubeClients_def at_client_def fetchClusterData_def and_then_def api_ctx_def in_context_def api_list_def
      GetKcmRegionClusters_def GetClusterDeployments_def ex_region_world_def ex_region_cd_def ex_member_cd_def ex_disc_def ex_disc_start_def Let_def
      has_label_def KofClusterRoleLabel_def KofKcmRegionLabel_def fun_eq_iff)

lemma ex_remote_clients:
  "client_of ex_disc ex_region_world 0 ex_region_cd = Some 1" "client_of ex_disc ex_region_world 1 ex_member_cd = Some 2"
  "client_of ex_disc ex_region_world 0 ex_member_cd = None"
  "region_children ex_disc ex_region_world ex_region_cd = Some [ex_member_cd]" "region_clusters (ex_region_world 0) = [ex_region_cd]"
  "api_faults (ex_region_world n) = []" "ex_member_cd \<in> set (deployments (ex_region_world 0))" "local_client ex_disc = 0"
  "distinct (map cd_name (deployments (ex_region_world 0)))"
  by (simp_all add: client_of_def kubeconfig_secret_def secret_client_def region_children_def region_clusters_def ex_disc_def ex_region_world_def
      ex_region_cd_def ex_member_cd_def ex_eu_def find_object_def sec_key_def new_secret_def GetSecretValue_def get_str_def
      has_label_def KofClusterRoleLabel_def KofKcmRegionLabel_def)

lemma ex_can_reach: "can_reach ex_disc ex_region_world ex_member_cd"
  using ex_remote_clients by (auto simp: can_reach_def)

theorem remote_clusters_found_witness:
  "\<exists>st. (disc_step ex_disc)\<^sup>*\<^sup>* ex_disc_start st \<and> disc_final st \<and> (''r1'', 1) \<in> set (sent st) \<and> (''c1'', 2) \<in> set (sent st)"
proof -
  have names: "cd_name ex_region_cd = ''r1''" "cd_name ex_member_cd = ''c1''" by (simp_all add: ex_region_cd_def ex_member_cd_def)
  obtain st where st: "(disc_step ex_disc)\<^sup>*\<^sup>* ex_disc_start st" "disc_final st"
    using remote_clusters_found [OF ex_disc_starts rtranclp.rtrancl_refl] by blast
  then show ?thesis
    using remote_clusters_found [OF ex_disc_starts st(1)] ex_remote_clients names by auto
qed

lemma ex_metrics_answer:
  "\<exists>cm. metrics_answer ex_metrics_env (\<lambda>_ _. ex_pod_answers) (newVictoriaHandler w) ex_connect ''mothership'' 0 ex_region_world cm"
  if "list_pods w = (\<lambda>_ _. Inr [ex_metrics_pod])" for w :: "nat cluster_answers"
proof -
  obtain st where st: "(disc_step ex_disc)\<^sup>*\<^sup>* ex_disc_start st" "disc_final st"
    using discovery_ends [OF ex_disc_starts rtranclp.rtrancl_refl] by blast
  have one: "CollectMetrics (newVictoriaHandler w) c n \<noteq> None" for c n
    using that by (simp add: CollectMetrics_def newVictoriaHandler_def GetVictoriaResources_def NewVictoriaResource_def
        victoria_logs_pod_def ex_metrics_pod_def get_str_def pod_collector_def)
  have "collect_clusters (newVictoriaHandler w) cs \<noteq> None" for cs
  proof (induction cs)
    case (Cons nc cs)
    then show ?case using one [of "snd nc" "fst nc"] by (cases nc) (auto split: option.split)
  qed simp
  then obtain r where "collect_clusters (newVictoriaHandler w) ((''mothership'', 0) # sent st) = Some r" by blast
  then obtain cm where "GetMetrics ex_metrics_env (\<lambda>_ _. ex_pod_answers) (newVictoriaHandler w) (''mothership'', 0) (sent st) cm"
    using GetMetrics_returns by blast
  moreover have "remote_clients ex_connect 0 ex_region_world (sent st)"
    using st by (auto simp: remote_clients_def ex_disc_starts)
  ultimately show ?thesis unfolding metrics_answer_def by blast
qed


end
