(* ===== verification/Mesh.thy ===== *)
theory Mesh
  imports Remote_Clusters
begin

text \<open>
  The Istio mesh as the web server shows it (\<open>istio_mesh_handler.go\<close>, \<open>istio_endpoints_handler.go\<close>,
  \<open>istio_remote_secrets_handler.go\<close>, \<open>types.go\<close> in \<open>kof-operator/internal/server/handlers\<close>): the graph of clusters and
  remote secrets, the endpoints a cluster sees in other clusters, and the state of remote secrets.

  One goroutine per cluster adds nodes and links with \<open>LoadOrStore\<close>, which is atomic: the goroutines are
  lists of such operations and \<open>interleaving\<close> gives their orders. Parameters (\<open>mesh_env\<close>): the debug
  interface of istiod, whose answer is a map from its pods to texts, the JSON decoder, and the value of
  \<open>model.Healthy\<close>. The API calls of the goroutine with index \<open>i\<close> have a plan of faults of their own.
\<close>

section \<open>Types\<close>

record mesh_node =
  NodeID :: string
  NodeName :: string
  NodeNamespace :: string
  NodeRole :: string

record mesh_link =
  Source :: string
  Target :: string
  LinkSecret :: string

record mesh_graph =
  Nodes :: "mesh_node list"
  Links :: "mesh_link list"

record debug_info =
  InfoID :: string
  InfoSecretName :: string
  SyncStatus :: string

record mesh_endpoint =
  Addresses :: "string list"
  EpServiceAccount :: string
  EndpointPort :: int
  EpNamespace :: string
  EpWorkloadName :: string
  HealthStatus :: int

record namespace_entry =
  Shards :: "mesh_endpoint list gomap"

type_synonym istio_mesh = "namespace_entry gomap gomap"

record service_endpoint =
  ServiceFQDN :: string
  SvcNamespace :: string
  WorkloadName :: string
  SvcAddresses :: "string list"
  SvcPort :: int
  ServiceAccount :: string
  Healthy :: bool

record connected_cluster =
  ClusterID :: string
  Services :: "service_endpoint list"

record cluster_connectivity =
  SourceCluster :: string
  SourceClusterNamespace :: string
  ConnectedClusters :: "connected_cluster list"

record cluster_endpoints =
  EpCluster :: string
  Endpoints :: cluster_connectivity

record remote_secret =
  RSName :: string
  RSNamespace :: string
  RSStatus :: string
  RSCluster :: string

record 'c mesh_env =
  mconnect :: "string \<Rightarrow> string + 'c"
  cli_client :: "'c \<Rightarrow> string option"
  discovery_do :: "'c \<Rightarrow> string \<Rightarrow> string + string gomap"
  unmarshal_infos :: "string \<Rightarrow> string + debug_info list"
  unmarshal_mesh :: "string \<Rightarrow> string + istio_mesh"
  model_healthy :: int
  fault_plan :: "nat \<Rightarrow> string option list"

text \<open>\<open>strings.SplitN(s, "/", 2)\<close>: \<open>None\<close> is the list with one part.\<close>

definition split_slash :: "string \<Rightarrow> (string \<times> string) option" where
  "split_slash s =
     (case dropWhile (\<lambda>c. c \<noteq> CHR ''/'') s of [] \<Rightarrow> None | _ # t \<Rightarrow> Some (takeWhile (\<lambda>c. c \<noteq> CHR ''/'') s, t))"

section \<open>The identity of the management cluster\<close>

fun find_cluster_id :: "pod list \<Rightarrow> string" where
  "find_cluster_id [] = []"
| "find_cluster_id (p # ps) =
     (case find (\<lambda>env. fst env = ''CLUSTER_ID'') (concat (map ctr_env (Containers p))) of
        Some env \<Rightarrow> snd env
      | None \<Rightarrow> find_cluster_id ps)"

definition discoverIstioClusterIDUncached :: "op_api \<Rightarrow> (op_error + string) \<times> op_api" where
  "discoverIstioClusterIDUncached k =
     and_then (api_ctx ''failed to get Istio pods'' (GetPods ''istio-system'' (has_label ''app'' ''istiod'') k))
       (\<lambda>ps k.
          (if length ps = 0 then Inl (OpText ''no Istio pods found'')
           else if find_cluster_id ps = [] then Inl (OpText ''no Istio pods found with CLUSTER_ID'')
           else Inr (find_cluster_id ps), k))"

text \<open>The cache is a string, empty as long as nothing was found.\<close>

definition discoverIstioClusterID :: "string \<Rightarrow> op_api \<Rightarrow> (op_error + string) \<times> string \<times> op_api" where
  "discoverIstioClusterID cache k =
     (if cache \<noteq> [] then (Inr cache, cache, k)
      else (case discoverIstioClusterIDUncached k of
          (Inl err, k) \<Rightarrow> (Inl err, cache, k)
        | (Inr clusterID, k) \<Rightarrow> (Inr clusterID, clusterID, k)))"

section \<open>The graph\<close>

datatype mesh_op = AddNode mesh_node | AddLink mesh_link

definition LoadOrStore :: "string \<Rightarrow> 'v \<Rightarrow> 'v gomap \<Rightarrow> 'v gomap" where
  "LoadOrStore key v m = (case map_of m key of None \<Rightarrow> map_set key v m | Some _ \<Rightarrow> m)"

definition edge_key :: "mesh_link \<Rightarrow> string" where
  "edge_key l = Source l @ ''->'' @ Target l"

definition mesh_node_of :: "string \<Rightarrow> string \<Rightarrow> string \<Rightarrow> mesh_node" where
  "mesh_node_of ident namespace role = \<lparr>NodeID = ident, NodeName = ident, NodeNamespace = namespace, NodeRole = role\<rparr>"

definition addMeshNode :: "string \<Rightarrow> string \<Rightarrow> string \<Rightarrow> mesh_op" where
  "addMeshNode ident namespace role = AddNode (mesh_node_of ident namespace role)"

definition meshClusterRole :: "cluster_deployment \<Rightarrow> string" where
  "meshClusterRole cd = (case map_of (cd_labels cd) KofClusterRoleLabel of Some role \<Rightarrow> role | None \<Rightarrow> ''child'')"

definition info_link :: "string \<Rightarrow> debug_info \<Rightarrow> mesh_op list" where
  "info_link sourceCluster info =
     (if InfoSecretName info = [] then []
      else if InfoID info = [] \<or> InfoID info = sourceCluster then []
      else [AddLink \<lparr>Source = sourceCluster, Target = InfoID info,
              LinkSecret = (case split_slash (InfoSecretName info) of Some (_, name) \<Rightarrow> name | None \<Rightarrow> InfoSecretName info)\<rparr>])"

definition data_links :: "'c mesh_env \<Rightarrow> string \<Rightarrow> string \<Rightarrow> mesh_op list" where
  "data_links e sourceCluster data =
     (case unmarshal_infos e data of Inl err \<Rightarrow> [] | Inr infos \<Rightarrow> concat (map (info_link sourceCluster) infos))"

definition collectLinksFromCluster :: "'c mesh_env \<Rightarrow> 'c \<Rightarrow> string \<Rightarrow> op_error + mesh_op list" where
  "collectLinksFromCluster e c sourceCluster =
     (case cli_client e c of
        Some err \<Rightarrow> Inl (OpContext ''failed to create Istio CLI client'' (OpText err))
      | None \<Rightarrow>
          (case discovery_do e c ''debug/clusterz'' of
             Inl err \<Rightarrow> Inl (OpContext ''istio AllDiscoveryDo'' (OpText err))
           | Inr results \<Rightarrow> Inr (concat (map (data_links e sourceCluster \<circ> snd) results))))"

text \<open>What a goroutine adds: an error is only logged.\<close>

definition links_of :: "'c mesh_env \<Rightarrow> 'c \<Rightarrow> string \<Rightarrow> mesh_op list" where
  "links_of e c sourceCluster = (case collectLinksFromCluster e c sourceCluster of Inl err \<Rightarrow> [] | Inr ops \<Rightarrow> ops)"

definition cluster_ops :: "'c mesh_env \<Rightarrow> op_api \<Rightarrow> nat \<Rightarrow> cluster_deployment \<Rightarrow> mesh_op list" where
  "cluster_ops e k i cd =
     addMeshNode (cd_name cd) (cd_namespace cd) (meshClusterRole cd) #
     (case fst (NewKubeClientFromClusterDeployment (mconnect e) cd (k\<lparr>api_faults := fault_plan e i\<rparr>)) of
        Inl err \<Rightarrow> []
      | Inr c \<Rightarrow> links_of e c (cd_name cd))"

definition mesh_goroutines :: "'c mesh_env \<Rightarrow> op_api \<Rightarrow> cluster_deployment list \<Rightarrow> mesh_op list list" where
  "mesh_goroutines e k cds = map (\<lambda>(i, cd). cluster_ops e k i cd) (List.enumerate 0 cds)"

definition apply_op :: "mesh_op \<Rightarrow> mesh_node gomap \<times> mesh_link gomap \<Rightarrow> mesh_node gomap \<times> mesh_link gomap" where
  "apply_op x g =
     (case x of
        AddNode n \<Rightarrow> (LoadOrStore (NodeID n) n (fst g), snd g)
      | AddLink l \<Rightarrow> (fst g, LoadOrStore (edge_key l) l (snd g)))"

text \<open>\<open>buildMeshGraph\<close>: the results it may have, with the identity of the cluster kept in the cache.\<close>

inductive buildMeshGraph :: "'c mesh_env \<Rightarrow> 'c \<Rightarrow> string \<Rightarrow> op_api \<Rightarrow> op_error + mesh_graph \<Rightarrow> string \<Rightarrow> bool" for e c cache k where
  no_id: "discoverIstioClusterID cache k = (Inl err, cache', k1) \<Longrightarrow>
    buildMeshGraph e c cache k (Inl (OpContext ''failed to discover Istio cluster ID'' err)) cache'"
| no_list: "discoverIstioClusterID cache k = (Inr clusterID, cache', k1) \<Longrightarrow> GetIstioClusterDeployments k1 = (Inl err, k2) \<Longrightarrow>
    buildMeshGraph e c cache k (Inl (OpContext ''failed to list ClusterDeployments'' (OpApi err))) cache'"
| graph: "discoverIstioClusterID cache k = (Inr clusterID, cache', k1) \<Longrightarrow> GetIstioClusterDeployments k1 = (Inr cds, k2) \<Longrightarrow>
    interleaving (mesh_goroutines e k2 cds) ops \<Longrightarrow>
    (nodes, links) = fold apply_op (addMeshNode clusterID [] ''management'' # links_of e c clusterID @ ops) ([], []) \<Longrightarrow>
    buildMeshGraph e c cache k (Inr \<lparr>Nodes = map snd nodes, Links = map snd links\<rparr>) cache'"

inductive_cases graph_built: "buildMeshGraph e c cache k (Inr g) cache'"

section \<open>Endpoints\<close>

definition ShardKeyToClusterID :: "string \<Rightarrow> string" where
  "ShardKeyToClusterID shardKey = (case split_slash shardKey of Some (_, ident) \<Rightarrow> ident | None \<Rightarrow> shardKey)"

definition service_endpoint_of :: "'c mesh_env \<Rightarrow> string \<Rightarrow> mesh_endpoint \<Rightarrow> service_endpoint" where
  "service_endpoint_of e fqdn ep =
     \<lparr>ServiceFQDN = fqdn, SvcNamespace = EpNamespace ep, WorkloadName = EpWorkloadName ep, SvcAddresses = Addresses ep,
      SvcPort = EndpointPort ep, ServiceAccount = EpServiceAccount ep, Healthy = (model_healthy e = HealthStatus ep)\<rparr>"

fun add_endpoints :: "'c mesh_env \<Rightarrow> string \<Rightarrow> string \<Rightarrow> mesh_endpoint list \<Rightarrow> service_endpoint list gomap \<Rightarrow> service_endpoint list gomap" where
  "add_endpoints e fqdn clusterID [] byCluster = byCluster"
| "add_endpoints e fqdn clusterID (ep # eps) byCluster =
     add_endpoints e fqdn clusterID eps
       (map_set clusterID ((case map_of byCluster clusterID of None \<Rightarrow> [] | Some l \<Rightarrow> l) @ [service_endpoint_of e fqdn ep]) byCluster)"

definition add_shard :: "'c mesh_env \<Rightarrow> string \<Rightarrow> string \<Rightarrow> string \<times> mesh_endpoint list \<Rightarrow> service_endpoint list gomap \<Rightarrow> service_endpoint list gomap" where
  "add_shard e sourceCluster fqdn shard byCluster =
     (let clusterID = ShardKeyToClusterID (fst shard) in
      if clusterID = sourceCluster then byCluster else add_endpoints e fqdn clusterID (snd shard) byCluster)"

definition by_cluster :: "'c mesh_env \<Rightarrow> string \<Rightarrow> istio_mesh \<Rightarrow> service_endpoint list gomap" where
  "by_cluster e sourceCluster mesh =
     fold (\<lambda>(fqdn, nsMap). fold (\<lambda>(_, entry). fold (add_shard e sourceCluster fqdn) (Shards entry)) nsMap) mesh []"

definition BuildClusterConnectivity :: "'c mesh_env \<Rightarrow> string \<Rightarrow> string \<Rightarrow> istio_mesh \<Rightarrow> cluster_connectivity" where
  "BuildClusterConnectivity e sourceCluster sourceClusterNamespace mesh =
     \<lparr>SourceCluster = sourceCluster, SourceClusterNamespace = sourceClusterNamespace,
      ConnectedClusters = map (\<lambda>(ident, svcs). \<lparr>ClusterID = ident, Services = svcs\<rparr>) (by_cluster e sourceCluster mesh)\<rparr>"

definition merge_answer :: "'c mesh_env \<Rightarrow> string \<Rightarrow> istio_mesh \<Rightarrow> istio_mesh" where
  "merge_answer e data merged = (case unmarshal_mesh e data of Inl err \<Rightarrow> merged | Inr entries \<Rightarrow> map_copy merged entries)"

definition collectEndpointsFromCluster :: "'c mesh_env \<Rightarrow> 'c \<Rightarrow> string \<Rightarrow> string \<Rightarrow> op_error + cluster_endpoints" where
  "collectEndpointsFromCluster e c clusterName clusterNamespace =
     (case cli_client e c of
        Some err \<Rightarrow> Inl (OpContext ''failed to create Istio CLI client'' (OpText err))
      | None \<Rightarrow>
          (case discovery_do e c ''debug/endpointz'' of
             Inl err \<Rightarrow> Inl (OpContext ''istio AllDiscoveryDo endpointz'' (OpText err))
           | Inr results \<Rightarrow>
               let merged = fold (merge_answer e \<circ> snd) results [] in
               Inr \<lparr>EpCluster = clusterName, Endpoints = BuildClusterConnectivity e clusterName clusterNamespace merged\<rparr>))"

definition getIstioEndpoints :: "'c mesh_env \<Rightarrow> 'c \<Rightarrow> string \<Rightarrow> string \<Rightarrow> string \<Rightarrow> op_api \<Rightarrow>
    (op_error + cluster_endpoints list) \<times> string \<times> op_api" where
  "getIstioEndpoints e c clusterName clusterNamespace cache k =
     (case discoverIstioClusterID cache k of
        (Inl err, cache, k) \<Rightarrow> (Inl (OpContext ''failed to discover Istio cluster ID'' err), cache, k)
      | (Inr clusterID, cache, k) \<Rightarrow>
          (case
             (if clusterName = clusterID then (Inr c, k)
              else if clusterNamespace = [] then (Inl (OpText ''missing required query parameter: namespace''), k)
              else (case GetClusterDeployment clusterName clusterNamespace k of
                  (Inl NotFound, k) \<Rightarrow> (Inl (OpText ''cluster not found in namespace''), k)
                | (Inl err, k) \<Rightarrow> (Inl (OpContext ''failed to get ClusterDeployment for cluster'' (OpApi err)), k)
                | (Inr cd, k) \<Rightarrow>
                    in_context (OpContext ''failed to create kube client for cluster'')
                      (NewKubeClientFromClusterDeployment (mconnect e) cd k)))
           of
             (Inl err, k) \<Rightarrow> (Inl err, cache, k)
           | (Inr kubeClient, k) \<Rightarrow>
               (case collectEndpointsFromCluster e kubeClient clusterName clusterNamespace of
                  Inl err \<Rightarrow> (Inl (OpContext ''failed to collect Istio endpoints for cluster'' err), cache, k)
                | Inr ce \<Rightarrow> (Inr [ce], cache, k))))"

section \<open>Remote secrets\<close>

definition secret_of_info :: "debug_info \<Rightarrow> remote_secret list" where
  "secret_of_info info =
     (if InfoSecretName info = [] then []
      else (case split_slash (InfoSecretName info) of
          None \<Rightarrow> []
        | Some (namespace, name) \<Rightarrow>
            [\<lparr>RSName = name, RSNamespace = namespace, RSStatus = SyncStatus info, RSCluster = InfoID info\<rparr>]))"

fun ParseIstioSecretsStatus :: "'c mesh_env \<Rightarrow> string gomap \<Rightarrow> remote_secret list \<Rightarrow> op_error + remote_secret list" where
  "ParseIstioSecretsStatus e [] result = Inr result"
| "ParseIstioSecretsStatus e ((_, bytes) # rest) result =
     (case unmarshal_infos e bytes of
        Inl err \<Rightarrow> Inl (OpContext ''failed to parse istio cluster statuses'' (OpText err))
      | Inr infos \<Rightarrow> ParseIstioSecretsStatus e rest (result @ concat (map secret_of_info infos)))"

section \<open>What is stored first stays\<close>

definition store_all :: "('v \<Rightarrow> string) \<Rightarrow> 'v list \<Rightarrow> 'v gomap \<Rightarrow> 'v gomap" where
  "store_all key xs m = fold (\<lambda>x. LoadOrStore (key x) x) xs m"

lemma LoadOrStore_set: "wf_map m \<Longrightarrow> set (LoadOrStore k v m) = (if k \<in> fst ` set m then set m else insert (k, v) (set m))"
proof -
  have new: "k \<notin> fst ` set m \<Longrightarrow> map_set k v m = m @ [(k, v)]" by (induction m) auto
  have "map_of m k = None \<longleftrightarrow> k \<notin> fst ` set m" by (simp add: map_of_eq_None_iff)
  then show ?thesis using new by (auto simp: LoadOrStore_def split: option.split)
qed

lemma LoadOrStore_wf [simp]: "wf_map m \<Longrightarrow> wf_map (LoadOrStore k v m)"
  by (simp add: LoadOrStore_def split: option.split)

lemma store_all_simps [simp]:
  "store_all key [] m = m" "store_all key (x # xs) m = store_all key xs (LoadOrStore (key x) x m)"
  by (simp_all add: store_all_def)

lemma store_all_wf: "wf_map m \<Longrightarrow> wf_map (store_all key xs m)"
  by (induction xs arbitrary: m) simp_all

lemma store_all_keys: "wf_map m \<Longrightarrow> fst ` set (store_all key xs m) = fst ` set m \<union> key ` set xs"
  by (induction xs arbitrary: m) (auto simp: LoadOrStore_set)

lemma store_all_values: "wf_map m \<Longrightarrow> (k, v) \<in> set (store_all key xs m) \<Longrightarrow> (k, v) \<in> set m \<or> v \<in> set xs \<and> k = key v"
proof (induction xs arbitrary: m)
  case (Cons x xs)
  then show ?case using Cons.IH [of "LoadOrStore (key x) x m"] by (auto simp: LoadOrStore_set split: if_splits)
qed simp

fun op_nodes :: "mesh_op list \<Rightarrow> mesh_node list" where
  "op_nodes [] = []"
| "op_nodes (AddNode n # ops) = n # op_nodes ops"
| "op_nodes (AddLink l # ops) = op_nodes ops"

fun op_links :: "mesh_op list \<Rightarrow> mesh_link list" where
  "op_links [] = []"
| "op_links (AddNode n # ops) = op_links ops"
| "op_links (AddLink l # ops) = l # op_links ops"

lemma fold_apply_op: "fold apply_op ops (m, n) = (store_all NodeID (op_nodes ops) m, store_all edge_key (op_links ops) n)"
  by (induction ops arbitrary: m n rule: op_nodes.induct) (auto simp: apply_op_def)

lemma set_op_nodes: "set (op_nodes ops) = {n. AddNode n \<in> set ops}"
  by (induction ops rule: op_nodes.induct) auto

lemma set_op_links: "set (op_links ops) = {l. AddLink l \<in> set ops}"
  by (induction ops rule: op_links.induct) auto

lemma store_all_snd:
  assumes "m = store_all key xs []"
  shows "distinct (map key (map snd m))" "key ` snd ` set m = key ` set xs" "snd ` set m \<subseteq> set xs"
proof -
  have wf: "wf_map m" using store_all_wf [of "[]"] assms by simp
  have at: "v \<in> set xs \<and> k = key v" if "(k, v) \<in> set m" for k v using store_all_values [of "[]" k v key xs] assms that by simp
  then have "map key (map snd m) = map fst m" by (auto simp: map_eq_conv)
  then show "distinct (map key (map snd m))" using wf by (simp only: wf_map_def)
  show "snd ` set m \<subseteq> set xs" using at by auto
  have "key ` snd ` set m = fst ` set m" using at by (force simp: image_iff)
  then show "key ` snd ` set m = key ` set xs" using store_all_keys [of "[]" key xs] assms by simp
qed

lemma store_all_pairs:
  assumes "m = store_all key xs []" "\<And>x y. x \<in> set xs \<Longrightarrow> y \<in> set xs \<Longrightarrow> f x = f y \<longleftrightarrow> key x = key y"
  shows "distinct (map f (map snd m))" "f ` snd ` set m = f ` set xs"
proof -
  note s = store_all_snd [OF assms(1)]
  have key: "distinct (map snd m)" "inj_on key (set (map snd m))" using s(1) unfolding distinct_map [of key] by blast+
  have sub: "set (map snd m) \<subseteq> set xs" using s(3) by simp
  have "inj_on f (set (map snd m))"
  proof (rule inj_onI)
    fix x y
    assume xy: "x \<in> set (map snd m)" "y \<in> set (map snd m)" "f x = f y"
    then have "key x = key y" using assms(2) sub by blast
    then show "x = y" by (rule inj_onD [OF key(2) _ xy(1,2)])
  qed
  then show "distinct (map f (map snd m))" using key(1) unfolding distinct_map [of f] by blast
  show "f ` snd ` set m = f ` set xs"
  proof
    show "f ` set xs \<subseteq> f ` snd ` set m"
    proof
      fix y
      assume "y \<in> f ` set xs"
      then obtain x where x: "x \<in> set xs" "y = f x" by blast
      then obtain x' where "x' \<in> snd ` set m" "key x' = key x" using s(2) by (metis imageE imageI)
      then show "y \<in> f ` snd ` set m" using x s(3) assms(2) by (metis image_eqI subsetD)
    qed
  qed (use s(3) in blast)
qed

lemma edge_key_inject:
  assumes "edge_key l = edge_key l'" "CHR ''>'' \<notin> set (Source l)" "CHR ''>'' \<notin> set (Source l')"
  shows "Source l = Source l' \<and> Target l = Target l'"
proof -
  have "takeWhile (\<lambda>c. c \<noteq> CHR ''>'') (s @ ''->'' @ t) = s @ ''-''" if "CHR ''>'' \<notin> set s" for s t
    using that by (induction s) auto
  then have "Source l @ ''-'' = Source l' @ ''-''"
    using assms unfolding edge_key_def by metis
  then show ?thesis using assms(1) by (simp add: edge_key_def)
qed

section \<open>What istiod reports\<close>

definition reports :: "'c mesh_env \<Rightarrow> 'c \<Rightarrow> string \<Rightarrow> string \<Rightarrow> bool" where
  "reports e c s t \<longleftrightarrow>
     cli_client e c = None \<and>
     (\<exists>results pod data infos info. discovery_do e c ''debug/clusterz'' = Inr results \<and> (pod, data) \<in> set results \<and>
        unmarshal_infos e data = Inr infos \<and> info \<in> set infos \<and> InfoSecretName info \<noteq> [] \<and> InfoID info = t \<and> t \<noteq> [] \<and> t \<noteq> s)"

lemma links_of_nodes: "AddNode n \<notin> set (links_of e c s)"
  by (auto simp: links_of_def collectLinksFromCluster_def data_links_def info_link_def split: option.splits sum.splits if_splits)

lemma links_of_reports:
  "(\<exists>l. AddLink l \<in> set (links_of e c s) \<and> Source l = s' \<and> Target l = t) \<longleftrightarrow> s' = s \<and> reports e c s t"
proof -
  have info: "(\<exists>l. AddLink l \<in> set (info_link s i) \<and> Source l = s' \<and> Target l = t) \<longleftrightarrow>
      s' = s \<and> InfoSecretName i \<noteq> [] \<and> InfoID i = t \<and> t \<noteq> [] \<and> t \<noteq> s" for i
    by (auto simp: info_link_def)
  have data: "(\<exists>l. AddLink l \<in> set (data_links e s d) \<and> Source l = s' \<and> Target l = t) \<longleftrightarrow>
      s' = s \<and> (\<exists>infos i. unmarshal_infos e d = Inr infos \<and> i \<in> set infos \<and> InfoSecretName i \<noteq> [] \<and> InfoID i = t \<and> t \<noteq> [] \<and> t \<noteq> s)" for d
  proof (cases "unmarshal_infos e d")
    case (Inr infos)
    have "(\<exists>l. AddLink l \<in> set (data_links e s d) \<and> Source l = s' \<and> Target l = t) \<longleftrightarrow>
        (\<exists>i \<in> set infos. \<exists>l. AddLink l \<in> set (info_link s i) \<and> Source l = s' \<and> Target l = t)"
      using Inr by (auto simp: data_links_def)
    then show ?thesis unfolding info using Inr by auto
  qed (simp add: data_links_def)
  show ?thesis
  proof (cases "cli_client e c = None \<and> (\<exists>r. discovery_do e c ''debug/clusterz'' = Inr r)")
    case True
    then obtain r where r: "cli_client e c = None" "discovery_do e c ''debug/clusterz'' = Inr r" by blast
    then have "links_of e c s = concat (map (data_links e s \<circ> snd) r)" by (simp add: links_of_def collectLinksFromCluster_def)
    then have "(\<exists>l. AddLink l \<in> set (links_of e c s) \<and> Source l = s' \<and> Target l = t) \<longleftrightarrow>
        (\<exists>x \<in> set r. \<exists>l. AddLink l \<in> set (data_links e s (snd x)) \<and> Source l = s' \<and> Target l = t)" by auto
    also have "\<dots> \<longleftrightarrow> s' = s \<and> reports e c s t" unfolding data using r by (auto simp: reports_def Bex_def)
    finally show ?thesis .
  next
    case False
    then show ?thesis by (auto simp: links_of_def collectLinksFromCluster_def reports_def split: option.splits sum.splits)
  qed
qed

section \<open>The graph for every order of the goroutines\<close>

text \<open>The clients of the graph: the management cluster's own, and one for each member that has a kubeconfig.\<close>

definition mesh_client :: "'c mesh_env \<Rightarrow> op_api \<Rightarrow> nat \<Rightarrow> cluster_deployment \<Rightarrow> 'c \<Rightarrow> bool" where
  "mesh_client e k i cd kc \<longleftrightarrow>
     fst (NewKubeClientFromClusterDeployment (mconnect e) cd (k\<lparr>api_faults := fault_plan e i\<rparr>)) = Inr kc"

definition mesh_edge :: "'c mesh_env \<Rightarrow> 'c \<Rightarrow> string \<Rightarrow> op_api \<Rightarrow> cluster_deployment list \<Rightarrow> string \<Rightarrow> string \<Rightarrow> bool" where
  "mesh_edge e c clusterID k cds s t \<longleftrightarrow>
     s = clusterID \<and> reports e c s t \<or>
     (\<exists>i kc. i < length cds \<and> s = cd_name (cds ! i) \<and> mesh_client e k i (cds ! i) kc \<and> reports e kc s t)"

lemma cluster_ops_links:
  "(\<exists>l. AddLink l \<in> set (cluster_ops e k i cd) \<and> Source l = s \<and> Target l = t) \<longleftrightarrow>
     s = cd_name cd \<and> (\<exists>kc. mesh_client e k i cd kc \<and> reports e kc s t)"
proof (cases "fst (NewKubeClientFromClusterDeployment (mconnect e) cd (k\<lparr>api_faults := fault_plan e i\<rparr>))")
  case (Inl err)
  then show ?thesis by (simp add: cluster_ops_def addMeshNode_def mesh_client_def)
next
  case (Inr kc)
  then show ?thesis
    using links_of_reports [of e kc "cd_name cd" s t] by (auto simp: cluster_ops_def addMeshNode_def mesh_client_def)
qed

lemma cluster_ops_nodes:
  "AddNode n \<in> set (cluster_ops e k i cd) \<longleftrightarrow> AddNode n = addMeshNode (cd_name cd) (cd_namespace cd) (meshClusterRole cd)"
  using links_of_nodes [of n e] by (auto simp: cluster_ops_def split: sum.split)

lemma mesh_goroutines_set:
  "(\<Union>t \<in> set (mesh_goroutines e k cds). set t) = (\<Union>i \<in> {..<length cds}. set (cluster_ops e k i (cds ! i)))"
  by (force simp: mesh_goroutines_def in_set_enumerate_eq image_iff)

text \<open>
  C36: whatever the order of the goroutines, the graph has the management cluster and every member once,
  and one link for each pair of clusters where an istiod of the first reports a remote secret for the
  second; no cluster is linked to itself. Cluster names do not contain the character that the
  operator puts between them.
\<close>

theorem mesh_graph_exact:
  assumes "buildMeshGraph e c cache k (Inr g) cache'"
    and "discoverIstioClusterID cache k = (Inr clusterID, cache', k1)" "GetIstioClusterDeployments k1 = (Inr cds, k2)"
    and "CHR ''>'' \<notin> set clusterID" "\<forall>cd \<in> set cds. CHR ''>'' \<notin> set (cd_name cd)"
  shows "distinct (map NodeID (Nodes g)) \<and> NodeID ` set (Nodes g) = insert clusterID (cd_name ` set cds) \<and>
    distinct (map (\<lambda>l. (Source l, Target l)) (Links g)) \<and>
    {(Source l, Target l) |l. l \<in> set (Links g)} = {(s, t). mesh_edge e c clusterID k2 cds s t}"
proof -
  obtain ops nodes links where ops: "interleaving (mesh_goroutines e k2 cds) ops"
      "(nodes, links) = fold apply_op (addMeshNode clusterID [] ''management'' # links_of e c clusterID @ ops) ([], [])"
      and g: "g = \<lparr>Nodes = map snd nodes, Links = map snd links\<rparr>"
    using assms(1-3) by (auto elim!: graph_built)
  let ?all = "addMeshNode clusterID [] ''management'' # links_of e c clusterID @ ops"
  have nodes: "nodes = store_all NodeID (op_nodes ?all) []" and links: "links = store_all edge_key (op_links ?all) []"
    using ops(2) unfolding fold_apply_op by blast+
  have all: "set ?all = insert (addMeshNode clusterID [] ''management'')
      (set (links_of e c clusterID) \<union> (\<Union>i \<in> {..<length cds}. set (cluster_ops e k2 i (cds ! i))))"
    using interleaving_set [OF ops(1)] by (simp add: mesh_goroutines_set)
  have "set (op_nodes ?all) = insert (mesh_node_of clusterID [] ''management'')
      ((\<lambda>i. mesh_node_of (cd_name (cds ! i)) (cd_namespace (cds ! i)) (meshClusterRole (cds ! i))) ` {..<length cds})"
    unfolding set_op_nodes all using links_of_nodes [of _ e c clusterID] by (auto simp: cluster_ops_nodes addMeshNode_def)
  moreover have "cd_name ` set cds = (\<lambda>i. cd_name (cds ! i)) ` {..<length cds}" by (auto simp: set_conv_nth)
  ultimately have "NodeID ` set (op_nodes ?all) = insert clusterID (cd_name ` set cds)" by (simp add: image_image mesh_node_of_def)
  then have N: "distinct (map NodeID (Nodes g))" "NodeID ` set (Nodes g) = insert clusterID (cd_name ` set cds)"
    using store_all_snd [OF nodes] g by (simp_all add: image_image)
  have edges: "(\<exists>l \<in> set (op_links ?all). Source l = s \<and> Target l = t) \<longleftrightarrow> mesh_edge e c clusterID k2 cds s t" for s t
  proof -
    have "(\<exists>l \<in> set (op_links ?all). Source l = s \<and> Target l = t) \<longleftrightarrow>
        (\<exists>l. AddLink l \<in> set (links_of e c clusterID) \<and> Source l = s \<and> Target l = t) \<or>
        (\<exists>i < length cds. \<exists>l. AddLink l \<in> set (cluster_ops e k2 i (cds ! i)) \<and> Source l = s \<and> Target l = t)"
      unfolding set_op_links all by (auto simp: addMeshNode_def)
    then show ?thesis unfolding links_of_reports cluster_ops_links mesh_edge_def by auto
  qed
  have sources: "CHR ''>'' \<notin> set (Source l)" if "l \<in> set (op_links ?all)" for l
    using edges [of "Source l" "Target l"] that assms(4,5) nth_mem by (auto simp: mesh_edge_def)
  have inj: "(Source l, Target l) = (Source l', Target l') \<longleftrightarrow> edge_key l = edge_key l'"
    if "l \<in> set (op_links ?all)" "l' \<in> set (op_links ?all)" for l l'
    using edge_key_inject [of l l'] sources that by (auto simp: edge_key_def)
  then have "distinct (map (\<lambda>l. (Source l, Target l)) (map snd links))"
      "(\<lambda>l. (Source l, Target l)) ` snd ` set links = (\<lambda>l. (Source l, Target l)) ` set (op_links ?all)"
    using store_all_pairs [OF links, of "\<lambda>l. (Source l, Target l)"] by simp_all
  moreover have "(\<lambda>l. (Source l, Target l)) ` set (op_links ?all) = {(s, t). mesh_edge e c clusterID k2 cds s t}"
    unfolding edges [symmetric] by force
  ultimately have "distinct (map (\<lambda>l. (Source l, Target l)) (Links g))"
      "(\<lambda>l. (Source l, Target l)) ` set (Links g) = {(s, t). mesh_edge e c clusterID k2 cds s t}"
    using g by simp_all
  then show ?thesis using N by (simp add: setcompr_eq_image)
qed

section \<open>Endpoints, all and only\<close>

text \<open>The endpoints of a cluster in the order in which the maps are visited.\<close>

definition endpoints_of :: "'c mesh_env \<Rightarrow> istio_mesh \<Rightarrow> string \<Rightarrow> service_endpoint list" where
  "endpoints_of e mesh ident =
     concat (map (\<lambda>(fqdn, nsMap). concat (map (\<lambda>(_, entry). concat (map (\<lambda>(key, eps).
       if ShardKeyToClusterID key = ident then map (service_endpoint_of e fqdn) eps else []) (Shards entry))) nsMap)) mesh)"

definition listed :: "service_endpoint list gomap \<Rightarrow> string \<Rightarrow> service_endpoint list" where
  "listed m ident = (case map_of m ident of None \<Rightarrow> [] | Some l \<Rightarrow> l)"

definition no_empty :: "'v list gomap \<Rightarrow> bool" where
  "no_empty m \<longleftrightarrow> wf_map m \<and> (\<forall>ident. map_of m ident \<noteq> Some [])"

lemma add_endpoints_listed:
  "listed (add_endpoints e fqdn cid eps m) ident = listed m ident @ (if ident = cid then map (service_endpoint_of e fqdn) eps else [])"
  by (induction e fqdn cid eps m rule: add_endpoints.induct) (auto simp: listed_def)

lemma add_endpoints_no_empty: "no_empty m \<Longrightarrow> no_empty (add_endpoints e fqdn cid eps m)"
  by (induction e fqdn cid eps m rule: add_endpoints.induct) (auto simp: no_empty_def split: if_splits)

lemma fold_listed:
  assumes "\<And>x m. listed (f x m) ident = listed m ident @ h x"
  shows "listed (fold f xs m) ident = listed m ident @ concat (map h xs)"
  by (induction xs arbitrary: m) (simp_all add: assms)

lemma fold_no_empty: "(\<And>x m. no_empty m \<Longrightarrow> no_empty (f x m)) \<Longrightarrow> no_empty m \<Longrightarrow> no_empty (fold f xs m)"
  by (induction xs arbitrary: m) auto

lemma add_shard_listed:
  "ident \<noteq> src \<Longrightarrow> listed (add_shard e src fqdn sh m) ident =
     listed m ident @ (case sh of (key, eps) \<Rightarrow> if ShardKeyToClusterID key = ident then map (service_endpoint_of e fqdn) eps else [])"
  by (auto simp: add_shard_def Let_def add_endpoints_listed split: prod.split)

lemma add_shard_source: "listed (add_shard e src fqdn sh m) src = listed m src"
  by (simp add: add_shard_def Let_def add_endpoints_listed)

lemma add_shard_no_empty: "no_empty m \<Longrightarrow> no_empty (add_shard e src fqdn sh m)"
  by (simp add: add_shard_def Let_def add_endpoints_no_empty)

lemma by_cluster_listed: "ident \<noteq> src \<Longrightarrow> listed (by_cluster e src mesh) ident = endpoints_of e mesh ident"
  unfolding by_cluster_def endpoints_of_def
  by (subst fold_listed, auto simp: listed_def [of "[]"] split: prod.split intro!: fold_listed) (auto simp: add_shard_listed)

lemma by_cluster_source: "listed (by_cluster e src mesh) src = []"
proof -
  have "listed (fold (\<lambda>(fqdn, nsMap). fold (\<lambda>(_, entry). fold (add_shard e src fqdn) (Shards entry)) nsMap) mesh m) src = listed m src" for m
    using fold_listed [where h = "\<lambda>_. []"] by (simp add: fold_listed [where h = "\<lambda>_. []"] add_shard_source split: prod.split)
  then show ?thesis by (simp add: by_cluster_def listed_def)
qed

lemma by_cluster_no_empty: "no_empty (by_cluster e src mesh)"
  unfolding by_cluster_def
  by (rule fold_no_empty) (auto intro!: fold_no_empty add_shard_no_empty simp: no_empty_def [of "[]"] split: prod.split)

text \<open>
  C37: a connectivity answer lists every endpoint of another cluster exactly once, under the cluster that
  its shard names and with the health istiod gives, clusters without endpoints and the cluster that is
  asked for are not listed, and no cluster is listed twice.
\<close>

theorem connectivity_exact:
  "let cs = ConnectedClusters (BuildClusterConnectivity e source namespace mesh) in
     distinct (map ClusterID cs) \<and>
     (\<forall>ident svcs. \<lparr>ClusterID = ident, Services = svcs\<rparr> \<in> set cs \<longleftrightarrow> ident \<noteq> source \<and> svcs = endpoints_of e mesh ident \<and> svcs \<noteq> [])"
proof -
  let ?m = "by_cluster e source mesh"
  have wf: "wf_map ?m" and ne: "\<And>ident. map_of ?m ident \<noteq> Some []" using by_cluster_no_empty [of e source mesh] by (simp_all add: no_empty_def)
  have at: "map_of ?m ident = Some svcs \<longleftrightarrow> ident \<noteq> source \<and> svcs = endpoints_of e mesh ident \<and> svcs \<noteq> []" for ident svcs
    using by_cluster_listed [of ident source e mesh] by_cluster_source [of e source mesh] ne [of ident]
    by (cases "ident = source") (auto simp: listed_def split: option.splits)
  have "map ClusterID (ConnectedClusters (BuildClusterConnectivity e source namespace mesh)) = map fst ?m"
    by (simp add: BuildClusterConnectivity_def case_prod_unfold)
  moreover have "\<lparr>ClusterID = ident, Services = svcs\<rparr> \<in> set (ConnectedClusters (BuildClusterConnectivity e source namespace mesh)) \<longleftrightarrow>
      (ident, svcs) \<in> set ?m" for ident svcs
    by (force simp: BuildClusterConnectivity_def)
  ultimately show ?thesis using wf at by (simp add: Let_def wf_map_mem) (simp add: wf_map_def)
qed

section \<open>Secrets\<close>

text \<open>Secrets are listed once for every replica of istiod that reports them.\<close>

lemma parse_secrets:
  assumes "\<forall>(pod, data) \<in> set answers. unmarshal_infos e data = Inr (f data)"
  shows "ParseIstioSecretsStatus e answers result =
     Inr (result @ concat (map (\<lambda>(pod, data). concat (map secret_of_info (f data))) answers))"
  using assms by (induction e answers result rule: ParseIstioSecretsStatus.induct) auto

lemma secrets_repeated:
  assumes "unmarshal_infos e data = Inr infos"
  shows "ParseIstioSecretsStatus e [(a, data), (b, data)] [] =
     Inr (concat (map secret_of_info infos) @ concat (map secret_of_info infos))"
  using assms by simp

section \<open>Example\<close>

lemma buildMeshGraph_returns:
  assumes "discoverIstioClusterID cache k = (Inr clusterID, cache', k1)" "GetIstioClusterDeployments k1 = (Inr cds, k2)"
  shows "\<exists>g. buildMeshGraph e c cache k (Inr g) cache'"
proof -
  obtain ops where "interleaving (mesh_goroutines e k2 cds) ops" using interleaving_exists by blast
  moreover obtain nodes links where
    "(nodes, links) = fold apply_op (addMeshNode clusterID [] ''management'' # links_of e c clusterID @ ops) ([], [])"
    by (metis surj_pair)
  ultimately show ?thesis using assms by (blast intro: graph)
qed

definition ex_mesh_env :: "bool mesh_env" where
  "ex_mesh_env = \<lparr>mconnect = (\<lambda>_. Inr True), cli_client = (\<lambda>_. None), discovery_do = (\<lambda>_ _. Inr [(''istiod-0'', ''data'')]),
     unmarshal_infos = (\<lambda>_. Inr [\<lparr>InfoID = ''r1'', InfoSecretName = ''istio-system/s1'', SyncStatus = ''synced''\<rparr>]),
     unmarshal_mesh = (\<lambda>_. Inl ''bad''), model_healthy = 1, fault_plan = (\<lambda>_. [])\<rparr>"

definition ex_mesh_api :: op_api where
  "ex_mesh_api = (ex_remote_world False)\<lparr>deployments := [ex_remote_cd\<lparr>cd_labels := [(IstioRoleLabel, ''member'')]\<rparr>]\<rparr>"

lemma ex_mesh_calls:
  "discoverIstioClusterID ''mothership'' ex_mesh_api = (Inr ''mothership'', ''mothership'', ex_mesh_api)"
  "GetIstioClusterDeployments ex_mesh_api = (Inr [ex_remote_cd\<lparr>cd_labels := [(IstioRoleLabel, ''member'')]\<rparr>], ex_mesh_api)"
  by (simp_all add: discoverIstioClusterID_def GetIstioClusterDeployments_def GetClusterDeployments_def api_list_def ex_mesh_api_def
      ex_remote_world_def has_label_def)

theorem mesh_graph_exact_witness:
  "\<exists>g. buildMeshGraph ex_mesh_env False ''mothership'' ex_mesh_api (Inr g) ''mothership'' \<and>
     NodeID ` set (Nodes g) = {''mothership'', ''r1''} \<and> (\<exists>l \<in> set (Links g). Source l = ''mothership'' \<and> Target l = ''r1'')"
proof -
  let ?cd = "ex_remote_cd\<lparr>cd_labels := [(IstioRoleLabel, ''member'')]\<rparr>"
  obtain g where g: "buildMeshGraph ex_mesh_env False ''mothership'' ex_mesh_api (Inr g) ''mothership''"
    using buildMeshGraph_returns [OF ex_mesh_calls, of ex_mesh_env False] by blast
  have "NodeID ` set (Nodes g) = insert ''mothership'' (cd_name ` set [?cd])"
    and links: "{(Source l, Target l) |l. l \<in> set (Links g)} = {(s, t). mesh_edge ex_mesh_env False ''mothership'' ex_mesh_api [?cd] s t}"
    using mesh_graph_exact [OF g ex_mesh_calls] by (simp_all add: ex_remote_cd_def)
  moreover have "mesh_edge ex_mesh_env False ''mothership'' ex_mesh_api [?cd] ''mothership'' ''r1''"
    by (simp add: mesh_edge_def reports_def ex_mesh_env_def)
  then have "(''mothership'', ''r1'') \<in> {(Source l, Target l) |l. l \<in> set (Links g)}" unfolding links by simp
  then have "\<exists>l \<in> set (Links g). Source l = ''mothership'' \<and> Target l = ''r1''" by auto
  ultimately show ?thesis using g by (intro exI [of _ g]) (simp add: ex_remote_cd_def)
qed

end
