(* ===== verification/Web.thy ===== *)
theory Web
  imports Acl_Server Mesh
begin

text \<open>
  The web server of the operator: the Prometheus targets of all clusters (\<open>prometheus_handler.go\<close> and
  \<open>internal/models/target\<close>), Kubernetes objects as a map (\<open>k8s_objects\<close>), the static files of the web
  application (\<open>react_app_handler.go\<close>), the handlers around the components of \<open>Remote_Clusters\<close> and
  \<open>Mesh\<close>, and the routes of \<open>cmd/main.go\<close>.

  The clusters are a function from clients to their APIs. Parameters: the answers of pods, the JSON
  decoders and encoder, the file system of the application, \<open>http.ServeContent\<close>.
\<close>

section \<open>Targets\<close>

text \<open>Clusters, their nodes and the answers of pods: nested maps.\<close>

type_synonym 'r targets = "'r gomap gomap gomap"

definition FindOrCreate :: "string \<Rightarrow> ('v gomap \<Rightarrow> 'v gomap) \<Rightarrow> 'v gomap gomap \<Rightarrow> 'v gomap gomap" where
  "FindOrCreate name f m =
     (case map_of m name of Some entry \<Rightarrow> map_set name (f entry) m | None \<Rightarrow> map_set name (f []) m)"

definition AddPodResponse :: "string \<Rightarrow> string \<Rightarrow> string \<Rightarrow> 'r \<Rightarrow> 'r targets \<Rightarrow> 'r targets" where
  "AddPodResponse clusterName nodeName podName podResponse t =
     FindOrCreate clusterName (FindOrCreate nodeName (map_set podName podResponse)) t"

definition Merge :: "'r targets \<Rightarrow> 'r targets \<Rightarrow> 'r targets" where
  "Merge t target = (if length target > 0 then map_copy t target else t)"

record ('c, 'r) targets_env =
  tconnect :: "string \<Rightarrow> string + 'c"
  tanswers :: "'c \<Rightarrow> pod \<Rightarrow> pod_answers"
  unmarshal_targets :: "string \<Rightarrow> string + 'r"

definition PrometheusReceiverLabel :: string where "PrometheusReceiverLabel = ''k0rdent.mirantis.com/kof-prometheus-receiver''"

definition getPrometheusPort :: "pod \<Rightarrow> op_error + string" where
  "getPrometheusPort p =
     (case map_of (pod_annotations p) ''kof.k0rdent.mirantis.com/prometheus-api-server-port'' of
        Some port \<Rightarrow> Inr port
      | None \<Rightarrow> ExtractContainerPort p ''otc-container'' ''api-server'')"

text \<open>The answer of one pod; every error is logged and the pod is left out.\<close>

definition pod_response :: "('c, 'r) targets_env \<Rightarrow> 'c \<Rightarrow> pod \<Rightarrow> 'r option" where
  "pod_response e c p =
     (case getPrometheusPort p of
        Inl err \<Rightarrow> None
      | Inr port \<Rightarrow>
          (case Proxy (tanswers e c p) p port ''api/v1/targets'' of
             Inl err \<Rightarrow> None
           | Inr bytes \<Rightarrow> (case unmarshal_targets e bytes of Inl err \<Rightarrow> None | Inr r \<Rightarrow> Some r)))"

fun collect_pod_targets :: "('c, 'r) targets_env \<Rightarrow> 'c \<Rightarrow> string \<Rightarrow> pod list \<Rightarrow> 'r targets \<Rightarrow> 'r targets" where
  "collect_pod_targets e c clusterName [] t = t"
| "collect_pod_targets e c clusterName (p # ps) t =
     collect_pod_targets e c clusterName ps
       (case pod_response e c p of
          None \<Rightarrow> t
        | Some r \<Rightarrow> AddPodResponse clusterName (pod_node p) (pod_name p) r t)"

text \<open>A call through a client.\<close>

definition on_client :: "'c \<Rightarrow> (op_api \<Rightarrow> 'a \<times> op_api) \<Rightarrow> ('c \<Rightarrow> op_api) \<Rightarrow> 'a \<times> ('c \<Rightarrow> op_api)" where
  "on_client c f w = (case f (w c) of (r, k) \<Rightarrow> (r, w(c := k)))"

definition receiver_pod :: "pod \<Rightarrow> bool" where
  "receiver_pod p \<longleftrightarrow> map_of (pod_labels p) PrometheusReceiverLabel \<noteq> None"

definition collectPrometheusTargets :: "('c, 'r) targets_env \<Rightarrow> 'c \<Rightarrow> string \<Rightarrow> ('c \<Rightarrow> op_api) \<Rightarrow> (op_error + 'r targets) \<times> ('c \<Rightarrow> op_api)" where
  "collectPrometheusTargets e c clusterName w =
     (case on_client c (api_list pods receiver_pod) w of
        (Inl err, w) \<Rightarrow> (Inl (OpContext ''failed to list pods'' (OpApi err)), w)
      | (Inr ps, w) \<Rightarrow> (Inr (collect_pod_targets e c clusterName ps []), w))"

text \<open>One cluster of the loop of \<open>collectClusterDeploymentsTargets\<close>.\<close>

definition deployment_targets :: "('c, 'r) targets_env \<Rightarrow> 'c \<Rightarrow> cluster_deployment \<Rightarrow> 'r targets \<times> ('c \<Rightarrow> op_api) \<Rightarrow> 'r targets \<times> ('c \<Rightarrow> op_api)" where
  "deployment_targets e local cd s =
     (case s of (t, w) \<Rightarrow>
       (case on_client local (GetKubeconfigSecretName cd) w of
          (Inl err, w) \<Rightarrow> (t, w)
        | (Inr secretName, w) \<Rightarrow>
            (case on_client local (NewKubeClientFromSecret (tconnect e) secretName (cd_namespace cd)) w of
               (Inl err, w) \<Rightarrow> (t, w)
             | (Inr client, w) \<Rightarrow>
                 (case collectPrometheusTargets e client (cd_name cd) w of
                    (Inl err, w) \<Rightarrow> (t, w)
                  | (Inr newTargets, w) \<Rightarrow> (Merge t newTargets, w)))))"

definition collectClusterDeploymentsTargets :: "('c, 'r) targets_env \<Rightarrow> 'c \<Rightarrow> 'r targets \<Rightarrow> ('c \<Rightarrow> op_api) \<Rightarrow> 'r targets \<times> ('c \<Rightarrow> op_api)" where
  "collectClusterDeploymentsTargets e local t w =
     (case on_client local GetKofClusterDeployments w of
        (Inl err, w) \<Rightarrow> (t, w)
      | (Inr cds, w) \<Rightarrow> fold (deployment_targets e local) cds (t, w))"

definition collectLocalTargets :: "('c, 'r) targets_env \<Rightarrow> 'c \<Rightarrow> string \<Rightarrow> 'r targets \<times> ('c \<Rightarrow> op_api) \<Rightarrow> 'r targets \<times> ('c \<Rightarrow> op_api)" where
  "collectLocalTargets e local managementClusterName s =
     (case s of (t, w) \<Rightarrow>
       (case collectPrometheusTargets e local managementClusterName w of
          (Inl err, w) \<Rightarrow> (t, w)
        | (Inr localTargets, w) \<Rightarrow> (Merge t localTargets, w)))"

definition prometheus_targets :: "('c, 'r) targets_env \<Rightarrow> 'c \<Rightarrow> string \<Rightarrow> ('c \<Rightarrow> op_api) \<Rightarrow> 'r targets" where
  "prometheus_targets e local managementClusterName w =
     fst (collectLocalTargets e local managementClusterName (collectClusterDeploymentsTargets e local [] w))"

section \<open>Objects\<close>

definition GetResourcePath :: "string \<Rightarrow> string \<Rightarrow> string \<Rightarrow> string" where
  "GetResourcePath clusterName namespace name =
     (if namespace = [] then clusterName @ ''/'' @ name else clusterName @ ''/'' @ namespace @ ''/'' @ name)"

text \<open>An item of a list: its namespace and name, and the object without managed fields.\<close>

record 'o item =
  it_namespace :: string
  it_name :: string
  it_object :: 'o

definition getObjectPath :: "string \<Rightarrow> 'o item \<Rightarrow> string" where
  "getObjectPath clusterName obj = GetResourcePath clusterName (it_namespace obj) (it_name obj)"

text \<open>\<open>GetObjectsMap\<close>; an item that is not a \<open>client.Object\<close> is \<open>None\<close>.\<close>

fun each_item :: "string \<Rightarrow> 'o item option list \<Rightarrow> 'o item gomap \<Rightarrow> op_error + 'o item gomap" where
  "each_item clusterName [] m = Inr m"
| "each_item clusterName (None # os) m =
     Inl (OpContext ''failed to iterate over list items'' (OpText ''object is not a client.Object''))"
| "each_item clusterName (Some obj # os) m = each_item clusterName os (map_set (getObjectPath clusterName obj) obj m)"

definition GetObjectsMap :: "('c \<Rightarrow> op_error + 'o item option list) \<Rightarrow> 'c \<Rightarrow> string \<Rightarrow> op_error + 'o item gomap" where
  "GetObjectsMap objects c clusterName =
     (case objects c of
        Inl err \<Rightarrow> Inl (OpContext ''failed to get objects list'' err)
      | Inr os \<Rightarrow> each_item clusterName os [])"

definition region_summaries :: "(string \<Rightarrow> string + 'c) \<Rightarrow> ('c \<Rightarrow> op_error + 'o item option list) \<Rightarrow> cluster_deployment \<Rightarrow>
    'o item gomap \<times> op_api \<Rightarrow> 'o item gomap \<times> op_api" where
  "region_summaries connect objects cd s =
     (case s of (m, k) \<Rightarrow>
       (case NewKubeClientFromClusterDeployment connect cd k of
          (Inl err, k) \<Rightarrow> (m, k)
        | (Inr client, k) \<Rightarrow>
            (case GetObjectsMap objects client (cd_name cd) of
               Inl err \<Rightarrow> (m, k)
             | Inr r \<Rightarrow> (map_copy m r, k))))"

definition cluster_summaries :: "(string \<Rightarrow> string + 'c) \<Rightarrow> ('c \<Rightarrow> op_error + 'o item option list) \<Rightarrow> 'c \<Rightarrow> string \<Rightarrow> op_api \<Rightarrow>
    op_error + 'o item gomap" where
  "cluster_summaries connect objects local managementClusterName k =
     (case GetObjectsMap objects local managementClusterName of
        Inl err \<Rightarrow> Inl err
      | Inr m \<Rightarrow>
          (case GetKcmRegionClusters k of
             (Inl err, k) \<Rightarrow> Inl (OpApi err)
           | (Inr regionClusters, k) \<Rightarrow> Inr (fst (fold (region_summaries connect objects) regionClusters (m, k)))))"

section \<open>Static files\<close>

text \<open>\<open>path.Clean\<close>: the parts of a path without empty ones and dots, two dots taking one part back.\<close>

fun clean_parts :: "bool \<Rightarrow> string list \<Rightarrow> string list \<Rightarrow> string list" where
  "clean_parts rooted [] out = rev out"
| "clean_parts rooted (p # ps) out =
     (if p = [] \<or> p = ''.'' then clean_parts rooted ps out
      else if p = ''..'' then
        (case out of
           q # qs \<Rightarrow> if q = ''..'' then clean_parts rooted ps (''..'' # out) else clean_parts rooted ps qs
         | [] \<Rightarrow> clean_parts rooted ps (if rooted then [] else [''..'']))
      else clean_parts rooted ps (p # out))"

definition path_Clean :: "string \<Rightarrow> string" where
  "path_Clean p =
     (let rooted = has_prefix p ''/''; out = join ''/'' (clean_parts rooted (split_on (CHR ''/'') p) []) in
      if rooted then CHR ''/'' # out else if out = [] then ''.'' else out)"

datatype 'f open_result = NotExist | OpenErr string | StatErr string | Directory | File 'f

definition getContentType :: "string \<Rightarrow> string" where
  "getContentType path =
     (if has_suffix path ''.html'' then ''text/html''
      else if has_suffix path ''.css'' then ''text/css''
      else if has_suffix path ''.js'' then ''application/javascript''
      else if has_suffix path ''.json'' then ''application/json''
      else if has_suffix path ''.png'' then ''image/png''
      else if has_suffix path ''.jpg'' \<or> has_suffix path ''.jpeg'' then ''image/jpeg''
      else if has_suffix path ''.svg'' then ''image/svg+xml''
      else if has_suffix path ''.ico'' then ''image/x-icon''
      else ''text/plain'')"

definition ReactAppMainFile :: string where "ReactAppMainFile = ''index.html''"

text \<open>The file that is opened: the main file stands in for files that do not exist.\<close>

definition open_static :: "(string \<Rightarrow> 'f open_result) \<Rightarrow> string \<Rightarrow> string \<times> 'f open_result" where
  "open_static fs path =
     (let filePath = trim_prefix (path_Clean path) ''/''; filePath = (if filePath = [] then ReactAppMainFile else filePath) in
      case fs filePath of
        NotExist \<Rightarrow> (ReactAppMainFile, fs ReactAppMainFile)
      | r \<Rightarrow> (filePath, r))"

definition serveStaticFile :: "(request \<Rightarrow> 'f \<Rightarrow> 'p response \<Rightarrow> 'p response) \<Rightarrow> (string \<Rightarrow> 'f open_result) \<Rightarrow> 'p response \<Rightarrow> request \<Rightarrow>
    'p response" where
  "serveStaticFile serve fs res req =
     (case open_static fs (request.Path req) of
        (filePath, File f) \<Rightarrow> serve req f (SetContentType (getContentType filePath) res)
      | _ \<Rightarrow> res)"

definition ReactAppHandler :: "(request \<Rightarrow> 'f \<Rightarrow> 'p response \<Rightarrow> 'p response) \<Rightarrow> (string \<Rightarrow> 'f open_result) \<Rightarrow> 'p handler" where
  "ReactAppHandler serve fs res req =
     (if has_prefix (request.Path req) ''/api/'' then NotFoundHandler res req else Done (serveStaticFile serve fs res req))"

section \<open>Handlers\<close>

definition BasicInternalErrorMessage :: string where "BasicInternalErrorMessage = ''Something went wrong''"

text \<open>\<open>mk\<close> is the answer as an object, \<open>encodes\<close> says whether it can be encoded.\<close>

definition PrometheusHandler :: "('p \<Rightarrow> bool) \<Rightarrow> ('r targets \<Rightarrow> 'p) \<Rightarrow> ('c, 'r) targets_env \<Rightarrow> string + 'c \<Rightarrow> string \<Rightarrow> ('c \<Rightarrow> op_api) \<Rightarrow> 'p handler" where
  "PrometheusHandler encodes mk e newClient managementClusterName w res req =
     (case newClient of
        Inl err \<Rightarrow> Done (Fail BasicInternalErrorMessage 500 res)
      | Inr local \<Rightarrow> Done (SendObj encodes (mk (prometheus_targets e local managementClusterName w)) 200 res))"

definition answer_or_fail :: "('p \<Rightarrow> bool) \<Rightarrow> ('a \<Rightarrow> 'p) \<Rightarrow> op_error + 'a \<Rightarrow> 'p response \<Rightarrow> 'p outcome" where
  "answer_or_fail encodes mk r res =
     (case r of
        Inl err \<Rightarrow> Done (Fail BasicInternalErrorMessage 500 res)
      | Inr x \<Rightarrow> Done (SendObj encodes (mk x) 200 res))"

definition K8sObjectsHandler :: "('p \<Rightarrow> bool) \<Rightarrow> ('o item gomap \<Rightarrow> 'p) \<Rightarrow> ('c \<Rightarrow> op_error + 'o item option list) \<Rightarrow> 'c \<Rightarrow> string \<Rightarrow> 'p handler" where
  "K8sObjectsHandler encodes mk objects local managementClusterName res req =
     answer_or_fail encodes mk (GetObjectsMap objects local managementClusterName) res"

definition ClusterSummariesHandler :: "('p \<Rightarrow> bool) \<Rightarrow> ('o item gomap \<Rightarrow> 'p) \<Rightarrow> (string \<Rightarrow> string + 'c) \<Rightarrow> ('c \<Rightarrow> op_error + 'o item option list) \<Rightarrow>
    'c \<Rightarrow> string \<Rightarrow> op_api \<Rightarrow> 'p handler" where
  "ClusterSummariesHandler encodes mk connect objects local managementClusterName k res req =
     answer_or_fail encodes mk (cluster_summaries connect objects local managementClusterName k) res"

definition IstioMeshEndpointsHandler :: "('p \<Rightarrow> bool) \<Rightarrow> (cluster_endpoints list \<Rightarrow> 'p) \<Rightarrow> 'c mesh_env \<Rightarrow> 'c \<Rightarrow> string \<Rightarrow> op_api \<Rightarrow> 'p handler" where
  "IstioMeshEndpointsHandler encodes mk e local cache k res req =
     (let q = Query (ReqRawQuery req); clusterNamespace = Values_Get q ''namespace''; clusterName = Values_Get q ''cluster'' in
      if clusterName = [] then Done (Fail ''missing required query parameter: cluster'' 400 res)
      else answer_or_fail encodes mk (fst (getIstioEndpoints e local clusterName clusterNamespace cache k)) res)"

definition IstioRemoteSecretsHandler :: "('p \<Rightarrow> bool) \<Rightarrow> (remote_secret list \<Rightarrow> 'p) \<Rightarrow> 'c mesh_env \<Rightarrow> 'c \<Rightarrow> 'p handler" where
  "IstioRemoteSecretsHandler encodes mk e local res req =
     (case cli_client e local of
        Some err \<Rightarrow> Done (http_Error ''Something went wrong'' 500 res)
      | None \<Rightarrow>
          (case discovery_do e local ''debug/clusterz'' of
             Inl err \<Rightarrow> Done (http_Error ''Something went wrong'' 500 res)
           | Inr istioRes \<Rightarrow>
               (case ParseIstioSecretsStatus e istioRes [] of
                  Inl err \<Rightarrow> Done (http_Error ''Something went wrong'' 500 res)
                | Inr result \<Rightarrow> Done (SendObj encodes (mk result) 200 res))))"

text \<open>Handlers with goroutines: the outcomes they may have.\<close>

definition IstioMeshHandler :: "('p \<Rightarrow> bool) \<Rightarrow> (mesh_graph \<Rightarrow> 'p) \<Rightarrow> 'c mesh_env \<Rightarrow> 'c \<Rightarrow> string \<Rightarrow> op_api \<Rightarrow> 'p response \<Rightarrow> request \<Rightarrow> 'p outcome \<Rightarrow> bool" where
  "IstioMeshHandler encodes mk e local cache k res req out \<longleftrightarrow>
     (\<exists>r cache'. buildMeshGraph e local cache k r cache' \<and> out = answer_or_fail encodes mk r res)"

definition CollectorHandler :: "('p \<Rightarrow> bool) \<Rightarrow> (cluster_map \<Rightarrow> 'p) \<Rightarrow> metrics_env \<Rightarrow> ('c \<Rightarrow> pod \<Rightarrow> pod_answers) \<Rightarrow> 'c cluster_answers \<Rightarrow>
    (string \<Rightarrow> string + 'c) \<Rightarrow> string \<Rightarrow> 'c \<Rightarrow> ('c \<Rightarrow> op_api) \<Rightarrow> 'p response \<Rightarrow> request \<Rightarrow> 'p outcome \<Rightarrow> bool" where
  "CollectorHandler encodes mk e ans answers connect managementClusterName local w res req out \<longleftrightarrow>
     (\<exists>cm. metrics_answer e ans (newCollectorHandler answers) connect managementClusterName local w cm \<and>
        out = Done (SendObj encodes (mk cm) 200 res))"

definition VictoriaHandler :: "('p \<Rightarrow> bool) \<Rightarrow> (cluster_map \<Rightarrow> 'p) \<Rightarrow> metrics_env \<Rightarrow> ('c \<Rightarrow> pod \<Rightarrow> pod_answers) \<Rightarrow> 'c cluster_answers \<Rightarrow>
    (string \<Rightarrow> string + 'c) \<Rightarrow> string \<Rightarrow> string + 'c \<Rightarrow> ('c \<Rightarrow> op_api) \<Rightarrow> 'p response \<Rightarrow> request \<Rightarrow> 'p outcome \<Rightarrow> bool" where
  "VictoriaHandler encodes mk e ans answers connect managementClusterName newClient w res req out \<longleftrightarrow>
     (case newClient of
        Inl err \<Rightarrow> out = Done (Fail BasicInternalErrorMessage 500 res)
      | Inr local \<Rightarrow>
          (\<exists>cm. metrics_answer e ans (newVictoriaHandler answers) connect managementClusterName local w cm \<and>
             out = Done (SendObj encodes (mk cm) 200 res)))"

section \<open>Routes\<close>

text \<open>The handlers under \<open>/api/\<close>, by their route.\<close>

datatype api_route =
  TargetsRoute | MeshRoute | EndpointsRoute | SecretsRoute | CollectorsRoute | VictoriaRoute | ServiceSetsRoute |
  DeploymentsRoute | SummariesRoute | MultiServicesRoute | SveltosRoute | ProvidersRoute

definition api_table :: "(string \<times> api_route) list" where
  "api_table =
     [(''/api/targets'', TargetsRoute), (''/api/istio/mesh'', MeshRoute), (''/api/istio/endpoints'', EndpointsRoute),
      (''/api/istio/secrets'', SecretsRoute), (''/api/collectors/metrics'', CollectorsRoute),
      (''/api/victoria/metrics'', VictoriaRoute), (''/api/service-sets'', ServiceSetsRoute),
      (''/api/cluster-deployments'', DeploymentsRoute), (''/api/cluster-summaries'', SummariesRoute),
      (''/api/multi-cluster-services'', MultiServicesRoute), (''/api/sveltos-clusters'', SveltosRoute),
      (''/api/state-management-providers'', ProvidersRoute)]"

definition operator_router :: "bool \<Rightarrow> 'p handler \<Rightarrow> (api_route \<Rightarrow> 'p handler) \<Rightarrow> 'p router" where
  "operator_router enableServerCORS react h =
     (let r0 = Use LoggingMiddleware (Use RecoveryMiddleware (Use SpanNameMiddleware NewRouter));
          r1 = (if enableServerCORS then Use (CORSMiddleware None) r0 else r0);
          r2 = GET ''/assets/*'' react (GET ''/*'' react r1)
      in Server.NotFound NotFoundHandler (fold (\<lambda>(path, route). GET path (h route)) api_table r2))"

lemma operator_get_routes:
  "routes (operator_router cors react h) =
     [(''GET'', (''/*'', react) # (''/assets/*'', react) # map (\<lambda>(path, route). (path, h route)) api_table)]"
  by (simp add: operator_router_def api_table_def GET_def addRoute_def Use_def NewRouter_def Server.NotFound_def Let_def)

lemma operator_middlewares:
  "middlewares (operator_router cors react h) =
     [SpanNameMiddleware, RecoveryMiddleware, LoggingMiddleware] @ (if cors then [CORSMiddleware None] else [])"
  "notFoundHandler (operator_router cors react h) = NotFoundHandler"
  by (simp_all add: operator_router_def api_table_def GET_def addRoute_def Use_def NewRouter_def Server.NotFound_def Let_def)

section \<open>Unknown paths\<close>

lemma has_prefix_split: "has_prefix p ''/'' \<Longrightarrow> \<exists>ps. split_on (CHR ''/'') p = [] # ps"
  by (cases p) auto

lemma operator_finds:
  assumes "has_prefix p ''/''"
  shows "findHandler (operator_router cors react h) ''GET'' p =
     (case map_of (map (\<lambda>(path, route). (path, h route)) api_table) p of
        Some handler \<Rightarrow> Some (p, handler)
      | None \<Rightarrow> Some (if p = ''/assets/*'' then p else ''/*'', react))"
proof -
  obtain ps where ps: "split_on (CHR ''/'') p = [] # ps" using has_prefix_split [OF assms] by blast
  have root: "isWildcardMatch ''/*'' p" using ps by (simp add: isWildcardMatch_def)
  have tab: "map_of (map (\<lambda>(path, route). (path, h route)) api_table) ''/*'' = None"
    "map_of (map (\<lambda>(path, route). (path, h route)) api_table) ''/assets/*'' = None" by (simp_all add: api_table_def)
  show ?thesis
    using root tab by (auto simp: findHandler_def operator_get_routes split: option.split)
qed

text \<open>
  A GET request under \<open>/api/\<close> reaches the handler registered for its path and no other, and one for
  a path that is not registered is answered with 404 instead of the web application.
\<close>

theorem api_paths_served:
  assumes "Method req = ''GET''" "has_prefix (request.Path req) ''/api/''"
  shows "case map_of api_table (request.Path req) of
      Some route \<Rightarrow>
        ServeHTTP (operator_router False (ReactAppHandler serve fs) h) res req =
          RecoveryMiddleware (h route) res (req\<lparr>ctxRoute := Some (request.Path req)\<rparr>)
    | None \<Rightarrow>
        (\<exists>r. ServeHTTP (operator_router cors (ReactAppHandler serve fs) h) new_response req = Done r \<and> wcode r = Some 404 \<and>
          out_body r = [Bytes ''404 - Page not found\<newline>''])"
proof -
  let ?p = "request.Path req"
  have slash: "has_prefix ?p ''/''" using assms(2) by (cases ?p) auto
  have tab: "map_of (map (\<lambda>(path, route). (path, h route)) api_table) ?p = map_option h (map_of api_table ?p)"
    by (simp add: map_of_map)
  show ?thesis
  proof (cases "map_of api_table ?p")
    case None
    have f: "findHandler (operator_router cors (ReactAppHandler serve fs) h) ''GET'' ?p =
        Some (if ?p = ''/assets/*'' then ?p else ''/*'', ReactAppHandler serve fs)" for cors
      unfolding operator_finds [OF slash] tab None by simp
    show ?thesis using None assms
      by (cases cors) (simp_all add: ServeHTTP_def f ApplyMiddleware_def operator_middlewares SpanNameMiddleware_def RecoveryMiddleware_def
          LoggingMiddleware_def CORSMiddleware_def DefaultCORSConfig_def ReactAppHandler_def NotFoundHandler_def WriteChunk_def SetStatus_def
          WriteHeader_def set_header_def new_response_def Let_def)
  next
    case (Some route)
    have "findHandler (operator_router False (ReactAppHandler serve fs) h) ''GET'' ?p = Some (?p, h route)"
      unfolding operator_finds [OF slash] tab Some by simp
    then show ?thesis using Some assms(1)
      by (simp add: ServeHTTP_def ApplyMiddleware_def operator_middlewares SpanNameMiddleware_def RecoveryMiddleware_def LoggingMiddleware_def)
  qed
qed

section \<open>Static files stay in their directory\<close>

lemma clean_parts_dots: "''..'' \<notin> set out \<Longrightarrow> ''..'' \<notin> set (clean_parts True ps out)"
  by (induction "True" ps out rule: clean_parts.induct) (auto split: list.splits)

lemma clean_parts_parts: "set (clean_parts rooted ps out) \<subseteq> set ps \<union> set out \<union> {''..''}"
proof (induction rooted ps out rule: clean_parts.induct)
  case (2 rooted p ps out)
  show ?case
  proof (cases out)
    case Nil
    then show ?thesis using 2 by (auto split: if_splits)
  next
    case (Cons q qs)
    then show ?thesis using 2 by (auto split: if_splits)
  qed
qed auto

text \<open>
  The file that is opened for a request never has a step to the directory above, however the path of
  the request is written.
\<close>

lemma static_paths_inside:
  assumes "has_prefix path ''/''"
  shows "''..'' \<notin> set (split_on (CHR ''/'') (fst (open_static fs path)))"
proof -
  let ?parts = "clean_parts True (split_on (CHR ''/'') path) []"
  have parts: "\<forall>q \<in> set ?parts. CHR ''/'' \<notin> set q"
    using clean_parts_parts [of True "split_on (CHR ''/'') path" "[]"] split_on_no_sep [of _ "CHR ''/''" path] by fastforce
  have "''..'' \<notin> set (split_on (CHR ''/'') (join ''/'' ?parts))"
  proof (cases "?parts = []")
    case False
    then show ?thesis using split_on_join [OF False parts] clean_parts_dots [of "[]" "split_on (CHR ''/'') path"] by simp
  qed simp
  moreover have "''..'' \<notin> set (split_on (CHR ''/'') ReactAppMainFile)" by (simp add: ReactAppMainFile_def)
  moreover have "trim_prefix (path_Clean path) ''/'' = join ''/'' ?parts" using assms by (simp add: path_Clean_def Let_def trim_prefix_def)
  ultimately show ?thesis by (auto simp: open_static_def Let_def split: open_result.split)
qed

section \<open>Objects are not lost\<close>

definition slash_free_item :: "'o item \<Rightarrow> bool" where
  "slash_free_item x \<longleftrightarrow> CHR ''/'' \<notin> set (it_namespace x) \<and> CHR ''/'' \<notin> set (it_name x)"

definition item_key :: "'o item \<Rightarrow> string \<times> string" where
  "item_key x = (it_namespace x, it_name x)"

lemma path_split:
  assumes "CHR ''/'' \<notin> set c" "slash_free_item x"
  shows "split_on (CHR ''/'') (getObjectPath c x) = (if it_namespace x = [] then [c, it_name x] else [c, it_namespace x, it_name x])"
  using assms by (simp add: getObjectPath_def GetResourcePath_def slash_free_item_def split_on_append split_on_plain)

lemma path_inject:
  assumes "getObjectPath c x = getObjectPath c' y" "CHR ''/'' \<notin> set c" "CHR ''/'' \<notin> set c'" "slash_free_item x" "slash_free_item y"
  shows "c = c' \<and> item_key x = item_key y"
  using path_split [of c x] path_split [of c' y] assms by (auto simp: item_key_def split: if_splits)

definition put_items :: "string \<Rightarrow> 'o item list \<Rightarrow> 'o item gomap \<Rightarrow> 'o item gomap" where
  "put_items c xs m = fold (\<lambda>x. map_set (getObjectPath c x) x) xs m"

lemma each_item_some: "each_item c (map Some xs) m = Inr (put_items c xs m)"
  by (induction xs arbitrary: m) (simp_all add: put_items_def)

lemma each_item_Inr: "each_item c os m = Inr m' \<Longrightarrow> \<exists>xs. os = map Some xs \<and> m' = put_items c xs m"
proof (induction c os m rule: each_item.induct)
  case (1 c m)
  then show ?case by (auto simp: put_items_def)
next
  case (3 c x os m)
  then obtain xs where "os = map Some xs" "m' = put_items c xs (map_set (getObjectPath c x) x m)" by auto
  then show ?case by (intro exI [of _ "x # xs"]) (simp add: put_items_def)
qed simp

lemma put_items_other: "p \<notin> getObjectPath c ` set xs \<Longrightarrow> map_of (put_items c xs m) p = map_of m p"
  unfolding put_items_def by (induction xs arbitrary: m) auto

lemma put_items_mem:
  assumes "distinct (map item_key xs)" "\<forall>x \<in> set xs. slash_free_item x" "CHR ''/'' \<notin> set c" "x \<in> set xs"
  shows "map_of (put_items c xs m) (getObjectPath c x) = Some x"
  using assms
proof (induction xs arbitrary: m)
  case (Cons y ys)
  have "put_items c (y # ys) m = put_items c ys (map_set (getObjectPath c y) y m)" by (simp add: put_items_def)
  moreover have "getObjectPath c x \<notin> getObjectPath c ` set ys" if "x = y"
    using Cons.prems that by (auto dest!: path_inject)
  ultimately show ?case using Cons by (cases "x = y") (auto simp: put_items_other)
qed simp

lemma put_items_wf: "wf_map m \<Longrightarrow> wf_map (put_items c xs m)"
  unfolding put_items_def by (induction xs arbitrary: m) auto

text \<open>The names Kubernetes gives: no slashes, and one object for each namespace and name.\<close>

definition well_listed :: "('c \<Rightarrow> op_error + 'o item option list) \<Rightarrow> bool" where
  "well_listed objects \<longleftrightarrow>
     (\<forall>c xs. objects c = Inr (map Some xs) \<longrightarrow> distinct (map item_key xs) \<and> (\<forall>x \<in> set xs. slash_free_item x))"

lemma GetObjectsMap_Inr:
  assumes "GetObjectsMap objects c n = Inr m"
  obtains xs where "objects c = Inr (map Some xs)" "m = put_items n xs []"
  using assms each_item_Inr by (fastforce simp: GetObjectsMap_def split: sum.splits)

lemma reads_deployment_client [reads_rules]: "reads k (NewKubeClientFromClusterDeployment connect cd k)"
  by (auto simp: NewKubeClientFromClusterDeployment_def intro!: reads_rules)

lemma put_items_elsewhere:
  assumes "slash_free_item x" "CHR ''/'' \<notin> set n" "CHR ''/'' \<notin> set n'" "n \<noteq> n'" "\<forall>y \<in> set xs. slash_free_item y"
  shows "map_of (put_items n' xs m) (getObjectPath n x) = map_of m (getObjectPath n x)"
  using assms by (intro put_items_other) (auto dest!: path_inject)

lemma region_summaries_quiet:
  assumes "api_faults k = []" "well_listed objects"
  obtains (none) "region_summaries connect objects cd (m, k) = (m, k)"
    "\<And>c xs. fst (NewKubeClientFromClusterDeployment connect cd k) = Inr c \<Longrightarrow> objects c \<noteq> Inr (map Some xs)"
  | (some) c xs where "region_summaries connect objects cd (m, k) = (map_copy m (put_items (cd_name cd) xs []), k)"
      "fst (NewKubeClientFromClusterDeployment connect cd k) = Inr c" "objects c = Inr (map Some xs)"
proof -
  obtain r k' where r: "NewKubeClientFromClusterDeployment connect cd k = (r, k')" by fastforce
  have k': "k' = k" by (rule reads_quiet [OF reads_deployment_client assms(1) r])
  show ?thesis
  proof (cases r)
    case (Inl err)
    then show ?thesis using r k' none by (simp add: region_summaries_def)
  next
    case (Inr c)
    show ?thesis
    proof (cases "GetObjectsMap objects c (cd_name cd)")
      case (Inl err)
      have "objects c \<noteq> Inr (map Some xs)" for xs using Inl each_item_some [of "cd_name cd" xs "[]"] by (auto simp: GetObjectsMap_def)
      then show ?thesis using r k' \<open>r = Inr c\<close> Inl by (intro none) (auto simp: region_summaries_def)
    next
      case (Inr u)
      then obtain xs where "objects c = Inr (map Some xs)" "u = put_items (cd_name cd) xs []" by (rule GetObjectsMap_Inr)
      then show ?thesis using r k' \<open>r = Inr c\<close> Inr some by (simp add: region_summaries_def)
    qed
  qed
qed

lemma map_of_copy_items:
  "map_of (map_copy m (put_items n xs [])) = map_of m ++ map_of (put_items n xs [])"
  by (rule map_of_map_copy) (simp add: put_items_wf)

lemma regions_elsewhere:
  assumes "api_faults k = []" "well_listed objects" "slash_free_item x" "CHR ''/'' \<notin> set n"
    and "\<forall>cd \<in> set cds. CHR ''/'' \<notin> set (cd_name cd)" "n \<notin> cd_name ` set cds"
  shows "map_of (fst (fold (region_summaries connect objects) cds (m, k))) (getObjectPath n x) = map_of m (getObjectPath n x)"
  using assms(5,6)
proof (induction cds arbitrary: m)
  case (Cons cd cds)
  from assms(1,2) show ?case
  proof (cases rule: region_summaries_quiet [of k objects connect cd m])
    case none
    then show ?thesis using Cons by simp
  next
    case (some c xs)
    have "\<forall>y \<in> set xs. slash_free_item y" using assms(2) some(3) by (auto simp: well_listed_def)
    then have "map_of (put_items (cd_name cd) xs []) (getObjectPath n x) = None"
      using put_items_elsewhere [of x n "cd_name cd" xs "[]"] assms(3,4) Cons.prems by auto
    then show ?thesis using Cons some(1) by (simp add: map_of_copy_items map_add_def)
  qed
qed simp

lemma regions_here:
  assumes "api_faults k = []" "well_listed objects" "x \<in> set xs"
    and "fst (NewKubeClientFromClusterDeployment connect cd k) = Inr c" "objects c = Inr (map Some xs)"
    and "\<forall>cd \<in> set cds. CHR ''/'' \<notin> set (cd_name cd)" "distinct (map cd_name cds)" "cd \<in> set cds"
  shows "map_of (fst (fold (region_summaries connect objects) cds (m, k))) (getObjectPath (cd_name cd) x) = Some x"
  using assms(6-8)
proof (induction cds arbitrary: m)
  case (Cons d cds)
  have xs: "distinct (map item_key xs)" "\<forall>y \<in> set xs. slash_free_item y" using assms(2,5) by (auto simp: well_listed_def)
  obtain m' where m': "region_summaries connect objects d (m, k) = (m', k)"
    by (rule region_summaries_quiet [OF assms(1,2), of connect d m]) auto
  show ?case
  proof (cases "d = cd")
    case True
    have "m' = map_copy m (put_items (cd_name cd) xs [])"
      by (rule region_summaries_quiet [OF assms(1,2), of connect cd m]) (use assms(4,5) m' True in auto)
    then have "map_of m' (getObjectPath (cd_name cd) x) = Some x"
      using put_items_mem [OF xs _ assms(3), of "cd_name cd" "[]"] Cons.prems(1,3) True by (simp add: map_of_copy_items map_add_def)
    moreover have "map_of (fst (fold (region_summaries connect objects) cds (m', k))) (getObjectPath (cd_name cd) x) =
        map_of m' (getObjectPath (cd_name cd) x)"
      by (rule regions_elsewhere [OF assms(1,2)]) (use xs(2) assms(3) Cons.prems True in auto)
    ultimately show ?thesis using m' True by simp
  next
    case False
    then show ?thesis using Cons m' by simp
  qed
qed simp

text \<open>
  When no call to the management cluster fails, the cluster summaries that are shown hold every object
  of the management cluster and of every region that can be reached, under the path of its cluster, namespace
  and name: no object takes the place of another.
\<close>

theorem summaries_complete:
  assumes "cluster_summaries connect objects local mgmt k = Inr m" "api_faults k = []" "well_listed objects"
    and "GetKcmRegionClusters k = (Inr regs, k1)" "distinct (mgmt # map cd_name regs)"
    and "CHR ''/'' \<notin> set mgmt" "\<forall>cd \<in> set regs. CHR ''/'' \<notin> set (cd_name cd)"
    and "c = local \<and> n = mgmt \<or> (\<exists>cd \<in> set regs. n = cd_name cd \<and> fst (NewKubeClientFromClusterDeployment connect cd k) = Inr c)"
    and "objects c = Inr (map Some xs)" "x \<in> set xs"
  shows "map_of m (getObjectPath n x) = Some x"
proof -
  have k1: "k1 = k" using reads_quiet [OF _ assms(2,4)] by (auto simp: GetKcmRegionClusters_def intro!: reads_rules)
  obtain u where u: "GetObjectsMap objects local mgmt = Inr u"
    and m: "m = fst (fold (region_summaries connect objects) regs (u, k))"
    using assms(1,4) k1 by (auto simp: cluster_summaries_def split: sum.splits prod.splits)
  have xs: "distinct (map item_key xs)" "\<forall>y \<in> set xs. slash_free_item y" using assms(3,9) by (auto simp: well_listed_def)
  from assms(8) show ?thesis
  proof
    assume c: "c = local \<and> n = mgmt"
    then have "u = put_items mgmt xs []" using u assms(9) by (simp add: GetObjectsMap_def each_item_some)
    then have "map_of u (getObjectPath n x) = Some x" using put_items_mem [OF xs assms(6,10)] c by simp
    then show ?thesis using regions_elsewhere [OF assms(2,3), of x n regs] xs(2) assms(5-7,10) c m by simp
  next
    assume "\<exists>cd \<in> set regs. n = cd_name cd \<and> fst (NewKubeClientFromClusterDeployment connect cd k) = Inr c"
    then show ?thesis using regions_here [OF assms(2,3,10) _ assms(9) assms(7)] assms(5) m by auto
  qed
qed

section \<open>Targets of all clusters\<close>

definition target_at :: "'r targets \<Rightarrow> string \<Rightarrow> string \<Rightarrow> string \<Rightarrow> 'r option" where
  "target_at t cluster node pod =
     (case map_of t cluster of None \<Rightarrow> None | Some ns \<Rightarrow> (case map_of ns node of None \<Rightarrow> None | Some ps \<Rightarrow> map_of ps pod))"

lemma map_of_FindOrCreate:
  "map_of (FindOrCreate name f m) = (map_of m)(name \<mapsto> f (case map_of m name of None \<Rightarrow> [] | Some v \<Rightarrow> v))"
  by (simp add: FindOrCreate_def split: option.split)

lemma wf_FindOrCreate: "wf_map m \<Longrightarrow> wf_map (FindOrCreate name f m)"
  by (simp add: FindOrCreate_def split: option.split)

lemma target_at_Add:
  "target_at (AddPodResponse c n p r t) c' n' p' = (if (c', n', p') = (c, n, p) then Some r else target_at t c' n' p')"
  by (auto simp: target_at_def AddPodResponse_def map_of_FindOrCreate split: option.splits)

lemma collect_pods_wf: "wf_map t \<Longrightarrow> wf_map (collect_pod_targets e c n ps t)"
  by (induction e c n ps t rule: collect_pod_targets.induct)
    (auto simp: AddPodResponse_def wf_FindOrCreate split: option.splits)

lemma collect_pods_cluster: "x \<noteq> n \<Longrightarrow> map_of (collect_pod_targets e c n ps t) x = map_of t x"
  by (induction e c n ps t rule: collect_pod_targets.induct)
    (auto simp: AddPodResponse_def map_of_FindOrCreate split: option.splits)

definition place :: "pod \<Rightarrow> string \<times> string" where
  "place p = (pod_node p, pod_name p)"

lemma collect_pods_keep:
  "place p \<notin> place ` set ps \<Longrightarrow>
     target_at (collect_pod_targets e c n ps t) n (pod_node p) (pod_name p) = target_at t n (pod_node p) (pod_name p)"
  by (induction e c n ps t rule: collect_pod_targets.induct) (auto simp: target_at_Add place_def split: option.splits)

lemma collect_pods_mem:
  "\<forall>q \<in> set ps. place q = place p \<longrightarrow> q = p \<Longrightarrow> p \<in> set ps \<Longrightarrow> pod_response e c p = Some r \<Longrightarrow>
     target_at (collect_pod_targets e c n ps t) n (pod_node p) (pod_name p) = Some r"
proof (induction e c n ps t rule: collect_pod_targets.induct)
  case (2 e c n q ps t)
  show ?case
  proof (cases "p \<in> set ps")
    case True
    then show ?thesis using 2 by simp
  next
    case False
    then have "place p \<notin> place ` set ps" using "2.prems"(1) by auto
    then show ?thesis using "2.prems"(2,3) False by (simp add: collect_pods_keep target_at_Add)
  qed
qed simp

lemma on_client_quiet:
  assumes "\<And>k. reads k (f k)" "\<forall>c. api_faults (w c) = []"
  shows "on_client c f w = (fst (f (w c)), w)"
proof -
  obtain r k where r: "f (w c) = (r, k)" by fastforce
  have "k = w c" using reads_quiet [OF assms(1) _ r] assms(2) by blast
  then show ?thesis using r by (simp add: on_client_def)
qed

definition targets_of :: "('c, 'r) targets_env \<Rightarrow> ('c \<Rightarrow> op_api) \<Rightarrow> 'c \<Rightarrow> string \<Rightarrow> 'r targets" where
  "targets_of e w c n = collect_pod_targets e c n (filter receiver_pod (pods (w c))) []"

lemma collectPrometheusTargets_quiet:
  assumes "\<forall>c. api_faults (w c) = []"
  shows "collectPrometheusTargets e c n w = (Inr (targets_of e w c n), w)"
proof -
  have "fst (api_list pods receiver_pod (w c)) = Inr (filter receiver_pod (pods (w c)))"
    using assms by (simp add: api_list_def)
  then show ?thesis
    using on_client_quiet [of "api_list pods receiver_pod" w c] assms
    by (simp add: collectPrometheusTargets_def targets_of_def reads_list)
qed

lemma deployment_targets_quiet:
  assumes "\<forall>c. api_faults (w c) = []"
  shows "deployment_targets e local cd (t, w) =
     ((case fst (NewKubeClientFromClusterDeployment (tconnect e) cd (w local)) of
         Inl err \<Rightarrow> t | Inr c \<Rightarrow> Merge t (targets_of e w c (cd_name cd))), w)"
proof -
  obtain r k where r: "GetKubeconfigSecretName cd (w local) = (r, k)" by fastforce
  have k: "k = w local" using reads_quiet [OF reads_secret_name _ r] assms by blast
  have s: "on_client local (GetKubeconfigSecretName cd) w = (r, w)"
    using on_client_quiet [OF reads_secret_name assms] r by simp
  show ?thesis
  proof (cases r)
    case (Inl err)
    then show ?thesis using r s by (simp add: deployment_targets_def NewKubeClientFromClusterDeployment_def and_then_def in_context_def)
  next
    case (Inr name)
    have "fst (NewKubeClientFromClusterDeployment (tconnect e) cd (w local)) =
        fst (NewKubeClientFromSecret (tconnect e) name (cd_namespace cd) (w local))"
      using r k Inr by (simp add: NewKubeClientFromClusterDeployment_def and_then_def in_context_def)
    then show ?thesis
      using s Inr on_client_quiet [of "NewKubeClientFromSecret (tconnect e) name (cd_namespace cd)" w local, OF reads_client assms]
      by (simp add: deployment_targets_def collectPrometheusTargets_quiet [OF assms] split: sum.split)
  qed
qed

lemma map_of_Merge: "wf_map u \<Longrightarrow> map_of (Merge t u) = map_of t ++ map_of u"
  by (auto simp: Merge_def map_of_map_copy)

lemma targets_of_wf: "wf_map (targets_of e w c n)"
  by (simp add: targets_of_def collect_pods_wf)

lemma targets_of_elsewhere: "x \<noteq> n \<Longrightarrow> map_of (targets_of e w c n) x = None"
  by (simp add: targets_of_def collect_pods_cluster)

text \<open>The targets of a cluster replace those of an earlier cluster with its name.\<close>

lemma same_name_targets_replaced: "map_of (targets_of e w c n) n = Some ns \<Longrightarrow> map_of (Merge t (targets_of e w c n)) n = Some ns"
  by (simp add: map_of_Merge targets_of_wf)

lemma deployments_unchanged: "\<forall>c. api_faults (w c) = [] \<Longrightarrow> snd (fold (deployment_targets e local) cds (t, w)) = w"
  by (induction cds arbitrary: t) (simp_all add: deployment_targets_quiet)

lemma deployments_keep:
  assumes "\<forall>c. api_faults (w c) = []" "n \<notin> cd_name ` set cds"
  shows "\<exists>t'. fold (deployment_targets e local) cds (t, w) = (t', w) \<and> map_of t' n = map_of t n"
  using assms(2)
proof (induction cds arbitrary: t)
  case (Cons cd cds)
  obtain t1 where t1: "deployment_targets e local cd (t, w) = (t1, w)" "map_of t1 n = map_of t n"
    using deployment_targets_quiet [OF assms(1), of e local cd t] Cons.prems
    by (auto simp: map_of_Merge targets_of_wf targets_of_elsewhere map_add_def split: sum.splits)
  then show ?case using Cons.IH [of t1] Cons.prems by simp
qed simp

lemma deployments_found:
  assumes "\<forall>c. api_faults (w c) = []" "fst (NewKubeClientFromClusterDeployment (tconnect e) cd (w local)) = Inr c"
    and "map_of (targets_of e w c (cd_name cd)) (cd_name cd) = Some ns" "\<forall>d \<in> set cds. cd_name d = cd_name cd \<longrightarrow> d = cd" "cd \<in> set cds"
  shows "\<exists>t'. fold (deployment_targets e local) cds (t, w) = (t', w) \<and> map_of t' (cd_name cd) = Some ns"
  using assms(4,5)
proof (induction cds arbitrary: t)
  case (Cons d cds)
  obtain t1 where t1: "deployment_targets e local d (t, w) = (t1, w)"
    using deployment_targets_quiet [OF assms(1), of e local d t] by blast
  show ?case
  proof (cases "cd \<in> set cds")
    case False
    then have "d = cd" "cd_name cd \<notin> cd_name ` set cds" using Cons.prems by auto
    moreover from this have "map_of t1 (cd_name cd) = Some ns"
      using deployment_targets_quiet [OF assms(1), of e local cd t] assms(2,3) t1 by (auto simp: map_of_Merge targets_of_wf)
    ultimately show ?thesis using deployments_keep [OF assms(1), of "cd_name cd" cds e local t1] t1 by auto
  next
    case True
    then show ?thesis using Cons t1 by simp
  qed
qed simp

text \<open>
  C38: when no call to an API fails, the targets that are shown hold the answer of every Prometheus receiver pod of
  the management cluster, and of every deployment with a cluster role whose kubeconfig the management cluster has, under its
  cluster, node and name. The name of that deployment is neither the name of another one nor of the management cluster, and no
  other receiver pod of the cluster has the same node and name: their answers would be shown in one place.
\<close>

theorem targets_complete:
  assumes "\<forall>c. api_faults (w c) = []" "GetKofClusterDeployments (w local) = (Inr cds, k)"
    and "c = local \<and> n = mgmt \<or>
      n \<noteq> mgmt \<and> (\<exists>cd \<in> set cds. n = cd_name cd \<and> (\<forall>d \<in> set cds. cd_name d = n \<longrightarrow> d = cd) \<and>
        fst (NewKubeClientFromClusterDeployment (tconnect e) cd (w local)) = Inr c)"
    and "p \<in> set (pods (w c))" "receiver_pod p" "pod_response e c p = Some r"
    and "\<forall>q \<in> set (pods (w c)). receiver_pod q \<longrightarrow> place q = place p \<longrightarrow> q = p"
  shows "target_at (prometheus_targets e local mgmt w) n (pod_node p) (pod_name p) = Some r"
proof -
  have here: "target_at (targets_of e w c n) n (pod_node p) (pod_name p) = Some r"
    using collect_pods_mem [of "filter receiver_pod (pods (w c))" p e c r n "[]"] assms(4-7) by (simp add: targets_of_def)
  then obtain ns where ns: "map_of (targets_of e w c n) n = Some ns" by (auto simp: target_at_def split: option.splits)
  have "reads k (GetKofClusterDeployments k)" for k by (simp add: GetKofClusterDeployments_def reads_cluster_deployments)
  then have list: "on_client local GetKofClusterDeployments w = (Inr cds, w)" using on_client_quiet assms(1,2) by (metis fst_conv)
  obtain t' where t': "collectClusterDeploymentsTargets e local [] w = (t', w)"
    using deployments_unchanged [OF assms(1), of e local cds "[]"] list
    by (cases "fold (deployment_targets e local) cds ([], w)") (simp add: collectClusterDeploymentsTargets_def)
  have there: "map_of t' n = Some ns" if other: "n \<noteq> mgmt"
  proof -
    obtain cd where "cd \<in> set cds" "n = cd_name cd" "\<forall>d \<in> set cds. cd_name d = n \<longrightarrow> d = cd"
        "fst (NewKubeClientFromClusterDeployment (tconnect e) cd (w local)) = Inr c"
      using assms(3) other by blast
    then show ?thesis using t' list deployments_found [OF assms(1), of e cd local c ns cds "[]"] ns
      by (auto simp: collectClusterDeploymentsTargets_def)
  qed
  have "prometheus_targets e local mgmt w = Merge t' (targets_of e w local mgmt)"
    using t' by (simp add: prometheus_targets_def collectLocalTargets_def collectPrometheusTargets_quiet [OF assms(1)])
  moreover have "n = mgmt \<Longrightarrow> c = local" using assms(3) by auto
  ultimately have "map_of (prometheus_targets e local mgmt w) n = Some ns"
    using there ns by (cases "n = mgmt") (auto simp: map_of_Merge targets_of_wf targets_of_elsewhere map_add_def)
  then show ?thesis using here ns by (simp add: target_at_def)
qed

section \<open>Examples\<close>

definition ex_web_request :: request where
  "ex_web_request = \<lparr>Method = ''GET'', Path = ''/api/unknown'', ReqRawQuery = [], Authorization = [], Body = [], BodyErr = False,
     ctxToken = None, ctxRoute = None\<rparr>"

theorem api_paths_served_witness:
  "\<exists>r. ServeHTTP (operator_router True (ReactAppHandler (\<lambda>_ _ r. r) (\<lambda>_. NotExist :: unit open_result)) (\<lambda>_ res _. Done res)) new_response
      ex_web_request = Done r \<and> wcode r = Some 404"
  using api_paths_served [where req = ex_web_request and serve = "\<lambda>_ _ r. r" and fs = "\<lambda>_. NotExist :: unit open_result"
      and h = "\<lambda>_ res _. Done res" and res = new_response and cors = True]
  by (auto simp: ex_web_request_def api_table_def)

definition ex_item :: "nat item" where
  "ex_item = \<lparr>it_namespace = ''kof'', it_name = ''s1'', it_object = 1\<rparr>"

definition ex_objects :: "bool \<Rightarrow> op_error + nat item option list" where
  "ex_objects c = Inr [Some ex_item]"

lemma ex_well_listed: "well_listed ex_objects"
proof -
  have "xs = [ex_item]" if "[Some ex_item] = map Some xs" for xs using that by (cases xs) auto
  then show ?thesis by (auto simp: well_listed_def ex_objects_def slash_free_item_def ex_item_def)
qed

definition ex_region_api :: op_api where
  "ex_region_api = (ex_remote_world False)\<lparr>deployments :=
     [ex_remote_cd\<lparr>cd_labels := [(KofClusterRoleLabel, ''regional''), (KofKcmRegionLabel, ''true'')]\<rparr>]\<rparr>"

lemma ex_region_clusters: "GetKcmRegionClusters ex_region_api = (Inr (deployments ex_region_api), ex_region_api)"
  by (simp add: GetKcmRegionClusters_def GetClusterDeployments_def api_list_def ex_region_api_def ex_remote_world_def has_label_def
      KofClusterRoleLabel_def KofKcmRegionLabel_def)

theorem summaries_complete_witness:
  "\<exists>m. cluster_summaries (\<lambda>_. Inr True) ex_objects False ''mothership'' ex_region_api = Inr m \<and> map_of m ''mothership/kof/s1'' = Some ex_item"
proof -
  obtain m where m: "cluster_summaries (\<lambda>_. Inr True) ex_objects False ''mothership'' ex_region_api = Inr m"
    by (auto simp: cluster_summaries_def GetObjectsMap_def ex_objects_def ex_region_clusters)
  have "map_of m (getObjectPath ''mothership'' ex_item) = Some ex_item"
    by (rule summaries_complete [OF m _ ex_well_listed ex_region_clusters, where c = False and xs = "[ex_item]"])
      (simp_all add: ex_region_api_def ex_remote_world_def ex_remote_cd_def ex_objects_def)
  then show ?thesis using m by (simp add: getObjectPath_def GetResourcePath_def ex_item_def)
qed

definition ex_receiver :: pod where
  "ex_receiver = ex_metrics_pod\<lparr>pod_labels := [(PrometheusReceiverLabel, [])],
     pod_annotations := [(''kof.k0rdent.mirantis.com/prometheus-api-server-port'', ''9090'')]\<rparr>"

definition ex_targets_env :: "(bool, nat) targets_env" where
  "ex_targets_env = \<lparr>tconnect = (\<lambda>_. Inr True), tanswers = (\<lambda>_ _. ex_pod_answers), unmarshal_targets = (\<lambda>_. Inr 3)\<rparr>"

text \<open>The management cluster is behind the client False, the deployment behind True; each has a receiver pod.\<close>

definition ex_targets_cd :: cluster_deployment where
  "ex_targets_cd = ex_remote_cd\<lparr>cd_labels := [(KofClusterRoleLabel, ''child'')]\<rparr>"

definition ex_targets_world :: "bool \<Rightarrow> op_api" where
  "ex_targets_world c = (ex_remote_world False)\<lparr>deployments := (if c then [] else [ex_targets_cd]), pods := [ex_receiver]\<rparr>"

lemma ex_targets_calls:
  "api_faults (ex_targets_world c) = []" "GetKofClusterDeployments (ex_targets_world False) = (Inr [ex_targets_cd], ex_targets_world False)"
  "fst (NewKubeClientFromClusterDeployment (tconnect ex_targets_env) ex_targets_cd (ex_targets_world False)) = Inr True"
  "pods (ex_targets_world c) = [ex_receiver]" "receiver_pod ex_receiver" "pod_response ex_targets_env c ex_receiver = Some 3"
  by (simp_all add: ex_targets_world_def ex_targets_cd_def ex_remote_world_def ex_remote_cd_def GetKofClusterDeployments_def
      GetClusterDeployments_def api_list_def api_get_def api_ctx_def and_then_def in_context_def receiver_pod_def ex_receiver_def
      pod_response_def getPrometheusPort_def ex_targets_env_def Proxy_def ex_pod_answers_def NewKubeClientFromClusterDeployment_def
      NewKubeClientFromSecret_def GetSecret_def GetKubeconfigSecretName_def IsAdopted_def GetCloudClusterSecretName_def GetSecretValue_def
      find_object_def sec_key_def new_secret_def get_str_def Let_def)

theorem targets_complete_witness:
  "target_at (prometheus_targets ex_targets_env False ''mothership'' ex_targets_world) ''mothership'' ''n1'' ''vl-0'' = Some 3 \<and>
   target_at (prometheus_targets ex_targets_env False ''mothership'' ex_targets_world) ''r1'' ''n1'' ''vl-0'' = Some 3"
proof -
  have pod: "pod_node ex_receiver = ''n1''" "pod_name ex_receiver = ''vl-0''" by (simp_all add: ex_receiver_def ex_metrics_pod_def)
  have name: "cd_name ex_targets_cd = ''r1''" by (simp add: ex_targets_cd_def ex_remote_cd_def)
  have "target_at (prometheus_targets ex_targets_env False ''mothership'' ex_targets_world) n (pod_node ex_receiver) (pod_name ex_receiver) = Some 3"
    if "n = ''mothership'' \<and> c = False \<or> n = ''r1'' \<and> c = True" for n c
    by (rule targets_complete [where c = c and cds = "[ex_targets_cd]" and k = "ex_targets_world False"]) (use that in \<open>auto simp: ex_targets_calls name\<close>)
  from this [of "''mothership''" False] this [of "''r1''" True] show ?thesis by (simp add: pod)
qed

end
