(* ===== verification/VLogs.thy ===== *)
theory VLogs
  imports Go_Time Go_Url Go_Json
begin

text \<open>
  The HTTP client for VictoriaLogs and VictoriaTraces that the exporters share
  (\<open>kof-operator/internal/vlogs/vlogs.go\<close>), and \<open>bufio.Scanner\<close>, with which they read
  answers line by line. The HTTP exchange is the parameter \<open>http\<close>: what a GET of a URL gives.
  The decoding of the two shapes of the answer of \<open>field_values\<close> is a parameter.
\<close>

section \<open>Scanning lines\<close>

text \<open>
  The lines of a reader that yields \<open>text\<close> and then ends, or fails if \<open>broken\<close>: every line is
  yielded without its end, also the unfinished last one, until a line fills the buffer of \<open>limit\<close>
  bytes, which is an error.
\<close>

definition drop_cr :: "string \<Rightarrow> string" where
  "drop_cr l = (if l \<noteq> [] \<and> last l = CHR 0x0D then butlast l else l)"

definition raw_lines :: "string \<Rightarrow> string list" where
  "raw_lines s = (let ls = split_on (CHR 0x0A) s in if last ls = [] then butlast ls else ls)"

datatype scan_error = ErrTooLong | ReadError

definition scan_lines :: "nat \<Rightarrow> string \<Rightarrow> bool \<Rightarrow> string list \<times> scan_error option" where
  "scan_lines limit s broken =
     (let ls = raw_lines s; ok = takeWhile (\<lambda>l. length l < limit) ls
      in (map drop_cr ok,
          if length ok < length ls then Some ErrTooLong else if broken then Some ReadError else None))"

lemma scan_lines_complete:
  assumes "scan_lines limit s broken = (ls, None)"
  shows "ls = map drop_cr (raw_lines s)" "\<not> broken"
proof -
  let ?ok = "takeWhile (\<lambda>l. length l < limit) (raw_lines s)"
  have "\<not> length ?ok < length (raw_lines s)" "\<not> broken" "ls = map drop_cr ?ok"
    using assms by (auto simp: scan_lines_def Let_def split: if_splits)
  moreover have "?ok @ dropWhile (\<lambda>l. length l < limit) (raw_lines s) = raw_lines s" by simp
  ultimately show "ls = map drop_cr (raw_lines s)" "\<not> broken"
    by (metis append.right_neutral length_append length_greater_0_conv less_add_same_cancel1, simp)
qed

section \<open>The client\<close>

datatype http_result =
    BuildErr string
  | ConnErr string
  | HttpReply nat string bool

datatype source_error =
    SourceUnavailableError string string
  | OtherError string

record base_client =
  BaseURL :: string

definition NewBaseClient :: "string \<Rightarrow> base_client" where
  "NewBaseClient baseURL = \<lparr>BaseURL = trim_right (CHR ''/'') baseURL\<rparr>"

text \<open>\<open>SourceUnavailableError.Error\<close>.\<close>

definition source_error_text :: "source_error \<Rightarrow> string" where
  "source_error_text e =
     (case e of
        SourceUnavailableError src cause \<Rightarrow>
          if src \<noteq> [] then src @ '' source unavailable: '' @ cause else ''source unavailable: '' @ cause
      | OtherError t \<Rightarrow> t)"

text \<open>The body of a successful answer, with the flag that reading it fails at its end.\<close>

definition QueryStream ::
  "(string \<Rightarrow> http_result) \<Rightarrow> base_client \<Rightarrow> string \<Rightarrow> string \<Rightarrow> url_values \<Rightarrow>
     source_error + (string \<times> bool)" where
  "QueryStream http c sourceName endpoint params =
     (let reqURL = BaseURL c @ endpoint @ ''?'' @ Encode params in
      case http reqURL of
        BuildErr e \<Rightarrow> Inl (OtherError (''build VLogs request: '' @ e))
      | ConnErr e \<Rightarrow> Inl (SourceUnavailableError sourceName e)
      | HttpReply code body broken \<Rightarrow>
          if code \<noteq> 200
          then Inl (SourceUnavailableError sourceName (''HTTP '' @ dec code @ '': '' @ take 1024 body))
          else Inr (body, broken))"

record field_values_decoder =
  decode_values :: "string \<Rightarrow> string list option"
  decode_value :: "string \<Rightarrow> string option"

definition MaxScanTokenSize :: nat where "MaxScanTokenSize = 64 * 1024"

text \<open>The fallback for answers with one JSON object per line.\<close>

definition ndjson_values :: "field_values_decoder \<Rightarrow> string list \<Rightarrow> string list" where
  "ndjson_values d ls =
     concat (map (\<lambda>l. let line = trim_space l in
        if line = [] then []
        else (case decode_value d line of
                None \<Rightarrow> []
              | Some v \<Rightarrow> if v \<noteq> [] then [v] else [])) ls)"

definition DiscoverFieldValues ::
  "(string \<Rightarrow> http_result) \<Rightarrow> field_values_decoder \<Rightarrow> base_client \<Rightarrow> string \<Rightarrow> string \<Rightarrow> string \<Rightarrow>
     time \<Rightarrow> time \<Rightarrow> source_error + string list" where
  "DiscoverFieldValues http d c sourceName field query start end' =
     (let params = Values_Set ''end'' (rfc3339 end')
                     (Values_Set ''start'' (rfc3339 start)
                       (Values_Set ''query'' query (Values_Set ''field'' field [])));
          reqURL = BaseURL c @ ''/select/logsql/field_values?'' @ Encode params
      in case http reqURL of
           BuildErr e \<Rightarrow> Inl (OtherError (''build field_values request: '' @ e))
         | ConnErr e \<Rightarrow> Inl (SourceUnavailableError sourceName e)
         | HttpReply code body broken \<Rightarrow>
             if code \<noteq> 200
             then Inl (SourceUnavailableError sourceName
                         (''field_values HTTP '' @ dec code @ '': '' @ take 1024 body))
             else if broken then Inl (OtherError ''read field_values response'')
             else (case decode_values d body of
                     Some vs \<Rightarrow> Inr (filter (\<lambda>v. v \<noteq> []) vs)
                   | None \<Rightarrow>
                       (case scan_lines MaxScanTokenSize body False of
                          (ls, None) \<Rightarrow> Inr (ndjson_values d ls)
                        | (ls, Some e) \<Rightarrow> Inl (OtherError ''bufio.Scanner: token too long''))))"

text \<open>Whatever shape the answer has, no empty value is discovered.\<close>

lemma DiscoverFieldValues_nonempty:
  "DiscoverFieldValues http d c src field query start end' = Inr vs \<Longrightarrow> [] \<notin> set vs"
  by (auto simp: DiscoverFieldValues_def ndjson_values_def Let_def
      split: http_result.splits if_splits option.splits prod.splits)

end
