(* ===== verification/Audit_Event.thy ===== *)
theory Audit_Event
  imports VLogs
begin

text \<open>
  The audit event: its schema and JSON form (\<open>kof-operator/internal/audit/types.go\<close>), the
  canonical serialisation (\<open>canonical.go\<close>), and the conversion of a flat VictoriaLogs record
  (\<open>vlogs.go\<close>).

  JSON documents are trees. A Go map in a tree is an association list in the order in which Go
  iterates over it; \<open>eq_tree\<close> identifies trees that differ only in that order. The main
  results: the canonical bytes respect \<open>eq_tree\<close>, the order in which a record's fields are
  visited does not matter as long as no extra key extends another one, and no such extra field
  is lost. \<open>time.Parse\<close> is a parameter.
\<close>

section \<open>Canonical JSON\<close>

datatype jtree = JStr string | JNum nat | JArr "jtree list" | JObj "(string \<times> jtree) list"

text \<open>
  \<open>marshalSorted\<close>. Numbers are the counts of a manifest; they pass through \<open>float64\<close>, which
  is exact below $2^{53}$.
\<close>

fun marshalSorted :: "jtree \<Rightarrow> string" where
  "marshalSorted (JObj val) =
     ''{'' @ join '','' (map (\<lambda>(k, v). json_string k @ '':'' @ v)
        (sort_key fst (map (\<lambda>(k, v). (k, marshalSorted v)) val))) @ ''}''"
| "marshalSorted (JArr val) = ''['' @ join '','' (map marshalSorted val) @ '']''"
| "marshalSorted (JStr s) = json_string s"
| "marshalSorted (JNum n) = dec n"

text \<open>
  The values after the round trip through JSON text. The keys are literals or were decoded from
  JSON, so they are valid UTF-8 and unchanged.
\<close>

fun decoded :: "jtree \<Rightarrow> jtree" where
  "decoded (JObj val) = JObj (map (\<lambda>(k, v). (k, decoded v)) val)"
| "decoded (JArr val) = JArr (map decoded val)"
| "decoded (JStr s) = JStr (utf8_fix s)"
| "decoded (JNum n) = JNum n"

definition marshalCanonical :: "jtree \<Rightarrow> string" where
  "marshalCanonical v = marshalSorted (decoded v)"

section \<open>The schema\<close>

definition TenantPlatform :: string where "TenantPlatform = ''PLATFORM''"
definition ManifestVersion :: string where "ManifestVersion = ''1''"
definition EventSchemaVersion :: string where "EventSchemaVersion = ''1''"
definition SigningAlgorithmHMAC :: string where "SigningAlgorithmHMAC = ''HMAC-SHA256''"

text \<open>The zero value of \<open>time.Time\<close>: 0001-01-01T00:00:00Z.\<close>

definition zero_time :: time where "zero_time = - 62135596800 * second"

record action =
  Outcome :: string
  Verb :: string

record actor =
  ActorID :: string
  ActorType :: string

record authorization =
  Decision :: string
  Policy :: string
  Reason :: string

record event_source =
  IP :: string
  Origin :: string
  UserAgent :: string

record target =
  APIVersion :: string
  Cluster :: string
  Kind :: string
  TName :: string
  Namespace :: string
  Subresource :: string

record audit_event =
  Action :: action
  Actor :: actor
  AuditPolicyVersion :: string
  EAuthorization :: authorization
  ClusterAuditPolicyVersion :: string
  CorrelationID :: string
  EventID :: string
  Justification :: string
  SchemaVersion :: string
  Source :: event_source
  Target :: target
  Tenant :: string
  Time :: time
  Extra :: "(string \<times> jtree) list"

definition msTime_json :: "time \<Rightarrow> jtree" where
  "msTime_json t = JStr (rfc3339_milli t)"

text \<open>The declared fields, in the order of the struct.\<close>

definition auditEventFields :: "audit_event \<Rightarrow> (string \<times> jtree) list" where
  "auditEventFields e =
     [(''action'', JObj [(''outcome'', JStr (Outcome (Action e))), (''verb'', JStr (Verb (Action e)))]),
      (''actor'', JObj [(''id'', JStr (ActorID (Actor e))), (''type'', JStr (ActorType (Actor e)))]),
      (''audit_policy_version'', JStr (AuditPolicyVersion e)),
      (''authorization'', JObj [(''decision'', JStr (Decision (EAuthorization e))),
         (''policy'', JStr (Policy (EAuthorization e))), (''reason'', JStr (Reason (EAuthorization e)))]),
      (''cluster_audit_policy_version'', JStr (ClusterAuditPolicyVersion e)),
      (''correlation_id'', JStr (CorrelationID e)),
      (''event_id'', JStr (EventID e)),
      (''justification'', JStr (Justification e)),
      (''schema_version'', JStr (SchemaVersion e)),
      (''source'', JObj [(''ip'', JStr (IP (Source e))), (''origin'', JStr (Origin (Source e))),
         (''user_agent'', JStr (UserAgent (Source e)))]),
      (''target'', JObj [(''apiVersion'', JStr (APIVersion (Target e))), (''cluster'', JStr (Cluster (Target e))),
         (''kind'', JStr (Kind (Target e))), (''name'', JStr (TName (Target e))),
         (''namespace'', JStr (Namespace (Target e))), (''subresource'', JStr (Subresource (Target e)))]),
      (''tenant'', JStr (Tenant e)),
      (''time'', msTime_json (Time e))]"

text \<open>\<open>AuditEvent.MarshalJSON\<close>: the extra keys that no declared field has are added.\<close>

definition MarshalJSON :: "audit_event \<Rightarrow> jtree" where
  "MarshalJSON e =
     (let base = auditEventFields e in
      if length (Extra e) = 0 then JObj base
      else JObj (fold (\<lambda>(k, v) m. if map_of m k = None then map_set k v m else m) (Extra e) base))"

text \<open>\<open>msTime.UnmarshalJSON\<close>; \<open>parse layout s\<close> is \<open>time.Parse\<close>.\<close>

definition time_layouts :: "string list" where
  "time_layouts = [''2006-01-02T15:04:05.000Z07:00'', ''2006-01-02T15:04:05Z07:00'',
     ''2006-01-02T15:04:05.999999999Z07:00'', ''2006-01-02T15:04:05Z07:00'']"

fun first_parse :: "(string \<Rightarrow> string \<Rightarrow> time option) \<Rightarrow> string list \<Rightarrow> string \<Rightarrow> time option" where
  "first_parse parse [] s = None"
| "first_parse parse (layout # layouts) s =
     (case parse layout s of Some t \<Rightarrow> Some t | None \<Rightarrow> first_parse parse layouts s)"

definition UnmarshalJSON :: "(string \<Rightarrow> string \<Rightarrow> time option) \<Rightarrow> string \<Rightarrow> string + time" where
  "UnmarshalJSON parse b =
     (if length b < 2 then Inl (''invalid time: '' @ b)
      else (let s = butlast (tl b) in
        case first_parse parse time_layouts s of
          Some t \<Rightarrow> Inr t
        | None \<Rightarrow> Inl (''cannot parse time '' @ s)))"

section \<open>From a flat record\<close>

definition knownFlatKeys :: "string list" where
  "knownFlatKeys =
     [''_time'', ''_stream_id'', ''_msg'', ''time'', ''tenant'',
      ''audit_policy_version'', ''cluster_audit_policy_version'', ''correlation_id'', ''event_id'',
      ''justification'', ''schema_version'',
      ''action.outcome'', ''action.verb'', ''actor.id'', ''actor.type'',
      ''authorization.decision'', ''authorization.policy'', ''authorization.reason'',
      ''source.ip'', ''source.origin'', ''source.user_agent'',
      ''target.apiVersion'', ''target.cluster'', ''target.kind'', ''target.name'', ''target.namespace'',
      ''target.subresource'']"

definition sub_object :: "(string \<times> jtree) list \<Rightarrow> string \<Rightarrow> (string \<times> jtree) list" where
  "sub_object m k = (case map_of m k of Some (JObj s) \<Rightarrow> s | _ \<Rightarrow> [])"

fun setNested :: "(string \<times> jtree) list \<Rightarrow> string list \<Rightarrow> string \<Rightarrow> (string \<times> jtree) list" where
  "setNested m [] value = m"
| "setNested m [part] value = map_set part (JStr value) m"
| "setNested m (part # next # parts) value =
     map_set part (JObj (setNested (sub_object m part) (next # parts) value)) m"

definition unflattenExtra :: "string gomap \<Rightarrow> string list \<Rightarrow> (string \<times> jtree) list" where
  "unflattenExtra f known =
     fold (\<lambda>(k, v) nested. if k \<in> set known then nested
                            else setNested nested (split_on (CHR ''.'') k) v) f []"

definition tenantOrPlatform :: "string \<Rightarrow> string" where
  "tenantOrPlatform tenant = (if tenant = [] then TenantPlatform else tenant)"

definition event_time :: "(string \<Rightarrow> string \<Rightarrow> time option) \<Rightarrow> string gomap \<Rightarrow> string + time" where
  "event_time parse f =
     (if get_str f ''time'' \<noteq> [] then
        (case UnmarshalJSON parse ([dquote] @ get_str f ''time'' @ [dquote]) of
           Inl err \<Rightarrow> Inl (''parse event time: '' @ err) | Inr t \<Rightarrow> Inr t)
      else if get_str f ''_time'' \<noteq> [] then
        (case UnmarshalJSON parse ([dquote] @ get_str f ''_time'' @ [dquote]) of
           Inl err \<Rightarrow> Inl (''parse event _time: '' @ err) | Inr t \<Rightarrow> Inr t)
      else Inr zero_time)"

definition flatToAuditEvent :: "(string \<Rightarrow> string \<Rightarrow> time option) \<Rightarrow> string gomap \<Rightarrow> string + audit_event" where
  "flatToAuditEvent parse f =
     (case event_time parse f of
        Inl err \<Rightarrow> Inl err
      | Inr t \<Rightarrow> Inr
          \<lparr>Action = \<lparr>Outcome = get_str f ''action.outcome'', Verb = get_str f ''action.verb''\<rparr>,
           Actor = \<lparr>ActorID = get_str f ''actor.id'', ActorType = get_str f ''actor.type''\<rparr>,
           AuditPolicyVersion = get_str f ''audit_policy_version'',
           EAuthorization = \<lparr>Decision = get_str f ''authorization.decision'',
             Policy = get_str f ''authorization.policy'', Reason = get_str f ''authorization.reason''\<rparr>,
           ClusterAuditPolicyVersion = get_str f ''cluster_audit_policy_version'',
           CorrelationID = get_str f ''correlation_id'',
           EventID = get_str f ''event_id'',
           Justification = get_str f ''justification'',
           SchemaVersion = get_str f ''schema_version'',
           Source = \<lparr>IP = get_str f ''source.ip'', Origin = get_str f ''source.origin'',
             UserAgent = get_str f ''source.user_agent''\<rparr>,
           Target = \<lparr>APIVersion = get_str f ''target.apiVersion'', Cluster = get_str f ''target.cluster'',
             Kind = get_str f ''target.kind'', TName = get_str f ''target.name'',
             Namespace = get_str f ''target.namespace'', Subresource = get_str f ''target.subresource''\<rparr>,
           Tenant = tenantOrPlatform (get_str f ''tenant''),
           Time = t,
           Extra = unflattenExtra f knownFlatKeys\<rparr>)"

section \<open>Trees up to the order of their objects\<close>

inductive eq_tree :: "jtree \<Rightarrow> jtree \<Rightarrow> bool" where
  eq_JStr: "eq_tree (JStr s) (JStr s)"
| eq_JNum: "eq_tree (JNum n) (JNum n)"
| eq_JArr: "list_all2 eq_tree xs ys \<Longrightarrow> eq_tree (JArr xs) (JArr ys)"
| eq_JObj: "wf_map m \<Longrightarrow> wf_map n \<Longrightarrow> (\<And>k. rel_option eq_tree (map_of m k) (map_of n k)) \<Longrightarrow>
     eq_tree (JObj m) (JObj n)"

inductive_cases eq_tree_ObjE: "eq_tree (JObj m) t"
inductive_cases eq_tree_StrE: "eq_tree (JStr s) t"

lemma distinct_mapI_fst: "distinct (map fst xs) \<Longrightarrow> distinct xs"
  by (simp add: distinct_map)

lemma sort_key_set_eq:
  assumes "distinct (map fst xs)" "distinct (map fst ys)" "set xs = set ys"
  shows "sort_key fst xs = sort_key fst (ys :: (string \<times> 'b) list)"
proof (rule sort_key_inj_key_eq)
  show "mset xs = mset (sort_key fst ys)"
    using set_eq_iff_mset_eq_distinct [OF distinct_mapI_fst distinct_mapI_fst, of xs ys] assms by simp
  show "inj_on fst (set xs)" using assms(1) by (simp add: distinct_map)
  show "sorted (map fst (sort_key fst ys))" by simp
qed

text \<open>The canonical bytes depend on the tree alone, not on the order of its maps.\<close>

lemma marshalSorted_eq_tree: "eq_tree s t \<Longrightarrow> marshalSorted s = marshalSorted t"
proof (induction rule: eq_tree.induct)
  case (eq_JArr xs ys)
  then have "map marshalSorted xs = map marshalSorted ys"
    by (induction rule: list_all2_induct) auto
  then show ?case by simp
next
  case (eq_JObj m n)
  let ?f = "\<lambda>(k, v). (k, marshalSorted v)"
  have key: "map fst (map ?f l) = map fst l" for l by auto
  have in_iff: "(k, b) \<in> set (map ?f l) \<longleftrightarrow> map_option marshalSorted (map_of l k) = Some b"
    if "wf_map l" for l k b
    using that by (auto simp: wf_map_mem)
  have "map_option marshalSorted (map_of m k) = map_option marshalSorted (map_of n k)" for k
    using eq_JObj.IH [of k]
    by (cases "map_of m k"; cases "map_of n k") auto
  then have "(k, b) \<in> set (map ?f m) \<longleftrightarrow> (k, b) \<in> set (map ?f n)" for k b
    by (simp only: in_iff [OF eq_JObj.hyps(1)] in_iff [OF eq_JObj.hyps(2)])
  then have "set (map ?f m) = set (map ?f n)" by (simp only: set_eq_iff split_paired_All) simp
  moreover have "distinct (map fst (map ?f m))" "distinct (map fst (map ?f n))"
    using eq_JObj.hyps(1,2) by (simp_all only: key wf_map_def)
  ultimately have "sort_key fst (map ?f m) = sort_key fst (map ?f n)"
    by (intro sort_key_set_eq)
  then show ?case by simp
qed auto

inductive wf_tree :: "jtree \<Rightarrow> bool" where
  "wf_tree (JStr s)"
| "wf_tree (JNum n)"
| "list_all wf_tree xs \<Longrightarrow> wf_tree (JArr xs)"
| "wf_map m \<Longrightarrow> (\<And>k v. map_of m k = Some v \<Longrightarrow> wf_tree v) \<Longrightarrow> wf_tree (JObj m)"

lemma eq_tree_refl: "wf_tree t \<Longrightarrow> eq_tree t t"
proof (induction rule: wf_tree.induct)
  case (3 xs)
  then show ?case by (intro eq_JArr) (auto simp: list_all2_conv_all_nth list_all_length)
next
  case (4 m)
  then have "rel_option eq_tree (map_of m k) (map_of m k)" for k
    by (cases "map_of m k") auto
  with 4 show ?case by (intro eq_JObj)
qed (auto intro: eq_tree.intros)

lemma eq_tree_trans: "eq_tree s t \<Longrightarrow> eq_tree t u \<Longrightarrow> eq_tree s u"
proof (induction arbitrary: u rule: eq_tree.induct)
  case (eq_JArr xs ys)
  from eq_JArr.prems obtain zs where u: "u = JArr zs" "list_all2 eq_tree ys zs"
    by (cases rule: eq_tree.cases) auto
  have "list_all2 eq_tree xs zs"
    using eq_JArr.IH u(2) unfolding list_all2_conv_all_nth by metis
  then show ?case unfolding u by (rule eq_tree.eq_JArr)
next
  case (eq_JObj m n)
  from eq_JObj.prems obtain l where u: "u = JObj l" "wf_map l"
    "\<And>k. rel_option eq_tree (map_of n k) (map_of l k)"
    by (cases rule: eq_tree.cases) auto
  have "rel_option eq_tree (map_of m k) (map_of l k)" for k
    using eq_JObj.IH [of k] u(3) [of k]
    by (cases "map_of m k"; cases "map_of n k"; cases "map_of l k") auto
  with eq_JObj.hyps u show ?case by (auto intro: eq_tree.eq_JObj)
qed auto

lemma eq_tree_sym: "eq_tree s t \<Longrightarrow> eq_tree t s"
proof (induction rule: eq_tree.induct)
  case (eq_JArr xs ys)
  then show ?case by (intro eq_tree.eq_JArr) (auto simp: list_all2_conv_all_nth)
next
  case (eq_JObj m n)
  have "rel_option eq_tree (map_of n k) (map_of m k)" for k
    using eq_JObj.IH [of k] by (cases "map_of m k"; cases "map_of n k") auto
  with eq_JObj.hyps show ?case by (intro eq_tree.eq_JObj)
qed (auto intro: eq_tree.intros)

lemma eq_tree_wf: "eq_tree s t \<Longrightarrow> wf_tree s \<and> wf_tree t"
proof (induction rule: eq_tree.induct)
  case (eq_JArr xs ys)
  then show ?case by (auto intro!: wf_tree.intros simp: list_all2_conv_all_nth list_all_length)
next
  case (eq_JObj m n)
  have "(\<forall>v. map_of m k = Some v \<longrightarrow> wf_tree v) \<and> (\<forall>v. map_of n k = Some v \<longrightarrow> wf_tree v)" for k
    using eq_JObj.IH [of k] by (cases "map_of m k"; cases "map_of n k") auto
  with eq_JObj.hyps show ?case by (auto intro!: wf_tree.intros)
qed (auto intro: wf_tree.intros)

lemma eq_JObj_set:
  assumes "eq_tree (JObj m) (JObj n)" "eq_tree v w"
  shows "eq_tree (JObj (map_set k v m)) (JObj (map_set k w n))"
  using assms(1)
proof (cases rule: eq_tree.cases)
  case eq_JObj
  with assms(2) show ?thesis by (intro eq_tree.eq_JObj) auto
qed

lemma eq_sub_object:
  assumes "eq_tree (JObj m) (JObj n)"
  shows "eq_tree (JObj (sub_object m k)) (JObj (sub_object n k))"
  using assms
proof (cases rule: eq_tree.cases)
  case eq_JObj
  have nil: "eq_tree (JObj []) (JObj [])" by (rule eq_tree.eq_JObj) auto
  show ?thesis
    using eq_JObj(3) [of k] nil
    by (cases "map_of m k"; cases "map_of n k")
      (auto simp: sub_object_def split: jtree.splits elim: eq_tree.cases)
qed

text \<open>Setting a field respects the equivalence, and fields with unrelated paths commute.\<close>

lemma eq_setNested:
  "eq_tree (JObj m) (JObj n) \<Longrightarrow> eq_tree (JObj (setNested m ps v)) (JObj (setNested n ps v))"
proof (induction m ps v arbitrary: n rule: setNested.induct)
  case (2 m part x)
  then show ?case by (simp add: eq_JObj_set eq_JStr)
next
  case (3 m part nxt parts x)
  then show ?case by (simp add: eq_JObj_set eq_sub_object)
qed simp

definition unrelated :: "string list \<Rightarrow> string list \<Rightarrow> bool" where
  "unrelated ps qs \<longleftrightarrow> \<not> prefix ps qs \<and> \<not> prefix qs ps"

lemma sub_object_set: "sub_object (map_set k v m) k' = (if k = k' then (case v of JObj s \<Rightarrow> s | _ \<Rightarrow> []) else sub_object m k')"
  by (simp add: sub_object_def)

lemma setNested_Cons: "ps \<noteq> [] \<Longrightarrow> setNested m (a # ps) v = map_set a (JObj (setNested (sub_object m a) ps v)) m"
  by (cases ps) auto

lemma wf_sub_object: "wf_tree (JObj m) \<Longrightarrow> wf_tree (JObj (sub_object m k))"
  using eq_sub_object eq_tree_refl eq_tree_wf by blast

lemma wf_setNested: "wf_tree (JObj m) \<Longrightarrow> wf_tree (JObj (setNested m ps v))"
  using eq_setNested eq_tree_refl eq_tree_wf by blast

lemma rel_option_refl: "wf_tree (JObj m) \<Longrightarrow> rel_option eq_tree (map_of m k) (map_of m k)"
  using eq_tree_refl [of "JObj m"] by (auto elim: eq_tree.cases)

lemma wf_tree_wf_map: "wf_tree (JObj m) \<Longrightarrow> wf_map m"
  by (auto elim: wf_tree.cases)

lemma eq_set_set:
  assumes "wf_tree (JObj m)" "wf_tree x" "wf_tree y" "a \<noteq> b"
  shows "eq_tree (JObj (map_set b y (map_set a x m))) (JObj (map_set a x (map_set b y m)))"
  using assms rel_option_refl [OF assms(1)] wf_tree_wf_map [OF assms(1)]
  by (intro eq_tree.eq_JObj) (auto simp: eq_tree_refl)

lemma eq_overwrite:
  assumes "wf_tree (JObj m)" "eq_tree x y"
  shows "eq_tree (JObj (map_set a x (map_set a x' m))) (JObj (map_set a y (map_set a y' m)))"
  using assms rel_option_refl [OF assms(1)] wf_tree_wf_map [OF assms(1)]
  by (intro eq_tree.eq_JObj) auto

lemma setNested_commute:
  assumes "wf_tree (JObj m)" "unrelated ps qs"
  shows "eq_tree (JObj (setNested (setNested m ps v) qs w)) (JObj (setNested (setNested m qs w) ps v))"
  using assms
proof (induction ps arbitrary: m qs)
  case Nil
  then show ?case by (simp add: unrelated_def)
next
  case (Cons a ps)
  obtain b rs where qs: "qs = b # rs" using Cons.prems(2) by (cases qs) (auto simp: unrelated_def)
  have val: "setNested m (a # ps) x = map_set a (if ps = [] then JStr x else JObj (setNested (sub_object m a) ps x)) m"
    for m a ps x
    by (cases ps) auto
  show ?case
  proof (cases "a = b")
    case False
    have wf: "wf_tree (if ps = [] then JStr x else JObj (setNested (sub_object m a) ps x))" for ps x a
      using wf_setNested [OF wf_sub_object [OF Cons.prems(1)]] by (auto intro: wf_tree.intros)
    show ?thesis
      using eq_set_set [OF Cons.prems(1) wf [of ps v a] wf [of rs w b] False] False
      by (simp add: qs val sub_object_set cong: if_cong split del: if_split)
  next
    case True
    then have tails: "ps \<noteq> []" "rs \<noteq> []" "unrelated ps rs" using Cons.prems(2) by (auto simp: qs unrelated_def)
    show ?thesis
      using eq_overwrite [OF Cons.prems(1) Cons.IH [OF wf_sub_object [OF Cons.prems(1)] tails(3)]] tails True
      by (simp add: qs setNested_Cons sub_object_set)
  qed
qed

section \<open>The order of the fields of a record\<close>

definition set_field :: "string \<times> string \<Rightarrow> (string \<times> jtree) list \<Rightarrow> (string \<times> jtree) list" where
  "set_field kv nested = setNested nested (split_on (CHR ''.'') (fst kv)) (snd kv)"

definition extra_fields :: "string gomap \<Rightarrow> string gomap" where
  "extra_fields f = filter (\<lambda>(k, v). k \<notin> set knownFlatKeys) f"

text \<open>No extra key is a dotted extension of another one.\<close>

definition keys_unrelated :: "string gomap \<Rightarrow> bool" where
  "keys_unrelated f \<longleftrightarrow>
     (\<forall>kv \<in> set (extra_fields f). \<forall>kv' \<in> set (extra_fields f). fst kv \<noteq> fst kv' \<longrightarrow>
        unrelated (split_on (CHR ''.'') (fst kv)) (split_on (CHR ''.'') (fst kv')))"

lemma unflattenExtra_fold: "unflattenExtra f knownFlatKeys = fold set_field (extra_fields f) []"
proof -
  have "fold (\<lambda>(k, v) nested. if k \<in> set knownFlatKeys then nested
          else setNested nested (split_on (CHR ''.'') k) v) f m = fold set_field (extra_fields f) m" for m
    by (induction f arbitrary: m) (auto simp: extra_fields_def set_field_def)
  then show ?thesis by (simp add: unflattenExtra_def)
qed

lemma eq_fold_set_field:
  "eq_tree (JObj m) (JObj n) \<Longrightarrow> eq_tree (JObj (fold set_field kvs m)) (JObj (fold set_field kvs n))"
  by (induction kvs arbitrary: m n) (auto simp: set_field_def eq_setNested)

lemma wf_fold_set_field: "wf_tree (JObj m) \<Longrightarrow> wf_tree (JObj (fold set_field kvs m))"
  using eq_fold_set_field eq_tree_refl eq_tree_wf by blast

lemma wf_set_field: "wf_tree (JObj m) \<Longrightarrow> wf_tree (JObj (set_field kv m))"
  by (simp add: set_field_def wf_setNested)

lemma fold_set_field_front:
  assumes "wf_tree (JObj m)"
    "\<forall>kv' \<in> set pre. unrelated (split_on (CHR ''.'') (fst kv')) (split_on (CHR ''.'') (fst kv))"
  shows "eq_tree (JObj (fold set_field (pre @ kv # post) m)) (JObj (fold set_field (kv # pre @ post) m))"
  using assms
proof (induction pre arbitrary: m)
  case Nil
  then show ?case by (simp add: eq_tree_refl wf_fold_set_field wf_set_field)
next
  case (Cons p pre)
  have "eq_tree (JObj (fold set_field (pre @ kv # post) (set_field p m)))
      (JObj (fold set_field (kv # pre @ post) (set_field p m)))"
    using Cons.IH [of "set_field p m"] Cons.prems by (simp add: wf_set_field)
  moreover have "eq_tree (JObj (set_field kv (set_field p m))) (JObj (set_field p (set_field kv m)))"
    unfolding set_field_def using Cons.prems by (intro setNested_commute) auto
  ultimately show ?case using eq_fold_set_field eq_tree_trans by fastforce
qed

lemma fold_set_field_perm:
  assumes "mset xs = mset ys" "distinct (map fst xs)" "wf_tree (JObj m)"
    and "\<forall>kv \<in> set xs. \<forall>kv' \<in> set xs. fst kv \<noteq> fst kv' \<longrightarrow>
      unrelated (split_on (CHR ''.'') (fst kv)) (split_on (CHR ''.'') (fst kv'))"
  shows "eq_tree (JObj (fold set_field xs m)) (JObj (fold set_field ys m))"
  using assms
proof (induction xs arbitrary: ys m)
  case Nil
  then show ?case by (simp add: eq_tree_refl)
next
  case (Cons x xs)
  have "x \<in> set ys" using Cons.prems(1) by (metis list.set_intros(1) mset_eq_setD)
  then obtain pre post where ys: "ys = pre @ x # post" by (meson split_list)
  have ms: "mset xs = mset (pre @ post)" using Cons.prems(1) by (simp add: ys)
  then have sub: "set pre \<subseteq> set xs" using mset_eq_setD [OF ms] by auto
  then have "fst kv \<noteq> fst x" "kv \<in> set xs" if "kv \<in> set pre" for kv
    using Cons.prems(2) that by (auto simp: image_iff) (metis subsetD)
  then have un: "\<forall>kv' \<in> set pre. unrelated (split_on (CHR ''.'') (fst kv')) (split_on (CHR ''.'') (fst x))"
    using Cons.prems(4) by auto
  have wf: "wf_tree (JObj (set_field x m))" using Cons.prems(3) by (simp add: set_field_def wf_setNested)
  have "eq_tree (JObj (fold set_field xs (set_field x m))) (JObj (fold set_field (pre @ post) (set_field x m)))"
    using Cons.prems by (intro Cons.IH [OF ms _ wf]) auto
  moreover have "eq_tree (JObj (fold set_field (x # pre @ post) m)) (JObj (fold set_field ys m))"
    using fold_set_field_front [OF Cons.prems(3) un, of post] by (simp add: ys eq_tree_sym)
  ultimately show ?case using eq_tree_trans by fastforce
qed

text \<open>The fields of a tree by their paths.\<close>

fun get_path :: "jtree \<Rightarrow> string list \<Rightarrow> jtree option" where
  "get_path t [] = Some t"
| "get_path (JObj m) (p # ps) = (case map_of m p of None \<Rightarrow> None | Some t \<Rightarrow> get_path t ps)"
| "get_path _ (p # ps) = None"

lemma get_path_set:
  "ps \<noteq> [] \<Longrightarrow> get_path (JObj (setNested m ps v)) ps = Some (JStr v)"
proof (induction m ps v rule: setNested.induct)
  case (3 m part nxt parts x)
  then show ?case by simp
qed auto

lemma get_path_other:
  "unrelated ps qs \<Longrightarrow> get_path (JObj m) qs = Some (JStr w) \<Longrightarrow>
     get_path (JObj (setNested m ps v)) qs = Some (JStr w)"
proof (induction m ps v arbitrary: qs rule: setNested.induct)
  case (2 m part x)
  then show ?case by (cases qs) (auto simp: unrelated_def)
next
  case (3 m part nxt parts x)
  obtain q qs' where qs: "qs = q # qs'" using "3.prems"(1) by (cases qs) (auto simp: unrelated_def)
  show ?case
  proof (cases "q = part")
    case True
    then have "unrelated (nxt # parts) qs'" using "3.prems"(1) by (auto simp: qs unrelated_def)
    moreover have "get_path (JObj (sub_object m part)) qs' = Some (JStr w)"
      using "3.prems" True
      by (cases qs') (auto simp: qs sub_object_def unrelated_def split: option.splits jtree.splits)
    ultimately show ?thesis using "3.IH" True by (simp add: qs)
  qed (use "3.prems" qs in auto)
qed simp

lemma get_path_fold:
  assumes "(k, v) \<in> set kvs" "distinct (map fst kvs)"
    and "\<forall>kv \<in> set kvs. fst kv \<noteq> k \<longrightarrow> unrelated (split_on (CHR ''.'') (fst kv)) (split_on (CHR ''.'') k)"
  shows "get_path (JObj (fold set_field kvs m)) (split_on (CHR ''.'') k) = Some (JStr v)"
proof -
  obtain pre post where kvs: "kvs = pre @ (k, v) # post" using assms(1) by (meson split_list)
  have keep: "get_path (JObj (fold set_field l n)) (split_on (CHR ''.'') k) = Some (JStr v)"
    if "get_path (JObj n) (split_on (CHR ''.'') k) = Some (JStr v)" "set l \<subseteq> set post" for l n
    using that
  proof (induction l arbitrary: n)
    case (Cons x l)
    have "fst x \<noteq> k" "x \<in> set kvs" using Cons.prems(2) assms(2) by (auto simp: kvs image_iff)
    then have "unrelated (split_on (CHR ''.'') (fst x)) (split_on (CHR ''.'') k)" using assms(3) by simp
    then show ?case using Cons by (auto simp: set_field_def get_path_other)
  qed simp
  show ?thesis unfolding kvs by (auto simp: set_field_def intro!: keep get_path_set)
qed

section \<open>The JSON form of an event\<close>

definition declared_names :: "string list" where
  "declared_names = [''action'', ''actor'', ''audit_policy_version'', ''authorization'',
     ''cluster_audit_policy_version'', ''correlation_id'', ''event_id'', ''justification'', ''schema_version'',
     ''source'', ''target'', ''tenant'', ''time'']"

lemma declared: "map fst (auditEventFields e) = declared_names"
  by (simp add: auditEventFields_def declared_names_def)

lemma wf_declared: "wf_map (auditEventFields e)"
proof -
  have "distinct declared_names" by code_simp
  then show ?thesis by (simp add: wf_map_def declared)
qed

lemma wf_JObj_list:
  "wf_map m \<Longrightarrow> \<forall>kv \<in> set m. wf_tree (snd kv) \<Longrightarrow> wf_tree (JObj m)"
  by (rule wf_tree.intros) (fastforce dest: map_of_SomeD)+

lemma wf_tree_declared: "wf_tree (JObj (auditEventFields e))"
  by (rule wf_JObj_list [OF wf_declared])
    (auto simp: auditEventFields_def msTime_json_def intro!: wf_tree.intros(1) wf_JObj_list)

text \<open>The merge: declared fields first, then what the extra fields add.\<close>

lemma fold_add_lookup:
  "wf_map xs \<Longrightarrow> map_of (fold (\<lambda>(k, v) m. if map_of m k = None then map_set k v m else m) xs m) k =
     (case map_of m k of Some v \<Rightarrow> Some v | None \<Rightarrow> map_of xs k)"
proof (induction xs arbitrary: m)
  case (Cons x xs)
  obtain a b where x: "x = (a, b)" by (cases x)
  have "map_of xs a = None" using Cons.prems by (simp add: x map_of_eq_None_iff)
  then show ?case
    using Cons by (auto simp: x split: option.splits)
qed (simp split: option.split)

lemma fold_add_wf:
  "wf_map m \<Longrightarrow> wf_map (fold (\<lambda>(k, v) m. if map_of m k = None then map_set k v m else m) xs m)"
  by (induction xs arbitrary: m) auto

definition merged :: "audit_event \<Rightarrow> (string \<times> jtree) list" where
  "merged e = fold (\<lambda>(k, v) m. if map_of m k = None then map_set k v m else m) (Extra e) (auditEventFields e)"

lemma MarshalJSON_merged: "MarshalJSON e = JObj (merged e)"
  by (simp add: MarshalJSON_def merged_def Let_def)

lemma merged_lookup:
  "wf_map (Extra e) \<Longrightarrow> map_of (merged e) k =
     (case map_of (auditEventFields e) k of Some v \<Rightarrow> Some v | None \<Rightarrow> map_of (Extra e) k)"
  by (simp add: merged_def fold_add_lookup)

lemma eq_tree_merged:
  assumes "eq_tree (JObj (Extra e)) (JObj (Extra e'))" "auditEventFields e = auditEventFields e'"
  shows "eq_tree (JObj (merged e)) (JObj (merged e'))"
proof (rule eq_tree.eq_JObj)
  have wf: "wf_map (Extra e)" "wf_map (Extra e')" "\<And>k. rel_option eq_tree (map_of (Extra e) k) (map_of (Extra e') k)"
    using assms(1) by (auto elim: eq_tree.cases)
  show "wf_map (merged e)" "wf_map (merged e')" by (simp_all add: merged_def fold_add_wf wf_declared)
  show "rel_option eq_tree (map_of (merged e) k) (map_of (merged e') k)" for k
    using rel_option_refl [OF wf_tree_declared [of e], of k] wf(3) [of k] assms(2)
    by (auto simp: merged_lookup wf split: option.split)
qed

lemma map_of_decoded: "map_of (map (\<lambda>(k, v). (k, decoded v)) m) k = map_option decoded (map_of m k)"
  by (simp add: map_of_map)

lemma wf_map_decoded: "wf_map (map (\<lambda>(k, v). (k, decoded v)) m) = wf_map m"
  by (simp add: wf_map_def comp_def case_prod_beta)

lemma eq_tree_decoded: "eq_tree s t \<Longrightarrow> eq_tree (decoded s) (decoded t)"
proof (induction rule: eq_tree.induct)
  case (eq_JArr xs ys)
  then show ?case by (auto intro!: eq_tree.eq_JArr simp: list_all2_conv_all_nth)
next
  case (eq_JObj m n)
  have "rel_option eq_tree (map_option decoded (map_of m k)) (map_option decoded (map_of n k))" for k
    using eq_JObj.IH [of k] by (cases "map_of m k"; cases "map_of n k") auto
  then show ?case
    using eq_JObj.hyps unfolding decoded.simps
    by (intro eq_tree.eq_JObj) (simp_all only: wf_map_decoded map_of_decoded)
qed (auto intro: eq_tree.intros)

lemma wf_nil: "wf_tree (JObj [])"
  by (rule wf_JObj_list) auto

lemma extra_order:
  assumes "same_map f g" "keys_unrelated f"
  shows "eq_tree (JObj (unflattenExtra f knownFlatKeys)) (JObj (unflattenExtra g knownFlatKeys))"
  unfolding unflattenExtra_fold
proof (rule fold_set_field_perm [OF _ _ wf_nil])
  show "mset (extra_fields f) = mset (extra_fields g)"
    using same_map_mset [OF assms(1)] by (simp add: extra_fields_def mset_filter)
  show "distinct (map fst (extra_fields f))"
    using assms(1) wf_map_filter by (auto simp: same_map_def extra_fields_def wf_map_def)
  show "\<forall>kv \<in> set (extra_fields f). \<forall>kv' \<in> set (extra_fields f). fst kv \<noteq> fst kv' \<longrightarrow>
      unrelated (split_on (CHR ''.'') (fst kv)) (split_on (CHR ''.'') (fst kv'))"
    using assms(2) by (simp add: keys_unrelated_def)
qed

text \<open>
  The bytes exported for a record do not depend on the order in which Go iterates over the
  record's fields, as long as no extra key is a dotted extension of another.
\<close>

theorem canonical_bytes_deterministic:
  assumes "same_map f g" "keys_unrelated f"
    and "flatToAuditEvent parse f = Inr e" "flatToAuditEvent parse g = Inr e'"
  shows "marshalCanonical (MarshalJSON e) = marshalCanonical (MarshalJSON e')"
proof -
  have same: "get_str f k = get_str g k" for k by (rule same_map_get_str [OF assms(1)])
  have "event_time parse f = event_time parse g" by (simp add: event_time_def same)
  then have "e' = e\<lparr>Extra := unflattenExtra g knownFlatKeys\<rparr>" "Extra e = unflattenExtra f knownFlatKeys"
    using assms(3,4) by (auto simp: flatToAuditEvent_def same split: sum.splits)
  then have "auditEventFields e = auditEventFields e'" "Extra e = unflattenExtra f knownFlatKeys"
    "Extra e' = unflattenExtra g knownFlatKeys"
    by (simp_all add: auditEventFields_def)
  then have "eq_tree (JObj (merged e)) (JObj (merged e'))"
    using extra_order [OF assms(1,2)] by (intro eq_tree_merged) simp_all
  then show ?thesis
    unfolding marshalCanonical_def MarshalJSON_merged
    by (intro marshalSorted_eq_tree eq_tree_decoded)
qed

text \<open>
  No extra field is lost: a field outside the schema, whose first part is not the name of a
  declared field and whose key is unrelated to the other extra keys, is in the event at its path,
  with its value.
\<close>

theorem extra_field_preserved:
  assumes "wf_map f" "keys_unrelated f" "flatToAuditEvent parse f = Inr e"
    and "map_of f k = Some v" "k \<notin> set knownFlatKeys" "hd (split_on (CHR ''.'') k) \<notin> set declared_names"
  shows "get_path (MarshalJSON e) (split_on (CHR ''.'') k) = Some (JStr v)"
proof -
  have extra: "Extra e = fold set_field (extra_fields f) []"
    using assms(3) by (auto simp: flatToAuditEvent_def unflattenExtra_fold split: sum.splits)
  have "get_path (JObj (Extra e)) (split_on (CHR ''.'') k) = Some (JStr v)"
    unfolding extra
  proof (rule get_path_fold)
    show "(k, v) \<in> set (extra_fields f)" using assms(4,5) by (auto simp: extra_fields_def dest: map_of_SomeD)
    then show "\<forall>kv \<in> set (extra_fields f). fst kv \<noteq> k \<longrightarrow>
        unrelated (split_on (CHR ''.'') (fst kv)) (split_on (CHR ''.'') k)"
      using assms(2) by (force simp: keys_unrelated_def)
    show "distinct (map fst (extra_fields f))"
      using assms(1) wf_map_filter by (auto simp: extra_fields_def wf_map_def)
  qed
  moreover obtain p ps where ps: "split_on (CHR ''.'') k = p # ps" by (cases "split_on (CHR ''.'') k") auto
  moreover have "wf_map (Extra e)"
    using wf_fold_set_field [OF wf_nil] wf_tree_wf_map by (simp add: extra)
  moreover have "map_of (auditEventFields e) p = None"
    using assms(6) ps declared [of e] by (simp add: map_of_eq_None_iff flip: set_map)
  ultimately show ?thesis by (simp add: MarshalJSON_merged merged_lookup)
qed

text \<open>
  An extra field below a declared object is lost: whatever the record, the exported
  \<open>action\<close> holds its two declared fields only.
\<close>

lemma extra_below_declared_lost:
  assumes "flatToAuditEvent parse f = Inr e" "x \<noteq> ''outcome''" "x \<noteq> ''verb''"
  shows "get_path (MarshalJSON e) [''action'', x] = None"
proof -
  have "Extra e = fold set_field (extra_fields f) []"
    using assms(1) by (auto simp: flatToAuditEvent_def unflattenExtra_fold split: sum.splits)
  then have "wf_map (Extra e)" using wf_fold_set_field [OF wf_nil] wf_tree_wf_map by simp
  then have "map_of (merged e) ''action'' =
      Some (JObj [(''outcome'', JStr (Outcome (Action e))), (''verb'', JStr (Verb (Action e)))])"
    by (simp add: merged_lookup auditEventFields_def)
  with assms(2,3) show ?thesis by (simp add: MarshalJSON_merged)
qed

text \<open>
  Of two related extra keys, here \<open>a\<close> and \<open>a.b\<close>, one field is lost, and which one depends
  on the order in which Go visits them: the two orders of one record give different events.
\<close>

lemma related_keys_order_dependent:
  "\<exists>f g e e'. same_map f g \<and> flatToAuditEvent (\<lambda>_ _. None) f = Inr e \<and>
     flatToAuditEvent (\<lambda>_ _. None) g = Inr e' \<and>
     get_path (MarshalJSON e) [''a''] = Some (JObj [(''b'', JStr ''2'')]) \<and>
     get_path (MarshalJSON e') [''a''] = Some (JStr ''1'')"
proof -
  let ?f = "[(''a'', ''1''), (''a.b'', ''2'')] :: string gomap"
  let ?ev = "\<lambda>f. (case flatToAuditEvent (\<lambda>_ _. None) f of Inr e \<Rightarrow> get_path (MarshalJSON e) [''a''] | Inl _ \<Rightarrow> None)"
  have same: "same_map ?f (rev ?f)" by (auto simp: same_map_def)
  have paths: "?ev ?f = Some (JObj [(''b'', JStr ''2'')])" "?ev (rev ?f) = Some (JStr ''1'')" by code_simp+
  have ok: "\<exists>e. flatToAuditEvent (\<lambda>_ _. None) f = Inr e" if "f = ?f \<or> f = rev ?f" for f
    using that by (auto simp: flatToAuditEvent_def event_time_def get_str_def)
  obtain e where e: "flatToAuditEvent (\<lambda>_ _. None) ?f = Inr e" using ok [of ?f] by blast
  obtain e' where e': "flatToAuditEvent (\<lambda>_ _. None) (rev ?f) = Inr e'" using ok [of "rev ?f"] by blast
  from paths have "get_path (MarshalJSON e) [''a''] = Some (JObj [(''b'', JStr ''2'')])"
    "get_path (MarshalJSON e') [''a''] = Some (JStr ''1'')"
    unfolding e e' sum.case .
  with same e e' show ?thesis by blast
qed

definition demo_record :: "string gomap" where
  "demo_record = [(''action.verb'', ''create''), (''custom.field'', ''v''), (''tenant'', ''blue''), (''note'', ''n'')]"

lemma demo_record_facts: "wf_map demo_record" "keys_unrelated demo_record"
  "\<exists>e. flatToAuditEvent (\<lambda>_ _. None) demo_record = Inr e" "same_map demo_record (rev demo_record)"
  "\<exists>e. flatToAuditEvent (\<lambda>_ _. None) (rev demo_record) = Inr e"
proof -
  show wf: "wf_map demo_record" by (simp add: demo_record_def)
  have "list_all (\<lambda>kv. list_all (\<lambda>kv'. fst kv \<noteq> fst kv' \<longrightarrow>
      unrelated (split_on (CHR ''.'') (fst kv)) (split_on (CHR ''.'') (fst kv')))
      (extra_fields demo_record)) (extra_fields demo_record)"
    by code_simp
  then show "keys_unrelated demo_record" by (simp add: keys_unrelated_def list_all_iff)
  show "\<exists>e. flatToAuditEvent (\<lambda>_ _. None) demo_record = Inr e"
    "\<exists>e. flatToAuditEvent (\<lambda>_ _. None) (rev demo_record) = Inr e"
    by (simp_all add: flatToAuditEvent_def event_time_def get_str_def demo_record_def)
  show "same_map demo_record (rev demo_record)"
    using wf by (simp add: same_map_def wf_map_def map_of_inject_set rev_map [symmetric])
qed

theorem canonical_bytes_deterministic_witness:
  "\<exists>e e'. flatToAuditEvent (\<lambda>_ _. None) demo_record = Inr e \<and>
     flatToAuditEvent (\<lambda>_ _. None) (rev demo_record) = Inr e' \<and>
     marshalCanonical (MarshalJSON e) = marshalCanonical (MarshalJSON e')"
  using canonical_bytes_deterministic [OF demo_record_facts(4,2)] demo_record_facts(3,5) by blast

theorem extra_field_preserved_witness:
  "\<exists>e. flatToAuditEvent (\<lambda>_ _. None) demo_record = Inr e \<and>
     get_path (MarshalJSON e) (split_on (CHR ''.'') ''custom.field'') = Some (JStr ''v'')"
proof -
  obtain e where e: "flatToAuditEvent (\<lambda>_ _. None) demo_record = Inr e" using demo_record_facts(3) by blast
  have "get_path (MarshalJSON e) (split_on (CHR ''.'') ''custom.field'') = Some (JStr ''v'')"
  proof (rule extra_field_preserved [OF demo_record_facts(1,2) e])
    show "map_of demo_record ''custom.field'' = Some ''v''" by code_simp
    show "''custom.field'' \<notin> set knownFlatKeys" by code_simp
    show "hd (split_on (CHR ''.'') ''custom.field'') \<notin> set declared_names" by code_simp
  qed
  with e show ?thesis by blast
qed

end
