(* ===== verification/S3_Store.thy ===== *)
theory S3_Store
  imports Kof_Prelude
begin

text \<open>
  The S3 client shared by the exporters (\<open>kof-operator/internal/s3/s3client.go\<close>) and the
  operations the audit exporter adds (\<open>kof-operator/internal/audit/s3client.go\<close>).

  The bucket is a map from keys to bytes. What the service does to each API call is read from a
  plan: the call works, or it fails before it had an effect, or its effect happens and only the
  answer is lost. The theorems hold for every plan, so they cover crashes of the service at any
  point. \<open>written\<close> records the keys in the order they were stored.
\<close>

section \<open>Building a client\<close>

text \<open>
  \<open>NewClient\<close> turns its configuration into the options of the AWS client. Loading the default
  configuration is the SDK's work and may fail: the parameter \<open>load\<close>.
\<close>

record s3_config =
  Endpoint :: string
  Bucket :: string
  Region :: string
  AccessKey :: string
  SecretKey :: string
  UsePathStyle :: bool
  ForceHTTP :: bool

record s3_client =
  client_region :: string
  static_credentials :: "(string \<times> string) option"
  path_style :: bool
  insecure_tls :: bool
  base_endpoint :: "string option"
  client_bucket :: string

definition NewClient :: "(string \<Rightarrow> (string \<times> string) option \<Rightarrow> string option) \<Rightarrow> s3_config \<Rightarrow> string + s3_client" where
  "NewClient load cfg =
     (let creds = (if AccessKey cfg \<noteq> [] \<and> SecretKey cfg \<noteq> [] then Some (AccessKey cfg, SecretKey cfg) else None)
      in case load (Region cfg) creds of
           Some err \<Rightarrow> Inl (''load AWS config: '' @ err)
         | None \<Rightarrow>
             Inr \<lparr>client_region = Region cfg, static_credentials = creds, path_style = UsePathStyle cfg,
                  insecure_tls = ForceHTTP cfg,
                  base_endpoint = (if Endpoint cfg \<noteq> [] then Some (Endpoint cfg) else None),
                  client_bucket = Bucket cfg\<rparr>)"

section \<open>The service\<close>

datatype raw_error = NoSuchKey | NotFoundErr | HTTPStatus nat string | NetworkErr string

datatype fault = Works | Fails raw_error | LostAnswer raw_error

record s3_state =
  objects :: "string gomap"
  plan :: "fault list"
  missing :: raw_error
  objectLock :: bool
  bucket :: string
  written :: "string list"

definition next_fault :: "s3_state \<Rightarrow> fault \<times> s3_state" where
  "next_fault s = (case plan s of [] \<Rightarrow> (Works, s) | f # fs \<Rightarrow> (f, s\<lparr>plan := fs\<rparr>))"

definition store_object :: "string \<Rightarrow> string \<Rightarrow> s3_state \<Rightarrow> s3_state" where
  "store_object key data s = s\<lparr>objects := map_set key data (objects s), written := written s @ [key]\<rparr>"

definition raw_HeadObject :: "string \<Rightarrow> s3_state \<Rightarrow> raw_error option \<times> s3_state" where
  "raw_HeadObject key s =
     (case next_fault s of
        (Works, s') \<Rightarrow> (if map_of (objects s) key = None then Some (missing s) else None, s')
      | (Fails e, s') \<Rightarrow> (Some e, s')
      | (LostAnswer e, s') \<Rightarrow> (Some e, s'))"

definition raw_GetObject :: "string \<Rightarrow> s3_state \<Rightarrow> (raw_error + string) \<times> s3_state" where
  "raw_GetObject key s =
     (case next_fault s of
        (Works, s') \<Rightarrow> (case map_of (objects s) key of None \<Rightarrow> Inl (missing s) | Some d \<Rightarrow> Inr d, s')
      | (Fails e, s') \<Rightarrow> (Inl e, s')
      | (LostAnswer e, s') \<Rightarrow> (Inl e, s'))"

definition raw_PutObject :: "string \<Rightarrow> string \<Rightarrow> s3_state \<Rightarrow> raw_error option \<times> s3_state" where
  "raw_PutObject key data s =
     (case next_fault s of
        (Works, s') \<Rightarrow> (None, store_object key data s')
      | (Fails e, s') \<Rightarrow> (Some e, s')
      | (LostAnswer e, s') \<Rightarrow> (Some e, store_object key data s'))"

text \<open>
  The multipart upload of the transfer manager: a reader that fails makes the upload fail, and
  no object appears.
\<close>

definition raw_Upload :: "string \<Rightarrow> string option \<Rightarrow> s3_state \<Rightarrow> raw_error option \<times> s3_state" where
  "raw_Upload key data s =
     (case data of
        Some d \<Rightarrow> raw_PutObject key d s
      | None \<Rightarrow> (Some (NetworkErr ''read''), snd (next_fault s)))"

section \<open>The client\<close>

datatype s3_error = HeadFailed string raw_error | GetFailed string raw_error | PutFailed string raw_error
  | UploadFailed string raw_error | NoWorm string

text \<open>The three shapes in which S3 and compatible stores report a missing key.\<close>

fun is_not_found :: "raw_error \<Rightarrow> bool" where
  "is_not_found NoSuchKey = True"
| "is_not_found NotFoundErr = True"
| "is_not_found (HTTPStatus code _) = (code = 404)"
| "is_not_found (NetworkErr _) = False"

definition ObjectExists :: "string \<Rightarrow> s3_state \<Rightarrow> (s3_error + bool) \<times> s3_state" where
  "ObjectExists key s =
     (case raw_HeadObject key s of
        (None, s') \<Rightarrow> (Inr True, s')
      | (Some err, s') \<Rightarrow> (if is_not_found err then Inr False else Inl (HeadFailed key err), s'))"

definition PutObject :: "string \<Rightarrow> string \<Rightarrow> s3_state \<Rightarrow> s3_error option \<times> s3_state" where
  "PutObject key data s =
     (case raw_PutObject key data s of
        (None, s') \<Rightarrow> (None, s')
      | (Some err, s') \<Rightarrow> (Some (PutFailed key err), s'))"

definition UploadStream :: "string \<Rightarrow> string option \<Rightarrow> s3_state \<Rightarrow> s3_error option \<times> s3_state" where
  "UploadStream key data s =
     (case raw_Upload key data s of
        (None, s') \<Rightarrow> (None, s')
      | (Some err, s') \<Rightarrow> (Some (UploadFailed key err), s'))"

definition GetObject :: "string \<Rightarrow> s3_state \<Rightarrow> (s3_error + string option) \<times> s3_state" where
  "GetObject key s =
     (case raw_GetObject key s of
        (Inr d, s') \<Rightarrow> (Inr (Some d), s')
      | (Inl err, s') \<Rightarrow> (if is_not_found err then Inr None else Inl (GetFailed key err), s'))"

text \<open>\<open>PreflightBucket\<close>: an error, or the warning, empty where there is none.\<close>

definition PreflightBucket :: "bool \<Rightarrow> s3_state \<Rightarrow> (s3_error + string) \<times> s3_state" where
  "PreflightBucket complianceMode s =
     (case next_fault s of
        (f, s') \<Rightarrow>
          (let wormEnabled = (f = Works \<and> objectLock s) in
           (if complianceMode \<and> \<not> wormEnabled then Inl (NoWorm (bucket s))
            else if \<not> complianceMode \<and> \<not> wormEnabled
            then Inr (''bucket '' @ [CHR 0x22] @ bucket s @ [CHR 0x22] @
                      '' does not have WORM/Object-lock enabled; proceeding without WORM'')
            else Inr [], s')))"

section \<open>Laws\<close>

text \<open>
  A fault is an outage: it never looks like a missing key. A missing key is reported in one of
  the three shapes.
\<close>

fun outage :: "fault \<Rightarrow> bool" where
  "outage Works = True"
| "outage (Fails e) = (\<not> is_not_found e)"
| "outage (LostAnswer e) = (\<not> is_not_found e)"

definition s3_invar :: "s3_state \<Rightarrow> bool" where
  "s3_invar s \<longleftrightarrow> wf_map (objects s) \<and> is_not_found (missing s) \<and> list_all outage (plan s)"

definition object_at :: "s3_state \<Rightarrow> string \<Rightarrow> string option" where
  "object_at s = map_of (objects s)"

text \<open>
  The interface of the exporters to the store: reading changes nothing and tells the truth;
  writing a key stores the data, or fails and leaves the key with the old or the new data; no
  other key is touched.
\<close>

locale object_store =
  fixes inv :: "'s \<Rightarrow> bool"
    and at :: "'s \<Rightarrow> string \<Rightarrow> string option"
    and exist :: "string \<Rightarrow> 's \<Rightarrow> ('e + bool) \<times> 's"
    and put :: "string \<Rightarrow> string \<Rightarrow> 's \<Rightarrow> 'e option \<times> 's"
  assumes exist_frame: "exist k s = (r, s') \<Longrightarrow> inv s \<Longrightarrow> inv s' \<and> at s' = at s"
    and exist_true: "exist k s = (Inr b, s') \<Longrightarrow> inv s \<Longrightarrow> b = (at s k \<noteq> None)"
    and put_ok: "put k d s = (None, s') \<Longrightarrow> inv s \<Longrightarrow> at s' = (at s)(k \<mapsto> d)"
    and put_err: "put k d s = (Some e, s') \<Longrightarrow> inv s \<Longrightarrow> at s' = at s \<or> at s' = (at s)(k \<mapsto> d)"
    and put_inv: "put k d s = (x, s') \<Longrightarrow> inv s \<Longrightarrow> inv s'"
begin

lemma put_other: "put k d s = (e, s') \<Longrightarrow> inv s \<Longrightarrow> k' \<noteq> k \<Longrightarrow> at s' k' = at s k'"
  using put_ok put_err by (cases e) (metis fun_upd_other)+

lemma put_grows: "put k d s = (e, s') \<Longrightarrow> inv s \<Longrightarrow> at s k' \<noteq> None \<Longrightarrow> at s' k' \<noteq> None"
  using put_ok put_err by (cases e) (metis fun_upd_apply option.distinct(1))+

lemma put_key: "put k d s = (e, s') \<Longrightarrow> inv s \<Longrightarrow> at s' k = at s k \<or> at s' k = Some d"
  using put_ok put_err by (cases e) (metis fun_upd_same)+

text \<open>A write that was acknowledged is seen by every later check that answers.\<close>

lemma put_then_exist:
  assumes "put k d s = (None, s')" "inv s" "exist k s' = (Inr b, s'')"
  shows b
  using assms put_ok put_inv exist_true by (metis fun_upd_same option.distinct(1))

end

lemma next_fault_frame:
  assumes "next_fault s = (f, s')"
  shows "objects s' = objects s" "missing s' = missing s" "written s' = written s"
    "objectLock s' = objectLock s" "bucket s' = bucket s"
    and "s3_invar s \<Longrightarrow> s3_invar s' \<and> outage f"
  using assms by (auto simp: next_fault_def s3_invar_def split: list.splits)

lemma s3_invar_store: "s3_invar s \<Longrightarrow> s3_invar (store_object k d s)"
  by (simp add: s3_invar_def store_object_def)

lemma object_at_store [simp]: "object_at (store_object k d s) = (object_at s)(k \<mapsto> d)"
  by (simp add: object_at_def store_object_def)

lemma ObjectExists_frame:
  "ObjectExists k s = (r, s') \<Longrightarrow> s3_invar s \<Longrightarrow> s3_invar s' \<and> object_at s' = object_at s \<and> written s' = written s"
  by (auto simp: ObjectExists_def raw_HeadObject_def object_at_def split: prod.splits fault.splits if_splits
      dest: next_fault_frame)

lemma ObjectExists_true:
  "ObjectExists k s = (Inr b, s') \<Longrightarrow> s3_invar s \<Longrightarrow> b = (object_at s k \<noteq> None)"
  using next_fault_frame(6) [of s]
  by (auto simp: ObjectExists_def raw_HeadObject_def object_at_def s3_invar_def [of s]
      split: prod.splits fault.splits if_splits)

lemma GetObject_frame:
  "GetObject k s = (r, s') \<Longrightarrow> s3_invar s \<Longrightarrow> s3_invar s' \<and> object_at s' = object_at s \<and> written s' = written s"
  by (auto simp: GetObject_def raw_GetObject_def object_at_def split: prod.splits fault.splits if_splits sum.splits
      dest: next_fault_frame)

lemma GetObject_true:
  "GetObject k s = (Inr d, s') \<Longrightarrow> s3_invar s \<Longrightarrow> d = object_at s k"
  using next_fault_frame(6) [of s]
  by (auto simp: GetObject_def raw_GetObject_def object_at_def s3_invar_def [of s]
      split: prod.splits fault.splits if_splits sum.splits option.splits)

text \<open>The three things a write can do: store, fail, or store and report a failure.\<close>

definition write_effect :: "string \<Rightarrow> string \<Rightarrow> bool \<Rightarrow> s3_state \<Rightarrow> s3_state \<Rightarrow> bool" where
  "write_effect k d ok s s' \<longleftrightarrow>
     s3_invar s' \<and>
     (object_at s' = (object_at s)(k \<mapsto> d) \<and> written s' = written s @ [k] \<or>
      \<not> ok \<and> object_at s' = object_at s \<and> written s' = written s)"

lemma raw_PutObject_effect:
  assumes "raw_PutObject k d s = (e, s')" "s3_invar s"
  shows "write_effect k d (e = None) s s'"
proof -
  obtain f s1 where nf: "next_fault s = (f, s1)" by fastforce
  note frame = next_fault_frame [OF nf]
  have "s3_invar s1" "object_at s1 = object_at s" using frame assms(2) by (auto simp: object_at_def)
  moreover have "written (store_object k d s1) = written s @ [k]" using frame by (simp add: store_object_def)
  ultimately show ?thesis
    using assms(1) nf frame
    by (cases f) (auto simp: raw_PutObject_def write_effect_def s3_invar_store)
qed

lemma PutObject_effect:
  "PutObject k d s = (e, s') \<Longrightarrow> s3_invar s \<Longrightarrow> write_effect k d (e = None) s s'"
  by (auto simp: PutObject_def split: prod.splits option.splits dest: raw_PutObject_effect)

lemma UploadStream_effect:
  "UploadStream k (Some d) s = (e, s') \<Longrightarrow> s3_invar s \<Longrightarrow> write_effect k d (e = None) s s'"
  by (auto simp: UploadStream_def raw_Upload_def split: prod.splits option.splits dest: raw_PutObject_effect)

lemma UploadStream_None:
  assumes "UploadStream k None s = (e, s')" "s3_invar s"
  shows "s3_invar s'" "e \<noteq> None" "object_at s' = object_at s" "written s' = written s"
  using assms next_fault_frame [of s]
  by (auto simp: UploadStream_def raw_Upload_def object_at_def split: prod.splits) (metis prod.collapse)+

interpretation s3_put: object_store s3_invar object_at ObjectExists PutObject
  using ObjectExists_frame ObjectExists_true PutObject_effect [unfolded write_effect_def]
  by unfold_locales (metis option.distinct(1))+

interpretation s3_upload: object_store s3_invar object_at ObjectExists "\<lambda>k d. UploadStream k (Some d)"
  using ObjectExists_frame ObjectExists_true UploadStream_effect [unfolded write_effect_def]
  by unfold_locales (metis option.distinct(1))+

end
