(* ===== verification/Audit_Config.thy ===== *)
theory Audit_Config
  imports Env S3_Store
begin

text \<open>
  The configuration of the audit exporter (\<open>kof-operator/internal/audit/config.go\<close>) and the
  S3 client built from it (\<open>NewS3Client\<close> of \<open>s3client.go\<close>).
\<close>

record audit_config =
  VLogsURL :: string
  S3Endpoint :: string
  S3Bucket :: string
  S3Prefix :: string
  S3AccessKey :: string
  S3SecretKey :: string
  S3Region :: string
  S3UsePathStyle :: bool
  S3ForceHTTP :: bool
  ComplianceMode :: bool
  KMSKeyID :: string
  Streams :: "string list"
  Tenants :: "string list"
  ExportDelay :: duration
  CatchUpHours :: int
  ProducerName :: string
  ProducerVersion :: string

definition StreamTenantAuditLog :: string where "StreamTenantAuditLog = ''tenant-audit-log''"
definition StreamPlatformAuditLog :: string where "StreamPlatformAuditLog = ''platform-audit-log''"

text \<open>The loop that reads a comma-separated list, shared by all lists of both exporters.\<close>

definition comma_list :: "string \<Rightarrow> string list" where
  "comma_list raw = filter (\<lambda>s. s \<noteq> []) (map trim_space (split_on (CHR '','') raw))"

definition optional_list :: "environ \<Rightarrow> string \<Rightarrow> string list" where
  "optional_list e key = (if Getenv e key \<noteq> [] then comma_list (Getenv e key) else [])"

datatype config_error = EmptyList string | BucketRequired | KeysNotPaired | UnknownSource string

definition LoadConfig :: "environ \<Rightarrow> config_error + audit_config" where
  "LoadConfig e =
     (let cfg = \<lparr>VLogsURL = GetEnvOrDefault e ''VLOGS_URL'' ''http://vlselect:9471'',
        S3Endpoint = GetEnvOrDefault e ''S3_ENDPOINT'' [],
        S3Bucket = GetEnvOrDefault e ''S3_BUCKET'' [],
        S3Prefix = GetEnvOrDefault e ''S3_PREFIX'' ''audit'',
        S3AccessKey = GetEnvOrDefault e ''S3_ACCESS_KEY'' [],
        S3SecretKey = GetEnvOrDefault e ''S3_SECRET_KEY'' [],
        S3Region = GetEnvOrDefault e ''S3_REGION'' ''us-east-1'',
        S3UsePathStyle = GetEnvBool e ''S3_USE_PATH_STYLE'' True,
        S3ForceHTTP = GetEnvBool e ''S3_FORCE_HTTP'' False,
        ComplianceMode = GetEnvBool e ''COMPLIANCE_MODE'' False,
        KMSKeyID = GetEnvOrDefault e ''KMS_KEY_ID'' ''local-dev-key'',
        Streams = comma_list (GetEnvOrDefault e ''STREAMS'' (StreamTenantAuditLog @ '','' @ StreamPlatformAuditLog)),
        Tenants = optional_list e ''TENANTS'',
        ExportDelay = GetEnvDuration e ''EXPORT_DELAY'' (5 * minute),
        CatchUpHours = GetEnvInt e ''CATCHUP_HOURS'' 24,
        ProducerName = GetEnvOrDefault e ''PRODUCER_NAME'' ''audit-logs-exporter'',
        ProducerVersion = GetEnvOrDefault e ''PRODUCER_VERSION'' ''v0.1.0''\<rparr>
      in if length (Streams cfg) = 0 then Inl (EmptyList ''STREAMS'')
         else if S3Bucket cfg = [] then Inl BucketRequired
         else if (S3AccessKey cfg = []) \<noteq> (S3SecretKey cfg = []) then Inl KeysNotPaired
         else Inr cfg)"

definition producer :: "audit_config \<Rightarrow> string" where
  "producer c = ProducerName c @ ''/'' @ ProducerVersion c"

definition NewS3Client ::
  "(string \<Rightarrow> (string \<times> string) option \<Rightarrow> string option) \<Rightarrow> audit_config \<Rightarrow> string + s3_client" where
  "NewS3Client load cfg = NewClient load
     \<lparr>Endpoint = S3Endpoint cfg, Bucket = S3Bucket cfg, Region = S3Region cfg, AccessKey = S3AccessKey cfg,
      SecretKey = S3SecretKey cfg, UsePathStyle = S3UsePathStyle cfg, ForceHTTP = S3ForceHTTP cfg\<rparr>"

section \<open>Well-formed configurations\<close>

lemma comma_list_nonempty: "[] \<notin> set (comma_list raw)"
  by (simp add: comma_list_def)

lemma optional_list_nonempty: "[] \<notin> set (optional_list e key)"
  by (simp add: optional_list_def comma_list_nonempty)

lemma GetEnvOrDefault_nonempty: "def \<noteq> [] \<Longrightarrow> GetEnvOrDefault e key def \<noteq> []"
  by (simp add: GetEnvOrDefault_def split: option.split)

definition valid_config :: "audit_config \<Rightarrow> bool" where
  "valid_config c \<longleftrightarrow>
     Streams c \<noteq> [] \<and> [] \<notin> set (Streams c) \<and> [] \<notin> set (Tenants c) \<and> S3Bucket c \<noteq> [] \<and> VLogsURL c \<noteq> [] \<and>
     (S3AccessKey c = [] \<longleftrightarrow> S3SecretKey c = []) \<and>
     - (2 ^ 63) \<le> CatchUpHours c \<and> CatchUpHours c < 2 ^ 63 \<and> - (2 ^ 63) \<le> ExportDelay c \<and> ExportDelay c < 2 ^ 63"

text \<open>
  C13: a configuration that loads is well-formed: non-empty streams without blank names, a bucket,
  both access keys or none, and 64-bit numbers; the static credentials of the client are exactly
  the configured pair.
\<close>

theorem LoadConfig_valid:
  assumes "LoadConfig e = Inr cfg"
  shows "valid_config cfg \<and>
    (\<forall>load c. NewS3Client load cfg = Inr c \<longrightarrow>
       static_credentials c = (if S3AccessKey cfg = [] then None else Some (S3AccessKey cfg, S3SecretKey cfg)))"
proof -
  have "valid_config cfg"
    using assms GetEnvInt_range [of 24 e "''CATCHUP_HOURS''"]
      GetEnvDuration_range [of "5 * minute" e "''EXPORT_DELAY''"]
      GetEnvOrDefault_nonempty [of "''http://vlselect:9471''" e "''VLOGS_URL''"]
    by (auto simp: LoadConfig_def valid_config_def Let_def comma_list_nonempty optional_list_nonempty
        minute_def second_def split: if_splits)
  then show ?thesis
    by (auto simp: valid_config_def NewS3Client_def NewClient_def Let_def split: option.splits if_splits)
qed

definition demo_environ :: environ where
  "demo_environ = [(''S3_BUCKET'', ''b''), (''STREAMS'', '' tenant-audit-log ,,''), (''CATCHUP_HOURS'', ''6''),
     (''EXPORT_DELAY'', ''1h30m'')]"

lemma demo_environ_loads:
  "(case LoadConfig demo_environ of
      Inl _ \<Rightarrow> False
    | Inr cfg \<Rightarrow> Streams cfg = [''tenant-audit-log''] \<and> CatchUpHours cfg = 6 \<and> ExportDelay cfg = 90 * minute)"
  by code_simp

theorem LoadConfig_valid_witness:
  "(case LoadConfig demo_environ of
      Inl _ \<Rightarrow> False
    | Inr cfg \<Rightarrow> valid_config cfg \<and> ExportDelay cfg = 90 * minute)"
  using demo_environ_loads LoadConfig_valid [of demo_environ]
  by (auto split: sum.splits)

end
