(* ===== verification/Audit_Export.thy ===== *)
theory Audit_Export
  imports Audit_Event Audit_Config
begin

text \<open>
  The audit-log exporter (\<open>kof-operator/internal/audit\<close>: \<open>manifest.go\<close>, \<open>exporter.go\<close>,
  \<open>kms.go\<close>, the client part of \<open>vlogs.go\<close> and the windows of \<open>types.go\<close>).

  A run computes the hours to export, skips those with a manifest, and for each remaining
  window streams the events into the bucket and seals them with a signed manifest that names the
  hash of the data and of the previous hour's manifest. The S3 operations may fail at any call
  (theory \<open>S3_Store\<close>); VictoriaLogs answers by \<open>http\<close>. Parameters (\<open>audit_env\<close>): the HTTP
  exchange, \<open>gzip\<close>, \<open>sha256\<close>, \<open>hmac\<close>, base64, \<open>strconv.Quote\<close>, \<open>time.Parse\<close>,
  \<open>json.Valid\<close>.
\<close>

section \<open>The environment\<close>

record audit_env =
  http :: "string \<Rightarrow> http_result"
  decoder :: field_values_decoder
  strconv_Quote :: "string \<Rightarrow> string"
  time_Parse :: "string \<Rightarrow> string \<Rightarrow> time option"
  gzip :: "string \<Rightarrow> string"
  sha256 :: "string \<Rightarrow> string"
  hmac_sha256 :: "string \<Rightarrow> string \<Rightarrow> string"
  base64_encode :: "string \<Rightarrow> string"
  base64_decode :: "string \<Rightarrow> string option"
  json_Valid :: "string \<Rightarrow> bool"

section \<open>Signing\<close>

record signer =
  Sign :: "string \<Rightarrow> string + string"
  KeyID :: string
  Algorithm :: string

definition key_material :: "audit_env \<Rightarrow> string \<Rightarrow> string" where
  "key_material env keyID =
     (case base64_decode env keyID of
        Some k \<Rightarrow> if length k = 0 then keyID else k
      | None \<Rightarrow> keyID)"

definition NewLocalSigner :: "audit_env \<Rightarrow> string \<Rightarrow> signer" where
  "NewLocalSigner env keyID =
     \<lparr>Sign = (\<lambda>data. Inr (base64_encode env (hmac_sha256 env (key_material env keyID) data))),
      KeyID = keyID, Algorithm = SigningAlgorithmHMAC\<rparr>"

definition NewSigner :: "audit_env \<Rightarrow> audit_config \<Rightarrow> signer" where
  "NewSigner env cfg = NewLocalSigner env (KMSKeyID cfg)"

section \<open>Querying VictoriaLogs\<close>

definition buildLogsQL :: "audit_env \<Rightarrow> string \<Rightarrow> string" where
  "buildLogsQL env tenant =
     (if tenant = TenantPlatform
      then ''tenant:'' @ [dquote] @ ''PLATFORM'' @ [dquote] @ '' OR tenant:'' @ [dquote, dquote]
      else ''tenant:'' @ strconv_Quote env tenant)"

definition NewVLogsClient :: "string \<Rightarrow> base_client" where
  "NewVLogsClient baseURL = NewBaseClient baseURL"

definition QueryEvents ::
  "audit_env \<Rightarrow> base_client \<Rightarrow> string \<Rightarrow> time \<Rightarrow> time \<Rightarrow> source_error + (string \<times> bool)" where
  "QueryEvents env c tenant start end' =
     QueryStream (http env) c ''VictoriaLogs'' ''/select/logsql/query''
       (Values_Set ''end'' (rfc3339 end')
         (Values_Set ''start'' (rfc3339 start) (Values_Set ''query'' (buildLogsQL env tenant) [])))"

definition DiscoverTenants ::
  "audit_env \<Rightarrow> base_client \<Rightarrow> time \<Rightarrow> time \<Rightarrow> source_error + string list" where
  "DiscoverTenants env c start end' =
     (case DiscoverFieldValues (http env) (decoder env) c ''VictoriaLogs'' ''tenant'' ''*'' start end' of
        Inl e \<Rightarrow> Inl e
      | Inr all \<Rightarrow> Inr (filter (\<lambda>v. v \<noteq> [] \<and> v \<noteq> TenantPlatform) all))"

section \<open>Windows\<close>

record export_window =
  WStream :: string
  WTenant :: string
  Start :: time
  End :: time

definition S3KeyPrefix :: "string \<Rightarrow> export_window \<Rightarrow> string" where
  "S3KeyPrefix pre w =
     (if pre \<noteq> []
      then pre @ ''/'' @ WStream w @ ''/'' @ WTenant w @ ''/'' @ hour_path (Start w) @ ''/''
      else WStream w @ ''/'' @ WTenant w @ ''/'' @ hour_path (Start w) @ ''/'')"

definition manifest_key :: "audit_config \<Rightarrow> export_window \<Rightarrow> string" where
  "manifest_key cfg w = S3KeyPrefix (S3Prefix cfg) w @ ''manifest.json''"

definition data_key :: "audit_config \<Rightarrow> export_window \<Rightarrow> string" where
  "data_key cfg w = S3KeyPrefix (S3Prefix cfg) w @ ''data.jsonl.gz''"

definition sig_key :: "audit_config \<Rightarrow> export_window \<Rightarrow> string" where
  "sig_key cfg w = S3KeyPrefix (S3Prefix cfg) w @ ''manifest.json.sig''"

section \<open>Compressing the events\<close>

record data_stats =
  eventCount :: nat
  sizeBytes :: nat
  sha256hex :: string
  auditPolicyVersions :: "string list"
  clusterAuditPolicyVersions :: "string list"

datatype compress_error = ParseLine nat | EventLine nat string | ReadingEvents scan_error

record compress_state =
  out :: string
  auditPolicies :: "unit gomap"
  clusterPolicies :: "unit gomap"
  events :: nat

definition add_version :: "string \<Rightarrow> unit gomap \<Rightarrow> unit gomap" where
  "add_version v m = (if v \<noteq> [] then map_set v () m else m)"

definition compress_line :: "audit_env \<Rightarrow> nat \<Rightarrow> string \<Rightarrow> compress_state \<Rightarrow> compress_error + compress_state" where
  "compress_line env lineNum text st =
     (let line = trim_space text in
      if line = [] then Inr st
      else (case (case unmarshal_flat line of JsonError \<Rightarrow> None | JsonNull \<Rightarrow> Some [] | JsonMap m \<Rightarrow> Some m) of
          None \<Rightarrow> Inl (ParseLine lineNum)
        | Some flat \<Rightarrow>
            (case flatToAuditEvent (time_Parse env) flat of
               Inl err \<Rightarrow> Inl (EventLine lineNum err)
             | Inr ev \<Rightarrow>
                 Inr \<lparr>out = out st @ marshalCanonical (MarshalJSON ev) @ [CHR 0x0A],
                      auditPolicies = add_version (AuditPolicyVersion ev) (auditPolicies st),
                      clusterPolicies = add_version (ClusterAuditPolicyVersion ev) (clusterPolicies st),
                      events = events st + 1\<rparr>)))"

fun compress_lines :: "audit_env \<Rightarrow> nat \<Rightarrow> string list \<Rightarrow> compress_state \<Rightarrow> compress_error + compress_state" where
  "compress_lines env lineNum [] st = Inr st"
| "compress_lines env lineNum (l # ls) st =
     (case compress_line env (lineNum + 1) l st of
        Inl e \<Rightarrow> Inl e
      | Inr st' \<Rightarrow> compress_lines env (lineNum + 1) ls st')"

definition sortedKeys :: "unit gomap \<Rightarrow> string list" where
  "sortedKeys m = sort (map fst m)"

text \<open>
  \<open>compressEvents\<close>: the bytes written to the pipe, and the statistics. The counting writer and
  the hash see the compressed bytes.
\<close>

definition compressEvents :: "audit_env \<Rightarrow> string \<times> bool \<Rightarrow> compress_error + (string \<times> data_stats)" where
  "compressEvents env body =
     (case scan_lines (1024 * 1024) (fst body) (snd body) of
        (ls, serr) \<Rightarrow>
          (case compress_lines env 0 ls \<lparr>out = [], auditPolicies = [], clusterPolicies = [], events = 0\<rparr> of
             Inl e \<Rightarrow> Inl e
           | Inr st \<Rightarrow>
               (case serr of
                  Some e \<Rightarrow> Inl (ReadingEvents e)
                | None \<Rightarrow>
                    (let bytes = gzip env (out st) in
                     Inr (bytes, \<lparr>eventCount = events st, sizeBytes = length bytes,
                                  sha256hex = hex_encode (sha256 env bytes),
                                  auditPolicyVersions = sortedKeys (auditPolicies st),
                                  clusterAuditPolicyVersions = sortedKeys (clusterPolicies st)\<rparr>)))))"

datatype stream_error = Compress compress_error | UploadStreamErr s3_error

text \<open>
  \<open>streamDataToS3\<close>: the compressor and the upload run concurrently over a pipe. A failing
  compressor closes the pipe with its error, so the upload fails and stores nothing.
\<close>

definition streamDataToS3 ::
  "audit_env \<Rightarrow> string \<times> bool \<Rightarrow> string \<Rightarrow> s3_state \<Rightarrow> (stream_error + data_stats) \<times> s3_state" where
  "streamDataToS3 env body key s =
     (case compressEvents env body of
        Inl e \<Rightarrow> (case UploadStream key None s of (_, s') \<Rightarrow> (Inl (Compress e), s'))
      | Inr (bytes, stats) \<Rightarrow>
          (case UploadStream key (Some bytes) s of
             (None, s') \<Rightarrow> (Inr stats, s')
           | (Some e, s') \<Rightarrow> (Inl (UploadStreamErr e), s')))"

section \<open>The manifest\<close>

record manifest =
  AuditPolicyVersions :: "string list"
  ClusterAuditPolicyVersions :: "string list"
  CreatedAt :: time
  DataFileName :: string
  DataFileSHA256 :: string
  DataFileSizeBytes :: nat
  EventCount :: nat
  MEventSchemaVersion :: string
  MKMSKeyID :: string
  MManifestVersion :: string
  PreviousManifestSHA256 :: string
  Producer :: string
  SigningAlgorithm :: string
  MStream :: string
  MTenant :: string
  WindowEnd :: time
  WindowStart :: time

definition manifest_json :: "manifest \<Rightarrow> jtree" where
  "manifest_json m = JObj
     [(''audit_policy_versions'', JArr (map JStr (AuditPolicyVersions m))),
      (''cluster_audit_policy_versions'', JArr (map JStr (ClusterAuditPolicyVersions m))),
      (''created_at'', msTime_json (CreatedAt m)),
      (''data_file'', JObj [(''name'', JStr (DataFileName m)), (''sha256'', JStr (DataFileSHA256 m)),
         (''size_bytes'', JNum (DataFileSizeBytes m))]),
      (''event_count'', JNum (EventCount m)),
      (''event_schema_version'', JStr (MEventSchemaVersion m)),
      (''kms_key_id'', JStr (MKMSKeyID m)),
      (''manifest_version'', JStr (MManifestVersion m)),
      (''previous_manifest_sha256'', JStr (PreviousManifestSHA256 m)),
      (''producer'', JStr (Producer m)),
      (''signing_algorithm'', JStr (SigningAlgorithm m)),
      (''stream'', JStr (MStream m)),
      (''tenant'', JStr (MTenant m)),
      (''window_end'', msTime_json (WindowEnd m)),
      (''window_start'', msTime_json (WindowStart m))]"

definition previous_window :: "export_window \<Rightarrow> export_window" where
  "previous_window w = \<lparr>WStream = WStream w, WTenant = WTenant w, Start = Start w - hour, End = Start w\<rparr>"

datatype previous_error = PrevS3 s3_error | PrevInvalid

definition previousManifestSHA256 ::
  "audit_env \<Rightarrow> audit_config \<Rightarrow> export_window \<Rightarrow> s3_state \<Rightarrow> (previous_error + string) \<times> s3_state" where
  "previousManifestSHA256 env cfg w s =
     (case GetObject (manifest_key cfg (previous_window w)) s of
        (Inl e, s') \<Rightarrow> (Inl (PrevS3 e), s')
      | (Inr None, s') \<Rightarrow> (Inr [], s')
      | (Inr (Some data), s') \<Rightarrow>
          if \<not> json_Valid env data then (Inl PrevInvalid, s')
          else (Inr (hex_encode (sha256 env data)), s'))"

definition mk_manifest ::
  "audit_config \<Rightarrow> signer \<Rightarrow> time \<Rightarrow> export_window \<Rightarrow> data_stats \<Rightarrow> string \<Rightarrow> manifest" where
  "mk_manifest cfg sg created w stats prevSHA256 =
     \<lparr>AuditPolicyVersions = auditPolicyVersions stats,
      ClusterAuditPolicyVersions = clusterAuditPolicyVersions stats,
      CreatedAt = created,
      DataFileName = ''data.jsonl.gz'', DataFileSHA256 = sha256hex stats,
      DataFileSizeBytes = sizeBytes stats, EventCount = eventCount stats,
      MEventSchemaVersion = EventSchemaVersion, MKMSKeyID = KeyID sg, MManifestVersion = ManifestVersion,
      PreviousManifestSHA256 = prevSHA256, Producer = producer cfg, SigningAlgorithm = Algorithm sg,
      MStream = WStream w, MTenant = WTenant w, WindowEnd = End w, WindowStart = Start w\<rparr>"

datatype window_error =
    IdempotencyCheck s3_error
  | SourceErr source_error
  | CompliancePreCheck s3_error
  | PartialUpload string
  | StreamData stream_error
  | SignManifest string
  | UploadSig s3_error
  | UploadManifest s3_error

text \<open>The steps of \<open>exportWindow\<close> after the data file: chain, sign, upload.\<close>

definition seal_window ::
  "audit_env \<Rightarrow> audit_config \<Rightarrow> signer \<Rightarrow> time \<Rightarrow> export_window \<Rightarrow> data_stats \<Rightarrow> s3_state \<Rightarrow>
     window_error option \<times> s3_state" where
  "seal_window env cfg sg created w stats s =
     (case previousManifestSHA256 env cfg w s of
        (prev, s1) \<Rightarrow>
          (let prevSHA256 = (case prev of Inl _ \<Rightarrow> [] | Inr h \<Rightarrow> h);
               manifestBytes = marshalCanonical (manifest_json (mk_manifest cfg sg created w stats prevSHA256))
           in case Sign sg manifestBytes of
                Inl e \<Rightarrow> (Some (SignManifest e), s1)
              | Inr sigBytes \<Rightarrow>
                  (case PutObject (sig_key cfg w) sigBytes s1 of
                     (Some e, s2) \<Rightarrow> (Some (UploadSig e), s2)
                   | (None, s2) \<Rightarrow>
                       (case PutObject (manifest_key cfg w) manifestBytes s2 of
                          (Some e, s3) \<Rightarrow> (Some (UploadManifest e), s3)
                        | (None, s3) \<Rightarrow> (None, s3)))))"

text \<open>The compliance pre-check: a data file without a manifest stops the export.\<close>

definition compliance_check ::
  "audit_config \<Rightarrow> export_window \<Rightarrow> s3_state \<Rightarrow> window_error option \<times> s3_state" where
  "compliance_check cfg w s =
     (if ComplianceMode cfg then
        (case ObjectExists (data_key cfg w) s of
           (Inl e, s') \<Rightarrow> (Some (CompliancePreCheck e), s')
         | (Inr True, s') \<Rightarrow> (Some (PartialUpload (data_key cfg w)), s')
         | (Inr False, s') \<Rightarrow> (None, s'))
      else (None, s))"

definition exportWindow ::
  "audit_env \<Rightarrow> audit_config \<Rightarrow> signer \<Rightarrow> time \<Rightarrow> export_window \<Rightarrow> s3_state \<Rightarrow>
     window_error option \<times> s3_state" where
  "exportWindow env cfg sg created w s =
     (case ObjectExists (manifest_key cfg w) s of
        (Inl e, s1) \<Rightarrow> (Some (IdempotencyCheck e), s1)
      | (Inr True, s1) \<Rightarrow> (None, s1)
      | (Inr False, s1) \<Rightarrow>
          (case QueryEvents env (NewVLogsClient (VLogsURL cfg)) (WTenant w) (Start w) (End w) of
             Inl e \<Rightarrow> (Some (SourceErr e), s1)
           | Inr body \<Rightarrow>
               (case compliance_check cfg w s1 of
                  (Some e, s2) \<Rightarrow> (Some e, s2)
                | (None, s2) \<Rightarrow>
                    (case streamDataToS3 env body (data_key cfg w) s2 of
                       (Inl e, s3) \<Rightarrow> (Some (StreamData e), s3)
                     | (Inr stats, s3) \<Rightarrow> seal_window env cfg sg created w stats s3))))"

section \<open>A run of the exporter\<close>

datatype collect_error = GetTenants string source_error | CheckManifest string s3_error

definition tenantsForStream ::
  "audit_env \<Rightarrow> audit_config \<Rightarrow> string \<Rightarrow> time \<Rightarrow> time \<Rightarrow> source_error + string list" where
  "tenantsForStream env cfg stream from upToEnd =
     (if stream = StreamPlatformAuditLog then Inr [TenantPlatform]
      else if length (Tenants cfg) > 0 then Inr (Tenants cfg)
      else DiscoverTenants env (NewVLogsClient (VLogsURL cfg)) from upToEnd)"

definition hour_window :: "string \<Rightarrow> string \<Rightarrow> time \<Rightarrow> export_window" where
  "hour_window stream tenant start =
     \<lparr>WStream = stream, WTenant = tenant, Start = start, End = start + hour\<rparr>"

text \<open>The innermost loop: the hours of one tenant, without those that have a manifest.\<close>

function collect_hours ::
  "audit_config \<Rightarrow> string \<Rightarrow> string \<Rightarrow> time \<Rightarrow> time \<Rightarrow> s3_state \<Rightarrow> (collect_error + export_window list) \<times> s3_state"
where
  "collect_hours cfg stream tenant wStart upToEnd s =
     (if wStart < upToEnd then
        (case ObjectExists (manifest_key cfg (hour_window stream tenant wStart)) s of
           (Inl e, s1) \<Rightarrow> (Inl (CheckManifest (manifest_key cfg (hour_window stream tenant wStart)) e), s1)
         | (Inr exists, s1) \<Rightarrow>
             (case collect_hours cfg stream tenant (wStart + hour) upToEnd s1 of
                (Inl e, s2) \<Rightarrow> (Inl e, s2)
              | (Inr ws, s2) \<Rightarrow> (Inr (if exists then ws else hour_window stream tenant wStart # ws), s2)))
      else (Inr [], s))"
  by pat_completeness auto
termination
  by (relation "measure (\<lambda>(_, _, _, t, u, _). nat (u - t))") auto

declare collect_hours.simps [simp del]

fun collect_tenants ::
  "audit_config \<Rightarrow> string \<Rightarrow> string list \<Rightarrow> time \<Rightarrow> time \<Rightarrow> s3_state \<Rightarrow> (collect_error + export_window list) \<times> s3_state"
where
  "collect_tenants cfg stream [] from upToEnd s = (Inr [], s)"
| "collect_tenants cfg stream (tenant # tenants) from upToEnd s =
     (case collect_hours cfg stream tenant from upToEnd s of
        (Inl e, s1) \<Rightarrow> (Inl e, s1)
      | (Inr ws, s1) \<Rightarrow>
          (case collect_tenants cfg stream tenants from upToEnd s1 of
             (Inl e, s2) \<Rightarrow> (Inl e, s2)
           | (Inr ws', s2) \<Rightarrow> (Inr (ws @ ws'), s2)))"

fun collect_streams ::
  "audit_env \<Rightarrow> audit_config \<Rightarrow> string list \<Rightarrow> time \<Rightarrow> time \<Rightarrow> s3_state \<Rightarrow> (collect_error + export_window list) \<times> s3_state"
where
  "collect_streams env cfg [] from upToEnd s = (Inr [], s)"
| "collect_streams env cfg (stream # streams) from upToEnd s =
     (case tenantsForStream env cfg stream from upToEnd of
        Inl e \<Rightarrow> (Inl (GetTenants stream e), s)
      | Inr tenants \<Rightarrow>
          (case collect_tenants cfg stream tenants from upToEnd s of
             (Inl e, s1) \<Rightarrow> (Inl e, s1)
           | (Inr ws, s1) \<Rightarrow>
               (case collect_streams env cfg streams from upToEnd s1 of
                  (Inl e, s2) \<Rightarrow> (Inl e, s2)
                | (Inr ws', s2) \<Rightarrow> (Inr (ws @ ws'), s2))))"

definition collectWindows ::
  "audit_env \<Rightarrow> audit_config \<Rightarrow> time \<Rightarrow> time \<Rightarrow> s3_state \<Rightarrow> (collect_error + export_window list) \<times> s3_state" where
  "collectWindows env cfg from upToEnd s = collect_streams env cfg (Streams cfg) from upToEnd s"

datatype run_error =
    PreflightFailed s3_error
  | CollectFailed collect_error
  | ContextCancelled
  | SourceOutage source_error
  | WindowsFailed window_error

text \<open>
  The loop over the windows; \<open>clock\<close> and \<open>cancelled\<close> are read once per window. The last
  argument is the error recorded so far.
\<close>

fun export_windows ::
  "audit_env \<Rightarrow> audit_config \<Rightarrow> signer \<Rightarrow> (nat \<Rightarrow> time) \<Rightarrow> (nat \<Rightarrow> bool) \<Rightarrow> nat \<Rightarrow> export_window list \<Rightarrow>
     run_error option \<Rightarrow> s3_state \<Rightarrow> run_error option \<times> s3_state"
where
  "export_windows env cfg sg clock cancelled i [] exportErr s = (exportErr, s)"
| "export_windows env cfg sg clock cancelled i (w # ws) exportErr s =
     (if cancelled i then (Some ContextCancelled, s)
      else (case exportWindow env cfg sg (clock i) w s of
          (None, s1) \<Rightarrow> export_windows env cfg sg clock cancelled (i + 1) ws exportErr s1
        | (Some (SourceErr (SourceUnavailableError src cause)), s1) \<Rightarrow>
            (Some (SourceOutage (SourceUnavailableError src cause)), s1)
        | (Some e, s1) \<Rightarrow>
            export_windows env cfg sg clock cancelled (i + 1) ws (Some (WindowsFailed e)) s1))"

text \<open>The end of the last window and the start of the first one, from the time of the run.\<close>

definition previousHourEnd :: "audit_config \<Rightarrow> time \<Rightarrow> time" where
  "previousHourEnd cfg now =
     (let e = truncate_hour now in if now - e < ExportDelay cfg then e - hour else e)"

definition catchUpStart :: "audit_config \<Rightarrow> time \<Rightarrow> time" where
  "catchUpStart cfg now = previousHourEnd cfg now - hour + int64 (- (CatchUpHours cfg - 1) * hour)"

definition Run ::
  "audit_env \<Rightarrow> audit_config \<Rightarrow> signer \<Rightarrow> time \<Rightarrow> (nat \<Rightarrow> time) \<Rightarrow> (nat \<Rightarrow> bool) \<Rightarrow> s3_state \<Rightarrow>
     run_error option \<times> s3_state" where
  "Run env cfg sg now clock cancelled s =
     (case PreflightBucket (ComplianceMode cfg) s of
        (Inl e, s1) \<Rightarrow> (Some (PreflightFailed e), s1)
      | (Inr warn, s1) \<Rightarrow>
          (case collectWindows env cfg (catchUpStart cfg now) (previousHourEnd cfg now) s1 of
             (Inl e, s2) \<Rightarrow> (Some (CollectFailed e), s2)
           | (Inr windows, s2) \<Rightarrow> export_windows env cfg sg clock cancelled 0 windows None s2))"

section \<open>The process\<close>

text \<open>\<open>NewExporter\<close> and the program \<open>cmd/audit-logs-exporter\<close>, with its exit status.\<close>

record audit_exporter =
  x_cfg :: audit_config
  x_vlogs :: base_client
  x_s3 :: s3_client
  x_signer :: signer

type_synonym aws_load = "string \<Rightarrow> (string \<times> string) option \<Rightarrow> string option"

definition NewExporter :: "audit_env \<Rightarrow> aws_load \<Rightarrow> audit_config \<Rightarrow> string + audit_exporter" where
  "NewExporter env load c =
     (case NewS3Client load c of
        Inl err \<Rightarrow> Inl (''create S3 client: '' @ err)
      | Inr client \<Rightarrow>
          Inr \<lparr>x_cfg = c, x_vlogs = NewVLogsClient (VLogsURL c), x_s3 = client, x_signer = NewSigner env c\<rparr>)"

definition audit_main ::
  "audit_env \<Rightarrow> aws_load \<Rightarrow> environ \<Rightarrow> time \<Rightarrow> (nat \<Rightarrow> time) \<Rightarrow> (nat \<Rightarrow> bool) \<Rightarrow> s3_state \<Rightarrow> nat \<times> s3_state" where
  "audit_main env load e now clock cancelled s =
     (case LoadConfig e of
        Inl _ \<Rightarrow> (1, s)
      | Inr c \<Rightarrow>
          (case NewExporter env load c of
             Inl _ \<Rightarrow> (1, s)
           | Inr x \<Rightarrow>
               (case Run env (x_cfg x) (x_signer x) now clock cancelled s of
                  (Some _, s') \<Rightarrow> (1, s')
                | (None, s') \<Rightarrow> (0, s'))))"

section \<open>Keys\<close>

lemma hour_path_split: "length (split_on (CHR ''/'') (hour_path t)) = 4"
  by (simp add: hour_path_parts split: prod.split)

lemma split_tail_inject:
  assumes "u @ CHR ''/'' # hour_path t @ CHR ''/'' # n = u' @ CHR ''/'' # hour_path t' @ CHR ''/'' # n'"
    and "CHR ''/'' \<notin> set n" "CHR ''/'' \<notin> set n'"
  shows "u = u' \<and> hour_path t = hour_path t' \<and> n = n'"
proof -
  let ?s = "split_on (CHR ''/'')"
  have "?s u @ ?s (hour_path t) @ ?s n = ?s u' @ ?s (hour_path t') @ ?s n'"
    using arg_cong [OF assms(1), of ?s] by (simp only: split_on_append_sep append_assoc)
  moreover have "length (?s n) = length (?s n')" using assms(2,3) by (simp add: split_on_plain)
  ultimately have "?s u = ?s u'" "?s (hour_path t) = ?s (hour_path t')" "?s n = ?s n'"
    by (simp_all add: append_eq_append_conv hour_path_split)
  then show ?thesis by (metis join_split_on)
qed

lemma key_inject:
  assumes "S3KeyPrefix p w @ n = S3KeyPrefix p w' @ n'"
    and "CHR ''/'' \<notin> set n" "CHR ''/'' \<notin> set n'"
    and "CHR ''/'' \<notin> set (WStream w)" "CHR ''/'' \<notin> set (WStream w')"
  shows "WStream w = WStream w' \<and> WTenant w = WTenant w' \<and>
    truncate_hour (Start w) = truncate_hour (Start w') \<and> n = n'"
proof -
  have "\<exists>q. \<forall>w n. S3KeyPrefix p w @ n =
      (q @ WStream w @ CHR ''/'' # WTenant w) @ CHR ''/'' # hour_path (Start w) @ CHR ''/'' # n"
    by (rule exI [of _ "if p \<noteq> [] then p @ ''/'' else []"]) (simp add: S3KeyPrefix_def)
  then obtain q where q: "S3KeyPrefix p w @ n =
      (q @ WStream w @ CHR ''/'' # WTenant w) @ CHR ''/'' # hour_path (Start w) @ CHR ''/'' # n" for w n by blast
  have parts: "q @ WStream w @ CHR ''/'' # WTenant w = q @ WStream w' @ CHR ''/'' # WTenant w'"
    "hour_path (Start w) = hour_path (Start w')" "n = n'"
    using split_tail_inject [OF assms(1) [unfolded q] assms(2,3)] by auto
  from parts(1) have e: "WStream w @ CHR ''/'' # WTenant w = WStream w' @ CHR ''/'' # WTenant w'" by simp
  have "split_on (CHR ''/'') (WStream w @ CHR ''/'' # WTenant w) = WStream w # split_on (CHR ''/'') (WTenant w)"
    "split_on (CHR ''/'') (WStream w' @ CHR ''/'' # WTenant w') = WStream w' # split_on (CHR ''/'') (WTenant w')"
    using assms(4,5) by (simp_all add: split_on_append_sep split_on_plain)
  with e have "WStream w = WStream w'" by simp
  with e parts show ?thesis by (simp add: hour_path_inject)
qed

definition valid_window :: "export_window \<Rightarrow> bool" where
  "valid_window w \<longleftrightarrow> CHR ''/'' \<notin> set (WStream w) \<and> hour dvd Start w \<and> End w = Start w + hour"

lemma valid_previous: "valid_window w \<Longrightarrow> valid_window (previous_window w)"
  by (auto simp: valid_window_def previous_window_def)

lemma previous_window_neq: "previous_window w \<noteq> w"
  by (rule notI, drule arg_cong [of _ _ Start]) (simp add: previous_window_def)

lemma valid_hour_window:
  "hour dvd t \<Longrightarrow> CHR ''/'' \<notin> set stream \<Longrightarrow> valid_window (hour_window stream tenant t)"
  by (simp add: valid_window_def hour_window_def)

lemma names_no_slash:
  "CHR ''/'' \<notin> set ''manifest.json''" "CHR ''/'' \<notin> set ''data.jsonl.gz''" "CHR ''/'' \<notin> set ''manifest.json.sig''"
  by simp_all

lemma valid_key_inject:
  assumes "valid_window w" "valid_window w'" "CHR ''/'' \<notin> set n" "CHR ''/'' \<notin> set n'"
  shows "S3KeyPrefix p w @ n = S3KeyPrefix p w' @ n' \<longleftrightarrow> w = w' \<and> n = n'"
  using key_inject [of p w n w' n'] assms
  by (auto simp: valid_window_def truncate_hour_id)

text \<open>The twelve comparisons of keys of two windows.\<close>

lemma keys_eq:
  assumes "valid_window w" "valid_window w'"
  shows "manifest_key cfg w = manifest_key cfg w' \<longleftrightarrow> w = w'" "data_key cfg w = data_key cfg w' \<longleftrightarrow> w = w'"
    "sig_key cfg w = sig_key cfg w' \<longleftrightarrow> w = w'"
    "manifest_key cfg w \<noteq> data_key cfg w'" "manifest_key cfg w \<noteq> sig_key cfg w'"
    "data_key cfg w \<noteq> manifest_key cfg w'" "data_key cfg w \<noteq> sig_key cfg w'"
    "sig_key cfg w \<noteq> manifest_key cfg w'" "sig_key cfg w \<noteq> data_key cfg w'"
  using names_no_slash unfolding manifest_key_def data_key_def sig_key_def
  by (simp_all add: valid_key_inject [OF assms] valid_key_inject [OF assms, of "[]" "[]", simplified]
      del: append_same_eq)

section \<open>Sealed windows\<close>

text \<open>
  A manifest in the bucket seals its window: the data file and the signature are there, the
  manifest is the canonical form of a manifest of this window with the hash and the size of
  exactly that data file, the signature is its signature, and the hash of the previous manifest
  is empty or that of the manifest stored for the previous hour.
\<close>

definition sealed :: "audit_env \<Rightarrow> audit_config \<Rightarrow> signer \<Rightarrow> s3_state \<Rightarrow> export_window \<Rightarrow> bool" where
  "sealed env cfg sg s w \<longleftrightarrow>
     (\<forall>mb. object_at s (manifest_key cfg w) = Some mb \<longrightarrow>
        (\<exists>stats data sig created prev.
           object_at s (data_key cfg w) = Some data \<and>
           sha256hex stats = hex_encode (sha256 env data) \<and> sizeBytes stats = length data \<and>
           mb = marshalCanonical (manifest_json (mk_manifest cfg sg created w stats prev)) \<and>
           object_at s (sig_key cfg w) = Some sig \<and> Sign sg mb = Inr sig \<and>
           (prev = [] \<or> (\<exists>pm. object_at s (manifest_key cfg (previous_window w)) = Some pm \<and>
              prev = hex_encode (sha256 env pm)))))"

definition audit_inv :: "audit_env \<Rightarrow> audit_config \<Rightarrow> signer \<Rightarrow> s3_state \<Rightarrow> bool" where
  "audit_inv env cfg sg s \<longleftrightarrow> s3_invar s \<and> (\<forall>w. valid_window w \<longrightarrow> sealed env cfg sg s w)"

lemma audit_inv_frame: "object_at s' = object_at s \<Longrightarrow> s3_invar s' \<Longrightarrow> audit_inv env cfg sg s \<Longrightarrow> audit_inv env cfg sg s'"
  by (simp add: audit_inv_def sealed_def)

text \<open>While its manifest is absent, the other files of a window may be written freely.\<close>

lemma audit_inv_side_file:
  assumes "audit_inv env cfg sg s" "valid_window w" "object_at s (manifest_key cfg w) = None"
    and "k = data_key cfg w \<or> k = sig_key cfg w"
    and "s3_invar s'" "object_at s' = object_at s \<or> object_at s' = (object_at s)(k \<mapsto> d)"
  shows "audit_inv env cfg sg s' \<and> object_at s' (manifest_key cfg w) = None"
proof -
  have "sealed env cfg sg s' w'" if w': "valid_window w'" for w'
  proof (cases "w' = w")
    case True
    then show ?thesis using assms(3,4,6) keys_eq [OF assms(2) assms(2)] by (auto simp: sealed_def)
  next
    case False
    have "sealed env cfg sg s w'" using assms(1) w' by (simp add: audit_inv_def)
    moreover have "k \<noteq> manifest_key cfg w'" "k \<noteq> data_key cfg w'" "k \<noteq> sig_key cfg w'"
      "k \<noteq> manifest_key cfg (previous_window w')"
      using assms(4) False keys_eq [OF assms(2) w'] keys_eq(6,8) [OF assms(2) valid_previous [OF w']]
      by metis+
    ultimately show ?thesis using assms(6) by (auto simp: sealed_def)
  qed
  moreover have "object_at s' (manifest_key cfg w) = None"
    using assms(3,4,6) keys_eq [OF assms(2) assms(2)] by auto
  ultimately show ?thesis using assms(5) by (simp add: audit_inv_def)
qed

text \<open>Writing a manifest for complete data and signature keeps every window sealed.\<close>

lemma audit_inv_manifest:
  assumes "audit_inv env cfg sg s" "valid_window w" "object_at s (manifest_key cfg w) = None"
    and "object_at s (data_key cfg w) = Some data" "sha256hex stats = hex_encode (sha256 env data)"
    and "sizeBytes stats = length data"
    and mb: "mb = marshalCanonical (manifest_json (mk_manifest cfg sg created w stats prev))"
    and "object_at s (sig_key cfg w) = Some sig" "Sign sg mb = Inr sig"
    and "prev = [] \<or> (\<exists>pm. object_at s (manifest_key cfg (previous_window w)) = Some pm \<and>
      prev = hex_encode (sha256 env pm))"
    and "s3_invar s'" "object_at s' = object_at s \<or> object_at s' = (object_at s)(manifest_key cfg w \<mapsto> mb)"
  shows "audit_inv env cfg sg s'"
proof -
  have pw: "manifest_key cfg (previous_window w) \<noteq> manifest_key cfg w"
    using keys_eq(1) [OF valid_previous [OF assms(2)] assms(2)] previous_window_neq by simp
  have "sealed env cfg sg s' w'" if w': "valid_window w'" for w'
  proof (cases "w' = w")
    case True
    have "object_at s' (data_key cfg w) = Some data" "object_at s' (sig_key cfg w) = Some sig"
      "object_at s' (manifest_key cfg (previous_window w)) = object_at s (manifest_key cfg (previous_window w))"
      using assms(4,8,12) keys_eq [OF assms(2) assms(2)] pw by auto
    then show ?thesis
      using True assms(3,5-7,9,10,12) by (auto simp: sealed_def) (metis assms(9))+
  next
    case False
    have "sealed env cfg sg s w'" using assms(1) w' by (simp add: audit_inv_def)
    moreover have "manifest_key cfg w \<noteq> manifest_key cfg w'" "manifest_key cfg w \<noteq> data_key cfg w'"
      "manifest_key cfg w \<noteq> sig_key cfg w'"
      using False keys_eq [OF assms(2) w'] by auto
    ultimately show ?thesis
      using assms(3,12) by (auto simp: sealed_def) metis
  qed
  then show ?thesis using assms(11) by (simp add: audit_inv_def)
qed

section \<open>Exporting keeps windows sealed\<close>

lemma previousManifest_frame:
  assumes "previousManifestSHA256 env cfg w s = (prev, s')" "s3_invar s"
  shows "s3_invar s'" "object_at s' = object_at s" "written s' = written s"
    and "prev = Inr h \<Longrightarrow> h = [] \<or> (\<exists>pm. object_at s (manifest_key cfg (previous_window w)) = Some pm \<and>
      h = hex_encode (sha256 env pm))"
proof -
  obtain g s1 where g: "GetObject (manifest_key cfg (previous_window w)) s = (g, s1)" by fastforce
  note frame = GetObject_frame [OF g assms(2)]
  have "s' = s1" using assms(1) g by (auto simp: previousManifestSHA256_def split: sum.splits option.splits if_splits)
  with frame show "s3_invar s'" "object_at s' = object_at s" "written s' = written s" by auto
  show "h = [] \<or> (\<exists>pm. object_at s (manifest_key cfg (previous_window w)) = Some pm \<and>
      h = hex_encode (sha256 env pm))" if "prev = Inr h"
    using assms g that GetObject_true [of "manifest_key cfg (previous_window w)" s]
    by (auto simp: previousManifestSHA256_def split: sum.splits option.splits if_splits)
qed

text \<open>
  What one call leaves behind: the invariant, and of the three files of the window a prefix of
  data, signature, manifest, in that order.
\<close>

definition window_step ::
  "audit_env \<Rightarrow> audit_config \<Rightarrow> signer \<Rightarrow> export_window \<Rightarrow> s3_state \<Rightarrow> window_error option \<times> s3_state \<Rightarrow> string list \<Rightarrow> bool" where
  "window_step env cfg sg w s r ks \<longleftrightarrow>
     audit_inv env cfg sg (snd r) \<and>
     (\<exists>n. written (snd r) = written s @ take n ks) \<and>
     (\<forall>k. k \<notin> set ks \<longrightarrow> object_at (snd r) k = object_at s k) \<and>
     (fst r = None \<longrightarrow> object_at (snd r) (manifest_key cfg w) \<noteq> None)"

lemma seal_window_step:
  assumes "audit_inv env cfg sg s" "valid_window w" "object_at s (manifest_key cfg w) = None"
    and "object_at s (data_key cfg w) = Some data" "sha256hex stats = hex_encode (sha256 env data)"
    and "sizeBytes stats = length data"
  shows "window_step env cfg sg w s (seal_window env cfg sg created w stats s)
    [sig_key cfg w, manifest_key cfg w]"
proof -
  obtain prev s1 where p: "previousManifestSHA256 env cfg w s = (prev, s1)" by fastforce
  define h where "h = (case prev of Inl _ \<Rightarrow> [] | Inr h \<Rightarrow> h)"
  define mb where "mb = marshalCanonical (manifest_json (mk_manifest cfg sg created w stats h))"
  have inv: "s3_invar s" using assms(1) by (simp add: audit_inv_def)
  note f1 = previousManifest_frame [OF p inv]
  have prev: "h = [] \<or> (\<exists>pm. object_at s1 (manifest_key cfg (previous_window w)) = Some pm \<and>
      h = hex_encode (sha256 env pm))"
    using f1(2,4) by (cases prev) (auto simp: h_def)
  have i1: "audit_inv env cfg sg s1" using audit_inv_frame [OF f1(2,1) assms(1)] .
  show ?thesis
  proof (cases "Sign sg mb")
    case (Inl e)
    then have "seal_window env cfg sg created w stats s = (Some (SignManifest e), s1)"
      by (simp add: seal_window_def p flip: h_def mb_def)
    then show ?thesis using i1 f1 by (auto simp: window_step_def intro: exI [of _ 0])
  next
    case (Inr sig)
    obtain e2 s2 where p2: "PutObject (sig_key cfg w) sig s1 = (e2, s2)" by fastforce
    note eff2 = PutObject_effect [OF p2 f1(1), unfolded write_effect_def]
    have m1: "object_at s1 (manifest_key cfg w) = None" using assms(3) f1(2) by simp
    have i2: "audit_inv env cfg sg s2 \<and> object_at s2 (manifest_key cfg w) = None"
      using eff2 by (intro audit_inv_side_file [OF i1 assms(2) m1, of "sig_key cfg w" s2 sig]) auto
    show ?thesis
    proof (cases e2)
      case (Some e)
      then have r: "seal_window env cfg sg created w stats s = (Some (UploadSig e), s2)"
        using Inr p2 by (simp add: seal_window_def p flip: h_def mb_def)
      have "\<exists>n. written s2 = written s @ take n [sig_key cfg w, manifest_key cfg w]"
        using eff2 f1(3) by (auto intro: exI [of _ 0] exI [of _ 1])
      with r i2 eff2 f1(2) show ?thesis by (auto simp: window_step_def)
    next
      case None
      obtain e3 s3 where p3: "PutObject (manifest_key cfg w) mb s2 = (e3, s3)" by fastforce
      note eff3 = PutObject_effect [OF p3, unfolded write_effect_def]
      have at2: "object_at s2 = (object_at s1)(sig_key cfg w \<mapsto> sig)" "written s2 = written s1 @ [sig_key cfg w]"
        and inv2: "s3_invar s2"
        using eff2 None by auto
      have i3: "audit_inv env cfg sg s3"
      proof (rule audit_inv_manifest [where s = s2 and s' = s3])
        show "object_at s2 (data_key cfg w) = Some data"
          using at2(1) f1(2) assms(4) keys_eq [OF assms(2) assms(2)] by simp
        show "h = [] \<or> (\<exists>pm. object_at s2 (manifest_key cfg (previous_window w)) = Some pm \<and>
            h = hex_encode (sha256 env pm))"
          using prev at2(1) keys_eq(5) [OF valid_previous [OF assms(2)] assms(2)] by auto
        show "mb = marshalCanonical (manifest_json (mk_manifest cfg sg created w stats h))" by (rule mb_def)
      qed (use i2 assms at2 Inr eff3 inv2 in auto)
      have r: "seal_window env cfg sg created w stats s = (map_option UploadManifest e3, s3)"
        using Inr p2 None p3 by (cases e3) (simp_all add: seal_window_def p flip: h_def mb_def)
      have "\<exists>n. written s3 = written s @ take n [sig_key cfg w, manifest_key cfg w]"
        using eff3 inv2 at2(2) f1(3) by (auto intro: exI [of _ 1] exI [of _ 2])
      with r i3 eff3 inv2 at2(1) f1(2) show ?thesis by (auto simp: window_step_def)
    qed
  qed
qed

lemma window_step_trans:
  assumes "audit_inv env cfg sg s'" "written s' = written s @ [k]" "\<forall>k'. k' \<noteq> k \<longrightarrow> object_at s' k' = object_at s k'"
    and "window_step env cfg sg w s' r ks"
  shows "window_step env cfg sg w s r (k # ks)"
proof -
  obtain n where "written (snd r) = written s' @ take n ks" using assms(4) by (auto simp: window_step_def)
  then have "written (snd r) = written s @ take (Suc n) (k # ks)" using assms(2) by simp
  then show ?thesis using assms(3,4) unfolding window_step_def by (metis list.set_intros)
qed

lemma window_step_stop:
  assumes "audit_inv env cfg sg s'" "written s' = written s \<or> written s' = written s @ [hd ks]" "ks \<noteq> []"
    "\<forall>k'. k' \<notin> set ks \<longrightarrow> object_at s' k' = object_at s k'"
  shows "window_step env cfg sg w s (Some e, s') ks"
proof -
  have "\<exists>n. written s' = written s @ take n ks"
    using assms(2,3) by (cases ks) (auto intro: exI [of _ 0] exI [of _ 1])
  with assms show ?thesis by (simp add: window_step_def)
qed

definition window_keys :: "audit_config \<Rightarrow> export_window \<Rightarrow> string list" where
  "window_keys cfg w = [data_key cfg w, sig_key cfg w, manifest_key cfg w]"

lemma compressEvents_stats:
  "compressEvents env body = Inr (bytes, stats) \<Longrightarrow>
     sha256hex stats = hex_encode (sha256 env bytes) \<and> sizeBytes stats = length bytes"
  by (auto simp: compressEvents_def Let_def split: prod.splits sum.splits option.splits)

lemma stream_and_seal_step:
  assumes "audit_inv env cfg sg s" "valid_window w" "object_at s (manifest_key cfg w) = None"
    and "streamDataToS3 env body (data_key cfg w) s = (x, s')"
  shows "x = Inl e \<Longrightarrow> window_step env cfg sg w s (Some (StreamData e), s') (window_keys cfg w)"
    and "x = Inr stats \<Longrightarrow>
      window_step env cfg sg w s (seal_window env cfg sg created w stats s') (window_keys cfg w)"
proof -
  have inv: "s3_invar s" using assms(1) by (simp add: audit_inv_def)
  have side: "audit_inv env cfg sg t \<and> object_at t (manifest_key cfg w) = None"
    if "s3_invar t" "object_at t = object_at s \<or> object_at t = (object_at s)(data_key cfg w \<mapsto> d)" for t d
    using that by (intro audit_inv_side_file [OF assms(1-3), of "data_key cfg w" t d]) auto
  show "window_step env cfg sg w s (Some (StreamData e), s') (window_keys cfg w)" if x: "x = Inl e"
  proof (cases "compressEvents env body")
    case (Inl ce)
    obtain u where u: "UploadStream (data_key cfg w) None s = (u, s')"
      using assms(4) Inl by (auto simp: streamDataToS3_def split: prod.splits)
    note frame = UploadStream_None [OF u inv]
    show ?thesis using frame side [of s'] by (intro window_step_stop) (auto simp: window_keys_def)
  next
    case (Inr bs)
    then obtain ue where u: "UploadStream (data_key cfg w) (Some (fst bs)) s = (Some ue, s')"
      using assms(4) x by (cases bs) (auto simp: streamDataToS3_def split: prod.splits option.splits)
    note eff = UploadStream_effect [OF u inv, unfolded write_effect_def]
    show ?thesis using eff side [of s' "fst bs"] by (intro window_step_stop) (auto simp: window_keys_def)
  qed
  show "window_step env cfg sg w s (seal_window env cfg sg created w stats s') (window_keys cfg w)"
    if x: "x = Inr stats"
  proof -
    obtain bytes where c: "compressEvents env body = Inr (bytes, stats)"
      and u: "UploadStream (data_key cfg w) (Some bytes) s = (None, s')"
      using assms(4) x by (auto simp: streamDataToS3_def split: sum.splits prod.splits option.splits)
    note eff = UploadStream_effect [OF u inv, unfolded write_effect_def]
    have at: "object_at s' = (object_at s)(data_key cfg w \<mapsto> bytes)" "written s' = written s @ [data_key cfg w]"
      using eff by auto
    have "audit_inv env cfg sg s' \<and> object_at s' (manifest_key cfg w) = None" using eff side [of s' bytes] by simp
    then show ?thesis
      unfolding window_keys_def using at compressEvents_stats [OF c]
      by (intro window_step_trans [where s' = s'] seal_window_step [OF _ assms(2)]) auto
  qed
qed

lemma exportWindow_step:
  assumes "audit_inv env cfg sg s" "valid_window w"
  shows "window_step env cfg sg w s (exportWindow env cfg sg created w s) (window_keys cfg w)"
    and "object_at s (manifest_key cfg w) \<noteq> None \<Longrightarrow>
      object_at (snd (exportWindow env cfg sg created w s)) = object_at s"
proof -
  have inv: "s3_invar s" using assms(1) by (simp add: audit_inv_def)
  obtain x s1 where ex: "ObjectExists (manifest_key cfg w) s = (x, s1)" by fastforce
  note f1 = ObjectExists_frame [OF ex inv]
  have i1: "audit_inv env cfg sg s1" using f1 assms(1) audit_inv_frame by blast
  have stop: "window_step env cfg sg w s (Some e, t) (window_keys cfg w)"
    if "audit_inv env cfg sg t" "object_at t = object_at s" "written t = written s" for e t
    using that by (intro window_step_stop) (auto simp: window_keys_def)
  have shift: "window_step env cfg sg w s r ks" if "window_step env cfg sg w t r ks" "object_at t = object_at s"
    "written t = written s" for r ks t
    using that by (simp add: window_step_def)
  show "object_at (snd (exportWindow env cfg sg created w s)) = object_at s"
    if "object_at s (manifest_key cfg w) \<noteq> None"
    using ex f1 that ObjectExists_true [of _ s True] ObjectExists_true [of _ s False] inv
    by (cases x) (auto simp: exportWindow_def split: bool.split)
  show "window_step env cfg sg w s (exportWindow env cfg sg created w s) (window_keys cfg w)"
  proof (cases x)
    case (Inl e)
    then show ?thesis using ex f1 i1 stop by (simp add: exportWindow_def)
  next
    case (Inr b)
    have b: "b = (object_at s (manifest_key cfg w) \<noteq> None)" using ObjectExists_true [OF ex [unfolded Inr] inv] .
    show ?thesis
    proof (cases b)
      case True
      then show ?thesis using ex f1 i1 Inr b by (auto simp: exportWindow_def window_step_def intro: exI [of _ 0])
    next
      case False
      then have m1: "object_at s1 (manifest_key cfg w) = None" using b f1 by simp
      show ?thesis
      proof (cases "QueryEvents env (NewVLogsClient (VLogsURL cfg)) (WTenant w) (Start w) (End w)")
        case (Inl e)
        then show ?thesis using ex f1 i1 Inr False stop by (simp add: exportWindow_def)
      next
        case (Inr body)
        note q = this
        obtain c s2 where cc: "compliance_check cfg w s1 = (c, s2)" by fastforce
        have f2: "s3_invar s2 \<and> object_at s2 = object_at s \<and> written s2 = written s"
          using cc f1 ObjectExists_frame [of "data_key cfg w" s1]
          by (auto simp: compliance_check_def split: if_splits prod.splits sum.splits bool.splits)
        have i2: "audit_inv env cfg sg s2" using f2 assms(1) audit_inv_frame by blast
        show ?thesis
        proof (cases c)
          case (Some e)
          then show ?thesis using ex \<open>x = Inr b\<close> False q cc f2 i2 stop by (simp add: exportWindow_def)
        next
          case None
          obtain y s3 where st: "streamDataToS3 env body (data_key cfg w) s2 = (y, s3)" by fastforce
          have m2: "object_at s2 (manifest_key cfg w) = None" using m1 f1 f2 by simp
          note step = stream_and_seal_step [OF i2 assms(2) m2 st]
          have "exportWindow env cfg sg created w s = (case y of Inl e \<Rightarrow> (Some (StreamData e), s3)
              | Inr stats \<Rightarrow> seal_window env cfg sg created w stats s3)"
            using ex \<open>x = Inr b\<close> False q cc None st by (simp add: exportWindow_def)
          then show ?thesis using step f2 shift [of s2] by (cases y) auto
        qed
      qed
    qed
  qed
qed

section \<open>The windows of a run\<close>

text \<open>The hours of a tenant without a manifest, in order.\<close>

definition pending :: "audit_config \<Rightarrow> s3_state \<Rightarrow> string \<Rightarrow> string \<Rightarrow> time \<Rightarrow> time \<Rightarrow> export_window list" where
  "pending cfg s stream tenant from upTo =
     map (hour_window stream tenant)
       (filter (\<lambda>t. object_at s (manifest_key cfg (hour_window stream tenant t)) = None) (hours from upTo))"

lemma pending_cong: "object_at s' = object_at s \<Longrightarrow> pending cfg s' = pending cfg s"
  by (intro ext) (simp add: pending_def)

lemma collect_hours_spec:
  assumes "collect_hours cfg stream tenant t u s = (r, s')" "s3_invar s"
  shows "s3_invar s' \<and> object_at s' = object_at s \<and> written s' = written s \<and>
    (\<forall>ws. r = Inr ws \<longrightarrow> ws = pending cfg s stream tenant t u)"
  using assms
proof (induction cfg stream tenant t u s arbitrary: r s' rule: collect_hours.induct)
  case (1 cfg stream tenant t u s)
  show ?case
  proof (cases "t < u")
    case False
    then show ?thesis using "1.prems" by (auto simp: collect_hours.simps [of _ _ _ t] pending_def hours.simps [of t])
  next
    case True
    obtain x s1 where ex: "ObjectExists (manifest_key cfg (hour_window stream tenant t)) s = (x, s1)" by fastforce
    note f1 = ObjectExists_frame [OF ex "1.prems"(2)]
    show ?thesis
    proof (cases x)
      case (Inl e)
      then show ?thesis using "1.prems" True ex f1 by (auto simp: collect_hours.simps [of _ _ _ t])
    next
      case (Inr b)
      obtain y s2 where rest: "collect_hours cfg stream tenant (t + hour) u s1 = (y, s2)" by fastforce
      have ih: "s3_invar s2 \<and> object_at s2 = object_at s1 \<and> written s2 = written s1 \<and>
          (\<forall>ws. y = Inr ws \<longrightarrow> ws = pending cfg s1 stream tenant (t + hour) u)"
        using "1.IH" [OF True ex [symmetric] Inr rest] f1 by blast
      have b: "b = (object_at s (manifest_key cfg (hour_window stream tenant t)) \<noteq> None)"
        using ObjectExists_true [OF ex [unfolded Inr] "1.prems"(2)] .
      have "pending cfg s stream tenant t u =
          (if b then pending cfg s stream tenant (t + hour) u
           else hour_window stream tenant t # pending cfg s stream tenant (t + hour) u)"
        using True b by (simp add: pending_def hours.simps [of t])
      with "1.prems"(1) True ex Inr rest ih f1 pending_cong [of s1 s cfg] show ?thesis
        by (auto simp: collect_hours.simps [of _ _ _ t] split: sum.splits if_splits)
    qed
  qed
qed

lemma collect_tenants_spec:
  assumes "collect_tenants cfg stream tenants t u s = (r, s')" "s3_invar s"
  shows "s3_invar s' \<and> object_at s' = object_at s \<and> written s' = written s \<and>
    (\<forall>ws. r = Inr ws \<longrightarrow> ws = concat (map (\<lambda>tenant. pending cfg s stream tenant t u) tenants))"
  using assms
proof (induction cfg stream tenants t u s arbitrary: r s' rule: collect_tenants.induct)
  case (2 cfg stream tenant tenants t u s)
  obtain x s1 where h: "collect_hours cfg stream tenant t u s = (x, s1)" by fastforce
  note f1 = collect_hours_spec [OF h "2.prems"(2)]
  show ?case
  proof (cases x)
    case (Inl e)
    then show ?thesis using "2.prems" h f1 by auto
  next
    case (Inr ws)
    obtain y s2 where rest: "collect_tenants cfg stream tenants t u s1 = (y, s2)" by fastforce
    have "s3_invar s2 \<and> object_at s2 = object_at s1 \<and> written s2 = written s1 \<and>
        (\<forall>ws. y = Inr ws \<longrightarrow> ws = concat (map (\<lambda>tenant. pending cfg s1 stream tenant t u) tenants))"
      using "2.IH" [OF h [symmetric] Inr rest] f1 by blast
    with "2.prems"(1) h Inr rest f1 pending_cong [of s1 s cfg] show ?thesis
      by (auto split: sum.splits)
  qed
qed auto

definition tenants_of :: "audit_env \<Rightarrow> audit_config \<Rightarrow> time \<Rightarrow> time \<Rightarrow> string \<Rightarrow> string list" where
  "tenants_of env cfg t u stream = (case tenantsForStream env cfg stream t u of Inl _ \<Rightarrow> [] | Inr ts \<Rightarrow> ts)"

lemma collect_streams_spec:
  assumes "collect_streams env cfg streams t u s = (r, s')" "s3_invar s"
  shows "s3_invar s' \<and> object_at s' = object_at s \<and> written s' = written s \<and>
    (\<forall>ws. r = Inr ws \<longrightarrow>
       (\<forall>stream \<in> set streams. \<exists>ts. tenantsForStream env cfg stream t u = Inr ts) \<and>
       ws = concat (map (\<lambda>stream. concat (map (\<lambda>tenant. pending cfg s stream tenant t u)
         (tenants_of env cfg t u stream))) streams))"
  using assms
proof (induction env cfg streams t u s arbitrary: r s' rule: collect_streams.induct)
  case (2 env cfg stream streams t u s)
  show ?case
  proof (cases "tenantsForStream env cfg stream t u")
    case (Inl e)
    then show ?thesis using "2.prems" by auto
  next
    case (Inr ts)
    note ts = this
    obtain x s1 where h: "collect_tenants cfg stream ts t u s = (x, s1)" by fastforce
    note f1 = collect_tenants_spec [OF h "2.prems"(2)]
    show ?thesis
    proof (cases x)
      case (Inl e)
      then show ?thesis using "2.prems" h ts f1 by auto
    next
      case (Inr ws)
      obtain y s2 where rest: "collect_streams env cfg streams t u s1 = (y, s2)" by fastforce
      note ih = "2.IH" [OF ts h [symmetric] Inr rest]
      show ?thesis
        using "2.prems"(1) h ts Inr rest f1 ih pending_cong [of s1 s cfg]
        by (auto simp: tenants_of_def split: sum.splits)
    qed
  qed
qed auto

section \<open>Properties of a run\<close>

lemma previousHourEnd_aligned: "hour dvd previousHourEnd cfg now"
  using truncate_hour_dvd by (simp add: previousHourEnd_def Let_def)

text \<open>
  What the properties need of a configuration: no stream name has a slash, and the catch-up range
  fits a duration (292 years), so that its product does not wrap around.
\<close>

definition sane_config :: "audit_config \<Rightarrow> bool" where
  "sane_config cfg \<longleftrightarrow>
     (\<forall>stream \<in> set (Streams cfg). CHR ''/'' \<notin> set stream) \<and> \<bar>CatchUpHours cfg\<bar> \<le> 2562046"

lemma sane_streams: "sane_config cfg \<Longrightarrow> \<forall>stream \<in> set (Streams cfg). CHR ''/'' \<notin> set stream"
  by (simp add: sane_config_def)

lemma catchUp_span:
  assumes "sane_config cfg"
  shows "previousHourEnd cfg now = catchUpStart cfg now + CatchUpHours cfg * hour"
proof -
  have "int64 (- (CatchUpHours cfg - 1) * hour) = - (CatchUpHours cfg - 1) * hour"
    using assms by (intro int64_id) (auto simp: sane_config_def hour_def second_def)
  then show ?thesis by (simp add: catchUpStart_def algebra_simps)
qed

lemma catchUpStart_aligned:
  assumes "sane_config cfg"
  shows "hour dvd catchUpStart cfg now"
proof -
  have "catchUpStart cfg now = previousHourEnd cfg now - CatchUpHours cfg * hour"
    using catchUp_span [OF assms, of now] by simp
  then show ?thesis using previousHourEnd_aligned [of cfg now] by simp
qed

lemma pending_valid:
  assumes "w \<in> set (pending cfg s stream tenant t u)" "hour dvd t" "CHR ''/'' \<notin> set stream"
  shows "valid_window w" "WStream w = stream" "WTenant w = tenant" "t \<le> Start w" "End w \<le> u \<or> \<not> hour dvd u"
proof -
  obtain x where x: "x \<in> set (hours t u)" "w = hour_window stream tenant x"
    using assms(1) by (auto simp: pending_def)
  then have r: "t \<le> x" "x < u" "hour dvd (x - t)" by (auto simp: set_hours)
  then have d: "hour dvd x" using assms(2) by (metis dvd_add_right_iff diff_add_cancel add.commute)
  then show "valid_window w" using x assms(3) by (simp add: valid_hour_window)
  show "WStream w = stream" "WTenant w = tenant" "t \<le> Start w" using x r by (simp_all add: hour_window_def)
  have "x + hour \<le> u" if "hour dvd u"
  proof -
    have "hour dvd (u - x)" using that d by (simp add: dvd_diff)
    then show ?thesis using r(2) zdvd_imp_le [of hour "u - x"] by simp
  qed
  then show "End w \<le> u \<or> \<not> hour dvd u" using x by (auto simp: hour_window_def)
qed

lemma collectWindows_frame:
  assumes "collectWindows env cfg t u s = (r, s')" "s3_invar s"
  shows "s3_invar s'" "object_at s' = object_at s" "written s' = written s"
  using collect_streams_spec [OF assms [unfolded collectWindows_def]] by auto

lemma collectWindows_set:
  assumes "collectWindows env cfg t u s = (Inr ws, s')" "s3_invar s" "hour dvd t"
    and "\<forall>stream \<in> set (Streams cfg). CHR ''/'' \<notin> set stream"
  shows "\<forall>w \<in> set ws. valid_window w"
    and "stream \<in> set (Streams cfg) \<Longrightarrow> tenant \<in> set (tenants_of env cfg t u stream) \<Longrightarrow> x \<in> set (hours t u) \<Longrightarrow>
      object_at s (manifest_key cfg (hour_window stream tenant x)) = None \<Longrightarrow> hour_window stream tenant x \<in> set ws"
  using collect_streams_spec [OF assms(1,2) [unfolded collectWindows_def]] assms(3,4) pending_valid(1)
  by (auto simp: pending_def)

lemma PreflightBucket_frame:
  assumes "PreflightBucket c s = (r, s')" "s3_invar s"
  shows "s3_invar s'" "object_at s' = object_at s" "written s' = written s"
proof -
  obtain f s1 where nf: "next_fault s = (f, s1)" by fastforce
  then have "s' = s1" using assms(1) by (auto simp: PreflightBucket_def Let_def split: if_splits)
  with next_fault_frame [OF nf] assms(2) show "s3_invar s'" "object_at s' = object_at s" "written s' = written s"
    by (auto simp: object_at_def)
qed

text \<open>
  Everything the loop over windows keeps: the invariant and the objects of every sealed window.
  A loop without an error has sealed every window of its list.
\<close>

definition loop_step ::
  "audit_env \<Rightarrow> audit_config \<Rightarrow> signer \<Rightarrow> export_window list \<Rightarrow> run_error option \<Rightarrow> s3_state \<Rightarrow>
     run_error option \<times> s3_state \<Rightarrow> bool" where
  "loop_step env cfg sg ws err s r \<longleftrightarrow>
     audit_inv env cfg sg (snd r) \<and>
     (\<forall>v k. valid_window v \<longrightarrow> object_at s (manifest_key cfg v) \<noteq> None \<longrightarrow> k \<in> set (window_keys cfg v) \<longrightarrow>
        object_at (snd r) k = object_at s k) \<and>
     (fst r = None \<longrightarrow> err = None \<and> (\<forall>w \<in> set ws. object_at (snd r) (manifest_key cfg w) \<noteq> None))"

lemma window_keys_sealed:
  assumes "window_step env cfg sg w s r (window_keys cfg w)" "valid_window w" "valid_window v"
    and "object_at s (manifest_key cfg v) \<noteq> None" "k \<in> set (window_keys cfg v)"
    and "object_at s (manifest_key cfg w) \<noteq> None \<Longrightarrow> object_at (snd r) = object_at s"
  shows "object_at (snd r) k = object_at s k"
proof (cases "v = w")
  case True
  with assms(4,6) show ?thesis by simp
next
  case False
  then have "k \<notin> set (window_keys cfg w)"
    using assms(5) keys_eq [OF assms(3,2), of cfg] by (auto simp: window_keys_def)
  with assms(1) show ?thesis by (simp add: window_step_def)
qed

lemma loop_step_Cons:
  assumes "window_step env cfg sg w s (e, s1) (window_keys cfg w)" "valid_window w"
    and "object_at s (manifest_key cfg w) \<noteq> None \<Longrightarrow> object_at s1 = object_at s"
    and "loop_step env cfg sg ws err' s1 r" "err' = None \<Longrightarrow> err = None \<and> e = None"
  shows "loop_step env cfg sg (w # ws) err s r"
proof -
  have keep: "object_at s1 k = object_at s k"
    if "valid_window v" "object_at s (manifest_key cfg v) \<noteq> None" "k \<in> set (window_keys cfg v)" for v k
    using window_keys_sealed [OF assms(1,2) that] assms(3) by simp
  have manifest: "manifest_key cfg v \<in> set (window_keys cfg v)" for v by (simp add: window_keys_def)
  have "object_at (snd r) k = object_at s k"
    if v: "valid_window v" "object_at s (manifest_key cfg v) \<noteq> None" "k \<in> set (window_keys cfg v)" for v k
    using keep [OF v] keep [OF v(1,2) manifest] assms(4) v by (simp add: loop_step_def)
  moreover have "object_at (snd r) (manifest_key cfg w) \<noteq> None" if "fst r = None"
  proof -
    have "object_at s1 (manifest_key cfg w) \<noteq> None"
      using assms(1,4,5) that by (simp add: window_step_def loop_step_def)
    then show ?thesis using assms(2,4) manifest [of w] by (simp add: loop_step_def)
  qed
  ultimately show ?thesis using assms(4,5) by (simp add: loop_step_def)
qed

lemma export_windows_step:
  assumes "\<forall>w \<in> set ws. valid_window w" "audit_inv env cfg sg s"
  shows "loop_step env cfg sg ws err s (export_windows env cfg sg clock cancelled i ws err s)"
  using assms
proof (induction ws arbitrary: i err s)
  case Nil
  then show ?case by (simp add: loop_step_def)
next
  case (Cons w ws)
  obtain e s1 where x: "exportWindow env cfg sg (clock i) w s = (e, s1)" by fastforce
  have w: "valid_window w" and ws: "\<forall>w \<in> set ws. valid_window w" using Cons.prems(1) by auto
  have step: "window_step env cfg sg w s (e, s1) (window_keys cfg w)"
    using exportWindow_step(1) [OF Cons.prems(2) w, of "clock i"] x by simp
  have skip: "object_at s (manifest_key cfg w) \<noteq> None \<Longrightarrow> object_at s1 = object_at s"
    using exportWindow_step(2) [OF Cons.prems(2) w, of "clock i"] x by simp
  have i1: "audit_inv env cfg sg s1" using step by (simp add: window_step_def)
  note rest = loop_step_Cons [OF step w skip Cons.IH [OF ws i1]]
  have stop: "loop_step env cfg sg (w # ws) err s (Some q, s1)" for q
    using i1 window_keys_sealed [OF step w] skip by (simp add: loop_step_def)
  show ?case
  proof (cases "cancelled i")
    case True
    then show ?thesis using Cons.prems(2) by (simp add: loop_step_def)
  next
    case False
    show ?thesis
    proof (cases e)
      case None
      then show ?thesis using False x rest [where err' = err] by simp
    next
      case (Some we)
      then show ?thesis using False x rest [where err' = "Some (WindowsFailed we)"] stop
        by (cases we) (auto split: source_error.split)
    qed
  qed
qed

text \<open>One run, taken apart: preflight, the list of windows, the loop.\<close>

lemma Run_cases:
  assumes "Run env cfg sg now clock cancelled s = (r, s')" "audit_inv env cfg sg s"
    and "sane_config cfg"
  obtains (stopped) e where "r = Some e" "audit_inv env cfg sg s'" "object_at s' = object_at s" "written s' = written s"
    | (exported) ws s0 s1 where "s3_invar s0" "object_at s0 = object_at s"
      "collectWindows env cfg (catchUpStart cfg now) (previousHourEnd cfg now) s0 = (Inr ws, s1)"
      "\<forall>w \<in> set ws. valid_window w" "audit_inv env cfg sg s1" "object_at s1 = object_at s" "written s1 = written s"
      "export_windows env cfg sg clock cancelled 0 ws None s1 = (r, s')"
proof -
  have inv: "s3_invar s" using assms(2) by (simp add: audit_inv_def)
  obtain p s0 where p: "PreflightBucket (ComplianceMode cfg) s = (p, s0)" by fastforce
  note f0 = PreflightBucket_frame [OF p inv]
  show thesis
  proof (cases p)
    case (Inl e)
    then show thesis
      using assms(1) p f0 stopped audit_inv_frame [OF f0(2,1) assms(2)] by (auto simp: Run_def)
  next
    case (Inr warn)
    obtain c s1 where c: "collectWindows env cfg (catchUpStart cfg now) (previousHourEnd cfg now) s0 = (c, s1)"
      by fastforce
    note f1 = collectWindows_frame [OF c f0(1)]
    have i1: "audit_inv env cfg sg s1" using f1 f0 audit_inv_frame assms(2) by metis
    show thesis
    proof (cases c)
      case (Inl e)
      then show thesis using assms(1) p Inr c f0 f1 i1 stopped by (auto simp: Run_def)
    next
      case (Inr ws)
      have "\<forall>w \<in> set ws. valid_window w"
        using collectWindows_set(1) [OF c [unfolded Inr] f0(1) catchUpStart_aligned [OF assms(3)] sane_streams [OF assms(3)]] .
      then show thesis
        using exported [of s0 ws s1] assms(1) p c Inr f0 f1 i1 \<open>p = Inr warn\<close> by (simp add: Run_def)
    qed
  qed
qed

lemma Run_loop:
  assumes "Run env cfg sg now clock cancelled s = (r, s')" "audit_inv env cfg sg s"
    and "sane_config cfg"
  shows "loop_step env cfg sg [] None s (r, s')"
  using assms
proof (cases rule: Run_cases)
  case stopped
  then show ?thesis by (simp add: loop_step_def)
next
  case (exported ws s0 s1)
  then have "loop_step env cfg sg ws None s1 (r, s')" using export_windows_step [of ws env cfg sg s1 None] by metis
  with exported(6) show ?thesis by (simp add: loop_step_def)
qed

lemma exported_manifest:
  assumes "audit_inv env cfg sg s" "sane_config cfg"
    and "Run env cfg sg now clock cancelled s = (None, s')"
    and "stream \<in> set (Streams cfg)"
    and "tenant \<in> set (tenants_of env cfg (catchUpStart cfg now) (previousHourEnd cfg now) stream)"
    and "x \<in> set (hours (catchUpStart cfg now) (previousHourEnd cfg now))"
  shows "object_at s' (manifest_key cfg (hour_window stream tenant x)) \<noteq> None"
  using assms(3,1,2)
proof (cases rule: Run_cases)
  case (exported ws s0 s1)
  let ?w = "hour_window stream tenant x"
  have loop: "loop_step env cfg sg ws None s1 (None, s')"
    using exported export_windows_step [of ws env cfg sg s1 None clock cancelled 0] by metis
  have "valid_window ?w"
    using sane_streams [OF assms(2)] assms(4,6) catchUpStart_aligned [OF assms(2), of now]
    by (intro valid_hour_window) (auto simp: set_hours, metis dvd_add_right_iff diff_add_cancel add.commute)
  moreover have "?w \<in> set ws" if "object_at s0 (manifest_key cfg ?w) = None"
    using collectWindows_set(2) [OF exported(3,1) catchUpStart_aligned [OF assms(2)] sane_streams [OF assms(2)] assms(4,5,6) that] .
  moreover have "manifest_key cfg ?w \<in> set (window_keys cfg ?w)" by (simp add: window_keys_def)
  ultimately show ?thesis
    using loop exported(2,6) by (cases "object_at s (manifest_key cfg ?w)") (auto simp: loop_step_def)
qed simp

end
