(* ===== verification/Window_Export.thy ===== *)
theory Window_Export
  imports Kof_Prelude
begin

text \<open>
  The loop that both exporters run over their windows (\<open>Run\<close> of \<open>internal/audit/exporter.go\<close> and
  of \<open>internal/coldstorage/exporter.go\<close>), and the contract between a run and the export of one
  window.

  Abstractly an exporter keeps a set of exported windows. One call of \<open>exportWindow\<close> adds its window
  or nothing, and a call without an error adds it. The locale \<open>window_store\<close> states that contract;
  its lemmas show that the loop refines the abstract operation \<open>spec_run\<close>: the set grows by some of
  the requested windows, and by all of them when the loop reports no error.
\<close>

datatype 'e loop_error = Cancelled | Outage 'e | Failed 'e

text \<open>
  The context is checked before each window. An outage of the source stops the loop, any other
  error is recorded and the loop goes on; the last recorded error is the result.
\<close>

fun export_loop ::
  "(nat \<Rightarrow> 'w \<Rightarrow> 's \<Rightarrow> 'e option \<times> 's) \<Rightarrow> ('e \<Rightarrow> bool) \<Rightarrow> (nat \<Rightarrow> bool) \<Rightarrow> nat \<Rightarrow> 'w list \<Rightarrow>
     'e loop_error option \<Rightarrow> 's \<Rightarrow> 'e loop_error option \<times> 's"
where
  "export_loop step outage cancelled i [] exportErr s = (exportErr, s)"
| "export_loop step outage cancelled i (w # ws) exportErr s =
     (if cancelled i then (Some Cancelled, s)
      else (case step i w s of
          (None, s1) \<Rightarrow> export_loop step outage cancelled (i + 1) ws exportErr s1
        | (Some e, s1) \<Rightarrow>
            if outage e then (Some (Outage e), s1)
            else export_loop step outage cancelled (i + 1) ws (Some (Failed e)) s1))"

text \<open>The abstract operation: exported windows before, requested windows, success, exported after.\<close>

definition spec_run :: "'w set \<Rightarrow> 'w set \<Rightarrow> bool \<Rightarrow> 'w set \<Rightarrow> bool" where
  "spec_run E todo success E' \<longleftrightarrow> E \<subseteq> E' \<and> E' \<subseteq> E \<union> todo \<and> (success \<longrightarrow> E' = E \<union> todo)"

lemma spec_run_refl: "spec_run E todo False E"
  by (simp add: spec_run_def)

lemma spec_run_nothing: "spec_run E {} b E"
  by (simp add: spec_run_def)

lemma spec_run_step:
  assumes "spec_run E A b E1" "spec_run E1 B c E2" "c \<Longrightarrow> b"
  shows "spec_run E (A \<union> B) c E2"
  using assms by (auto simp: spec_run_def)

lemma spec_run_fail: "spec_run E A b E1 \<Longrightarrow> spec_run E (A \<union> B) False E1"
  by (auto simp: spec_run_def)

text \<open>Windows that are exported already need not be requested.\<close>

lemma spec_run_skip: "spec_run E (todo - E) b E' \<Longrightarrow> spec_run E todo b E'"
  by (auto simp: spec_run_def)

text \<open>
  \<open>asked\<close> holds of the windows a run may be asked for, \<open>ok\<close> of those the contract covers: the
  others may fare as they will, as long as they leave the covered ones alone.
\<close>

locale window_store =
  fixes inv :: "'s \<Rightarrow> bool"
    and asked :: "'w \<Rightarrow> bool"
    and ok :: "'w \<Rightarrow> bool"
    and marked :: "'s \<Rightarrow> 'w \<Rightarrow> bool"
    and step :: "nat \<Rightarrow> 'w \<Rightarrow> 's \<Rightarrow> 'e option \<times> 's"
  assumes step_inv: "inv s \<Longrightarrow> asked w \<Longrightarrow> inv (snd (step i w s))"
    and step_ok: "inv s \<Longrightarrow> asked w \<Longrightarrow> ok w \<Longrightarrow> fst (step i w s) = None \<Longrightarrow> marked (snd (step i w s)) w"
    and step_keep: "inv s \<Longrightarrow> asked w \<Longrightarrow> ok w \<Longrightarrow> marked s w \<Longrightarrow> marked (snd (step i w s)) w"
    and step_other: "inv s \<Longrightarrow> asked w \<Longrightarrow> ok v \<Longrightarrow> v \<noteq> w \<Longrightarrow> marked (snd (step i w s)) v = marked s v"
begin

definition exported :: "'s \<Rightarrow> 'w set" where
  "exported s = {w. ok w \<and> marked s w}"

abbreviation covered :: "'w list \<Rightarrow> 'w set" where
  "covered ws \<equiv> {w \<in> set ws. ok w}"

lemma step_refines:
  assumes "inv s" "asked w" "step i w s = (r, s')"
  shows "spec_run (exported s) (covered [w]) (r = None) (exported s')"
proof -
  have "marked s' v = marked s v" if "ok v" "v \<noteq> w" for v using step_other [OF assms(1,2) that, of i] assms(3) by simp
  moreover have "marked s' w" if "ok w" "marked s w \<or> r = None"
    using that step_ok [OF assms(1,2)] step_keep [OF assms(1,2)] assms(3) by (metis fst_conv snd_conv)
  ultimately show ?thesis by (auto simp: spec_run_def exported_def)
qed

lemma loop_refines:
  assumes "inv s" "\<forall>w \<in> set ws. asked w" "export_loop step outage cancelled i ws err s = (r, s')"
  shows "inv s' \<and> spec_run (exported s) (covered ws) (r = None) (exported s') \<and> (r = None \<longrightarrow> err = None)"
  using assms
proof (induction ws arbitrary: i err s)
  case Nil
  then show ?case by (simp add: spec_run_nothing)
next
  case (Cons w ws)
  obtain e s1 where st: "step i w s = (e, s1)" by fastforce
  have w: "asked w" and ws: "\<forall>w \<in> set ws. asked w" using Cons.prems(2) by auto
  have i1: "inv s1" using step_inv [OF Cons.prems(1) w, of i] st by simp
  note first = step_refines [OF Cons.prems(1) w st]
  note rest = Cons.IH [OF i1 ws]
  have covered_Cons: "covered (w # ws) = covered [w] \<union> covered ws" by auto
  show ?case
  proof (cases "cancelled i")
    case True
    then show ?thesis using Cons.prems by (auto simp: spec_run_refl)
  next
    case False
    show ?thesis
    proof (cases e)
      case None
      then have l: "export_loop step outage cancelled (i + 1) ws err s1 = (r, s')" using Cons.prems(3) False st by simp
      show ?thesis unfolding covered_Cons using rest [OF l] first None by (auto intro: spec_run_step)
    next
      case (Some x)
      show ?thesis
      proof (cases "outage x")
        case True
        then have "r \<noteq> None" "s' = s1" using Cons.prems(3) False st Some by auto
        then show ?thesis unfolding covered_Cons using first i1 spec_run_fail by auto
      next
        case False
        then have l: "export_loop step outage cancelled (i + 1) ws (Some (Failed x)) s1 = (r, s')"
          using Cons.prems(3) \<open>\<not> cancelled i\<close> st Some by simp
        have "r \<noteq> None" using rest [OF l] by auto
        then show ?thesis unfolding covered_Cons using rest [OF l] first by (auto intro: spec_run_step)
      qed
    qed
  qed
qed

end

end
