(* ===== verification/Audit_Run.thy ===== *)
theory Audit_Run
  imports Audit_Export Window_Export
begin

text \<open>
  What a run of the audit exporter guarantees (\<open>Audit_Export.Run\<close>): windows stay sealed, a run
  without an error has exported everything, a second run writes nothing, a run without faults
  succeeds, and the two modes of the bucket lock. Each property has a concrete instance at the end:
  an empty bucket and a source without events.
\<close>

section \<open>Runs without faults\<close>

definition faultless :: "s3_state \<Rightarrow> bool" where
  "faultless s \<longleftrightarrow> plan s = [] \<and> s3_invar s"

lemma faultless_calls:
  assumes "faultless s"
  shows "next_fault s = (Works, s)"
    "ObjectExists k s = (Inr (object_at s k \<noteq> None), s)"
    "GetObject k s = (Inr (object_at s k), s)"
    "PutObject k d s = (None, store_object k d s)"
    "UploadStream k (Some d) s = (None, store_object k d s)"
    "faultless (store_object k d s)"
proof -
  show nf: "next_fault s = (Works, s)" using assms by (simp add: faultless_def next_fault_def)
  have missing: "is_not_found (missing s)" using assms by (simp add: faultless_def s3_invar_def)
  show "ObjectExists k s = (Inr (object_at s k \<noteq> None), s)" "GetObject k s = (Inr (object_at s k), s)"
    using missing by (auto simp: ObjectExists_def raw_HeadObject_def GetObject_def raw_GetObject_def nf object_at_def
        split: option.splits)
  show "PutObject k d s = (None, store_object k d s)" "UploadStream k (Some d) s = (None, store_object k d s)"
    by (simp_all add: PutObject_def UploadStream_def raw_Upload_def raw_PutObject_def nf)
  show "faultless (store_object k d s)"
    using assms s3_invar_store by (simp add: faultless_def) (simp add: store_object_def)
qed

text \<open>The sources answer for a window with events that can be compressed.\<close>

definition source_ready :: "audit_env \<Rightarrow> audit_config \<Rightarrow> export_window \<Rightarrow> bool" where
  "source_ready env cfg w \<longleftrightarrow>
     (case QueryEvents env (NewVLogsClient (VLogsURL cfg)) (WTenant w) (Start w) (End w) of
        Inl _ \<Rightarrow> False
      | Inr body \<Rightarrow> (case compressEvents env body of Inl _ \<Rightarrow> False | Inr _ \<Rightarrow> True))"

definition signs :: "signer \<Rightarrow> bool" where
  "signs sg \<longleftrightarrow> (\<forall>m. \<exists>sig. Sign sg m = Inr sig)"

lemma local_signer_signs: "signs (NewSigner env cfg)"
  by (simp add: signs_def NewSigner_def NewLocalSigner_def)

lemma seal_window_faultless:
  assumes "faultless s" "signs sg"
  shows "\<exists>s'. seal_window env cfg sg created w stats s = (None, s') \<and> faultless s'"
proof -
  obtain prev where p: "previousManifestSHA256 env cfg w s = (prev, s)"
    by (rule that [of "fst (previousManifestSHA256 env cfg w s)"])
      (auto simp: previousManifestSHA256_def faultless_calls(3) [OF assms(1)] split: option.splits)
  define mb where "mb = marshalCanonical
    (manifest_json (mk_manifest cfg sg created w stats (case prev of Inl _ \<Rightarrow> [] | Inr h \<Rightarrow> h)))"
  obtain sig where sig: "Sign sg mb = Inr sig" using assms(2) by (auto simp: signs_def)
  let ?s1 = "store_object (sig_key cfg w) sig s"
  have f1: "faultless ?s1" using faultless_calls(6) [OF assms(1)] .
  have "seal_window env cfg sg created w stats s = (None, store_object (manifest_key cfg w) mb ?s1)"
    using sig by (simp add: seal_window_def p faultless_calls(4) [OF assms(1)] faultless_calls(4) [OF f1] flip: mb_def)
  then show ?thesis using faultless_calls(6) [OF f1] by blast
qed

lemma exportWindow_faultless:
  assumes "faultless s" "signs sg" "\<not> ComplianceMode cfg" "source_ready env cfg w"
  shows "\<exists>s'. exportWindow env cfg sg created w s = (None, s') \<and> faultless s'"
proof (cases "object_at s (manifest_key cfg w)")
  case None
  obtain body bytes stats where b: "QueryEvents env (NewVLogsClient (VLogsURL cfg)) (WTenant w) (Start w) (End w) = Inr body"
    "compressEvents env body = Inr (bytes, stats)"
    using assms(4) by (auto simp: source_ready_def split: sum.splits)
  let ?s1 = "store_object (data_key cfg w) bytes s"
  have "exportWindow env cfg sg created w s = seal_window env cfg sg created w stats ?s1"
    using None b assms(3)
    by (simp add: exportWindow_def faultless_calls [OF assms(1)] compliance_check_def streamDataToS3_def)
  then show ?thesis using seal_window_faultless [OF faultless_calls(6) [OF assms(1)] assms(2)] by simp
qed (use assms(1) in \<open>simp add: exportWindow_def faultless_calls\<close>)

lemma export_windows_faultless:
  assumes "faultless s" "signs sg" "\<not> ComplianceMode cfg" "\<forall>w \<in> set ws. source_ready env cfg w" "\<forall>i. \<not> cancelled i"
  shows "fst (export_windows env cfg sg clock cancelled i ws err s) = err"
  using assms(1,4)
proof (induction ws arbitrary: s i)
  case (Cons w ws)
  obtain s1 where "exportWindow env cfg sg (clock i) w s = (None, s1)" "faultless s1"
    using exportWindow_faultless [OF Cons.prems(1) assms(2,3)] Cons.prems(2) by (metis list.set_intros(1))
  then show ?case using Cons assms(5) by simp
qed simp

lemma collect_hours_faultless:
  assumes "faultless s"
  shows "collect_hours cfg stream tenant t u s = (Inr (pending cfg s stream tenant t u), s)"
  using assms
proof (induction cfg stream tenant t u s rule: collect_hours.induct)
  case (1 cfg stream tenant t u s)
  note ex = faultless_calls(2) [OF "1.prems"]
  show ?case
  proof (cases "t < u")
    case True
    then show ?thesis
      using "1.IH" [OF True ex [symmetric] refl "1.prems"]
      by (simp add: collect_hours.simps [of _ _ _ t] ex pending_def hours.simps [of t])
  next
    case False
    then show ?thesis by (simp add: collect_hours.simps [of _ _ _ t] pending_def hours.simps [of t])
  qed
qed

lemma collect_tenants_faultless:
  "faultless s \<Longrightarrow> collect_tenants cfg stream tenants t u s =
     (Inr (concat (map (\<lambda>tenant. pending cfg s stream tenant t u) tenants)), s)"
  by (induction tenants) (simp_all add: collect_hours_faultless)

lemma collect_streams_faultless:
  assumes "faultless s" "\<forall>stream \<in> set streams. \<exists>ts. tenantsForStream env cfg stream t u = Inr ts"
  shows "collect_streams env cfg streams t u s =
     (Inr (concat (map (\<lambda>stream. concat (map (\<lambda>tenant. pending cfg s stream tenant t u)
       (tenants_of env cfg t u stream))) streams)), s)"
  using assms(2)
proof (induction streams)
  case (Cons stream streams)
  then show ?case by (auto simp: collect_tenants_faultless [OF assms(1)] tenants_of_def)
qed simp

text \<open>All sources are ready for a run at \<open>now\<close>.\<close>

definition sources_ready :: "audit_env \<Rightarrow> audit_config \<Rightarrow> time \<Rightarrow> bool" where
  "sources_ready env cfg now \<longleftrightarrow>
     (\<forall>stream \<in> set (Streams cfg).
        (case tenantsForStream env cfg stream (catchUpStart cfg now) (previousHourEnd cfg now) of
           Inl _ \<Rightarrow> False
         | Inr tenants \<Rightarrow>
             (\<forall>tenant \<in> set tenants. \<forall>t \<in> set (hours (catchUpStart cfg now) (previousHourEnd cfg now)).
                source_ready env cfg (hour_window stream tenant t))))"

lemma Run_faultless:
  assumes "faultless s" "signs sg" "\<not> ComplianceMode cfg" "\<forall>i. \<not> cancelled i" "sources_ready env cfg now"
  shows "fst (Run env cfg sg now clock cancelled s) = None"
proof -
  let ?t = "catchUpStart cfg now" and ?u = "previousHourEnd cfg now"
  let ?ws = "concat (map (\<lambda>stream. concat (map (\<lambda>tenant. pending cfg s stream tenant ?t ?u)
       (tenants_of env cfg ?t ?u stream))) (Streams cfg))"
  have ts: "\<forall>stream \<in> set (Streams cfg). \<exists>ts. tenantsForStream env cfg stream ?t ?u = Inr ts"
  proof
    fix stream assume "stream \<in> set (Streams cfg)"
    with assms(5) show "\<exists>ts. tenantsForStream env cfg stream ?t ?u = Inr ts"
      by (cases "tenantsForStream env cfg stream ?t ?u") (force simp: sources_ready_def)+
  qed
  have ready: "\<forall>w \<in> set ?ws. source_ready env cfg w"
    using assms(5) by (auto simp: sources_ready_def tenants_of_def pending_def split: sum.splits) metis
  have "collectWindows env cfg ?t ?u s = (Inr ?ws, s)"
    using collect_streams_faultless [OF assms(1) ts] by (simp add: collectWindows_def)
  moreover have "\<exists>warn. PreflightBucket (ComplianceMode cfg) s = (Inr warn, s)"
    using assms(3) by (simp add: PreflightBucket_def Let_def faultless_calls(1) [OF assms(1)])
  ultimately show ?thesis
    using export_windows_faultless [OF assms(1-3) ready assms(4)] by (auto simp: Run_def)
qed

section \<open>The chain of manifests\<close>

text \<open>
  The manifest of a window names the hash of the manifest that the bucket holds for the hour
  before, if it holds a readable one.
\<close>

definition chained :: "audit_env \<Rightarrow> audit_config \<Rightarrow> signer \<Rightarrow> s3_state \<Rightarrow> export_window \<Rightarrow> bool" where
  "chained env cfg sg s w \<longleftrightarrow>
     (\<forall>mb pm. object_at s (manifest_key cfg w) = Some mb \<longrightarrow>
        object_at s (manifest_key cfg (previous_window w)) = Some pm \<longrightarrow> json_Valid env pm \<longrightarrow>
        (\<exists>stats created. mb = marshalCanonical (manifest_json
           (mk_manifest cfg sg created w stats (hex_encode (sha256 env pm))))))"

lemma chained_absent: "object_at s (manifest_key cfg w) = None \<Longrightarrow> chained env cfg sg s w"
  by (simp add: chained_def)

lemma chained_cong:
  "object_at s' (manifest_key cfg w) = object_at s (manifest_key cfg w) \<Longrightarrow>
   object_at s' (manifest_key cfg (previous_window w)) = object_at s (manifest_key cfg (previous_window w)) \<Longrightarrow>
   chained env cfg sg s' w = chained env cfg sg s w"
  by (simp add: chained_def)

lemma seal_window_chained:
  assumes "faultless s" "valid_window w" "object_at s (manifest_key cfg w) = None"
    and "seal_window env cfg sg created w stats s = (r, s')"
  shows "faultless s' \<and> chained env cfg sg s' w"
proof -
  let ?p = "object_at s (manifest_key cfg (previous_window w))"
  define h where "h = (case ?p of Some pm \<Rightarrow> if json_Valid env pm then hex_encode (sha256 env pm) else [] | None \<Rightarrow> [])"
  define mb where "mb = marshalCanonical (manifest_json (mk_manifest cfg sg created w stats h))"
  obtain prev where p: "previousManifestSHA256 env cfg w s = (prev, s)" "(case prev of Inl _ \<Rightarrow> [] | Inr h \<Rightarrow> h) = h"
    by (rule that [of "fst (previousManifestSHA256 env cfg w s)"])
      (auto simp: previousManifestSHA256_def faultless_calls(3) [OF assms(1)] h_def split: option.splits)
  show ?thesis
  proof (cases "Sign sg mb")
    case (Inl e)
    then have "s' = s" using assms(4) p by (simp add: seal_window_def flip: mb_def)
    then show ?thesis using assms(1,3) by (simp add: chained_absent)
  next
    case (Inr sig)
    let ?s1 = "store_object (sig_key cfg w) sig s"
    note f1 = faultless_calls [OF assms(1)]
    note f2 = faultless_calls [OF f1(6) [of "sig_key cfg w" sig]]
    have s': "s' = store_object (manifest_key cfg w) mb ?s1"
      using Inr assms(4) p by (simp add: seal_window_def f1(4) f2(4) flip: mb_def)
    have "object_at s' (manifest_key cfg w) = Some mb" by (simp add: s')
    moreover have "object_at s' (manifest_key cfg (previous_window w)) = ?p"
      using keys_eq(1,5) [OF valid_previous [OF assms(2)] assms(2), of cfg] previous_window_neq by (simp add: s')
    ultimately show ?thesis using f2(6) by (auto simp: s' chained_def h_def mb_def)
  qed
qed

lemma exportWindow_chained:
  assumes "faultless s" "valid_window w" "object_at s (manifest_key cfg w) = None"
    and "exportWindow env cfg sg created w s = (r, s')"
  shows "faultless s' \<and> chained env cfg sg s' w"
proof -
  note f = faultless_calls [OF assms(1)]
  have same: ?thesis if "s' = s" using that assms(1,3) by (simp add: chained_absent)
  obtain c where c: "compliance_check cfg w s = (c, s)"
    by (rule that [of "fst (compliance_check cfg w s)"]) (simp add: compliance_check_def f split: bool.split)
  show ?thesis
  proof (cases "QueryEvents env (NewVLogsClient (VLogsURL cfg)) (WTenant w) (Start w) (End w)")
    case (Inl e)
    then show ?thesis using assms(3,4) same by (simp add: exportWindow_def f)
  next
    case (Inr body)
    note q = this
    show ?thesis
    proof (cases "c = None")
      case False
      then show ?thesis using assms(3,4) same q c by (auto simp: exportWindow_def f)
    next
      case True
      show ?thesis
      proof (cases "compressEvents env body")
        case (Inl e)
        then have "s' = s" using assms(3,4) q c True
          by (simp add: exportWindow_def f streamDataToS3_def UploadStream_def raw_Upload_def)
        then show ?thesis by (rule same)
      next
        case (Inr b)
        let ?s1 = "store_object (data_key cfg w) (fst b) s"
        have "seal_window env cfg sg created w (snd b) ?s1 = (r, s')"
          using assms(3,4) q c True Inr by (cases b) (simp add: exportWindow_def f streamDataToS3_def)
        moreover have "object_at ?s1 (manifest_key cfg w) = None"
          using assms(3) keys_eq(4) [OF assms(2,2), of cfg] by simp
        ultimately show ?thesis using seal_window_chained [OF f(6) assms(2)] by blast
      qed
    qed
  qed
qed

text \<open>No window of the list comes after the window of the hour that follows it.\<close>

fun in_hour_order :: "export_window list \<Rightarrow> bool" where
  "in_hour_order [] \<longleftrightarrow> True"
| "in_hour_order (w # ws) \<longleftrightarrow> previous_window w \<notin> set ws \<and> in_hour_order ws"

lemma in_hour_order_append:
  "in_hour_order (xs @ ys) \<longleftrightarrow> in_hour_order xs \<and> in_hour_order ys \<and> (\<forall>w \<in> set xs. previous_window w \<notin> set ys)"
  by (induction xs) auto

lemma export_windows_chained:
  assumes "faultless s" "audit_inv env cfg sg s" "\<forall>w \<in> set ws. valid_window w" "in_hour_order ws"
    and "export_windows env cfg sg clock cancelled i ws err s = (r, s')"
  shows "(\<forall>v. valid_window v \<longrightarrow> object_at s (manifest_key cfg v) = None \<longrightarrow> chained env cfg sg s' v) \<and>
    (\<forall>v. valid_window v \<longrightarrow> v \<notin> set ws \<longrightarrow> object_at s' (manifest_key cfg v) = object_at s (manifest_key cfg v)) \<and>
    (\<forall>v. valid_window v \<longrightarrow> object_at s (manifest_key cfg v) \<noteq> None \<longrightarrow>
       object_at s' (manifest_key cfg v) = object_at s (manifest_key cfg v))"
  using assms
proof (induction ws arbitrary: i err s)
  case Nil
  then show ?case by (simp add: chained_absent)
next
  case (Cons w ws)
  have w: "valid_window w" and ws: "\<forall>w \<in> set ws. valid_window w" "in_hour_order ws" "previous_window w \<notin> set ws"
    using Cons.prems(3,4) by auto
  obtain e s1 where x: "exportWindow env cfg sg (clock i) w s = (e, s1)" by fastforce
  note step = exportWindow_step [OF Cons.prems(2) w, of "clock i", unfolded x]
  have i1: "audit_inv env cfg sg s1" using step(1) by (simp add: window_step_def)
  have other: "object_at s1 (manifest_key cfg v) = object_at s (manifest_key cfg v)" if "valid_window v" "v \<noteq> w" for v
  proof -
    have "manifest_key cfg v \<notin> set (window_keys cfg w)"
      using keys_eq [OF that(1) w, of cfg] that(2) by (auto simp: window_keys_def)
    then show ?thesis using step(1) by (simp add: window_step_def)
  qed
  have skip: "object_at s (manifest_key cfg w) \<noteq> None \<Longrightarrow> object_at s1 = object_at s" using step(2) by simp
  have f1: "faultless s1" "object_at s (manifest_key cfg w) = None \<Longrightarrow> chained env cfg sg s1 w"
  proof -
    show "chained env cfg sg s1 w" if "object_at s (manifest_key cfg w) = None"
      using exportWindow_chained [OF Cons.prems(1) w that x] by blast
    show "faultless s1"
    proof (cases "object_at s (manifest_key cfg w)")
      case None
      then show ?thesis using exportWindow_chained [OF Cons.prems(1) w None x] by blast
    next
      case (Some mb)
      then show ?thesis using x Cons.prems(1) by (auto simp: exportWindow_def faultless_calls)
    qed
  qed
  consider (stop) "s' = s" | (last) "s' = s1" | (loop) j err' where
    "export_windows env cfg sg clock cancelled j ws err' s1 = (r, s')"
    using Cons.prems(5) x
    by (cases "cancelled i"; cases e rule: option.exhaust; (cases "the e")?) (auto split: source_error.splits)
  then show ?case
  proof cases
    case stop
    then show ?thesis by (simp add: chained_absent)
  next
    case last
    have "chained env cfg sg s1 v" if "valid_window v" "object_at s (manifest_key cfg v) = None" for v
      using that f1(2) other [of v] chained_absent by (cases "v = w") auto
    moreover have "object_at s1 (manifest_key cfg v) = object_at s (manifest_key cfg v)"
      if "valid_window v" "v \<noteq> w \<or> object_at s (manifest_key cfg v) \<noteq> None" for v
      using that other skip by metis
    ultimately show ?thesis using last by auto
  next
    case loop
    note ih = Cons.IH [OF f1(1) i1 ws(1,2) loop]
    have pw: "object_at s' (manifest_key cfg (previous_window w)) = object_at s1 (manifest_key cfg (previous_window w))"
      using ih valid_previous [OF w] ws(3) by blast
    have "chained env cfg sg s' v" if v: "valid_window v" "object_at s (manifest_key cfg v) = None" for v
    proof (cases "v = w \<and> object_at s1 (manifest_key cfg w) \<noteq> None")
      case True
      then show ?thesis using ih v f1(2) pw w chained_cong [of s' cfg w s1] by auto
    next
      case False
      then have "object_at s1 (manifest_key cfg v) = None" using other [OF v(1)] v(2) by metis
      then show ?thesis using ih v(1) by blast
    qed
    moreover have "object_at s' (manifest_key cfg v) = object_at s (manifest_key cfg v)"
      if v: "valid_window v" "v \<notin> set (w # ws) \<or> object_at s (manifest_key cfg v) \<noteq> None" for v
      using v ih other [OF v(1)] skip by (metis list.set_intros)
    ultimately show ?thesis by blast
  qed
qed

lemma hour_window_previous:
  "previous_window (hour_window stream tenant t) = hour_window stream' tenant' u \<longleftrightarrow>
     stream = stream' \<and> tenant = tenant' \<and> u = t - hour"
  by (auto simp: previous_window_def hour_window_def)

lemma pending_in_hour_order: "in_hour_order (pending cfg s stream tenant t u)"
proof -
  have "in_hour_order (map (hour_window stream tenant) (filter P (hours t u)))" for P
  proof (induction t u rule: hours.induct)
    case (1 t u)
    show ?case
    proof (cases "t < u")
      case True
      have "t - hour \<notin> set (hours (t + hour) u)" by (simp add: set_hours) (use hour_pos(1) in linarith)
      then show ?thesis using True "1.IH" hour_pos by (auto simp: hours.simps [of t] hour_window_previous)
    qed (simp add: hours.simps [of t])
  qed
  then show ?thesis by (simp add: pending_def)
qed

lemma pending_windows: "w \<in> set (pending cfg s stream tenant t u) \<Longrightarrow> \<exists>x. w = hour_window stream tenant x"
  by (auto simp: pending_def)

lemma pending_tenants_in_order:
  assumes "distinct tenants"
  shows "in_hour_order (concat (map (\<lambda>tenant. pending cfg s stream tenant t u) tenants))"
  using assms by (induction tenants)
    (auto simp: in_hour_order_append pending_in_hour_order hour_window_previous dest!: pending_windows)

lemma pending_streams_in_order:
  assumes "distinct streams" "\<forall>stream \<in> set streams. distinct (f stream)"
  shows "in_hour_order (concat (map (\<lambda>stream. concat (map (\<lambda>tenant. pending cfg s stream tenant t u) (f stream))) streams))"
  using assms by (induction streams)
    (auto simp: in_hour_order_append pending_tenants_in_order hour_window_previous dest!: pending_windows)

lemma Run_chained:
  assumes "audit_inv env cfg sg s" "sane_config cfg" "faultless s" "distinct (Streams cfg)"
    and "\<forall>stream \<in> set (Streams cfg). distinct (tenants_of env cfg (catchUpStart cfg now) (previousHourEnd cfg now) stream)"
    and "valid_window w" "object_at s (manifest_key cfg w) = None"
  shows "chained env cfg sg (snd (Run env cfg sg now clock cancelled s)) w"
proof -
  let ?t = "catchUpStart cfg now" and ?u = "previousHourEnd cfg now"
  obtain p where p: "PreflightBucket (ComplianceMode cfg) s = (p, s)"
    by (rule that [of "fst (PreflightBucket (ComplianceMode cfg) s)"])
      (simp add: PreflightBucket_def Let_def faultless_calls(1) [OF assms(3)])
  obtain c s1 where c: "collectWindows env cfg ?t ?u s = (c, s1)" by fastforce
  have inv: "s3_invar s" using assms(3) by (simp add: faultless_def)
  note f1 = collectWindows_frame [OF c inv]
  show ?thesis
  proof (cases "(\<exists>e. p = Inl e) \<or> (\<exists>e. c = Inl e)")
    case True
    then have "object_at (snd (Run env cfg sg now clock cancelled s)) = object_at s"
      using p c f1(2) by (cases p) (auto simp: Run_def)
    then show ?thesis using assms(7) by (simp add: chained_absent)
  next
    case False
    then obtain warn ws where r: "p = Inr warn" "c = Inr ws" by (cases p; cases c) auto
    have ws: "ws = concat (map (\<lambda>stream. concat (map (\<lambda>tenant. pending cfg s stream tenant ?t ?u)
        (tenants_of env cfg ?t ?u stream))) (Streams cfg))"
      and ts: "\<forall>stream \<in> set (Streams cfg). \<exists>ts. tenantsForStream env cfg stream ?t ?u = Inr ts"
      using collect_streams_spec [OF c [unfolded collectWindows_def] inv] r(2) by blast+
    have s1: "s1 = s"
      using collect_streams_faultless [OF assms(3) ts] c by (simp add: collectWindows_def)
    have "\<forall>w \<in> set ws. valid_window w"
      using collectWindows_set(1) [OF c [unfolded r(2)] inv catchUpStart_aligned [OF assms(2)] sane_streams [OF assms(2)]] .
    moreover have "in_hour_order ws" unfolding ws by (rule pending_streams_in_order [OF assms(4,5)])
    moreover have "Run env cfg sg now clock cancelled s = export_windows env cfg sg clock cancelled 0 ws None s"
      using p c r s1 by (simp add: Run_def)
    ultimately show ?thesis
      using export_windows_chained [OF assms(3,1)] assms(6,7) by (metis prod.collapse)
  qed
qed

section \<open>The contract of one window\<close>

text \<open>
  The export of one window fulfils the contract \<open>window_store\<close>, and the loop of the exporter is the
  loop of that theory up to the names of the errors.
\<close>

definition has_manifest :: "audit_config \<Rightarrow> s3_state \<Rightarrow> export_window \<Rightarrow> bool" where
  "has_manifest cfg s w \<longleftrightarrow> object_at s (manifest_key cfg w) \<noteq> None"

interpretation audit: window_store "audit_inv env cfg sg" valid_window valid_window "has_manifest cfg" "\<lambda>i. exportWindow env cfg sg (clock i)"
  for env cfg sg clock
proof
  fix s w v :: _ and i
  assume s: "audit_inv env cfg sg s" and w: "valid_window w"
  note step = exportWindow_step [OF s w, of "clock i"]
  show "audit_inv env cfg sg (snd (exportWindow env cfg sg (clock i) w s))"
    using step(1) by (simp add: window_step_def)
  show "has_manifest cfg (snd (exportWindow env cfg sg (clock i) w s)) w"
    if "fst (exportWindow env cfg sg (clock i) w s) = None"
    using step(1) that by (simp add: window_step_def has_manifest_def)
  show "has_manifest cfg (snd (exportWindow env cfg sg (clock i) w s)) w" if "has_manifest cfg s w"
    using step(2) that by (simp add: has_manifest_def)
  show "has_manifest cfg (snd (exportWindow env cfg sg (clock i) w s)) v = has_manifest cfg s v"
    if v: "valid_window v" "v \<noteq> w"
  proof -
    have "manifest_key cfg v \<notin> set (window_keys cfg w)"
      using keys_eq [OF v(1) w, of cfg] v(2) by (auto simp: window_keys_def)
    then show ?thesis using step(1) by (simp add: window_step_def has_manifest_def)
  qed
qed

fun source_outage :: "window_error \<Rightarrow> bool" where
  "source_outage (SourceErr (SourceUnavailableError _ _)) = True"
| "source_outage _ = False"

fun run_error_of :: "window_error loop_error \<Rightarrow> run_error" where
  "run_error_of Cancelled = ContextCancelled"
| "run_error_of (Outage (SourceErr e)) = SourceOutage e"
| "run_error_of (Outage e) = WindowsFailed e"
| "run_error_of (Failed e) = WindowsFailed e"

lemma export_windows_loop:
  "export_windows env cfg sg clock cancelled i ws (map_option run_error_of err) s =
     apfst (map_option run_error_of)
       (export_loop (\<lambda>i. exportWindow env cfg sg (clock i)) source_outage cancelled i ws err s)"
proof (induction ws arbitrary: i err s)
  case (Cons w ws)
  obtain e s1 where st: "exportWindow env cfg sg (clock i) w s = (e, s1)" by fastforce
  show ?case
  proof (cases e)
    case None
    then show ?thesis using st Cons.IH [of "i + 1" err s1] by simp
  next
    case (Some x)
    then show ?thesis
      using st Cons.IH [of "i + 1" "Some (Failed x)" s1] by (cases x rule: source_outage.cases) (auto split: source_error.split)
  qed
qed simp

section \<open>Properties\<close>

definition audit_targets :: "audit_env \<Rightarrow> audit_config \<Rightarrow> time \<Rightarrow> export_window set" where
  "audit_targets env cfg now =
     {hour_window stream tenant t | stream tenant t. stream \<in> set (Streams cfg) \<and>
        tenant \<in> set (tenants_of env cfg (catchUpStart cfg now) (previousHourEnd cfg now) stream) \<and>
        t \<in> set (hours (catchUpStart cfg now) (previousHourEnd cfg now))}"

lemma audit_target_valid: "sane_config cfg \<Longrightarrow> w \<in> audit_targets env cfg now \<Longrightarrow> valid_window w"
  using hours_aligned [OF _ catchUpStart_aligned]
  by (auto simp: audit_targets_def sane_config_def intro: valid_hour_window)

definition exported_hours :: "audit_config \<Rightarrow> s3_state \<Rightarrow> export_window set" where
  "exported_hours cfg s = {w. valid_window w \<and> has_manifest cfg s w}"

text \<open>
  C10: a run keeps every window sealed, whatever fails and wherever it stops: every manifest in
  the bucket has its data file, names its hash and size, is signed, and names as previous hash
  either nothing or the hash of the manifest of the previous hour. Nothing is named only where
  it must be: where the store does not fail, and streams and tenants are listed once, every
  manifest the run writes names the hash of the manifest that the bucket holds for the hour
  before when the run ends, if it holds one that is valid JSON.
\<close>

theorem run_keeps_windows_sealed:
  assumes "audit_inv env cfg sg s" "sane_config cfg" "Run env cfg sg now clock cancelled s = (r, s')"
  shows "audit_inv env cfg sg s' \<and>
    (\<forall>w mb pm. plan s = [] \<and> distinct (Streams cfg) \<and>
       (\<forall>stream \<in> set (Streams cfg). distinct (tenants_of env cfg (catchUpStart cfg now) (previousHourEnd cfg now) stream)) \<and>
       valid_window w \<and> object_at s (manifest_key cfg w) = None \<and> object_at s' (manifest_key cfg w) = Some mb \<and>
       object_at s' (manifest_key cfg (previous_window w)) = Some pm \<and> json_Valid env pm \<longrightarrow>
       (\<exists>stats created. mb = marshalCanonical (manifest_json
          (mk_manifest cfg sg created w stats (hex_encode (sha256 env pm))))))"
proof -
  have "audit_inv env cfg sg s'" using Run_loop [OF assms(3,1,2)] by (simp add: loop_step_def)
  moreover have "plan s = [] \<Longrightarrow> faultless s" using assms(1) by (simp add: faultless_def audit_inv_def)
  ultimately show ?thesis
    using Run_chained [OF assms(1,2), of now _ clock cancelled] assms(3) unfolding chained_def by (metis snd_conv)
qed

text \<open>
  C11: the files of a window with a manifest are never written again, by any run.
\<close>

theorem sealed_windows_immutable:
  assumes "audit_inv env cfg sg s" "sane_config cfg"
    and "valid_window w" "object_at s (manifest_key cfg w) \<noteq> None" "k \<in> set (window_keys cfg w)"
  shows "object_at (snd (Run env cfg sg now clock cancelled s)) k = object_at s k"
  using Run_loop [of env cfg sg now clock cancelled s] assms
  by (cases "Run env cfg sg now clock cancelled s") (auto simp: loop_step_def)

text \<open>
  A run refines the abstract operation on the set of exported windows: nothing exported is lost,
  nothing is exported that was not asked for, and a run that reports no error has exported every
  hour of the catch-up range, for every stream and every tenant of the stream.
\<close>

lemma Run_refines:
  assumes "audit_inv env cfg sg s" "sane_config cfg" "Run env cfg sg now clock cancelled s = (r, s')"
  shows "spec_run (exported_hours cfg s) (audit_targets env cfg now) (r = None) (exported_hours cfg s')"
  using assms(3,1,2)
proof (cases rule: Run_cases)
  case (stopped e)
  then show ?thesis by (simp add: exported_hours_def has_manifest_def spec_run_refl)
next
  case (exported ws s0 s1)
  obtain q where q: "export_loop (\<lambda>i. exportWindow env cfg sg (clock i)) source_outage cancelled 0 ws None s1 = (q, s')"
    and r: "r = map_option run_error_of q"
    using exported(8) export_windows_loop [of env cfg sg clock cancelled 0 ws None s1] by (auto simp: apfst_def map_prod_def split: prod.splits)
  have "ws = concat (map (\<lambda>stream. concat (map (\<lambda>tenant. pending cfg s stream tenant (catchUpStart cfg now)
      (previousHourEnd cfg now)) (tenants_of env cfg (catchUpStart cfg now) (previousHourEnd cfg now) stream))) (Streams cfg))"
    using collect_streams_spec [OF exported(3) [unfolded collectWindows_def] exported(1)] pending_cong [OF exported(2)] by simp
  then have "set ws = {w \<in> audit_targets env cfg now. object_at s (manifest_key cfg w) = None}"
    by (force simp: audit_targets_def pending_def)
  then have "set ws = audit_targets env cfg now - exported_hours cfg s"
    using audit_target_valid [OF assms(2)] by (auto simp: exported_hours_def has_manifest_def)
  moreover have "{w \<in> set ws. valid_window w} = set ws" using exported(4) by auto
  moreover note audit.loop_refines [OF exported(5,4) q]
  moreover have "exported_hours cfg s1 = exported_hours cfg s" using exported(6) by (simp add: exported_hours_def has_manifest_def)
  ultimately show ?thesis
    using r spec_run_skip [of "exported_hours cfg s" "audit_targets env cfg now"]
    by (auto simp: audit.exported_def exported_hours_def)
qed

text \<open>
  Running again changes nothing: after a run without error, a run at the same time writes no
  object at all.
\<close>

theorem rerun_writes_nothing:
  assumes "audit_inv env cfg sg s" "sane_config cfg"
    and "Run env cfg sg now clock cancelled s = (None, s')"
    and "Run env cfg sg now clock' cancelled' s' = (r, s'')"
  shows "object_at s'' = object_at s' \<and> written s'' = written s'"
proof -
  have inv': "audit_inv env cfg sg s'" using Run_loop [OF assms(3,1,2)] by (simp add: loop_step_def)
  show ?thesis
    using assms(4) inv' assms(2)
  proof (cases rule: Run_cases)
    case (exported ws s0 s1)
    let ?t = "catchUpStart cfg now" and ?u = "previousHourEnd cfg now"
    have "ws = concat (map (\<lambda>stream. concat (map (\<lambda>tenant. pending cfg s0 stream tenant ?t ?u)
         (tenants_of env cfg ?t ?u stream))) (Streams cfg))"
      using collect_streams_spec [OF exported(3) [unfolded collectWindows_def] exported(1)] by blast
    moreover have "pending cfg s0 stream tenant ?t ?u = []"
      if "stream \<in> set (Streams cfg)" "tenant \<in> set (tenants_of env cfg ?t ?u stream)" for stream tenant
      using exported_manifest [OF assms(1,2,3) that] exported(2)
      by (auto simp: pending_def filter_empty_conv)
    ultimately have "ws = []" by simp
    with exported show ?thesis by simp
  qed simp
qed

text \<open>
  One call writes a prefix of data file, signature, manifest, in this order; the manifest
  comes last, and without it the window counts as not exported.
\<close>

theorem manifest_written_last:
  assumes "audit_inv env cfg sg s" "valid_window w"
  shows "\<exists>n. written (snd (exportWindow env cfg sg created w s)) =
    written s @ take n [data_key cfg w, sig_key cfg w, manifest_key cfg w]"
  using exportWindow_step(1) [OF assms, of created] by (simp add: window_step_def window_keys_def)

text \<open>
  The windows a run exports are whole past hours: aligned, inside the catch-up range of
  \<open>CatchUpHours\<close> hours, and with an export delay of at most one hour each window is over for at
  least that delay when the run starts.
\<close>

theorem window_bounds:
  assumes "collectWindows env cfg (catchUpStart cfg now) (previousHourEnd cfg now) s = (Inr ws, s')"
    and "s3_invar s" "sane_config cfg"
    and "w \<in> set ws" "0 \<le> CatchUpHours cfg" "ExportDelay cfg \<le> hour"
  shows "hour dvd Start w \<and> End w = Start w + hour \<and>
    previousHourEnd cfg now - CatchUpHours cfg * hour \<le> Start w \<and> End w + ExportDelay cfg \<le> now \<and>
    length (hours (catchUpStart cfg now) (previousHourEnd cfg now)) = nat (CatchUpHours cfg)"
proof -
  let ?t = "catchUpStart cfg now" and ?u = "previousHourEnd cfg now"
  obtain stream tenant where w: "w \<in> set (pending cfg s stream tenant ?t ?u)" "stream \<in> set (Streams cfg)"
    using collect_streams_spec [OF assms(1) [unfolded collectWindows_def] assms(2)] assms(4) by auto
  note v = pending_valid [OF w(1) catchUpStart_aligned [OF assms(3)] bspec [OF sane_streams [OF assms(3)] w(2)]]
  have "End w \<le> ?u" using v(5) previousHourEnd_aligned by blast
  moreover have "?u + ExportDelay cfg \<le> now"
    using truncate_hour_le [of now] assms(6) by (auto simp: previousHourEnd_def Let_def)
  moreover have "length (hours ?t ?u) = nat (CatchUpHours cfg)"
    using length_hours [of ?t "nat (CatchUpHours cfg)"] catchUp_span [OF assms(3), of now] assms(5) by simp
  ultimately show ?thesis using v(1,4) catchUp_span [OF assms(3), of now] by (simp add: valid_window_def)
qed

text \<open>
  Collecting is exact: on a faultless store the windows of a run are the hours of each stream
  and tenant that have no manifest, in the order of streams, tenants and hours.
\<close>

lemma collectWindows_exact:
  assumes "faultless s" "\<forall>stream \<in> set (Streams cfg). \<exists>ts. tenantsForStream env cfg stream t u = Inr ts"
  shows "collectWindows env cfg t u s =
    (Inr (concat (map (\<lambda>stream. concat (map (\<lambda>tenant. pending cfg s stream tenant t u)
       (tenants_of env cfg t u stream))) (Streams cfg))), s)"
  using collect_streams_faultless [OF assms] by (simp add: collectWindows_def)

text \<open>
  C12: progress: from whatever earlier, failed or interrupted runs left in the bucket, a run
  outside compliance mode that is not cancelled, in which no call fails, the sources answer and the
  signer signs, succeeds and leaves a manifest for every hour of the catch-up range, of every stream
  and tenant.
\<close>

theorem faultless_run_completes:
  assumes "audit_inv env cfg sg s" "faultless s" "signs sg" "\<not> ComplianceMode cfg" "\<forall>i. \<not> cancelled i"
    and "sane_config cfg" "sources_ready env cfg now"
  shows "fst (Run env cfg sg now clock cancelled s) = None \<and>
    (\<forall>stream \<in> set (Streams cfg).
     \<forall>tenant \<in> set (tenants_of env cfg (catchUpStart cfg now) (previousHourEnd cfg now) stream).
     \<forall>t \<in> set (hours (catchUpStart cfg now) (previousHourEnd cfg now)).
       object_at (snd (Run env cfg sg now clock cancelled s)) (manifest_key cfg (hour_window stream tenant t)) \<noteq> None)"
proof -
  have ok: "fst (Run env cfg sg now clock cancelled s) = None" by (rule Run_faultless [OF assms(2-5,7)])
  then have "Run env cfg sg now clock cancelled s = (None, snd (Run env cfg sg now clock cancelled s))"
    by (metis prod.collapse)
  with ok show ?thesis using exported_manifest [OF assms(1,6)] by blast
qed

text \<open>
  Compliance mode needs object lock: on a bucket without it, or whose lock cannot be read,
  the run stops with an error and writes nothing.
\<close>

theorem compliance_requires_lock:
  assumes "ComplianceMode cfg" "\<not> (fst (next_fault s) = Works \<and> objectLock s)"
  shows "Run env cfg sg now clock cancelled s = (Some (PreflightFailed (NoWorm (bucket s))), snd (next_fault s)) \<and>
    objects (snd (next_fault s)) = objects s \<and> written (snd (next_fault s)) = written s"
proof -
  obtain f s1 where nf: "next_fault s = (f, s1)" by fastforce
  have "PreflightBucket (ComplianceMode cfg) s = (Inl (NoWorm (bucket s)), s1)"
    using assms nf by (auto simp: PreflightBucket_def Let_def)
  then show ?thesis using next_fault_frame [OF nf] nf by (simp add: Run_def)
qed

text \<open>
  In compliance mode a data file without a manifest blocks its window: no call for the window
  succeeds or writes anything, since the locked data file could not be replaced.
\<close>

theorem partial_upload_blocks:
  assumes "s3_invar s" "ComplianceMode cfg"
    and "object_at s (data_key cfg w) \<noteq> None" "object_at s (manifest_key cfg w) = None"
    and "exportWindow env cfg sg created w s = (r, s')"
  shows "r \<noteq> None \<and> object_at s' = object_at s \<and> written s' = written s"
proof -
  obtain x s1 where ex: "ObjectExists (manifest_key cfg w) s = (x, s1)" by fastforce
  note f1 = ObjectExists_frame [OF ex assms(1)]
  obtain y s2 where ey: "ObjectExists (data_key cfg w) s1 = (y, s2)" by fastforce
  have f2: "object_at s2 = object_at s \<and> written s2 = written s" using ObjectExists_frame [OF ey] f1 by simp
  have "x \<noteq> Inr True" using ObjectExists_true [of "manifest_key cfg w" s True s1] ex assms(1,4) by auto
  moreover have "y \<noteq> Inr False" using ObjectExists_true [of "data_key cfg w" s1 False s2] ey f1 assms(3) by auto
  ultimately show ?thesis
    using assms(2,5) ex ey f1 f2
    by (auto simp: exportWindow_def compliance_check_def split: sum.splits bool.splits)
qed

section \<open>Instances\<close>

definition demo_env :: audit_env where
  "demo_env = \<lparr>http = (\<lambda>_. HttpReply 200 [] False),
     decoder = \<lparr>decode_values = (\<lambda>_. None), decode_value = (\<lambda>_. None)\<rparr>,
     strconv_Quote = (\<lambda>s. s), time_Parse = (\<lambda>_ _. None), gzip = (\<lambda>s. s), sha256 = (\<lambda>s. take 4 s),
     hmac_sha256 = (\<lambda>k m. k @ m), base64_encode = (\<lambda>s. s), base64_decode = (\<lambda>_. None), json_Valid = (\<lambda>_. True)\<rparr>"

definition demo_cfg :: audit_config where
  "demo_cfg = \<lparr>VLogsURL = ''http://vl'', S3Endpoint = [], S3Bucket = ''b'', S3Prefix = ''audit'', S3AccessKey = [], S3SecretKey = [],
     S3Region = ''us-east-1'', S3UsePathStyle = True, S3ForceHTTP = False, ComplianceMode = False, KMSKeyID = ''key'',
     Streams = [StreamPlatformAuditLog], Tenants = [], ExportDelay = 0, CatchUpHours = 1,
     ProducerName = ''kof'', ProducerVersion = ''v1''\<rparr>"

definition demo_locked :: audit_config where
  "demo_locked = demo_cfg\<lparr>ComplianceMode := True\<rparr>"

definition empty_bucket :: s3_state where
  "empty_bucket = \<lparr>objects = [], plan = [], missing = NoSuchKey, objectLock = False, bucket = ''b'', written = []\<rparr>"

abbreviation demo_signer :: signer where
  "demo_signer \<equiv> NewSigner demo_env demo_cfg"

abbreviation demo_run :: "s3_state \<Rightarrow> run_error option \<times> s3_state" where
  "demo_run \<equiv> Run demo_env demo_cfg demo_signer (3 * hour) (\<lambda>_. 0) (\<lambda>_. False)"

abbreviation demo_window :: export_window where
  "demo_window \<equiv> hour_window StreamPlatformAuditLog TenantPlatform (2 * hour)"

lemma demo_range: "previousHourEnd demo_cfg (3 * hour) = 3 * hour" "catchUpStart demo_cfg (3 * hour) = 2 * hour"
  "hours (2 * hour) (3 * hour) = [2 * hour]"
  by (simp_all add: previousHourEnd_def catchUpStart_def demo_cfg_def truncate_hour_id Let_def hours.simps int64_def)

lemma demo_streams: "sane_config demo_cfg"
  by (simp add: sane_config_def demo_cfg_def StreamPlatformAuditLog_def)

lemma demo_tenants: "tenantsForStream demo_env demo_cfg StreamPlatformAuditLog t u = Inr [TenantPlatform]"
  "tenants_of demo_env demo_cfg t u StreamPlatformAuditLog = [TenantPlatform]" "Streams demo_cfg = [StreamPlatformAuditLog]"
  by (simp_all add: tenants_of_def tenantsForStream_def demo_cfg_def)

lemma empty_inv: "audit_inv env cfg sg empty_bucket" "faultless empty_bucket" "s3_invar empty_bucket"
  by (simp_all add: audit_inv_def sealed_def faultless_def empty_bucket_def s3_invar_def object_at_def)

lemma demo_ready: "sources_ready demo_env demo_cfg (3 * hour)"
proof -
  have "source_ready demo_env demo_cfg w" for w
    by (simp add: source_ready_def QueryEvents_def QueryStream_def demo_env_def Let_def compressEvents_def
        scan_lines_def raw_lines_def)
  then show ?thesis by (simp add: sources_ready_def demo_tenants)
qed

lemma demo_valid: "valid_window demo_window"
  by (simp add: valid_window_def hour_window_def StreamPlatformAuditLog_def)

lemma demo_first_run: "demo_run empty_bucket = (None, snd (demo_run empty_bucket))"
proof -
  have "fst (demo_run empty_bucket) = None"
    by (rule Run_faultless [OF empty_inv(2) local_signer_signs _ _ demo_ready]) (simp_all add: demo_cfg_def)
  then show ?thesis by (metis prod.collapse)
qed

lemma demo_second:
  "audit_inv demo_env demo_cfg demo_signer (snd (demo_run empty_bucket))"
  "object_at (snd (demo_run empty_bucket)) (manifest_key demo_cfg demo_window) \<noteq> None"
proof -
  show "audit_inv demo_env demo_cfg demo_signer (snd (demo_run empty_bucket))"
    using Run_loop [OF demo_first_run empty_inv(1) demo_streams] by (simp add: loop_step_def)
  show "object_at (snd (demo_run empty_bucket)) (manifest_key demo_cfg demo_window) \<noteq> None"
    by (rule exported_manifest [OF empty_inv(1) demo_streams demo_first_run]) (simp_all add: demo_tenants demo_range)
qed

text \<open>Two hours from an empty bucket: the second manifest names the hash of the first.\<close>

abbreviation demo_two :: audit_config where
  "demo_two \<equiv> demo_cfg\<lparr>CatchUpHours := 2\<rparr>"

abbreviation demo_two_run :: "run_error option \<times> s3_state" where
  "demo_two_run \<equiv> Run demo_env demo_two demo_signer (3 * hour) (\<lambda>_. 0) (\<lambda>_. False) empty_bucket"

lemma demo_two_facts:
  "sane_config demo_two" "Streams demo_two = [StreamPlatformAuditLog]"
  "tenantsForStream demo_env demo_two StreamPlatformAuditLog t u = Inr [TenantPlatform]"
  "tenants_of demo_env demo_two t u StreamPlatformAuditLog = [TenantPlatform]"
  "previousHourEnd demo_two (3 * hour) = 3 * hour" "catchUpStart demo_two (3 * hour) = hour"
  "hours hour (3 * hour) = [hour, 2 * hour]"
  by (simp_all add: sane_config_def demo_cfg_def StreamPlatformAuditLog_def tenantsForStream_def tenants_of_def
      previousHourEnd_def catchUpStart_def truncate_hour_id Let_def hours.simps int64_def)
    (simp_all add: hour_def second_def)

lemma demo_two_manifests:
  "object_at (snd demo_two_run) (manifest_key demo_two (hour_window StreamPlatformAuditLog TenantPlatform hour)) \<noteq> None"
  "object_at (snd demo_two_run) (manifest_key demo_two demo_window) \<noteq> None"
proof -
  have "source_ready demo_env demo_two w" for w
    by (simp add: source_ready_def QueryEvents_def QueryStream_def demo_env_def Let_def compressEvents_def
        scan_lines_def raw_lines_def)
  then have "sources_ready demo_env demo_two (3 * hour)" by (simp add: sources_ready_def demo_two_facts)
  then have "fst demo_two_run = None"
    by (intro Run_faultless [OF empty_inv(2) local_signer_signs]) (simp_all add: demo_cfg_def)
  then have "demo_two_run = (None, snd demo_two_run)" by (metis prod.collapse)
  note e = exported_manifest [OF empty_inv(1) demo_two_facts(1) this, of StreamPlatformAuditLog TenantPlatform]
  show "object_at (snd demo_two_run) (manifest_key demo_two (hour_window StreamPlatformAuditLog TenantPlatform hour)) \<noteq> None"
    "object_at (snd demo_two_run) (manifest_key demo_two demo_window) \<noteq> None"
    using e [of hour] e [of "2 * hour"] by (simp_all add: demo_two_facts)
qed

theorem run_keeps_windows_sealed_witness:
  "audit_inv demo_env demo_two demo_signer (snd demo_two_run) \<and>
   (\<exists>mb pm stats created. object_at (snd demo_two_run) (manifest_key demo_two demo_window) = Some mb \<and>
      object_at (snd demo_two_run) (manifest_key demo_two (hour_window StreamPlatformAuditLog TenantPlatform hour)) = Some pm \<and>
      mb = marshalCanonical (manifest_json
        (mk_manifest demo_two demo_signer created demo_window stats (hex_encode (sha256 demo_env pm)))))"
proof -
  have prev: "previous_window demo_window = hour_window StreamPlatformAuditLog TenantPlatform hour"
    by (simp add: hour_window_previous)
  obtain mb pm where m: "object_at (snd demo_two_run) (manifest_key demo_two demo_window) = Some mb"
    "object_at (snd demo_two_run) (manifest_key demo_two (previous_window demo_window)) = Some pm"
    using demo_two_manifests by (auto simp: prev)
  have "object_at empty_bucket (manifest_key demo_two demo_window) = None" "plan empty_bucket = []" "json_Valid demo_env pm"
    by (simp_all add: empty_bucket_def object_at_def demo_env_def)
  with m show ?thesis
    using run_keeps_windows_sealed [OF empty_inv(1) demo_two_facts(1) surjective_pairing, of demo_env demo_signer "3 * hour" "\<lambda>_. 0" "\<lambda>_. False"]
      demo_valid by (simp add: demo_two_facts prev)
qed

theorem sealed_windows_immutable_witness:
  "object_at (snd (demo_run (snd (demo_run empty_bucket)))) (data_key demo_cfg demo_window) =
     object_at (snd (demo_run empty_bucket)) (data_key demo_cfg demo_window)"
  by (rule sealed_windows_immutable [OF demo_second(1) demo_streams demo_valid demo_second(2)])
    (simp add: window_keys_def)

theorem rerun_writes_nothing_witness:
  "written (snd (demo_run (snd (demo_run empty_bucket)))) = written (snd (demo_run empty_bucket))"
  using rerun_writes_nothing [OF empty_inv(1) demo_streams demo_first_run surjective_pairing, of "\<lambda>_. 0" "\<lambda>_. False"]
  by simp

theorem manifest_written_last_witness:
  "\<exists>n. written (snd (exportWindow demo_env demo_cfg demo_signer 0 demo_window empty_bucket)) =
     take n [data_key demo_cfg demo_window, sig_key demo_cfg demo_window, manifest_key demo_cfg demo_window]"
  using manifest_written_last [OF empty_inv(1) demo_valid, of demo_env demo_cfg demo_signer 0]
  by (simp add: empty_bucket_def)

theorem window_bounds_witness:
  "collectWindows demo_env demo_cfg (2 * hour) (3 * hour) empty_bucket = (Inr [demo_window], empty_bucket) \<and>
     End demo_window \<le> 3 * hour"
proof -
  have c: "collectWindows demo_env demo_cfg (2 * hour) (3 * hour) empty_bucket = (Inr [demo_window], empty_bucket)"
    using collect_streams_faultless [OF empty_inv(2), of "Streams demo_cfg" demo_env demo_cfg]
    by (simp add: collectWindows_def demo_tenants demo_range pending_def empty_bucket_def object_at_def)
  have "End demo_window + ExportDelay demo_cfg \<le> 3 * hour"
    using window_bounds [of demo_env demo_cfg "3 * hour" empty_bucket "[demo_window]" empty_bucket demo_window]
      c demo_streams empty_inv(3) less_imp_le [OF hour_pos(1)] by (simp add: demo_range) (simp add: demo_cfg_def)
  with c show ?thesis by (simp add: demo_cfg_def)
qed

theorem faultless_run_completes_witness:
  "fst (demo_run empty_bucket) = None \<and>
     object_at (snd (demo_run empty_bucket)) (manifest_key demo_cfg demo_window) \<noteq> None"
  using faultless_run_completes [OF empty_inv(1,2) local_signer_signs _ _ demo_streams demo_ready,
      of "\<lambda>_. False" demo_env demo_cfg "\<lambda>_. 0"]
  by (simp add: demo_tenants demo_range) (simp add: demo_cfg_def)

theorem compliance_requires_lock_witness:
  "fst (Run demo_env demo_locked demo_signer 0 (\<lambda>_. 0) (\<lambda>_. False) empty_bucket) =
     Some (PreflightFailed (NoWorm ''b''))"
  using compliance_requires_lock [of demo_locked empty_bucket demo_env demo_signer 0 "\<lambda>_. 0" "\<lambda>_. False"]
  by (simp add: demo_locked_def empty_bucket_def)

theorem partial_upload_blocks_witness:
  "written (snd (exportWindow demo_env demo_locked demo_signer 0 demo_window
     (store_object (data_key demo_locked demo_window) ''x'' empty_bucket))) = [data_key demo_locked demo_window]"
proof -
  let ?s = "store_object (data_key demo_locked demo_window) ''x'' empty_bucket"
  have "object_at ?s (manifest_key demo_locked demo_window) = None"
    using keys_eq(6) [OF demo_valid demo_valid, of demo_locked]
    by (simp add: object_at_store [of _ _ empty_bucket]) (simp add: empty_bucket_def object_at_def)
  then have "written (snd (exportWindow demo_env demo_locked demo_signer 0 demo_window ?s)) = written ?s"
    using partial_upload_blocks [OF s3_invar_store [OF empty_inv(3)] _ _ _ surjective_pairing,
      of demo_locked "data_key demo_locked demo_window" "''x''" demo_window demo_env demo_signer 0]
    by (simp add: demo_locked_def)
  then show ?thesis by (simp add: store_object_def empty_bucket_def)
qed

end
