(* ===== verification/Cold_Data.thy ===== *)
theory Cold_Data
  imports Env VLogs
begin

text \<open>
  The data path of the cold-storage exporter (\<open>kof-operator/internal/coldstorage\<close>): the rows of
  \<open>types.go\<close>, the parsers and scanners of \<open>vmclient.go\<close>, \<open>vlogs_client.go\<close> and
  \<open>vtraces_client.go\<close>, and the Parquet writers of \<open>parquet.go\<close>.

  Parameters (\<open>cold_codec\<close>): \<open>time.Parse\<close>, the decoding of a JSON number, of a JSON string and
  of a line of the VictoriaMetrics export, and the encoding of Parquet files by the library
  \<open>parquet-go\<close>, one for each schema. A Parquet writer is the list of the rows it was given, so the
  file is the encoding of that list when the writer is closed.
\<close>

section \<open>Rows\<close>

definition SourceMetrics :: string where "SourceMetrics = ''metrics''"
definition SourceLogs :: string where "SourceLogs = ''logs''"
definition SourceTraces :: string where "SourceTraces = ''traces''"

datatype float64 = Finite string | PosInf | NegInf | NaN

record metric_row =
  MTimestamp :: int
  MetricName :: string
  Value :: float64
  MTenant :: string
  MCluster :: string
  MClusterNamespace :: string
  MNamespace :: string
  MPod :: string
  MNode :: string
  MJob :: string
  Labels :: "string gomap"

record vm_export_line =
  Metric :: "string gomap"
  Values :: "string list"
  Timestamps :: "int list"

record log_row =
  TimestampNs :: int
  LTraceId :: string
  LSpanId :: string
  LTraceFlags :: nat
  SeverityText :: string
  SeverityNumber :: int
  LServiceName :: string
  Body :: string
  LTenant :: string
  LCluster :: string
  LClusterNamespace :: string
  LNamespace :: string
  LPod :: string
  LNode :: string
  Attributes :: "string gomap"

record trace_event =
  EventTimestampNs :: int
  EventName :: string
  EventAttributes :: "string gomap"

record trace_row =
  Timestamp :: int
  TraceId :: string
  SpanId :: string
  ParentSpanId :: string
  TraceState :: string
  TraceFlags :: nat
  SpanName :: string
  SpanKind :: string
  ServiceName :: string
  Duration :: int
  StatusCode :: string
  StatusMessage :: string
  TTenant :: string
  TCluster :: string
  TClusterNamespace :: string
  TNamespace :: string
  TPod :: string
  TNode :: string
  ResourceAttributes :: "string gomap"
  SpanAttributes :: "string gomap"
  Events :: "trace_event list"

section \<open>Parquet rows\<close>

text \<open>Columns with JSON bytes are absent (\<open>nil\<close>) when the map or list is empty.\<close>

record metric_parquet_row =
  pm_row :: metric_row
  LabelsJSON :: "string option"

record log_parquet_row =
  pl_row :: log_row
  LogAttributes :: "string option"

record trace_parquet_row =
  pt_row :: trace_row
  ResourceAttributesJSON :: "string option"
  SpanAttributesJSON :: "string option"
  EventsJSON :: "string option"

definition attrs_json :: "string gomap \<Rightarrow> string option" where
  "attrs_json m = (if length m > 0 then Some (marshal_flat m) else None)"

definition event_json :: "trace_event \<Rightarrow> string" where
  "event_json ev =
     ''{'' @ json_string ''ts'' @ '':'' @ dec_int (EventTimestampNs ev) @ '','' @
     json_string ''name'' @ '':'' @ json_string (EventName ev) @
     (if EventAttributes ev = [] then []
      else '','' @ json_string ''attrs'' @ '':'' @ marshal_flat (EventAttributes ev)) @ ''}''"

definition events_json :: "trace_event list \<Rightarrow> string option" where
  "events_json evs = (if length evs > 0 then Some (''['' @ join '','' (map event_json evs) @ '']'') else None)"

text \<open>
  A row goes into its file without the maps that the JSON columns replace, so that two rows have
  the same columns exactly when all their columns agree.
\<close>

definition metric_columns :: "metric_row \<Rightarrow> metric_parquet_row" where
  "metric_columns r = \<lparr>pm_row = r\<lparr>Labels := []\<rparr>, LabelsJSON = attrs_json (Labels r)\<rparr>"

definition log_columns :: "log_row \<Rightarrow> log_parquet_row" where
  "log_columns r = \<lparr>pl_row = r\<lparr>Attributes := []\<rparr>, LogAttributes = attrs_json (Attributes r)\<rparr>"

definition trace_columns :: "trace_row \<Rightarrow> trace_parquet_row" where
  "trace_columns r =
     \<lparr>pt_row = r\<lparr>ResourceAttributes := [], SpanAttributes := [], Events := []\<rparr>,
      ResourceAttributesJSON = attrs_json (ResourceAttributes r),
      SpanAttributesJSON = attrs_json (SpanAttributes r),
      EventsJSON = events_json (Events r)\<rparr>"

record 'row parquet_writer =
  pw :: "'row list"
  row_count :: nat

definition new_writer :: "'row parquet_writer" where
  "new_writer = \<lparr>pw = [], row_count = 0\<rparr>"

definition write_rows :: "'row list \<Rightarrow> 'row parquet_writer \<Rightarrow> 'row parquet_writer" where
  "write_rows rows w = \<lparr>pw = pw w @ rows, row_count = row_count w + length rows\<rparr>"

definition MetricsWrite :: "metric_row list \<Rightarrow> metric_parquet_row parquet_writer \<Rightarrow> metric_parquet_row parquet_writer" where
  "MetricsWrite rows w = write_rows (map metric_columns rows) w"

definition LogsWrite :: "log_row list \<Rightarrow> log_parquet_row parquet_writer \<Rightarrow> log_parquet_row parquet_writer" where
  "LogsWrite rows w = write_rows (map log_columns rows) w"

definition TracesWrite :: "trace_row list \<Rightarrow> trace_parquet_row parquet_writer \<Rightarrow> trace_parquet_row parquet_writer" where
  "TracesWrite rows w = write_rows (map trace_columns rows) w"

section \<open>The parameters\<close>

record cold_codec =
  parse_time :: "string \<Rightarrow> string \<Rightarrow> time option"
  json_float :: "string \<Rightarrow> float64 option"
  json_text :: "string \<Rightarrow> string option"
  vm_line :: "string \<Rightarrow> vm_export_line option"
  metrics_file :: "metric_parquet_row list \<Rightarrow> string"
  logs_file :: "log_parquet_row list \<Rightarrow> string"
  traces_file :: "trace_parquet_row list \<Rightarrow> string"

definition RFC3339Nano :: string where "RFC3339Nano = ''2006-01-02T15:04:05.999999999Z07:00''"

section \<open>Metrics\<close>

definition parseVMValue :: "cold_codec \<Rightarrow> string \<Rightarrow> float64 option" where
  "parseVMValue d raw =
     (case json_float d raw of
        Some f \<Rightarrow> Some f
      | None \<Rightarrow>
          (case json_text d raw of
             None \<Rightarrow> None
           | Some s \<Rightarrow>
               if s = ''NaN'' then Some NaN
               else if s = ''Infinity'' \<or> s = ''+Infinity'' then Some PosInf
               else if s = ''-Infinity'' then Some NegInf
               else None))"

definition promoted :: "string list" where
  "promoted = [''__name__'', ''tenant'', ''cluster'', ''cluster_namespace'', ''namespace'', ''pod'', ''node'', ''job'']"

datatype parse_error = ParseVMLine | LengthMismatch nat nat

definition metric_of :: "string gomap \<Rightarrow> int \<Rightarrow> float64 \<Rightarrow> metric_row" where
  "metric_of metric ts v =
     \<lparr>MTimestamp = ts, MetricName = get_str metric ''__name__'', Value = v,
      MTenant = get_str metric ''tenant'', MCluster = get_str metric ''cluster'',
      MClusterNamespace = get_str metric ''cluster_namespace'', MNamespace = get_str metric ''namespace'',
      MPod = get_str metric ''pod'', MNode = get_str metric ''node'', MJob = get_str metric ''job'',
      Labels = filter (\<lambda>(k, v). k \<notin> set promoted) metric\<rparr>"

definition ParseVMExportLine :: "cold_codec \<Rightarrow> string \<Rightarrow> parse_error + metric_row list" where
  "ParseVMExportLine d text =
     (let line = trim_space text in
      if line = [] then Inr []
      else (case vm_line d line of
          None \<Rightarrow> Inl ParseVMLine
        | Some el \<Rightarrow>
            if length (Values el) \<noteq> length (Timestamps el)
            then Inl (LengthMismatch (length (Values el)) (length (Timestamps el)))
            else Inr (concat (map (\<lambda>(raw, ts). case parseVMValue d raw of
                   None \<Rightarrow> []
                 | Some v \<Rightarrow> [metric_of (Metric el) ts v]) (zip (Values el) (Timestamps el))))))"

text \<open>The buffers of the scanners: 16 MiB for metrics, 4 MiB for logs and traces.\<close>

definition vm_line_limit :: nat where "vm_line_limit = 16 * 1024 * 1024"
definition log_line_limit :: nat where "log_line_limit = 4 * 1024 * 1024"

datatype cold_scan_error = ScanParse parse_error | ScanRead scan_error

fun scan_vm :: "cold_codec \<Rightarrow> string list \<Rightarrow> metric_parquet_row parquet_writer \<Rightarrow>
    parse_error option \<times> metric_parquet_row parquet_writer" where
  "scan_vm d [] w = (None, w)"
| "scan_vm d (l # ls) w =
     (case ParseVMExportLine d l of
        Inl e \<Rightarrow> (Some e, w)
      | Inr rows \<Rightarrow> if length rows = 0 then scan_vm d ls w else scan_vm d ls (MetricsWrite rows w))"

definition ScanVMExport :: "cold_codec \<Rightarrow> string \<times> bool \<Rightarrow> metric_parquet_row parquet_writer \<Rightarrow>
    cold_scan_error option \<times> metric_parquet_row parquet_writer" where
  "ScanVMExport d body w =
     (case scan_lines vm_line_limit (fst body) (snd body) of
        (ls, serr) \<Rightarrow>
          (case scan_vm d ls w of
             (Some e, w') \<Rightarrow> (Some (ScanParse e), w')
           | (None, w') \<Rightarrow> (map_option ScanRead serr, w')))"

section \<open>Logs\<close>

definition log_reserved :: "string list" where
  "log_reserved =
     [''_time'', ''_msg'', ''_stream'', ''_stream_id'', ''severity'', ''service.name'', ''trace_id'', ''span_id'',
      ''k8s.cluster.namespace'', ''k8s.namespace.name'', ''k8s.pod.name'', ''k8s.node.name'',
      ''k8s.cluster.name'', ''tenant'']"

definition parseVLogsLine :: "cold_codec \<Rightarrow> string gomap \<Rightarrow> string \<Rightarrow> string \<Rightarrow> log_row" where
  "parseVLogsLine d raw tenant cluster =
     \<lparr>TimestampNs =
        (case map_of raw ''_time'' of
           None \<Rightarrow> 0
         | Some t \<Rightarrow> (case parse_time d RFC3339Nano t of None \<Rightarrow> 0 | Some ts \<Rightarrow> int64 ts)),
      LTraceId = get_str raw ''trace_id'', LSpanId = get_str raw ''span_id'', LTraceFlags = 0,
      SeverityText = get_str raw ''severity'', SeverityNumber = 0,
      LServiceName = get_str raw ''service.name'', Body = get_str raw ''_msg'',
      LTenant = tenant, LCluster = cluster,
      LClusterNamespace = get_str raw ''k8s.cluster.namespace'',
      LNamespace = get_str raw ''k8s.namespace.name'', LPod = get_str raw ''k8s.pod.name'',
      LNode = get_str raw ''k8s.node.name'',
      Attributes = filter (\<lambda>(k, v). k \<notin> set log_reserved \<and> v \<noteq> []) raw\<rparr>"

text \<open>
  The scanner of both NDJSON exports: rows are collected in batches of \<open>batchSize\<close> and handed to
  the writer when a batch is full and at the end. Blank and malformed lines are skipped; the line
  \<open>null\<close> decodes to an empty record.
\<close>

definition batchSize :: nat where "batchSize = 5000"

definition flush :: "('a list \<Rightarrow> 'w \<Rightarrow> 'w) \<Rightarrow> 'a list \<Rightarrow> 'w \<Rightarrow> 'w" where
  "flush fn batch w = (if length batch = 0 then w else fn batch w)"

fun scan_batches ::
  "(string gomap \<Rightarrow> 'a) \<Rightarrow> ('a list \<Rightarrow> 'w \<Rightarrow> 'w) \<Rightarrow> string list \<Rightarrow> 'a list \<Rightarrow> 'w \<Rightarrow> 'a list \<times> 'w" where
  "scan_batches parse fn [] batch w = (batch, w)"
| "scan_batches parse fn (l # ls) batch w =
     (let line = trim_space l in
      if line = [] then scan_batches parse fn ls batch w
      else (case unmarshal_flat line of
          JsonError \<Rightarrow> scan_batches parse fn ls batch w
        | r \<Rightarrow>
            (let raw = (case r of JsonMap m \<Rightarrow> m | _ \<Rightarrow> []); batch' = batch @ [parse raw] in
             if length batch' \<ge> batchSize then scan_batches parse fn ls [] (flush fn batch' w)
             else scan_batches parse fn ls batch' w)))"

definition scan_ndjson ::
  "(string gomap \<Rightarrow> 'a) \<Rightarrow> ('a list \<Rightarrow> 'w \<Rightarrow> 'w) \<Rightarrow> string \<times> bool \<Rightarrow> 'w \<Rightarrow> cold_scan_error option \<times> 'w" where
  "scan_ndjson parse fn body w =
     (case scan_lines log_line_limit (fst body) (snd body) of
        (ls, serr) \<Rightarrow>
          (case scan_batches parse fn ls [] w of
             (batch, w') \<Rightarrow>
               (case serr of
                  Some e \<Rightarrow> (Some (ScanRead e), w')
                | None \<Rightarrow> (None, flush fn batch w'))))"

definition ScanVLogsExport :: "cold_codec \<Rightarrow> string \<times> bool \<Rightarrow> string \<Rightarrow> string \<Rightarrow>
    log_parquet_row parquet_writer \<Rightarrow> cold_scan_error option \<times> log_parquet_row parquet_writer" where
  "ScanVLogsExport d body tenant cluster =
     scan_ndjson (\<lambda>raw. parseVLogsLine d raw tenant cluster) LogsWrite body"

section \<open>Traces\<close>

definition spanKindName :: "string \<Rightarrow> string" where
  "spanKindName s =
     (if s = ''1'' then ''SPAN_KIND_INTERNAL'' else if s = ''2'' then ''SPAN_KIND_SERVER''
      else if s = ''3'' then ''SPAN_KIND_CLIENT'' else if s = ''4'' then ''SPAN_KIND_PRODUCER''
      else if s = ''5'' then ''SPAN_KIND_CONSUMER'' else ''SPAN_KIND_UNSPECIFIED'')"

definition statusCodeName :: "string \<Rightarrow> string" where
  "statusCodeName s =
     (if s = ''1'' then ''STATUS_CODE_OK'' else if s = ''2'' then ''STATUS_CODE_ERROR''
      else ''STATUS_CODE_UNSET'')"

text \<open>\<open>strconv.ParseUint(s, 10, 32)\<close>.\<close>

definition ParseUint32 :: "string \<Rightarrow> nat option" where
  "ParseUint32 s =
     (if s = [] \<or> \<not> list_all is_digit s then None
      else if dec_val 0 s < 2 ^ 32 then Some (dec_val 0 s) else None)"

definition promotedResourceAttrs :: "string list" where
  "promotedResourceAttrs =
     [''resource_attr:k8s.cluster.name'', ''resource_attr:k8s.cluster.namespace'',
      ''resource_attr:k8s.namespace.name'', ''resource_attr:k8s.pod.name'', ''resource_attr:k8s.node.name'',
      ''resource_attr:service.name'']"

definition reservedTop :: "string list" where
  "reservedTop =
     [''_time'', ''_msg'', ''_stream'', ''_stream_id'', ''trace_id'', ''span_id'', ''parent_span_id'',
      ''name'', ''kind'', ''duration'', ''flags'', ''start_time_unix_nano'', ''end_time_unix_nano'',
      ''status_code'', ''status_message'', ''scope_name'', ''scope_version'']"

text \<open>One step of the loop over the fields: resource attributes, span attributes.\<close>

definition add_attr :: "string \<times> string \<Rightarrow> string gomap \<times> string gomap \<Rightarrow> string gomap \<times> string gomap" where
  "add_attr kv st =
     (case (kv, st) of
        ((k, v), (res, span)) \<Rightarrow>
          if v = [] then (res, span)
          else if has_prefix k ''resource_attr:'' then
            (if k \<notin> set promotedResourceAttrs then (map_set (trim_prefix k ''resource_attr:'') v res, span)
             else (res, span))
          else if has_prefix k ''span_attr:'' then (res, map_set (trim_prefix k ''span_attr:'') v span)
          else if k \<notin> set reservedTop then (res, map_set k v span)
          else (res, span))"

definition add_scope :: "string gomap \<Rightarrow> string \<Rightarrow> string \<Rightarrow> string gomap \<Rightarrow> string gomap" where
  "add_scope raw field key span =
     (if get_str raw field \<noteq> [] then map_set key (get_str raw field) span else span)"

definition span_start :: "cold_codec \<Rightarrow> string gomap \<Rightarrow> int" where
  "span_start d raw =
     (case Atoi (get_str raw ''start_time_unix_nano'') of
        Some ns \<Rightarrow> ns
      | None \<Rightarrow> (case parse_time d RFC3339Nano (get_str raw ''_time'') of None \<Rightarrow> 0 | Some t \<Rightarrow> int64 t))"

definition parseVTracesLine :: "cold_codec \<Rightarrow> string gomap \<Rightarrow> string \<Rightarrow> string \<Rightarrow> trace_row" where
  "parseVTracesLine d raw tenant cluster =
     (case fold add_attr raw ([], []) of
        (res, span) \<Rightarrow>
          \<lparr>Timestamp = span_start d raw,
           TraceId = get_str raw ''trace_id'', SpanId = get_str raw ''span_id'',
           ParentSpanId = get_str raw ''parent_span_id'', TraceState = [],
           TraceFlags = (case ParseUint32 (get_str raw ''flags'') of None \<Rightarrow> 0 | Some f \<Rightarrow> f div 256 mod 2),
           SpanName = get_str raw ''name'', SpanKind = spanKindName (get_str raw ''kind''),
           ServiceName = get_str raw ''resource_attr:service.name'',
           Duration = (case Atoi (get_str raw ''duration'') of None \<Rightarrow> 0 | Some n \<Rightarrow> n),
           StatusCode = statusCodeName (get_str raw ''status_code''),
           StatusMessage = get_str raw ''status_message'',
           TTenant = tenant, TCluster = cluster,
           TClusterNamespace = get_str raw ''resource_attr:k8s.cluster.namespace'',
           TNamespace = get_str raw ''resource_attr:k8s.namespace.name'',
           TPod = get_str raw ''resource_attr:k8s.pod.name'', TNode = get_str raw ''resource_attr:k8s.node.name'',
           ResourceAttributes = res,
           SpanAttributes = add_scope raw ''scope_version'' ''otel.scope.version''
             (add_scope raw ''scope_name'' ''otel.scope.name'' span),
           Events = []\<rparr>)"

definition ScanVTracesExport :: "cold_codec \<Rightarrow> string \<times> bool \<Rightarrow> string \<Rightarrow> string \<Rightarrow>
    trace_parquet_row parquet_writer \<Rightarrow> cold_scan_error option \<times> trace_parquet_row parquet_writer" where
  "ScanVTracesExport d body tenant cluster =
     scan_ndjson (\<lambda>raw. parseVTracesLine d raw tenant cluster) TracesWrite body"

section \<open>Batches lose nothing\<close>

text \<open>The records of an export: what each line decodes to, without blank and malformed lines.\<close>

definition records :: "string list \<Rightarrow> string gomap list" where
  "records ls =
     concat (map (\<lambda>l. let line = trim_space l in
       if line = [] then []
       else (case unmarshal_flat line of JsonError \<Rightarrow> [] | JsonNull \<Rightarrow> [[]] | JsonMap m \<Rightarrow> [m])) ls)"

lemma records_Cons:
  "records (l # ls) =
     (if trim_space l = [] then records ls
      else (case unmarshal_flat (trim_space l) of
          JsonError \<Rightarrow> records ls | JsonNull \<Rightarrow> [] # records ls | JsonMap m \<Rightarrow> m # records ls))"
  by (simp add: records_def Let_def split: flat_json.split)

text \<open>
  What the scanners rely on of the function they hand batches to: batches only matter through
  their concatenation.
\<close>

locale row_writer =
  fixes fn :: "'a list \<Rightarrow> 'w \<Rightarrow> 'w"
  assumes fn_Nil: "fn [] w = w"
    and fn_append: "fn (xs @ ys) w = fn ys (fn xs w)"
begin

lemma flush_fn: "flush fn batch w = fn batch w"
  by (simp add: flush_def fn_Nil)

lemma scan_batches_spec:
  "scan_batches parse fn ls batch w = (b, w') \<Longrightarrow> fn b w' = fn (batch @ map parse (records ls)) w"
proof (induction ls arbitrary: batch w)
  case Nil
  then show ?case by (auto simp: records_def)
next
  case (Cons l ls)
  have step: "fn b w' = fn ((batch @ [parse raw]) @ map parse (records ls)) w"
    if "(if length (batch @ [parse raw]) \<ge> batchSize then scan_batches parse fn ls [] (flush fn (batch @ [parse raw]) w)
         else scan_batches parse fn ls (batch @ [parse raw]) w) = (b, w')" for raw
    using that Cons.IH [of "[]" "flush fn (batch @ [parse raw]) w"] Cons.IH [of "batch @ [parse raw]" w]
    by (auto simp: flush_fn split: if_splits) (metis append_Cons append_Nil append_assoc fn_append)
  show ?case
  proof (cases "trim_space l = []")
    case True
    then show ?thesis using Cons by (simp add: records_Cons)
  next
    case False
    then show ?thesis
      using Cons step [of "[]"] step
      by (cases "unmarshal_flat (trim_space l)") (simp_all add: records_Cons Let_def)
  qed
qed

lemma scan_ndjson_spec:
  assumes "scan_lines log_line_limit (fst body) (snd body) = (ls, None)"
  shows "scan_ndjson parse fn body w = (None, fn (map parse (records ls)) w)"
proof -
  obtain b w' where "scan_batches parse fn ls [] w = (b, w')" by fastforce
  then show ?thesis using scan_batches_spec [of parse ls "[]" w b w'] assms by (simp add: scan_ndjson_def flush_fn)
qed

lemma scan_ndjson_None:
  assumes "scan_ndjson parse fn body w = (None, w')"
  shows "w' = fn (map parse (records (map drop_cr (raw_lines (fst body))))) w"
proof -
  obtain ls serr where sl: "scan_lines log_line_limit (fst body) (snd body) = (ls, serr)" by fastforce
  have "serr = None"
    using assms sl by (cases serr) (auto simp: scan_ndjson_def split: prod.splits)
  with sl show ?thesis
    using assms scan_ndjson_spec [of body ls parse w] scan_lines_complete(1) [of _ "fst body" "snd body" ls] by simp
qed

end

lemma write_rows_laws: "write_rows [] w = w" "write_rows (xs @ ys) w = write_rows ys (write_rows xs w)"
  by (simp_all add: write_rows_def)

interpretation metrics_writer: row_writer MetricsWrite
  by unfold_locales (simp_all add: MetricsWrite_def write_rows_laws)

interpretation logs_writer: row_writer LogsWrite
  by unfold_locales (simp_all add: LogsWrite_def write_rows_laws)

interpretation traces_writer: row_writer TracesWrite
  by unfold_locales (simp_all add: TracesWrite_def write_rows_laws)

lemma scan_vm_spec:
  "scan_vm d ls w = (None, w') \<Longrightarrow>
     (\<forall>l \<in> set ls. \<exists>rows. ParseVMExportLine d l = Inr rows) \<and>
     w' = MetricsWrite (concat (map (\<lambda>l. case ParseVMExportLine d l of Inl _ \<Rightarrow> [] | Inr rows \<Rightarrow> rows) ls)) w"
proof (induction d ls w rule: scan_vm.induct)
  case (1 d w)
  then show ?case by (simp add: metrics_writer.fn_Nil)
next
  case (2 d l ls w)
  then show ?case
    by (auto simp: metrics_writer.fn_append metrics_writer.fn_Nil split: sum.splits if_splits)
qed

text \<open>
  C15: batching is invisible: a complete answer of the logs or the traces source gives exactly one
  row for each decodable line, in order, and the row count is the number of rows.
\<close>

theorem scan_writes_every_record:
  assumes "\<forall>l \<in> set (raw_lines text). length l < log_line_limit"
  shows "ScanVLogsExport d (text, False) tenant cluster new_writer =
      (None, \<lparr>pw = map (\<lambda>raw. log_columns (parseVLogsLine d raw tenant cluster)) (records (map drop_cr (raw_lines text))),
              row_count = length (records (map drop_cr (raw_lines text)))\<rparr>) \<and>
    ScanVTracesExport d (text, False) tenant cluster new_writer =
      (None, \<lparr>pw = map (\<lambda>raw. trace_columns (parseVTracesLine d raw tenant cluster)) (records (map drop_cr (raw_lines text))),
              row_count = length (records (map drop_cr (raw_lines text)))\<rparr>)"
proof -
  have tw: "takeWhile (\<lambda>l. length l < log_line_limit) (raw_lines text) = raw_lines text"
    using assms by (simp add: takeWhile_eq_all_conv)
  have sl: "scan_lines log_line_limit (fst (text, False)) (snd (text, False)) = (map drop_cr (raw_lines text), None)"
    by (simp only: scan_lines_def Let_def tw fst_conv snd_conv) simp
  show ?thesis
    unfolding ScanVLogsExport_def ScanVTracesExport_def
      logs_writer.scan_ndjson_spec [OF sl] traces_writer.scan_ndjson_spec [OF sl]
    by (simp add: LogsWrite_def TracesWrite_def write_rows_def new_writer_def comp_def)
qed

section \<open>Attributes\<close>

lemma valid_map_filter: "valid_map m \<Longrightarrow> valid_map (filter P m)"
  by (auto simp: valid_map_def wf_map_filter wf_map_mem [OF wf_map_filter, symmetric] wf_map_mem [symmetric])

text \<open>What a JSON column holds can be read back.\<close>

lemma attrs_json_roundtrip:
  assumes "valid_map m" "map_of m k = Some v"
  shows "\<exists>bytes n. attrs_json m = Some bytes \<and> unmarshal_flat bytes = JsonMap n \<and> map_of n k = Some v"
proof -
  obtain n where "unmarshal_flat (marshal_flat m) = JsonMap n" "same_map n m"
    using unmarshal_marshal_valid [OF assms(1)] by blast
  moreover have "m \<noteq> []" using assms(2) by auto
  ultimately show ?thesis using assms(2) by (simp add: attrs_json_def same_map_def)
qed

text \<open>
  No field of a log record is lost: each non-empty field without a column of its own can be
  read back from the JSON of the attributes column, and the row carries the tenant and the cluster
  of its window.
\<close>

theorem log_fields_preserved:
  assumes "unmarshal_flat line = JsonMap raw" "map_of raw k = Some v" "k \<notin> set log_reserved" "v \<noteq> []"
  shows "\<exists>bytes n. LogAttributes (log_columns (parseVLogsLine d raw tenant cluster)) = Some bytes \<and>
    unmarshal_flat bytes = JsonMap n \<and> map_of n k = Some v \<and>
    LTenant (pl_row (log_columns (parseVLogsLine d raw tenant cluster))) = tenant \<and>
    LCluster (pl_row (log_columns (parseVLogsLine d raw tenant cluster))) = cluster"
proof -
  have valid: "valid_map raw" by (rule unmarshal_valid [OF assms(1)])
  let ?m = "filter (\<lambda>(k, v). k \<notin> set log_reserved \<and> v \<noteq> []) raw"
  have "map_of ?m k = Some v"
    using assms(2-4) valid wf_map_mem [OF wf_map_filter, of raw] wf_map_mem [of raw]
    by (auto simp: valid_map_def)
  from attrs_json_roundtrip [OF valid_map_filter [OF valid] this] show ?thesis
    by (simp add: log_columns_def parseVLogsLine_def)
qed

text \<open>The span attribute a field of a span record gives, if any.\<close>

definition span_name :: "string \<Rightarrow> string option" where
  "span_name k =
     (if has_prefix k ''resource_attr:'' then None
      else if has_prefix k ''span_attr:'' then Some (trim_prefix k ''span_attr:'')
      else if k \<notin> set reservedTop then Some k else None)"

lemma add_attr_span:
  "snd (add_attr (k, v) st) =
     (if v \<noteq> [] then (case span_name k of None \<Rightarrow> snd st | Some n \<Rightarrow> map_set n v (snd st)) else snd st)"
  by (auto simp: add_attr_def span_name_def split: prod.split)

lemma fold_add_attr_keep:
  assumes "\<forall>(k, v) \<in> set raw. v \<noteq> [] \<longrightarrow> span_name k \<noteq> Some n"
  shows "map_of (snd (fold add_attr raw st)) n = map_of (snd st) n"
  using assms
proof (induction raw arbitrary: st)
  case (Cons kv raw)
  then show ?case by (cases kv) (auto simp: add_attr_span split: option.splits)
qed simp

text \<open>
  The span attribute of a field is in the row, whatever the order in which the fields are
  visited, as long as no other field gives an attribute of the same name.
\<close>

theorem span_attribute_preserved:
  assumes "wf_map raw" "map_of raw k = Some v" "v \<noteq> []" "span_name k = Some n"
    and "\<forall>(k', v') \<in> set raw. v' \<noteq> [] \<and> span_name k' = Some n \<longrightarrow> k' = k"
    and "n \<noteq> ''otel.scope.name''" "n \<noteq> ''otel.scope.version''"
  shows "map_of (SpanAttributes (parseVTracesLine d raw tenant cluster)) n = Some v"
proof -
  obtain pre post where raw: "raw = pre @ (k, v) # post"
    using assms(1,2) by (meson map_of_SomeD split_list)
  have "\<forall>(k', v') \<in> set post. v' \<noteq> [] \<longrightarrow> span_name k' \<noteq> Some n"
  proof (clarify)
    fix k' v' assume a: "(k', v') \<in> set post" "v' \<noteq> []" "span_name k' = Some n"
    then have "k' = k" using assms(5) raw by auto
    with a(1) assms(1) show False by (auto simp: raw wf_map_def image_iff)
  qed
  then have "map_of (snd (fold add_attr raw ([], []))) n = Some v"
    using assms(3,4) fold_add_attr_keep [of post n] by (simp add: raw add_attr_span)
  then show ?thesis
    using assms(6,7) by (auto simp: parseVTracesLine_def add_scope_def split: prod.split)
qed

text \<open>
  A field \<open>span_attr:x\<close> and a field \<open>x\<close> give the same attribute: which value is exported depends
  on the iteration order of the Go map.
\<close>

lemma span_attribute_collision:
  "map_of (SpanAttributes (parseVTracesLine d [(''span_attr:x'', ''1''), (''x'', ''2'')] t c)) ''x'' = Some ''2'' \<and>
   map_of (SpanAttributes (parseVTracesLine d [(''x'', ''2''), (''span_attr:x'', ''1'')] t c)) ''x'' = Some ''1''"
  by (simp add: parseVTracesLine_def add_attr_def add_scope_def trim_prefix_def reservedTop_def get_str_def)

section \<open>Instances\<close>

definition demo_codec :: cold_codec where
  "demo_codec = \<lparr>parse_time = (\<lambda>_ _. None), json_float = (\<lambda>s. Some (Finite s)), json_text = (\<lambda>_. None),
     vm_line = (\<lambda>l. Some \<lparr>Metric = [(''__name__'', l)], Values = [''1''], Timestamps = [0]\<rparr>),
     metrics_file = (\<lambda>rows. replicate (length rows) (CHR ''m'')), logs_file = (\<lambda>rows. replicate (length rows) (CHR ''l'')),
     traces_file = (\<lambda>rows. replicate (length rows) (CHR ''t''))\<rparr>"

theorem scan_writes_every_record_witness:
  "row_count (snd (ScanVLogsExport demo_codec (''null'' @ [CHR 0x0A] @ ''x'' @ [CHR 0x0A], False) ''t'' ''c'' new_writer)) = 1"
proof -
  have ls: "raw_lines (''null'' @ [CHR 0x0A] @ ''x'' @ [CHR 0x0A]) = [''null'', ''x'']" by code_simp
  have r: "records (map drop_cr [''null'', ''x'']) = [[]]" by code_simp
  show ?thesis
    using scan_writes_every_record [of "''null'' @ [CHR 0x0A] @ ''x'' @ [CHR 0x0A]" demo_codec "''t''" "''c''", unfolded ls r]
    by (simp add: log_line_limit_def)
qed

definition demo_log :: string where
  "demo_log = [CHR ''{'', CHR 0x22, CHR ''a'', CHR 0x22, CHR '':'', CHR 0x22, CHR ''b'', CHR 0x22, CHR ''}'']"

lemma demo_log_decodes: "unmarshal_flat demo_log = JsonMap [(''a'', ''b'')]"
  by code_simp

theorem log_fields_preserved_witness:
  "\<exists>bytes n. LogAttributes (log_columns (parseVLogsLine demo_codec [(''a'', ''b'')] ''t'' ''c'')) = Some bytes \<and>
     unmarshal_flat bytes = JsonMap n \<and> map_of n ''a'' = Some ''b''"
  using log_fields_preserved [OF demo_log_decodes, of "''a''" "''b''" demo_codec "''t''" "''c''"]
  by (auto simp: log_reserved_def)

theorem span_attribute_preserved_witness:
  "map_of (SpanAttributes (parseVTracesLine demo_codec [(''kind'', ''1''), (''span_attr:x'', ''1'')] ''t'' ''c'')) ''x'' = Some ''1''"
  by (rule span_attribute_preserved [where k = "''span_attr:x''"])
    (simp_all add: span_name_def trim_prefix_def reservedTop_def)

end
