(* ===== verification/Cold_Export.thy ===== *)
theory Cold_Export
  imports Cold_Data Audit_Config Window_Export
begin

text \<open>
  The cold-storage exporter (\<open>kof-operator/internal/coldstorage\<close>): \<open>config.go\<close>, the query side of
  the three clients, \<open>exporter.go\<close> and the program \<open>cmd/cold-storage-exporter\<close>.

  A run collects the hours without a \<open>_SUCCESS\<close> marker for every source, tenant and cluster, and
  streams each of them as a Parquet file into the bucket, followed by the marker. Parameters
  (\<open>cold_env\<close>): the HTTP exchange, the decoding of discovery answers, \<open>strconv.Quote\<close>, and the codecs
  of theory \<open>Cold_Data\<close>.
\<close>

section \<open>Configuration\<close>

record cold_config =
  VMURL :: string
  CVLogsURL :: string
  VTracesURL :: string
  Sources :: "string list"
  CTenants :: "string list"
  Clusters :: "string list"
  CS3Endpoint :: string
  CS3Bucket :: string
  CS3Prefix :: string
  CS3AccessKey :: string
  CS3SecretKey :: string
  CS3Region :: string
  CS3UsePathStyle :: bool
  CS3ForceHTTP :: bool
  CExportDelay :: duration
  CCatchUpHours :: int

definition known_source :: "string \<Rightarrow> bool" where
  "known_source s \<longleftrightarrow> s = SourceMetrics \<or> s = SourceLogs \<or> s = SourceTraces"

definition cold_LoadConfig :: "environ \<Rightarrow> config_error + cold_config" where
  "cold_LoadConfig e =
     (let cfg = \<lparr>VMURL = GetEnvOrDefault e ''VM_URL'' ''http://vmselect:8481/select/0/prometheus'',
        CVLogsURL = GetEnvOrDefault e ''VLOGS_URL'' ''http://vlselect:9471'',
        VTracesURL = GetEnvOrDefault e ''VTRACES_URL'' ''http://vt-vtselect:10471'',
        Sources = comma_list (GetEnvOrDefault e ''SOURCES'' SourceMetrics),
        CTenants = optional_list e ''TENANTS'', Clusters = optional_list e ''CLUSTERS'',
        CS3Endpoint = GetEnvOrDefault e ''S3_ENDPOINT'' [], CS3Bucket = GetEnvOrDefault e ''S3_BUCKET'' [],
        CS3Prefix = GetEnvOrDefault e ''S3_PREFIX'' ''telemetry'',
        CS3AccessKey = GetEnvOrDefault e ''S3_ACCESS_KEY'' [], CS3SecretKey = GetEnvOrDefault e ''S3_SECRET_KEY'' [],
        CS3Region = GetEnvOrDefault e ''S3_REGION'' ''us-east-1'',
        CS3UsePathStyle = GetEnvBool e ''S3_USE_PATH_STYLE'' True, CS3ForceHTTP = GetEnvBool e ''S3_FORCE_HTTP'' False,
        CExportDelay = GetEnvDuration e ''EXPORT_DELAY'' (5 * minute),
        CCatchUpHours = GetEnvInt e ''CATCHUP_HOURS'' 24\<rparr>
      in if length (Sources cfg) = 0 then Inl (EmptyList ''SOURCES'')
         else (case find (\<lambda>s. \<not> known_source s) (Sources cfg) of
             Some s \<Rightarrow> Inl (UnknownSource s)
           | None \<Rightarrow>
               if CS3Bucket cfg = [] then Inl BucketRequired
               else if (CS3AccessKey cfg = []) \<noteq> (CS3SecretKey cfg = []) then Inl KeysNotPaired
               else Inr cfg))"

definition cold_NewS3Client ::
  "(string \<Rightarrow> (string \<times> string) option \<Rightarrow> string option) \<Rightarrow> cold_config \<Rightarrow> string + s3_client" where
  "cold_NewS3Client load cfg = NewClient load
     \<lparr>Endpoint = CS3Endpoint cfg, Bucket = CS3Bucket cfg, Region = CS3Region cfg, AccessKey = CS3AccessKey cfg,
      SecretKey = CS3SecretKey cfg, UsePathStyle = CS3UsePathStyle cfg, ForceHTTP = CS3ForceHTTP cfg\<rparr>"

section \<open>The clients\<close>

record cold_env =
  c_http :: "string \<Rightarrow> http_result"
  c_decoder :: field_values_decoder
  label_values :: "string \<times> bool \<Rightarrow> (string \<times> string list) option"
  c_Quote :: "string \<Rightarrow> string"
  codec :: cold_codec

definition defaultTenant :: string where "defaultTenant = ''default''"
definition ClusterField :: string where "ClusterField = ''k8s.cluster.name''"
definition TraceClusterField :: string where "TraceClusterField = ''resource_attr:k8s.cluster.name''"

definition synthetic :: "string \<Rightarrow> bool" where
  "synthetic tenant \<longleftrightarrow> tenant = [] \<or> tenant = defaultTenant"

text \<open>Start and end of a window as query parameters.\<close>

definition range_params :: "time \<Rightarrow> time \<Rightarrow> url_values \<Rightarrow> url_values" where
  "range_params start end' ps = Values_Set ''end'' (rfc3339 end') (Values_Set ''start'' (rfc3339 start) ps)"

subsection \<open>VictoriaMetrics\<close>

definition NewVMClient :: "string \<Rightarrow> base_client" where
  "NewVMClient baseURL = \<lparr>BaseURL = trim_right (CHR ''/'') baseURL\<rparr>"

definition vm_selector :: "cold_env \<Rightarrow> string \<Rightarrow> string \<Rightarrow> string" where
  "vm_selector env tenant cluster =
     (if tenant \<noteq> [] then ''{tenant='' @ c_Quote env tenant @ '',cluster='' @ c_Quote env cluster @ ''}''
      else ''{cluster='' @ c_Quote env cluster @ ''}'')"

definition ExportMetrics ::
  "cold_env \<Rightarrow> base_client \<Rightarrow> string \<Rightarrow> string \<Rightarrow> time \<Rightarrow> time \<Rightarrow> source_error + (string \<times> bool)" where
  "ExportMetrics env c tenant cluster start end' =
     (let params = Values_Set ''reduce_mem_usage'' ''1'' (Values_Set ''format'' ''jsonl''
            (range_params start end' (Values_Set ''match[]'' (vm_selector env tenant cluster) [])))
      in case c_http env (BaseURL c @ ''/api/v1/export?'' @ Encode params) of
           BuildErr e \<Rightarrow> Inl (OtherError (''build VM export request: '' @ e))
         | ConnErr e \<Rightarrow> Inl (SourceUnavailableError ''VictoriaMetrics'' e)
         | HttpReply code body broken \<Rightarrow>
             if code \<noteq> 200
             then Inl (SourceUnavailableError ''VictoriaMetrics'' (''HTTP '' @ dec code @ '': '' @ take 1024 body))
             else Inr (body, broken))"

definition discoverLabelValues ::
  "cold_env \<Rightarrow> base_client \<Rightarrow> string \<Rightarrow> string \<Rightarrow> time \<Rightarrow> time \<Rightarrow> source_error + string list" where
  "discoverLabelValues env c label match start end' =
     (let params = range_params start end' [];
          params = (if match \<noteq> [] then Values_Set ''match[]'' match params else params)
      in case c_http env (BaseURL c @ ''/api/v1/label/'' @ label @ ''/values?'' @ Encode params) of
           BuildErr e \<Rightarrow> Inl (OtherError (''build label values request: '' @ e))
         | ConnErr e \<Rightarrow> Inl (SourceUnavailableError ''VictoriaMetrics'' e)
         | HttpReply code body broken \<Rightarrow>
             if code \<noteq> 200
             then Inl (SourceUnavailableError ''VictoriaMetrics''
                         (''label values HTTP '' @ dec code @ '': '' @ take 1024 body))
             else (case label_values env (body, broken) of
                 None \<Rightarrow> Inl (OtherError ''decode label values response'')
               | Some (status, vs) \<Rightarrow>
                   if status \<noteq> ''success'' then Inl (OtherError (''label values status '' @ c_Quote env status))
                   else Inr vs))"

definition vm_DiscoverTenants :: "cold_env \<Rightarrow> base_client \<Rightarrow> time \<Rightarrow> time \<Rightarrow> source_error + string list" where
  "vm_DiscoverTenants env c start end' = discoverLabelValues env c ''tenant'' [] start end'"

definition vm_DiscoverClusters ::
  "cold_env \<Rightarrow> base_client \<Rightarrow> string \<Rightarrow> time \<Rightarrow> time \<Rightarrow> source_error + string list" where
  "vm_DiscoverClusters env c tenant start end' =
     discoverLabelValues env c ''cluster''
       (if \<not> synthetic tenant then ''{tenant='' @ c_Quote env tenant @ ''}'' else []) start end'"

subsection \<open>VictoriaLogs\<close>

definition cold_NewVLogsClient :: "string \<Rightarrow> base_client" where
  "cold_NewVLogsClient baseURL = NewBaseClient baseURL"

definition tenant_clause :: "cold_env \<Rightarrow> string \<Rightarrow> string" where
  "tenant_clause env tenant = ''tenant:'' @ c_Quote env tenant"

definition logs_query :: "cold_env \<Rightarrow> string \<Rightarrow> string \<Rightarrow> string" where
  "logs_query env tenant cluster =
     (let logsql = ClusterField @ '':'' @ c_Quote env cluster in
      if \<not> synthetic tenant then tenant_clause env tenant @ '' AND '' @ logsql else logsql)"

definition ExportLogs ::
  "cold_env \<Rightarrow> base_client \<Rightarrow> string \<Rightarrow> string \<Rightarrow> time \<Rightarrow> time \<Rightarrow> source_error + (string \<times> bool)" where
  "ExportLogs env c tenant cluster start end' =
     QueryStream (c_http env) c ''VictoriaLogs'' ''/select/logsql/query''
       (range_params start end' (Values_Set ''query'' (logs_query env tenant cluster) []))"

definition DiscoverLogTenants :: "cold_env \<Rightarrow> base_client \<Rightarrow> time \<Rightarrow> time \<Rightarrow> source_error + string list" where
  "DiscoverLogTenants env c start end' =
     DiscoverFieldValues (c_http env) (c_decoder env) c ''VictoriaLogs'' ''tenant'' ''*'' start end'"

definition DiscoverLogClusters ::
  "cold_env \<Rightarrow> base_client \<Rightarrow> string \<Rightarrow> time \<Rightarrow> time \<Rightarrow> source_error + string list" where
  "DiscoverLogClusters env c tenant start end' =
     DiscoverFieldValues (c_http env) (c_decoder env) c ''VictoriaLogs'' ClusterField
       (if \<not> synthetic tenant then tenant_clause env tenant else ''*'') start end'"

subsection \<open>VictoriaTraces\<close>

text \<open>The discovery of field values repeats that of the VictoriaLogs client.\<close>

definition NewVTracesClient :: "string \<Rightarrow> base_client" where
  "NewVTracesClient baseURL = \<lparr>BaseURL = trim_right (CHR ''/'') baseURL\<rparr>"

definition traces_query :: "cold_env \<Rightarrow> string \<Rightarrow> string \<Rightarrow> string" where
  "traces_query env tenant cluster =
     (let logsql = ''`'' @ TraceClusterField @ ''`:'' @ c_Quote env cluster in
      if \<not> synthetic tenant then tenant_clause env tenant @ '' AND '' @ logsql else logsql)"

definition ExportTraces ::
  "cold_env \<Rightarrow> base_client \<Rightarrow> string \<Rightarrow> string \<Rightarrow> time \<Rightarrow> time \<Rightarrow> source_error + (string \<times> bool)" where
  "ExportTraces env c tenant cluster start end' =
     (case c_http env (BaseURL c @ ''/select/logsql/query?'' @
            Encode (range_params start end' (Values_Set ''query'' (traces_query env tenant cluster) []))) of
        BuildErr e \<Rightarrow> Inl (OtherError (''build VTraces request: '' @ e))
      | ConnErr e \<Rightarrow> Inl (SourceUnavailableError ''VictoriaTraces'' e)
      | HttpReply code body broken \<Rightarrow>
          if code \<noteq> 200
          then Inl (SourceUnavailableError ''VictoriaTraces'' (''HTTP '' @ dec code @ '': '' @ take 1024 body))
          else Inr (body, broken))"

definition vt_discoverFieldValues ::
  "cold_env \<Rightarrow> base_client \<Rightarrow> string \<Rightarrow> string \<Rightarrow> time \<Rightarrow> time \<Rightarrow> source_error + string list" where
  "vt_discoverFieldValues env c field query start end' =
     DiscoverFieldValues (c_http env) (c_decoder env) c ''VictoriaTraces'' field query start end'"

definition DiscoverTraceTenants :: "cold_env \<Rightarrow> base_client \<Rightarrow> time \<Rightarrow> time \<Rightarrow> source_error + string list" where
  "DiscoverTraceTenants env c start end' = vt_discoverFieldValues env c ''tenant'' ''*'' start end'"

definition DiscoverTraceClusters ::
  "cold_env \<Rightarrow> base_client \<Rightarrow> string \<Rightarrow> time \<Rightarrow> time \<Rightarrow> source_error + string list" where
  "DiscoverTraceClusters env c tenant start end' =
     vt_discoverFieldValues env c TraceClusterField
       (if \<not> synthetic tenant then tenant_clause env tenant else ''*'') start end'"

section \<open>Windows\<close>

record cold_window =
  XSource :: string
  XTenant :: string
  XCluster :: string
  XStart :: time
  XEnd :: time

definition cold_S3KeyPrefix :: "string \<Rightarrow> cold_window \<Rightarrow> string" where
  "cold_S3KeyPrefix pre w =
     (let base = ''tenant='' @ XTenant w @ ''/cluster='' @ XCluster w @ ''/dt='' @ fmt_date (XStart w) @
            ''/hour='' @ fmt_hour (XStart w) @ ''/'' @ XSource w @ ''/''
      in if pre \<noteq> [] then pre @ ''/'' @ base else base)"

definition success_key :: "cold_config \<Rightarrow> cold_window \<Rightarrow> string" where
  "success_key cfg w = cold_S3KeyPrefix (CS3Prefix cfg) w @ ''_SUCCESS''"

section \<open>Exporting a window\<close>

datatype cold_error =
    CIdempotency s3_error
  | CSourceErr source_error
  | CWriteParquet cold_scan_error
  | CUploadParquet s3_error
  | CUploadSuccess s3_error

text \<open>
  The Parquet writer and the upload run concurrently over a pipe. When the scan fails, the writer
  closes the pipe with the error: the upload fails and stores nothing, and the error of the writer
  is reported. When only the upload fails, its error is reported. The marker comes last.
\<close>

definition stream_parquet ::
  "string \<Rightarrow> cold_scan_error + string \<Rightarrow> string \<Rightarrow> s3_state \<Rightarrow> cold_error option \<times> s3_state" where
  "stream_parquet key file successKey s =
     (case file of
        Inl e \<Rightarrow> (case UploadStream key None s of (_, s1) \<Rightarrow> (Some (CWriteParquet e), s1))
      | Inr bytes \<Rightarrow>
          (case UploadStream key (Some bytes) s of
             (Some e, s1) \<Rightarrow> (Some (CUploadParquet e), s1)
           | (None, s1) \<Rightarrow>
               (case PutObject successKey [] s1 of
                  (Some e, s2) \<Rightarrow> (Some (CUploadSuccess e), s2)
                | (None, s2) \<Rightarrow> (None, s2))))"

definition metrics_parquet :: "cold_env \<Rightarrow> string \<times> bool \<Rightarrow> cold_scan_error + string" where
  "metrics_parquet env body =
     (case ScanVMExport (codec env) body new_writer of
        (Some e, _) \<Rightarrow> Inl e
      | (None, w) \<Rightarrow> Inr (metrics_file (codec env) (pw w)))"

definition exportMetricsWindow ::
  "cold_env \<Rightarrow> cold_config \<Rightarrow> cold_window \<Rightarrow> string \<Rightarrow> string \<Rightarrow> s3_state \<Rightarrow> cold_error option \<times> s3_state" where
  "exportMetricsWindow env cfg w pre successKey s =
     (let vmTenant = (if XTenant w = defaultTenant then [] else XTenant w)
      in case ExportMetrics env (NewVMClient (VMURL cfg)) vmTenant (XCluster w) (XStart w) (XEnd w) of
           Inl e \<Rightarrow> (Some (CSourceErr e), s)
         | Inr body \<Rightarrow> stream_parquet (pre @ ''metrics.parquet'') (metrics_parquet env body) successKey s)"

definition logs_parquet :: "cold_env \<Rightarrow> string \<Rightarrow> string \<Rightarrow> string \<times> bool \<Rightarrow> cold_scan_error + string" where
  "logs_parquet env tenant cluster body =
     (case ScanVLogsExport (codec env) body tenant cluster new_writer of
        (Some e, _) \<Rightarrow> Inl e
      | (None, w) \<Rightarrow> Inr (logs_file (codec env) (pw w)))"

definition exportLogsWindow ::
  "cold_env \<Rightarrow> cold_config \<Rightarrow> cold_window \<Rightarrow> string \<Rightarrow> string \<Rightarrow> s3_state \<Rightarrow> cold_error option \<times> s3_state" where
  "exportLogsWindow env cfg w pre successKey s =
     (case ExportLogs env (cold_NewVLogsClient (CVLogsURL cfg)) (XTenant w) (XCluster w) (XStart w) (XEnd w) of
        Inl e \<Rightarrow> (Some (CSourceErr e), s)
      | Inr body \<Rightarrow>
          stream_parquet (pre @ ''logs.parquet'') (logs_parquet env (XTenant w) (XCluster w) body) successKey s)"

definition traces_parquet :: "cold_env \<Rightarrow> string \<Rightarrow> string \<Rightarrow> string \<times> bool \<Rightarrow> cold_scan_error + string" where
  "traces_parquet env tenant cluster body =
     (case ScanVTracesExport (codec env) body tenant cluster new_writer of
        (Some e, _) \<Rightarrow> Inl e
      | (None, w) \<Rightarrow> Inr (traces_file (codec env) (pw w)))"

definition exportTracesWindow ::
  "cold_env \<Rightarrow> cold_config \<Rightarrow> cold_window \<Rightarrow> string \<Rightarrow> string \<Rightarrow> s3_state \<Rightarrow> cold_error option \<times> s3_state" where
  "exportTracesWindow env cfg w pre successKey s =
     (case ExportTraces env (NewVTracesClient (VTracesURL cfg)) (XTenant w) (XCluster w) (XStart w) (XEnd w) of
        Inl e \<Rightarrow> (Some (CSourceErr e), s)
      | Inr body \<Rightarrow>
          stream_parquet (pre @ ''traces.parquet'') (traces_parquet env (XTenant w) (XCluster w) body) successKey s)"

definition cold_exportWindow ::
  "cold_env \<Rightarrow> cold_config \<Rightarrow> cold_window \<Rightarrow> s3_state \<Rightarrow> cold_error option \<times> s3_state" where
  "cold_exportWindow env cfg w s =
     (let pre = cold_S3KeyPrefix (CS3Prefix cfg) w; successKey = pre @ ''_SUCCESS''
      in case ObjectExists successKey s of
           (Inl e, s1) \<Rightarrow> (Some (CIdempotency e), s1)
         | (Inr True, s1) \<Rightarrow> (None, s1)
         | (Inr False, s1) \<Rightarrow>
             if XSource w = SourceMetrics then exportMetricsWindow env cfg w pre successKey s1
             else if XSource w = SourceLogs then exportLogsWindow env cfg w pre successKey s1
             else if XSource w = SourceTraces then exportTracesWindow env cfg w pre successKey s1
             else (None, s1))"

section \<open>Collecting windows\<close>

definition or_default :: "source_error + string list \<Rightarrow> source_error + string list" where
  "or_default r = (case r of Inl e \<Rightarrow> Inl e | Inr vs \<Rightarrow> Inr (if length vs = 0 then [defaultTenant] else vs))"

definition discoverTenants ::
  "cold_env \<Rightarrow> cold_config \<Rightarrow> string \<Rightarrow> time \<Rightarrow> time \<Rightarrow> source_error + string list" where
  "discoverTenants env cfg source from upToEnd =
     (if length (CTenants cfg) > 0 then Inr (CTenants cfg)
      else if source = SourceMetrics
      then or_default (vm_DiscoverTenants env (NewVMClient (VMURL cfg)) from upToEnd)
      else if source = SourceLogs
      then or_default (DiscoverLogTenants env (cold_NewVLogsClient (CVLogsURL cfg)) from upToEnd)
      else or_default (DiscoverTraceTenants env (NewVTracesClient (VTracesURL cfg)) from upToEnd))"

definition discoverClusters ::
  "cold_env \<Rightarrow> cold_config \<Rightarrow> string \<Rightarrow> string \<Rightarrow> time \<Rightarrow> time \<Rightarrow> source_error + string list" where
  "discoverClusters env cfg source tenant from upToEnd =
     (if length (Clusters cfg) > 0 then Inr (Clusters cfg)
      else if source = SourceMetrics
      then vm_DiscoverClusters env (NewVMClient (VMURL cfg)) tenant from upToEnd
      else if source = SourceLogs
      then DiscoverLogClusters env (cold_NewVLogsClient (CVLogsURL cfg)) tenant from upToEnd
      else if source = SourceTraces
      then or_default (DiscoverTraceClusters env (NewVTracesClient (VTracesURL cfg)) tenant from upToEnd)
      else Inr [])"

datatype cold_collect_error =
    DiscTenants string source_error
  | DiscClusters string string source_error
  | CheckMarker string s3_error

definition cold_hour_window :: "string \<Rightarrow> string \<Rightarrow> string \<Rightarrow> time \<Rightarrow> cold_window" where
  "cold_hour_window source tenant cluster start =
     \<lparr>XSource = source, XTenant = tenant, XCluster = cluster, XStart = start, XEnd = start + hour\<rparr>"

type_synonym collected = "(cold_collect_error + cold_window list) \<times> s3_state"

text \<open>The four nested loops, from the hours of one cluster outwards.\<close>

function cold_hours ::
  "cold_config \<Rightarrow> string \<Rightarrow> string \<Rightarrow> string \<Rightarrow> time \<Rightarrow> time \<Rightarrow> s3_state \<Rightarrow> collected"
where
  "cold_hours cfg source tenant cluster wStart upToEnd s =
     (if wStart < upToEnd then
        (let w = cold_hour_window source tenant cluster wStart in
         case ObjectExists (success_key cfg w) s of
           (Inl e, s1) \<Rightarrow> (Inl (CheckMarker (success_key cfg w) e), s1)
         | (Inr exists, s1) \<Rightarrow>
             (case cold_hours cfg source tenant cluster (wStart + hour) upToEnd s1 of
                (Inl e, s2) \<Rightarrow> (Inl e, s2)
              | (Inr ws, s2) \<Rightarrow> (Inr (if exists then ws else w # ws), s2)))
      else (Inr [], s))"
  by pat_completeness auto
termination
  by (relation "measure (\<lambda>(_, _, _, _, t, u, _). nat (u - t))") auto

declare cold_hours.simps [simp del]

definition append_windows :: "collected \<Rightarrow> (s3_state \<Rightarrow> collected) \<Rightarrow> collected" where
  "append_windows first rest =
     (case first of
        (Inl e, s1) \<Rightarrow> (Inl e, s1)
      | (Inr ws, s1) \<Rightarrow> (case rest s1 of (Inl e, s2) \<Rightarrow> (Inl e, s2) | (Inr ws', s2) \<Rightarrow> (Inr (ws @ ws'), s2)))"

fun cold_clusters ::
  "cold_config \<Rightarrow> string \<Rightarrow> string \<Rightarrow> string list \<Rightarrow> time \<Rightarrow> time \<Rightarrow> s3_state \<Rightarrow> collected"
where
  "cold_clusters cfg source tenant [] from upToEnd s = (Inr [], s)"
| "cold_clusters cfg source tenant (cluster # clusters) from upToEnd s =
     append_windows (cold_hours cfg source tenant cluster from upToEnd s)
       (cold_clusters cfg source tenant clusters from upToEnd)"

text \<open>An outage while clusters are discovered leaves the loop over the tenants.\<close>

fun cold_tenants ::
  "cold_env \<Rightarrow> cold_config \<Rightarrow> string \<Rightarrow> string list \<Rightarrow> time \<Rightarrow> time \<Rightarrow> s3_state \<Rightarrow> collected"
where
  "cold_tenants env cfg source [] from upToEnd s = (Inr [], s)"
| "cold_tenants env cfg source (tenant # tenants) from upToEnd s =
     (case discoverClusters env cfg source tenant from upToEnd of
        Inl (SourceUnavailableError _ _) \<Rightarrow> (Inr [], s)
      | Inl e \<Rightarrow> (Inl (DiscClusters source tenant e), s)
      | Inr clusters \<Rightarrow>
          append_windows (cold_clusters cfg source tenant clusters from upToEnd s)
            (cold_tenants env cfg source tenants from upToEnd))"

text \<open>An outage while tenants are discovered skips the source.\<close>

fun cold_sources ::
  "cold_env \<Rightarrow> cold_config \<Rightarrow> string list \<Rightarrow> time \<Rightarrow> time \<Rightarrow> s3_state \<Rightarrow> collected"
where
  "cold_sources env cfg [] from upToEnd s = (Inr [], s)"
| "cold_sources env cfg (source # sources) from upToEnd s =
     (case discoverTenants env cfg source from upToEnd of
        Inl (SourceUnavailableError _ _) \<Rightarrow> cold_sources env cfg sources from upToEnd s
      | Inl e \<Rightarrow> (Inl (DiscTenants source e), s)
      | Inr tenants \<Rightarrow>
          append_windows (cold_tenants env cfg source tenants from upToEnd s)
            (cold_sources env cfg sources from upToEnd))"

definition cold_collectWindows :: "cold_env \<Rightarrow> cold_config \<Rightarrow> time \<Rightarrow> time \<Rightarrow> s3_state \<Rightarrow> collected" where
  "cold_collectWindows env cfg from upToEnd s = cold_sources env cfg (Sources cfg) from upToEnd s"

section \<open>A run\<close>

datatype cold_run_error = ColdCollect cold_collect_error | ColdLoop "cold_error loop_error"

fun cold_outage :: "cold_error \<Rightarrow> bool" where
  "cold_outage (CSourceErr (SourceUnavailableError _ _)) = True"
| "cold_outage _ = False"

definition cold_hourEnd :: "cold_config \<Rightarrow> time \<Rightarrow> time" where
  "cold_hourEnd cfg now =
     (let e = truncate_hour now in if now - e < CExportDelay cfg then e - hour else e)"

definition cold_start :: "cold_config \<Rightarrow> time \<Rightarrow> time" where
  "cold_start cfg now = cold_hourEnd cfg now - hour + int64 (- (CCatchUpHours cfg - 1) * hour)"

definition cold_Run ::
  "cold_env \<Rightarrow> cold_config \<Rightarrow> time \<Rightarrow> (nat \<Rightarrow> bool) \<Rightarrow> s3_state \<Rightarrow> cold_run_error option \<times> s3_state" where
  "cold_Run env cfg now cancelled s =
     (case cold_collectWindows env cfg (cold_start cfg now) (cold_hourEnd cfg now) s of
        (Inl e, s1) \<Rightarrow> (Some (ColdCollect e), s1)
      | (Inr windows, s1) \<Rightarrow>
          (case export_loop (\<lambda>_. cold_exportWindow env cfg) cold_outage cancelled 0 windows None s1 of
             (r, s2) \<Rightarrow> (map_option ColdLoop r, s2)))"

section \<open>The process\<close>

record cold_exporter =
  xc_cfg :: cold_config
  xc_vm :: base_client
  xc_vlogs :: base_client
  xc_vtraces :: base_client
  xc_s3 :: s3_client

definition cold_NewExporter ::
  "(string \<Rightarrow> (string \<times> string) option \<Rightarrow> string option) \<Rightarrow> cold_config \<Rightarrow> string + cold_exporter" where
  "cold_NewExporter load c =
     (case cold_NewS3Client load c of
        Inl err \<Rightarrow> Inl (''create S3 client: '' @ err)
      | Inr client \<Rightarrow>
          Inr \<lparr>xc_cfg = c, xc_vm = NewVMClient (VMURL c), xc_vlogs = cold_NewVLogsClient (CVLogsURL c),
               xc_vtraces = NewVTracesClient (VTracesURL c), xc_s3 = client\<rparr>)"

definition cold_main ::
  "cold_env \<Rightarrow> (string \<Rightarrow> (string \<times> string) option \<Rightarrow> string option) \<Rightarrow> environ \<Rightarrow> time \<Rightarrow> (nat \<Rightarrow> bool) \<Rightarrow>
     s3_state \<Rightarrow> nat \<times> s3_state" where
  "cold_main env load e now cancelled s =
     (case cold_LoadConfig e of
        Inl _ \<Rightarrow> (1, s)
      | Inr c \<Rightarrow>
          (case cold_NewExporter load c of
             Inl _ \<Rightarrow> (1, s)
           | Inr x \<Rightarrow>
               (case cold_Run env (xc_cfg x) now cancelled s of
                  (Some _, s') \<Rightarrow> (1, s')
                | (None, s') \<Rightarrow> (0, s'))))"

end
