(* ===== verification/Cold_Run.thy ===== *)
theory Cold_Run
  imports Cold_Export
begin

text \<open>
  What a run of the cold-storage exporter guarantees. The guarantees are about windows whose tenant
  and cluster names have no slash (\<open>valid_cold\<close>): their keys differ from those of every other window
  (\<open>cold_keys_eq\<close>), while the keys of two windows with a slash can collide
  (\<open>names_with_slash_collide\<close>). A marker in the bucket stands for a complete Parquet file
  (\<open>cold_inv\<close>), one call of \<open>exportWindow\<close> fulfils the contract \<open>window_store\<close>, and a run refines the
  abstract operation on the set of exported windows.
\<close>

section \<open>Keys\<close>

definition slash_free :: "cold_window \<Rightarrow> bool" where
  "slash_free w \<longleftrightarrow> CHR ''/'' \<notin> set (XTenant w) \<and> CHR ''/'' \<notin> set (XCluster w)"

definition asked_cold :: "cold_window \<Rightarrow> bool" where
  "asked_cold w \<longleftrightarrow> known_source (XSource w) \<and> hour dvd XStart w \<and> XEnd w = XStart w + hour"

definition valid_cold :: "cold_window \<Rightarrow> bool" where
  "valid_cold w \<longleftrightarrow> asked_cold w \<and> slash_free w"

definition parquet_key :: "cold_config \<Rightarrow> cold_window \<Rightarrow> string" where
  "parquet_key cfg w = cold_S3KeyPrefix (CS3Prefix cfg) w @ XSource w @ ''.parquet''"

lemma cold_key_parts:
  assumes "CHR ''/'' \<notin> set (XTenant w)" "CHR ''/'' \<notin> set (XCluster w)" "known_source (XSource w)" "CHR ''/'' \<notin> set n"
  shows "split_on (CHR ''/'') (cold_S3KeyPrefix [] w @ n) =
    [''tenant='' @ XTenant w, ''cluster='' @ XCluster w, ''dt='' @ fmt_date (XStart w),
     ''hour='' @ fmt_hour (XStart w), XSource w, n]"
proof -
  have "cold_S3KeyPrefix [] w @ n =
      (''tenant='' @ XTenant w) @ CHR ''/'' # (''cluster='' @ XCluster w) @ CHR ''/'' # (''dt='' @ fmt_date (XStart w)) @
      CHR ''/'' # (''hour='' @ fmt_hour (XStart w)) @ CHR ''/'' # XSource w @ CHR ''/'' # n"
    by (simp add: cold_S3KeyPrefix_def Let_def)
  moreover have "CHR ''/'' \<notin> set (XSource w)"
    using assms(3) by (auto simp: known_source_def SourceMetrics_def SourceLogs_def SourceTraces_def)
  ultimately show ?thesis
    using assms no_slash_date [of "XStart w"] no_slash_two [of "clock_hour (XStart w)"]
    by (simp only: split_on_append_sep) (simp add: split_on_plain fmt_hour_def)
qed

lemma cold_key_inject:
  assumes "valid_cold w" "valid_cold w'" "CHR ''/'' \<notin> set n" "CHR ''/'' \<notin> set n'"
  shows "cold_S3KeyPrefix p w @ n = cold_S3KeyPrefix p w' @ n' \<longleftrightarrow> w = w' \<and> n = n'"
proof
  assume a: "cold_S3KeyPrefix p w @ n = cold_S3KeyPrefix p w' @ n'"
  have "cold_S3KeyPrefix [] w @ n = cold_S3KeyPrefix [] w' @ n'"
    using a by (simp add: cold_S3KeyPrefix_def Let_def split: if_splits)
  then have "split_on (CHR ''/'') (cold_S3KeyPrefix [] w @ n) = split_on (CHR ''/'') (cold_S3KeyPrefix [] w' @ n')"
    by simp
  then have e: "XTenant w = XTenant w' \<and> XCluster w = XCluster w' \<and> fmt_date (XStart w) = fmt_date (XStart w') \<and>
      fmt_hour (XStart w) = fmt_hour (XStart w') \<and> XSource w = XSource w' \<and> n = n'"
    using assms by (simp add: valid_cold_def asked_cold_def slash_free_def cold_key_parts)
  then have "truncate_hour (XStart w) = truncate_hour (XStart w')" using date_hour_inject by blast
  then have "XStart w = XStart w'" using assms(1,2) by (simp add: valid_cold_def asked_cold_def truncate_hour_id)
  with e assms(1,2) show "w = w' \<and> n = n'" by (simp add: valid_cold_def asked_cold_def)
qed simp

text \<open>A name with a slash makes a longer key: no window with one shares a key with a window without.\<close>

lemma known_source_no_slash: "known_source x \<Longrightarrow> CHR ''/'' \<notin> set x"
  by (auto simp: known_source_def SourceMetrics_def SourceLogs_def SourceTraces_def)

lemma cold_key_slashes:
  assumes "asked_cold w" "CHR ''/'' \<notin> set n"
  shows "count_list (cold_S3KeyPrefix p w @ n) (CHR ''/'') =
    count_list (cold_S3KeyPrefix p w0) (CHR ''/'') - count_list (XTenant w0 @ XCluster w0 @ XSource w0) (CHR ''/'') +
    count_list (XTenant w @ XCluster w) (CHR ''/'')"
  using assms no_slash_date no_slash_two known_source_no_slash
  by (simp add: cold_S3KeyPrefix_def Let_def fmt_hour_def asked_cold_def)

lemma cold_key_valid:
  assumes "valid_cold v" "asked_cold w" "CHR ''/'' \<notin> set n" "CHR ''/'' \<notin> set n'"
    and "cold_S3KeyPrefix p v @ n = cold_S3KeyPrefix p w @ n'"
  shows "valid_cold w"
proof -
  have "asked_cold v" using assms(1) by (simp add: valid_cold_def)
  then have "count_list (XTenant v @ XCluster v) (CHR ''/'') = count_list (XTenant w @ XCluster w) (CHR ''/'')"
    using cold_key_slashes [of v n p v] cold_key_slashes [of w n' p v] assms(2-5) by simp
  then show ?thesis using assms(1,2) by (simp add: valid_cold_def slash_free_def count_list_0_iff)
qed

lemma cold_file_names:
  assumes "asked_cold w"
  shows "CHR ''/'' \<notin> set (XSource w @ ''.parquet'')" "XSource w @ ''.parquet'' \<noteq> ''_SUCCESS''"
    "CHR ''/'' \<notin> set ''_SUCCESS''"
  using assms by (auto simp: asked_cold_def known_source_def SourceMetrics_def SourceLogs_def SourceTraces_def)

lemma cold_keys_eq:
  assumes "valid_cold v" "asked_cold w"
  shows "success_key cfg v = success_key cfg w \<longleftrightarrow> v = w" "parquet_key cfg v = parquet_key cfg w \<longleftrightarrow> v = w"
    "success_key cfg v \<noteq> parquet_key cfg w" "parquet_key cfg v \<noteq> success_key cfg w"
proof -
  have v: "asked_cold v" using assms(1) by (simp add: valid_cold_def)
  have eq: "cold_S3KeyPrefix p v @ n = cold_S3KeyPrefix p w @ n' \<longleftrightarrow> v = w \<and> n = n'"
    if "CHR ''/'' \<notin> set n" "CHR ''/'' \<notin> set n'" for p n n'
    using cold_key_inject [OF assms(1) _ that] cold_key_valid [OF assms that] by blast
  show "success_key cfg v = success_key cfg w \<longleftrightarrow> v = w" "parquet_key cfg v = parquet_key cfg w \<longleftrightarrow> v = w"
    "success_key cfg v \<noteq> parquet_key cfg w" "parquet_key cfg v \<noteq> success_key cfg w"
    using cold_file_names [OF v] cold_file_names [OF assms(2)]
    unfolding success_key_def parquet_key_def
    by (simp_all only: eq) auto
qed

text \<open>
  Names with a slash are ambiguous in keys: two different windows share their marker and their
  file, so that the second one is taken for exported.
\<close>

lemma names_with_slash_collide:
  "let v = \<lparr>XSource = ''logs'', XTenant = ''a/cluster=b'', XCluster = ''c'', XStart = t, XEnd = t + hour\<rparr>;
       w = \<lparr>XSource = ''logs'', XTenant = ''a'', XCluster = ''b/cluster=c'', XStart = t, XEnd = t + hour\<rparr>
   in v \<noteq> w \<and> success_key cfg v = success_key cfg w \<and> parquet_key cfg v = parquet_key cfg w"
  by (simp add: success_key_def parquet_key_def cold_S3KeyPrefix_def Let_def)

section \<open>Markers stand for complete files\<close>

definition window_file :: "cold_env \<Rightarrow> cold_window \<Rightarrow> string \<times> bool \<Rightarrow> cold_scan_error + string" where
  "window_file env w body =
     (if XSource w = SourceMetrics then metrics_parquet env body
      else if XSource w = SourceLogs then logs_parquet env (XTenant w) (XCluster w) body
      else traces_parquet env (XTenant w) (XCluster w) body)"

text \<open>
  The question a window puts to its source: the expression of its tenant and cluster, from its
  start to its end. The metrics of the tenant \<open>default\<close> are those of no tenant.
\<close>

definition window_url :: "cold_env \<Rightarrow> cold_config \<Rightarrow> cold_window \<Rightarrow> string" where
  "window_url env cfg w =
     (if XSource w = SourceMetrics
      then trim_right (CHR ''/'') (VMURL cfg) @ ''/api/v1/export?'' @ Encode
        [(''match[]'', [vm_selector env (if XTenant w = defaultTenant then [] else XTenant w) (XCluster w)]),
         (''start'', [rfc3339 (XStart w)]), (''end'', [rfc3339 (XEnd w)]), (''format'', [''jsonl'']), (''reduce_mem_usage'', [''1''])]
      else if XSource w = SourceLogs
      then trim_right (CHR ''/'') (CVLogsURL cfg) @ ''/select/logsql/query?'' @ Encode
        [(''query'', [logs_query env (XTenant w) (XCluster w)]), (''start'', [rfc3339 (XStart w)]), (''end'', [rfc3339 (XEnd w)])]
      else trim_right (CHR ''/'') (VTracesURL cfg) @ ''/select/logsql/query?'' @ Encode
        [(''query'', [traces_query env (XTenant w) (XCluster w)]), (''start'', [rfc3339 (XStart w)]), (''end'', [rfc3339 (XEnd w)])])"

definition answered :: "cold_env \<Rightarrow> cold_config \<Rightarrow> cold_window \<Rightarrow> string \<times> bool \<Rightarrow> bool" where
  "answered env cfg w body \<longleftrightarrow> c_http env (window_url env cfg w) = HttpReply 200 (fst body) (snd body)"

lemmas params_defs = range_params_def Values_Set_def

lemma export_answered:
  "XSource w = SourceMetrics \<Longrightarrow>
     ExportMetrics env (NewVMClient (VMURL cfg)) (if XTenant w = defaultTenant then [] else XTenant w) (XCluster w)
       (XStart w) (XEnd w) = Inr body \<Longrightarrow> answered env cfg w body"
  "XSource w = SourceLogs \<Longrightarrow>
     ExportLogs env (cold_NewVLogsClient (CVLogsURL cfg)) (XTenant w) (XCluster w) (XStart w) (XEnd w) = Inr body \<Longrightarrow>
     answered env cfg w body"
  "XSource w = SourceTraces \<Longrightarrow>
     ExportTraces env (NewVTracesClient (VTracesURL cfg)) (XTenant w) (XCluster w) (XStart w) (XEnd w) = Inr body \<Longrightarrow>
     answered env cfg w body"
  by (auto simp: answered_def window_url_def params_defs ExportMetrics_def NewVMClient_def Let_def
      ExportLogs_def cold_NewVLogsClient_def NewBaseClient_def QueryStream_def ExportTraces_def NewVTracesClient_def
      SourceMetrics_def SourceLogs_def SourceTraces_def
      split: http_result.splits if_splits)

text \<open>A file is only written for an answer that was read to its end.\<close>

lemma scan_whole:
  "ScanVMExport d body st = (None, st') \<Longrightarrow> \<not> snd body"
  "scan_ndjson parse fn body st1 = (None, st2) \<Longrightarrow> \<not> snd body"
  by (auto simp: ScanVMExport_def scan_ndjson_def scan_lines_def Let_def split: prod.splits option.splits if_splits)

lemma window_file_whole: "window_file env w body = Inr bytes \<Longrightarrow> \<not> snd body"
  by (auto simp: window_file_def metrics_parquet_def logs_parquet_def traces_parquet_def ScanVLogsExport_def
      ScanVTracesExport_def dest: scan_whole split: prod.splits option.splits if_splits)

definition marked :: "cold_config \<Rightarrow> s3_state \<Rightarrow> cold_window \<Rightarrow> bool" where
  "marked cfg s w \<longleftrightarrow> object_at s (success_key cfg w) \<noteq> None"

text \<open>
  A window with a marker has its file. The sources change between runs: \<open>old\<close> gives the files of the
  windows that earlier runs exported, which stay as they are; every other marked window holds what
  the source answers to the question of the window.
\<close>

definition cold_sealed ::
  "cold_env \<Rightarrow> cold_config \<Rightarrow> (cold_window \<rightharpoonup> string) \<Rightarrow> s3_state \<Rightarrow> cold_window \<Rightarrow> bool" where
  "cold_sealed env cfg old s w \<longleftrightarrow>
     (if marked cfg s w
      then (\<exists>body bytes. object_at s (parquet_key cfg w) = Some bytes \<and> window_file env w body = Inr bytes \<and>
        (case old w of None \<Rightarrow> answered env cfg w body | Some b \<Rightarrow> bytes = b))
      else old w = None)"

definition cold_inv :: "cold_env \<Rightarrow> cold_config \<Rightarrow> (cold_window \<rightharpoonup> string) \<Rightarrow> s3_state \<Rightarrow> bool" where
  "cold_inv env cfg old s \<longleftrightarrow> s3_invar s \<and> (\<forall>w. valid_cold w \<longrightarrow> cold_sealed env cfg old s w)"

text \<open>Any bucket that fulfils the invariant fulfils it with the files it has.\<close>

definition files :: "cold_config \<Rightarrow> s3_state \<Rightarrow> cold_window \<rightharpoonup> string" where
  "files cfg s w = (if marked cfg s w then object_at s (parquet_key cfg w) else None)"

lemma cold_inv_files: "cold_inv env cfg old s \<Longrightarrow> cold_inv env cfg (files cfg s) s"
  unfolding cold_inv_def cold_sealed_def files_def by (metis option.simps(5))

lemma cold_inv_frame:
  "object_at s' = object_at s \<Longrightarrow> s3_invar s' \<Longrightarrow> cold_inv env cfg old s \<Longrightarrow> cold_inv env cfg old s'"
  unfolding cold_inv_def cold_sealed_def marked_def by presburger

lemma marked_cong: "object_at s' = object_at s \<Longrightarrow> marked cfg s' = marked cfg s"
  by (rule ext) (simp add: marked_def)

text \<open>Before its marker is there, the file of a window may be written freely.\<close>

lemma cold_inv_file:
  assumes "cold_inv env cfg old s" "asked_cold w" "\<not> marked cfg s w" "s3_invar s'"
    and "object_at s' = (object_at s)(parquet_key cfg w \<mapsto> d)"
  shows "cold_inv env cfg old s'" "valid_cold v \<Longrightarrow> marked cfg s' v = marked cfg s v"
proof -
  show m: "marked cfg s' v = marked cfg s v" if "valid_cold v" for v
    using assms(5) cold_keys_eq(3) [OF that assms(2)] by (simp add: marked_def)
  have "cold_sealed env cfg old s' v" if v: "valid_cold v" for v
  proof (cases "v = w")
    case True
    then show ?thesis using assms(1,3) v m by (simp add: cold_inv_def cold_sealed_def)
  next
    case False
    then have "object_at s' (parquet_key cfg v) = object_at s (parquet_key cfg v)"
      using assms(5) cold_keys_eq(2) [OF v assms(2)] by simp
    then show ?thesis using assms(1) v m [OF v] by (simp add: cold_inv_def cold_sealed_def del: split_paired_Ex)
  qed
  with assms(4) show "cold_inv env cfg old s'" by (simp add: cold_inv_def)
qed

lemma cold_inv_marker:
  assumes "cold_inv env cfg old s" "asked_cold w" "s3_invar s'" "valid_cold w \<Longrightarrow> \<not> marked cfg s w"
    and "object_at s' = (object_at s)(success_key cfg w \<mapsto> [])"
    and "object_at s (parquet_key cfg w) = Some bytes" "window_file env w body = Inr bytes" "answered env cfg w body"
  shows "cold_inv env cfg old s'" "valid_cold v \<Longrightarrow> marked cfg s' v = (v = w \<or> marked cfg s v)"
proof -
  show m: "marked cfg s' v = (v = w \<or> marked cfg s v)" if "valid_cold v" for v
    using assms(5) cold_keys_eq(1) [OF that assms(2)] by (auto simp: marked_def)
  have "cold_sealed env cfg old s' v" if v: "valid_cold v" for v
  proof -
    have "object_at s' (parquet_key cfg v) = object_at s (parquet_key cfg v)"
      using assms(5) cold_keys_eq(4) [OF v assms(2)] by simp
    then show ?thesis using assms(1,4,6-8) v m [OF v] 
      by (cases "v = w"; cases body) (auto simp: cold_inv_def cold_sealed_def)
  qed
  with assms(3) show "cold_inv env cfg old s'" by (simp add: cold_inv_def)
qed

section \<open>One window\<close>

text \<open>What a call leaves behind, in the terms of the contract.\<close>

definition cold_step ::
  "cold_env \<Rightarrow> cold_config \<Rightarrow> (cold_window \<rightharpoonup> string) \<Rightarrow> cold_window \<Rightarrow> s3_state \<Rightarrow> cold_error option \<times> s3_state \<Rightarrow> bool" where
  "cold_step env cfg old w s r \<longleftrightarrow>
     cold_inv env cfg old (snd r) \<and>
     (\<forall>v. valid_cold v \<and> v \<noteq> w \<longrightarrow> marked cfg (snd r) v = marked cfg s v) \<and>
     (valid_cold w \<longrightarrow> marked cfg s w \<or> fst r = None \<longrightarrow> marked cfg (snd r) w)"

lemma cold_step_frame:
  assumes "cold_inv env cfg old s" "s3_invar s'" "object_at s' = object_at s" "e = None \<Longrightarrow> marked cfg s w"
  shows "cold_step env cfg old w s (e, s')"
  using assms(4) cold_inv_frame [OF assms(3,2,1)] marked_cong [OF assms(3), of cfg]
  by (simp add: cold_step_def)

lemma stream_parquet_step:
  assumes "cold_inv env cfg old s" "asked_cold w" "\<not> marked cfg s w" "answered env cfg w body"
  shows "cold_step env cfg old w s (stream_parquet (parquet_key cfg w) (window_file env w body) (success_key cfg w) s)"
proof (cases "window_file env w body")
  case (Inl e)
  obtain u s1 where u: "UploadStream (parquet_key cfg w) None s = (u, s1)" by fastforce
  have "s3_invar s" using assms(1) by (simp add: cold_inv_def)
  note f = UploadStream_None [OF u this]
  show ?thesis using Inl u f assms(1) by (auto simp: stream_parquet_def intro: cold_step_frame)
next
  case (Inr bytes)
  have inv: "s3_invar s" using assms(1) by (simp add: cold_inv_def)
  obtain u s1 where u: "UploadStream (parquet_key cfg w) (Some bytes) s = (u, s1)" by fastforce
  note eff = UploadStream_effect [OF u inv, unfolded write_effect_def]
  show ?thesis
  proof (cases u)
    case (Some e)
    then have r: "stream_parquet (parquet_key cfg w) (window_file env w body) (success_key cfg w) s = (Some (CUploadParquet e), s1)"
      using Inr u by (simp add: stream_parquet_def)
    consider "object_at s1 = object_at s" | "object_at s1 = (object_at s)(parquet_key cfg w \<mapsto> bytes)" using eff by auto
    then show ?thesis
    proof cases
      case 1
      then show ?thesis using r eff assms(1) by (auto intro: cold_step_frame)
    next
      case 2
      note f = cold_inv_file [OF assms(1-3) _ 2]
      show ?thesis using r eff f assms(3) by (simp add: cold_step_def)
    qed
  next
    case None
    then have at: "object_at s1 = (object_at s)(parquet_key cfg w \<mapsto> bytes)" and inv1: "s3_invar s1" using eff by auto
    note f1 = cold_inv_file [OF assms(1-3) inv1 at]
    obtain p s2 where p: "PutObject (success_key cfg w) [] s1 = (p, s2)" by fastforce
    note eff2 = PutObject_effect [OF p inv1, unfolded write_effect_def]
    have r: "stream_parquet (parquet_key cfg w) (window_file env w body) (success_key cfg w) s = (map_option CUploadSuccess p, s2)"
      using Inr u None p by (cases p) (simp_all add: stream_parquet_def)
    consider "object_at s2 = object_at s1" "p \<noteq> None" | "object_at s2 = (object_at s1)(success_key cfg w \<mapsto> [])"
      using eff2 by auto
    then show ?thesis
    proof cases
      case 1
      then have "cold_inv env cfg old s2" "marked cfg s2 = marked cfg s1"
        using cold_inv_frame [OF 1(1) _ f1(1)] marked_cong [OF 1(1)] eff2 by auto
      then show ?thesis using 1(2) r f1(2) assms(3) by (auto simp: cold_step_def)
    next
      case 2
      have pq: "object_at s1 (parquet_key cfg w) = Some bytes" using at by simp
      have "cold_inv env cfg old s2 \<and> (\<forall>v. valid_cold v \<longrightarrow> marked cfg s2 v = (v = w \<or> marked cfg s v))"
        using eff2 cold_inv_marker [OF f1(1) assms(2) _ _ 2 pq Inr assms(4)] f1(2) assms(2,3) by auto
      then show ?thesis using r by (auto simp: cold_step_def)
    qed
  qed
qed

lemma cold_exportWindow_step:
  assumes "cold_inv env cfg old s" "asked_cold w"
  shows "cold_step env cfg old w s (cold_exportWindow env cfg w s)"
proof -
  have inv: "s3_invar s" using assms(1) by (simp add: cold_inv_def)
  obtain x s1 where ex: "ObjectExists (success_key cfg w) s = (x, s1)" by fastforce
  note f = ObjectExists_frame [OF ex inv]
  have i1: "cold_inv env cfg old s1" using f assms(1) cold_inv_frame by blast
  have shift: "cold_step env cfg old w s1 r \<Longrightarrow> cold_step env cfg old w s r" for r
    using f marked_cong [of s1 s cfg] by (simp add: cold_step_def)
  show ?thesis
  proof (cases x)
    case (Inl e)
    then show ?thesis using ex f assms(1)
      by (auto simp: cold_exportWindow_def Let_def success_key_def intro: cold_step_frame)
  next
    case (Inr b)
    have b: "b = marked cfg s w" using ObjectExists_true [OF ex [unfolded Inr] inv] by (simp add: marked_def)
    show ?thesis
    proof (cases b)
      case True
      then show ?thesis using ex f assms(1) Inr b
        by (auto simp: cold_exportWindow_def Let_def success_key_def intro: cold_step_frame)
    next
      case False
      then have m: "\<not> marked cfg s1 w" using b f marked_cong [of s1 s cfg] by simp
      note st = stream_parquet_step [OF i1 assms(2) m]
      have src: "cold_step env cfg old w s1 (Some (CSourceErr e), s1)" for e
        using i1 f by (auto intro: cold_step_frame)
      have known: "XSource w = SourceMetrics \<or> XSource w = SourceLogs \<or> XSource w = SourceTraces"
        using assms(2) by (simp add: asked_cold_def known_source_def)
      have "cold_exportWindow env cfg w s =
          (let pre = cold_S3KeyPrefix (CS3Prefix cfg) w; successKey = pre @ ''_SUCCESS''
           in if XSource w = SourceMetrics then exportMetricsWindow env cfg w pre successKey s1
              else if XSource w = SourceLogs then exportLogsWindow env cfg w pre successKey s1
              else if XSource w = SourceTraces then exportTracesWindow env cfg w pre successKey s1
              else (None, s1))"
        using ex Inr False by (simp add: cold_exportWindow_def Let_def success_key_def)
      moreover have "cold_step env cfg old w s1 \<dots>"
        using known
      proof (elim disjE)
        assume "XSource w = SourceMetrics"
        then show ?thesis using st [OF export_answered(1)] src
          by (simp add: Let_def exportMetricsWindow_def window_file_def parquet_key_def success_key_def SourceMetrics_def split: sum.split)
      next
        assume "XSource w = SourceLogs"
        then show ?thesis using st [OF export_answered(2)] src
          by (simp add: Let_def exportLogsWindow_def window_file_def parquet_key_def success_key_def SourceMetrics_def SourceLogs_def split: sum.split)
      next
        assume "XSource w = SourceTraces"
        then show ?thesis using st [OF export_answered(3)] src
          by (simp add: Let_def exportTracesWindow_def window_file_def parquet_key_def success_key_def SourceMetrics_def SourceLogs_def SourceTraces_def split: sum.split)
      qed
      ultimately have "cold_step env cfg old w s1 (cold_exportWindow env cfg w s)" by simp
      then show ?thesis by (rule shift)
    qed
  qed
qed

interpretation cold: window_store "cold_inv env cfg old" asked_cold valid_cold "marked cfg" "\<lambda>i. cold_exportWindow env cfg"
  for env cfg old
  using cold_exportWindow_step by unfold_locales (auto simp: cold_step_def)

section \<open>The windows of a run\<close>

text \<open>
  The windows a run is asked for: every hour of every cluster of every tenant of every source, as
  far as the sources answer. A source whose tenants cannot be discovered has none, and a tenant
  whose clusters cannot be discovered ends the list of its source.
\<close>

fun reachable :: "cold_env \<Rightarrow> cold_config \<Rightarrow> string \<Rightarrow> time \<Rightarrow> time \<Rightarrow> string list \<Rightarrow> (string \<times> string list) list" where
  "reachable env cfg source t u [] = []"
| "reachable env cfg source t u (tenant # tenants) =
     (case discoverClusters env cfg source tenant t u of
        Inl _ \<Rightarrow> []
      | Inr clusters \<Rightarrow> (tenant, clusters) # reachable env cfg source t u tenants)"

definition tenant_targets :: "string \<Rightarrow> time \<Rightarrow> time \<Rightarrow> string \<times> string list \<Rightarrow> cold_window list" where
  "tenant_targets source t u tc =
     concat (map (\<lambda>cluster. map (cold_hour_window source (fst tc) cluster) (hours t u)) (snd tc))"

definition source_targets :: "cold_env \<Rightarrow> cold_config \<Rightarrow> time \<Rightarrow> time \<Rightarrow> string \<Rightarrow> cold_window list" where
  "source_targets env cfg t u source =
     (case discoverTenants env cfg source t u of
        Inl _ \<Rightarrow> []
      | Inr tenants \<Rightarrow> concat (map (tenant_targets source t u) (reachable env cfg source t u tenants)))"

definition targets :: "cold_env \<Rightarrow> cold_config \<Rightarrow> time \<Rightarrow> time \<Rightarrow> cold_window list" where
  "targets env cfg t u = concat (map (source_targets env cfg t u) (Sources cfg))"

text \<open>Collecting reads the bucket only, and yields those of the given windows that have no marker.\<close>

definition collects :: "cold_config \<Rightarrow> s3_state \<Rightarrow> cold_window list \<Rightarrow> collected \<Rightarrow> bool" where
  "collects cfg s W c \<longleftrightarrow>
     s3_invar (snd c) \<and> object_at (snd c) = object_at s \<and> written (snd c) = written s \<and>
     (\<forall>ws. fst c = Inr ws \<longrightarrow> ws = filter (\<lambda>w. \<not> marked cfg s w) W)"

lemma collects_Nil: "s3_invar s \<Longrightarrow> collects cfg s [] (Inr [], s)"
  by (simp add: collects_def)

lemma collects_error: "s3_invar s \<Longrightarrow> collects cfg s W (Inl e, s)"
  by (simp add: collects_def)

lemma collects_append:
  assumes "collects cfg s W c" "\<And>s1. s3_invar s1 \<Longrightarrow> collects cfg s1 W' (rest s1)"
  shows "collects cfg s (W @ W') (append_windows c rest)"
proof -
  obtain r s1 where c: "c = (r, s1)" by fastforce
  have f: "s3_invar s1" "object_at s1 = object_at s" "written s1 = written s" using assms(1) c by (auto simp: collects_def)
  have m: "marked cfg s1 = marked cfg s" by (rule marked_cong [OF f(2)])
  have r2: "collects cfg s1 W' (rest s1)" by (rule assms(2) [OF f(1)])
  show ?thesis
    using assms(1) c f m r2 by (auto simp: append_windows_def collects_def split: sum.splits prod.splits)
qed

lemma cold_hours_collects:
  assumes "s3_invar s"
  shows "collects cfg s (map (cold_hour_window source tenant cluster) (hours t u))
    (cold_hours cfg source tenant cluster t u s)"
  using assms
proof (induction cfg source tenant cluster t u s rule: cold_hours.induct)
  case (1 cfg source tenant cluster t u s)
  let ?w = "cold_hour_window source tenant cluster t"
  show ?case
  proof (cases "t < u")
    case False
    then show ?thesis
      using "1.prems" by (simp add: cold_hours.simps [of _ _ _ _ t] hours.simps [of t] collects_Nil)
  next
    case True
    obtain x s1 where ex: "ObjectExists (success_key cfg ?w) s = (x, s1)" by fastforce
    note f = ObjectExists_frame [OF ex "1.prems"]
    show ?thesis
    proof (cases x)
      case (Inl e)
      then show ?thesis
        using True ex f by (simp add: cold_hours.simps [of _ _ _ _ t] Let_def collects_def)
    next
      case (Inr b)
      have b: "b = marked cfg s ?w" using ObjectExists_true [OF ex [unfolded Inr] "1.prems"] by (simp add: marked_def)
      have m: "marked cfg s1 = marked cfg s" using f by (intro marked_cong) simp
      have "collects cfg s1 (map (cold_hour_window source tenant cluster) (hours (t + hour) u))
          (cold_hours cfg source tenant cluster (t + hour) u s1)"
        using "1.IH" [OF True refl ex [symmetric] Inr] f by blast
      then show ?thesis
        using True ex Inr b f m
        by (auto simp: cold_hours.simps [of _ _ _ _ t] hours.simps [of t] Let_def collects_def
            split: sum.splits prod.splits)
    qed
  qed
qed

lemma cold_clusters_collects:
  "s3_invar s \<Longrightarrow> collects cfg s (tenant_targets source t u (tenant, clusters))
     (cold_clusters cfg source tenant clusters t u s)"
proof (induction clusters arbitrary: s)
  case Nil
  then show ?case by (simp add: tenant_targets_def collects_Nil)
next
  case (Cons cluster clusters)
  then show ?case
    using collects_append [OF cold_hours_collects [OF Cons.prems, of cfg source tenant cluster t u] Cons.IH]
    by (simp add: tenant_targets_def)
qed

lemma cold_tenants_collects:
  "s3_invar s \<Longrightarrow> collects cfg s (concat (map (tenant_targets source t u) (reachable env cfg source t u tenants)))
     (cold_tenants env cfg source tenants t u s)"
proof (induction tenants arbitrary: s)
  case Nil
  then show ?case by (simp add: collects_Nil)
next
  case (Cons tenant tenants)
  show ?case
  proof (cases "discoverClusters env cfg source tenant t u")
    case (Inl e)
    then show ?thesis using Cons.prems by (cases e) (simp_all add: collects_Nil collects_error)
  next
    case (Inr clusters)
    then show ?thesis
      using collects_append [OF cold_clusters_collects [OF Cons.prems, of cfg source t u tenant clusters] Cons.IH] by simp
  qed
qed

lemma cold_sources_collects:
  "s3_invar s \<Longrightarrow> collects cfg s (concat (map (source_targets env cfg t u) sources)) (cold_sources env cfg sources t u s)"
proof (induction sources arbitrary: s)
  case Nil
  then show ?case by (simp add: collects_Nil)
next
  case (Cons source sources)
  show ?case
  proof (cases "discoverTenants env cfg source t u")
    case (Inl e)
    then show ?thesis
      using Cons by (cases e) (simp_all add: source_targets_def collects_error)
  next
    case (Inr tenants)
    then show ?thesis
      using collects_append [OF cold_tenants_collects [OF Cons.prems, of cfg source t u env tenants] Cons.IH]
      by (simp add: source_targets_def)
  qed
qed

section \<open>Runs\<close>

definition cold_sane :: "cold_config \<Rightarrow> bool" where
  "cold_sane cfg \<longleftrightarrow> list_all known_source (Sources cfg) \<and> \<bar>CCatchUpHours cfg\<bar> \<le> 2562046"

abbreviation run_targets :: "cold_env \<Rightarrow> cold_config \<Rightarrow> time \<Rightarrow> cold_window list" where
  "run_targets env cfg now \<equiv> targets env cfg (cold_start cfg now) (cold_hourEnd cfg now)"

lemma cold_start_aligned:
  assumes "cold_sane cfg"
  shows "hour dvd cold_start cfg now"
proof -
  have "int64 (- (CCatchUpHours cfg - 1) * hour) = - (CCatchUpHours cfg - 1) * hour"
    using assms by (intro int64_id) (auto simp: cold_sane_def hour_def second_def)
  moreover have "hour dvd cold_hourEnd cfg now"
    using truncate_hour_dvd by (simp add: cold_hourEnd_def Let_def)
  ultimately show ?thesis by (simp add: cold_start_def)
qed

lemma target_asked:
  assumes "cold_sane cfg" "w \<in> set (run_targets env cfg now)"
  shows "asked_cold w"
proof -
  obtain source tenant cluster x where w: "w = cold_hour_window source tenant cluster x"
    "source \<in> set (Sources cfg)" "x \<in> set (hours (cold_start cfg now) (cold_hourEnd cfg now))"
    using assms(2) by (auto simp: targets_def source_targets_def tenant_targets_def split: sum.splits)
  then show ?thesis
    using assms(1) hours_aligned [OF w(3) cold_start_aligned [OF assms(1)]]
    by (auto simp: asked_cold_def cold_sane_def cold_hour_window_def list_all_iff)
qed

text \<open>
  A run refines the abstract operation on the set of exported windows: nothing exported is lost,
  nothing is exported that was not asked for, and a run that reports no error has exported every
  window it was asked for, as far as the sources answered and the names have no slash.
\<close>

definition exported_windows :: "cold_config \<Rightarrow> s3_state \<Rightarrow> cold_window set" where
  "exported_windows cfg s = {w. valid_cold w \<and> marked cfg s w}"

definition requested :: "cold_env \<Rightarrow> cold_config \<Rightarrow> time \<Rightarrow> cold_window set" where
  "requested env cfg now = {w \<in> set (run_targets env cfg now). slash_free w}"

text \<open>
  Of these, the windows of sources that answered every question of the discovery: which tenants
  they have, and which clusters each tenant has.
\<close>

definition source_complete :: "cold_env \<Rightarrow> cold_config \<Rightarrow> time \<Rightarrow> string \<Rightarrow> bool" where
  "source_complete env cfg now source \<longleftrightarrow>
     (case discoverTenants env cfg source (cold_start cfg now) (cold_hourEnd cfg now) of
        Inl _ \<Rightarrow> False
      | Inr tenants \<Rightarrow> list_all (\<lambda>tenant.
          case discoverClusters env cfg source tenant (cold_start cfg now) (cold_hourEnd cfg now) of
            Inl _ \<Rightarrow> False
          | Inr _ \<Rightarrow> True) tenants)"

definition promised :: "cold_env \<Rightarrow> cold_config \<Rightarrow> time \<Rightarrow> cold_window set" where
  "promised env cfg now = {w \<in> requested env cfg now. source_complete env cfg now (XSource w)}"

lemma cold_Run_refines:
  assumes "cold_inv env cfg old s" "cold_sane cfg" "cold_Run env cfg now cancelled s = (r, s')"
  shows "cold_inv env cfg old s'"
    "spec_run (exported_windows cfg s) (requested env cfg now) (r = None) (exported_windows cfg s')"
proof -
  let ?W = "run_targets env cfg now"
  have inv: "s3_invar s" using assms(1) by (simp add: cold_inv_def)
  obtain c s1 where c: "cold_collectWindows env cfg (cold_start cfg now) (cold_hourEnd cfg now) s = (c, s1)" by fastforce
  have col: "collects cfg s ?W (c, s1)"
    using cold_sources_collects [OF inv] c by (simp add: cold_collectWindows_def targets_def) metis
  then have f: "s3_invar s1" "object_at s1 = object_at s" by (auto simp: collects_def)
  have i1: "cold_inv env cfg old s1" by (rule cold_inv_frame [OF f(2,1) assms(1)])
  have m: "exported_windows cfg s1 = exported_windows cfg s" using marked_cong [OF f(2), of cfg] by (simp add: exported_windows_def)
  have "cold_inv env cfg old s' \<and> spec_run (exported_windows cfg s) (requested env cfg now) (r = None) (exported_windows cfg s')"
  proof (cases c)
    case (Inl e)
    then show ?thesis using assms(3) c i1 m by (auto simp: cold_Run_def spec_run_refl)
  next
    case (Inr ws)
    have ws: "ws = filter (\<lambda>w. \<not> marked cfg s w) ?W" using col Inr by (simp add: collects_def)
    then have asked: "\<forall>w \<in> set ws. asked_cold w" using target_asked [OF assms(2)] by auto
    obtain q where q: "export_loop (\<lambda>_. cold_exportWindow env cfg) cold_outage cancelled 0 ws None s1 = (q, s')"
      and r: "r = map_option ColdLoop q"
      using assms(3) c Inr by (auto simp: cold_Run_def split: prod.splits)
    have "{w \<in> set ws. valid_cold w} = requested env cfg now - exported_windows cfg s"
      using ws target_asked [OF assms(2)] by (auto simp: exported_windows_def requested_def valid_cold_def)
    moreover note cold.loop_refines [OF i1 asked q]
    ultimately show ?thesis
      using m r spec_run_skip [of "exported_windows cfg s" "requested env cfg now"]
      by (auto simp: cold.exported_def exported_windows_def)
  qed
  then show "cold_inv env cfg old s'"
    "spec_run (exported_windows cfg s) (requested env cfg now) (r = None) (exported_windows cfg s')" by auto
qed

text \<open>
  C14: a marker stands for a complete file. After any run, whatever failed, a window with a marker
  whose tenant and cluster names have no slash has its Parquet file. If the run set the marker, the
  source answered the question of exactly this window (its expression for tenant and cluster, from
  its start to its end) with status 200, the answer was read to its end, and the file is the
  encoding of that answer; if the marker was there before, the file is what it was before the run.
\<close>

theorem cold_markers_complete:
  assumes "cold_inv env cfg old s" "cold_sane cfg" "cold_Run env cfg now cancelled s = (r, s')"
    and "valid_cold w" "marked cfg s' w"
  shows "\<exists>answer bytes. object_at s' (parquet_key cfg w) = Some bytes \<and> window_file env w (answer, False) = Inr bytes \<and>
    (if marked cfg s w then object_at s (parquet_key cfg w) = Some bytes
     else c_http env (window_url env cfg w) = HttpReply 200 answer False)"
proof -
  have "cold_inv env cfg (files cfg s) s'"
    using cold_Run_refines(1) [OF cold_inv_files [OF assms(1)] assms(2,3)] .
  then have "cold_sealed env cfg (files cfg s) s' w" using assms(4) by (simp add: cold_inv_def)
  then obtain body bytes where b: "object_at s' (parquet_key cfg w) = Some bytes" "window_file env w body = Inr bytes"
    "case files cfg s w of None \<Rightarrow> answered env cfg w body | Some b \<Rightarrow> bytes = b"
    using assms(5) by (auto simp: cold_sealed_def)
  have body: "body = (fst body, False)" using window_file_whole [OF b(2)] by (metis prod.collapse)
  have "object_at s (parquet_key cfg w) \<noteq> None" if "marked cfg s w"
    using that assms(1,4) unfolding cold_inv_def cold_sealed_def by (metis option.distinct(1))
  then have "if marked cfg s w then object_at s (parquet_key cfg w) = Some bytes
      else c_http env (window_url env cfg w) = HttpReply 200 (fst body) False"
    using b(3) body by (auto simp: files_def answered_def split: if_splits) (metis snd_conv)
  then show ?thesis using b(1,2) body by metis
qed

section \<open>Instances\<close>

definition demo_cold_env :: cold_env where
  "demo_cold_env = \<lparr>c_http = (\<lambda>_. HttpReply 200 [] False),
     c_decoder = \<lparr>decode_values = (\<lambda>_. None), decode_value = (\<lambda>_. None)\<rparr>,
     label_values = (\<lambda>_. None), c_Quote = (\<lambda>s. s), codec = demo_codec\<rparr>"

definition demo_cold_cfg :: cold_config where
  "demo_cold_cfg = \<lparr>VMURL = [], CVLogsURL = ''http://vl'', VTracesURL = [], Sources = [SourceLogs],
     CTenants = [''t''], Clusters = [''c''], CS3Endpoint = [], CS3Bucket = ''b'', CS3Prefix = ''telemetry'',
     CS3AccessKey = [], CS3SecretKey = [], CS3Region = [], CS3UsePathStyle = True, CS3ForceHTTP = False,
     CExportDelay = 0, CCatchUpHours = 1\<rparr>"

definition demo_bucket :: s3_state where
  "demo_bucket = \<lparr>objects = [], plan = [], missing = NoSuchKey, objectLock = False, bucket = ''b'', written = []\<rparr>"

abbreviation demo_cold_window :: cold_window where
  "demo_cold_window \<equiv> cold_hour_window SourceLogs ''t'' ''c'' (2 * hour)"

abbreviation demo_cold_run :: "cold_run_error option \<times> s3_state" where
  "demo_cold_run \<equiv> cold_Run demo_cold_env demo_cold_cfg (3 * hour) (\<lambda>_. False) demo_bucket"

lemma demo_cold_range: "cold_hourEnd demo_cold_cfg (3 * hour) = 3 * hour" "cold_start demo_cold_cfg (3 * hour) = 2 * hour"
  "hours (2 * hour) (3 * hour) = [2 * hour]"
  by (simp_all add: cold_hourEnd_def cold_start_def demo_cold_cfg_def truncate_hour_id Let_def hours.simps int64_def)

lemma demo_discovery: "discoverTenants demo_cold_env demo_cold_cfg source t u = Inr [''t'']"
  "discoverClusters demo_cold_env demo_cold_cfg source tenant t u = Inr [''c'']" "Sources demo_cold_cfg = [SourceLogs]"
  by (simp_all add: demo_cold_cfg_def discoverTenants_def discoverClusters_def)

lemma demo_cold_targets: "run_targets demo_cold_env demo_cold_cfg (3 * hour) = [demo_cold_window]"
  by (simp add: demo_cold_range targets_def source_targets_def tenant_targets_def demo_discovery)

lemma demo_cold_facts: "cold_inv demo_cold_env demo_cold_cfg Map.empty demo_bucket" "cold_sane demo_cold_cfg"
  "valid_cold demo_cold_window"
proof -
  show "cold_inv demo_cold_env demo_cold_cfg Map.empty demo_bucket"
    by (simp add: cold_inv_def cold_sealed_def marked_def demo_bucket_def s3_invar_def object_at_def)
  show "cold_sane demo_cold_cfg" by (simp add: cold_sane_def demo_cold_cfg_def known_source_def)
  show "valid_cold demo_cold_window" by (simp add: valid_cold_def asked_cold_def slash_free_def cold_hour_window_def known_source_def)
qed

lemma demo_cold_export:
  "fst (cold_exportWindow demo_cold_env cfg (cold_hour_window SourceLogs t c x) demo_bucket) = None"
proof -
  have http: "ExportLogs demo_cold_env c t x a b = Inr ([], False)" for c t x a b
    by (simp add: ExportLogs_def QueryStream_def demo_cold_env_def Let_def)
  have pq: "logs_parquet demo_cold_env t x ([], False) = Inr []" for t x
    by (simp add: logs_parquet_def ScanVLogsExport_def scan_ndjson_def scan_lines_def raw_lines_def demo_cold_env_def
        demo_codec_def flush_def new_writer_def)
  show ?thesis
    by (simp add: cold_exportWindow_def Let_def cold_hour_window_def SourceMetrics_def SourceLogs_def exportLogsWindow_def
        http pq stream_parquet_def ObjectExists_def raw_HeadObject_def UploadStream_def raw_Upload_def PutObject_def
        raw_PutObject_def next_fault_def demo_bucket_def store_object_def)
qed

text \<open>One hour of one cluster, from an empty bucket.\<close>

lemma demo_cold_hour:
  assumes "Sources cfg = [SourceLogs]" "CTenants cfg = [t]" "Clusters cfg = [c]"
    and "cold_start cfg now = x" "hours x (cold_hourEnd cfg now) = [x]"
  shows "fst (cold_Run demo_cold_env cfg now (\<lambda>_. False) demo_bucket) = None"
proof -
  have "x < cold_hourEnd cfg now" "\<not> x + hour < cold_hourEnd cfg now"
    using assms(5) by (auto simp: hours.simps [of x] hours.simps [of "x + hour"] split: if_splits)
  then have c: "cold_collectWindows demo_cold_env cfg (cold_start cfg now) (cold_hourEnd cfg now) demo_bucket =
      (Inr [cold_hour_window SourceLogs t c x], demo_bucket)"
    using assms(1-4)
    by (simp add: cold_collectWindows_def discoverTenants_def discoverClusters_def append_windows_def cold_hours.simps
        ObjectExists_def raw_HeadObject_def next_fault_def demo_bucket_def Let_def)
  obtain s1 where "cold_exportWindow demo_cold_env cfg (cold_hour_window SourceLogs t c x) demo_bucket = (None, s1)"
    using demo_cold_export by (metis prod.collapse)
  then show ?thesis by (simp add: cold_Run_def c)
qed

lemma demo_cold_success: "demo_cold_run = (None, snd demo_cold_run)"
  using demo_cold_hour [of demo_cold_cfg "''t''" "''c''" "3 * hour" "2 * hour"]
  by (simp add: demo_cold_range demo_discovery) (simp add: demo_cold_cfg_def prod_eq_iff)

theorem cold_markers_complete_witness:
  "\<exists>answer bytes. object_at (snd demo_cold_run) (parquet_key demo_cold_cfg demo_cold_window) = Some bytes \<and>
     window_file demo_cold_env demo_cold_window (answer, False) = Inr bytes \<and>
     c_http demo_cold_env (window_url demo_cold_env demo_cold_cfg demo_cold_window) = HttpReply 200 answer False"
proof -
  have m: "marked demo_cold_cfg (snd demo_cold_run) demo_cold_window"
    using cold_Run_refines(2) [OF demo_cold_facts(1,2) demo_cold_success]
    by (auto simp: spec_run_def demo_cold_targets exported_windows_def requested_def slash_free_def cold_hour_window_def)
  have "\<not> marked demo_cold_cfg demo_bucket demo_cold_window"
    by (simp add: marked_def demo_bucket_def object_at_def)
  then show ?thesis
    using cold_markers_complete [OF demo_cold_facts(1,2) demo_cold_success demo_cold_facts(3) m] by simp
qed

end
