(* ===== verification/Alerts_Run.thy ===== *)
theory Alerts_Run
  imports Alerts
begin

text \<open>
  What the controller for rules guarantees. Merging is characterised by the rule found for a cluster,
  a group and a name (\<open>alert_at\<close>): each ConfigMap is one layer on that function, and merging refines
  the composition of the layers. Reconciling changes generated output ConfigMaps only, and a second
  reconciliation writes nothing.
\<close>

section \<open>Merging alert rules\<close>

definition alert_at :: "cluster_alerts \<Rightarrow> string \<Rightarrow> string \<Rightarrow> string \<Rightarrow> rule option" where
  "alert_at A cluster grp name = map_of (lookup_map (lookup_map A cluster) grp) name"

text \<open>The rule that results from an old rule, a default rule and a new one.\<close>

definition effective :: "rule option \<Rightarrow> rule option \<Rightarrow> rule \<Rightarrow> rule" where
  "effective old dflt new =
     (case old of
        Some r \<Rightarrow> patchRule r new
      | None \<Rightarrow> (case dflt of Some r \<Rightarrow> patchRule r new | None \<Rightarrow> new))"

text \<open>What a ConfigMap says about a group and a rule.\<close>

definition said :: "rules_codec \<Rightarrow> config_map \<Rightarrow> string \<Rightarrow> string \<Rightarrow> rule option" where
  "said c cm grp name =
     (case map_of (cm_data cm) grp of
        None \<Rightarrow> None
      | Some y \<Rightarrow> (case yaml_alerts c y of Inl _ \<Rightarrow> None | Inr m \<Rightarrow> map_of m name))"

text \<open>One ConfigMap as a layer on the rules found so far.\<close>

definition layer :: "rules_codec \<Rightarrow> config_map \<Rightarrow> (string \<Rightarrow> string \<Rightarrow> string \<Rightarrow> rule option) \<Rightarrow>
    (string \<Rightarrow> string \<Rightarrow> string \<Rightarrow> rule option)" where
  "layer c cm f = (\<lambda>cluster grp name.
     if cluster \<noteq> get_str (cm_labels cm) KofAlertRulesClusterNameLabel then f cluster grp name
     else (case said c cm grp name of
         None \<Rightarrow> f cluster grp name
       | Some new \<Rightarrow>
           Some (effective (f cluster grp name)
             (if cluster \<noteq> DefaultClusterName then f DefaultClusterName grp name else None)
             (new\<lparr>RAlert := name\<rparr>))))"

definition wf_codec :: "rules_codec \<Rightarrow> bool" where
  "wf_codec c \<longleftrightarrow> (\<forall>y m. yaml_alerts c y = Inr m \<longrightarrow> wf_map m)"

lemma merge_rule_lookup:
  "map_of (merge_rule d (n, r) ar) x =
     (if x = n then Some (effective (map_of ar n) (map_of d n) (r\<lparr>RAlert := n\<rparr>)) else map_of ar x)"
  by (auto simp: merge_rule_def effective_def Let_def split: option.split)

lemma fold_merge_rule:
  assumes "wf_map new"
  shows "map_of (fold (merge_rule d) new ar) x =
    (case map_of new x of None \<Rightarrow> map_of ar x | Some n \<Rightarrow> Some (effective (map_of ar x) (map_of d x) (n\<lparr>RAlert := x\<rparr>)))"
  using assms
proof (induction new arbitrary: ar)
  case (Cons nr new)
  obtain n r where nr: "nr = (n, r)" by fastforce
  have n: "map_of new n = None" using Cons.prems by (simp add: nr map_of_eq_None_iff)
  show ?case using Cons n by (auto simp: nr merge_rule_lookup split: option.split)
qed simp

lemma lookup_map_set: "lookup_map (map_set k v m) k' = (if k' = k then v else lookup_map m k')"
  by (simp add: lookup_map_def)

lemma merge_entries_lookup:
  assumes "merge_entries c A cl entries groups = Inr groups'" "wf_map entries" "wf_codec c"
  shows "map_of (lookup_map groups' g) x =
    (case map_of entries g of
       None \<Rightarrow> map_of (lookup_map groups g) x
     | Some y \<Rightarrow> (case yaml_alerts c y of
         Inl _ \<Rightarrow> None
       | Inr m \<Rightarrow> (case map_of m x of
           None \<Rightarrow> map_of (lookup_map groups g) x
         | Some n \<Rightarrow> Some (effective (map_of (lookup_map groups g) x) (map_of (group_defaults A cl g) x) (n\<lparr>RAlert := x\<rparr>)))))"
  using assms(1,2)
proof (induction entries arbitrary: groups)
  case (Cons e entries)
  obtain g0 y where e: "e = (g0, y)" by fastforce
  obtain m where m: "yaml_alerts c y = Inr m" using Cons.prems(1) by (auto simp: e split: sum.splits)
  have wf: "wf_map m" using assms(3) m by (simp add: wf_codec_def)
  have g0: "map_of entries g0 = None" using Cons.prems(2) by (simp add: e map_of_eq_None_iff)
  define gs where "gs = map_set g0 (fold (merge_rule (group_defaults A cl g0)) m (lookup_map groups g0)) groups"
  note ih = Cons.IH [of gs]
  have step: "merge_entries c A cl entries gs = Inr groups'" "wf_map entries"
    using Cons.prems m by (simp_all add: e gs_def)
  show ?case
  proof (cases "g = g0")
    case True
    have "lookup_map gs g0 = fold (merge_rule (group_defaults A cl g0)) m (lookup_map groups g0)"
      by (simp add: gs_def lookup_map_set)
    then show ?thesis unfolding True using ih [OF step] g0 m True by (simp add: e fold_merge_rule [OF wf])
  next
    case False
    then have "lookup_map gs g = lookup_map groups g" by (simp add: gs_def lookup_map_set)
    from ih [OF step, unfolded this] False show ?thesis by (simp add: e)
  qed
qed simp

lemma merge_entries_decoded:
  "merge_entries c A cl entries gs = Inr groups \<Longrightarrow> (g, y) \<in> set entries \<Longrightarrow> \<exists>m. yaml_alerts c y = Inr m"
  by (induction c A cl entries gs rule: merge_entries.induct) (auto split: sum.splits)

lemma merge_cm_layer:
  assumes "merge_entries c A cl (cm_data cm) (lookup_map A cl) = Inr groups"
    and "cl = get_str (cm_labels cm) KofAlertRulesClusterNameLabel" "wf_map (cm_data cm)" "wf_codec c"
  shows "alert_at (map_set cl groups A) = layer c cm (alert_at A)"
proof (intro ext)
  fix cluster g x
  have err: "yaml_alerts c y \<noteq> Inl e" if "map_of (cm_data cm) g = Some y" for y e
    using merge_entries_decoded [OF assms(1) map_of_SomeD [OF that]] by auto
  show "alert_at (map_set cl groups A) cluster g x = layer c cm (alert_at A) cluster g x"
  proof (cases "cluster = cl")
    case False
    then show ?thesis using assms(2) by (simp add: alert_at_def layer_def lookup_map_set)
  next
    case True
    then show ?thesis
      using err merge_entries_lookup [OF assms(1,3,4), of g x] assms(2)
      by (auto simp: alert_at_def layer_def said_def lookup_map_set group_defaults_def split: option.splits sum.splits)
  qed
qed

lemma mergeAlertConfigMaps_layers:
  "mergeAlertConfigMaps c cms A = Inr A' \<Longrightarrow> \<forall>cm \<in> set cms. wf_map (cm_data cm) \<Longrightarrow> wf_codec c \<Longrightarrow>
     alert_at A' = fold (layer c) cms (alert_at A)"
proof (induction cms arbitrary: A)
  case (Cons cm cms)
  let ?cl = "get_str (cm_labels cm) KofAlertRulesClusterNameLabel"
  obtain groups where g: "merge_entries c A ?cl (cm_data cm) (lookup_map A ?cl) = Inr groups"
    "mergeAlertConfigMaps c cms (map_set ?cl groups A) = Inr A'"
    using Cons.prems(1) by (auto simp: Let_def split: sum.splits)
  show ?case
    using Cons.IH [OF g(2)] Cons.prems(2,3) merge_cm_layer [OF g(1) refl] by simp
qed simp

section \<open>Which objects change\<close>

definition generated :: "config_map \<Rightarrow> bool" where
  "generated cm \<longleftrightarrow> get_str (cm_labels cm) KofGeneratedLabel = ''true''"

definition is_output :: "string \<Rightarrow> string \<Rightarrow> config_map \<Rightarrow> bool" where
  "is_output namespace releaseName cm \<longleftrightarrow>
     generated cm \<and> (cm_key cm = (namespace, releaseName @ ''-promxy-rules'') \<or>
       map_of (cm_labels cm) KofRecordVMRulesClusterNameLabel \<noteq> None)"

text \<open>An object stays as it is, or is one of the given and has new data and a later version.\<close>

definition cm_step :: "(config_map \<Rightarrow> bool) \<Rightarrow> config_map \<Rightarrow> config_map \<Rightarrow> bool" where
  "cm_step P cm cm' \<longleftrightarrow>
     cm' = cm \<or> P cm \<and> (\<exists>d v. cm_version cm < v \<and> cm' = cm\<lparr>cm_data := d, cm_version := v\<rparr>)"

definition evolves :: "(config_map \<Rightarrow> bool) \<Rightarrow> kube \<Rightarrow> kube \<Rightarrow> bool" where
  "evolves P k k' \<longleftrightarrow>
     list_all2 (cm_step P) (config_maps k) (config_maps k') \<and> prometheus_rules k' = prometheus_rules k"

lemma cm_step_refl: "cm_step P cm cm"
  by (simp add: cm_step_def)

lemma cm_step_frame: "cm_step P cm cm' \<Longrightarrow> cm_key cm' = cm_key cm \<and> cm_labels cm' = cm_labels cm \<and> cm_namespace cm' = cm_namespace cm"
  by (auto simp: cm_step_def cm_key_def)

lemma evolves_refl: "config_maps k' = config_maps k \<Longrightarrow> prometheus_rules k' = prometheus_rules k \<Longrightarrow> evolves P k k'"
  by (simp add: evolves_def list_all2_refl cm_step_refl)

lemma evolves_read:
  "evolves P k0 k \<Longrightarrow> config_maps k' = config_maps k \<Longrightarrow> prometheus_rules k' = prometheus_rules k \<Longrightarrow> evolves P k0 k'"
  by (simp add: evolves_def)

lemma kube_call_frame:
  "api_call k = (f, k') \<Longrightarrow> config_maps k' = config_maps k \<and> prometheus_rules k' = prometheus_rules k \<and> updates k' = updates k"
  by (drule api_call_frame) auto

lemma getConfigMaps_frame:
  "getConfigMaps ns label k = (r, k') \<Longrightarrow>
     config_maps k' = config_maps k \<and> prometheus_rules k' = prometheus_rules k \<and> updates k' = updates k"
  by (auto simp: getConfigMaps_def list_ConfigMaps_def split: prod.splits option.splits sum.splits dest: kube_call_frame)

lemma merge_all_frame:
  "merge_all c ns rel acms rcms k = (r, k') \<Longrightarrow>
     config_maps k' = config_maps k \<and> prometheus_rules k' = prometheus_rules k \<and> updates k' = updates k"
  by (auto simp: merge_all_def mergePrometheusRules_def list_PrometheusRules_def
      split: prod.splits option.splits sum.splits dest: kube_call_frame)

lemma get_ConfigMap_frame:
  "get_ConfigMap key k = (r, k') \<Longrightarrow>
     config_maps k' = config_maps k \<and> prometheus_rules k' = prometheus_rules k \<and> updates k' = updates k \<and>
     (\<forall>cm. r = Inr cm \<longrightarrow> cm \<in> set (config_maps k) \<and> cm_key cm = key)"
  by (auto simp: get_ConfigMap_def split: prod.splits option.splits dest: kube_call_frame find_object_SomeD)

text \<open>Objects are told apart by namespace and name.\<close>

definition distinct_keys :: "kube \<Rightarrow> bool" where
  "distinct_keys k \<longleftrightarrow> distinct (map cm_key (config_maps k))"

lemma same_key: "distinct_keys k \<Longrightarrow> a \<in> set (config_maps k) \<Longrightarrow> b \<in> set (config_maps k) \<Longrightarrow> cm_key a = cm_key b \<Longrightarrow> a = b"
  by (auto simp: distinct_keys_def distinct_map inj_on_def)

lemma evolves_keys: "evolves P k k' \<Longrightarrow> map cm_key (config_maps k') = map cm_key (config_maps k)"
  unfolding evolves_def using list.rel_map(1) by (metis (mono_tags, lifting) cm_step_frame list.rel_eq list.rel_map(2) list.rel_mono_strong)

lemma update_ConfigMap_ok:
  "update_ConfigMap cm k = (None, k') \<Longrightarrow>
     config_maps k' = map (\<lambda>c. if cm_key c = cm_key cm then cm_bump cm else c) (config_maps k) \<and>
     prometheus_rules k' = prometheus_rules k"
  by (auto simp: update_ConfigMap_def split: prod.splits option.splits sum.splits
      dest: kube_call_frame dest!: cm_kind.update_ok(1))

lemma update_evolves:
  assumes "evolves P k0 k" "distinct_keys k0" "cm \<in> set (config_maps k0)" "P cm"
    and "update_ConfigMap (cm\<lparr>cm_data := d\<rparr>) k = (r, k')"
  shows "evolves P k0 k'"
proof -
  have k: "cm_key (cm\<lparr>cm_data := d\<rparr>) = cm_key cm" by (simp add: cm_key_def)
  show ?thesis
  proof (cases "r = None")
    case False
    then have "config_maps k' = config_maps k \<and> prometheus_rules k' = prometheus_rules k"
      using assms(5) by (auto simp: update_ConfigMap_def split: prod.splits option.splits sum.splits dest: kube_call_frame)
    then show ?thesis using evolves_read [OF assms(1)] by blast
  next
    case True
    note k' = update_ConfigMap_ok [OF assms(5) [unfolded True], unfolded k]
    have "list_all2 (cm_step P) (config_maps k0)
        (map (\<lambda>c. if cm_key c = cm_key cm then cm_bump (cm\<lparr>cm_data := d\<rparr>) else c) (config_maps k))"
      unfolding list_all2_map2
    proof (rule list.rel_mono_strong)
      show "list_all2 (cm_step P) (config_maps k0) (config_maps k)" using assms(1) by (simp add: evolves_def)
    next
      fix a b assume ab: "a \<in> set (config_maps k0)" "b \<in> set (config_maps k)" "cm_step P a b"
      show "cm_step P a (if cm_key b = cm_key cm then cm_bump (cm\<lparr>cm_data := d\<rparr>) else b)"
      proof (cases "cm_key b = cm_key cm")
        case True
        then have "a = cm" using same_key [OF assms(2) ab(1) assms(3)] cm_step_frame [OF ab(3)] by simp
        then show ?thesis using True assms(4) by (auto simp: cm_step_def cm_bump_def)
      qed (use ab(3) in simp)
    qed
    then show ?thesis using k' assms(1) by (simp add: evolves_def)
  qed
qed

lemma write_data_evolves:
  assumes "evolves P k0 k" "distinct_keys k0" "cm \<in> set (config_maps k0)" "generated cm \<Longrightarrow> P cm"
    and "write_data cm d k = (r, k')"
  shows "evolves P k0 k'"
  using assms(5) update_evolves [OF assms(1-3)] assms(1,4)
  by (auto simp: write_data_def generated_def split: if_splits)

lemma update_vmrules_evolves:
  assumes "evolves P k0 k" "distinct_keys k0" "set cms \<subseteq> set (config_maps k0)" "\<forall>cm \<in> set cms. generated cm \<longrightarrow> P cm"
    and "update_vmrules c R cms k = (r, k')"
  shows "evolves P k0 k'"
  using assms(1,3-5)
proof (induction cms arbitrary: k)
  case (Cons cm cms)
  obtain r1 k1 where u: "updateRecordVMRulesConfigMap c R cm k = (r1, k1)" by fastforce
  have "evolves P k0 k1"
    using u Cons.prems(1-3) write_data_evolves [OF Cons.prems(1) assms(2), of cm]
    by (auto simp: updateRecordVMRulesConfigMap_def updateConfigMap_def split: sum.splits)
  then show ?case using Cons u by (auto split: option.splits)
qed simp

lemma getConfigMaps_set:
  "getConfigMaps ns label k = (Inr cms, k') \<Longrightarrow>
     set cms = {cm \<in> set (config_maps k). map_of (cm_labels cm) label \<noteq> None \<and> (ns = [] \<or> cm_namespace cm = ns)}"
  by (auto simp: getConfigMaps_def list_ConfigMaps_def split: prod.splits option.splits sum.splits)

lemma write_outputs_evolves:
  assumes "distinct_keys k" "write_outputs c ns rel A R vmCMs k1 = (r, k')"
    and "config_maps k1 = config_maps k" "prometheus_rules k1 = prometheus_rules k"
    and "\<forall>cm \<in> set vmCMs. cm \<in> set (config_maps k) \<and> map_of (cm_labels cm) KofRecordVMRulesClusterNameLabel \<noteq> None"
  shows "evolves (is_output ns rel) k k'"
proof (cases "getAlertFiles c A")
  case (Inl e)
  then show ?thesis using assms by (auto simp: write_outputs_def intro: evolves_refl)
next
  case (Inr files)
  let ?key = "(ns, rel @ ''-promxy-rules'')"
  obtain f k2 where u: "updateConfigMap None ns (rel @ ''-promxy-rules'') files k1 = (f, k2)" by fastforce
  obtain g k3 where g: "get_ConfigMap ?key k1 = (g, k3)" by fastforce
  note frame = get_ConfigMap_frame [OF g]
  have e3: "evolves (is_output ns rel) k k3" using frame assms(3,4) by (auto intro: evolves_refl)
  have e2: "evolves (is_output ns rel) k k2"
  proof (cases g)
    case (Inl e)
    then show ?thesis using u g e3 by (simp add: updateConfigMap_def)
  next
    case (Inr cm)
    have "cm \<in> set (config_maps k)" "generated cm \<Longrightarrow> is_output ns rel cm"
      using frame assms(3) Inr by (auto simp: is_output_def)
    then show ?thesis using u g Inr write_data_evolves [OF e3 assms(1)] by (simp add: updateConfigMap_def)
  qed
  show ?thesis
  proof (cases f)
    case None
    have "update_vmrules c R vmCMs k2 = (r, k')" using assms(2) u Inr None by (simp add: write_outputs_def)
    with update_vmrules_evolves [OF e2 assms(1)] assms(5) show ?thesis by (fastforce simp: is_output_def)
  qed (use assms(2) u Inr e2 in \<open>simp add: write_outputs_def\<close>)
qed

text \<open>A run that reaches the output phase, or stops before it with an error.\<close>

lemma Reconcile_phases:
  assumes "Reconcile c e k = (r, k')"
  obtains (stopped) err where "r = Some err" "config_maps k' = config_maps k" "prometheus_rules k' = prometheus_rules k"
      "updates k' = updates k"
  | (outputs) ns rel k1 k2 k3 k4 alertCMs recordCMs vmCMs A R where
      "map_of e ''RELEASE_NAMESPACE'' = Some ns" "map_of e ''RELEASE_NAME'' = Some rel"
      "getConfigMaps ns KofAlertRulesClusterNameLabel k = (Inr alertCMs, k1)"
      "getConfigMaps ns KofRecordRulesClusterNameLabel k1 = (Inr recordCMs, k2)"
      "getConfigMaps [] KofRecordVMRulesClusterNameLabel k2 = (Inr vmCMs, k3)"
      "merge_all c ns rel alertCMs recordCMs k3 = (Inr (A, R), k4)"
      "write_outputs c ns rel A R vmCMs k4 = (r, k')"
  using assms unfolding Reconcile_def updateResultingConfigMaps_def
  by (auto split: option.splits prod.splits sum.splits dest!: getConfigMaps_frame merge_all_frame)

lemma Reconcile_evolves:
  assumes "Reconcile c e k = (r, k')" "distinct_keys k"
    and "map_of e ''RELEASE_NAMESPACE'' = Some ns" "map_of e ''RELEASE_NAME'' = Some rel"
  shows "evolves (is_output ns rel) k k'"
  using assms(1)
proof (cases rule: Reconcile_phases)
  case stopped
  then show ?thesis by (auto intro: evolves_refl)
next
  case (outputs ns' rel' k1 k2 k3 k4 alertCMs recordCMs vmCMs A R)
  have same: "ns' = ns" "rel' = rel" using outputs(1,2) assms(3,4) by simp_all
  note f = getConfigMaps_frame [OF outputs(3)] getConfigMaps_frame [OF outputs(4)]
    getConfigMaps_frame [OF outputs(5)] merge_all_frame [OF outputs(6)]
  show ?thesis
    by (rule write_outputs_evolves [OF assms(2) outputs(7) [unfolded same]])
      (use f getConfigMaps_set [OF outputs(5)] in auto)
qed

section \<open>A second reconciliation\<close>

text \<open>An object that needs no write: the controller does not own it, or its data are as wanted.\<close>

definition settled :: "string gomap \<Rightarrow> config_map \<Rightarrow> bool" where
  "settled d cm \<longleftrightarrow> maps_Equal (cm_data cm) d \<or> \<not> generated cm"

lemma settled_no_write: "settled d cm \<Longrightarrow> write_data cm d k = (None, k)"
  by (auto simp: settled_def write_data_def generated_def)

text \<open>A successful write settles its object and leaves the others alone.\<close>

definition settles :: "(config_map \<Rightarrow> bool) \<Rightarrow> (string \<times> string) set \<Rightarrow> kube \<Rightarrow> kube \<Rightarrow> bool" where
  "settles S keys k k' \<longleftrightarrow>
     (\<forall>x \<in> set (config_maps k'). if cm_key x \<in> keys then S x else x \<in> set (config_maps k)) \<and>
     (\<forall>x \<in> set (config_maps k). cm_key x \<notin> keys \<longrightarrow> x \<in> set (config_maps k'))"

lemma settles_cong: "config_maps k1 = config_maps k \<Longrightarrow> settles S keys k1 k' = settles S keys k k'"
  by (simp add: settles_def)

lemma settles_trans:
  assumes "settles S A k k1" "settles T B k1 k2" "\<And>x. S x \<Longrightarrow> T x"
  shows "settles T (A \<union> B) k k2"
  using assms unfolding settles_def Un_iff by (metis (no_types))

lemma write_data_settles:
  assumes "distinct_keys k" "cm \<in> set (config_maps k)" "wf_map d" "write_data cm d k = (None, k')"
  shows "settles (\<lambda>x. settled d x \<and> cm_labels x = cm_labels cm) {cm_key cm} k k'"
proof (cases "settled d cm")
  case True
  then have "k' = k" using settled_no_write [OF True] assms(4) by simp
  then show ?thesis using True same_key [OF assms(1) _ assms(2)] by (auto simp: settles_def)
next
  case False
  let ?cm = "cm\<lparr>cm_data := d\<rparr>"
  have k: "cm_key ?cm = cm_key cm" "cm_key (cm_bump ?cm) = cm_key cm" by (simp_all add: cm_key_def cm_bump_def)
  have "update_ConfigMap ?cm k = (None, k')" using False assms(4) by (simp add: settled_def write_data_def generated_def)
  note k' = update_ConfigMap_ok [OF this]
  have "settled d (cm_bump ?cm) \<and> cm_labels (cm_bump ?cm) = cm_labels cm"
    by (simp add: settled_def maps_Equal_refl assms(3) cm_bump_def)
  then show ?thesis using k' by (auto simp: settles_def k)
qed

lemma distinct_keys_evolves: "evolves P k k' \<Longrightarrow> distinct_keys k' = distinct_keys k"
  by (simp add: distinct_keys_def evolves_keys)

lemma write_data_keys:
  assumes "write_data cm d k = (r, k')" "distinct_keys k" "cm \<in> set (config_maps k)"
  shows "distinct_keys k'"
  using write_data_evolves [OF evolves_refl [OF refl refl, of "\<lambda>_. True"] assms(2,3) TrueI assms(1)] assms(2)
    distinct_keys_evolves by blast

text \<open>The data that the record rules give for one ConfigMap.\<close>

definition vm_settled :: "rules_codec \<Rightarrow> cluster_records \<Rightarrow> config_map \<Rightarrow> bool" where
  "vm_settled c R cm \<longleftrightarrow>
     (\<exists>y. marshal_vmrules c (record_groups R (get_str (cm_labels cm) KofRecordVMRulesClusterNameLabel)) = Inr y \<and>
        settled [(''values'', y)] cm)"

lemma vm_settled_no_write: "vm_settled c R cm \<Longrightarrow> updateRecordVMRulesConfigMap c R cm k = (None, k)"
  by (auto simp: vm_settled_def updateRecordVMRulesConfigMap_def updateConfigMap_def settled_no_write)

lemma update_vmrules_settled: "\<forall>cm \<in> set cms. vm_settled c R cm \<Longrightarrow> update_vmrules c R cms k = (None, k)"
  by (induction cms) (simp_all add: vm_settled_no_write)

lemma update_vmrules_settles:
  assumes "distinct_keys k" "set cms \<subseteq> set (config_maps k)" "distinct (map cm_key cms)"
    and "update_vmrules c R cms k = (None, k')"
  shows "settles (vm_settled c R) (cm_key ` set cms) k k'"
  using assms
proof (induction cms arbitrary: k)
  case (Cons cm cms)
  obtain y where y: "marshal_vmrules c (record_groups R (get_str (cm_labels cm) KofRecordVMRulesClusterNameLabel)) = Inr y"
    using Cons.prems(4) by (auto simp: updateRecordVMRulesConfigMap_def split: sum.splits)
  obtain k1 where w: "write_data cm [(''values'', y)] k = (None, k1)" and rest: "update_vmrules c R cms k1 = (None, k')"
    using Cons.prems(4) y
    by (auto simp: updateRecordVMRulesConfigMap_def updateConfigMap_def split: prod.splits option.splits)
  have cm: "cm \<in> set (config_maps k)" using Cons.prems(2) by simp
  note one = write_data_settles [OF Cons.prems(1) cm _ w, simplified]
  have sub: "set cms \<subseteq> set (config_maps k1)"
  proof
    fix x assume x: "x \<in> set cms"
    then have "cm_key x \<noteq> cm_key cm" using Cons.prems(3) by (metis distinct.simps(2) image_eqI list.map(2) set_map)
    then show "x \<in> set (config_maps k1)" using one x Cons.prems(2) by (auto simp: settles_def)
  qed
  have "settles (vm_settled c R) (cm_key ` set cms) k1 k'"
    using Cons.IH [OF write_data_keys [OF w Cons.prems(1) cm] sub] Cons.prems(3) rest by simp
  moreover have "vm_settled c R x" if "settled [(''values'', y)] x \<and> cm_labels x = cm_labels cm" for x
    using that y by (simp add: vm_settled_def)
  ultimately show ?case using settles_trans [OF one] by fastforce
qed (simp add: settles_def)

text \<open>Reads without faults, on a store whose input objects did not change.\<close>

lemma filter_unchanged:
  assumes "list_all2 (cm_step Q) xs ys" "\<forall>x \<in> set xs. Q x \<longrightarrow> \<not> p x"
    and "\<And>x y. cm_labels x = cm_labels y \<Longrightarrow> cm_namespace x = cm_namespace y \<Longrightarrow> p x = p y"
  shows "filter p ys = filter p xs"
  using assms(1,2)
proof (induction rule: list_all2_induct)
  case (Cons x xs y ys)
  have "p y = p x" by (rule assms(3)) (use cm_step_frame [OF Cons.hyps(1)] in simp_all)
  then show ?case using Cons by (auto simp: cm_step_def)
qed simp

lemma list_ConfigMaps_same:
  assumes "evolves Q k K" "api_faults K = []" "getConfigMaps ns label k0 = (Inr cms, k1)" "config_maps k0 = config_maps k"
    and "\<forall>cm \<in> set (config_maps k). Q cm \<longrightarrow> map_of (cm_labels cm) label = None"
  shows "getConfigMaps ns label K = (Inr cms, K)"
proof -
  let ?p = "\<lambda>cm. map_of (cm_labels cm) label \<noteq> None \<and> (ns = [] \<or> cm_namespace cm = ns)"
  have "filter ?p (config_maps K) = filter ?p (config_maps k)"
    by (rule filter_unchanged) (use assms(1,5) in \<open>auto simp: evolves_def\<close>)
  then show ?thesis using assms(2-4)
    by (auto simp: getConfigMaps_def list_ConfigMaps_def api_call_def split: prod.splits option.splits list.splits)
qed

lemma merge_all_same:
  "merge_all c ns rel acms rcms k = (Inr x, k') \<Longrightarrow> prometheus_rules K = prometheus_rules k \<Longrightarrow> api_faults K = [] \<Longrightarrow>
     merge_all c ns rel acms rcms K = (Inr x, K)"
  by (auto simp: merge_all_def mergePrometheusRules_def list_PrometheusRules_def api_call_def
      split: prod.splits option.splits sum.splits list.splits)

lemma alert_files_wf: "alert_files c gs files = Inr files' \<Longrightarrow> wf_map files \<Longrightarrow> wf_map files'"
  by (induction c gs files rule: alert_files.induct) (auto split: sum.splits)

lemma update_promxy_settles:
  assumes "updateConfigMap None ns name d k = (None, k')" "distinct_keys k" "wf_map d"
  obtains cm where "cm \<in> set (config_maps k)" "cm_key cm = (ns, name)" "settles (settled d) {(ns, name)} k k'" "distinct_keys k'"
proof -
  obtain cm k1 where g: "get_ConfigMap (ns, name) k = (Inr cm, k1)" and w: "write_data cm d k1 = (None, k')"
    using assms(1) by (auto simp: updateConfigMap_def split: prod.splits sum.splits)
  note f = get_ConfigMap_frame [OF g]
  have k1: "distinct_keys k1" "cm \<in> set (config_maps k1)" using f assms(2) by (simp_all add: distinct_keys_def)
  have "settles (settled d) {(ns, name)} k k'"
    using write_data_settles [OF k1 assms(3) w] f by (auto simp: settles_def)
  then show ?thesis using that f write_data_keys [OF w k1] by blast
qed

lemma updateConfigMap_settled:
  assumes "\<forall>x \<in> set (config_maps K). cm_key x = (ns, name) \<longrightarrow> settled d x" "x \<in> set (config_maps K)" "cm_key x = (ns, name)"
    and "api_faults K = []"
  shows "updateConfigMap None ns name d K = (None, K)"
proof -
  obtain y where "find_object cm_key (ns, name) (config_maps K) = Some y"
    using assms(2,3) by (cases "find_object cm_key (ns, name) (config_maps K)") (force simp: find_object_None)+
  moreover from this have "settled d y" using assms(1) by (auto dest: find_object_SomeD)
  ultimately show ?thesis using assms(4)
    by (simp add: updateConfigMap_def get_ConfigMap_def api_call_def settled_no_write)
qed

text \<open>Input ConfigMaps, the ConfigMap of promxy and those of the regional clusters are different objects.\<close>

definition separate_roles :: "string \<Rightarrow> string \<Rightarrow> kube \<Rightarrow> bool" where
  "separate_roles namespace releaseName k \<longleftrightarrow>
     (\<forall>cm \<in> set (config_maps k).
        (is_output namespace releaseName cm \<longrightarrow>
           map_of (cm_labels cm) KofAlertRulesClusterNameLabel = None \<and>
           map_of (cm_labels cm) KofRecordRulesClusterNameLabel = None) \<and>
        (cm_key cm = (namespace, releaseName @ ''-promxy-rules'') \<longrightarrow>
           map_of (cm_labels cm) KofRecordVMRulesClusterNameLabel = None))"

lemma write_outputs_again:
  assumes "write_outputs c ns rel A R vmCMs k4 = (None, k')" "distinct_keys k" "config_maps k4 = config_maps k"
    and ev: "evolves Q k K" "config_maps K = config_maps k'" "api_faults K = []" and sep: "separate_roles ns rel k"
    and vm: "set vmCMs = {cm \<in> set (config_maps k). map_of (cm_labels cm) KofRecordVMRulesClusterNameLabel \<noteq> None}"
      "distinct (map cm_key vmCMs)"
    and vm': "set vmCMs' = {cm \<in> set (config_maps K). map_of (cm_labels cm) KofRecordVMRulesClusterNameLabel \<noteq> None}"
  shows "write_outputs c ns rel A R vmCMs' K = (None, K)"
proof -
  let ?name = "rel @ ''-promxy-rules''"
  have d4: "distinct_keys k4" using assms(2,3) by (simp add: distinct_keys_def)
  obtain files k5 where files: "getAlertFiles c A = Inr files"
    and p: "updateConfigMap None ns ?name files k4 = (None, k5)" and v: "update_vmrules c R vmCMs k5 = (None, k')"
    using assms(1) by (auto simp: write_outputs_def split: sum.splits prod.splits option.splits)
  have "wf_map files" using files alert_files_wf by (fastforce simp: getAlertFiles_def)
  then obtain cm where cm: "cm \<in> set (config_maps k4)" "cm_key cm = (ns, ?name)"
    and s1: "settles (settled files) {(ns, ?name)} k4 k5" and d5: "distinct_keys k5"
    using update_promxy_settles [OF p d4] by blast
  have not_vm: "(ns, ?name) \<notin> cm_key ` set vmCMs" using sep vm(1) by (auto simp: separate_roles_def)
  have "x \<in> set (config_maps k5)" if "x \<in> set vmCMs" for x
    using s1 that vm(1) not_vm assms(3) by (force simp: settles_def)
  then have "set vmCMs \<subseteq> set (config_maps k5)" by blast
  then have s2: "settles (vm_settled c R) (cm_key ` set vmCMs) k5 k'"
    by (rule update_vmrules_settles [OF d5 _ vm(2) v])
  have orig: "\<exists>x0 \<in> set (config_maps k). cm_key x0 = cm_key x \<and> cm_labels x0 = cm_labels x" if "x \<in> set (config_maps K)" for x
    using that ev(1) unfolding evolves_def by (metis cm_step_frame in_set_conv_nth list_all2_conv_all_nth)
  have "\<forall>x \<in> set vmCMs'. vm_settled c R x"
  proof
    fix x assume x: "x \<in> set vmCMs'"
    then obtain x0 where "x0 \<in> set (config_maps k)" "cm_key x0 = cm_key x" "cm_labels x0 = cm_labels x"
      using orig vm' by blast
    then have "cm_key x \<in> cm_key ` set vmCMs" using x vm vm' by (metis (mono_tags, lifting) image_eqI mem_Collect_eq)
    then show "vm_settled c R x" using s2 x vm' ev(2) by (auto simp: settles_def)
  qed
  then have vm_ok: "update_vmrules c R vmCMs' K = (None, K)" by (rule update_vmrules_settled)
  have "settled files x" if x: "x \<in> set (config_maps K)" "cm_key x = (ns, ?name)" for x
  proof -
    have "x \<in> set (config_maps k5)" using s2 x not_vm unfolding settles_def ev(2) by metis
    then show ?thesis using s1 x(2) by (simp add: settles_def)
  qed
  moreover obtain x where "x \<in> set (config_maps K)" "cm_key x = (ns, ?name)"
    using cm evolves_keys [OF ev(1)] assms(3) by (metis (no_types, lifting) image_iff set_map)
  ultimately have "updateConfigMap None ns ?name files K = (None, K)" using updateConfigMap_settled ev(3) by blast
  then show ?thesis using files vm_ok by (simp add: write_outputs_def)
qed

lemma getConfigMaps_distinct:
  "getConfigMaps ns label k = (Inr cms, k') \<Longrightarrow> distinct_keys k \<Longrightarrow> distinct (map cm_key cms)"
  by (auto simp: getConfigMaps_def list_ConfigMaps_def distinct_keys_def distinct_map inj_on_def
      split: prod.splits option.splits sum.splits)

lemma getConfigMaps_no_faults: "api_faults K = [] \<Longrightarrow> \<exists>cms. getConfigMaps ns label K = (Inr cms, K)"
  by (simp add: getConfigMaps_def list_ConfigMaps_def api_call_def)

section \<open>Record rules\<close>

definition record_at :: "cluster_records \<Rightarrow> string \<Rightarrow> string \<Rightarrow> rule list option" where
  "record_at R cluster grp = map_of (lookup_map R cluster) grp"

text \<open>The rules that the last ConfigMap of a cluster with the given group has for it.\<close>

fun last_records :: "rules_codec \<Rightarrow> config_map list \<Rightarrow> string \<Rightarrow> string \<Rightarrow> rule list option" where
  "last_records c [] cluster grp = None"
| "last_records c (cm # cms) cluster grp =
     (case last_records c cms cluster grp of
        Some rs \<Rightarrow> Some rs
      | None \<Rightarrow>
          if get_str (cm_labels cm) KofRecordRulesClusterNameLabel \<noteq> cluster then None
          else (case map_of (cm_data cm) grp of
              None \<Rightarrow> None
            | Some y \<Rightarrow> (case yaml_records c y of Inl _ \<Rightarrow> None | Inr rs \<Rightarrow> Some rs)))"

lemma record_entries_lookup:
  assumes "record_entries c entries groups = Inr groups'" "wf_map entries"
  shows "map_of groups' g =
    (case map_of entries g of None \<Rightarrow> map_of groups g
     | Some y \<Rightarrow> (case yaml_records c y of Inl _ \<Rightarrow> None | Inr rs \<Rightarrow> Some rs))"
  using assms
proof (induction c entries groups rule: record_entries.induct)
  case (2 c g0 y entries groups)
  obtain rs where rs: "yaml_records c y = Inr rs" "record_entries c entries (map_set g0 rs groups) = Inr groups'"
    using "2.prems"(1) by (auto split: sum.splits)
  have "map_of entries g0 = None" using "2.prems"(2) by (simp add: map_of_eq_None_iff)
  then show ?case using "2.IH" [OF rs] "2.prems"(2) rs(1) by (auto split: option.splits)
qed simp

lemma record_entries_decoded:
  "record_entries c entries gs = Inr groups \<Longrightarrow> map_of entries g = Some y \<Longrightarrow> yaml_records c y \<noteq> Inl e"
  by (induction c entries gs rule: record_entries.induct) (auto split: sum.splits if_splits)

lemma mergeRecordConfigMaps_lookup:
  "mergeRecordConfigMaps c cms R = Inr R' \<Longrightarrow> \<forall>cm \<in> set cms. wf_map (cm_data cm) \<Longrightarrow>
     record_at R' cl g = (case last_records c cms cl g of Some rs \<Rightarrow> Some rs | None \<Rightarrow> record_at R cl g)"
proof (induction cms arbitrary: R)
  case (Cons cm cms)
  let ?cl = "get_str (cm_labels cm) KofRecordRulesClusterNameLabel"
  obtain groups where g: "record_entries c (cm_data cm) (lookup_map R ?cl) = Inr groups"
    "mergeRecordConfigMaps c cms (map_set ?cl groups R) = Inr R'"
    using Cons.prems(1) by (auto simp: Let_def split: sum.splits)
  have wf: "wf_map (cm_data cm)" using Cons.prems(2) by simp
  have "record_at (map_set ?cl groups R) cl g =
      (if cl = ?cl then (case map_of (cm_data cm) g of None \<Rightarrow> record_at R cl g
         | Some y \<Rightarrow> (case yaml_records c y of Inl _ \<Rightarrow> None | Inr rs \<Rightarrow> Some rs)) else record_at R cl g)"
    unfolding record_at_def by (auto simp: lookup_map_set record_entries_lookup [OF g(1) wf])
  then show ?case using Cons.IH [OF g(2)] Cons.prems(2) record_entries_decoded [OF g(1)]
    by (auto split: option.splits sum.splits if_splits)
qed (simp split: option.split)

lemma record_entries_wf: "record_entries c entries gs = Inr groups \<Longrightarrow> wf_map gs \<Longrightarrow> wf_map groups"
  by (induction c entries gs rule: record_entries.induct) (auto split: sum.splits)

lemma mergeRecordConfigMaps_wf:
  "mergeRecordConfigMaps c cms R = Inr R' \<Longrightarrow> (\<And>cl. wf_map (lookup_map R cl)) \<Longrightarrow> wf_map (lookup_map R' cl)"
proof (induction c cms R arbitrary: R' cl rule: mergeRecordConfigMaps.induct)
  case (2 c cm cms R)
  obtain groups where g: "record_entries c (cm_data cm) (lookup_map R (get_str (cm_labels cm) KofRecordRulesClusterNameLabel)) = Inr groups"
    "mergeRecordConfigMaps c cms (map_set (get_str (cm_labels cm) KofRecordRulesClusterNameLabel) groups R) = Inr R'"
    using "2.prems"(1) by (auto simp: Let_def split: sum.splits)
  show ?case by (rule "2.IH" [OF refl g])
      (use record_entries_wf [OF g(1) "2.prems"(2)] "2.prems"(2) in \<open>simp add: lookup_map_set\<close>)
qed simp

section \<open>Properties\<close>

text \<open>
  C17: Merging the alert ConfigMaps refines the composition of their layers. For each cluster, group
  and rule name, the merged rule is the one obtained by applying the ConfigMaps in order, each of
  which changes only the rules it names, and patches the rule of its own cluster or else the default
  rule.
\<close>

theorem merged_alerts_are_layers:
  assumes "mergeAlertConfigMaps c cms A = Inr A'" "\<forall>cm \<in> set cms. wf_map (cm_data cm)" "wf_codec c"
  shows "alert_at A' = fold (layer c) cms (alert_at A)"
  using assms by (rule mergeAlertConfigMaps_layers)

text \<open>
  C16: Whatever a reconciliation meets, API errors included, it changes no ConfigMap except those
  marked as generated that are the rules of promxy or belong to a regional cluster, and of these only
  the data (with a later resource version); it never creates or deletes one.
\<close>

theorem reconcile_changes_outputs_only:
  assumes "distinct_keys k" "map_of e ''RELEASE_NAMESPACE'' = Some ns" "map_of e ''RELEASE_NAME'' = Some rel"
  shows "evolves (is_output ns rel) k (snd (Reconcile c e k))"
  using Reconcile_evolves [OF _ assms] by (metis prod.collapse)

text \<open>
  Reconciliation is idempotent. After one that returned without an error, a second one on the
  resulting store (no API call failing) succeeds and leaves the store as it is: no update is sent, so
  the controller does not trigger itself.
\<close>

theorem second_reconcile_writes_nothing:
  assumes "Reconcile c e k = (None, k')" "distinct_keys k" "separate_roles ns rel k"
    and "map_of e ''RELEASE_NAMESPACE'' = Some ns" "map_of e ''RELEASE_NAME'' = Some rel"
  shows "Reconcile c e (k'\<lparr>api_faults := []\<rparr>) = (None, k'\<lparr>api_faults := []\<rparr>)"
  using assms(1)
proof (cases rule: Reconcile_phases)
  case (outputs ns' rel' k1 k2 k3 k4 alertCMs recordCMs vmCMs A R)
  let ?K = "k'\<lparr>api_faults := []\<rparr>"
  have same: "ns' = ns" "rel' = rel" using outputs(1,2) assms(4,5) by simp_all
  note f = getConfigMaps_frame [OF outputs(3)] getConfigMaps_frame [OF outputs(4)]
    getConfigMaps_frame [OF outputs(5)] merge_all_frame [OF outputs(6)]
  have ev: "evolves (is_output ns rel) k ?K"
    using Reconcile_evolves [OF assms(1,2,4,5)] by (rule evolves_read) simp_all
  have sep: "\<forall>cm \<in> set (config_maps k). is_output ns rel cm \<longrightarrow>
      map_of (cm_labels cm) KofAlertRulesClusterNameLabel = None \<and> map_of (cm_labels cm) KofRecordRulesClusterNameLabel = None"
    using assms(3) by (simp add: separate_roles_def)
  have alert: "getConfigMaps ns KofAlertRulesClusterNameLabel ?K = (Inr alertCMs, ?K)"
    by (rule list_ConfigMaps_same [OF ev _ outputs(3) [unfolded same]]) (use sep in simp_all)
  have records: "getConfigMaps ns KofRecordRulesClusterNameLabel ?K = (Inr recordCMs, ?K)"
    by (rule list_ConfigMaps_same [OF ev _ outputs(4) [unfolded same]]) (use sep f in simp_all)
  obtain vmCMs' where vm': "getConfigMaps [] KofRecordVMRulesClusterNameLabel ?K = (Inr vmCMs', ?K)"
    using getConfigMaps_no_faults [of ?K] by auto
  have merged: "merge_all c ns rel alertCMs recordCMs ?K = (Inr (A, R), ?K)"
    by (rule merge_all_same [OF outputs(6) [unfolded same]]) (use ev f in \<open>simp_all add: evolves_def\<close>)
  have "write_outputs c ns rel A R vmCMs' ?K = (None, ?K)"
    by (rule write_outputs_again [OF outputs(7) [unfolded same] assms(2) _ ev _ _ assms(3)])
      (use f getConfigMaps_set [OF outputs(5)] getConfigMaps_set [OF vm'] getConfigMaps_distinct [OF outputs(5)] assms(2)
        in \<open>simp_all add: distinct_keys_def\<close>)
  then show ?thesis using alert records vm' merged assms(4,5) by (simp add: Reconcile_def updateResultingConfigMaps_def)
qed simp

text \<open>
  The record rules of a regional cluster are, group by group, those of the last ConfigMap for
  that cluster that has the group; else what the last default ConfigMap with the group says; else
  what the PrometheusRules say.
\<close>

theorem cluster_records_override_defaults:
  assumes "mergeRecordConfigMaps c cms [(DefaultClusterName, defaults)] = Inr R" "\<forall>cm \<in> set cms. wf_map (cm_data cm)"
    and "wf_map defaults" "cl \<noteq> DefaultClusterName"
  shows "map_of (record_groups R cl) g =
    (case last_records c cms cl g of
       Some rs \<Rightarrow> Some rs
     | None \<Rightarrow> (case last_records c cms DefaultClusterName g of Some rs \<Rightarrow> Some rs | None \<Rightarrow> map_of defaults g))"
proof -
  have wf: "wf_map (lookup_map R x)" for x
    by (rule mergeRecordConfigMaps_wf [OF assms(1)]) (simp add: lookup_map_def assms(3))
  have "map_of (record_groups R cl) g =
      (case record_at R cl g of Some rs \<Rightarrow> Some rs | None \<Rightarrow> record_at R DefaultClusterName g)"
    unfolding record_at_def using wf by (simp add: record_groups_def map_of_map_copy map_add_def)
  moreover have "record_at [(DefaultClusterName, defaults)] cl g = None"
      "record_at [(DefaultClusterName, defaults)] DefaultClusterName g = map_of defaults g"
    using assms(4) by (simp_all add: record_at_def lookup_map_def)
  ultimately show ?thesis by (simp add: mergeRecordConfigMaps_lookup [OF assms(1,2)] split: option.split)
qed

section \<open>Examples\<close>

definition ex_rule :: rule where
  "ex_rule = \<lparr>RRecord = [], RAlert = ''Down'', RExpr = \<lparr>IType = 1, IntVal = 0, StrVal = ''up == 0''\<rparr>, RFor = Some ''5m'',
     RKeepFiringFor = None, RLabels = None, RAnnotations = None\<rparr>"

definition ex_codec :: rules_codec where
  "ex_codec = \<lparr>yaml_alerts = (\<lambda>y. Inr [(''Down'', ex_rule\<lparr>RFor := Some y\<rparr>)]), yaml_records = (\<lambda>y. Inr [ex_rule\<lparr>RRecord := y\<rparr>]),
     marshal_group = (\<lambda>g. Inr (GName g)), marshal_vmrules = (\<lambda>gs. Inr (concat (map fst gs)))\<rparr>"

definition ex_cm :: "string \<Rightarrow> string gomap \<Rightarrow> string gomap \<Rightarrow> config_map" where
  "ex_cm name lbls data = \<lparr>cm_namespace = ''kof'', cm_name = name, cm_labels = lbls, cm_data = data, cm_owners = [], cm_uid = [], cm_version = 1\<rparr>"

definition ex_alert_cms :: "config_map list" where
  "ex_alert_cms =
     [ex_cm ''alerts'' [(KofAlertRulesClusterNameLabel, [])] [(''node'', ''1m'')],
      ex_cm ''alerts-c1'' [(KofAlertRulesClusterNameLabel, ''c1'')] [(''node'', ''9m'')]]"

definition ex_record_cms :: "config_map list" where
  "ex_record_cms =
     [ex_cm ''records'' [(KofRecordRulesClusterNameLabel, [])] [(''cpu'', ''d'')],
      ex_cm ''records-c1'' [(KofRecordRulesClusterNameLabel, ''c1'')] [(''cpu'', ''s'')]]"

definition ex_kube :: kube where
  "ex_kube = \<lparr>api_faults = [], config_maps = ex_alert_cms @ ex_record_cms @
       [ex_cm ''kof-promxy-rules'' [(KofGeneratedLabel, ''true'')] [],
        ex_cm ''vmrules-c1'' [(KofRecordVMRulesClusterNameLabel, ''c1''), (KofGeneratedLabel, ''true'')] []],
     prometheus_rules = [], updates = []\<rparr>"

definition ex_env :: environ where
  "ex_env = [(''RELEASE_NAMESPACE'', ''kof''), (''RELEASE_NAME'', ''kof'')]"

lemma ex_run:
  "fst (Reconcile ex_codec ex_env ex_kube) = None"
  "updates (snd (Reconcile ex_codec ex_env ex_kube)) = [(''kof'', ''kof-promxy-rules''), (''kof'', ''vmrules-c1'')]"
  "distinct_keys ex_kube"
  "separate_roles ''kof'' ''kof'' ex_kube"
  "map_of ex_env ''RELEASE_NAMESPACE'' = Some ''kof''" "map_of ex_env ''RELEASE_NAME'' = Some ''kof''"
  by code_simp+

theorem merged_alerts_are_layers_witness:
  "\<exists>A. mergeAlertConfigMaps ex_codec ex_alert_cms [([], [])] = Inr A \<and>
     map_option RFor (alert_at A ''c1'' ''node'' ''Down'') = Some (Some ''9m'') \<and>
     alert_at A = fold (layer ex_codec) ex_alert_cms (alert_at [([], [])])"
proof -
  let ?m = "mergeAlertConfigMaps ex_codec ex_alert_cms [([], [])]"
  have ok: "isl ?m = False" "map_option RFor (alert_at (projr ?m) ''c1'' ''node'' ''Down'') = Some (Some ''9m'')"
      "\<forall>cm \<in> set ex_alert_cms. wf_map (cm_data cm)"
    by code_simp+
  have "?m = Inr (projr ?m)" using ok(1) by (cases ?m) simp_all
  moreover have "wf_codec ex_codec" by (auto simp: wf_codec_def ex_codec_def)
  ultimately show ?thesis using merged_alerts_are_layers [OF _ ok(3), of ex_codec "[([], [])]" "projr ?m"] ok(2) by blast
qed

theorem reconcile_changes_outputs_only_witness:
  "evolves (is_output ''kof'' ''kof'') ex_kube (snd (Reconcile ex_codec ex_env ex_kube)) \<and>
     updates (snd (Reconcile ex_codec ex_env ex_kube)) \<noteq> []"
  using reconcile_changes_outputs_only [OF ex_run(3,5,6)] ex_run(2) by simp

theorem second_reconcile_writes_nothing_witness:
  "\<exists>k'. Reconcile ex_codec ex_env ex_kube = (None, k') \<and> length (updates k') = 2 \<and>
     Reconcile ex_codec ex_env (k'\<lparr>api_faults := []\<rparr>) = (None, k'\<lparr>api_faults := []\<rparr>)"
proof -
  let ?k = "snd (Reconcile ex_codec ex_env ex_kube)"
  have "Reconcile ex_codec ex_env ex_kube = (None, ?k)" using ex_run(1) by (metis prod.collapse)
  with second_reconcile_writes_nothing [OF this ex_run(3-6)] ex_run(2) show ?thesis by auto
qed

theorem cluster_records_override_defaults_witness:
  "\<exists>R. mergeRecordConfigMaps ex_codec ex_record_cms [(DefaultClusterName, [])] = Inr R \<and>
     map_of (record_groups R ''c1'') ''cpu'' = Some [ex_rule\<lparr>RRecord := ''s''\<rparr>] \<and>
     map_of (record_groups R ''c2'') ''cpu'' = Some [ex_rule\<lparr>RRecord := ''d''\<rparr>]"
proof -
  let ?m = "mergeRecordConfigMaps ex_codec ex_record_cms [(DefaultClusterName, [])]"
  have ok: "isl ?m = False" "\<forall>cm \<in> set ex_record_cms. wf_map (cm_data cm)"
      "last_records ex_codec ex_record_cms ''c1'' ''cpu'' = Some [ex_rule\<lparr>RRecord := ''s''\<rparr>]"
      "last_records ex_codec ex_record_cms ''c2'' ''cpu'' = None"
      "last_records ex_codec ex_record_cms DefaultClusterName ''cpu'' = Some [ex_rule\<lparr>RRecord := ''d''\<rparr>]"
    by code_simp+
  have m: "?m = Inr (projr ?m)" using ok(1) by (cases ?m) simp_all
  note over = cluster_records_override_defaults [OF m ok(2) wf_map_Nil]
  have "map_of (record_groups (projr ?m) ''c1'') ''cpu'' = Some [ex_rule\<lparr>RRecord := ''s''\<rparr>]"
    using over [of "''c1''" "''cpu''"] ok(3) by (simp add: DefaultClusterName_def)
  moreover have "map_of (record_groups (projr ?m) ''c2'') ''cpu'' = Some [ex_rule\<lparr>RRecord := ''d''\<rparr>]"
    using over [of "''c2''" "''cpu''"] ok(4,5) by (simp add: DefaultClusterName_def)
  ultimately show ?thesis using m by blast
qed

text \<open>
  The label \<open>alertgroup\<close> is missing from a rule without labels: the loop sets the new label map on a
  copy of the rule only.
\<close>

lemma alertgroup_label:
  "r \<in> set (GRules (alert_group g rules)) \<Longrightarrow>
     (case RLabels r of None \<Rightarrow> r \<in> snd ` set rules | Some l \<Rightarrow> map_of l ''alertgroup'' = Some g)"
  by (force simp: alert_group_def label_rule_def split: option.splits)

lemma no_alertgroup_without_labels:
  "GRules (alert_group ''node'' [(''Down'', ex_rule)]) = [ex_rule]" "RLabels ex_rule = None"
  by (simp_all add: alert_group_def label_rule_def ex_rule_def)

end
