(* ===== verification/Storage_Run.thy ===== *)
theory Storage_Run
  imports Storage_Connection
begin

text \<open>
  What the controller for storage connections guarantees: a successful reconciliation leaves the
  cluster configured with the nodes of exactly the active connections with its labels, in one
  order for all arguments; other arguments are kept; the finalizer of a connection goes only when the
  cluster is gone or configured without it.
\<close>

section \<open>The arguments as columns\<close>

definition active :: "string \<Rightarrow> string \<Rightarrow> storage_api \<Rightarrow> storage_connection list" where
  "active clusterName clusterKind k =
     filter (\<lambda>c. map_of (conn_labels c) ClusterNameLabelKey = Some clusterName \<and>
       map_of (conn_labels c) ClusterKindLabelKey = Some clusterKind \<and> \<not> conn_deleting c) (connections k)"

text \<open>One column of the arguments: what a connection contributes to it.\<close>

definition columns :: "(string \<times> (storage_connection \<Rightarrow> string)) list" where
  "columns =
     [(storageNodeArg, \<lambda>c. Address (TargetStorageNode c)),
      (storageNodeUsernameFileArg, \<lambda>c. let s = NodeSecret (TargetStorageNode c) in secretKeyPath (SecretName s) (UsernameKey s)),
      (storageNodePasswordFileArg, \<lambda>c. let s = NodeSecret (TargetStorageNode c) in secretKeyPath (SecretName s) (PasswordKey s)),
      (storageNodeTLSArg, \<lambda>c. FormatBool (TlsEnabled (TargetStorageNode c))),
      (storageNodeTLSInsecureSkipVerify, \<lambda>c. FormatBool (TlsInsecureSkipVerify (TargetStorageNode c)))]"

definition column_arg :: "(storage_connection \<Rightarrow> string) \<Rightarrow> storage_connection list \<Rightarrow> string option" where
  "column_arg f conns = (if \<exists>c \<in> set conns. f c \<noteq> [] then Some (join '','' (map f conns)) else None)"

text \<open>The arguments wanted for a list of connections, given the arguments before.\<close>

definition wanted_args :: "string gomap \<Rightarrow> storage_connection list \<Rightarrow> string \<Rightarrow> string option" where
  "wanted_args old conns arg =
     (case map_of columns arg of Some f \<Rightarrow> column_arg f conns | None \<Rightarrow> map_of old arg)"

definition wanted_secrets :: "storage_connection list \<Rightarrow> string list" where
  "wanted_secrets conns = sort (remdups (filter (\<lambda>s. s \<noteq> []) (map (\<lambda>c. SecretName (NodeSecret (TargetStorageNode c))) conns)))"

lemma arg_names [simp]:
  "storageNodeUsernameFileArg \<noteq> storageNodeArg" "storageNodePasswordFileArg \<noteq> storageNodeArg"
  "storageNodeTLSArg \<noteq> storageNodeArg" "storageNodeTLSInsecureSkipVerify \<noteq> storageNodeArg"
  "storageNodePasswordFileArg \<noteq> storageNodeUsernameFileArg" "storageNodeTLSArg \<noteq> storageNodeUsernameFileArg"
  "storageNodeTLSInsecureSkipVerify \<noteq> storageNodeUsernameFileArg" "storageNodeTLSArg \<noteq> storageNodePasswordFileArg"
  "storageNodeTLSInsecureSkipVerify \<noteq> storageNodePasswordFileArg" "storageNodeTLSInsecureSkipVerify \<noteq> storageNodeTLSArg"
  by (simp_all add: storageNodeArg_def storageNodeUsernameFileArg_def storageNodePasswordFileArg_def storageNodeTLSArg_def
      storageNodeTLSInsecureSkipVerify_def)

lemma fold_add_connection:
  "let l' = fold add_connection conns l; act = filter (\<lambda>c. \<not> conn_deleting c) conns in
     addresses l' = addresses l @ map (\<lambda>c. Address (TargetStorageNode c)) act \<and>
     usernameFiles l' = usernameFiles l @ map (\<lambda>c. let s = NodeSecret (TargetStorageNode c) in secretKeyPath (SecretName s) (UsernameKey s)) act \<and>
     passwordFiles l' = passwordFiles l @ map (\<lambda>c. let s = NodeSecret (TargetStorageNode c) in secretKeyPath (SecretName s) (PasswordKey s)) act \<and>
     tlsEnabled l' = tlsEnabled l @ map (\<lambda>c. FormatBool (TlsEnabled (TargetStorageNode c))) act \<and>
     tlsInsecure l' = tlsInsecure l @ map (\<lambda>c. FormatBool (TlsInsecureSkipVerify (TargetStorageNode c))) act"
  by (induction conns arbitrary: l) (simp_all add: add_connection_def Let_def)

lemma fold_add_secrets:
  "distinct (secrets l) \<Longrightarrow> distinct (secrets (fold add_connection conns l)) \<and>
     set (secrets (fold add_connection conns l)) = set (secrets l) \<union>
       {s. s \<noteq> [] \<and> s \<in> (\<lambda>c. SecretName (NodeSecret (TargetStorageNode c))) ` {c \<in> set conns. \<not> conn_deleting c}}"
  by (induction conns arbitrary: l) (auto simp: add_connection_def Let_def)

lemma map_of_setArg:
  "map_of (setArg k (map f conns) args) x = (if x = k then (case column_arg f conns of None \<Rightarrow> map_of args x | s \<Rightarrow> s) else map_of args x)"
  by (auto simp: setArg_def column_arg_def)

lemma map_of_fold_delete: "map_of (fold AList.delete ks m) x = (if x \<in> set ks then None else map_of m x)"
  by (induction ks arbitrary: m) (auto simp: AList.delete_conv')

lemma map_of_columns:
  "map_of columns x = None \<longleftrightarrow> x \<notin> set storageNodeOwnedArgs"
  by (auto simp: columns_def storageNodeOwnedArgs_def)

lemma node_args_columns:
  assumes "addresses l = map f1 cs" "usernameFiles l = map f2 cs" "passwordFiles l = map f3 cs" "tlsEnabled l = map f4 cs"
    "tlsInsecure l = map f5 cs"
  shows "map_of (node_args existing l) x =
    (case map_of [(storageNodeArg, f1), (storageNodeUsernameFileArg, f2), (storageNodePasswordFileArg, f3),
        (storageNodeTLSArg, f4), (storageNodeTLSInsecureSkipVerify, f5)] x of
       Some f \<Rightarrow> column_arg f cs
     | None \<Rightarrow> map_of (case existing of None \<Rightarrow> [] | Some m \<Rightarrow> m) x)"
proof -
  define old where "old = (case existing of None \<Rightarrow> [] | Some m \<Rightarrow> m)"
  define d where "d = fold AList.delete storageNodeOwnedArgs old"
  have d: "map_of d y = (if y \<in> set storageNodeOwnedArgs then None else map_of old y)" for y
    unfolding d_def by (rule map_of_fold_delete)
  have n: "node_args existing l = setArg storageNodeTLSInsecureSkipVerify (map f5 cs) (setArg storageNodeTLSArg (map f4 cs)
      (setArg storageNodePasswordFileArg (map f3 cs) (setArg storageNodeUsernameFileArg (map f2 cs)
        (setArg storageNodeArg (map f1 cs) d))))"
    by (simp only: node_args_def Let_def assms d_def old_def)
  consider "x = storageNodeArg" | "x = storageNodeUsernameFileArg" | "x = storageNodePasswordFileArg" | "x = storageNodeTLSArg"
    | "x = storageNodeTLSInsecureSkipVerify" | "x \<notin> set storageNodeOwnedArgs"
    by (auto simp: storageNodeOwnedArgs_def)
  then show ?thesis
    unfolding n old_def [symmetric]
    by cases (simp_all add: map_of_setArg d arg_names [symmetric] storageNodeOwnedArgs_def split: option.split)
qed

lemma node_args_lookup:
  "map_of (node_args existing (fold add_connection conns no_nodes)) x =
     wanted_args (case existing of None \<Rightarrow> [] | Some m \<Rightarrow> m) (filter (\<lambda>c. \<not> conn_deleting c) conns) x"
  unfolding wanted_args_def columns_def
  by (rule node_args_columns) (use fold_add_connection [of conns no_nodes] in \<open>simp_all add: Let_def no_nodes_def\<close>)

lemma node_secrets: "sort (secrets (fold add_connection conns no_nodes)) = wanted_secrets (filter (\<lambda>c. \<not> conn_deleting c) conns)"
proof (rule sorted_distinct_set_unique)
  have "distinct (secrets no_nodes)" by (simp add: no_nodes_def)
  note s = fold_add_secrets [OF this, of conns]
  show "distinct (sort (secrets (fold add_connection conns no_nodes)))" using s by simp
  show "set (sort (secrets (fold add_connection conns no_nodes))) = set (wanted_secrets (filter (\<lambda>c. \<not> conn_deleting c) conns))"
    using s by (auto simp: wanted_secrets_def no_nodes_def)
qed (simp_all add: wanted_secrets_def)

section \<open>Synchronising a cluster\<close>

definition cluster_args :: "storage_cluster \<Rightarrow> string gomap" where
  "cluster_args cl = (case storageExtraArgs cl of None \<Rightarrow> [] | Some m \<Rightarrow> m)"

definition cluster_secrets :: "storage_cluster \<Rightarrow> string list" where
  "cluster_secrets cl = (case storageSecrets cl of None \<Rightarrow> [] | Some l \<Rightarrow> l)"

text \<open>
  What the controller relies on: a list call returns each object once, in some order; the server
  keeps arguments and secrets, except that it may store no field for an empty one.
\<close>

definition storage_env_ok :: "storage_env \<Rightarrow> bool" where
  "storage_env_ok env \<longleftrightarrow>
     (\<forall>xs. mset (list_order env xs) = mset xs) \<and>
     (\<forall>cl. map_of (cluster_args (stored env cl)) = map_of (cluster_args cl) \<and>
        cluster_secrets (stored env cl) = cluster_secrets cl)"

definition configured :: "storage_cluster \<Rightarrow> storage_connection list \<Rightarrow> storage_cluster \<Rightarrow> bool" where
  "configured cl conns cl' \<longleftrightarrow>
     map_of (cluster_args cl') = wanted_args (cluster_args cl) conns \<and> cluster_secrets cl' = wanted_secrets conns"

lemma storage_call_frame: "api_call k = (f, k') \<Longrightarrow> connections k' = connections k \<and> clusters k' = clusters k"
  by (drule api_call_frame) auto

lemma wf_delete: "wf_map m \<Longrightarrow> wf_map (AList.delete k m)"
  by (simp add: wf_map_def distinct_delete)

lemma wf_setArg: "wf_map m \<Longrightarrow> wf_map (setArg k vs m)"
  by (simp add: setArg_def)

lemma wf_node_args: "(\<And>m. existing = Some m \<Longrightarrow> wf_map m) \<Longrightarrow> wf_map (node_args existing l)"
  by (auto simp: node_args_def Let_def storageNodeOwnedArgs_def intro!: wf_setArg wf_delete split: option.split)

lemma build_spec:
  assumes "buildStorageNodeConfig env name kind existing k = (Inr (args, secs), k')" "storage_env_ok env"
  obtains conns where "mset conns = mset (active name kind k)"
    "map_of args = wanted_args (case existing of None \<Rightarrow> [] | Some m \<Rightarrow> m) conns" "secs = wanted_secrets conns"
    "connections k' = connections k" "clusters k' = clusters k"
    "(\<forall>m. existing = Some m \<longrightarrow> wf_map m) \<longrightarrow> wf_map args"
proof -
  let ?all = "list_order env (filter (\<lambda>c. map_of (conn_labels c) ClusterNameLabelKey = Some name \<and>
       map_of (conn_labels c) ClusterKindLabelKey = Some kind) (connections k))"
  let ?conns = "filter (\<lambda>c. \<not> conn_deleting c) ?all"
  have eq: "args = node_args existing (fold add_connection ?all no_nodes)" "secs = sort (secrets (fold add_connection ?all no_nodes))"
      "connections k' = connections k" "clusters k' = clusters k"
    using assms(1) by (auto simp: buildStorageNodeConfig_def list_connections_def Let_def split: prod.splits option.splits
        dest: storage_call_frame)
  have "mset ?all = mset (filter (\<lambda>c. map_of (conn_labels c) ClusterNameLabelKey = Some name \<and>
       map_of (conn_labels c) ClusterKindLabelKey = Some kind) (connections k))"
    using assms(2) by (simp add: storage_env_ok_def)
  then have "mset ?conns = mset (active name kind k)"
    by (simp add: active_def filter_filter_mset conj_assoc)
  moreover have "map_of args = wanted_args (case existing of None \<Rightarrow> [] | Some m \<Rightarrow> m) ?conns" "secs = wanted_secrets ?conns"
    unfolding eq(1,2) by (simp_all only: fun_eq_iff node_args_lookup node_secrets simp_thms)
  moreover have "(\<forall>m. existing = Some m \<longrightarrow> wf_map m) \<longrightarrow> wf_map args"
    unfolding eq(1) using wf_node_args by blast
  ultimately show ?thesis using that [of ?conns] eq(3,4) by blast
qed

lemma update_cluster_ok:
  assumes "update_cluster env cl k = (None, k')"
  shows "connections k' = connections k" "find_object cl_key (cl_key cl) (clusters k') = Some (cl_bump env cl)"
    "x \<noteq> cl_key cl \<Longrightarrow> find_object cl_key x (clusters k') = find_object cl_key x (clusters k)"
proof -
  obtain k1 cls where k1: "api_call k = (None, k1)" and u: "update_object cl_key cl_version (cl_bump env) cl (clusters k) = Inr cls"
      and k': "k' = k1\<lparr>clusters := cls\<rparr>"
    using assms by (auto simp: update_cluster_def split: prod.splits option.splits sum.splits)
  show "connections k' = connections k" "find_object cl_key (cl_key cl) (clusters k') = Some (cl_bump env cl)"
    "x \<noteq> cl_key cl \<Longrightarrow> find_object cl_key x (clusters k') = find_object cl_key x (clusters k)"
    using storage_call_frame [OF k1] by (simp_all add: k' cl_kind.update_find [OF u])
qed

lemma cluster_bump: "cluster_args (cl_bump env cl) = cluster_args (stored env cl)" "cluster_secrets (cl_bump env cl) = cluster_secrets (stored env cl)"
  by (simp_all add: cluster_args_def cluster_secrets_def storageExtraArgs_def storageSecrets_def cl_bump_def)

lemma cluster_apply: "cluster_args (applyStorageConfig args secs cl) = args" "cluster_secrets (applyStorageConfig args secs cl) = secs"
    "cl_key (applyStorageConfig args secs cl) = cl_key cl"
  by (simp_all add: cluster_args_def cluster_secrets_def storageExtraArgs_def storageSecrets_def applyStorageConfig_def cl_key_def)

lemma syncCluster_ok:
  assumes "syncCluster env cl k = (None, k')" "storage_env_ok env" "find_object cl_key (cl_key cl) (clusters k) = Some cl"
    and "wf_map (cluster_args cl)"
  obtains cl' conns where "mset conns = mset (active (cl_name cl) (cl_kind cl) k)" "configured cl conns cl'"
    "find_object cl_key (cl_key cl) (clusters k') = Some cl'" "connections k' = connections k"
    "\<And>x. x \<noteq> cl_key cl \<Longrightarrow> find_object cl_key x (clusters k') = find_object cl_key x (clusters k)"
proof -
  obtain args secs k1 where b: "buildStorageNodeConfig env (cl_name cl) (cl_kind cl) (storageExtraArgs cl) k = (Inr (args, secs), k1)"
    using assms(1) by (auto simp: syncCluster_def split: prod.splits sum.splits)
  obtain conns where c: "mset conns = mset (active (cl_name cl) (cl_kind cl) k)"
      "map_of args = wanted_args (cluster_args cl) conns" "secs = wanted_secrets conns"
      "connections k1 = connections k" "clusters k1 = clusters k" "(\<forall>m. storageExtraArgs cl = Some m \<longrightarrow> wf_map m) \<longrightarrow> wf_map args"
    by (rule build_spec [OF b assms(2), folded cluster_args_def])
  have wf: "wf_map args" using c(6) assms(4) by (simp add: cluster_args_def split: option.splits)
  show ?thesis
  proof (cases "(case storageExtraArgs cl of None \<Rightarrow> False | Some m \<Rightarrow> maps_Equal m args) \<and> storageSecrets cl = Some secs")
    case True
    then obtain m where m: "storageExtraArgs cl = Some m" "maps_Equal m args" "storageSecrets cl = Some secs"
      by (auto split: option.splits)
    have "map_of (cluster_args cl) = map_of args"
      using m assms(4) wf by (simp add: cluster_args_def maps_Equal_same_map same_map_def)
    then have "configured cl conns cl" using c(2,3) m(3) by (simp add: configured_def cluster_secrets_def)
    moreover have "k' = k1" using assms(1) b True by (simp add: syncCluster_def)
    ultimately show ?thesis using that [of conns cl] c assms(3) by simp
  next
    case False
    then have u: "update_cluster env (applyStorageConfig args secs cl) k1 = (None, k')"
      using assms(1) b by (auto simp: syncCluster_def split: prod.splits option.splits)
    let ?cl = "cl_bump env (applyStorageConfig args secs cl)"
    have "configured cl conns ?cl"
      using assms(2) c(2,3) by (simp add: configured_def cluster_bump cluster_apply storage_env_ok_def)
    then show ?thesis using that [of conns ?cl] update_cluster_ok [OF u, unfolded cluster_apply] c by simp
  qed
qed

lemma syncCluster_frame: "syncCluster env cl k = (r, k') \<Longrightarrow> connections k' = connections k"
proof -
  assume s: "syncCluster env cl k = (r, k')"
  obtain b k1 where b: "buildStorageNodeConfig env (cl_name cl) (cl_kind cl) (storageExtraArgs cl) k = (b, k1)" by fastforce
  then have "connections k1 = connections k"
    by (auto simp: buildStorageNodeConfig_def list_connections_def Let_def split: prod.splits option.splits sum.splits
        dest: storage_call_frame)
  moreover have "connections k2 = connections k1" if "update_cluster env c k1 = (r', k2)" for c r' k2
    using that by (auto simp: update_cluster_def split: prod.splits option.splits sum.splits dest: storage_call_frame)
  ultimately show ?thesis
    using s b by (auto simp: syncCluster_def split: sum.splits prod.splits option.splits if_splits)
qed

lemma syncCluster_faultless:
  assumes "api_faults k = []" "find_object cl_key (cl_key cl) (clusters k) = Some cl"
  shows "\<exists>k1. syncCluster env cl k = (None, k1) \<and> api_faults k1 = [] \<and> connections k1 = connections k"
proof -
  obtain args secs where b: "buildStorageNodeConfig env (cl_name cl) (cl_kind cl) (storageExtraArgs cl) k = (Inr (args, secs), k)"
    using assms(1) by (simp add: buildStorageNodeConfig_def list_connections_def Let_def)
  have "cl_version (applyStorageConfig args secs cl) = cl_version cl" by (simp add: applyStorageConfig_def)
  then obtain cls where "update_cluster env (applyStorageConfig args secs cl) k = (None, k\<lparr>clusters := cls\<rparr>)"
    using assms by (simp add: update_cluster_def update_object_def cluster_apply)
  then show ?thesis using b assms(1) by (simp add: syncCluster_def)
qed

section \<open>Reconciliation\<close>

text \<open>The cluster a connection refers to.\<close>

definition ref_key :: "storage_connection \<Rightarrow> string \<times> string \<times> string" where
  "ref_key conn = (RefKind (ClusterRef conn), ref_namespace conn, RefName (ClusterRef conn))"

text \<open>The labels that list calls go by are those of the reference.\<close>

definition labelled :: "storage_connection \<Rightarrow> bool" where
  "labelled conn \<longleftrightarrow>
     map_of (conn_labels conn) ClusterNameLabelKey = Some (RefName (ClusterRef conn)) \<and>
     map_of (conn_labels conn) ClusterKindLabelKey = Some (RefKind (ClusterRef conn))"

definition storage_inv :: "storage_api \<Rightarrow> bool" where
  "storage_inv k \<longleftrightarrow>
     distinct (map conn_key (connections k)) \<and> distinct (map cl_key (clusters k)) \<and>
     (\<forall>cl \<in> set (clusters k). wf_map (cluster_args cl))"

lemma update_connection_ok:
  assumes "update_connection conn k = (None, k')" "distinct (map conn_key (connections k))"
  shows "clusters k' = clusters k"
    "find_object conn_key x (connections k') =
       (if x = conn_key conn then (if conn_deleting conn \<and> conn_finalizers conn = [] then None else Some (conn_bump conn))
        else find_object conn_key x (connections k))"
proof -
  obtain k1 conns where k1: "api_call k = (None, k1)" and u: "update_object conn_key conn_version conn_bump conn (connections k) = Inr conns"
      and k': "k' = k1\<lparr>connections := filter (\<lambda>c. \<not> (conn_key c = conn_key conn \<and> conn_deleting c \<and> conn_finalizers c = [])) conns\<rparr>"
    using assms(1) by (auto simp: update_connection_def split: prod.splits option.splits sum.splits)
  show "clusters k' = clusters k" using storage_call_frame [OF k1] by (simp add: k')
  have only: "conn_deleting c = conn_deleting conn \<and> conn_finalizers c = conn_finalizers conn"
    if "c \<in> set conns" "conn_key c = conn_key conn" for c
    using that conn_kind.update_ok(1) [OF u] by (auto simp: conn_bump_def split: if_splits)
  have "filter (\<lambda>c. \<not> (conn_key c = conn_key conn \<and> conn_deleting c \<and> conn_finalizers c = [])) conns =
      (if conn_deleting conn \<and> conn_finalizers conn = [] then filter (\<lambda>c. conn_key c \<noteq> conn_key conn) conns else conns)"
    using only by (auto intro!: filter_cong filter_True)
  moreover have "find_object conn_key x (filter (\<lambda>c. conn_key c \<noteq> y) conns) = (if x = y then None else find_object conn_key x conns)" for x y
    by (induction conns) (auto simp: find_object_def)
  ultimately show "find_object conn_key x (connections k') =
       (if x = conn_key conn then (if conn_deleting conn \<and> conn_finalizers conn = [] then None else Some (conn_bump conn))
        else find_object conn_key x (connections k))"
    by (simp add: k' conn_kind.update_find [OF u])
qed

lemma get_connection_ok:
  "get_connection key k = (Inr conn, k') \<Longrightarrow>
     find_object conn_key key (connections k) = Some conn \<and> connections k' = connections k \<and> clusters k' = clusters k"
  by (auto simp: get_connection_def split: prod.splits option.splits dest: storage_call_frame)

lemma fetchCluster_ok:
  "fetchCluster kind name ns k = (Inr cl, k') \<Longrightarrow>
     cl = find_object cl_key (kind, ns, name) (clusters k) \<and> connections k' = connections k \<and> clusters k' = clusters k"
  by (auto simp: fetchCluster_def split: prod.splits option.splits dest: storage_call_frame)

text \<open>The beginning of a reconciliation: the connection and its cluster are read.\<close>

lemma Reconcile_reads:
  assumes "Reconcile_connection env key k = (r, k')" "find_object conn_key key (connections k) = Some conn"
  obtains (failed) "r \<noteq> None" "connections k' = connections k" "clusters k' = clusters k"
  | (both) k1 where "connections k1 = connections k" "clusters k1 = clusters k"
      "(r, k') = (let cluster = find_object cl_key (ref_key conn) (clusters k) in
         if conn_deleting conn then handleClusterDeletion env conn cluster k1
         else (case cluster of
             None \<Rightarrow> (Some ClusterNotFound, k1)
           | Some cl \<Rightarrow>
               if vmStorageConnectionFinalizer \<in> set (conn_finalizers conn) then syncCluster env cl k1
               else (case update_connection (AddFinalizer_labels conn) k1 of
                   (Some e, k2) \<Rightarrow> (Some (AddFinalizer e), k2)
                 | (None, k2) \<Rightarrow> syncCluster env cl k2)))"
proof -
  obtain g k1 where g: "get_connection key k = (g, k1)" by fastforce
  show ?thesis
  proof (cases g)
    case (Inl e)
    then have "r \<noteq> None \<and> connections k' = connections k \<and> clusters k' = clusters k"
      using assms g by (auto simp: Reconcile_connection_def get_connection_def split: prod.splits option.splits api_error.splits
          dest: storage_call_frame)
    then show ?thesis using failed by blast
  next
    case (Inr conn')
    then have c: "conn' = conn" "connections k1 = connections k" "clusters k1 = clusters k"
      using get_connection_ok g assms(2) by fastforce+
    obtain f k2 where f: "fetchCluster (RefKind (ClusterRef conn)) (RefName (ClusterRef conn)) (ref_namespace conn) k1 = (f, k2)"
      by fastforce
    show ?thesis
    proof (cases "(RefKind (ClusterRef conn) = ''VTCluster'' \<or> RefKind (ClusterRef conn) = ''VLCluster'') \<and> \<not> isl f")
      case True
      then obtain cluster where cl: "f = Inr cluster" by (cases f) auto
      have rd: "cluster = find_object cl_key (ref_key conn) (clusters k)" "connections k2 = connections k" "clusters k2 = clusters k"
        using fetchCluster_ok [OF f [unfolded cl]] c by (simp_all add: ref_key_def)
      have "(r, k') = reconcileCluster env conn (ref_namespace conn) k1"
        using assms(1) g Inr c True by (auto simp: Reconcile_connection_def)
      then show ?thesis using that(2) [of k2] rd f cl by (simp add: reconcileCluster_def Let_def)
    next
      case False
      have "connections k2 = connections k \<and> clusters k2 = clusters k"
        using f c by (auto simp: fetchCluster_def split: prod.splits option.splits dest: storage_call_frame)
      then have "r \<noteq> None \<and> connections k' = connections k \<and> clusters k' = clusters k"
        using assms(1) g Inr c f False
        by (auto simp: Reconcile_connection_def reconcileCluster_def isl_def split: sum.splits if_splits)
      then show ?thesis using failed by blast
    qed
  qed
qed

section \<open>Properties\<close>

text \<open>
  The connections that reference a cluster: those that name its kind, namespace and name, are not
  being deleted, and carry the labels of their reference, which the controller writes when it first
  reconciles a connection.
\<close>

definition referencing :: "string \<times> string \<times> string \<Rightarrow> storage_api \<Rightarrow> storage_connection list" where
  "referencing key k = filter (\<lambda>c. ref_key c = key \<and> labelled c \<and> \<not> conn_deleting c) (connections k)"

text \<open>No connection carries the labels of the cluster of \<open>conn\<close> and references another cluster.\<close>

definition labels_unambiguous :: "storage_connection \<Rightarrow> storage_connection list \<Rightarrow> bool" where
  "labels_unambiguous conn conns \<longleftrightarrow>
     (\<forall>c \<in> set conns. map_of (conn_labels c) ClusterNameLabelKey = Some (RefName (ClusterRef conn)) \<longrightarrow>
        map_of (conn_labels c) ClusterKindLabelKey = Some (RefKind (ClusterRef conn)) \<longrightarrow> ref_key c = ref_key conn)"

lemma active_referencing:
  assumes "labels_unambiguous conn (connections k)"
  shows "active (RefName (ClusterRef conn)) (RefKind (ClusterRef conn)) k = referencing (ref_key conn) k"
  using assms unfolding active_def referencing_def labels_unambiguous_def
  by (intro filter_cong) (auto simp: labelled_def ref_key_def)

lemma update_connection_set:
  "update_connection c k = (None, k') \<Longrightarrow> set (connections k') \<subseteq> insert (conn_bump c) (set (connections k))"
  by (auto simp: update_connection_def dest!: conn_kind.update_ok(1) split: prod.splits option.splits sum.splits if_splits)

text \<open>
  C18: A reconciliation that succeeds for a connection that is not being deleted leaves its cluster
  configured: the arguments list exactly the connections that reference the cluster, carry its labels
  (which the controller writes together with the finalizer) and are not being deleted, this one among
  them, one position for each in every argument; the secrets are those of these connections;
  arguments the controller does not own stay as they were. This holds as long as the labels agree with
  the references: if the connection has the finalizer, it has the labels of the cluster it references,
  and no connection carries the labels of this cluster, its name and kind, and references a
  cluster of another namespace or, after a change of its reference, of another name.
\<close>

theorem reconcile_configures_cluster:
  assumes "Reconcile_connection env key k = (None, k')" "storage_env_ok env" "storage_inv k"
    and "find_object conn_key key (connections k) = Some conn" "\<not> conn_deleting conn"
    and "vmStorageConnectionFinalizer \<in> set (conn_finalizers conn) \<longrightarrow> labelled conn"
    and "labels_unambiguous conn (connections k)"
  shows "\<exists>cl cl' conns. find_object cl_key (ref_key conn) (clusters k) = Some cl \<and>
    find_object cl_key (ref_key conn) (clusters k') = Some cl' \<and>
    mset conns = mset (referencing (ref_key conn) k') \<and> configured cl conns cl' \<and>
    (\<exists>c \<in> set conns. conn_key c = key \<and> TargetStorageNode c = TargetStorageNode conn)"
  using assms(1,4)
proof (cases rule: Reconcile_reads)
  case (both k1)
  obtain cl where cl: "find_object cl_key (ref_key conn) (clusters k) = Some cl"
    using both(3) assms(5) by (auto simp: Let_def split: option.splits)
  note k = find_object_SomeD [OF cl] find_object_SomeD [OF assms(4)]
  have id: "cl_key cl = ref_key conn" "cl_name cl = RefName (ClusterRef conn)" "cl_kind cl = RefKind (ClusterRef conn)"
    using k by (simp_all add: cl_key_def ref_key_def)
  have wf: "wf_map (cluster_args cl)" using k assms(3) by (simp add: storage_inv_def)
  obtain k2 c where k2: "syncCluster env cl k2 = (None, k')" "clusters k2 = clusters k" and
    c: "c \<in> set (connections k2)" "labelled c" "conn_key c = key" "TargetStorageNode c = TargetStorageNode conn"
      "\<not> conn_deleting c" "ClusterRef c = ClusterRef conn" and
    told: "labels_unambiguous conn (connections k2)"
  proof (cases "vmStorageConnectionFinalizer \<in> set (conn_finalizers conn)")
    case True
    then show ?thesis using that [of k1 conn] both cl assms(5-7) k by (simp add: Let_def)
  next
    case False
    let ?c = "AddFinalizer_labels conn"
    have key: "conn_key ?c = key" using k by (simp add: AddFinalizer_labels_def conn_key_def)
    obtain k2 where u: "update_connection ?c k1 = (None, k2)" "syncCluster env cl k2 = (None, k')"
      using both cl assms(5) False by (auto simp: Let_def split: prod.splits option.splits)
    have "distinct (map conn_key (connections k1))" using both assms(3) by (simp add: storage_inv_def)
    note ok = update_connection_ok [OF u(1) this]
    have "find_object conn_key key (connections k2) = Some (conn_bump ?c)"
      using ok(2) [of key] key assms(5) by (simp add: AddFinalizer_labels_def)
    moreover have "labelled (conn_bump ?c) \<and> TargetStorageNode (conn_bump ?c) = TargetStorageNode conn \<and>
        \<not> conn_deleting (conn_bump ?c) \<and> ClusterRef (conn_bump ?c) = ClusterRef conn"
      using assms(5) by (simp add: labelled_def conn_bump_def AddFinalizer_labels_def ClusterNameLabelKey_def ClusterKindLabelKey_def)
    moreover have "ref_key (conn_bump ?c) = ref_key conn"
      by (simp add: ref_key_def ref_namespace_def conn_bump_def AddFinalizer_labels_def)
    then have "labels_unambiguous conn (connections k2)"
      using update_connection_set [OF u(1)] assms(7) both(1) unfolding labels_unambiguous_def by auto
    ultimately show ?thesis using that [of k2 "conn_bump ?c"] u(2) ok(1) both(2) find_object_SomeD by metis
  qed
  have "find_object cl_key (cl_key cl) (clusters k2) = Some cl" using cl id(1) k2(2) by simp
  then obtain cl' conns where r: "mset conns = mset (active (cl_name cl) (cl_kind cl) k2)" "configured cl conns cl'"
    "find_object cl_key (cl_key cl) (clusters k') = Some cl'" "connections k' = connections k2"
    using syncCluster_ok [OF k2(1) assms(2) _ wf] by metis
  have "c \<in> set (active (cl_name cl) (cl_kind cl) k2)" using c id by (simp add: active_def labelled_def)
  then have "c \<in> set conns" using r(1) mset_eq_setD by blast
  moreover have "active (cl_name cl) (cl_kind cl) k' = active (cl_name cl) (cl_kind cl) k2" using r(4) by (simp add: active_def)
  moreover have "active (cl_name cl) (cl_kind cl) k' = referencing (ref_key conn) k'"
    using active_referencing [of conn k'] told r(4) id by simp
  ultimately show ?thesis using cl r c(3,4) id by metis
qed simp

text \<open>
  C19: The finalizer guards the cluster. If a connection that is being deleted loses the
  finalizer, or goes away, in a reconciliation, then its cluster does not exist or has been
  configured with the active connections only; otherwise the connection stays as it is.
\<close>

theorem finalizer_guards_cluster:
  assumes "Reconcile_connection env key k = (r, k')" "storage_env_ok env" "storage_inv k"
    and "find_object conn_key key (connections k) = Some conn" "conn_deleting conn"
    and "vmStorageConnectionFinalizer \<in> set (conn_finalizers conn)"
    and "find_object conn_key key (connections k') \<noteq> Some conn"
  shows "r = None \<and> (find_object cl_key (ref_key conn) (clusters k) = None \<or>
    (\<exists>cl cl' conns. find_object cl_key (ref_key conn) (clusters k) = Some cl \<and>
       find_object cl_key (ref_key conn) (clusters k') = Some cl' \<and>
       mset conns = mset (active (cl_name cl) (cl_kind cl) k) \<and> configured cl conns cl' \<and> conn \<notin> set conns))"
  using assms(1,4)
proof (cases rule: Reconcile_reads)
  case failed
  then show ?thesis using assms(4,7) by simp
next
  case (both k1)
  let ?drop = "\<lambda>k2. drop_finalizer conn k2 = (r, k')"
  have kept: "r = None \<and> clusters k' = clusters k2" if "?drop k2" "connections k2 = connections k" for k2
  proof -
    have "distinct (map conn_key (connections k2))" using assms(3) that(2) by (simp add: storage_inv_def)
    moreover have "r \<noteq> None \<Longrightarrow> connections k' = connections k2"
      using that(1) by (auto simp: drop_finalizer_def update_connection_def split: prod.splits option.splits sum.splits
          dest: storage_call_frame)
    ultimately show ?thesis using that assms(4,7) update_connection_ok(1)
      by (fastforce simp: drop_finalizer_def split: prod.splits option.splits)
  qed
  show ?thesis
  proof (cases "find_object cl_key (ref_key conn) (clusters k)")
    case None
    then show ?thesis using kept [of k1] both assms(5,6) by (simp add: Let_def handleClusterDeletion_def)
  next
    case (Some cl)
    note cl = find_object_SomeD [OF Some]
    obtain f k2 where sync: "syncCluster env cl k1 = (f, k2)" by fastforce
    have conns: "connections k2 = connections k"
      using syncCluster_frame [OF sync] both(1) by simp
    have "f = None" using both assms(4-7) Some sync conns by (cases f) (simp_all add: Let_def handleClusterDeletion_def)
    then have drop: "?drop k2" using both assms(5,6) Some sync by (simp add: Let_def handleClusterDeletion_def)
    have wf: "wf_map (cluster_args cl)" using cl assms(3) by (simp add: storage_inv_def)
    have "find_object cl_key (cl_key cl) (clusters k1) = Some cl" using Some cl both(2) by simp
    then obtain cl' l where s: "mset l = mset (active (cl_name cl) (cl_kind cl) k1)" "configured cl l cl'"
        "find_object cl_key (cl_key cl) (clusters k2) = Some cl'"
      using syncCluster_ok [OF sync [unfolded \<open>f = None\<close>] assms(2) _ wf] by metis
    have act: "active (cl_name cl) (cl_kind cl) k1 = active (cl_name cl) (cl_kind cl) k" using both(1) by (simp add: active_def)
    have "conn \<notin> set l" using assms(5) mset_eq_setD [OF s(1)] by (simp add: active_def)
    then show ?thesis using kept [OF drop conns] Some cl s act by auto
  qed
qed

text \<open>
  Deletion completes. When no call fails, a reconciliation of a connection that is being deleted
  and has the controller's finalizer only succeeds, and the connection is gone.
\<close>

theorem faultless_deletion_completes:
  assumes "Reconcile_connection env key k = (r, k')" "api_faults k = []" "storage_inv k"
    and "find_object conn_key key (connections k) = Some conn" "conn_deleting conn"
    and "conn_finalizers conn = [vmStorageConnectionFinalizer]"
    and "RefKind (ClusterRef conn) = ''VTCluster'' \<or> RefKind (ClusterRef conn) = ''VLCluster''"
  shows "r = None \<and> find_object conn_key key (connections k') = None"
proof -
  have key: "conn_key (RemoveFinalizer conn) = key" "conn_version (RemoveFinalizer conn) = conn_version conn"
    using find_object_SomeD [OF assms(4)] by (simp_all add: RemoveFinalizer_def conn_key_def)
  have drop: "r1 = None \<and> find_object conn_key key (connections k2) = None"
    if "drop_finalizer conn k1 = (r1, k2)" "api_faults k1 = []" "connections k1 = connections k" for k1 k2 r1
  proof -
    have "\<exists>k3. update_connection (RemoveFinalizer conn) k1 = (None, k3)"
      using assms(4) key that(2,3) by (simp add: update_connection_def update_object_def)
    then obtain k3 where u: "update_connection (RemoveFinalizer conn) k1 = (None, k3)" by blast
    have "distinct (map conn_key (connections k1))" using assms(3) that(3) by (simp add: storage_inv_def)
    from update_connection_ok(2) [OF u this, of key] key that(1) u assms(5,6)
    show ?thesis by (simp add: drop_finalizer_def RemoveFinalizer_def)
  qed
  show ?thesis
  proof (cases "find_object cl_key (ref_key conn) (clusters k)")
    case None
    then have "drop_finalizer conn k = (r, k')"
      using assms by (auto simp: Reconcile_connection_def get_connection_def reconcileCluster_def fetchCluster_def
          handleClusterDeletion_def ref_key_def)
    then show ?thesis using drop assms(2) by blast
  next
    case (Some cl)
    obtain k1 where s: "syncCluster env cl k = (None, k1)" "api_faults k1 = []" "connections k1 = connections k"
      using syncCluster_faultless [OF assms(2)] Some find_object_SomeD [OF Some] by metis
    then have "drop_finalizer conn k1 = (r, k')"
      using Some assms by (auto simp: Reconcile_connection_def get_connection_def reconcileCluster_def fetchCluster_def
          handleClusterDeletion_def ref_key_def)
    then show ?thesis using drop s by blast
  qed
qed

lemma split_join:
  "\<forall>x \<in> set xs. c \<notin> set x \<Longrightarrow> xs \<noteq> [] \<Longrightarrow> split_on c (join [c] xs) = xs"
  by (induction "[c]" xs rule: join.induct) (auto simp: split_on_plain split_on_append)

text \<open>
  C20: The arguments can be read back, and they are aligned: one order of the active connections
  serves for all of them, so that splitting an argument at its commas gives for each connection its
  own address, file or flag; an argument is absent only if no connection has a value for it.
\<close>

theorem arguments_aligned:
  assumes "buildStorageNodeConfig env name kind existing k = (Inr (args, secs), k')" "storage_env_ok env"
    and "\<forall>c \<in> set (active name kind k). \<forall>(arg, f) \<in> set columns. CHR '','' \<notin> set (f c)"
  shows "\<exists>conns. mset conns = mset (active name kind k) \<and>
    (\<forall>(arg, f) \<in> set columns. case map_of args arg of
       Some v \<Rightarrow> split_on (CHR '','') v = map f conns
     | None \<Rightarrow> \<forall>c \<in> set conns. f c = [])"
proof -
  obtain conns where c: "mset conns = mset (active name kind k)"
      "map_of args = wanted_args (case existing of None \<Rightarrow> [] | Some m \<Rightarrow> m) conns"
    by (rule build_spec [OF assms(1,2)])
  have split: "case map_of args arg of Some v \<Rightarrow> split_on (CHR '','') v = map f conns | None \<Rightarrow> \<forall>c \<in> set conns. f c = []"
    if "(arg, f) \<in> set columns" for arg f
  proof -
    have "map_of columns arg = Some f"
      using that by (intro map_of_is_SomeI) (auto simp: columns_def arg_names [symmetric])
    then have "map_of args arg = column_arg f conns" using c(2) by (simp add: wanted_args_def)
    moreover have "\<forall>x \<in> set (map f conns). CHR '','' \<notin> set x"
      using assms(3) that mset_eq_setD [OF c(1)] by fastforce
    ultimately show ?thesis using split_join [of "map f conns" "CHR '',''"] by (force simp: column_arg_def)
  qed
  show ?thesis using c(1) split by blast
qed

section \<open>Examples\<close>

definition ex_node :: "string \<Rightarrow> target_storage_node" where
  "ex_node a = \<lparr>Address = a, NodeSecret = \<lparr>SecretName = ''creds'', PasswordKey = ''p'', UsernameKey = ''u''\<rparr>,
     TlsEnabled = True, TlsInsecureSkipVerify = False\<rparr>"

definition ex_conn :: "string \<Rightarrow> string \<Rightarrow> storage_connection" where
  "ex_conn name ns = \<lparr>conn_namespace = ''kof'', conn_name = name, conn_labels = [], conn_finalizers = [], conn_owners = [], conn_deleting = False,
     ClusterRef = \<lparr>RefName = ''vl'', RefNamespace = ns, RefKind = ''VLCluster''\<rparr>, TargetStorageNode = ex_node name, conn_version = 1\<rparr>"

definition ex_cluster :: "string \<Rightarrow> storage_cluster" where
  "ex_cluster ns = \<lparr>cl_kind = ''VLCluster'', cl_namespace = ns, cl_name = ''vl'',
     cl_select = Some \<lparr>ExtraArgs = Some [(''loggerLevel'', ''INFO'')], Secrets = None\<rparr>, cl_version = 1\<rparr>"

definition ex_storage_env :: storage_env where
  "ex_storage_env = \<lparr>list_order = rev, stored = (\<lambda>cl. cl)\<rparr>"

definition ex_api :: storage_api where
  "ex_api = \<lparr>api_faults = [], connections = [AddFinalizer_labels (ex_conn ''a:1'' ''kof''), ex_conn ''b:2'' ''kof''],
     clusters = [ex_cluster ''kof'']\<rparr>"

definition ex_deleting :: storage_api where
  "ex_deleting = ex_api\<lparr>connections := [(AddFinalizer_labels (ex_conn ''a:1'' ''kof''))\<lparr>conn_deleting := True\<rparr>]\<rparr>"

lemma ex_storage_env_ok: "storage_env_ok ex_storage_env"
  by (simp add: storage_env_ok_def ex_storage_env_def)

lemma ex_storage_runs:
  "storage_inv ex_api" "storage_inv ex_deleting"
  "find_object conn_key (''kof'', ''b:2'') (connections ex_api) = Some (ex_conn ''b:2'' ''kof'')"
  "fst (Reconcile_connection ex_storage_env (''kof'', ''b:2'') ex_api) = None"
  "find_object conn_key (''kof'', ''a:1'') (connections ex_deleting) =
     Some ((AddFinalizer_labels (ex_conn ''a:1'' ''kof''))\<lparr>conn_deleting := True\<rparr>)"
  "find_object conn_key (''kof'', ''a:1'') (connections (snd (Reconcile_connection ex_storage_env (''kof'', ''a:1'') ex_deleting))) = None"
  by code_simp+

theorem reconcile_configures_cluster_witness:
  "\<exists>k'. Reconcile_connection ex_storage_env (''kof'', ''b:2'') ex_api = (None, k') \<and>
     (\<exists>cl cl' conns. find_object cl_key (''VLCluster'', ''kof'', ''vl'') (clusters k') = Some cl' \<and>
       mset conns = mset (referencing (''VLCluster'', ''kof'', ''vl'') k') \<and> configured cl conns cl' \<and>
       (\<exists>c \<in> set conns. conn_key c = (''kof'', ''b:2'')))"
proof -
  let ?k = "snd (Reconcile_connection ex_storage_env (''kof'', ''b:2'') ex_api)"
  have run: "Reconcile_connection ex_storage_env (''kof'', ''b:2'') ex_api = (None, ?k)"
    using ex_storage_runs(4) by (metis prod.collapse)
  have "\<not> conn_deleting (ex_conn ''b:2'' ''kof'')" "vmStorageConnectionFinalizer \<notin> set (conn_finalizers (ex_conn ''b:2'' ''kof''))"
      "ref_key (ex_conn ''b:2'' ''kof'') = (''VLCluster'', ''kof'', ''vl'')"
    by (simp_all add: ex_conn_def ref_key_def ref_namespace_def)
  moreover have "labels_unambiguous (ex_conn ''b:2'' ''kof'') (connections ex_api)" by code_simp
  ultimately show ?thesis
    using reconcile_configures_cluster [OF run ex_storage_env_ok ex_storage_runs(1,3)] run by (metis (no_types))
qed

lemma ex_deleting_conn:
  "conn_deleting ((AddFinalizer_labels (ex_conn ''a:1'' ''kof''))\<lparr>conn_deleting := True\<rparr>)"
  "conn_finalizers ((AddFinalizer_labels (ex_conn ''a:1'' ''kof''))\<lparr>conn_deleting := True\<rparr>) = [vmStorageConnectionFinalizer]"
  "RefKind (ClusterRef ((AddFinalizer_labels (ex_conn ''a:1'' ''kof''))\<lparr>conn_deleting := True\<rparr>)) = ''VLCluster''"
  by (simp_all add: AddFinalizer_labels_def ex_conn_def)

theorem finalizer_guards_cluster_witness:
  "fst (Reconcile_connection ex_storage_env (''kof'', ''a:1'') ex_deleting) = None"
  using finalizer_guards_cluster [OF surjective_pairing ex_storage_env_ok ex_storage_runs(2,5) ex_deleting_conn(1)]
    ex_deleting_conn(2) ex_storage_runs(6) by simp

theorem faultless_deletion_completes_witness:
  "find_object conn_key (''kof'', ''a:1'') (connections (snd (Reconcile_connection ex_storage_env (''kof'', ''a:1'') ex_deleting))) = None"
  using faultless_deletion_completes [OF surjective_pairing _ ex_storage_runs(2,5) ex_deleting_conn(1,2)] ex_deleting_conn(3)
  by (simp add: ex_deleting_def ex_api_def)

theorem arguments_aligned_witness:
  "\<exists>args secs k'. \<exists>conns :: storage_connection list. buildStorageNodeConfig ex_storage_env ''vl'' ''VLCluster'' None ex_api = (Inr (args, secs), k') \<and>
     length conns = 1 \<and> split_on (CHR '','') (get_str args storageNodeArg) = map (\<lambda>c. Address (TargetStorageNode c)) conns"
proof -
  obtain args secs k' where b: "buildStorageNodeConfig ex_storage_env ''vl'' ''VLCluster'' None ex_api = (Inr (args, secs), k')"
    by (simp add: buildStorageNodeConfig_def list_connections_def Let_def ex_api_def)
  have act: "active ''vl'' ''VLCluster'' ex_api = [AddFinalizer_labels (ex_conn ''a:1'' ''kof'')]" by code_simp
  have no: "\<forall>c \<in> set (active ''vl'' ''VLCluster'' ex_api). \<forall>(arg, f) \<in> set columns. CHR '','' \<notin> set (f c)"
    unfolding act by code_simp
  obtain conns where c: "mset conns = mset (active ''vl'' ''VLCluster'' ex_api)"
      "\<forall>(arg, f) \<in> set columns. case map_of args arg of Some v \<Rightarrow> split_on (CHR '','') v = map f conns | None \<Rightarrow> \<forall>c \<in> set conns. f c = []"
    using arguments_aligned [OF b ex_storage_env_ok no] by blast
  have conns: "conns = [AddFinalizer_labels (ex_conn ''a:1'' ''kof'')]" using c(1) act by simp
  have some: "Address (TargetStorageNode (AddFinalizer_labels (ex_conn ''a:1'' ''kof''))) \<noteq> []" by code_simp
  have col: "(storageNodeArg, \<lambda>c. Address (TargetStorageNode c)) \<in> set columns" by (simp add: columns_def)
  have "case map_of args storageNodeArg of
      Some v \<Rightarrow> split_on (CHR '','') v = map (\<lambda>c. Address (TargetStorageNode c)) conns
    | None \<Rightarrow> \<forall>c \<in> set conns. Address (TargetStorageNode c) = []" using bspec [OF c(2) col] by simp
  then have "split_on (CHR '','') (get_str args storageNodeArg) = map (\<lambda>c. Address (TargetStorageNode c)) conns"
    using some by (auto simp: conns get_str_def split: option.splits)
  moreover have "length conns = 1" by (simp add: conns)
  ultimately show ?thesis using b by blast
qed

section \<open>What the labels do not tell\<close>

text \<open>
  The list call goes by name and kind of the cluster, not by its namespace: a cluster gets the nodes
  of connections that refer to a cluster with its name in another namespace.
\<close>

lemma same_name_other_namespace:
  "let k = ex_api\<lparr>connections := [AddFinalizer_labels (ex_conn ''a:1'' ''kof''), AddFinalizer_labels (ex_conn ''b:2'' ''other'')],
       clusters := [ex_cluster ''kof'', ex_cluster ''other'']\<rparr>;
     k' = snd (Reconcile_connection ex_storage_env (''kof'', ''a:1'') k)
   in map_option (\<lambda>cl. map_of (cluster_args cl) storageNodeArg) (find_object cl_key (''VLCluster'', ''kof'', ''vl'') (clusters k')) =
        Some (Some ''b:2,a:1'')"
  by code_simp

text \<open>
  The labels are written with the finalizer and never again: when the reference of a connection
  changes, the new cluster is not configured with its node.
\<close>

lemma changed_reference_not_configured:
  "let conn = (AddFinalizer_labels (ex_conn ''a:1'' ''kof''))\<lparr>ClusterRef := \<lparr>RefName = ''new'', RefNamespace = ''kof'', RefKind = ''VLCluster''\<rparr>\<rparr>;
     k = ex_api\<lparr>connections := [conn], clusters := [(ex_cluster ''kof'')\<lparr>cl_name := ''new''\<rparr>]\<rparr>;
     (r, k') = Reconcile_connection ex_storage_env (''kof'', ''a:1'') k
   in r = None \<and>
      map_option (\<lambda>cl. map_of (cluster_args cl) storageNodeArg) (find_object cl_key (''VLCluster'', ''kof'', ''new'') (clusters k')) =
        Some None"
  by code_simp

text \<open>The arguments depend on the order in which the list call returns connections.\<close>

lemma arguments_depend_on_list_order:
  "let k = ex_api\<lparr>connections := [AddFinalizer_labels (ex_conn ''a:1'' ''kof''), AddFinalizer_labels (ex_conn ''b:2'' ''kof'')]\<rparr>;
     run = (\<lambda>order. snd (Reconcile_connection (ex_storage_env\<lparr>list_order := order\<rparr>) (''kof'', ''a:1'') k))
   in clusters (run rev) \<noteq> clusters (run id)"
  by code_simp

end
