(* ===== verification/Regional_Run.thy ===== *)
theory Regional_Run
  imports Cluster_Run Alerts_Run Promxy
begin

text \<open>
  Properties of the controller of regional ConfigMaps, of the controller of promxy server groups, and
  of their composition with the credentials and the alert rules.
\<close>

section \<open>Frames\<close>

text \<open>Each step writes objects of its own kinds; a failing step leaves what earlier steps wrote.\<close>

lemma vm_rules_effect:
  assumes "CreateVmRulesConfigMap e c k = (r, k')"
  shows "\<exists>fs os. k' = k\<lparr>api_faults := fs, cms := os\<rparr> \<and>
    (\<forall>x. find_object cm_key x os =
       (if x = cm_key (vm_rules_config_map e c) \<and> find_object cm_key x (cms k) = None \<and> \<not> isl r then Some (vm_rules_config_map e c)
        else find_object cm_key x (cms k)))"
proof -
  obtain r1 k1 where c: "EnsureCreated cm_key cms set_cms (vm_rules_config_map e c) k = (r1, k1)" by fastforce
  then have "k' = k1" "isl r = isl r1" using assms by (auto simp: CreateVmRulesConfigMap_def api_ctx_def and_then_def in_context_def split: sum.splits)
  moreover obtain fs os where "k1 = k\<lparr>api_faults := fs, cms := os\<rparr>"
      "case r1 of Inl _ \<Rightarrow> os = cms k | Inr b \<Rightarrow> b = (find_object cm_key (cm_key (vm_rules_config_map e c)) (cms k) = None) \<and>
         (\<forall>x. find_object cm_key x os = (if x = cm_key (vm_rules_config_map e c) \<and> b then Some (vm_rules_config_map e c) else find_object cm_key x (cms k)))"
    using cm_store.ensure_spec [OF c] by (auto simp: set_cms_def)
  ultimately show ?thesis by (intro exI [of _ fs] exI [of _ os]) (cases r1; auto simp del: split_paired_All)
qed

lemma rules_propagation_frame:
  assumes "CreateOrUpdateMcsForVmRulesPropagation e c k = (r, k')"
  shows "\<exists>fs ms. k' = k\<lparr>api_faults := fs, mcss := ms\<rparr>"
proof (cases "rc_isKcmRegionCluster c")
  case True
  then show ?thesis using assms propagate_frame unfolding CreateOrUpdateMcsForVmRulesPropagation_def by fastforce
next
  case False
  then have "k' = k\<lparr>api_faults := api_faults k, mcss := mcss k\<rparr>" using assms by (simp add: CreateOrUpdateMcsForVmRulesPropagation_def)
  then show ?thesis by blast
qed

lemma reads_children_by_location [reads_rules]: "reads k (children_by_location e c cds k)"
proof (induction cds arbitrary: k)
  case (Cons cd cds)
  then show ?case
    by (subst children_by_location.simps, intro reads_case [OF reads_cloud])
      (auto simp: Let_def intro!: reads_rules split: sum.split)
qed (simp add: reads_done)

lemma reads_child_clusters [reads_rules]: "reads k (GetChildClusters e c k)"
  by (auto simp: GetChildClusters_def intro!: reads_rules)

text \<open>
  Updating children: labels stay, data stay or become the data of the regional cluster, and nothing is
  created. When all updates succeed, every child with a ConfigMap has the data.
\<close>

definition children_written :: "string gomap \<Rightarrow> (string \<times> string) set \<Rightarrow> config_map list \<Rightarrow> config_map list \<Rightarrow> bool" where
  "children_written d keys os os' \<longleftrightarrow>
     (\<forall>x. case find_object cm_key x os of
        None \<Rightarrow> find_object cm_key x os' = None
      | Some cm \<Rightarrow> (\<exists>cm'. find_object cm_key x os' = Some cm' \<and> cm_labels cm' = cm_labels cm \<and>
          (cm_data cm' = cm_data cm \<or> x \<in> keys \<and> cm_data cm' = d)))"

lemma children_written_refl: "children_written d keys os os"
  by (auto simp: children_written_def split: option.split)

lemma children_written_trans:
  assumes "children_written d A os os'" "children_written d B os' os''"
  shows "children_written d (A \<union> B) os os''"
  unfolding children_written_def
proof
  fix x
  show "case find_object cm_key x os of
        None \<Rightarrow> find_object cm_key x os'' = None
      | Some cm \<Rightarrow> (\<exists>cm'. find_object cm_key x os'' = Some cm' \<and> cm_labels cm' = cm_labels cm \<and>
          (cm_data cm' = cm_data cm \<or> x \<in> A \<union> B \<and> cm_data cm' = d))"
    using assms [unfolded children_written_def, THEN spec [of _ x]] by (fastforce split: option.splits)
qed

lemma update_config_data_written:
  assumes "update_config_data cm d k = (r, k')" "find_object cm_key (cm_key cm) (cms k) = Some cm"
  shows "children_written d {cm_key cm} (cms k) (cms k')"
proof -
  obtain fs os cm' where "k' = k\<lparr>api_faults := fs, cms := os\<rparr>"
      "\<forall>x. find_object cm_key x os = (if x = cm_key cm then Some cm' else find_object cm_key x (cms k))"
      "cm' = cm \<or> cm' = cm_bump (cm\<lparr>cm_data := d\<rparr>)"
    using update_config_data_spec [OF assms] by blast
  then show ?thesis using assms(2)
    by (auto simp: children_written_def cm_bump_def split: option.split simp del: split_paired_All)
qed

lemma update_children_spec:
  assumes "update_children d rs k = (r, k')"
  shows "\<exists>fs os. k' = k\<lparr>api_faults := fs, cms := os\<rparr> \<and> children_written d (child_cm_key ` set rs) (cms k) os"
  using assms
proof (induction rs arbitrary: k)
  case Nil
  then have "k' = k\<lparr>api_faults := api_faults k, cms := cms k\<rparr>" by simp
  then show ?case using children_written_refl by blast
next
  case (Cons c rs)
  obtain m k1 where m: "child_GetConfigMap c k = (m, k1)" by fastforce
  obtain fs1 where k1: "k1 = k\<lparr>api_faults := fs1\<rparr>" and
      found: "case m of Inr cm \<Rightarrow> find_object cm_key (child_cm_key c) (cms k) = cm | Inl _ \<Rightarrow> True"
    using get_config_map_spec [OF m [unfolded child_GetConfigMap_def]] unfolding child_cm_key_def by blast
  have step: "\<exists>fs os. k' = k\<lparr>api_faults := fs, cms := os\<rparr> \<and> children_written d (child_cm_key ` set (c # rs)) (cms k) os"
    if p: "k2 = k\<lparr>api_faults := fs2, cms := os2\<rparr>" "children_written d {child_cm_key c} (cms k) os2"
       "update_children d rs k2 = (r, k')" for k2 fs2 os2
  proof -
    obtain fs os where "k' = k2\<lparr>api_faults := fs, cms := os\<rparr>" "children_written d (child_cm_key ` set rs) (cms k2) os"
      using Cons.IH [OF p(3)] by blast
    then show ?thesis using children_written_trans [OF p(2), of "child_cm_key ` set rs" os] p(1) by auto
  qed
  have stay: "\<exists>fs os. k\<lparr>api_faults := fs2\<rparr> = k\<lparr>api_faults := fs, cms := os\<rparr> \<and> children_written d A (cms k) os" for fs2 A
    by (rule exI [of _ fs2], rule exI [of _ "cms k"]) (simp add: children_written_refl)
  show ?case
  proof (cases m)
    case (Inl err)
    then have "k' = k1" using Cons.prems m by (simp add: and_then_def in_context_def)
    then show ?thesis using k1 stay by simp
  next
    case (Inr cm)
    show ?thesis
    proof (cases cm)
      case None
      then have "update_children d rs k1 = (r, k')" using Cons.prems m Inr by (simp add: and_then_def in_context_def)
      then show ?thesis using step [of k1 "cms k" fs1] k1 children_written_refl by simp
    next
      case (Some own)
      obtain r2 k2 where u: "update_config_data own d k1 = (r2, k2)" by fastforce
      have f: "find_object cm_key (child_cm_key c) (cms k1) = Some own" using found Inr Some k1 by simp
      have own: "find_object cm_key (cm_key own) (cms k1) = Some own" "cm_key own = child_cm_key c"
        using find_object_SomeD [OF f] f by simp_all
      obtain fs2 os2 where k2: "k2 = k\<lparr>api_faults := fs2, cms := os2\<rparr>" using update_config_data_spec [OF u own(1)] k1 by auto
      have w: "children_written d {child_cm_key c} (cms k) os2" using update_config_data_written [OF u own(1)] own(2) k1 k2 by simp
      have w': "children_written d (child_cm_key ` set (c # rs)) (cms k) os2"
        using children_written_trans [OF w children_written_refl [of d "child_cm_key ` set rs" os2]] by simp
      show ?thesis
      proof (cases r2)
        case (Inl err)
        then have "k' = k2" using Cons.prems m Inr Some u \<open>m = Inr cm\<close> by (simp add: child_UpdateConfigMap_def and_then_def in_context_def)
        then show ?thesis using k2 w' by blast
      next
        case (Inr un)
        then have "update_children d rs k2 = (r, k')"
          using Cons.prems m Some u \<open>m = Inr cm\<close> by (simp add: child_UpdateConfigMap_def and_then_def in_context_def)
        then show ?thesis using step [OF k2 w] by simp
      qed
    qed
  qed
qed

lemma update_children_frame:
  assumes "UpdateChildConfigMap e c k = (r, k')"
  shows "\<exists>fs os keys. k' = k\<lparr>api_faults := fs, cms := os\<rparr> \<and> children_written (cm_data (rc_configMap c)) keys (cms k) os"
proof -
  obtain r1 k1 where g: "GetChildClusters e c k = (r1, k1)" by fastforce
  obtain fs1 where k1: "k1 = k\<lparr>api_faults := fs1\<rparr>" using reads_state [OF reads_child_clusters g] by blast
  show ?thesis
  proof (cases r1)
    case (Inl err)
    then have "k' = k\<lparr>api_faults := fs1, cms := cms k\<rparr>" using assms g k1 by (auto simp: UpdateChildConfigMap_def and_then_def in_context_def)
    then show ?thesis using children_written_refl by blast
  next
    case (Inr rs)
    then have "update_children (cm_data (rc_configMap c)) rs k1 = (r, k')"
      using assms g by (simp add: UpdateChildConfigMap_def and_then_def in_context_def)
    then show ?thesis using update_children_spec k1 by fastforce
  qed
qed

lemma create_user_frame:
  assumes "create_user e opts k = (r, k')"
  shows "\<exists>fs ss us ms. k' = k\<lparr>api_faults := fs, secrets := ss, vmusers := us, mcss := ms\<rparr>"
proof -
  obtain x where "Create (op_random e) (op_environ e) opts k = (x, k')" using assms by (auto simp: create_user_def split: prod.splits option.splits)
  then show ?thesis by (rule Create_frame)
qed

section \<open>The server group\<close>

definition group_key :: "regional_config_map \<Rightarrow> string \<times> string" where
  "group_key c = (rc_clusterNamespace c, GetPromxyServerGroupName (cm_name (rc_configMap c)) (cm_namespace (rc_configMap c)))"

text \<open>The group in the store agrees with the one that the code asks for.\<close>

lemma server_group_effect:
  assumes "CreateOrUpdatePromxyServerGroup e c k = (Inr (), k')"
  obtains fs gs metrics cfg g g0 where "k' = k\<lparr>api_faults := fs, groups := gs\<rparr>" "GetMetricsData e c = Inr metrics"
    "GetHttpClientConfig e c = Inr cfg" "find_object psg_key (group_key c) gs = Some g"
    "server_group_of c metrics cfg (new_server_group (rc_clusterNamespace c) []) = Inr g0"
    "psg_http g = psg_http g0" "psg_targets g = psg_targets g0" "psg_scheme g = psg_scheme g0" "psg_path g = psg_path g0" "psg_cluster g = psg_cluster g0"
proof -
  obtain metrics cfg where m: "GetMetricsData e c = Inr metrics" "GetHttpClientConfig e c = Inr cfg"
    using assms by (auto simp: CreateOrUpdatePromxyServerGroup_def split: sum.splits)
  let ?t = "new_server_group (rc_clusterNamespace c) (GetPromxyServerGroupName (cm_name (rc_configMap c)) (cm_namespace (rc_configMap c)))"
  obtain res where co: "CreateOrUpdate psg_key psg_version psg_bump same_server_group groups set_groups ?t (server_group_of c metrics cfg) k = (Inr res, k')"
    using assms m by (auto simp: CreateOrUpdatePromxyServerGroup_def and_then_Inr in_context_Inr)
  obtain op obj where res: "res = (op, obj)" by fastforce
  have keeps: "psg_key b = psg_key a" if "server_group_of c metrics cfg a = Inr b" for a b
    using that by (auto simp: server_group_of_def Let_def psg_key_def)
  obtain fs gs where e: "k' = k\<lparr>api_faults := fs, groups := gs\<rparr>"
      "cou_effect psg_key psg_bump same_server_group ?t (server_group_of c metrics cfg) (groups k) (Inr (op, obj)) gs"
    using psg_store.cou_spec [OF co keeps] res by (auto simp: set_groups_def)
  have key: "psg_key ?t = group_key c" by (simp add: psg_key_def new_server_group_def group_key_def)
  obtain kept obj0 base where k: "find_object psg_key (group_key c) gs = Some kept" "kept = obj \<or> same_server_group kept obj"
      "server_group_of c metrics cfg base = Inr obj0" "obj = obj0 \<or> obj = psg_bump obj0"
    by (rule cou_effect_kept [OF e(2)]) (auto simp: key)
  obtain g0 where g0: "server_group_of c metrics cfg (new_server_group (rc_clusterNamespace c) []) = Inr g0"
    by (simp add: server_group_of_def Let_def)
  have "psg_http obj0 = psg_http g0 \<and> psg_targets obj0 = psg_targets g0 \<and> psg_scheme obj0 = psg_scheme g0 \<and> psg_path obj0 = psg_path g0 \<and>
      psg_cluster obj0 = psg_cluster g0"
    using k(3) g0 by (auto simp: server_group_of_def Let_def)
  then show ?thesis using that [OF e(1) m k(1) g0] k(2,4) by (auto simp: same_server_group_def psg_bump_def)
qed

section \<open>Storage connections\<close>

lemma connection_effect:
  assumes "storage_connection_step e c endpoint msg kind cluster name k = (Inr (), k')"
  obtains fs cs u cfg where "k' = k\<lparr>api_faults := fs, conns := cs\<rparr>" "url_parse e endpoint = Inr u" "GetHttpClientConfig e c = Inr cfg"
    "cluster = [] \<Longrightarrow> cs = conns k"
    "\<And>x. x \<noteq> (rc_clusterNamespace c, name) \<Longrightarrow> find_object conn_key x cs = find_object conn_key x (conns k)"
    "cluster \<noteq> [] \<Longrightarrow> \<exists>conn. find_object conn_key (rc_clusterNamespace c, name) cs = Some conn \<and>
       ClusterRef conn = \<lparr>RefName = cluster, RefNamespace = rc_releaseNamespace c, RefKind = kind\<rparr> \<and>
       Address (TargetStorageNode conn) = Host u @ Path u \<and> SecretName (NodeSecret (TargetStorageNode conn)) = BuildSecretName (admin_name c) \<and>
       TlsEnabled (TargetStorageNode conn) = (Scheme u = ''https'') \<and> TlsInsecureSkipVerify (TargetStorageNode conn) = insecure_skip_verify c cfg"
proof -
  obtain cfg u where cu: "GetHttpClientConfig e c = Inr cfg" "url_parse e endpoint = Inr u"
    using assms by (auto simp: storage_connection_step_def split: sum.splits)
  show ?thesis
  proof (cases "cluster = []")
    case True
    then have "k' = k\<lparr>api_faults := api_faults k, conns := conns k\<rparr>" using assms cu by (simp add: storage_connection_step_def)
    then show ?thesis using that [OF _ cu(2,1)] True by blast
  next
    case False
    let ?t = "new_connection (rc_clusterNamespace c) name" and ?m = "connection_of c kind cluster u (insecure_skip_verify c cfg)"
    obtain res where co: "CreateOrUpdate conn_key conn_version conn_bump same_connection conns set_conns ?t ?m k = (Inr res, k')"
      using assms cu False by (auto simp: storage_connection_step_def and_then_Inr in_context_Inr)
    obtain op obj where res: "res = (op, obj)" by fastforce
    have keeps: "conn_key b = conn_key a" if "?m a = Inr b" for a b using that by (auto simp: connection_of_def conn_key_def)
    obtain fs cs where e: "k' = k\<lparr>api_faults := fs, conns := cs\<rparr>"
        "cou_effect conn_key conn_bump same_connection ?t ?m (conns k) (Inr (op, obj)) cs"
      using conn_store.cou_spec [OF co keeps] res by (auto simp: set_conns_def)
    have key: "conn_key ?t = (rc_clusterNamespace c, name)" by (simp add: conn_key_def new_connection_def)
    obtain kept obj0 base where kept: "find_object conn_key (rc_clusterNamespace c, name) cs = Some kept" "kept = obj \<or> same_connection kept obj"
        "?m base = Inr obj0" "obj = obj0 \<or> obj = conn_bump obj0"
      by (rule cou_effect_kept [OF e(2)]) (auto simp: key)
    have "ClusterRef kept = ClusterRef obj0 \<and> TargetStorageNode kept = TargetStorageNode obj0"
      using kept(2,4) by (auto simp: same_connection_def conn_bump_def)
    then show ?thesis
      using that [OF e(1) cu(2,1)] cou_effect_other [OF e(2)] kept(1,3) False key by (auto simp: connection_of_def)
  qed
qed

section \<open>Reconciliation\<close>

lemma regional_steps:
  assumes "regional_Reconcile e c k = (Inr (), k')"
  obtains k1 k2 k3 k4 k5 k6 k7 where "CreateVmRulesConfigMap e c k = (Inr (), k1)" "CreateOrUpdateMcsForVmRulesPropagation e c k1 = (Inr (), k2)"
    "UpdateChildConfigMap e c k2 = (Inr (), k3)" "regional_CreateVMUser e c k3 = (Inr (), k4)"
    "CreateOrUpdatePromxyServerGroup e c k4 = (Inr (), k5)" "CreateOrUpdateTracesStorageConnection e c k5 = (Inr (), k6)"
    "CreateOrUpdateLogsStorageConnection e c k6 = (Inr (), k7)" "CreateOrUpdateAuditLogsStorageConnection e c k7 = (Inr (), k')"
  using assms by (auto simp: regional_Reconcile_def and_then_Inr in_context_Inr)

text \<open>What the last four steps leave of the state after the credentials.\<close>

lemma after_credentials:
  assumes "regional_Reconcile e c k = (Inr (), k')" "wf_secrets (secrets k)"
  obtains k3 k4 k5 where "UpdateChildConfigMap e c k3 = (Inr (), k4)" "\<exists>fs ms os. k3 = k\<lparr>api_faults := fs, cms := os, mcss := ms\<rparr>"
    "find_object cm_key (cm_key (vm_rules_config_map e c)) (cms k3) =
       Some (case find_object cm_key (cm_key (vm_rules_config_map e c)) (cms k) of None \<Rightarrow> vm_rules_config_map e c | Some cm \<Rightarrow> cm)"
    "cms k' = cms k4" "groups k' = groups k5"
    "\<exists>k. CreateOrUpdatePromxyServerGroup e c k = (Inr (), k5)"
    "creds_ready (admin_options (op_environ e) c) (secrets k')" "user_ready (op_environ e) (admin_options (op_environ e) c) (vmusers k')"
    "mcs_ready (op_environ e) (admin_options (op_environ e) c) (mcss k')"
proof -
  obtain k1 k2 k3 k4 k5 k6 k7 where s: "CreateVmRulesConfigMap e c k = (Inr (), k1)" "CreateOrUpdateMcsForVmRulesPropagation e c k1 = (Inr (), k2)"
    "UpdateChildConfigMap e c k2 = (Inr (), k3)" "regional_CreateVMUser e c k3 = (Inr (), k4)"
    "CreateOrUpdatePromxyServerGroup e c k4 = (Inr (), k5)" "CreateOrUpdateTracesStorageConnection e c k5 = (Inr (), k6)"
    "CreateOrUpdateLogsStorageConnection e c k6 = (Inr (), k7)" "CreateOrUpdateAuditLogsStorageConnection e c k7 = (Inr (), k')"
    by (rule regional_steps [OF assms(1)])
  let ?rules = "cm_key (vm_rules_config_map e c)"
  obtain fs1 os where k1: "k1 = k\<lparr>api_faults := fs1, cms := os\<rparr>"
      "find_object cm_key ?rules os = Some (case find_object cm_key ?rules (cms k) of None \<Rightarrow> vm_rules_config_map e c | Some cm \<Rightarrow> cm)"
    using vm_rules_effect [OF s(1)] by (auto split: option.split simp del: split_paired_All)
  obtain fs2 ms where "k2 = k1\<lparr>api_faults := fs2, mcss := ms\<rparr>" using rules_propagation_frame [OF s(2)] by blast
  then have k2: "k2 = k\<lparr>api_faults := fs2, cms := os, mcss := ms\<rparr>" using k1 by simp
  have k3: "secrets k3 = secrets k" using update_children_frame [OF s(3)] k2 by auto
  have cr: "Create (op_random e) (op_environ e) (admin_options (op_environ e) c) k3 = (None, k4)"
    using s(4) by (auto simp: regional_CreateVMUser_def create_user_def split: prod.splits option.splits)
  have k4: "cms k4 = cms k3" using Create_frame [OF cr] by auto
  obtain fs gs where k5: "k5 = k4\<lparr>api_faults := fs, groups := gs\<rparr>" by (rule server_group_effect [OF s(5)])
  obtain fs1 cs1 where k6: "k6 = k5\<lparr>api_faults := fs1, conns := cs1\<rparr>" by (rule connection_effect [OF s(6) [unfolded CreateOrUpdateTracesStorageConnection_def]])
  obtain fs2 cs2 where k7: "k7 = k6\<lparr>api_faults := fs2, conns := cs2\<rparr>" by (rule connection_effect [OF s(7) [unfolded CreateOrUpdateLogsStorageConnection_def]])
  obtain fs3 cs3 where k': "k' = k7\<lparr>api_faults := fs3, conns := cs3\<rparr>" by (rule connection_effect [OF s(8) [unfolded CreateOrUpdateAuditLogsStorageConnection_def]])
  have "secrets k' = secrets k4" "vmusers k' = vmusers k4" "mcss k' = mcss k4" "cms k' = cms k3" "groups k' = groups k5"
    using k4 k5 k6 k7 k' by simp_all
  moreover have "find_object cm_key ?rules (cms k2) = Some (case find_object cm_key ?rules (cms k) of None \<Rightarrow> vm_rules_config_map e c | Some cm \<Rightarrow> cm)"
    using k1(2) k2 by simp
  ultimately show ?thesis using that [OF s(3)] Create_ready [OF cr] k2 k3 assms(2) s(5) by auto
qed

lemma creds_ready_copy:
  "creds_ready opts os \<Longrightarrow> \<exists>t. find_object sec_key (KofNamespace, BuildSecretName (OptName opts)) os = Some t \<and>
     get_str (sec_data t) VMUser.PasswordKey \<noteq> []"
  unfolding creds_ready_def copy_key_def using same_map_get_str by metis

section \<open>Children\<close>

lemma children_writtenD:
  "children_written d keys os os' \<Longrightarrow> find_object cm_key x os' = Some cm' \<Longrightarrow>
     \<exists>cm. find_object cm_key x os = Some cm \<and> cm_labels cm' = cm_labels cm \<and> (cm_data cm' = cm_data cm \<or> cm_data cm' = d)"
  unfolding children_written_def by (drule spec [of _ x]) (auto split: option.splits)

lemma update_children_done:
  assumes "update_children d rs k = (Inr (), k')" "wf_map d" "c \<in> set rs" "find_object cm_key (child_cm_key c) (cms k') = Some own"
  shows "maps_Equal (cm_data own) d"
  using assms
proof (induction rs arbitrary: k)
  case (Cons r rs)
  obtain m k1 where m: "child_GetConfigMap r k = (Inr m, k1)" using Cons.prems(1) by (auto simp: and_then_Inr in_context_Inr)
  obtain fs1 where k1: "k1 = k\<lparr>api_faults := fs1\<rparr>" and found: "find_object cm_key (child_cm_key r) (cms k) = m"
    using get_config_map_spec [OF m [unfolded child_GetConfigMap_def]] unfolding child_cm_key_def by auto
  obtain k2 where u: "update_children d rs k2 = (Inr (), k')" and k2: "case m of None \<Rightarrow> k2 = k1 | Some cm \<Rightarrow> update_config_data cm d k1 = (Inr (), k2)"
    using Cons.prems(1) m by (cases m) (auto simp: child_UpdateConfigMap_def and_then_Inr in_context_Inr)
  show ?case
  proof (cases "c = r")
    case True
    obtain cm2 where cm2: "find_object cm_key (child_cm_key r) (cms k2) = Some cm2" "cm_data own = cm_data cm2 \<or> cm_data own = d"
      using update_children_spec [OF u] children_writtenD [of d _ "cms k2" "cms k'"] Cons.prems(4) True by fastforce
    show ?thesis
    proof (cases m)
      case None
      then show ?thesis using cm2(1) k2 k1 found by simp
    next
      case (Some cm)
      have key: "cm_key cm = child_cm_key r" using found Some find_object_SomeD by fastforce
      have "update_config_data cm d k1 = (Inr (), k2)" using k2 Some by simp
      from update_config_data_spec [OF this] have "cm_data cm2 = d \<or> maps_Equal (cm_data cm2) d"
        using found Some k1 key cm2(1) by (auto simp del: split_paired_All)
      then show ?thesis using cm2(2) maps_Equal_refl [OF assms(2)] by auto
    qed
  qed (use Cons.IH [OF u] Cons.prems in auto)
qed simp

section \<open>Progress\<close>

lemma vm_rules_succeeds: "api_faults k = [] \<Longrightarrow> \<exists>os. CreateVmRulesConfigMap e c k = (Inr (), k\<lparr>cms := os\<rparr>)"
proof -
  assume q: "api_faults k = []"
  have stay: "\<exists>os. k = k\<lparr>cms := os\<rparr>" by (rule exI [of _ "cms k"]) simp
  show ?thesis using q stay
    by (auto simp: CreateVmRulesConfigMap_def EnsureCreated_def api_create_def create_object_def api_ctx_def and_then_def in_context_def set_cms_def
        split: option.split)
qed

lemma rules_propagation_succeeds: "api_faults k = [] \<Longrightarrow> \<exists>ms. CreateOrUpdateMcsForVmRulesPropagation e c k = (Inr (), k\<lparr>mcss := ms\<rparr>)"
proof -
  assume q: "api_faults k = []"
  have "\<exists>ms. k = k\<lparr>mcss := ms\<rparr>" by (rule exI [of _ "mcss k"]) simp
  then show ?thesis using propagate_succeeds [OF q] by (auto simp: CreateOrUpdateMcsForVmRulesPropagation_def)
qed

lemma update_children_succeeds: "api_faults k = [] \<Longrightarrow> \<exists>os. update_children d rs k = (Inr (), k\<lparr>cms := os\<rparr>)"
proof (induction rs arbitrary: k)
  case Nil
  then show ?case by (intro exI [of _ "cms k"]) simp
next
  case (Cons r rs)
  show ?case
  proof (cases "find_object cm_key (child_cm_key r) (cms k)")
    case None
    then show ?thesis using Cons by (simp add: child_GetConfigMap_def get_config_map_idle child_cm_key_def and_then_def in_context_def)
  next
    case (Some cm)
    then have "cm_key cm = child_cm_key r" by (auto dest: find_object_SomeD)
    then obtain os where "update_config_data cm d k = (Inr (), k\<lparr>cms := os\<rparr>)"
      using update_config_data_succeeds [OF Cons.prems, of cm d] Some by auto
    then show ?thesis using Some Cons.prems Cons.IH [of "k\<lparr>cms := os\<rparr>"]
      by (auto simp: child_GetConfigMap_def get_config_map_idle child_cm_key_def child_UpdateConfigMap_def and_then_def in_context_def)
  qed
qed

lemma server_group_succeeds:
  assumes "api_faults k = []" "GetMetricsData e c = Inr metrics" "GetHttpClientConfig e c = Inr cfg"
  shows "\<exists>gs. CreateOrUpdatePromxyServerGroup e c k = (Inr (), k\<lparr>groups := gs\<rparr>)"
proof -
  let ?t = "new_server_group (rc_clusterNamespace c) (GetPromxyServerGroupName (cm_name (rc_configMap c)) (cm_namespace (rc_configMap c)))"
  obtain res gs where "CreateOrUpdate psg_key psg_version psg_bump same_server_group groups set_groups ?t (server_group_of c metrics cfg) k =
      (Inr res, set_groups gs k)"
    using psg_store.cou_succeeds [OF assms(1), of "server_group_of c metrics cfg" same_server_group ?t]
    by (auto simp: server_group_of_def Let_def psg_key_def)
  then show ?thesis using assms by (auto simp: CreateOrUpdatePromxyServerGroup_def and_then_def in_context_def set_groups_def)
qed

lemma connection_succeeds:
  assumes "api_faults k = []" "url_parse e endpoint = Inr u" "GetHttpClientConfig e c = Inr cfg"
  shows "\<exists>cs. storage_connection_step e c endpoint msg kind cluster name k = (Inr (), k\<lparr>conns := cs\<rparr>)"
proof (cases "cluster = []")
  case True
  then show ?thesis using assms by (intro exI [of _ "conns k"]) (simp add: storage_connection_step_def)
next
  case False
  obtain res cs where "CreateOrUpdate conn_key conn_version conn_bump same_connection conns set_conns (new_connection (rc_clusterNamespace c) name)
      (connection_of c kind cluster u (insecure_skip_verify c cfg)) k = (Inr res, set_conns cs k)"
    using conn_store.cou_succeeds [OF assms(1), of "connection_of c kind cluster u (insecure_skip_verify c cfg)" same_connection
        "new_connection (rc_clusterNamespace c) name"]
    by (auto simp: connection_of_def conn_key_def)
  then show ?thesis using assms False by (auto simp: storage_connection_step_def and_then_def in_context_def set_conns_def)
qed

lemma regional_succeeds:
  assumes "api_faults k = []" "\<forall>i. \<exists>b. op_random e i = Inr b" "\<exists>m. GetMetricsData e c = Inr m" "\<exists>h. GetHttpClientConfig e c = Inr h"
    and parse: "\<And>ep x. \<exists>u. url_parse e (GetReadEndpoint e c ep x) = Inr u"
    and children: "\<And>os ms. \<exists>rs. GetChildClusters e c (k\<lparr>cms := os, mcss := ms\<rparr>) = (Inr rs, k\<lparr>cms := os, mcss := ms\<rparr>)"
  shows "\<exists>k'. regional_Reconcile e c k = (Inr (), k')"
proof -
  obtain os where s1: "CreateVmRulesConfigMap e c k = (Inr (), k\<lparr>cms := os\<rparr>)" using vm_rules_succeeds [OF assms(1)] by blast
  obtain ms where s2: "CreateOrUpdateMcsForVmRulesPropagation e c (k\<lparr>cms := os\<rparr>) = (Inr (), k\<lparr>cms := os, mcss := ms\<rparr>)"
    using rules_propagation_succeeds [of "k\<lparr>cms := os\<rparr>"] assms(1) by auto
  let ?k2 = "k\<lparr>cms := os, mcss := ms\<rparr>"
  obtain rs where rs: "GetChildClusters e c ?k2 = (Inr rs, ?k2)" using children by blast
  obtain os3 where "update_children (cm_data (rc_configMap c)) rs ?k2 = (Inr (), ?k2\<lparr>cms := os3\<rparr>)"
    using update_children_succeeds [of ?k2] assms(1) by auto
  then have s3: "UpdateChildConfigMap e c ?k2 = (Inr (), ?k2\<lparr>cms := os3\<rparr>)" using rs by (simp add: UpdateChildConfigMap_def and_then_def in_context_def)
  have "OptName (admin_options (op_environ e) c) \<noteq> []" by (simp add: admin_options_def admin_name_def GetVMUserAdminName_def Adler32Name_def)
  then obtain k4 where "Create (op_random e) (op_environ e) (admin_options (op_environ e) c) (?k2\<lparr>cms := os3\<rparr>) = (None, k4)" and q4: "api_faults k4 = []"
    using Create_succeeds [OF _ _ assms(2), of "?k2\<lparr>cms := os3\<rparr>"] assms(1) by auto
  then have s4: "regional_CreateVMUser e c (?k2\<lparr>cms := os3\<rparr>) = (Inr (), k4)" by (simp add: regional_CreateVMUser_def create_user_def)
  obtain gs where s5: "CreateOrUpdatePromxyServerGroup e c k4 = (Inr (), k4\<lparr>groups := gs\<rparr>)" using server_group_succeeds [OF q4] assms(3,4) by blast
  have conn: "\<exists>cs. storage_connection_step e c (GetReadEndpoint e c ep x) msg kind cl name k = (Inr (), k\<lparr>conns := cs\<rparr>)"
    if "api_faults k = []" for ep x msg kind cl name k
  proof -
    obtain u h where "url_parse e (GetReadEndpoint e c ep x) = Inr u" "GetHttpClientConfig e c = Inr h" using parse assms(4) by blast
    then show ?thesis by (rule connection_succeeds [OF that])
  qed
  obtain c6 where s6: "CreateOrUpdateTracesStorageConnection e c (k4\<lparr>groups := gs\<rparr>) = (Inr (), k4\<lparr>groups := gs, conns := c6\<rparr>)"
    using conn [of "k4\<lparr>groups := gs\<rparr>"] q4 unfolding CreateOrUpdateTracesStorageConnection_def by fastforce
  obtain c7 where s7: "CreateOrUpdateLogsStorageConnection e c (k4\<lparr>groups := gs, conns := c6\<rparr>) = (Inr (), k4\<lparr>groups := gs, conns := c7\<rparr>)"
    using conn [of "k4\<lparr>groups := gs, conns := c6\<rparr>"] q4 unfolding CreateOrUpdateLogsStorageConnection_def by fastforce
  obtain c8 where "CreateOrUpdateAuditLogsStorageConnection e c (k4\<lparr>groups := gs, conns := c7\<rparr>) = (Inr (), k4\<lparr>groups := gs, conns := c8\<rparr>)"
    using conn [of "k4\<lparr>groups := gs, conns := c7\<rparr>"] q4 unfolding CreateOrUpdateAuditLogsStorageConnection_def by fastforce
  then show ?thesis using s1 s2 s3 s4 s5 s6 s7 by (simp add: regional_Reconcile_def and_then_def in_context_def)
qed

section \<open>Properties\<close>

text \<open>
  After a successful reconciliation of a regional ConfigMap, the ConfigMap of record rules exists
  and, when it was created now, is one that the alert rules controller fills; the credentials of the
  management cluster are ready, known to the storage of the regional cluster and propagated to it.
\<close>

theorem regional_reconcile_complete:
  assumes "regional_Reconcile e c k = (Inr (), k')" "wf_secrets (secrets k)"
  shows "(\<exists>cm. find_object cm_key (rc_clusterNamespace c, vmRulesConfigMapNamePrefix @ rc_clusterName c) (cms k') = Some cm \<and>
       (find_object cm_key (rc_clusterNamespace c, vmRulesConfigMapNamePrefix @ rc_clusterName c) (cms k) = None \<longrightarrow>
          is_output ns rel cm \<and> get_str (cm_labels cm) KofRecordVMRulesClusterNameLabel = rc_clusterName c)) \<and>
    creds_ready (admin_options (op_environ e) c) (secrets k') \<and> user_ready (op_environ e) (admin_options (op_environ e) c) (vmusers k') \<and>
    mcs_ready (op_environ e) (admin_options (op_environ e) c) (mcss k')"
proof -
  let ?rules = "vm_rules_config_map e c"
  have key: "cm_key ?rules = (rc_clusterNamespace c, vmRulesConfigMapNamePrefix @ rc_clusterName c)"
    by (simp add: vm_rules_config_map_def cm_key_def Let_def)
  obtain k3 k4 where s: "UpdateChildConfigMap e c k3 = (Inr (), k4)"
      "find_object cm_key (cm_key ?rules) (cms k3) = Some (case find_object cm_key (cm_key ?rules) (cms k) of None \<Rightarrow> ?rules | Some cm \<Rightarrow> cm)"
      "cms k' = cms k4"
      "creds_ready (admin_options (op_environ e) c) (secrets k')" "user_ready (op_environ e) (admin_options (op_environ e) c) (vmusers k')"
      "mcs_ready (op_environ e) (admin_options (op_environ e) c) (mcss k')"
    by (rule after_credentials [OF assms]) blast
  obtain keys where "children_written (cm_data (rc_configMap c)) keys (cms k3) (cms k4)" using update_children_frame [OF s(1)] by auto
  then obtain cm where cm: "find_object cm_key (cm_key ?rules) (cms k4) = Some cm"
      "cm_labels cm = cm_labels (case find_object cm_key (cm_key ?rules) (cms k) of None \<Rightarrow> ?rules | Some cm \<Rightarrow> cm)"
    using s(2) unfolding children_written_def by (drule_tac spec [of _ "cm_key ?rules"]) auto
  have "is_output ns rel cm \<and> get_str (cm_labels cm) KofRecordVMRulesClusterNameLabel = rc_clusterName c"
    if "cm_labels cm = cm_labels ?rules"
    using that by (simp add: is_output_def generated_def vm_rules_config_map_def Let_def get_str_def KofGeneratedLabel_def ManagedByLabel_def
        KofRecordVMRulesClusterNameLabel_def)
  then show ?thesis using cm s(3-6) key by auto
qed

text \<open>
  After a successful reconciliation of a regional ConfigMap, every child cluster that the controller
  finds for it and that has a ConfigMap has its data there.
\<close>

theorem children_get_regional_data:
  assumes "UpdateChildConfigMap e c k = (Inr (), k')" "GetChildClusters e c k = (Inr rs, k1)" "wf_map (cm_data (rc_configMap c))"
    and "r \<in> set rs" "find_object cm_key (child_cm_key r) (cms k') = Some own"
  shows "maps_Equal (cm_data own) (cm_data (rc_configMap c))"
proof -
  have "update_children (cm_data (rc_configMap c)) rs k1 = (Inr (), k')"
    using assms(1,2) by (simp add: UpdateChildConfigMap_def and_then_def in_context_def)
  then show ?thesis using update_children_done assms(3-5) by blast
qed

text \<open>The port of an endpoint: its own, or the one of its scheme.\<close>

definition endpoint_target :: "url_parts \<Rightarrow> string option" where
  "endpoint_target u =
     (if Port u \<noteq> [] then Some (Hostname u @ '':'' @ Port u)
      else if Scheme u = ''http'' then Some (Hostname u @ '':80'')
      else if Scheme u = ''https'' then Some (Hostname u @ '':443'')
      else None)"

text \<open>
  C29: Promxy can authenticate: after a successful reconciliation of a regional ConfigMap without HTTP
  settings of its own, the server group of the cluster exists, and what the controller of promxy makes
  of it, reading from the namespace \<open>kof\<close>, leads to the endpoint of the cluster for reading metrics
  (its scheme, its host with the port, its path), with certificates checked, and has the password that
  the VMUser of the management cluster refers to.
\<close>

theorem promxy_authenticates:
  assumes "regional_Reconcile e c k = (Inr (), k')" "wf_secrets (secrets k)" "RegionalHTTPClientConfig (rc_configData c) = []"
  shows "\<exists>g cg url target user spec s. find_object psg_key (group_key c) (groups k') = Some g \<and>
    config_groups KofNamespace [g] (k'\<lparr>api_faults := []\<rparr>) = (Inr [cg], k'\<lparr>api_faults := []\<rparr>) \<and>
    url_parse e (GetReadEndpoint e c ReadMetrics (ReadMetricsEndpoint (rc_configData c))) = Inr url \<and>
    PScheme cg = Scheme url \<and> PathPrefix cg = Path url \<and> endpoint_target url = Some target \<and> Targets cg = [target] \<and>
    PClusterName cg = rc_clusterName c \<and> \<not> TlsSkipVerify cg \<and> PDialTimeout cg = ''5s'' \<and>
    find_object vu_key (rc_clusterNamespace c, ''kof-vmuser-'' @ admin_name c) (vmusers k') = Some user \<and>
    login_works (admin_name c) (secrets k') user spec \<and>
    find_object sec_key (vu_namespace user, PasswordRefName spec) (secrets k') = Some s \<and>
    BasicAuthEnabled cg \<and> Password cg = get_str (sec_data s) (PasswordRefKey spec) \<and> Password cg \<noteq> [] \<and>
    PUsername cg = get_str (sec_data s) ''username''"
proof -
  let ?opts = "admin_options (op_environ e) c"
  obtain k5 k4 where s: "CreateOrUpdatePromxyServerGroup e c k4 = (Inr (), k5)" "groups k' = groups k5"
      "creds_ready ?opts (secrets k')" "user_ready (op_environ e) ?opts (vmusers k')"
    by (rule after_credentials [OF assms(1,2)]) blast
  obtain fs gs metrics cfg g g0 where g: "k5 = k4\<lparr>api_faults := fs, groups := gs\<rparr>" "GetMetricsData e c = Inr metrics"
    "GetHttpClientConfig e c = Inr cfg" "find_object psg_key (group_key c) gs = Some g"
    "server_group_of c metrics cfg (new_server_group (rc_clusterNamespace c) []) = Inr g0"
    "psg_http g = psg_http g0" "psg_targets g = psg_targets g0" "psg_scheme g = psg_scheme g0" "psg_path g = psg_path g0"
    "psg_cluster g = psg_cluster g0"
    by (rule server_group_effect [OF s(1)]) blast
  have cfg: "cfg = None" using g(3) assms(3) by (simp add: GetHttpClientConfig_def)
  have http: "psg_http g = \<lparr>DialTimeout = defaultDialTimeout, InsecureSkipVerify = False,
      BasicAuth = \<lparr>CredentialsSecretName = BuildSecretName (admin_name c), BasicUsernameKey = VMUser.UsernameKey, BasicPasswordKey = VMUser.PasswordKey\<rparr>\<rparr>"
      "psg_targets g = [MetricsTarget metrics]" "psg_scheme g = Scheme (MetricsURL metrics)" "psg_path g = Path (MetricsURL metrics)"
      "psg_cluster g = rc_clusterName c"
    using g(5-10) cfg by (auto simp: server_group_of_def insecure_skip_verify_def Let_def)
  have url: "url_parse e (GetReadEndpoint e c ReadMetrics (ReadMetricsEndpoint (rc_configData c))) = Inr (MetricsURL metrics)"
      "endpoint_target (MetricsURL metrics) = Some (MetricsTarget metrics)"
    using g(2) by (auto simp: GetMetricsData_def endpoint_target_def parsePort_def Let_def split: sum.splits if_splits)
  obtain user spec where u: "find_object vu_key (OptNamespace ?opts, BuildVMUserName (OptName ?opts)) (vmusers k') = Some user"
    "login_works (OptName ?opts) (secrets k') user spec" "PasswordRefName spec = BuildSecretName (OptName ?opts)"
    "PasswordRefKey spec = VMUser.PasswordKey"
    using ready_login [OF s(3,4)] by blast
  have ns: "vu_namespace user = OptNamespace ?opts" using find_object_SomeD [OF u(1)] by (simp add: vu_key_def)
  obtain t0 t where t: "find_object sec_key (creds_key ?opts) (secrets k') = Some t0" "find_object sec_key (copy_key ?opts) (secrets k') = Some t"
      "get_str (sec_data t0) VMUser.PasswordKey \<noteq> []" "same_map (sec_data t) (sec_data t0)"
    using s(3) by (auto simp: creds_ready_def)
  note same = same_map_get_str [OF t(4)]
  have cg: "config_groups KofNamespace [g] (k'\<lparr>api_faults := []\<rparr>) = (Inr [config_group g True (sec_data t)], k'\<lparr>api_faults := []\<rparr>)"
    using http(1) t(2) by (simp add: GetSecret_def api_get_def and_then_def in_context_def BuildSecretName_def copy_key_def admin_options_def)
  have dial: "Duration_String defaultDialTimeout = ''5s''"
    using Duration_String_examples(1) by (simp add: defaultDialTimeout_def second_def)
  show ?thesis
    using g(1,4) s(2) cg url http dial u(1,2) t(1,3) u(3,4) ns same
    by (intro exI [of _ g] exI [of _ "config_group g True (sec_data t)"] exI [of _ "MetricsURL metrics"] exI [of _ "MetricsTarget metrics"]
        exI [of _ user] exI [of _ spec] exI [of _ t0])
      (simp add: config_group_def admin_options_def BuildVMUserName_def creds_key_def UsernameKey_def)
qed

text \<open>A storage cluster knows the storage of a region, with the credentials of the management cluster.\<close>

definition registered :: "operator_env \<Rightarrow> regional_config_map \<Rightarrow> string \<Rightarrow> string \<Rightarrow> string \<Rightarrow> string \<Rightarrow> storage_connection list \<Rightarrow> bool" where
  "registered e c endpoint kind cluster name cs \<longleftrightarrow>
     (\<exists>u conn. url_parse e endpoint = Inr u \<and> find_object conn_key (rc_clusterNamespace c, name) cs = Some conn \<and>
        ClusterRef conn = \<lparr>RefName = cluster, RefNamespace = rc_releaseNamespace c, RefKind = kind\<rparr> \<and>
        Address (TargetStorageNode conn) = Host u @ Path u \<and> TlsEnabled (TargetStorageNode conn) = (Scheme u = ''https'') \<and>
        SecretName (NodeSecret (TargetStorageNode conn)) = BuildSecretName (admin_name c))"

lemma step_registered:
  assumes "storage_connection_step e c endpoint msg kind cluster name k = (Inr (), k')" "cluster \<noteq> []"
  shows "registered e c endpoint kind cluster name (conns k') \<and>
    (\<forall>x. x \<noteq> (rc_clusterNamespace c, name) \<longrightarrow> find_object conn_key x (conns k') = find_object conn_key x (conns k))"
  by (rule connection_effect [OF assms(1)]) (use assms(2) in \<open>auto simp: registered_def\<close>)

lemma connection_names_differ:
  "GetTracesStorageConnectionName n ns \<noteq> GetLogsStorageConnectionName n ns"
  "GetTracesStorageConnectionName n ns \<noteq> GetAuditLogsStorageConnectionName n ns"
  "GetLogsStorageConnectionName n ns \<noteq> GetAuditLogsStorageConnectionName n ns"
  by (simp_all add: GetTracesStorageConnectionName_def GetLogsStorageConnectionName_def GetAuditLogsStorageConnectionName_def FNVName_def)

text \<open>
  C30: After a successful reconciliation of a regional ConfigMap, with storage clusters for logs and
  traces named in the environment, these know the region's storage for traces, logs and audit logs:
  three connections with the addresses of its endpoints and the credentials of the management
  cluster, none of which replaces another.
\<close>

theorem storage_connections_registered:
  assumes "regional_Reconcile e c k = (Inr (), k')" "GetVLClusterName (op_environ e) \<noteq> []" "GetVTClusterName (op_environ e) \<noteq> []"
  shows "let n = cm_name (rc_configMap c); ns = cm_namespace (rc_configMap c); d = rc_configData c
     in registered e c (GetReadEndpoint e c ReadTraces (ReadTracesEndpoint d)) ''VTCluster'' (GetVTClusterName (op_environ e))
          (GetTracesStorageConnectionName n ns) (conns k') \<and>
        registered e c (GetReadEndpoint e c ReadLogs (ReadLogsEndpoint d)) ''VLCluster'' (GetVLClusterName (op_environ e))
          (GetLogsStorageConnectionName n ns) (conns k') \<and>
        registered e c (GetReadEndpoint e c ReadAuditLogs (ReadAuditLogsEndpoint d)) ''VLCluster'' (GetVLClusterName (op_environ e))
          (GetAuditLogsStorageConnectionName n ns) (conns k')"
proof -
  obtain k5 k6 k7 where s: "CreateOrUpdateTracesStorageConnection e c k5 = (Inr (), k6)"
    "CreateOrUpdateLogsStorageConnection e c k6 = (Inr (), k7)" "CreateOrUpdateAuditLogsStorageConnection e c k7 = (Inr (), k')"
    by (rule regional_steps [OF assms(1)]) blast
  note t = step_registered [OF s(1) [unfolded CreateOrUpdateTracesStorageConnection_def] assms(3)]
  note l = step_registered [OF s(2) [unfolded CreateOrUpdateLogsStorageConnection_def] assms(2)]
  note a = step_registered [OF s(3) [unfolded CreateOrUpdateAuditLogsStorageConnection_def] assms(2)]
  show ?thesis using t l a connection_names_differ by (auto simp: Let_def registered_def)
qed

section \<open>Shared names\<close>

text \<open>
  Discovery by location keeps a child with its regional cluster, but the controller of another regional
  ConfigMap in the same location overwrites the data of the child, even from another namespace.
\<close>

definition ex_rival :: config_map where
  "ex_rival = (hd (cms ex_regional))\<lparr>cm_namespace := ''other'', cm_name := ''kof-r0'',
     cm_data := map_set RegionalClusterNamespaceKey ''other'' (map_set RegionalClusterNameKey ''r0'' (cm_data (hd (cms ex_regional))))\<rparr>"

definition ex_rival_config :: regional_config_map where
  "ex_rival_config = \<lparr>rc_clusterName = ''r0'', rc_clusterNamespace = ''other'', rc_releaseNamespace = ''kof'', rc_configMap = ex_rival,
     rc_owner = \<lparr>owner_api = ''v1'', owner_kind = ''ConfigMap'', owner_name = ''kof-r0'', owner_uid = ''uid''\<rparr>,
     rc_configData = NewConfigDataFromConfigMap (cm_data ex_rival), rc_isKcmRegionCluster = False\<rparr>"

lemma rival_takes_child:
  "\<not> CrossNamespaceEnabled (op_environ ex_op)"
  "map_option (\<lambda>cm. get_str (cm_data cm) RegionalClusterNameKey) (find_object cm_key (child_cm_key ex_child) (cms ex_two)) = Some ''r1''"
  "fst (UpdateChildConfigMap ex_op ex_rival_config ex_two) = Inr ()"
  "map_option (\<lambda>cm. (get_str (cm_data cm) RegionalClusterNameKey, get_str (cm_data cm) RegionalClusterNamespaceKey))
     (find_object cm_key (child_cm_key ex_child) (cms (snd (UpdateChildConfigMap ex_op ex_rival_config ex_two)))) = Some (''r0'', ''other'')"
  "\<not> in_discovery_scope ex_op ex_child ex_rival"
  by code_simp+

text \<open>
  The propagation of a child's ConfigMap is named after the cluster without its namespace: of two
  children with one name, the second takes the first one's place.
\<close>

lemma child_propagation_replaced:
  assumes "CreateConfigMapPropagation e c' k = (Inr (), k')" "ch_isClusterInRegion c'" "ch_clusterName c = ch_clusterName c'"
  shows "\<exists>m spec. find_object mcs_name (GetChildConfigMapPropagationName (ch_clusterName c)) (mcss k') = Some m \<and>
    mcs_spec_of m = Some spec \<and> map TRNamespace (TemplateResourceRefs spec) = [ch_clusterNamespace c']"
proof -
  let ?t = "\<lparr>mcs_name = GetChildConfigMapPropagationName (ch_clusterName c), mcs_labels = [], mcs_spec_of = None, mcs_version = 0\<rparr>"
  let ?spec = "propagation_spec (op_environ e) (FNVName ''kof-child-config'' (ch_clusterNamespace c' @ ''/'' @ ch_clusterName c'))
           ''childConfig'' (GetConfigMapName (ch_clusterName c')) (ch_clusterNamespace c')"
  let ?m = "mutate_propagation (ch_clusterName c') (ch_clusterNamespace c') ?spec"
  obtain op obj where co: "CreateOrUpdate mcs_name mcs_version mcs_bump same_mcs mcss set_mcss ?t ?m k = (Inr (op, obj), k')"
    using assms by (auto simp: CreateConfigMapPropagation_def propagate_def and_then_Inr in_context_Inr)
  obtain fs os where e: "k' = set_mcss os (k\<lparr>api_faults := fs\<rparr>)" "cou_effect mcs_name mcs_bump same_mcs ?t ?m (mcss k) (Inr (op, obj)) os"
    using mcs_kind.cou_spec [OF co] by (auto simp: mutate_propagation_def)
  obtain kept obj0 base where "find_object mcs_name (mcs_name ?t) os = Some kept" "kept = obj \<or> same_mcs kept obj" "?m base = Inr obj0"
      "obj = obj0 \<or> obj = mcs_bump obj0"
    by (rule cou_effect_kept [OF e(2)]) auto
  then show ?thesis using e(1) by (auto simp: set_mcss_def mutate_propagation_def same_mcs_def mcs_bump_def propagation_spec_def)
qed

text \<open>
  Names of users are Adler-32 checksums: children whose names differ like \<open>aca\<close> and \<open>bab\<close> have the same
  user, so the last one to be reconciled decides the tenant of both.
\<close>

lemma child_users_shared:
  "GetVMUserName (GetConfigMapName (p @ ''aca'' @ q)) ns = GetVMUserName (GetConfigMapName (p @ ''bab'' @ q)) ns"
  using adler32_collision [of "''kof-cluster-config-'' @ p" "q @ ''/'' @ ns"] by (simp add: GetVMUserName_def GetConfigMapName_def Adler32Checksum_def)

text \<open>A regional cluster may be named so that its ConfigMap is the one of a child.\<close>

lemma config_map_names_overlap: "GetRegionalClusterConfigMapName (''cluster-config-'' @ name) = GetConfigMapName name"
  by (simp add: GetRegionalClusterConfigMapName_def GetConfigMapName_def)

section \<open>Examples\<close>

definition ex_rc :: regional_config_map where
  "ex_rc = ex_rival_config\<lparr>rc_clusterName := ''r1'', rc_clusterNamespace := ''kcm'', rc_configMap := hd (cms ex_regional),
     rc_configData := NewConfigDataFromConfigMap (cm_data (hd (cms ex_regional)))\<rparr>"

definition ex_alone :: op_api where
  "ex_alone = ex_regional\<lparr>deployments := []\<rparr>"

lemma ex_rc_config: "RegionalHTTPClientConfig (rc_configData ex_rc) = []" "RegionalClusterCloud (rc_configData ex_rc) = ''aws''"
    "isRegionlessConfigMap (rc_configMap ex_rc) = False" "find_object cm_key (''kcm'', ''kof-record-vmrules-r1'') (cms ex_alone) = None"
    "GetVLClusterName (op_environ ex_op) \<noteq> []" "GetVTClusterName (op_environ ex_op) \<noteq> []"
  by code_simp+

lemma ex_rc_reconciled: "\<exists>k'. regional_Reconcile ex_op ex_rc ex_alone = (Inr (), k')"
proof (rule regional_succeeds)
  show "api_faults ex_alone = []" using ex_regional_data(2) by (simp add: ex_alone_def)
  show "\<forall>i. \<exists>b. op_random ex_op i = Inr b" by (rule ex_random)
  show "\<exists>m. GetMetricsData ex_op ex_rc = Inr m" by (simp add: GetMetricsData_def ex_op_def parsePort_def Let_def)
  show "\<exists>h. GetHttpClientConfig ex_op ex_rc = Inr h" using ex_rc_config(1) by (simp add: GetHttpClientConfig_def)
  show "\<exists>u. url_parse ex_op (GetReadEndpoint ex_op ex_rc ep x) = Inr u" for ep x by (simp add: ex_op_def)
  show "\<exists>rs. GetChildClusters ex_op ex_rc (ex_alone\<lparr>cms := os, mcss := ms\<rparr>) = (Inr rs, ex_alone\<lparr>cms := os, mcss := ms\<rparr>)" for os ms
    using ex_rc_config(2,3) ex_regional_data(2)
    by (simp add: GetChildClusters_def GetClusterDeployments_def api_list_def api_ctx_def and_then_def in_context_def ex_alone_def)
qed

lemma ex_alone_wf: "wf_secrets (secrets ex_alone)"
  using ex_wf_state(2) by (simp add: ex_alone_def)

theorem regional_reconcile_complete_witness:
  "\<exists>k' cm. regional_Reconcile ex_op ex_rc ex_alone = (Inr (), k') \<and>
     find_object cm_key (''kcm'', ''kof-record-vmrules-r1'') (cms k') = Some cm \<and> is_output ''kof'' ''kof'' cm"
proof -
  obtain k' where k': "regional_Reconcile ex_op ex_rc ex_alone = (Inr (), k')" using ex_rc_reconciled by blast
  then show ?thesis using regional_reconcile_complete [OF k' ex_alone_wf, of "''kof''" "''kof''"] ex_rc_config(4)
    by (auto simp: ex_rc_def vmRulesConfigMapNamePrefix_def)
qed

theorem promxy_authenticates_witness:
  "\<exists>k' g cg. regional_Reconcile ex_op ex_rc ex_alone = (Inr (), k') \<and>
     config_groups KofNamespace [g] (k'\<lparr>api_faults := []\<rparr>) = (Inr [cg], k'\<lparr>api_faults := []\<rparr>) \<and> Password cg \<noteq> [] \<and>
     PScheme cg = ''https'' \<and> Targets cg = [''vmauth.r1.example:443'']"
proof -
  obtain k' where k': "regional_Reconcile ex_op ex_rc ex_alone = (Inr (), k')" using ex_rc_reconciled by blast
  moreover have "Scheme u = ''https'' \<and> endpoint_target u = Some ''vmauth.r1.example:443''" if "url_parse ex_op x = Inr u" for x u
    using that by (auto simp: ex_op_def endpoint_target_def)
  ultimately show ?thesis using promxy_authenticates [OF k' ex_alone_wf ex_rc_config(1)] by fastforce
qed

theorem storage_connections_registered_witness:
  "\<exists>k'. regional_Reconcile ex_op ex_rc ex_alone = (Inr (), k') \<and> (\<exists>conn \<in> set (conns k'). RefKind (ClusterRef conn) = ''VTCluster'')"
proof -
  obtain k' where k': "regional_Reconcile ex_op ex_rc ex_alone = (Inr (), k')" using ex_rc_reconciled by blast
  have "registered ex_op ex_rc (GetReadEndpoint ex_op ex_rc ReadTraces (ReadTracesEndpoint (rc_configData ex_rc))) ''VTCluster''
      (GetVTClusterName (op_environ ex_op))
      (GetTracesStorageConnectionName (cm_name (rc_configMap ex_rc)) (cm_namespace (rc_configMap ex_rc))) (conns k')"
    using storage_connections_registered [OF k' ex_rc_config(5,6)] by (simp add: Let_def)
  then have "\<exists>conn \<in> set (conns k'). RefKind (ClusterRef conn) = ''VTCluster''"
    by (auto simp: registered_def intro!: bexI dest!: find_object_SomeD)
  then show ?thesis using k' by blast
qed

theorem children_get_regional_data_witness:
  "\<exists>k' own. UpdateChildConfigMap ex_op ex_rival_config ex_two = (Inr (), k') \<and>
     find_object cm_key (child_cm_key ex_child) (cms k') = Some own \<and> maps_Equal (cm_data own) (cm_data ex_rival)"
proof -
  obtain k' where k': "UpdateChildConfigMap ex_op ex_rival_config ex_two = (Inr (), k')" using rival_takes_child(3) by (metis prod.collapse)
  have g: "fst (GetChildClusters ex_op ex_rival_config ex_two) = Inr [ex_child]" "wf_map (cm_data (rc_configMap ex_rival_config))" by code_simp+
  have c: "GetChildClusters ex_op ex_rival_config ex_two = (Inr [ex_child], snd (GetChildClusters ex_op ex_rival_config ex_two))"
    using g(1) by (metis prod.collapse)
  obtain own where own: "find_object cm_key (child_cm_key ex_child) (cms k') = Some own" using rival_takes_child(4) k' by auto
  have "maps_Equal (cm_data own) (cm_data (rc_configMap ex_rival_config))"
    by (rule children_get_regional_data [OF k' c g(2) _ own]) simp
  then show ?thesis using k' own by (auto simp: ex_rival_config_def)
qed

end
