(* ===== verification/Promxy_Run.thy ===== *)
theory Promxy_Run
  imports Cluster_Run Promxy
begin

text \<open>
  Properties of the controller of promxy server groups: the Secret of each name holds the
  configuration of exactly the groups with that name, and promxy is told to reload.
\<close>

section \<open>Grouping\<close>

definition of_secret :: "string \<Rightarrow> promxy_server_group \<Rightarrow> bool" where
  "of_secret name g \<longleftrightarrow> map_of (psg_labels g) SecretNameLabel = Some name"

lemma groups_by_secret_spec:
  "map_of (groups_by_secret gs m) name =
     (if filter (of_secret name) gs = [] then map_of m name
      else Some ((case map_of m name of None \<Rightarrow> [] | Some l \<Rightarrow> l) @ filter (of_secret name) gs))"
proof (induction gs arbitrary: m)
  case (Cons g gs)
  have "of_secret name g \<longleftrightarrow> map_of (psg_labels g) SecretNameLabel = Some name" by (simp add: of_secret_def)
  then show ?case using Cons by (cases "map_of (psg_labels g) SecretNameLabel") auto
qed simp

lemma groups_by_secret_wf: "wf_map m \<Longrightarrow> wf_map (groups_by_secret gs m)"
  by (induction gs arbitrary: m) (auto split: option.split)

section \<open>Frames\<close>

lemma reload_pods_frame: "reload_pods pe ps n errs k = (r, k') \<Longrightarrow> \<exists>us. k' = k\<lparr>posted := us\<rparr>"
proof (induction ps arbitrary: n errs k)
  case Nil
  then have "k' = k\<lparr>posted := posted k\<rparr>" by simp
  then show ?case by blast
next
  case (Cons p ps)
  obtain r1 k1 where post: "PostPodHTTP pe p ''promxy'' ''http'' ''/-/reload'' k = (r1, k1)" by fastforce
  have "\<exists>us. k = k\<lparr>posted := us\<rparr>" by (rule exI [of _ "posted k"]) simp
  then obtain us where k1: "k1 = k\<lparr>posted := us\<rparr>"
    using post by (auto simp: PostPodHTTP_def Let_def split: if_splits sum.splits)
  show ?case
  proof (cases "pod_phase p = ''Running''")
    case True
    then obtain n' errs' where "reload_pods pe ps n' errs' k1 = (r, k')" using Cons.prems post by (auto split: sum.splits)
    then show ?thesis using Cons.IH k1 by fastforce
  qed (use Cons in simp)
qed

lemma reload_frame:
  assumes "PromxyConfigReload e pe k = (r, k')"
  shows "\<exists>fs us. k' = k\<lparr>api_faults := fs, posted := us\<rparr>"
proof -
  have stay: "\<exists>fs us. k\<lparr>api_faults := f\<rparr> = k\<lparr>api_faults := fs, posted := us\<rparr>" for f
    by (rule exI [of _ f], rule exI [of _ "posted k"]) simp
  have same: "\<exists>fs us. k = k\<lparr>api_faults := fs, posted := us\<rparr>" using stay [of "api_faults k"] by simp
  consider "k' = k" | sel ns where "and_then (api_ctx ''listing promxy pods'' (GetPods ns sel k)) (\<lambda>ps k.
        if ps = [] then (Inl (OpText ''no promxy pods found''), k)
        else (case reload_pods pe ps 0 [] k of ((reloaded, errs), k) \<Rightarrow>
            (if reloaded = 0 then (if errs \<noteq> [] then Inl (OpContext ''failed to reload promxy config on all pods'' (OpJoin errs))
                else Inl (OpText ''no running promxy pods to reload''))
             else if errs \<noteq> [] then Inl (OpJoin errs) else Inr (), k))) = (r, k')"
    using assms by (auto simp: PromxyConfigReload_def ReloadPromxyConfig_def split: sum.splits)
  then show ?thesis
  proof cases
    case 2
    obtain r1 k1 where l: "GetPods ns sel k = (r1, k1)" by fastforce
    obtain f where k1: "k1 = k\<lparr>api_faults := f\<rparr>" using reads_state [OF reads_list l [unfolded GetPods_def]] by blast
    show ?thesis
    proof (cases "\<exists>ps. r1 = Inr ps \<and> ps \<noteq> []")
      case True
      then obtain ps x where "reload_pods pe ps 0 [] k1 = (x, k')" using 2 l by (auto simp: api_ctx_def and_then_def in_context_def split: prod.splits)
      then show ?thesis using reload_pods_frame k1 by fastforce
    next
      case False
      then have "k' = k1" using 2 l by (auto simp: api_ctx_def and_then_def in_context_def split: sum.splits)
      then show ?thesis using k1 stay by simp
    qed
  qed (use same in simp)
qed

section \<open>Rendering\<close>

definition credentials_of :: "string \<Rightarrow> secret list \<Rightarrow> promxy_server_group \<Rightarrow> string gomap" where
  "credentials_of ns ss g =
     (if CredentialsSecretName (BasicAuth (psg_http g)) = [] then []
      else (case find_object sec_key (ns, CredentialsSecretName (BasicAuth (psg_http g))) ss of None \<Rightarrow> [] | Some s \<Rightarrow> sec_data s))"

definition expected_config :: "string \<Rightarrow> string \<Rightarrow> secret list \<Rightarrow> promxy_server_group list \<Rightarrow> string" where
  "expected_config url ns ss gs =
     RenderMetricsSecretTemplate \<lparr>RemoteWriteUrl = url, ServerGroups =
       map (\<lambda>g. config_group g (CredentialsSecretName (BasicAuth (psg_http g)) \<noteq> []) (credentials_of ns ss g)) gs\<rparr>"

lemma config_groups_ok:
  "config_groups ns gs k = (Inr cs, k') \<Longrightarrow>
     cs = map (\<lambda>g. config_group g (CredentialsSecretName (BasicAuth (psg_http g)) \<noteq> []) (credentials_of ns (secrets k) g)) gs \<and>
     (\<exists>fs. k' = k\<lparr>api_faults := fs\<rparr>)"
proof (induction gs arbitrary: k cs)
  case Nil
  have "\<exists>fs. k = k\<lparr>api_faults := fs\<rparr>" by (rule exI [of _ "api_faults k"]) simp
  then show ?case using Nil by simp
next
  case (Cons g gs)
  let ?n = "CredentialsSecretName (BasicAuth (psg_http g))"
  obtain cr k1 cs' where cr: "(if ?n \<noteq> [] then and_then (in_context OpApi (GetSecret ?n ns k)) (\<lambda>s k. (Inr (sec_data s), k)) else (Inr [], k)) = (Inr cr, k1)"
      and rest: "config_groups ns gs k1 = (Inr cs', k')" and cs: "cs = config_group g (?n \<noteq> []) cr # cs'"
    using Cons.prems by (auto simp: Let_def and_then_Inr)
  have stay: "\<exists>fs. k = k\<lparr>api_faults := fs\<rparr>" by (rule exI [of _ "api_faults k"]) simp
  have "cr = credentials_of ns (secrets k) g \<and> (\<exists>fs. k1 = k\<lparr>api_faults := fs\<rparr>)"
    using cr stay by (auto simp: credentials_of_def GetSecret_def and_then_Inr in_context_Inr split: if_splits dest!: api_get_ok)
  then show ?case using Cons.IH [OF rest] cs by auto
qed

lemma write_promxy_secret_ok:
  assumes "write_promxy_secret ns name text k = (Inr (), k')"
  shows "\<exists>fs ss s. k' = k\<lparr>api_faults := fs, secrets := ss\<rparr> \<and> get_str (sec_data s) ''config.yaml'' = text \<and>
    (\<forall>x. find_object sec_key x ss = (if x = (ns, name) then Some s else find_object sec_key x (secrets k)))"
proof -
  obtain r k1 where g: "GetSecret name ns k = (r, k1)" by fastforce
  obtain fs1 where k1: "k1 = k\<lparr>api_faults := fs1\<rparr>" and found: "case r of Inr s \<Rightarrow> find_object sec_key (ns, name) (secrets k) = Some s
      | Inl NotFound \<Rightarrow> find_object sec_key (ns, name) (secrets k) = None | Inl _ \<Rightarrow> True"
    using sec_kind.get_spec [OF g [unfolded GetSecret_def]] by blast
  have cfg: "get_str (sec_data (set_config text s)) ''config.yaml'' = text" for s by (simp add: set_config_def get_str_def)
  show ?thesis
  proof (cases r)
    case (Inl err)
    then have "api_create sec_key secrets set_secrets (set_config text (new_secret ns name)) k1 = (Inr (), k')"
      using assms g by (auto simp: write_promxy_secret_def in_context_Inr split: api_error.splits)
    from sec_kind.create_spec [OF this] obtain fs ss where "k' = k\<lparr>api_faults := fs, secrets := ss\<rparr>"
        "\<forall>x. find_object sec_key x ss = (if x = (ns, name) then Some (set_config text (new_secret ns name)) else find_object sec_key x (secrets k))"
      using k1 by (auto simp: set_secrets_def set_config_def setSecretOperatorLabels_def sec_key_def new_secret_def simp del: split_paired_All)
    then show ?thesis using cfg by blast
  next
    case (Inr s)
    have key: "sec_key (set_config text s) = (ns, name)"
      using found Inr by (auto simp: set_config_def setSecretOperatorLabels_def sec_key_def dest!: find_object_SomeD)
    have "api_update sec_key sec_version sec_bump secrets set_secrets (set_config text s) k1 = (Inr (), k')"
      using assms g Inr by (simp add: write_promxy_secret_def in_context_Inr)
    from sec_kind.update_spec [OF this] obtain fs ss where "k' = k\<lparr>api_faults := fs, secrets := ss\<rparr>"
        "\<forall>x. find_object sec_key x ss = (if x = (ns, name) then Some (sec_bump (set_config text s)) else find_object sec_key x (secrets k))"
      using k1 unfolding key by (auto simp: set_secrets_def simp del: split_paired_All)
    moreover have "get_str (sec_data (sec_bump (set_config text s))) ''config.yaml'' = text" using cfg by simp
    ultimately show ?thesis by blast
  qed
qed

lemma expected_config_other:
  assumes "\<And>g. g \<in> set gs \<Longrightarrow> find_object sec_key (ns, CredentialsSecretName (BasicAuth (psg_http g))) ss' =
      find_object sec_key (ns, CredentialsSecretName (BasicAuth (psg_http g))) ss"
  shows "expected_config url ns ss' gs = expected_config url ns ss gs"
proof -
  have "map (\<lambda>g. config_group g (CredentialsSecretName (BasicAuth (psg_http g)) \<noteq> []) (credentials_of ns ss' g)) gs =
      map (\<lambda>g. config_group g (CredentialsSecretName (BasicAuth (psg_http g)) \<noteq> []) (credentials_of ns ss g)) gs"
    by (rule map_cong [OF refl]) (simp add: credentials_of_def assms)
  then show ?thesis by (simp only: expected_config_def)
qed

text \<open>The loop over the names: every Secret holds what is expected of the credentials at the start.\<close>

lemma write_configs_ok:
  assumes "write_configs (PromxyConfigReload e pe) url ns l k = (Inr (), k')" "wf_map l"
    and "\<And>name gs g. (name, gs) \<in> set l \<Longrightarrow> g \<in> set gs \<Longrightarrow> CredentialsSecretName (BasicAuth (psg_http g)) \<notin> fst ` set l"
  shows "(\<forall>x. x \<notin> (\<lambda>p. (ns, fst p)) ` set l \<longrightarrow> find_object sec_key x (secrets k') = find_object sec_key x (secrets k)) \<and>
    (\<forall>(name, gs) \<in> set l. \<exists>s. find_object sec_key (ns, name) (secrets k') = Some s \<and>
       get_str (sec_data s) ''config.yaml'' = expected_config url ns (secrets k) gs)"
  using assms
proof (induction l arbitrary: k)
  case (Cons p l)
  obtain name gs where p: "p = (name, gs)" by fastforce
  obtain cs k1 k2 k3 where c: "config_groups ns gs k = (Inr cs, k1)"
      "write_promxy_secret ns name (RenderMetricsSecretTemplate \<lparr>RemoteWriteUrl = url, ServerGroups = cs\<rparr>) k1 = (Inr (), k2)"
      "PromxyConfigReload e pe k2 = (Inr (), k3)" "write_configs (PromxyConfigReload e pe) url ns l k3 = (Inr (), k')"
    using Cons.prems(1) p by (auto simp: and_then_Inr)
  have cs: "RenderMetricsSecretTemplate \<lparr>RemoteWriteUrl = url, ServerGroups = cs\<rparr> = expected_config url ns (secrets k) gs"
      and k1: "secrets k1 = secrets k"
    using config_groups_ok [OF c(1)] by (auto simp: expected_config_def)
  obtain s where w: "get_str (sec_data s) ''config.yaml'' = expected_config url ns (secrets k) gs"
      "\<And>x. find_object sec_key x (secrets k2) = (if x = (ns, name) then Some s else find_object sec_key x (secrets k))"
    using write_promxy_secret_ok [OF c(2)] cs k1 by (auto simp del: split_paired_All)
  have k3: "secrets k3 = secrets k2" using reload_frame [OF c(3)] by auto
  have fresh: "name \<notin> fst ` set l" "wf_map l" using Cons.prems(2) p by auto
  have sep: "CredentialsSecretName (BasicAuth (psg_http g)) \<notin> fst ` set (p # l)" if "(n, gs') \<in> set (p # l)" "g \<in> set gs'" for n gs' g
    using Cons.prems(3) that by blast
  have same: "expected_config url ns (secrets k3) gs' = expected_config url ns (secrets k) gs'" if "(n, gs') \<in> set l" for n gs'
    by (rule expected_config_other) (use sep [of n gs'] that w(2) k3 p in auto)
  have ih: "(\<forall>x. x \<notin> (\<lambda>p. (ns, fst p)) ` set l \<longrightarrow> find_object sec_key x (secrets k') = find_object sec_key x (secrets k3)) \<and>
    (\<forall>(n, gs') \<in> set l. \<exists>s. find_object sec_key (ns, n) (secrets k') = Some s \<and>
       get_str (sec_data s) ''config.yaml'' = expected_config url ns (secrets k3) gs')"
    by (rule Cons.IH [OF c(4) fresh(2)]) (use Cons.prems(3) in fastforce)
  have "(ns, name) \<notin> (\<lambda>p. (ns, fst p)) ` set l" using fresh(1) by auto
  then have "find_object sec_key (ns, name) (secrets k') = Some s" using ih w(2) k3 by (simp del: split_paired_All)
  then show ?case using ih same w k3 p by (fastforce simp del: split_paired_All)
qed simp

section \<open>Properties\<close>

text \<open>
  C31: After a successful run of the controller of server groups, every Secret that a group names holds
  the configuration rendered from exactly the groups that name it, in the order of the API, each with
  the credentials in its own Secret; no other Secret changes. (Go ranges over the names in any order,
  and the Secrets of credentials are not Secrets of configurations.)
\<close>

theorem promxy_config_rendered:
  assumes "PromxyServerGroup_Reconcile e pe (PromxyConfigReload e pe) url k = (Inr (), k')" "GetReleaseNamespace (op_environ e) = Inr ns"
    and "\<And>m. same_map (range_order pe m) m \<or> \<not> wf_map m"
    and "\<And>g h name. g \<in> set (groups k) \<Longrightarrow> h \<in> set (groups k) \<Longrightarrow> \<not> of_secret (CredentialsSecretName (BasicAuth (psg_http g))) h"
  shows "(\<forall>name. filter (of_secret name) (groups k) \<noteq> [] \<longrightarrow>
      (\<exists>s. find_object sec_key (ns, name) (secrets k') = Some s \<and>
         get_str (sec_data s) ''config.yaml'' = expected_config url ns (secrets k) (filter (of_secret name) (groups k)))) \<and>
    (\<forall>x. (\<forall>g \<in> set (groups k). \<forall>name. of_secret name g \<longrightarrow> x \<noteq> (ns, name)) \<longrightarrow>
       find_object sec_key x (secrets k') = find_object sec_key x (secrets k))"
proof -
  let ?m = "groups_by_secret (groups k) []"
  let ?l = "range_order pe ?m"
  have wf: "wf_map ?m" by (rule groups_by_secret_wf) simp
  then have l: "same_map ?l ?m" using assms(3) by blast
  have mem: "(name, gs) \<in> set ?l \<longleftrightarrow> gs = filter (of_secret name) (groups k) \<and> gs \<noteq> []" for name gs
    using wf_map_mem [OF wf] same_map_set [OF l] groups_by_secret_spec [of "groups k" "[]" name] by auto
  obtain k1 fs where k1: "write_configs (PromxyConfigReload e pe) url ns ?l k1 = (Inr (), k')" "k1 = k\<lparr>api_faults := fs\<rparr>"
    using assms(1,2) by (auto simp: PromxyServerGroup_Reconcile_def and_then_Inr in_context_Inr dest!: api_list_ok)
  have sep: "CredentialsSecretName (BasicAuth (psg_http g)) \<notin> fst ` set ?l" if "(name, gs) \<in> set ?l" "g \<in> set gs" for name gs g
    using that assms(4) by (auto simp: mem filter_empty_conv)
  have w: "(\<forall>x. x \<notin> (\<lambda>p. (ns, fst p)) ` set ?l \<longrightarrow> find_object sec_key x (secrets k') = find_object sec_key x (secrets k1)) \<and>
    (\<forall>(name, gs) \<in> set ?l. \<exists>s. find_object sec_key (ns, name) (secrets k') = Some s \<and>
       get_str (sec_data s) ''config.yaml'' = expected_config url ns (secrets k1) gs)"
    by (rule write_configs_ok [OF k1(1)]) (use l sep in \<open>auto simp: same_map_def\<close>)
  have "x \<notin> (\<lambda>p. (ns, fst p)) ` set ?l" if "\<forall>g \<in> set (groups k). \<forall>name. of_secret name g \<longrightarrow> x \<noteq> (ns, name)" for x
  proof
    assume "x \<in> (\<lambda>p. (ns, fst p)) ` set ?l"
    then obtain name gs where p: "(name, gs) \<in> set ?l" "x = (ns, name)" by auto
    then obtain g where "g \<in> set (groups k)" "of_secret name g" by (auto simp: mem filter_empty_conv)
    then show False using that p(2) by blast
  qed
  moreover have "\<exists>s. find_object sec_key (ns, name) (secrets k') = Some s \<and>
      get_str (sec_data s) ''config.yaml'' = expected_config url ns (secrets k) (filter (of_secret name) (groups k))"
    if "filter (of_secret name) (groups k) \<noteq> []" for name
  proof -
    have "(name, filter (of_secret name) (groups k)) \<in> set ?l" using that by (simp add: mem)
    from bspec [OF conjunct2 [OF w] this] show ?thesis using k1(2) by simp
  qed
  moreover have "secrets k1 = secrets k" using k1(2) by simp
  ultimately show ?thesis using conjunct1 [OF w] by (simp del: split_paired_All)
qed

text \<open>
  The controller looks only at the names that groups have now: when the last group of a name is gone,
  its Secret stays as it is.
\<close>

lemma stale_config_stays:
  "groups k = [] \<Longrightarrow> api_faults k = [] \<Longrightarrow> GetReleaseNamespace (op_environ e) = Inr ns \<Longrightarrow> range_order pe [] = [] \<Longrightarrow>
     PromxyServerGroup_Reconcile e pe reload url k = (Inr (), k)"
  by (simp add: PromxyServerGroup_Reconcile_def api_list_def and_then_def in_context_def)

section \<open>Examples\<close>

definition ex_group :: "string \<Rightarrow> promxy_server_group" where
  "ex_group name = \<lparr>psg_namespace = ''kcm'', psg_name = name, psg_labels = [(SecretNameLabel, ''cfg'')], psg_owners = [], psg_cluster = name,
     psg_scheme = ''https'', psg_path = ''/p'', psg_targets = [''t:443''],
     psg_http = \<lparr>DialTimeout = 0, InsecureSkipVerify = False,
       BasicAuth = \<lparr>CredentialsSecretName = ''creds'', BasicUsernameKey = ''username'', BasicPasswordKey = ''password''\<rparr>\<rparr>, psg_version = 0\<rparr>"

definition ex_promxy_state :: op_api where
  "ex_promxy_state = ex_state\<lparr>groups := [ex_group ''r1'', ex_group ''r2''],
     secrets := [(new_secret ''kof'' ''creds'')\<lparr>sec_data := [(''username'', ''u''), (''password'', ''p'')]\<rparr>],
     pods := [\<lparr>pod_namespace = ''kof'', pod_name = ''promxy-0'', pod_labels = [], pod_annotations = [], pod_node = ''n1'',
       pod_phase = ''Running'', PodIP = ''10.0.0.1'', pod_conditions = [],
       Containers = [\<lparr>ctr_name = ''promxy'', ctr_ports = [\<lparr>port_name = ''http'', ContainerPort = 80\<rparr>], ctr_env = [], ctr_limits = []\<rparr>]\<rparr>]\<rparr>"

definition ex_promxy_env :: promxy_env where
  "ex_promxy_env = \<lparr>parse_selector = (\<lambda>_. Inr (\<lambda>_. True)), http_post = (\<lambda>_. Inr 200), range_order = (\<lambda>m. m)\<rparr>"

definition ex_promxy_op :: operator_env where
  "ex_promxy_op = ex_op\<lparr>op_environ := [(''RELEASE_NAMESPACE'', ''kof''), (''PROMXY_POD_LABEL_SELECTOR'', ''app=promxy'')]\<rparr>"

lemma ex_promxy_run:
  "fst (PromxyServerGroup_Reconcile ex_promxy_op ex_promxy_env (PromxyConfigReload ex_promxy_op ex_promxy_env) ''u'' ex_promxy_state) = Inr ()"
  "length (posted (snd (PromxyServerGroup_Reconcile ex_promxy_op ex_promxy_env (PromxyConfigReload ex_promxy_op ex_promxy_env) ''u'' ex_promxy_state))) = 1"
  "GetReleaseNamespace (op_environ ex_promxy_op) = Inr ''kof''"
  "filter (of_secret ''cfg'') (groups ex_promxy_state) = [ex_group ''r1'', ex_group ''r2'']"
  by code_simp+

theorem promxy_config_rendered_witness:
  "\<exists>k' s. PromxyServerGroup_Reconcile ex_promxy_op ex_promxy_env (PromxyConfigReload ex_promxy_op ex_promxy_env) ''u'' ex_promxy_state = (Inr (), k') \<and>
     find_object sec_key (''kof'', ''cfg'') (secrets k') = Some s \<and>
     get_str (sec_data s) ''config.yaml'' = expected_config ''u'' ''kof'' (secrets ex_promxy_state) [ex_group ''r1'', ex_group ''r2'']"
proof -
  obtain k' where k': "PromxyServerGroup_Reconcile ex_promxy_op ex_promxy_env (PromxyConfigReload ex_promxy_op ex_promxy_env) ''u'' ex_promxy_state = (Inr (), k')"
    using ex_promxy_run(1) by (metis prod.collapse)
  have "same_map (range_order ex_promxy_env m) m \<or> \<not> wf_map m" for m by (auto simp: ex_promxy_env_def same_map_refl)
  moreover have "\<not> of_secret (CredentialsSecretName (BasicAuth (psg_http g))) h"
    if "g \<in> set (groups ex_promxy_state)" "h \<in> set (groups ex_promxy_state)" for g h
    using that by (auto simp: ex_promxy_state_def ex_group_def of_secret_def)
  ultimately show ?thesis
    using promxy_config_rendered [OF k' ex_promxy_run(3)] ex_promxy_run(4) k' by (metis list.distinct(1))
qed

end
