(* ===== verification/Spec2Isabelle.thy ===== *)
theory Spec2Isabelle
  imports Operator_Process Web Acl_Server Audit_Run Cold_Run Alerts_Run Storage_Run VMUser_Run
    Cluster_Run Regional_Run Promxy_Run
begin

text \<open>
  Verification of services of k0rdent/kof (\<open>src/kof-operator\<close>).

  \<^bold>\<open>The program.\<close> The repository holds a Kubernetes operator and four small services beside it. The
  development models the services, and of the operator the controllers and the web server. The services are the ACL proxy
  (\<open>cmd/acl\<close>) that lets tenants query metrics, logs and traces of their own only; the file watcher (\<open>internal/filewatcher\<close>) that detects drift of
  files against a baseline in a Secret; the audit-log exporter (\<open>internal/audit\<close>) that seals hourly
  windows of audit events in a bucket; and the cold-storage exporter (\<open>internal/coldstorage\<close>) that
  archives telemetry as Parquet files. The two exporters share an S3 client (\<open>internal/s3\<close>), a
  VictoriaLogs client (\<open>internal/vlogs\<close>) and the environment getters (\<open>internal/env\<close>). The controllers
  (\<open>internal/controller\<close>) give clusters their roles, publish the configuration of regional clusters and
  copy it to their child clusters, manage the credentials of clusters, merge alert and record rules,
  connect storage nodes to clusters, and configure promxy. The web server (\<open>internal/server/handlers\<close>,
  routes in \<open>cmd/main.go\<close>) shows the state of all clusters: it finds the remote clusters, asks their pods
  for metrics and Prometheus targets and their istiods for the mesh, in parallel goroutines, and serves
  the web application.

  \<^bold>\<open>Theories, in the order of imports.\<close>
  \<^item> \<open>Kof_Prelude\<close>: Go maps as association lists in iteration order, strings (\<open>strings.Split\<close>,
    \<open>TrimSpace\<close>, prefixes), decimal and hexadecimal numbers.
  \<^item> \<open>Go_Time\<close>: instants, the calendar, the layouts of \<open>time.Format\<close> in use, 64-bit durations, the
    hours of a range.
  \<^item> \<open>Go_Url\<close>, \<open>Go_Json\<close>: \<open>net/url\<close> values and their encoding; JSON strings and flat objects with
    their round trip.
  \<^item> \<open>File_Watcher\<close>, \<open>Watcher_Process\<close>: the package \<open>internal/filewatcher\<close>; its command line, with Go's \<open>flag\<close>,
    and \<open>cmd/file-watcher\<close>.
  \<^item> \<open>Server\<close>: \<open>internal/server\<close> (responses, router, middlewares, token helpers).
  \<^item> \<open>Acl\<close>, \<open>Acl_Server\<close>: the handlers of \<open>internal/acl/handlers\<close>, and the server with the routes of
    \<open>cmd/acl/main.go\<close>.
  \<^item> \<open>Env\<close>: \<open>internal/env\<close> with \<open>strconv.ParseBool\<close>, \<open>strconv.Atoi\<close>, \<open>time.ParseDuration\<close>.
  \<^item> \<open>S3_Store\<close>, \<open>VLogs\<close>: the shared clients. The bucket is a map with a plan of faults: every call may
    work, fail, or take effect and lose its answer. All statements hold for every plan unless they say
    \<open>faultless\<close>.
  \<^item> \<open>Window_Export\<close>: the loop both exporters run, the contract \<open>window_store\<close> of the export of one
    window, and the abstract operation \<open>spec_run\<close> on sets of exported windows.
  \<^item> \<open>Audit_Config\<close>, \<open>Audit_Event\<close>, \<open>Audit_Export\<close>, \<open>Audit_Run\<close>: the audit exporter: configuration,
    events and canonical JSON, export of windows and runs, guarantees of runs.
  \<^item> \<open>Cold_Data\<close>, \<open>Cold_Export\<close>, \<open>Cold_Run\<close>: the cold-storage exporter: rows, parsers, scanners and
    Parquet writers; clients, windows and runs; guarantees of runs.
  \<^item> \<open>Kube_Api\<close>: the Kubernetes API over lists of objects with keys and resource versions; calls may fail.
  \<^item> \<open>Alerts\<close>, \<open>Alerts_Run\<close>: \<open>alerts_configmap_controller.go\<close>.
  \<^item> \<open>Storage_Connection\<close>, \<open>Storage_Run\<close>: \<open>vmstorageconnection_controller.go\<close>.
  \<^item> \<open>VMUser\<close>, \<open>VMUser_Run\<close>: \<open>vmuser/victoriametrics_user.go\<close> and \<open>internal/crypto\<close>.
  \<^item> \<open>Names\<close>: \<open>internal/names\<close> (FNV-1a and Adler-32 names).
  \<^item> \<open>Cluster_Config\<close>, \<open>Cluster_Read\<close>: configuration data, clouds, locations and endpoints
    (\<open>configmap_cluster_data.go\<close>, \<open>clusterdeployment_kof_cluster_role.go\<close>), the state \<open>op_api\<close> that the
    cluster controllers share, and the readers of \<open>internal/k8s\<close>.
  \<^item> \<open>Cluster_Roles\<close>, \<open>Cluster_Run\<close>: \<open>clusterdeployment_controller.go\<close> with the regional and the child
    role, discovery of regional clusters, and the regionless bootstrap.
  \<^item> \<open>Regional_Config\<close>, \<open>Regional_Run\<close>: \<open>configmap_cluster_regional.go\<close> and
    \<open>regional_cluster_configmap_controller.go\<close>; its composition with credentials, rules and promxy.
  \<^item> \<open>Promxy\<close>, \<open>Promxy_Run\<close>: \<open>promxyservergroup_controller.go\<close>, the template of its Secret, and reloading.
  \<^item> \<open>Metrics\<close>, \<open>Metrics_Run\<close>: \<open>internal/metrics\<close> (what a pod sends, the tree it is put into), the metrics
    handlers with their goroutines, whose messages arrive in any \<open>interleaving\<close>.
  \<^item> \<open>Remote_Clusters\<close>: clients of remote clusters (\<open>internal/k8s/client.go\<close>) and their discovery in
    \<open>metrics_handler.go\<close> as the step relation \<open>disc_step\<close> over the main loop and its goroutines.
  \<^item> \<open>Mesh\<close>: the Istio handlers (graph, endpoints, remote secrets).
  \<^item> \<open>Web\<close>: Prometheus targets (\<open>internal/models/target\<close>), lists of objects, static files, all handlers
    and the routes of the operator, on the router of \<open>Server\<close>.
  \<^item> \<open>Operator_Process\<close>: flags and start-up of \<open>cmd/main.go\<close>.
  \<^item> This theory: the two exporter processes from environment variables to exit status.

  \<^bold>\<open>How state and operations correspond.\<close> A Go struct is a record, an error result a sum or an option
  with one constructor for each wrapped error, a method one definition of the same name (a prefix
  \<open>cold_\<close> or \<open>x_\<close> keeps names of the two exporters apart). Operations on the bucket pass \<open>s3_state\<close>;
  HTTP requests go through a function from URLs to answers; loops are recursive functions over the
  list or the hour they advance. Loops over Go maps are folds over the association list, so a
  statement about all lists with the same lookups is a statement about every iteration order.

  \<^bold>\<open>Interfaces.\<close> Locales state them: \<open>object_store\<close> (interpreted on the S3 client, for small objects
  and streams), \<open>window_store\<close> (interpreted on \<open>exportWindow\<close> of both exporters), \<open>row_writer\<close>
  (interpreted on the three Parquet writers), \<open>object_kind\<close> (a kind of Kubernetes objects; interpreted
  on ConfigMaps, connections, clusters), its extension \<open>object_store_kind\<close> (a kind with its place in the
  state; interpreted on Secrets, VMUsers, MultiClusterServices, ConfigMaps, cluster deployments, server
  groups and storage connections), and those of the earlier theories.

  \<^bold>\<open>What is shown.\<close> ACL: in production no backend sees a request without a token, and what a backend
  receives for a tenant is restricted to the tenant, with three exceptions that are stated: \<open>match[]\<close>
  beside a \<open>query\<close>, the URL of a metrics query sent with POST, and the body of a log query sent with
  POST pass as the client wrote them. Answers are filtered exactly; panics are answered.
  Watcher: baseline and flags round trip, verdicts of the comparison, debouncing, drift found over
  restarts of the process for the files that are still found and the watched paths that are gone.
  Audit: windows stay sealed under all faults and are chained when the store does not fail, are never
  rewritten, runs are idempotent, refine the abstract specification and, outside compliance mode,
  complete without faults; canonical bytes do not depend on map order. Cold storage: scanning in
  batches loses no record, fields are kept, a marker stands for a complete file with the source's
  answer for that window, runs refine the same abstract specification, all for names without a slash.
  Controllers: merging rules composes one
  layer for each ConfigMap, reconciling touches generated outputs only and is idempotent; clusters get
  exactly the active connections that reference them, as long as labels and references agree, aligned
  over all arguments, and finalizers guard them; passwords are never replaced, a created user can log
  in where it is propagated to, and creating is idempotent. Clusters: a regional cluster is
  published with its own data and no other; discovery keeps a child with its regional cluster; a
  reconciled child is attached: it has the data of its regional cluster and credentials confined to
  its tenant that are copied there, and a new child is attached when no call fails; reconciling comes
  to rest; after a regional reconciliation promxy finds the endpoint and the password, the
  rules controller its ConfigMap and the storage clusters their connections; the configuration of
  promxy is rendered from exactly the groups that name its Secret. An operator that has started
  without regional clusters serves the children that name none, from its own ConfigMap unless another
  claims its role. Web server: discovery ends under every schedule, finds the clusters whose kubeconfig
  the management cluster has and the children of their regions, and a client is always made from the
  kubeconfig of a deployment of its name; the pods found there are shown, a scraped metric
  with exactly its values whatever the order of messages, a node's limit without wrap-around; the mesh
  graph, the connectivity of a cluster and the targets are exact or complete; every API path reaches its
  handler, and static files stay in their directory. Clusters and pods are shown by their names: these
  statements assume that a name is not used twice. Lemmas on shared names
  (\<open>rival_takes_child\<close>, \<open>child_users_shared\<close>, \<open>same_name_pods_merged\<close> and others) state where the code falls short.

  \<^bold>\<open>Bounds.\<close> Durations and counters read from the environment are 64-bit values; the product
  \<open>CatchUpHours * time.Hour\<close> wraps in the model, and the properties of runs assume the range of 292
  years in which it does not (\<open>sane_config\<close>, \<open>cold_sane\<close>). No definition needs fuel: every recursion
  has a termination proof.

  \<^bold>\<open>Parameters.\<close> Code outside the repository is an argument: HTTP exchanges, token verification, PromQL
  enforcement, \<open>gzip\<close>, SHA-256, HMAC, base64, \<open>time.Parse\<close>, \<open>strconv.Quote\<close>, JSON decoding into structs,
  Parquet encoding, the AWS configuration loader, the file system and the Kubernetes API; for the cluster
  controllers \<open>url.Parse\<close>, YAML, kubeconfigs, label selectors and the random source; for the web server
  clients made from kubeconfigs, the metrics server and the proxy to pods, the Prometheus text parser,
  istiod's debug interface, \<open>http.ServeContent\<close> and the embedded files.

  \<^bold>\<open>Not modelled.\<close> the options of the manager in \<open>cmd/main.go\<close> (leader election, TLS,
  metrics) and its shutdown; how \<open>internal/k8s/client.go\<close>
  configures a client (rate limits, schemes, instrumentation); the deadlines of requests, which show
  as failed calls; events, spans and logging (\<open>controller/record\<close>, \<open>internal/telemetry\<close>); the API types
  with generated copies (\<open>api\<close>, \<open>internal/otelv1beta1\<close>); the web application, the
  charts and the documentation.
\<close>

section \<open>The exporter processes\<close>

text \<open>
  C8: the audit exporter as a process: whatever its sources and the bucket do, every window stays
  sealed, nothing exported is lost and nothing else is exported; with exit status 0 every hour of the
  catch-up range has been exported, for every stream and tenant.
\<close>

theorem audit_process_refines:
  assumes "LoadConfig e = Inr c" "sane_config c" "audit_inv env c (NewSigner env c) s"
    and "audit_main env load e now clock cancelled s = (code, s')"
  shows "audit_inv env c (NewSigner env c) s' \<and>
    spec_run (exported_hours c s) (audit_targets env c now) (code = 0) (exported_hours c s')"
proof (cases "NewExporter env load c")
  case (Inl err)
  then show ?thesis using assms(1,3,4) by (auto simp: audit_main_def spec_run_refl)
next
  case (Inr x)
  then have x: "x_cfg x = c" "x_signer x = NewSigner env c"
    by (auto simp: NewExporter_def split: sum.splits)
  obtain r where r: "Run env c (NewSigner env c) now clock cancelled s = (r, s')" "code = 0 \<longleftrightarrow> r = None"
    using assms(1,4) Inr x by (auto simp: audit_main_def split: prod.splits option.splits)
  have "audit_inv env c (NewSigner env c) s'" using Run_loop [OF r(1) assms(3,2)] by (simp add: loop_step_def)
  moreover have "spec_run (exported_hours c s) (audit_targets env c now) (r = None) (exported_hours c s')"
    by (rule Run_refines [OF assms(3,2) r(1)])
  ultimately show ?thesis using r(2) by simp
qed

text \<open>
  C9: the cold-storage exporter as a process, for windows whose tenant and cluster names have no
  slash. The files behind the markers stay complete, nothing exported is lost, and nothing is
  exported but hours of the catch-up range of tenants and clusters that the sources named; with exit
  status 0 all those hours are exported for every source that answered each question of the
  discovery. For a source with an outage during the discovery nothing is promised: the hours of the
  tenants it named before may be exported or not.
\<close>

theorem cold_process_refines:
  assumes "cold_LoadConfig e = Inr c" "\<bar>CCatchUpHours c\<bar> \<le> 2562046" "cold_inv env c old s"
    and "cold_main env load e now cancelled s = (code, s')"
  shows "cold_inv env c old s' \<and>
    (\<exists>todo. promised env c now \<subseteq> todo \<and> todo \<subseteq> requested env c now \<and>
       spec_run (exported_windows c s) todo (code = 0) (exported_windows c s'))"
proof (cases "cold_NewExporter load c")
  case (Inl err)
  then show ?thesis using assms(1,3,4) by (auto simp: cold_main_def promised_def spec_run_refl)
next
  case (Inr x)
  have sane: "cold_sane c"
    using assms(1,2) by (auto simp: cold_LoadConfig_def cold_sane_def list_all_iff find_None_iff Let_def
        split: if_splits option.splits)
  have x: "xc_cfg x = c" using Inr by (auto simp: cold_NewExporter_def split: sum.splits)
  obtain r where r: "cold_Run env c now cancelled s = (r, s')" "code = 0 \<longleftrightarrow> r = None"
    using assms(1,4) Inr x by (auto simp: cold_main_def split: prod.splits option.splits)
  show ?thesis using cold_Run_refines [OF assms(3) sane r(1)] r(2) by (auto simp: promised_def)
qed

section \<open>Instances\<close>

theorem audit_process_refines_witness:
  "(case LoadConfig demo_environ of
      Inl _ \<Rightarrow> False
    | Inr c \<Rightarrow> audit_inv demo_env c (NewSigner demo_env c)
        (snd (audit_main demo_env (\<lambda>_ _. None) demo_environ (3 * hour) (\<lambda>_. 0) (\<lambda>_. False) empty_bucket)))"
proof -
  obtain c where c: "LoadConfig demo_environ = Inr c" "Streams c = [''tenant-audit-log'']" "CatchUpHours c = 6"
    using demo_environ_loads by (auto split: sum.splits)
  then have "sane_config c" by (simp add: sane_config_def)
  from audit_process_refines [OF c(1) this empty_inv(1) surjective_pairing] c(1) show ?thesis by simp
qed

definition cold_environ :: environ where
  "cold_environ = [(''S3_BUCKET'', ''b''), (''SOURCES'', ''logs''), (''TENANTS'', ''t''), (''CLUSTERS'', ''c''),
     (''CATCHUP_HOURS'', ''1''), (''EXPORT_DELAY'', ''0s'')]"

lemma cold_environ_loads:
  "(case cold_LoadConfig cold_environ of
      Inl _ \<Rightarrow> False
    | Inr c \<Rightarrow> CTenants c = [''t''] \<and> Clusters c = [''c''] \<and> CCatchUpHours c = 1 \<and> Sources c = [SourceLogs] \<and>
        CExportDelay c = 0 \<and> CS3Bucket c = ''b'')"
  by code_simp

text \<open>One hour from an empty bucket: exit status 0, the invariant, and the marker of that hour.\<close>

abbreviation cold_demo :: "nat \<times> s3_state" where
  "cold_demo \<equiv> cold_main demo_cold_env (\<lambda>_ _. None) cold_environ (3 * hour) (\<lambda>_. False) demo_bucket"

theorem cold_process_refines_witness:
  "(case cold_LoadConfig cold_environ of
      Inl _ \<Rightarrow> False
    | Inr c \<Rightarrow> fst cold_demo = 0 \<and> cold_inv demo_cold_env c Map.empty (snd cold_demo) \<and>
        marked c (snd cold_demo) demo_cold_window)"
proof -
  obtain c where c: "cold_LoadConfig cold_environ = Inr c" "CTenants c = [''t'']" "Clusters c = [''c'']" "CCatchUpHours c = 1"
    "Sources c = [SourceLogs]" "CExportDelay c = 0"
    using cold_environ_loads by (auto split: sum.splits)
  have inv: "cold_inv demo_cold_env c Map.empty demo_bucket"
    by (simp add: cold_inv_def cold_sealed_def marked_def demo_bucket_def s3_invar_def object_at_def)
  have range: "cold_hourEnd c (3 * hour) = 3 * hour" "cold_start c (3 * hour) = 2 * hour"
    using c(4,6) by (simp_all add: cold_hourEnd_def cold_start_def truncate_hour_id Let_def int64_def)
  have "fst (cold_Run demo_cold_env c (3 * hour) (\<lambda>_. False) demo_bucket) = None"
    by (rule demo_cold_hour [OF c(5,2,3) range(2)]) (simp add: range(1) demo_cold_range(3))
  then have zero: "fst cold_demo = 0"
    using c(1) by (auto simp: cold_main_def cold_NewExporter_def cold_NewS3Client_def NewClient_def split: prod.split option.split)
  have t: "discoverTenants demo_cold_env c source a b = Inr [''t'']" "discoverClusters demo_cold_env c source tenant a b = Inr [''c'']"
    for source tenant a b using c(2,3) by (simp_all add: discoverTenants_def discoverClusters_def)
  have "demo_cold_window \<in> promised demo_cold_env c (3 * hour)"
    using c(5) by (simp add: promised_def requested_def source_complete_def targets_def source_targets_def tenant_targets_def
        t range demo_cold_range(3) slash_free_def cold_hour_window_def)
  with cold_process_refines [OF c(1) _ inv surjective_pairing, of "\<lambda>_ _. None" "3 * hour" "\<lambda>_. False"] zero c(1,4)
  show ?thesis by (auto simp: spec_run_def exported_windows_def)
qed

end
